(* ===== verification/Hub_Prelude.thy ===== *)
theory Hub_Prelude
  imports Complex_Main
begin

text \<open>
  Shared vocabulary of the development: the JSON values the hub stores in its files, the
  field readers every parser of \<open>src/src/hub*.ts\<close> uses, strings (trimming, Git object ids,
  sanitised path tokens, decimal numerals), the files themselves, and two interfaces:
  \<open>json_codec\<close> (a record that can be written and read back) and \<open>step_invariant\<close> (an
  invariant of a step relation).
\<close>

named_theorems json_simps \<open>reading fields of serialised records\<close>

named_theorems frame_simps \<open>what an operation leaves unchanged\<close>

type_synonym oid = string

type_synonym task_id = string

type_synonym txn_id = string

type_synonym iso_time = string


subsection \<open>JSON values and files\<close>

text \<open>
  The value of \<open>JSON.parse\<close>. Numbers are rationals: the sources only test them with
  \<open>Number.isInteger\<close>, \<open>Number.isFinite\<close> and \<open>Math.floor\<close>.
\<close>

datatype json =
    JNull
  | JBool bool
  | JNum rat
  | JStr string
  | JArr "json list"
  | JObj "(string \<times> json) list"

text \<open>
  A JSON file as the readers see it: missing, holding text that \<open>JSON.parse\<close> rejects, or
  holding a value. A JSON-lines file is its list of non-blank lines, \<open>None\<close> standing for a line
  that \<open>JSON.parse\<close> rejects.
\<close>

datatype jfile = NoFile | BadText | Text json

type_synonym jlines = "json option list"

text \<open>\<open>JSON.stringify\<close> drops the fields whose value is \<open>undefined\<close>.\<close>

fun defined_fields :: "(string \<times> json option) list \<Rightarrow> (string \<times> json) list" where
  "defined_fields [] = []"
| "defined_fields ((k, None) # fs) = defined_fields fs"
| "defined_fields ((k, Some v) # fs) = (k, v) # defined_fields fs"

definition jobj :: "(string \<times> json option) list \<Rightarrow> json" where
  "jobj fs = JObj (defined_fields fs)"

text \<open>Property access on a parsed object: \<open>JSON.parse\<close> keeps the last of duplicate keys.\<close>

definition jget :: "(string \<times> json) list \<Rightarrow> string \<Rightarrow> json option" where
  "jget kvs k = map_of (rev kvs) k"

text \<open>The \<open>readObject\<close> helper: anything but a plain object reads as the empty object.\<close>

fun readObject :: "json \<Rightarrow> (string \<times> json) list" where
  "readObject (JObj kvs) = kvs"
| "readObject _ = []"

text \<open>The \<open>parseJsonRecord\<close> helper on a parsed value: an object, or \<open>undefined\<close>.\<close>

fun parseJsonRecord :: "json \<Rightarrow> (string \<times> json) list option" where
  "parseJsonRecord (JObj kvs) = Some kvs"
| "parseJsonRecord _ = None"

fun read_json_file :: "(json \<Rightarrow> 'a option) \<Rightarrow> jfile \<Rightarrow> 'a option" where
  "read_json_file dec (Text j) = dec j"
| "read_json_file dec _ = None"

definition read_json_lines :: "(json \<Rightarrow> 'a option) \<Rightarrow> jlines \<Rightarrow> 'a list" where
  "read_json_lines dec ls =
     List.map_filter (\<lambda>l. case l of None \<Rightarrow> None | Some j \<Rightarrow> dec j) ls"

lemma set_defined_fields: "fst ` set (defined_fields fs) \<subseteq> fst ` set fs"
  by (induction fs rule: defined_fields.induct) auto

lemma jget_defined_fields:
  "distinct (map fst fs) \<Longrightarrow>
     jget (defined_fields fs) k = (case map_of fs k of None \<Rightarrow> None | Some v \<Rightarrow> v)"
proof (induction fs rule: defined_fields.induct)
  case 1
  then show ?case by (simp add: jget_def)
next
  case (2 k' fs)
  then have "k' \<notin> fst ` set fs" and IH: "jget (defined_fields fs) k =
      (case map_of fs k of None \<Rightarrow> None | Some v \<Rightarrow> v)"
    by simp_all
  then have "map_of fs k' = None" by (simp add: map_of_eq_None_iff)
  with IH show ?case by auto
next
  case (3 k' v fs)
  then have notin: "k' \<notin> fst ` set fs" and IH: "jget (defined_fields fs) k =
      (case map_of fs k of None \<Rightarrow> None | Some v \<Rightarrow> v)"
    by simp_all
  from notin have "k' \<notin> fst ` set (defined_fields fs)"
    using set_defined_fields by blast
  then have "map_of (rev (defined_fields fs)) k' = None"
    by (simp add: map_of_eq_None_iff)
  moreover from notin have "map_of fs k' = None" by (simp add: map_of_eq_None_iff)
  ultimately show ?case using IH
    by (auto simp: jget_def map_add_def split: option.splits)
qed

lemma readObject_jobj [json_simps]: "readObject (jobj fs) = defined_fields fs"
  by (simp add: jobj_def)

lemma parseJsonRecord_jobj [json_simps]: "parseJsonRecord (jobj fs) = Some (defined_fields fs)"
  by (simp add: jobj_def)

lemma read_json_lines_Nil [simp]: "read_json_lines dec [] = []"
  by (simp add: read_json_lines_def)

lemma read_json_lines_append:
  "read_json_lines dec (ls @ ms) = read_json_lines dec ls @ read_json_lines dec ms"
  by (induction ls) (auto simp: read_json_lines_def split: option.splits)


subsection \<open>Strings\<close>

text \<open>
  White space as \<open>String.prototype.trim\<close> sees it, for the code units a \<open>char\<close> can be:
  tab, line feed, vertical tab, form feed, carriage return, space and the no-break space.
\<close>

definition js_space :: "char \<Rightarrow> bool" where
  "js_space c \<longleftrightarrow> of_char c \<in> {9, 10, 11, 12, 13, 32, 160 :: nat}"

definition js_trim :: "string \<Rightarrow> string" where
  "js_trim s = rev (dropWhile js_space (rev (dropWhile js_space s)))"

text \<open>\<open>value.trim().length > 0\<close>\<close>

definition nonblank :: "string \<Rightarrow> bool" where
  "nonblank s \<longleftrightarrow> (\<exists>c \<in> set s. \<not> js_space c)"

text \<open>A string that \<open>trim\<close> leaves alone and that is not empty.\<close>

definition trimmed :: "string \<Rightarrow> bool" where
  "trimmed s \<longleftrightarrow> s \<noteq> [] \<and> js_trim s = s"

lemma js_trim_eq_Nil: "js_trim s = [] \<longleftrightarrow> \<not> nonblank s"
proof
  assume "js_trim s = []"
  then have all: "\<forall>c \<in> set (dropWhile js_space s). js_space c" by (simp add: js_trim_def)
  have "dropWhile js_space s = []"
  proof (rule ccontr)
    assume ne: "dropWhile js_space s \<noteq> []"
    then have "\<not> js_space (hd (dropWhile js_space s))" by (rule hd_dropWhile)
    with ne all show False by (meson hd_in_set)
  qed
  then show "\<not> nonblank s" by (auto simp: nonblank_def)
next
  assume "\<not> nonblank s"
  then have "\<forall>c \<in> set s. js_space c" by (simp add: nonblank_def)
  then have "dropWhile js_space s = []" by (simp only: dropWhile_eq_Nil_conv)
  then show "js_trim s = []" by (simp only: js_trim_def rev.simps dropWhile.simps)
qed

lemma trimmed_nonblank: "trimmed s \<Longrightarrow> nonblank s"
  unfolding trimmed_def using js_trim_eq_Nil [of s] by metis

lemma dropWhile_hd_not: "xs = [] \<or> \<not> P (hd xs) \<Longrightarrow> dropWhile P xs = xs"
  by (cases xs) auto

lemma trimmed_if_no_space: "s \<noteq> [] \<Longrightarrow> \<forall>c \<in> set s. \<not> js_space c \<Longrightarrow> trimmed s"
proof -
  assume "s \<noteq> []" and ns: "\<forall>c \<in> set s. \<not> js_space c"
  then have "dropWhile js_space s = s" and "dropWhile js_space (rev s) = rev s"
    by (auto intro!: dropWhile_hd_not simp: hd_rev)
  with \<open>s \<noteq> []\<close> show ?thesis by (simp add: trimmed_def js_trim_def)
qed

lemma js_trim_trimmed: "js_trim s \<noteq> [] \<Longrightarrow> trimmed (js_trim s)"
proof -
  let ?d = "dropWhile js_space s"
  assume ne: "js_trim s \<noteq> []"
  then have last_ok: "\<not> js_space (last (js_trim s))"
    using hd_dropWhile [of js_space "rev ?d"] by (simp add: js_trim_def last_rev)
  obtain ys where pre: "?d = js_trim s @ ys"
    unfolding js_trim_def by (metis rev_append rev_rev_ident takeWhile_dropWhile_id)
  with ne have hd: "hd (js_trim s) = hd ?d" and "?d \<noteq> []"
    by (metis hd_append2, metis append_is_Nil_conv)
  then have "\<not> js_space (hd (js_trim s))" by (metis hd_dropWhile)
  with last_ok ne have "js_trim (js_trim s) = js_trim s"
    unfolding js_trim_def [of "js_trim s"] by (simp add: dropWhile_hd_not hd_rev)
  with ne show ?thesis by (simp add: trimmed_def)
qed

text \<open>\<open>includes\<close>, \<open>startsWith\<close>, \<open>split\<close> at a character and \<open>toLowerCase\<close>.\<close>

definition startsWith :: "string \<Rightarrow> string \<Rightarrow> bool" where
  "startsWith s p \<longleftrightarrow> take (length p) s = p"

fun includesText :: "string \<Rightarrow> string \<Rightarrow> bool" where
  "includesText [] p = (p = [])"
| "includesText (c # cs) p = (startsWith (c # cs) p \<or> includesText cs p)"

fun split_on :: "char \<Rightarrow> string \<Rightarrow> string list" where
  "split_on d [] = [[]]"
| "split_on d (c # cs) =
     (if c = d then [] # split_on d cs
      else (case split_on d cs of [] \<Rightarrow> [[c]] | l # ls \<Rightarrow> (c # l) # ls))"

definition lower_char :: "char \<Rightarrow> char" where
  "lower_char c =
     (let n = (of_char c :: nat)
      in if 65 \<le> n \<and> n \<le> 90 \<or> 192 \<le> n \<and> n \<le> 222 \<and> n \<noteq> 215 then char_of (n + 32) else c)"

definition toLowerCase :: "string \<Rightarrow> string" where
  "toLowerCase s = map lower_char s"

text \<open>A text between two visible characters is trimmed.\<close>

lemma trimmed_between:
  assumes "\<not> js_space c" and "\<not> js_space d"
  shows "trimmed (c # s @ [d])"
  using assms by (simp add: trimmed_def js_trim_def)

text \<open>\<open>GIT_OID_PATTERN\<close> is \<open>/^[0-9a-f]{40}$/i\<close>.\<close>

definition hex_digit :: "char \<Rightarrow> bool" where
  "hex_digit c \<longleftrightarrow>
     (let n = (of_char c :: nat)
      in 48 \<le> n \<and> n \<le> 57 \<or> 97 \<le> n \<and> n \<le> 102 \<or> 65 \<le> n \<and> n \<le> 70)"

definition isGitOid :: "string \<Rightarrow> bool" where
  "isGitOid s \<longleftrightarrow> length s = 40 \<and> list_all hex_digit s"

fun isGitOid_opt :: "string option \<Rightarrow> bool" where
  "isGitOid_opt None = False"
| "isGitOid_opt (Some s) = isGitOid s"

lemma hex_digit_not_space: "hex_digit c \<Longrightarrow> \<not> js_space c"
  by (auto simp: hex_digit_def js_space_def Let_def)

lemma isGitOid_trimmed: "isGitOid s \<Longrightarrow> trimmed s"
  by (rule trimmed_if_no_space) (auto simp: isGitOid_def list_all_iff hex_digit_not_space)

text \<open>
  The path token of a task id: \<open>taskId.replace(/[^A-Za-z0-9._-]+/g, "-")\<close>. A maximal run of
  other characters becomes one dash; the flag says whether the scan is inside such a run.
\<close>

definition path_safe :: "char \<Rightarrow> bool" where
  "path_safe c \<longleftrightarrow>
     (let n = (of_char c :: nat)
      in 65 \<le> n \<and> n \<le> 90 \<or> 97 \<le> n \<and> n \<le> 122 \<or> 48 \<le> n \<and> n \<le> 57
         \<or> n = 46 \<or> n = 95 \<or> n = 45)"

fun replace_runs :: "bool \<Rightarrow> string \<Rightarrow> string" where
  "replace_runs in_run [] = []"
| "replace_runs in_run (c # cs) =
     (if path_safe c then c # replace_runs False cs
      else if in_run then replace_runs True cs
      else CHR ''-'' # replace_runs True cs)"

definition safeTaskId :: "task_id \<Rightarrow> string" where
  "safeTaskId t = replace_runs False t"

lemma path_safe_dash [simp]: "path_safe (CHR ''-'')"
  by (simp add: path_safe_def)

lemma path_safe_not_space: "path_safe c \<Longrightarrow> \<not> js_space c"
  by (auto simp: path_safe_def js_space_def Let_def)

lemma replace_runs_safe: "list_all path_safe (replace_runs b t)"
  by (induction t arbitrary: b) auto

lemma safeTaskId_safe: "list_all path_safe (safeTaskId t)"
  by (simp add: safeTaskId_def replace_runs_safe)

lemma safeTaskId_id: "list_all path_safe t \<Longrightarrow> safeTaskId t = t"
proof -
  have "list_all path_safe t \<Longrightarrow> replace_runs b t = t" for b
    by (induction t arbitrary: b) auto
  then show "list_all path_safe t \<Longrightarrow> safeTaskId t = t" by (simp add: safeTaskId_def)
qed

text \<open>Decimal numerals, as template literals print integers.\<close>

fun show_nat :: "nat \<Rightarrow> string" where
  "show_nat n =
     (if n < 10 then [char_of (48 + n)] else show_nat (n div 10) @ [char_of (48 + n mod 10)])"

declare show_nat.simps [simp del]

definition show_int :: "int \<Rightarrow> string" where
  "show_int i = (if i < 0 then CHR ''-'' # show_nat (nat (- i)) else show_nat (nat i))"

fun read_nat :: "nat \<Rightarrow> string \<Rightarrow> nat" where
  "read_nat acc [] = acc"
| "read_nat acc (c # cs) = read_nat (10 * acc + (of_char c - 48)) cs"

lemma read_nat_append: "read_nat a (s @ t) = read_nat (read_nat a s) t"
  by (induction s arbitrary: a) auto

lemma of_char_char_of_small: "n < 256 \<Longrightarrow> of_char (char_of n) = (n :: nat)"
  by simp

lemma read_show_nat: "read_nat 0 (show_nat n) = n"
proof (induction n rule: show_nat.induct)
  case (1 n)
  show ?case
  proof (cases "n < 10")
    case True
    then show ?thesis by (simp add: show_nat.simps [of n])
  next
    case False
    with "1" have "read_nat 0 (show_nat (n div 10)) = n div 10" by simp
    moreover have "48 + n mod 10 < 256" by (simp add: trans_less_add1)
    ultimately show ?thesis using False
      by (simp add: show_nat.simps [of n] read_nat_append)
  qed
qed

lemma show_nat_inject: "show_nat m = show_nat n \<longleftrightarrow> m = n"
  by (metis read_show_nat)

lemma show_nat_no_dash: "CHR ''-'' \<notin> set (show_nat n)"
proof (induction n rule: show_nat.induct)
  case (1 n)
  have digit: "CHR ''-'' \<noteq> char_of (48 + k)" if "k < 10" for k :: nat
  proof
    assume "CHR ''-'' = char_of (48 + k)"
    then have "of_char (CHR ''-'') = (of_char (char_of (48 + k)) :: nat)" by simp
    with that show False by simp
  qed
  show ?case
  proof (cases "n < 10")
    case True
    then show ?thesis using digit [of n] by (simp add: show_nat.simps [of n])
  next
    case False
    then show ?thesis using "1" digit [of "n mod 10"] by (simp add: show_nat.simps [of n])
  qed
qed

text \<open>A numeral after the last dash can be read back, whatever precedes it.\<close>

lemma dash_numeral_inject:
  assumes "p @ CHR ''-'' # show_nat m = q @ CHR ''-'' # show_nat n"
  shows "m = n"
proof -
  have tail: "takeWhile (\<lambda>c. c \<noteq> CHR ''-'') (rev (r @ CHR ''-'' # show_nat k)) = rev (show_nat k)"
    for r k
    using show_nat_no_dash [of k] by (simp add: takeWhile_append2 takeWhile_append)
  from assms have "rev (show_nat m) = rev (show_nat n)"
    by (metis tail)
  then show ?thesis by (simp add: show_nat_inject)
qed


subsection \<open>Field readers\<close>

text \<open>
  \<open>readString(record, key)\<close>: the trimmed text of a non-blank string field, else \<open>undefined\<close>.
\<close>

definition readString :: "(string \<times> json) list \<Rightarrow> string \<Rightarrow> string option" where
  "readString kvs k =
     (case jget kvs k of
        Some (JStr s) \<Rightarrow> if nonblank s then Some (js_trim s) else None
      | _ \<Rightarrow> None)"

text \<open>
  \<open>stringField(value)\<close> of the queue and the coordinator: a non-blank string field as it stands.
\<close>

fun stringField :: "json option \<Rightarrow> string option" where
  "stringField (Some (JStr s)) = (if nonblank s then Some s else None)"
| "stringField _ = None"

text \<open>\<open>stringField(value)\<close> of \<open>hubLanding.ts\<close>: any string, the empty one included.\<close>

fun anyStringField :: "json option \<Rightarrow> string option" where
  "anyStringField (Some (JStr s)) = Some s"
| "anyStringField _ = None"

text \<open>\<open>numberField(value)\<close>: a number for which \<open>Number.isInteger\<close> holds.\<close>

fun numberField :: "json option \<Rightarrow> int option" where
  "numberField (Some (JNum q)) = (if of_int \<lfloor>q\<rfloor> = q then Some \<lfloor>q\<rfloor> else None)"
| "numberField _ = None"

text \<open>
  \<open>stringArrayField(value)\<close> (also \<open>readStringArray\<close> and \<open>readOptionalNonEmptyStrings\<close>): the
  non-blank strings of an array, \<open>undefined\<close> when there is none.
\<close>

fun nonblank_string :: "json \<Rightarrow> string option" where
  "nonblank_string (JStr s) = (if nonblank s then Some s else None)"
| "nonblank_string _ = None"

fun stringArrayField :: "json option \<Rightarrow> string list option" where
  "stringArrayField (Some (JArr vs)) =
     (let items = List.map_filter nonblank_string vs
      in if items \<noteq> [] then Some items else None)"
| "stringArrayField _ = None"

definition jstr_opt :: "string option \<Rightarrow> json option" where
  "jstr_opt v = map_option JStr v"

definition jstrs :: "string list \<Rightarrow> json" where
  "jstrs ss = JArr (map JStr ss)"

definition jint :: "int \<Rightarrow> json" where
  "jint i = JNum (of_int i)"

lemma numberField_jint [json_simps]: "numberField (Some (jint i)) = Some i"
  by (simp add: jint_def)

lemma map_filter_nonblank:
  "list_all nonblank ss \<Longrightarrow> List.map_filter nonblank_string (map JStr ss) = ss"
  by (induction ss) (auto simp: List.map_filter_simps)

lemma stringArrayField_jstrs [json_simps]:
  "list_all nonblank ss \<Longrightarrow> stringArrayField (Some (jstrs ss)) = (if ss = [] then None else Some ss)"
  by (simp add: jstrs_def map_filter_nonblank Let_def)


text \<open>Optional fields: a condition on the value when there is one.\<close>

definition opt_ok :: "('a \<Rightarrow> bool) \<Rightarrow> 'a option \<Rightarrow> bool" where
  "opt_ok P v \<longleftrightarrow> (case v of None \<Rightarrow> True | Some x \<Rightarrow> P x)"

lemma opt_ok_simps [simp]: "opt_ok P None" "opt_ok P (Some x) = P x"
  by (simp_all add: opt_ok_def)

lemma readString_jget_Some:
  "jget kvs k = Some (JStr s) \<Longrightarrow> trimmed s \<Longrightarrow> readString kvs k = Some s"
  using trimmed_nonblank [of s] by (simp add: readString_def trimmed_def)

lemma readString_opt:
  assumes "jget kvs k = jstr_opt v" and "opt_ok trimmed v"
  shows "readString kvs k = v"
proof (cases v)
  case None
  with assms show ?thesis by (simp add: readString_def jstr_opt_def)
next
  case (Some s)
  with assms show ?thesis by (simp add: readString_jget_Some jstr_opt_def)
qed

lemma stringField_opt: "opt_ok nonblank v \<Longrightarrow> stringField (jstr_opt v) = v"
  by (cases v) (simp_all add: jstr_opt_def)

lemma anyStringField_opt: "anyStringField (jstr_opt v) = v"
  by (cases v) (simp_all add: jstr_opt_def)

lemma opt_ok_mono: "(\<And>x. P x \<Longrightarrow> Q x) \<Longrightarrow> opt_ok P v \<Longrightarrow> opt_ok Q v"
  by (cases v) simp_all

lemma opt_ok_git_trimmed: "opt_ok isGitOid v \<Longrightarrow> opt_ok trimmed v"
  by (rule opt_ok_mono [OF isGitOid_trimmed])

lemma opt_ok_git_not_bad: "opt_ok isGitOid v \<Longrightarrow> \<not> (v \<noteq> None \<and> \<not> isGitOid_opt v)"
  by (cases v) auto

lemma paths_roundtrip:
  "opt_ok (\<lambda>ps. ps \<noteq> [] \<and> list_all nonblank ps) v \<Longrightarrow> stringArrayField (map_option jstrs v) = v"
  by (cases v) (auto simp: stringArrayField_jstrs)


subsection \<open>Two interfaces\<close>

text \<open>
  A record that is stored as JSON and read back by a total parser. Every writer of the hub
  relies on this law for the values it writes; \<open>ok\<close> says for which values it holds.
\<close>

locale json_codec =
  fixes enc :: "'a \<Rightarrow> json"
    and dec :: "json \<Rightarrow> 'a option"
    and ok :: "'a \<Rightarrow> bool"
  assumes dec_enc: "ok x \<Longrightarrow> dec (enc x) = Some x"
begin

lemma read_written: "ok x \<Longrightarrow> read_json_file dec (Text (enc x)) = Some x"
  by (simp add: dec_enc)

lemma lines_append: "ok x \<Longrightarrow> read_json_lines dec (ls @ [Some (enc x)]) = read_json_lines dec ls @ [x]"
  by (simp only: read_json_lines_append)
    (simp add: read_json_lines_def dec_enc List.map_filter_simps)

lemma enc_inject: "ok x \<Longrightarrow> ok y \<Longrightarrow> enc x = enc y \<Longrightarrow> x = y"
  by (metis dec_enc option.inject)

end

text \<open>
  The states reachable from \<open>init\<close> by \<open>step\<close>, and the invariants that hold in all of them.
\<close>

inductive reach :: "('s \<Rightarrow> bool) \<Rightarrow> ('s \<Rightarrow> 's \<Rightarrow> bool) \<Rightarrow> 's \<Rightarrow> bool" for init step where
  reach_init: "init s \<Longrightarrow> reach init step s"
| reach_step: "reach init step s \<Longrightarrow> step s t \<Longrightarrow> reach init step t"

locale step_invariant =
  fixes init :: "'s \<Rightarrow> bool"
    and step :: "'s \<Rightarrow> 's \<Rightarrow> bool"
    and inv :: "'s \<Rightarrow> bool"
  assumes inv_init: "init s \<Longrightarrow> inv s"
    and inv_step: "step s t \<Longrightarrow> inv s \<Longrightarrow> inv t"
begin

lemma inv_reach: "reach init step s \<Longrightarrow> inv s"
  by (induction rule: reach.induct) (auto intro: inv_init inv_step)

end


subsection \<open>Lists and options\<close>

text \<open>\<open>a ?? b\<close>\<close>

definition coalesce :: "'a option \<Rightarrow> 'a option \<Rightarrow> 'a option" where
  "coalesce a b = (case a of None \<Rightarrow> b | Some x \<Rightarrow> Some x)"

lemma coalesce_simps [simp]: "coalesce None b = b" "coalesce (Some x) b = Some x"
  by (simp_all add: coalesce_def)

lemma coalesce_assoc: "coalesce (coalesce a b) c = coalesce a (coalesce b c)"
  by (simp add: coalesce_def split: option.splits)

text \<open>The first of the elements with the least key, as \<open>filter(..).sort(..)[0]\<close> yields it.\<close>

definition first_by :: "('a \<Rightarrow> int) \<Rightarrow> 'a list \<Rightarrow> 'a option" where
  "first_by f xs = (case sort_key f xs of [] \<Rightarrow> None | x # _ \<Rightarrow> Some x)"

lemma first_by_None: "first_by f xs = None \<longleftrightarrow> xs = []"
proof -
  have "sort_key f xs = [] \<longleftrightarrow> xs = []"
    by (metis length_0_conv length_sort)
  then show ?thesis by (cases "sort_key f xs") (auto simp: first_by_def)
qed

lemma first_by_Some: "first_by f xs = Some x \<Longrightarrow> x \<in> set xs \<and> (\<forall>y \<in> set xs. f x \<le> f y)"
proof -
  assume "first_by f xs = Some x"
  then obtain ys where eq: "sort_key f xs = x # ys"
    by (auto simp: first_by_def split: list.splits)
  have "sorted (map f (x # ys))" using eq by (metis sorted_sort_key)
  moreover have "set xs = set (x # ys)" using eq by (metis set_sort)
  ultimately show ?thesis by auto
qed

lemma first_by_unique:
  "x \<in> set xs \<Longrightarrow> (\<forall>y \<in> set xs. y \<noteq> x \<longrightarrow> f x < f y) \<Longrightarrow> first_by f xs = Some x"
proof -
  assume x: "x \<in> set xs" and least: "\<forall>y \<in> set xs. y \<noteq> x \<longrightarrow> f x < f y"
  then obtain z where z: "first_by f xs = Some z"
    by (metis first_by_None list.set_cases not_Some_eq list.distinct(1))
  then have "z \<in> set xs" and "f z \<le> f x" using first_by_Some [OF z] x by auto
  with least have "z = x" by (metis linorder_not_less)
  with z show ?thesis by simp
qed

end
