(* ===== verification/Git_Interface.thy ===== *)
theory Git_Interface
  imports Hub_Prelude
begin

text \<open>
  Git is a program the sources call, not code under \<open>src/\<close>: it is a parameter of the model. A
  value of type \<open>'g git\<close> holds the Git commands the landing code runs, as functions on an unknown
  repository state \<open>'g\<close>; \<open>git_laws\<close> states the documented behaviour the theorems rely on. The
  last section gives one concrete repository that satisfies the laws, for the witnesses.
\<close>

subsection \<open>The commands\<close>

text \<open>The lines of a \<open>git update-ref --stdin\<close> transaction: \<open>update ref new old\<close> and \<open>create ref new\<close>.\<close>

datatype ref_command =
    RefUpdate string oid oid
  | RefCreate string oid

fun command_ref :: "ref_command \<Rightarrow> string" where
  "command_ref (RefUpdate r n old) = r"
| "command_ref (RefCreate r n) = r"

fun command_new :: "ref_command \<Rightarrow> oid" where
  "command_new (RefUpdate r n old) = n"
| "command_new (RefCreate r n) = n"

record 'g git =
  g_rev_parse :: "'g \<Rightarrow> string \<Rightarrow> oid option"
    \<comment> \<open>\<open>git rev-parse name\<close>; \<open>None\<close> when the command fails\<close>
  g_show_ref :: "'g \<Rightarrow> string \<Rightarrow> bool"
    \<comment> \<open>\<open>git show-ref --verify --quiet ref\<close> succeeds\<close>
  g_is_ancestor :: "'g \<Rightarrow> oid \<Rightarrow> oid \<Rightarrow> bool"
    \<comment> \<open>\<open>git merge-base --is-ancestor a b\<close> succeeds\<close>
  g_object_exists :: "'g \<Rightarrow> oid \<Rightarrow> bool"
    \<comment> \<open>\<open>git cat-file -e name\<close> succeeds; the name is an object id, or \<open>oid^{commit}\<close> for a commit\<close>
  g_cat_file :: "'g \<Rightarrow> oid \<Rightarrow> json option"
    \<comment> \<open>\<open>git cat-file -p oid\<close>, read as JSON\<close>
  g_hash_object :: "'g \<Rightarrow> json \<Rightarrow> oid \<times> 'g"
    \<comment> \<open>\<open>git hash-object -w --stdin\<close> on the text of a JSON value\<close>
  g_update_ref :: "'g \<Rightarrow> string \<Rightarrow> oid \<Rightarrow> 'g option"
    \<comment> \<open>\<open>git update-ref ref oid\<close>\<close>
  g_transaction :: "'g \<Rightarrow> ref_command list \<Rightarrow> 'g option"
    \<comment> \<open>\<open>git update-ref --stdin\<close> between \<open>start\<close> and \<open>commit\<close>\<close>
  g_show_current :: "'g \<Rightarrow> string option"
    \<comment> \<open>\<open>git branch --show-current\<close>, the empty text on a detached head\<close>
  g_symbolic_head :: "'g \<Rightarrow> string option"
    \<comment> \<open>\<open>git symbolic-ref --short HEAD\<close>\<close>

text \<open>
  The value a transaction command expects: \<open>update\<close> wants the old value, \<open>create\<close> wants no value.
\<close>

fun command_holds :: "'g git \<Rightarrow> 'g \<Rightarrow> ref_command \<Rightarrow> bool" where
  "command_holds G s (RefUpdate r n old) = (g_rev_parse G s r = Some old)"
| "command_holds G s (RefCreate r n) = (g_rev_parse G s r = None)"

text \<open>
  What the theorems assume of Git.

  \<^item> A committed transaction found every expected old value, set every named ref and left all
    other refs and the objects alone (\<open>update-ref --stdin\<close> is all or nothing).
  \<^item> \<open>update-ref\<close> sets one ref.
  \<^item> \<open>hash-object -w\<close> adds one readable object and changes no ref.
  \<^item> \<open>show-ref --verify\<close> tells whether the ref resolves.
  \<^item> A commit is its own ancestor, and a descendant's descendants are descendants.
\<close>

definition same_objects :: "'g git \<Rightarrow> 'g \<Rightarrow> 'g \<Rightarrow> bool" where
  "same_objects G s s' \<longleftrightarrow>
     g_cat_file G s' = g_cat_file G s \<and> g_is_ancestor G s' = g_is_ancestor G s
     \<and> g_object_exists G s' = g_object_exists G s"

definition transaction_law :: "'g git \<Rightarrow> bool" where
  "transaction_law G \<longleftrightarrow>
     (\<forall>s cs s'. g_transaction G s cs = Some s' \<and> distinct (map command_ref cs) \<longrightarrow>
        (\<forall>c \<in> set cs. command_holds G s c \<and> g_rev_parse G s' (command_ref c) = Some (command_new c))
        \<and> (\<forall>r. r \<notin> command_ref ` set cs \<longrightarrow> g_rev_parse G s' r = g_rev_parse G s r)
        \<and> same_objects G s s')"

definition update_ref_law :: "'g git \<Rightarrow> bool" where
  "update_ref_law G \<longleftrightarrow>
     (\<forall>s r new s'. g_update_ref G s r new = Some s' \<longrightarrow>
        g_rev_parse G s' r = Some new
        \<and> (\<forall>q. q \<noteq> r \<longrightarrow> g_rev_parse G s' q = g_rev_parse G s q)
        \<and> same_objects G s s')"

definition hash_object_law :: "'g git \<Rightarrow> bool" where
  "hash_object_law G \<longleftrightarrow>
     (\<forall>s v. let (new, s') = g_hash_object G s v in
        g_cat_file G s' new = Some v
        \<and> (\<forall>obj w. g_cat_file G s obj = Some w \<longrightarrow> g_cat_file G s' obj = Some w)
        \<and> g_rev_parse G s' = g_rev_parse G s
        \<and> g_is_ancestor G s' = g_is_ancestor G s)"

definition git_laws :: "'g git \<Rightarrow> bool" where
  "git_laws G \<longleftrightarrow> transaction_law G \<and> update_ref_law G \<and> hash_object_law G
     \<and> (\<forall>s r. g_show_ref G s r \<longleftrightarrow> g_rev_parse G s r \<noteq> None)
     \<and> (\<forall>s a. g_is_ancestor G s a a)
     \<and> (\<forall>s a b c. g_is_ancestor G s a b \<and> g_is_ancestor G s b c \<longrightarrow> g_is_ancestor G s a c)"

lemma git_transaction:
  assumes "git_laws G" and "g_transaction G s cs = Some s'" and "distinct (map command_ref cs)"
  shows "c \<in> set cs \<Longrightarrow> command_holds G s c"
    and "c \<in> set cs \<Longrightarrow> g_rev_parse G s' (command_ref c) = Some (command_new c)"
    and "r \<notin> command_ref ` set cs \<Longrightarrow> g_rev_parse G s' r = g_rev_parse G s r"
    and "same_objects G s s'"
  using assms unfolding git_laws_def transaction_law_def by blast+

lemma git_update_ref:
  assumes "git_laws G" and "g_update_ref G s r new = Some s'"
  shows "g_rev_parse G s' r = Some new"
    and "q \<noteq> r \<Longrightarrow> g_rev_parse G s' q = g_rev_parse G s q"
    and "same_objects G s s'"
  using assms unfolding git_laws_def update_ref_law_def by blast+

lemma git_hash_object_law:
  assumes "git_laws G" and "g_hash_object G s v = (new, s')"
  shows "g_cat_file G s' new = Some v
    \<and> (\<forall>obj w. g_cat_file G s obj = Some w \<longrightarrow> g_cat_file G s' obj = Some w)
    \<and> g_rev_parse G s' = g_rev_parse G s \<and> g_is_ancestor G s' = g_is_ancestor G s"
proof -
  have "hash_object_law G" using assms(1) by (simp add: git_laws_def)
  then have "let (new, s') = g_hash_object G s v in
        g_cat_file G s' new = Some v
        \<and> (\<forall>obj w. g_cat_file G s obj = Some w \<longrightarrow> g_cat_file G s' obj = Some w)
        \<and> g_rev_parse G s' = g_rev_parse G s \<and> g_is_ancestor G s' = g_is_ancestor G s"
    unfolding hash_object_law_def by (elim allE) assumption
  with assms(2) show ?thesis by simp
qed

lemma git_hash_object:
  assumes "git_laws G" and "g_hash_object G s v = (new, s')"
  shows "g_cat_file G s' new = Some v"
    and "g_cat_file G s obj = Some w \<Longrightarrow> g_cat_file G s' obj = Some w"
    and "g_rev_parse G s' = g_rev_parse G s"
    and "g_is_ancestor G s' = g_is_ancestor G s"
  using git_hash_object_law [OF assms] by blast+

lemma git_show_ref: "git_laws G \<Longrightarrow> g_show_ref G s r \<longleftrightarrow> g_rev_parse G s r \<noteq> None"
  by (simp add: git_laws_def)

lemma git_is_ancestor_refl: "git_laws G \<Longrightarrow> g_is_ancestor G s a a"
  by (simp add: git_laws_def)


subsection \<open>A repository in memory\<close>

text \<open>
  Refs and objects as association lists, commits as one linear history: enough for the witnesses
  to run the landing code on a concrete repository.
\<close>

record mem_repo =
  mr_refs :: "(string \<times> oid) list"
  mr_objects :: "(oid \<times> json) list"
  mr_history :: "oid list"

definition mem_empty :: mem_repo where
  "mem_empty = \<lparr>mr_refs = [], mr_objects = [], mr_history = []\<rparr>"

definition mem_set :: "string \<Rightarrow> oid \<Rightarrow> mem_repo \<Rightarrow> mem_repo" where
  "mem_set r v s = s\<lparr>mr_refs := (r, v) # mr_refs s\<rparr>"

text \<open>
  A new object gets the first unused name of forty equal digits, and a longer one once those are used up.
\<close>

definition mem_fresh :: "mem_repo \<Rightarrow> oid" where
  "mem_fresh s =
    (case find (\<lambda>new. map_of (mr_objects s) new = None) (map (replicate 40) ''0123456789'') of
       Some new \<Rightarrow> new
     | None \<Rightarrow> replicate (Suc (sum_list (map (length \<circ> fst) (mr_objects s)))) (CHR ''0''))"

definition mem_hash :: "mem_repo \<Rightarrow> json \<Rightarrow> oid \<times> mem_repo" where
  "mem_hash s v = (mem_fresh s, s\<lparr>mr_objects := (mem_fresh s, v) # mr_objects s\<rparr>)"

fun mem_holds :: "mem_repo \<Rightarrow> ref_command \<Rightarrow> bool" where
  "mem_holds s (RefUpdate r n old) = (map_of (mr_refs s) r = Some old)"
| "mem_holds s (RefCreate r n) = (map_of (mr_refs s) r = None)"

definition mem_transaction :: "mem_repo \<Rightarrow> ref_command list \<Rightarrow> mem_repo option" where
  "mem_transaction s cs =
     (if list_all (mem_holds s) cs
      then Some (foldr (\<lambda>c. mem_set (command_ref c) (command_new c)) cs s) else None)"

definition mem_position :: "mem_repo \<Rightarrow> oid \<Rightarrow> nat" where
  "mem_position s a = length (takeWhile (\<lambda>c. c \<noteq> a) (mr_history s))"

definition mem_is_ancestor :: "mem_repo \<Rightarrow> oid \<Rightarrow> oid \<Rightarrow> bool" where
  "mem_is_ancestor s a b \<longleftrightarrow>
     a = b \<or> (List.member (mr_history s) a \<and> List.member (mr_history s) b
              \<and> mem_position s a \<le> mem_position s b)"

definition mem_git :: "mem_repo git" where
  "mem_git = \<lparr>
     g_rev_parse = (\<lambda>s r. map_of (mr_refs s) r),
     g_show_ref = (\<lambda>s r. map_of (mr_refs s) r \<noteq> None),
     g_is_ancestor = mem_is_ancestor,
     g_object_exists = (\<lambda>s obj. map_of (mr_objects s) obj \<noteq> None
       \<or> list_ex (\<lambda>c. obj = c \<or> obj = c @ ''^{commit}'') (mr_history s)),
     g_cat_file = (\<lambda>s obj. map_of (mr_objects s) obj),
     g_hash_object = mem_hash,
     g_update_ref = (\<lambda>s r v. Some (mem_set r v s)),
     g_transaction = mem_transaction,
     g_show_current = (\<lambda>s. Some ''main''),
     g_symbolic_head = (\<lambda>s. Some ''main'')\<rparr>"

lemma mem_fresh_new: "map_of (mr_objects s) (mem_fresh s) = None"
proof -
  have "length obj \<le> sum_list (map (length \<circ> fst) xs)" if "obj \<in> fst ` set xs"
    for obj and xs :: "(oid \<times> json) list"
    using that by (induction xs) (auto intro: trans_le_add2)
  then have "replicate (Suc (sum_list (map (length \<circ> fst) (mr_objects s)))) (CHR ''0'')
      \<notin> fst ` set (mr_objects s)"
    by fastforce
  then show ?thesis
    unfolding mem_fresh_def map_of_eq_None_iff [symmetric]
    by (auto simp: find_Some_iff split: option.split)
qed

lemma mem_foldr_refs:
  "distinct (map command_ref cs) \<Longrightarrow>
   map_of (mr_refs (foldr (\<lambda>c. mem_set (command_ref c) (command_new c)) cs s)) r
     = (case find (\<lambda>c. command_ref c = r) cs of
          None \<Rightarrow> map_of (mr_refs s) r | Some c \<Rightarrow> Some (command_new c))"
  by (induction cs) (auto simp: mem_set_def)

lemma mem_foldr_frame:
  "mr_objects (foldr (\<lambda>c. mem_set (command_ref c) (command_new c)) cs s) = mr_objects s"
  "mr_history (foldr (\<lambda>c. mem_set (command_ref c) (command_new c)) cs s) = mr_history s"
  by (induction cs) (simp_all add: mem_set_def)

lemma find_distinct_ref:
  "distinct (map command_ref cs) \<Longrightarrow> c \<in> set cs \<Longrightarrow>
     find (\<lambda>d. command_ref d = command_ref c) cs = Some c"
  by (induction cs) auto

lemma mem_holds_command: "mem_holds s c = command_holds mem_git s c"
  by (cases c) (simp_all add: mem_git_def)

lemma mem_transaction_law: "transaction_law mem_git"
  unfolding transaction_law_def
proof (intro allI impI)
  fix s s' and cs :: "ref_command list"
  assume "g_transaction mem_git s cs = Some s' \<and> distinct (map command_ref cs)"
  then have d: "distinct (map command_ref cs)" and all: "list_all (mem_holds s) cs"
      and s': "s' = foldr (\<lambda>c. mem_set (command_ref c) (command_new c)) cs s"
    by (auto simp: mem_git_def mem_transaction_def split: if_splits)
  have "\<forall>c \<in> set cs. command_holds mem_git s c
      \<and> g_rev_parse mem_git s' (command_ref c) = Some (command_new c)"
    using all d by (auto simp: list_all_iff mem_holds_command s' mem_git_def [THEN arg_cong,
          of g_rev_parse] mem_foldr_refs find_distinct_ref)
  moreover have "g_rev_parse mem_git s' r = g_rev_parse mem_git s r"
    if "r \<notin> command_ref ` set cs" for r
  proof -
    from that have "find (\<lambda>c. command_ref c = r) cs = None"
      by (auto simp: find_None_iff)
    with d show ?thesis by (simp add: mem_git_def s' mem_foldr_refs)
  qed
  moreover have "same_objects mem_git s s'"
    by (simp add: same_objects_def mem_git_def s' mem_foldr_frame mem_is_ancestor_def mem_position_def fun_eq_iff)
  ultimately show "(\<forall>c \<in> set cs. command_holds mem_git s c
      \<and> g_rev_parse mem_git s' (command_ref c) = Some (command_new c))
      \<and> (\<forall>r. r \<notin> command_ref ` set cs \<longrightarrow> g_rev_parse mem_git s' r = g_rev_parse mem_git s r)
      \<and> same_objects mem_git s s'"
    by blast
qed

lemma mem_hash_law: "hash_object_law mem_git"
  by (auto simp: hash_object_law_def mem_git_def mem_hash_def mem_fresh_new mem_is_ancestor_def
      mem_position_def fun_eq_iff)

lemma mem_git_laws: "git_laws mem_git"
  unfolding git_laws_def
proof (intro conjI)
  show "transaction_law mem_git" by (rule mem_transaction_law)
  show "update_ref_law mem_git"
    by (auto simp: update_ref_law_def mem_git_def mem_set_def same_objects_def mem_is_ancestor_def
        mem_position_def fun_eq_iff)
  show "hash_object_law mem_git" by (rule mem_hash_law)
  show "\<forall>s r. g_show_ref mem_git s r \<longleftrightarrow> g_rev_parse mem_git s r \<noteq> None"
    by (simp add: mem_git_def)
  show "\<forall>s a. g_is_ancestor mem_git s a a"
    by (simp add: mem_git_def mem_is_ancestor_def)
  show "\<forall>s a b c. g_is_ancestor mem_git s a b \<and> g_is_ancestor mem_git s b c
      \<longrightarrow> g_is_ancestor mem_git s a c"
    by (auto simp: mem_git_def mem_is_ancestor_def)
qed

end
