(* ===== verification/Landing_Policy.thy ===== *)
theory Landing_Policy
  imports Git_Interface
begin

text \<open>
  The landing policy of a project (\<open>src/src/hubLandingPolicy.ts\<close>): the pinned host branch, the
  publish target and fence refs, the publish policy with its remote target and delivery timeout,
  the parser and writer of the policy file, the first-use set-up, and the configuration command.
\<close>

subsection \<open>The policy record\<close>

datatype publish_policy = PublishOff | BestEffort | Required

datatype checkout_sync_policy = SafeFastForward

fun publish_policy_name :: "publish_policy \<Rightarrow> string" where
  "publish_policy_name PublishOff = ''off''"
| "publish_policy_name BestEffort = ''best_effort''"
| "publish_policy_name Required = ''required''"

text \<open>\<open>isPublishPolicy\<close> and \<open>isCheckoutSyncPolicy\<close>, with the value they accept.\<close>

definition isPublishPolicy :: "json option \<Rightarrow> publish_policy option" where
  "isPublishPolicy v =
     (if v = Some (JStr ''off'') then Some PublishOff
      else if v = Some (JStr ''best_effort'') then Some BestEffort
      else if v = Some (JStr ''required'') then Some Required
      else None)"

definition isCheckoutSyncPolicy :: "json option \<Rightarrow> checkout_sync_policy option" where
  "isCheckoutSyncPolicy v =
     (if v = Some (JStr ''safe_fast_forward'') then Some SafeFastForward else None)"

record HubLandingPolicy =
  p_hostTargetBranch :: string
  p_publishTargetRef :: string
  p_fenceRef :: string
  p_publishPolicy :: publish_policy
  p_remoteTarget :: "string option"
  p_deliveryTimeoutMs :: "int option"
  p_checkoutSyncPolicy :: checkout_sync_policy
  p_createdAt :: iso_time
  p_updatedAt :: iso_time

text \<open>\<open>sanitizeRefToken\<close>: runs of other characters become one dash, outer dashes go.\<close>

definition strip_dashes :: "string \<Rightarrow> string" where
  "strip_dashes s =
     rev (dropWhile (\<lambda>c. c = CHR ''-'') (rev (dropWhile (\<lambda>c. c = CHR ''-'') s)))"

definition sanitizeRefToken :: "string \<Rightarrow> string" where
  "sanitizeRefToken s =
     (let t = strip_dashes (replace_runs False s) in if t = [] then ''default'' else t)"

text \<open>\<open>resolveHubLandingTargetIdentity\<close>; \<open>base\<close> is \<open>basename(hubProjectDir)\<close>.\<close>

definition resolveHubLandingTargetIdentity ::
    "(string \<Rightarrow> string) \<Rightarrow> string \<Rightarrow> string \<Rightarrow> string" where
  "resolveHubLandingTargetIdentity sha256 hubProjectDir base =
     sanitizeRefToken base @ CHR ''-'' # take 12 (sha256 hubProjectDir)"

text \<open>
  A positive finite number is floored: \<open>Math.floor(record.deliveryTimeoutMs)\<close>.
\<close>

fun parse_timeout :: "json option \<Rightarrow> int option" where
  "parse_timeout (Some (JNum q)) = (if q > 0 then Some \<lfloor>q\<rfloor> else None)"
| "parse_timeout _ = None"

definition parseHubLandingPolicy :: "json \<Rightarrow> HubLandingPolicy option" where
  "parseHubLandingPolicy v =
    (let kvs = readObject v in
     if jget kvs ''version'' \<noteq> Some (jint 1) then None
     else
     (case (readString kvs ''hostTargetBranch'', readString kvs ''publishTargetRef'',
            readString kvs ''fenceRef'', isPublishPolicy (jget kvs ''publishPolicy''),
            isCheckoutSyncPolicy (jget kvs ''checkoutSyncPolicy''),
            readString kvs ''createdAt'', readString kvs ''updatedAt'') of
        (Some host, Some target, Some fence, Some pub, Some sync, Some created, Some updated) \<Rightarrow>
          Some \<lparr>p_hostTargetBranch = host, p_publishTargetRef = target, p_fenceRef = fence,
            p_publishPolicy = pub, p_remoteTarget = readString kvs ''remoteTarget'',
            p_deliveryTimeoutMs = parse_timeout (jget kvs ''deliveryTimeoutMs''),
            p_checkoutSyncPolicy = sync, p_createdAt = created, p_updatedAt = updated\<rparr>
      | _ \<Rightarrow> None))"

definition policy_json :: "HubLandingPolicy \<Rightarrow> json" where
  "policy_json p = jobj
     [(''version'', Some (jint 1)),
      (''hostTargetBranch'', Some (JStr (p_hostTargetBranch p))),
      (''publishTargetRef'', Some (JStr (p_publishTargetRef p))),
      (''fenceRef'', Some (JStr (p_fenceRef p))),
      (''publishPolicy'', Some (JStr (publish_policy_name (p_publishPolicy p)))),
      (''remoteTarget'', jstr_opt (p_remoteTarget p)),
      (''deliveryTimeoutMs'', map_option jint (p_deliveryTimeoutMs p)),
      (''checkoutSyncPolicy'', Some (JStr ''safe_fast_forward'')),
      (''createdAt'', Some (JStr (p_createdAt p))),
      (''updatedAt'', Some (JStr (p_updatedAt p)))]"

text \<open>
  The policies that read back as written. A timeout of \<open>0\<close> does not: the parser wants a positive
  number.
\<close>

definition policy_ok :: "HubLandingPolicy \<Rightarrow> bool" where
  "policy_ok p \<longleftrightarrow>
     list_all trimmed
       [p_hostTargetBranch p, p_publishTargetRef p, p_fenceRef p, p_createdAt p, p_updatedAt p]
     \<and> opt_ok trimmed (p_remoteTarget p) \<and> opt_ok (\<lambda>t. t > 0) (p_deliveryTimeoutMs p)"

lemma policy_json_get:
  "jget (readObject (policy_json p)) k =
     (case map_of
       [(''version'', Some (jint 1)),
        (''hostTargetBranch'', Some (JStr (p_hostTargetBranch p))),
        (''publishTargetRef'', Some (JStr (p_publishTargetRef p))),
        (''fenceRef'', Some (JStr (p_fenceRef p))),
        (''publishPolicy'', Some (JStr (publish_policy_name (p_publishPolicy p)))),
        (''remoteTarget'', jstr_opt (p_remoteTarget p)),
        (''deliveryTimeoutMs'', map_option jint (p_deliveryTimeoutMs p)),
        (''checkoutSyncPolicy'', Some (JStr ''safe_fast_forward'')),
        (''createdAt'', Some (JStr (p_createdAt p))),
        (''updatedAt'', Some (JStr (p_updatedAt p)))] k
      of None \<Rightarrow> None | Some v \<Rightarrow> v)"
  unfolding policy_json_def readObject_jobj
  by (rule jget_defined_fields) simp

lemma checkout_sync_single: "SafeFastForward = s"
  by (cases s) simp

lemma policy_roundtrip:
  assumes "policy_ok p"
  shows "parseHubLandingPolicy (policy_json p) = Some p"
proof -
  let ?kvs = "readObject (policy_json p)"
  note get = policy_json_get [of p]
  note ok = assms [unfolded policy_ok_def]
  have req: "readString ?kvs ''hostTargetBranch'' = Some (p_hostTargetBranch p)"
      "readString ?kvs ''publishTargetRef'' = Some (p_publishTargetRef p)"
      "readString ?kvs ''fenceRef'' = Some (p_fenceRef p)"
      "readString ?kvs ''createdAt'' = Some (p_createdAt p)"
      "readString ?kvs ''updatedAt'' = Some (p_updatedAt p)"
    using ok by (simp_all add: readString_jget_Some get)
  have opt: "readString ?kvs ''remoteTarget'' = p_remoteTarget p"
      "parse_timeout (jget ?kvs ''deliveryTimeoutMs'') = p_deliveryTimeoutMs p"
    using ok by (simp_all add: readString_opt get)
      (cases "p_deliveryTimeoutMs p"; simp add: jint_def)
  have enum: "jget ?kvs ''version'' = Some (jint 1)"
      "isPublishPolicy (jget ?kvs ''publishPolicy'') = Some (p_publishPolicy p)"
      "isCheckoutSyncPolicy (jget ?kvs ''checkoutSyncPolicy'') = Some (p_checkoutSyncPolicy p)"
    by (simp_all add: get isPublishPolicy_def isCheckoutSyncPolicy_def checkout_sync_single)
      (cases "p_publishPolicy p"; simp)
  show ?thesis
    unfolding parseHubLandingPolicy_def Let_def req opt enum by simp
qed

interpretation policy_codec: json_codec policy_json parseHubLandingPolicy policy_ok
  by unfold_locales (rule policy_roundtrip)

definition readHubLandingPolicy :: "jfile \<Rightarrow> HubLandingPolicy option" where
  "readHubLandingPolicy f = read_json_file parseHubLandingPolicy f"


subsection \<open>First use\<close>

text \<open>
  What the Node runtime supplies: SHA-256 digests, the process id, the boot id and fresh UUIDs
  (one per call site that runs at most once per operation).
\<close>

record runtime =
  rt_sha256 :: "string \<Rightarrow> string"
  rt_pid :: int
  rt_bootId :: "string option"
  rt_uuid :: string

datatype policy_error = GitCommandFailed | DetachedHeadWithoutDefault

definition resolveHostTargetBranch :: "'g git \<Rightarrow> 'g \<Rightarrow> policy_error + string" where
  "resolveHostTargetBranch G g =
     (case g_show_current G g of
        None \<Rightarrow> Inl GitCommandFailed
      | Some current \<Rightarrow>
          if current \<noteq> [] then Inr current
          else
            (let symbolic = (case g_symbolic_head G g of None \<Rightarrow> [] | Some s \<Rightarrow> s) in
             if symbolic \<noteq> [] then Inr symbolic
             else if g_show_ref G g ''refs/heads/main'' then Inr ''main''
             else if g_show_ref G g ''refs/heads/master'' then Inr ''master''
             else Inl DetachedHeadWithoutDefault))"

definition initial_fence_json :: "runtime \<Rightarrow> iso_time \<Rightarrow> json" where
  "initial_fence_json rt now = jobj
     [(''kind'', Some (JStr ''hub-landing-fence'')),
      (''ownerNonce'', Some (JStr (rt_uuid rt))),
      (''pid'', Some (jint (rt_pid rt))),
      (''createdAt'', Some (JStr now))]"

definition writeInitialFenceBlob ::
    "'g git \<Rightarrow> runtime \<Rightarrow> iso_time \<Rightarrow> 'g \<Rightarrow> oid \<times> 'g" where
  "writeInitialFenceBlob G rt now g = g_hash_object G g (initial_fence_json rt now)"

definition ensureGitRef :: "'g git \<Rightarrow> string \<Rightarrow> oid \<Rightarrow> 'g \<Rightarrow> (policy_error + unit) \<times> 'g" where
  "ensureGitRef G r new g =
     (if g_show_ref G g r then (Inr (), g)
      else (case g_update_ref G g r new of
              None \<Rightarrow> (Inl GitCommandFailed, g)
            | Some g' \<Rightarrow> (Inr (), g')))"

record EnsureHubLandingPolicyResult =
  er_created :: bool
  er_policy :: HubLandingPolicy

text \<open>The policy written on first use.\<close>

definition fresh_policy :: "string \<Rightarrow> string \<Rightarrow> iso_time \<Rightarrow> HubLandingPolicy" where
  "fresh_policy host identity now =
     \<lparr>p_hostTargetBranch = host,
      p_publishTargetRef = ''refs/archloop/publish/'' @ identity,
      p_fenceRef = ''refs/archloop/fence/'' @ identity,
      p_publishPolicy = PublishOff, p_remoteTarget = None, p_deliveryTimeoutMs = None,
      p_checkoutSyncPolicy = SafeFastForward, p_createdAt = now, p_updatedAt = now\<rparr>"

text \<open>
  \<open>ensureHubLandingPolicy\<close> on the policy file and the repository: the result or the thrown error,
  with the file and the repository as they are then.
\<close>

definition ensureHubLandingPolicy ::
    "'g git \<Rightarrow> runtime \<Rightarrow> string \<Rightarrow> iso_time \<Rightarrow> jfile \<times> 'g
     \<Rightarrow> (policy_error + EnsureHubLandingPolicyResult) \<times> jfile \<times> 'g" where
  "ensureHubLandingPolicy G rt identity now fg =
    (let (f, g) = fg in
     case readHubLandingPolicy f of
       Some existing \<Rightarrow>
         (case g_rev_parse G g ''HEAD'' of
            None \<Rightarrow> (Inl GitCommandFailed, f, g)
          | Some headOid \<Rightarrow>
            (case ensureGitRef G (p_publishTargetRef existing) headOid g of
               (Inl e, g1) \<Rightarrow> (Inl e, f, g1)
             | (Inr _, g1) \<Rightarrow>
               if g_show_ref G g1 (p_fenceRef existing)
               then (Inr \<lparr>er_created = False, er_policy = existing\<rparr>, f, g1)
               else
                 (let (fence, g2) = writeInitialFenceBlob G rt (p_updatedAt existing) g1 in
                  case ensureGitRef G (p_fenceRef existing) fence g2 of
                    (Inl e, g3) \<Rightarrow> (Inl e, f, g3)
                  | (Inr _, g3) \<Rightarrow> (Inr \<lparr>er_created = False, er_policy = existing\<rparr>, f, g3))))
     | None \<Rightarrow>
         (case resolveHostTargetBranch G g of
            Inl e \<Rightarrow> (Inl e, f, g)
          | Inr host \<Rightarrow>
            (let policy = fresh_policy host identity now in
             case g_rev_parse G g ''HEAD'' of
               None \<Rightarrow> (Inl GitCommandFailed, f, g)
             | Some headOid \<Rightarrow>
               (let (fence, g1) = writeInitialFenceBlob G rt now g in
                case ensureGitRef G (p_publishTargetRef policy) headOid g1 of
                  (Inl e, g2) \<Rightarrow> (Inl e, f, g2)
                | (Inr _, g2) \<Rightarrow>
                  (case ensureGitRef G (p_fenceRef policy) fence g2 of
                     (Inl e, g3) \<Rightarrow> (Inl e, f, g3)
                   | (Inr _, g3) \<Rightarrow>
                     (Inr \<lparr>er_created = True, er_policy = policy\<rparr>, Text (policy_json policy), g3))))))"


subsection \<open>Configuration\<close>

text \<open>
  An optional argument that may also be \<open>null\<close>: \<open>None\<close> is \<open>undefined\<close>, \<open>Some None\<close> is \<open>null\<close>.
\<close>

fun resolveConfiguredRemoteTarget ::
    "string option option \<Rightarrow> string option \<Rightarrow> string option" where
  "resolveConfiguredRemoteTarget None current = current"
| "resolveConfiguredRemoteTarget (Some None) current = None"
| "resolveConfiguredRemoteTarget (Some (Some s)) current =
     (if js_trim s = [] then None else Some (js_trim s))"

fun resolveConfiguredDeliveryTimeoutMs ::
    "rat option option \<Rightarrow> int option \<Rightarrow> int option" where
  "resolveConfiguredDeliveryTimeoutMs None current = current"
| "resolveConfiguredDeliveryTimeoutMs (Some None) current = None"
| "resolveConfiguredDeliveryTimeoutMs (Some (Some q)) current =
     (if q \<le> 0 then None else Some \<lfloor>q\<rfloor>)"

record configure_input =
  ci_publishPolicy :: "publish_policy option"
  ci_remoteTarget :: "string option option"
  ci_deliveryTimeoutMs :: "rat option option"

definition configured_policy ::
    "configure_input \<Rightarrow> iso_time \<Rightarrow> HubLandingPolicy \<Rightarrow> HubLandingPolicy" where
  "configured_policy ci now p =
     \<lparr>p_hostTargetBranch = p_hostTargetBranch p, p_publishTargetRef = p_publishTargetRef p,
      p_fenceRef = p_fenceRef p,
      p_publishPolicy = (case ci_publishPolicy ci of None \<Rightarrow> p_publishPolicy p | Some x \<Rightarrow> x),
      p_remoteTarget =
        (case resolveConfiguredRemoteTarget (ci_remoteTarget ci) (p_remoteTarget p) of
           Some t \<Rightarrow> if t = [] then None else Some t | None \<Rightarrow> None),
      p_deliveryTimeoutMs =
        resolveConfiguredDeliveryTimeoutMs (ci_deliveryTimeoutMs ci) (p_deliveryTimeoutMs p),
      p_checkoutSyncPolicy = p_checkoutSyncPolicy p, p_createdAt = p_createdAt p,
      p_updatedAt = now\<rparr>"

definition configureHubLandingPolicy ::
    "'g git \<Rightarrow> runtime \<Rightarrow> string \<Rightarrow> configure_input \<Rightarrow> iso_time \<Rightarrow> jfile \<times> 'g
     \<Rightarrow> (policy_error + HubLandingPolicy) \<times> jfile \<times> 'g" where
  "configureHubLandingPolicy G rt identity ci now fg =
    (case ensureHubLandingPolicy G rt identity now fg of
       (Inl e, f, g) \<Rightarrow> (Inl e, f, g)
     | (Inr ensured, f, g) \<Rightarrow>
         if ci_publishPolicy ci = None \<and> ci_remoteTarget ci = None \<and> ci_deliveryTimeoutMs ci = None
         then (Inr (er_policy ensured), f, g)
         else
           (let policy = configured_policy ci now (er_policy ensured)
            in (Inr policy, Text (policy_json policy), g)))"


subsection \<open>Properties\<close>

text \<open>Refs that exist keep their value.\<close>

definition refs_kept :: "'g git \<Rightarrow> 'g \<Rightarrow> 'g \<Rightarrow> bool" where
  "refs_kept G g g' \<longleftrightarrow> (\<forall>r v. g_rev_parse G g r = Some v \<longrightarrow> g_rev_parse G g' r = Some v)"

lemma refs_kept_refl [simp]: "refs_kept G g g"
  by (simp add: refs_kept_def)

lemma refs_kept_trans: "refs_kept G g h \<Longrightarrow> refs_kept G h k \<Longrightarrow> refs_kept G g k"
  by (simp add: refs_kept_def)

lemma ensureGitRef_ok:
  assumes "git_laws G" and "ensureGitRef G r new g = (Inr u, g')"
  shows "refs_kept G g g' \<and> g_rev_parse G g' r \<noteq> None"
proof (cases "g_show_ref G g r")
  case True
  with assms show ?thesis by (simp add: ensureGitRef_def git_show_ref [OF assms(1)])
next
  case False
  with assms(2) have upd: "g_update_ref G g r new = Some g'"
    by (simp add: ensureGitRef_def split: option.splits)
  from False have "g_rev_parse G g r = None" by (simp add: git_show_ref [OF assms(1)])
  then have "g_rev_parse G g' q = Some v" if "g_rev_parse G g q = Some v" for q v
    using git_update_ref(2) [OF assms(1) upd, of q] that by (cases "q = r") simp_all
  then show ?thesis using git_update_ref(1) [OF assms(1) upd] by (simp add: refs_kept_def)
qed

lemma ensureGitRef_err: "ensureGitRef G r new g = (Inl e, g') \<Longrightarrow> g' = g"
  by (simp add: ensureGitRef_def split: if_splits option.splits)

lemma writeInitialFenceBlob_kept:
  "git_laws G \<Longrightarrow> writeInitialFenceBlob G rt now g = (fence, g') \<Longrightarrow> refs_kept G g g'"
  using git_hash_object(3) by (fastforce simp: writeInitialFenceBlob_def refs_kept_def)

lemma ensure_existing:
  assumes laws: "git_laws G" and rd: "readHubLandingPolicy f = Some p"
    and e: "ensureHubLandingPolicy G rt ident now (f, g) = (Inr r, f', g')"
  shows "r = \<lparr>er_created = False, er_policy = p\<rparr> \<and> f' = f \<and> refs_kept G g g'
    \<and> g_rev_parse G g' (p_publishTargetRef p) \<noteq> None \<and> g_rev_parse G g' (p_fenceRef p) \<noteq> None"
proof -
  from e rd obtain headOid where head: "g_rev_parse G g ''HEAD'' = Some headOid"
    by (cases "g_rev_parse G g ''HEAD''") (simp_all add: ensureHubLandingPolicy_def)
  obtain x g1 where e1: "ensureGitRef G (p_publishTargetRef p) headOid g = (x, g1)" by fastforce
  with e rd head obtain u where x: "x = Inr u"
    by (cases x) (simp_all add: ensureHubLandingPolicy_def)
  note k1 = ensureGitRef_ok [OF laws e1 [unfolded x]]
  then obtain v where t1: "g_rev_parse G g1 (p_publishTargetRef p) = Some v" by blast
  show ?thesis
  proof (cases "g_show_ref G g1 (p_fenceRef p)")
    case True
    then have "g_rev_parse G g1 (p_fenceRef p) \<noteq> None" by (simp add: git_show_ref [OF laws])
    with e rd head e1 x True k1 show ?thesis by (simp add: ensureHubLandingPolicy_def)
  next
    case False
    obtain fence g2 where w: "writeInitialFenceBlob G rt (p_updatedAt p) g1 = (fence, g2)"
      by fastforce
    obtain y g3 where e2: "ensureGitRef G (p_fenceRef p) fence g2 = (y, g3)" by fastforce
    with e rd head e1 x False w obtain u2 where y: "y = Inr u2"
      by (cases y) (simp_all add: ensureHubLandingPolicy_def)
    with e rd head e1 x False w e2 have r: "r = \<lparr>er_created = False, er_policy = p\<rparr>" "f' = f"
        "g' = g3"
      by (simp_all add: ensureHubLandingPolicy_def)
    note k2 = ensureGitRef_ok [OF laws e2 [unfolded y]]
    have kept: "refs_kept G g1 g3"
      using writeInitialFenceBlob_kept [OF laws w] k2 by (blast intro: refs_kept_trans)
    with k1 k2 r t1 show ?thesis by (auto simp: refs_kept_def)
  qed
qed

lemma ensure_fresh:
  assumes laws: "git_laws G" and rd: "readHubLandingPolicy f = None"
    and e: "ensureHubLandingPolicy G rt ident now (f, g) = (Inr r, f', g')"
  shows "\<exists>host. resolveHostTargetBranch G g = Inr host
    \<and> r = \<lparr>er_created = True, er_policy = fresh_policy host ident now\<rparr>
    \<and> f' = Text (policy_json (fresh_policy host ident now)) \<and> refs_kept G g g'
    \<and> g_rev_parse G g' (p_publishTargetRef (er_policy r)) \<noteq> None
    \<and> g_rev_parse G g' (p_fenceRef (er_policy r)) \<noteq> None"
proof -
  from e rd obtain host where host: "resolveHostTargetBranch G g = Inr host"
    by (auto simp: ensureHubLandingPolicy_def split: sum.splits)
  let ?p = "fresh_policy host ident now"
  from e rd host obtain headOid where head: "g_rev_parse G g ''HEAD'' = Some headOid"
    by (cases "g_rev_parse G g ''HEAD''") (simp_all add: ensureHubLandingPolicy_def)
  obtain fence g1 where w: "writeInitialFenceBlob G rt now g = (fence, g1)" by fastforce
  obtain x g2 where e1: "ensureGitRef G (p_publishTargetRef ?p) headOid g1 = (x, g2)" by fastforce
  obtain y g3 where e2: "ensureGitRef G (p_fenceRef ?p) fence g2 = (y, g3)" by fastforce
  from e rd host head w e1 e2 obtain u v where xy: "x = Inr u" "y = Inr v"
      and r: "r = \<lparr>er_created = True, er_policy = ?p\<rparr>" "f' = Text (policy_json ?p)" "g' = g3"
    by (cases x; cases y) (simp_all add: ensureHubLandingPolicy_def Let_def)
  note k1 = ensureGitRef_ok [OF laws e1 [unfolded xy]]
  note k2 = ensureGitRef_ok [OF laws e2 [unfolded xy]]
  have "refs_kept G g g3"
    using writeInitialFenceBlob_kept [OF laws w] k1 k2 by (blast intro: refs_kept_trans)
  moreover obtain v where "g_rev_parse G g2 (p_publishTargetRef ?p) = Some v" using k1 by blast
  ultimately show ?thesis using host r k2 by (auto simp: refs_kept_def)
qed

lemma nonempty_trimmed_append:
  "list_all path_safe s \<Longrightarrow> list_all path_safe t \<Longrightarrow> s \<noteq> [] \<Longrightarrow> trimmed (s @ t)"
  by (rule trimmed_if_no_space) (auto simp: list_all_iff path_safe_not_space)

lemma fresh_policy_ok:
  assumes "trimmed host" and "trimmed now" and "\<forall>c \<in> set ident. \<not> js_space c"
  shows "policy_ok (fresh_policy host ident now)"
proof -
  have "trimmed (''refs/archloop/publish/'' @ ident)" and "trimmed (''refs/archloop/fence/'' @ ident)"
    using assms(3) by (auto intro!: trimmed_if_no_space simp: js_space_def)
  with assms(1,2) show ?thesis by (simp add: policy_ok_def fresh_policy_def)
qed

text \<open>
  Setting up the landing policy is idempotent and never moves a ref. Whenever it succeeds, the
  publish target and the fence of the returned policy resolve, every ref that resolved before
  resolves to the same object, and a policy file that already held a readable policy is returned and
  left as it is; a second run then returns the same policy without creating anything.
\<close>

theorem ensure_policy_idempotent:
  assumes "git_laws G" and "trimmed now" and "\<forall>c \<in> set ident. \<not> js_space c"
    and "\<forall>b. resolveHostTargetBranch G g = Inr b \<longrightarrow> trimmed b"
    and "ensureHubLandingPolicy G rt ident now (f, g) = (Inr r, f', g')"
  shows "refs_kept G g g' \<and> readHubLandingPolicy f' = Some (er_policy r)
    \<and> g_rev_parse G g' (p_publishTargetRef (er_policy r)) \<noteq> None
    \<and> g_rev_parse G g' (p_fenceRef (er_policy r)) \<noteq> None
    \<and> (readHubLandingPolicy f \<noteq> None \<longrightarrow> \<not> er_created r \<and> f' = f)
    \<and> (\<forall>rt2 ident2 now2 r2 f2 g2.
          ensureHubLandingPolicy G rt2 ident2 now2 (f', g') = (Inr r2, f2, g2) \<longrightarrow>
          er_policy r2 = er_policy r \<and> \<not> er_created r2 \<and> f2 = f')"
proof -
  have first: "refs_kept G g g' \<and> readHubLandingPolicy f' = Some (er_policy r)
    \<and> g_rev_parse G g' (p_publishTargetRef (er_policy r)) \<noteq> None
    \<and> g_rev_parse G g' (p_fenceRef (er_policy r)) \<noteq> None
    \<and> (readHubLandingPolicy f \<noteq> None \<longrightarrow> \<not> er_created r \<and> f' = f)"
  proof (cases "readHubLandingPolicy f")
    case None
    then obtain host where h: "resolveHostTargetBranch G g = Inr host"
        and r: "er_policy r = fresh_policy host ident now"
          "f' = Text (policy_json (fresh_policy host ident now))"
        and k: "refs_kept G g g'" "g_rev_parse G g' (p_publishTargetRef (er_policy r)) \<noteq> None"
          "g_rev_parse G g' (p_fenceRef (er_policy r)) \<noteq> None"
      using ensure_fresh [OF assms(1) None assms(5)] by auto
    have "policy_ok (fresh_policy host ident now)"
      using assms(2-4) h by (intro fresh_policy_ok) auto
    then have "readHubLandingPolicy f' = Some (er_policy r)"
      by (simp add: readHubLandingPolicy_def r policy_codec.read_written del: read_json_file.simps)
    with None k show ?thesis by simp
  next
    case (Some p)
    with ensure_existing [OF assms(1) Some assms(5)] show ?thesis by simp
  qed
  have "er_policy r2 = er_policy r \<and> \<not> er_created r2 \<and> f2 = f'"
    if "ensureHubLandingPolicy G rt2 ident2 now2 (f', g') = (Inr r2, f2, g2)"
    for rt2 ident2 now2 r2 f2 g2
    using ensure_existing [OF assms(1) _ that] first by simp
  with first show ?thesis by blast
qed

definition demo_runtime :: runtime where
  "demo_runtime = \<lparr>rt_sha256 = (\<lambda>s. ''d''), rt_pid = 7, rt_bootId = None, rt_uuid = ''u''\<rparr>"

definition demo_repo :: "oid \<Rightarrow> mem_repo" where
  "demo_repo head = \<lparr>mr_refs = [(''HEAD'', head)], mr_objects = [], mr_history = [head]\<rparr>"

lemma demo_trimmed: "trimmed ''now''" "trimmed ''main''" "\<forall>c \<in> set ''p-1''. \<not> js_space c"
  by (simp_all add: trimmed_def js_trim_def js_space_def)

theorem ensure_policy_idempotent_witness:
  "\<exists>r f' g'. ensureHubLandingPolicy mem_git demo_runtime ''p-1'' ''now'' (NoFile, demo_repo ''h'')
       = (Inr r, f', g') \<and> readHubLandingPolicy f' = Some (er_policy r)"
proof -
  let ?e = "ensureHubLandingPolicy mem_git demo_runtime ''p-1'' ''now'' (NoFile, demo_repo ''h'')"
  have "case fst ?e of Inl _ \<Rightarrow> False | Inr _ \<Rightarrow> True" by code_simp
  then obtain r f' g' where e: "?e = (Inr r, f', g')"
    by (cases ?e) (auto split: sum.splits)
  have "\<forall>b. resolveHostTargetBranch mem_git (demo_repo ''h'') = Inr b \<longrightarrow> trimmed b"
    by (simp add: resolveHostTargetBranch_def mem_git_def demo_trimmed)
  from ensure_policy_idempotent [OF mem_git_laws demo_trimmed(1,3) this e] e show ?thesis
    by blast
qed

lemma resolve_remote_trimmed:
  "opt_ok trimmed cur \<Longrightarrow> opt_ok trimmed (resolveConfiguredRemoteTarget i cur)"
  by (cases "(i, cur)" rule: resolveConfiguredRemoteTarget.cases) (auto simp: js_trim_trimmed)

lemma readString_cong: "jget a k = jget b k \<Longrightarrow> readString a k = readString b k"
  by (simp add: readString_def)

lemma zero_timeout_parses_as_none:
  "parseHubLandingPolicy (policy_json (p\<lparr>p_deliveryTimeoutMs := Some 0\<rparr>))
     = parseHubLandingPolicy (policy_json (p\<lparr>p_deliveryTimeoutMs := None\<rparr>))"
proof -
  let ?k = "\<lambda>t. readObject (policy_json (p\<lparr>p_deliveryTimeoutMs := t\<rparr>))"
  have other: "jget (?k (Some 0)) f = jget (?k None) f" if "f \<noteq> ''deliveryTimeoutMs''" for f
    using that by (simp add: policy_json_get)
  have strings: "readString (?k (Some 0)) f = readString (?k None) f" if "f \<noteq> ''deliveryTimeoutMs''" for f
    by (rule readString_cong) (rule other [OF that])
  have "parse_timeout (jget (?k (Some 0)) ''deliveryTimeoutMs'') = None"
    "parse_timeout (jget (?k None) ''deliveryTimeoutMs'') = None"
    by (simp_all add: policy_json_get jint_def)
  then show ?thesis
    by (simp add: parseHubLandingPolicy_def other strings Let_def
        cong del: option.case_cong_weak prod.case_cong_weak)
qed

lemma readString_trimmed: "readString kvs k = Some s \<Longrightarrow> trimmed s"
proof -
  assume r: "readString kvs k = Some s"
  then obtain u where "jget kvs k = Some (JStr u)" "nonblank u" "s = js_trim u"
    by (cases "jget kvs k") (simp_all add: readString_def split: json.split_asm if_split_asm)
  then show ?thesis by (simp add: js_trim_trimmed js_trim_eq_Nil)
qed

lemma parsed_policy:
  assumes "parseHubLandingPolicy v = Some p"
  shows "policy_ok (p\<lparr>p_deliveryTimeoutMs := None\<rparr>) \<and> opt_ok (\<lambda>t. 0 \<le> t) (p_deliveryTimeoutMs p)"
proof -
  let ?kvs = "readObject v"
  have "opt_ok (\<lambda>t. 0 \<le> t) (parse_timeout x)" for x
    by (cases x rule: parse_timeout.cases) simp_all
  moreover have "opt_ok trimmed (readString ?kvs k)" for k
    using readString_trimmed by (cases "readString ?kvs k") simp_all
  ultimately show ?thesis
    using assms
    by (auto simp: parseHubLandingPolicy_def policy_ok_def Let_def readString_trimmed
        split: option.splits if_splits)
qed

text \<open>What a reader of the file sees of the timeout that was written.\<close>

definition timeout_read_back :: "HubLandingPolicy \<Rightarrow> HubLandingPolicy" where
  "timeout_read_back q =
     (if p_deliveryTimeoutMs q = Some 0 then q\<lparr>p_deliveryTimeoutMs := None\<rparr> else q)"

lemma written_policy_read:
  assumes "policy_ok (q\<lparr>p_deliveryTimeoutMs := None\<rparr>)" and "opt_ok (\<lambda>t. 0 \<le> t) (p_deliveryTimeoutMs q)"
  shows "readHubLandingPolicy (Text (policy_json q)) = Some (timeout_read_back q)"
proof (cases "p_deliveryTimeoutMs q = Some 0")
  case True
  then have "q\<lparr>p_deliveryTimeoutMs := Some 0\<rparr> = q" by simp
  then have "parseHubLandingPolicy (policy_json q) = Some (q\<lparr>p_deliveryTimeoutMs := None\<rparr>)"
    using zero_timeout_parses_as_none [of q] policy_roundtrip [OF assms(1)] by simp
  with True show ?thesis by (simp add: readHubLandingPolicy_def timeout_read_back_def)
next
  case False
  then have "policy_ok q"
    using assms by (cases "p_deliveryTimeoutMs q") (simp_all add: policy_ok_def)
  with False show ?thesis
    by (simp add: readHubLandingPolicy_def timeout_read_back_def policy_roundtrip)
qed

lemma ensured_policy:
  assumes "git_laws G" and "trimmed now" and "\<forall>c \<in> set ident. \<not> js_space c"
    and "\<forall>b. resolveHostTargetBranch G g = Inr b \<longrightarrow> trimmed b"
    and "ensureHubLandingPolicy G rt ident now (f, g) = (Inr r, f', g')"
  shows "policy_ok ((er_policy r)\<lparr>p_deliveryTimeoutMs := None\<rparr>)
    \<and> opt_ok (\<lambda>t. 0 \<le> t) (p_deliveryTimeoutMs (er_policy r))"
proof (cases "readHubLandingPolicy f")
  case None
  then obtain host where "resolveHostTargetBranch G g = Inr host" "er_policy r = fresh_policy host ident now"
    using ensure_fresh [OF assms(1) _ assms(5)] by auto
  then show ?thesis
    using fresh_policy_ok [of host now ident] assms(2-4) by (simp add: policy_ok_def fresh_policy_def)
next
  case (Some p)
  then have "er_policy r = p" using ensure_existing [OF assms(1) Some assms(5)] by simp
  moreover obtain v where "parseHubLandingPolicy v = Some p"
    using Some by (cases f) (simp_all add: readHubLandingPolicy_def)
  ultimately show ?thesis using parsed_policy by blast
qed

text \<open>
  C27: Configuring the policy with at least one setting writes a file that every later reader reads as the
  returned policy, except that a delivery timeout of less than a millisecond, which is floored to zero, is
  lost to the reader; it keeps the pinned host branch, publish target, fence and creation time of the policy
  that was there or was set up, keeps every setting whose argument is \<open>undefined\<close>, and clears the remote
  target and the timeout whose argument is \<open>null\<close>.
\<close>

theorem configured_policy_read_back:
  assumes "git_laws G" and "trimmed now" and "\<forall>c \<in> set ident. \<not> js_space c"
    and "\<forall>b. resolveHostTargetBranch G g = Inr b \<longrightarrow> trimmed b"
    and "ensureHubLandingPolicy G rt ident now (f, g) = (Inr r, f0, g0)" and "p = er_policy r"
    and "ci_publishPolicy ci \<noteq> None \<or> ci_remoteTarget ci \<noteq> None \<or> ci_deliveryTimeoutMs ci \<noteq> None"
  shows "\<exists>q f'. configureHubLandingPolicy G rt ident ci now (f, g) = (Inr q, f', g0)
    \<and> readHubLandingPolicy f' =
        Some (if p_deliveryTimeoutMs q = Some 0 then q\<lparr>p_deliveryTimeoutMs := None\<rparr> else q)
    \<and> p_hostTargetBranch q = p_hostTargetBranch p
    \<and> p_publishTargetRef q = p_publishTargetRef p \<and> p_fenceRef q = p_fenceRef p
    \<and> p_createdAt q = p_createdAt p \<and> p_updatedAt q = now
    \<and> p_publishPolicy q = (case ci_publishPolicy ci of None \<Rightarrow> p_publishPolicy p | Some x \<Rightarrow> x)
    \<and> p_remoteTarget q = (case ci_remoteTarget ci of None \<Rightarrow> p_remoteTarget p
        | Some None \<Rightarrow> None | Some (Some s) \<Rightarrow> if js_trim s = [] then None else Some (js_trim s))
    \<and> p_deliveryTimeoutMs q = (case ci_deliveryTimeoutMs ci of None \<Rightarrow> p_deliveryTimeoutMs p
        | Some None \<Rightarrow> None | Some (Some t) \<Rightarrow> if t \<le> 0 then None else Some \<lfloor>t\<rfloor>)"
proof -
  let ?q = "configured_policy ci now p"
  have p: "policy_ok (p\<lparr>p_deliveryTimeoutMs := None\<rparr>)" "opt_ok (\<lambda>t. 0 \<le> t) (p_deliveryTimeoutMs p)"
    using ensured_policy [OF assms(1-5)] assms(6) by simp_all
  have remote: "opt_ok trimmed (p_remoteTarget ?q)"
    using resolve_remote_trimmed [of "p_remoteTarget p" "ci_remoteTarget ci"] p(1)
    by (auto simp: configured_policy_def policy_ok_def split: option.splits)
  have target: "p_remoteTarget ?q = (case ci_remoteTarget ci of None \<Rightarrow> p_remoteTarget p
        | Some None \<Rightarrow> None | Some (Some s) \<Rightarrow> if js_trim s = [] then None else Some (js_trim s))"
    using p(1) by (auto simp: configured_policy_def policy_ok_def trimmed_def split: option.splits)
  have timeout: "opt_ok (\<lambda>t. 0 \<le> t) (p_deliveryTimeoutMs ?q)"
    using p(2) by (cases "(ci_deliveryTimeoutMs ci, p_deliveryTimeoutMs p)" rule: resolveConfiguredDeliveryTimeoutMs.cases)
      (auto simp: configured_policy_def)
  have "policy_ok (?q\<lparr>p_deliveryTimeoutMs := None\<rparr>)"
    using p(1) assms(2) remote by (simp add: policy_ok_def configured_policy_def)
  then have "readHubLandingPolicy (Text (policy_json ?q)) = Some (timeout_read_back ?q)"
    using timeout by (rule written_policy_read)
  moreover have "configureHubLandingPolicy G rt ident ci now (f, g) = (Inr ?q, Text (policy_json ?q), g0)"
    using assms(5-7) by (auto simp: configureHubLandingPolicy_def Let_def)
  moreover have "p_updatedAt ?q = now" "p_hostTargetBranch ?q = p_hostTargetBranch p"
      "p_publishTargetRef ?q = p_publishTargetRef p" "p_fenceRef ?q = p_fenceRef p" "p_createdAt ?q = p_createdAt p"
      "p_publishPolicy ?q = (case ci_publishPolicy ci of None \<Rightarrow> p_publishPolicy p | Some x \<Rightarrow> x)"
      "p_deliveryTimeoutMs ?q = (case ci_deliveryTimeoutMs ci of None \<Rightarrow> p_deliveryTimeoutMs p
        | Some None \<Rightarrow> None | Some (Some t) \<Rightarrow> if t \<le> 0 then None else Some \<lfloor>t\<rfloor>)"
    by (simp_all add: configured_policy_def split: option.split)
  ultimately show ?thesis
    using target unfolding timeout_read_back_def by (intro exI conjI) simp_all
qed

theorem configured_policy_read_back_witness:
  "\<exists>q f' g'. configureHubLandingPolicy mem_git demo_runtime ''p-1'' \<lparr>ci_publishPolicy = Some Required,
         ci_remoteTarget = Some None, ci_deliveryTimeoutMs = Some (Some (1/2))\<rparr> ''now'' (NoFile, demo_repo ''h'')
       = (Inr q, f', g')
     \<and> p_deliveryTimeoutMs q = Some 0 \<and> p_publishPolicy q = Required
     \<and> readHubLandingPolicy f' = Some (q\<lparr>p_deliveryTimeoutMs := None\<rparr>)"
proof -
  let ?e = "ensureHubLandingPolicy mem_git demo_runtime ''p-1'' ''now'' (NoFile, demo_repo ''h'')"
  let ?ci = "\<lparr>ci_publishPolicy = Some Required, ci_remoteTarget = Some None, ci_deliveryTimeoutMs = Some (Some (1/2 :: rat))\<rparr>"
  have "case fst ?e of Inl _ \<Rightarrow> False | Inr _ \<Rightarrow> True" by code_simp
  then obtain r f' g' where e: "?e = (Inr r, f', g')"
    by (cases ?e) (auto split: sum.splits)
  have host: "\<forall>b. resolveHostTargetBranch mem_git (demo_repo ''h'') = Inr b \<longrightarrow> trimmed b"
    by (simp add: resolveHostTargetBranch_def mem_git_def demo_trimmed)
  have half: "\<lfloor>1/2 :: rat\<rfloor> = 0" by (simp add: floor_unique)
  obtain q f'' where q: "configureHubLandingPolicy mem_git demo_runtime ''p-1'' ?ci ''now'' (NoFile, demo_repo ''h'')
        = (Inr q, f'', g')"
      "readHubLandingPolicy f'' = Some (if p_deliveryTimeoutMs q = Some 0 then q\<lparr>p_deliveryTimeoutMs := None\<rparr> else q)"
      "p_publishPolicy q = Required" "p_deliveryTimeoutMs q = Some 0"
    using configured_policy_read_back [where ci = ?ci, OF mem_git_laws demo_trimmed(1,3) host e refl] half by auto
  then show ?thesis by auto
qed

end
