(* ===== verification/Landing_Transaction.thy ===== *)
theory Landing_Transaction
  imports Landing_Policy
begin

text \<open>
  The landing journal (\<open>src/src/hubLandingTransaction.ts\<close>): checkpoints and their ranks, one
  journal record and its parser, the reduction of a journal to a transaction state, the append of
  a checkpoint, and the proof object that decides whether a task has shipped.
\<close>

subsection \<open>Checkpoints\<close>

datatype checkpoint =
    Opened
  | BasePinned
  | CandidateCreated
  | CandidateVerified
  | TargetLanded
  | TaskClosed
  | Cleaned

definition HUB_LANDING_CHECKPOINTS :: "checkpoint list" where
  "HUB_LANDING_CHECKPOINTS =
     [Opened, BasePinned, CandidateCreated, CandidateVerified, TargetLanded, TaskClosed, Cleaned]"

fun checkpoint_name :: "checkpoint \<Rightarrow> string" where
  "checkpoint_name Opened = ''opened''"
| "checkpoint_name BasePinned = ''base_pinned''"
| "checkpoint_name CandidateCreated = ''candidate_created''"
| "checkpoint_name CandidateVerified = ''candidate_verified''"
| "checkpoint_name TargetLanded = ''target_landed''"
| "checkpoint_name TaskClosed = ''task_closed''"
| "checkpoint_name Cleaned = ''cleaned''"

text \<open>\<open>CHECKPOINT_RANK\<close>: the index of a checkpoint in the list.\<close>

fun checkpoint_rank :: "checkpoint \<Rightarrow> nat" where
  "checkpoint_rank Opened = 0"
| "checkpoint_rank BasePinned = 1"
| "checkpoint_rank CandidateCreated = 2"
| "checkpoint_rank CandidateVerified = 3"
| "checkpoint_rank TargetLanded = 4"
| "checkpoint_rank TaskClosed = 5"
| "checkpoint_rank Cleaned = 6"

lemma checkpoint_rank_index:
  "checkpoint_rank c < length HUB_LANDING_CHECKPOINTS
     \<and> HUB_LANDING_CHECKPOINTS ! checkpoint_rank c = c"
  by (cases c) (simp_all add: HUB_LANDING_CHECKPOINTS_def)

lemma checkpoint_rank_inject: "checkpoint_rank a = checkpoint_rank b \<longleftrightarrow> a = b"
  by (cases a; cases b) simp_all

instantiation checkpoint :: linorder
begin

definition less_eq_checkpoint :: "checkpoint \<Rightarrow> checkpoint \<Rightarrow> bool" where
  "a \<le> b \<longleftrightarrow> checkpoint_rank a \<le> checkpoint_rank b"

definition less_checkpoint :: "checkpoint \<Rightarrow> checkpoint \<Rightarrow> bool" where
  "a < b \<longleftrightarrow> checkpoint_rank a < checkpoint_rank b"

instance
  by standard
    (auto simp: less_eq_checkpoint_def less_checkpoint_def checkpoint_rank_inject)

end

text \<open>\<open>isCheckpoint\<close> together with the value it accepts.\<close>

fun parse_checkpoint :: "json option \<Rightarrow> checkpoint option" where
  "parse_checkpoint (Some (JStr s)) =
     find (\<lambda>c. checkpoint_name c = s) HUB_LANDING_CHECKPOINTS"
| "parse_checkpoint _ = None"

lemma find_checkpoint_name:
  "find (\<lambda>c'. checkpoint_name c' = checkpoint_name c) HUB_LANDING_CHECKPOINTS = Some c"
  by (cases c) (simp_all add: HUB_LANDING_CHECKPOINTS_def)


subsection \<open>Journal records\<close>

text \<open>The optional fields that records and states share.\<close>

record txn_evidence =
  ev_sourceOid :: "oid option"
  ev_baseOid :: "oid option"
  ev_candidateOid :: "oid option"
  ev_candidateRef :: "string option"
  ev_verifierFingerprint :: "string option"
  ev_verificationArtifactPath :: "string option"
  ev_publishTargetOid :: "oid option"
  ev_fenceOid :: "oid option"
  ev_receiptRef :: "string option"
  ev_receiptOid :: "oid option"
  ev_filteredBeadsRuntimePaths :: "string list option"

record HubLandingTransactionRecord = txn_evidence +
  r_checkpoint :: checkpoint
  r_transactionId :: txn_id
  r_taskId :: task_id
  r_createdAt :: iso_time

record HubLandingTransactionState = txn_evidence +
  st_transactionId :: txn_id
  st_taskId :: task_id
  st_checkpoint :: checkpoint
  st_records :: "HubLandingTransactionRecord list"
  st_openedAt :: iso_time
  st_updatedAt :: iso_time

definition no_evidence :: txn_evidence where
  "no_evidence = \<lparr>ev_sourceOid = None, ev_baseOid = None, ev_candidateOid = None,
     ev_candidateRef = None, ev_verifierFingerprint = None, ev_verificationArtifactPath = None,
     ev_publishTargetOid = None, ev_fenceOid = None, ev_receiptRef = None, ev_receiptOid = None,
     ev_filteredBeadsRuntimePaths = None\<rparr>"

text \<open>
  A record with no optional field: the object literals of the callers list only the fields
  they set.
\<close>

definition plain_record ::
    "checkpoint \<Rightarrow> txn_id \<Rightarrow> task_id \<Rightarrow> iso_time \<Rightarrow> HubLandingTransactionRecord" where
  "plain_record c tx t tm =
     txn_evidence.extend no_evidence
       \<lparr>r_checkpoint = c, r_transactionId = tx, r_taskId = t, r_createdAt = tm\<rparr>"

text \<open>\<open>resolveHubLandingTransactionId\<close>; \<open>sha256\<close> is \<open>createHash("sha256")...digest("hex")\<close>.\<close>

definition resolveHubLandingTransactionId ::
    "(string \<Rightarrow> string) \<Rightarrow> task_id \<Rightarrow> oid \<Rightarrow> oid \<Rightarrow> txn_id" where
  "resolveHubLandingTransactionId sha256 t src base =
     (let digest = take 16 (sha256 (t @ CHR 0x00 # src @ CHR 0x00 # base))
      in ''ltx-'' @ safeTaskId t @ CHR ''-'' # digest)"

definition parseHubLandingTransactionRecord :: "json \<Rightarrow> HubLandingTransactionRecord option" where
  "parseHubLandingTransactionRecord v =
    (let kvs = readObject v in
     if jget kvs ''type'' \<noteq> Some (JStr ''checkpoint'') then None
     else
     (case (parse_checkpoint (jget kvs ''checkpoint''), readString kvs ''transactionId'',
            readString kvs ''taskId'', readString kvs ''createdAt'') of
        (Some c, Some tx, Some t, Some tm) \<Rightarrow>
          (let sourceOid = readString kvs ''sourceOid'';
               baseOid = readString kvs ''baseOid'';
               candidateOid = readString kvs ''candidateOid'';
               publishTargetOid = readString kvs ''publishTargetOid'';
               fenceOid = readString kvs ''fenceOid'';
               receiptOid = readString kvs ''receiptOid''
           in if list_ex (\<lambda>v. v \<noteq> None \<and> \<not> isGitOid_opt v)
                   [sourceOid, baseOid, candidateOid, publishTargetOid, fenceOid, receiptOid]
              then None
              else Some \<lparr>ev_sourceOid = sourceOid, ev_baseOid = baseOid,
                ev_candidateOid = candidateOid,
                ev_candidateRef = readString kvs ''candidateRef'',
                ev_verifierFingerprint = readString kvs ''verifierFingerprint'',
                ev_verificationArtifactPath = readString kvs ''verificationArtifactPath'',
                ev_publishTargetOid = publishTargetOid, ev_fenceOid = fenceOid,
                ev_receiptRef = readString kvs ''receiptRef'', ev_receiptOid = receiptOid,
                ev_filteredBeadsRuntimePaths =
                  stringArrayField (jget kvs ''filteredBeadsRuntimePaths''),
                r_checkpoint = c, r_transactionId = tx, r_taskId = t, r_createdAt = tm\<rparr>)
      | _ \<Rightarrow> None))"

text \<open>\<open>JSON.stringify(record)\<close> of \<open>appendHubLandingCheckpoint\<close>.\<close>

definition record_json :: "HubLandingTransactionRecord \<Rightarrow> json" where
  "record_json r = jobj
     [(''type'', Some (JStr ''checkpoint'')),
      (''checkpoint'', Some (JStr (checkpoint_name (r_checkpoint r)))),
      (''transactionId'', Some (JStr (r_transactionId r))),
      (''taskId'', Some (JStr (r_taskId r))),
      (''createdAt'', Some (JStr (r_createdAt r))),
      (''sourceOid'', jstr_opt (ev_sourceOid r)),
      (''baseOid'', jstr_opt (ev_baseOid r)),
      (''candidateOid'', jstr_opt (ev_candidateOid r)),
      (''candidateRef'', jstr_opt (ev_candidateRef r)),
      (''verifierFingerprint'', jstr_opt (ev_verifierFingerprint r)),
      (''verificationArtifactPath'', jstr_opt (ev_verificationArtifactPath r)),
      (''publishTargetOid'', jstr_opt (ev_publishTargetOid r)),
      (''fenceOid'', jstr_opt (ev_fenceOid r)),
      (''receiptRef'', jstr_opt (ev_receiptRef r)),
      (''receiptOid'', jstr_opt (ev_receiptOid r)),
      (''filteredBeadsRuntimePaths'', map_option jstrs (ev_filteredBeadsRuntimePaths r))]"

text \<open>
  The records that survive a write and a read: trimmed strings, Git object ids, and a path list
  that is absent or lists non-blank paths.
\<close>

definition evidence_ok :: "'a txn_evidence_scheme \<Rightarrow> bool" where
  "evidence_ok e \<longleftrightarrow>
     list_all (opt_ok isGitOid)
       [ev_sourceOid e, ev_baseOid e, ev_candidateOid e, ev_publishTargetOid e, ev_fenceOid e,
        ev_receiptOid e]
     \<and> list_all (opt_ok trimmed)
       [ev_candidateRef e, ev_verifierFingerprint e, ev_verificationArtifactPath e,
        ev_receiptRef e]
     \<and> opt_ok (\<lambda>ps. ps \<noteq> [] \<and> list_all nonblank ps) (ev_filteredBeadsRuntimePaths e)"

definition record_ok :: "HubLandingTransactionRecord \<Rightarrow> bool" where
  "record_ok r \<longleftrightarrow> trimmed (r_transactionId r) \<and> trimmed (r_taskId r) \<and> trimmed (r_createdAt r)
     \<and> evidence_ok r"

lemma record_json_get:
  "jget (readObject (record_json r)) k =
     (case map_of
       [(''type'', Some (JStr ''checkpoint'')),
        (''checkpoint'', Some (JStr (checkpoint_name (r_checkpoint r)))),
        (''transactionId'', Some (JStr (r_transactionId r))),
        (''taskId'', Some (JStr (r_taskId r))),
        (''createdAt'', Some (JStr (r_createdAt r))),
        (''sourceOid'', jstr_opt (ev_sourceOid r)),
        (''baseOid'', jstr_opt (ev_baseOid r)),
        (''candidateOid'', jstr_opt (ev_candidateOid r)),
        (''candidateRef'', jstr_opt (ev_candidateRef r)),
        (''verifierFingerprint'', jstr_opt (ev_verifierFingerprint r)),
        (''verificationArtifactPath'', jstr_opt (ev_verificationArtifactPath r)),
        (''publishTargetOid'', jstr_opt (ev_publishTargetOid r)),
        (''fenceOid'', jstr_opt (ev_fenceOid r)),
        (''receiptRef'', jstr_opt (ev_receiptRef r)),
        (''receiptOid'', jstr_opt (ev_receiptOid r)),
        (''filteredBeadsRuntimePaths'', map_option jstrs (ev_filteredBeadsRuntimePaths r))] k
      of None \<Rightarrow> None | Some v \<Rightarrow> v)"
  unfolding record_json_def readObject_jobj
  by (rule jget_defined_fields) simp

lemma record_roundtrip:
  assumes "record_ok r"
  shows "parseHubLandingTransactionRecord (record_json r) = Some r"
proof -
  let ?kvs = "readObject (record_json r)"
  note get = record_json_get [of r]
  note ok = assms [unfolded record_ok_def evidence_ok_def]
  have req: "readString ?kvs ''transactionId'' = Some (r_transactionId r)"
      "readString ?kvs ''taskId'' = Some (r_taskId r)"
      "readString ?kvs ''createdAt'' = Some (r_createdAt r)"
    using ok by (simp_all add: readString_jget_Some get)
  have oids: "readString ?kvs ''sourceOid'' = ev_sourceOid r"
      "readString ?kvs ''baseOid'' = ev_baseOid r"
      "readString ?kvs ''candidateOid'' = ev_candidateOid r"
      "readString ?kvs ''publishTargetOid'' = ev_publishTargetOid r"
      "readString ?kvs ''fenceOid'' = ev_fenceOid r"
      "readString ?kvs ''receiptOid'' = ev_receiptOid r"
    using ok by (simp_all add: readString_opt get opt_ok_git_trimmed)
  have strs: "readString ?kvs ''candidateRef'' = ev_candidateRef r"
      "readString ?kvs ''verifierFingerprint'' = ev_verifierFingerprint r"
      "readString ?kvs ''verificationArtifactPath'' = ev_verificationArtifactPath r"
      "readString ?kvs ''receiptRef'' = ev_receiptRef r"
    using ok by (simp_all add: readString_opt get)
  have ps: "stringArrayField (jget ?kvs ''filteredBeadsRuntimePaths'')
      = ev_filteredBeadsRuntimePaths r"
    using ok by (simp add: get paths_roundtrip)
  have git: "\<not> list_ex (\<lambda>v. v \<noteq> None \<and> \<not> isGitOid_opt v)
      [ev_sourceOid r, ev_baseOid r, ev_candidateOid r, ev_publishTargetOid r, ev_fenceOid r,
       ev_receiptOid r]"
    using ok by (auto dest: opt_ok_git_not_bad)
  have ty: "jget ?kvs ''type'' = Some (JStr ''checkpoint'')"
      "parse_checkpoint (jget ?kvs ''checkpoint'') = Some (r_checkpoint r)"
    by (simp_all add: get find_checkpoint_name)
  show ?thesis
    unfolding parseHubLandingTransactionRecord_def Let_def req oids strs ps ty
    using git by simp
qed

interpretation record_codec: json_codec record_json parseHubLandingTransactionRecord record_ok
  by unfold_locales (rule record_roundtrip)


subsection \<open>Reducing a journal\<close>

text \<open>The records of the journal's own transaction: those whose id is the first record's.\<close>

fun valid_records :: "HubLandingTransactionRecord list \<Rightarrow> HubLandingTransactionRecord list" where
  "valid_records [] = []"
| "valid_records (r0 # rs) =
     r0 # filter (\<lambda>r. r_transactionId r = r_transactionId r0) rs"

text \<open>\<open>field: record.field ?? state.field\<close>, for every shared field.\<close>

definition merge_evidence ::
    "'a txn_evidence_scheme \<Rightarrow> 'b txn_evidence_scheme \<Rightarrow> 'b txn_evidence_scheme" where
  "merge_evidence r s = s\<lparr>
     ev_sourceOid := coalesce (ev_sourceOid r) (ev_sourceOid s),
     ev_baseOid := coalesce (ev_baseOid r) (ev_baseOid s),
     ev_candidateOid := coalesce (ev_candidateOid r) (ev_candidateOid s),
     ev_candidateRef := coalesce (ev_candidateRef r) (ev_candidateRef s),
     ev_verifierFingerprint :=
       coalesce (ev_verifierFingerprint r) (ev_verifierFingerprint s),
     ev_verificationArtifactPath :=
       coalesce (ev_verificationArtifactPath r) (ev_verificationArtifactPath s),
     ev_publishTargetOid := coalesce (ev_publishTargetOid r) (ev_publishTargetOid s),
     ev_fenceOid := coalesce (ev_fenceOid r) (ev_fenceOid s),
     ev_receiptRef := coalesce (ev_receiptRef r) (ev_receiptRef s),
     ev_receiptOid := coalesce (ev_receiptOid r) (ev_receiptOid s),
     ev_filteredBeadsRuntimePaths :=
       coalesce (ev_filteredBeadsRuntimePaths r) (ev_filteredBeadsRuntimePaths s)\<rparr>"

definition initial_state ::
    "HubLandingTransactionRecord list \<Rightarrow> HubLandingTransactionRecord
     \<Rightarrow> HubLandingTransactionState" where
  "initial_state valid r0 =
     txn_evidence.extend (txn_evidence.truncate r0)
       \<lparr>st_transactionId = r_transactionId r0, st_taskId = r_taskId r0,
        st_checkpoint = r_checkpoint r0, st_records = valid,
        st_openedAt = r_createdAt r0, st_updatedAt = r_createdAt r0\<rparr>"

text \<open>One iteration of the loop over \<open>valid.slice(1)\<close>.\<close>

definition reduce_step ::
    "HubLandingTransactionState \<Rightarrow> HubLandingTransactionRecord
     \<Rightarrow> HubLandingTransactionState" where
  "reduce_step s r = (merge_evidence r s)
     \<lparr>st_checkpoint :=
        (if checkpoint_rank (r_checkpoint r) \<ge> checkpoint_rank (st_checkpoint s)
         then r_checkpoint r else st_checkpoint s),
      st_updatedAt := r_createdAt r\<rparr>"

definition reduceHubLandingTransaction ::
    "HubLandingTransactionRecord list \<Rightarrow> HubLandingTransactionState option" where
  "reduceHubLandingTransaction records =
     (let valid = valid_records records in
      case valid of
        [] \<Rightarrow> None
      | r0 # rest \<Rightarrow> Some (foldl reduce_step (initial_state valid r0) rest))"

text \<open>
  The journal of one transaction is one JSON-lines file, found by the transaction id; a line that
  does not parse, as JSON or as a record, is skipped.
\<close>

type_synonym journals = "txn_id \<Rightarrow> jlines"

definition readHubLandingJournal ::
    "journals \<Rightarrow> txn_id \<Rightarrow> HubLandingTransactionRecord list" where
  "readHubLandingJournal js tx = read_json_lines parseHubLandingTransactionRecord (js tx)"

definition loadHubLandingTransaction ::
    "journals \<Rightarrow> txn_id \<Rightarrow> HubLandingTransactionState option" where
  "loadHubLandingTransaction js tx = reduceHubLandingTransaction (readHubLandingJournal js tx)"

datatype journal_error = FailedToReduceJournal txn_id

definition appendHubLandingCheckpoint ::
    "journals \<Rightarrow> HubLandingTransactionRecord
     \<Rightarrow> (journal_error + HubLandingTransactionState) \<times> journals" where
  "appendHubLandingCheckpoint js r =
     (let tx = r_transactionId r;
          js' = js(tx := js tx @ [Some (record_json r)])
      in (case reduceHubLandingTransaction (readHubLandingJournal js' tx) of
            None \<Rightarrow> (Inl (FailedToReduceJournal tx), js')
          | Some s \<Rightarrow> (Inr s, js')))"


subsection \<open>What the reduction computes\<close>

text \<open>The last value a list of records defines for a field.\<close>

definition last_defined :: "('r \<Rightarrow> 'a option) \<Rightarrow> 'r list \<Rightarrow> 'a option" where
  "last_defined f rs = foldl (\<lambda>a r. coalesce (f r) a) None rs"

lemma last_defined_snoc [simp]: "last_defined f (rs @ [r]) = coalesce (f r) (last_defined f rs)"
  by (simp add: last_defined_def)

lemma last_defined_Nil [simp]: "last_defined f [] = None"
  by (simp add: last_defined_def)

lemma last_defined_Some_iff:
  "last_defined f rs = Some v \<longleftrightarrow>
     (\<exists>xs r ys. rs = xs @ r # ys \<and> f r = Some v \<and> (\<forall>y \<in> set ys. f y = None))"
proof (induction rs rule: rev_induct)
  case Nil
  then show ?case by simp
next
  case (snoc r rs)
  show ?case
  proof (cases "f r")
    case None
    have "(\<exists>xs q ys. rs @ [r] = xs @ q # ys \<and> f q = Some v \<and> (\<forall>y \<in> set ys. f y = None))
       \<longleftrightarrow> (\<exists>xs q ys. rs = xs @ q # ys \<and> f q = Some v \<and> (\<forall>y \<in> set ys. f y = None))"
      (is "?L \<longleftrightarrow> ?R")
    proof
      assume ?L
      then obtain xs q ys where eq: "rs @ [r] = xs @ q # ys" and q: "f q = Some v"
          and ys: "\<forall>y \<in> set ys. f y = None" by blast
      from None q have "q \<noteq> r" by auto
      with eq obtain zs where "ys = zs @ [r]"
        by (metis append_is_Nil_conv last.simps last_append last_snoc list.distinct(1)
            rev_exhaust)
      with eq q ys show ?R by auto
    next
      assume ?R
      then obtain xs q ys where "rs = xs @ q # ys" "f q = Some v" "\<forall>y \<in> set ys. f y = None"
        by blast
      with None show ?L by (intro exI [of _ xs] exI [of _ q] exI [of _ "ys @ [r]"]) auto
    qed
    with snoc None show ?thesis by simp
  next
    case (Some w)
    have "(\<exists>xs q ys. rs @ [r] = xs @ q # ys \<and> f q = Some v \<and> (\<forall>y \<in> set ys. f y = None))
       \<longleftrightarrow> w = v" (is "?L \<longleftrightarrow> _")
    proof
      assume ?L
      then obtain xs q ys where eq: "rs @ [r] = xs @ q # ys" and q: "f q = Some v"
          and ys: "\<forall>y \<in> set ys. f y = None" by blast
      have "ys = []"
      proof (rule ccontr)
        assume "ys \<noteq> []"
        with eq have "r \<in> set ys" by (metis last_appendR last_in_set last_snoc last_ConsR
              list.distinct(1))
        with ys Some show False by simp
      qed
      with eq q Some show "w = v" by simp
    next
      assume "w = v"
      with Some show ?L by (intro exI [of _ rs] exI [of _ r] exI [of _ "[]"]) simp
    qed
    with Some show ?thesis by simp
  qed
qed

text \<open>
  The fold over any prefix of the valid records: rank maximum, last defined fields, first ids.
\<close>

lemma merge_evidence_sel [simp]:
  "ev_sourceOid (merge_evidence r s) = coalesce (ev_sourceOid r) (ev_sourceOid s)"
  "ev_baseOid (merge_evidence r s) = coalesce (ev_baseOid r) (ev_baseOid s)"
  "ev_candidateOid (merge_evidence r s) = coalesce (ev_candidateOid r) (ev_candidateOid s)"
  "ev_candidateRef (merge_evidence r s) = coalesce (ev_candidateRef r) (ev_candidateRef s)"
  "ev_verifierFingerprint (merge_evidence r s)
     = coalesce (ev_verifierFingerprint r) (ev_verifierFingerprint s)"
  "ev_verificationArtifactPath (merge_evidence r s)
     = coalesce (ev_verificationArtifactPath r) (ev_verificationArtifactPath s)"
  "ev_publishTargetOid (merge_evidence r s)
     = coalesce (ev_publishTargetOid r) (ev_publishTargetOid s)"
  "ev_fenceOid (merge_evidence r s) = coalesce (ev_fenceOid r) (ev_fenceOid s)"
  "ev_receiptRef (merge_evidence r s) = coalesce (ev_receiptRef r) (ev_receiptRef s)"
  "ev_receiptOid (merge_evidence r s) = coalesce (ev_receiptOid r) (ev_receiptOid s)"
  "ev_filteredBeadsRuntimePaths (merge_evidence r s)
     = coalesce (ev_filteredBeadsRuntimePaths r) (ev_filteredBeadsRuntimePaths s)"
  by (simp_all add: merge_evidence_def)

lemma merge_evidence_state [simp]:
  "st_transactionId (merge_evidence r s) = st_transactionId s"
  "st_taskId (merge_evidence r s) = st_taskId s"
  "st_checkpoint (merge_evidence r s) = st_checkpoint s"
  "st_records (merge_evidence r s) = st_records s"
  "st_openedAt (merge_evidence r s) = st_openedAt s"
  "st_updatedAt (merge_evidence r s) = st_updatedAt s"
  by (simp_all add: merge_evidence_def)

lemma reduce_step_checkpoint: "st_checkpoint (reduce_step s r) = max (st_checkpoint s) (r_checkpoint r)"
  by (simp add: reduce_step_def max_def less_eq_checkpoint_def)

lemma reduce_step_fields [simp]:
  "st_transactionId (reduce_step s r) = st_transactionId s"
  "st_taskId (reduce_step s r) = st_taskId s"
  "st_records (reduce_step s r) = st_records s"
  "st_openedAt (reduce_step s r) = st_openedAt s"
  "st_updatedAt (reduce_step s r) = r_createdAt r"
  by (simp_all add: reduce_step_def)

lemma reduce_step_evidence:
  "txn_evidence.truncate (reduce_step s r) = txn_evidence.truncate (merge_evidence r s)"
  by (simp add: reduce_step_def txn_evidence.defs)

lemma fold_checkpoint:
  "st_checkpoint (foldl reduce_step s rs) = Max (insert (st_checkpoint s) (r_checkpoint ` set rs))"
proof (induction rs rule: rev_induct)
  case Nil
  then show ?case by simp
next
  case (snoc r rs)
  have "Max (insert (st_checkpoint s) (r_checkpoint ` set (rs @ [r])))
      = Max (insert (r_checkpoint r) (insert (st_checkpoint s) (r_checkpoint ` set rs)))"
    by (simp add: insert_commute)
  also have "\<dots> = max (r_checkpoint r) (Max (insert (st_checkpoint s) (r_checkpoint ` set rs)))"
    by (rule Max_insert) simp_all
  finally show ?case using snoc by (simp add: reduce_step_checkpoint max.commute)
qed

lemma fold_ids [simp]:
  "st_transactionId (foldl reduce_step s rs) = st_transactionId s"
  "st_taskId (foldl reduce_step s rs) = st_taskId s"
  "st_records (foldl reduce_step s rs) = st_records s"
  "st_openedAt (foldl reduce_step s rs) = st_openedAt s"
  by (induction rs rule: rev_induct) simp_all

lemma fold_updatedAt:
  "st_updatedAt (foldl reduce_step s rs) = (if rs = [] then st_updatedAt s else r_createdAt (last rs))"
  by (induction rs rule: rev_induct) simp_all

lemma fold_field:
  assumes "\<And>s r. fs (reduce_step s r) = coalesce (fr r) (fs s)"
  shows "fs (foldl reduce_step s rs) = coalesce (last_defined fr rs) (fs s)"
  by (induction rs rule: rev_induct) (simp_all add: assms coalesce_assoc)

lemma last_defined_Cons: "last_defined f (r # rs) = coalesce (last_defined f rs) (f r)"
  by (induction rs rule: rev_induct)
    (simp_all add: last_defined_def coalesce_assoc coalesce_def split: option.splits)

lemma initial_state_sel [simp]:
  "ev_sourceOid (initial_state v r) = ev_sourceOid r"
  "ev_baseOid (initial_state v r) = ev_baseOid r"
  "ev_candidateOid (initial_state v r) = ev_candidateOid r"
  "ev_candidateRef (initial_state v r) = ev_candidateRef r"
  "ev_verifierFingerprint (initial_state v r) = ev_verifierFingerprint r"
  "ev_verificationArtifactPath (initial_state v r) = ev_verificationArtifactPath r"
  "ev_publishTargetOid (initial_state v r) = ev_publishTargetOid r"
  "ev_fenceOid (initial_state v r) = ev_fenceOid r"
  "ev_receiptRef (initial_state v r) = ev_receiptRef r"
  "ev_receiptOid (initial_state v r) = ev_receiptOid r"
  "ev_filteredBeadsRuntimePaths (initial_state v r) = ev_filteredBeadsRuntimePaths r"
  "st_transactionId (initial_state v r) = r_transactionId r"
  "st_taskId (initial_state v r) = r_taskId r"
  "st_checkpoint (initial_state v r) = r_checkpoint r"
  "st_records (initial_state v r) = v"
  "st_openedAt (initial_state v r) = r_createdAt r"
  "st_updatedAt (initial_state v r) = r_createdAt r"
  by (simp_all add: initial_state_def txn_evidence.defs)

lemma reduce_fold:
  "reduceHubLandingTransaction rs =
     (case valid_records rs of [] \<Rightarrow> None
      | r0 # rest \<Rightarrow> Some (foldl reduce_step (initial_state (r0 # rest) r0) rest))"
  by (simp add: reduceHubLandingTransaction_def Let_def split: list.splits)

lemma valid_records_eq_Nil [simp]: "valid_records rs = [] \<longleftrightarrow> rs = []"
  by (cases rs) simp_all

lemma valid_records_same: "list_all (\<lambda>r. r_transactionId r = tx) rs \<Longrightarrow> valid_records rs = rs"
  by (cases rs) (auto simp: list_all_iff intro!: filter_True)

lemma reduce_Nil [simp]: "reduceHubLandingTransaction [] = None"
  by (simp add: reduce_fold)

lemma reduce_None: "reduceHubLandingTransaction rs = None \<longleftrightarrow> rs = []"
  by (cases rs) (simp_all add: reduce_fold)

lemma reduce_field:
  assumes step: "\<And>s r. fs (reduce_step s r) = coalesce (fr r) (fs s)"
    and start: "\<And>v r. fs (initial_state v r) = fr r"
    and red: "reduceHubLandingTransaction rs = Some s"
  shows "fs s = last_defined fr (valid_records rs)"
proof -
  from red obtain r0 rest where v: "valid_records rs = r0 # rest"
      and s: "s = foldl reduce_step (initial_state (r0 # rest) r0) rest"
    by (auto simp: reduce_fold split: list.splits)
  show ?thesis unfolding s v last_defined_Cons
    by (simp add: fold_field [of fs fr, OF step] start)
qed

lemma reduce_checkpoint:
  assumes "reduceHubLandingTransaction rs = Some s"
  shows "st_checkpoint s = Max (r_checkpoint ` set (valid_records rs))"
  using assms by (auto simp: reduce_fold fold_checkpoint split: list.splits)

text \<open>Reading one more record is one more step of the loop.\<close>

lemma reduce_snoc:
  assumes "list_all (\<lambda>q. r_transactionId q = r_transactionId r) rs"
  shows "reduceHubLandingTransaction (rs @ [r]) =
    Some (case reduceHubLandingTransaction rs of
        None \<Rightarrow> initial_state [r] r
      | Some s \<Rightarrow> (reduce_step s r)\<lparr>st_records := rs @ [r]\<rparr>)"
proof -
  have v: "valid_records (rs @ [r]) = rs @ [r]" "valid_records rs = rs"
    using assms by (auto intro!: valid_records_same [of "r_transactionId r"])
  show ?thesis
  proof (cases rs)
    case Nil
    then show ?thesis by (simp add: reduce_fold)
  next
    case (Cons r0 rest)
    have upd: "foldl reduce_step (s\<lparr>st_records := x\<rparr>) qs = (foldl reduce_step s qs)\<lparr>st_records := x\<rparr>"
      for s x qs
      by (induction qs rule: rev_induct) (simp_all add: reduce_step_def merge_evidence_def)
    have ini: "initial_state x r0 = (initial_state y r0)\<lparr>st_records := x\<rparr>" for x y
      by (simp add: initial_state_def txn_evidence.defs)
    have st: "reduce_step (s\<lparr>st_records := x\<rparr>) r = (reduce_step s r)\<lparr>st_records := x\<rparr>" for s x
      by (simp add: reduce_step_def merge_evidence_def)
    have "reduceHubLandingTransaction (rs @ [r]) =
        Some (reduce_step (foldl reduce_step (initial_state (rs @ [r]) r0) rest) r)"
      using v Cons by (simp add: reduce_fold)
    also have "\<dots> = Some ((reduce_step (foldl reduce_step (initial_state rs r0) rest) r)
        \<lparr>st_records := rs @ [r]\<rparr>)"
      by (simp only: ini [of "rs @ [r]" rs] upd st)
    finally show ?thesis using v Cons by (simp add: reduce_fold)
  qed
qed

text \<open>
  The journals a project holds: every record of a journal names that journal's transaction. All
  writers keep this, since the path of the journal is computed from the record.
\<close>

definition journals_ok :: "journals \<Rightarrow> bool" where
  "journals_ok js \<longleftrightarrow>
     (\<forall>tx. list_all (\<lambda>r. r_transactionId r = tx) (readHubLandingJournal js tx))"

lemma read_journal_append:
  "record_ok r \<Longrightarrow>
   readHubLandingJournal (js(r_transactionId r := js (r_transactionId r) @ [Some (record_json r)])) tx
     = (if tx = r_transactionId r then readHubLandingJournal js tx @ [r]
        else readHubLandingJournal js tx)"
  by (simp add: readHubLandingJournal_def record_codec.lines_append)

lemma append_checkpoint:
  assumes "record_ok r" and "journals_ok js"
  shows "appendHubLandingCheckpoint js r =
    (Inr (case loadHubLandingTransaction js (r_transactionId r) of
        None \<Rightarrow> initial_state [r] r
      | Some s \<Rightarrow> (reduce_step s r)\<lparr>st_records := st_records s @ [r]\<rparr>),
     js(r_transactionId r := js (r_transactionId r) @ [Some (record_json r)]))"
proof -
  let ?tx = "r_transactionId r" and ?rs = "readHubLandingJournal js (r_transactionId r)"
  have all: "list_all (\<lambda>q. r_transactionId q = ?tx) ?rs"
    using assms(2) by (simp add: journals_ok_def)
  then have recs: "reduceHubLandingTransaction ?rs = Some s \<Longrightarrow> st_records s = ?rs" for s
    by (auto simp: reduce_fold valid_records_same split: list.splits)
  show ?thesis
  proof (cases "reduceHubLandingTransaction ?rs")
    case None
    then have "reduceHubLandingTransaction (?rs @ [r]) = Some (initial_state [r] r)"
      using reduce_snoc [OF all] by simp
    with None show ?thesis
      by (simp add: appendHubLandingCheckpoint_def Let_def loadHubLandingTransaction_def
          read_journal_append [OF assms(1)])
  next
    case (Some s)
    then have "reduceHubLandingTransaction (?rs @ [r])
        = Some ((reduce_step s r)\<lparr>st_records := st_records s @ [r]\<rparr>)"
      using reduce_snoc [OF all] recs by simp
    with Some show ?thesis
      by (simp add: appendHubLandingCheckpoint_def Let_def loadHubLandingTransaction_def
          read_journal_append [OF assms(1)])
  qed
qed

lemma append_journals_ok:
  assumes "record_ok r" and "journals_ok js"
  shows "journals_ok (snd (appendHubLandingCheckpoint js r))"
  using assms(2) unfolding append_checkpoint [OF assms] journals_ok_def
  by (simp add: read_journal_append [OF assms(1)])


lemma journal_appended:
  assumes "record_ok r" and "journals_ok js" and "appendHubLandingCheckpoint js r = (res, js')"
  shows "\<exists>s. res = Inr s \<and> loadHubLandingTransaction js' (r_transactionId r) = Some s
    \<and> r_checkpoint r \<le> st_checkpoint s
    \<and> (\<forall>s0. loadHubLandingTransaction js (r_transactionId r) = Some s0 \<longrightarrow>
          st_checkpoint s = max (st_checkpoint s0) (r_checkpoint r))"
proof -
  let ?tx = "r_transactionId r"
  let ?s = "case loadHubLandingTransaction js ?tx of None \<Rightarrow> initial_state [r] r
      | Some s \<Rightarrow> (reduce_step s r)\<lparr>st_records := st_records s @ [r]\<rparr>"
  have res: "res = Inr ?s" and js': "js' = js(?tx := js ?tx @ [Some (record_json r)])"
    using append_checkpoint [OF assms(1,2)] assms(3) by simp_all
  have "loadHubLandingTransaction js' ?tx = Some ?s"
    using append_checkpoint [OF assms(1,2)]
    by (simp add: appendHubLandingCheckpoint_def js' Let_def loadHubLandingTransaction_def
        split: option.splits)
  moreover have "r_checkpoint r \<le> st_checkpoint ?s"
    by (simp add: reduce_step_checkpoint split: option.splits)
  ultimately show ?thesis using res by (auto simp: reduce_step_checkpoint)
qed


subsection \<open>Shipped proof\<close>

record HubLandingShippedProof =
  sp_shipped :: bool
  sp_reason :: string
  sp_transactionId :: "txn_id option"
  sp_candidateOid :: "oid option"
  sp_publishTargetOid :: "oid option"

record shipped_input =
  si_publishPolicy :: publish_policy
  si_taskClosed :: bool
  si_transactionId :: "txn_id option"
  si_closedTransactionId :: "txn_id option"
  si_candidateOid :: "oid option"
  si_closedCandidateOid :: "oid option"
  si_publishTargetOid :: "oid option"
  si_legacyClosedGrandfathered :: bool
  si_candidateContainedInTarget :: bool
  si_remotePublicationProven :: bool

text \<open>A string that JavaScript takes for true: present and not empty.\<close>

fun truthy_string :: "string option \<Rightarrow> bool" where
  "truthy_string None = False"
| "truthy_string (Some s) = (s \<noteq> [])"

definition deriveHubLandingShipped :: "shipped_input \<Rightarrow> HubLandingShippedProof" where
  "deriveHubLandingShipped i =
    (let proof_of = (\<lambda>b reason. \<lparr>sp_shipped = b, sp_reason = reason,
           sp_transactionId = si_transactionId i, sp_candidateOid = si_candidateOid i,
           sp_publishTargetOid = si_publishTargetOid i\<rparr>)
     in
     if si_legacyClosedGrandfathered i \<and> si_taskClosed i
     then proof_of True ''legacy_closed_grandfathered''
     else if \<not> si_taskClosed i
     then proof_of False ''task_not_closed''
     else if \<not> truthy_string (si_transactionId i)
             \<or> si_closedTransactionId i \<noteq> si_transactionId i
     then proof_of False ''transaction_metadata_mismatch''
     else if \<not> isGitOid_opt (si_candidateOid i)
     then (proof_of False ''missing_candidate_oid'')\<lparr>sp_candidateOid := None\<rparr>
     else if si_closedCandidateOid i \<noteq> si_candidateOid i
     then proof_of False ''candidate_metadata_mismatch''
     else if \<not> si_candidateContainedInTarget i
             \<and> si_publishTargetOid i \<noteq> si_candidateOid i
     then proof_of False ''publish_target_does_not_contain_candidate''
     else if si_publishPolicy i = Required
     then (if \<not> si_remotePublicationProven i
           then proof_of False ''remote_publication_pending''
           else proof_of True ''verified_landing_matching_closure_and_remote_publication'')
     else proof_of True ''verified_landing_and_matching_closure'')"

lemma truthy_string_iff: "truthy_string v \<longleftrightarrow> (\<exists>s. v = Some s \<and> s \<noteq> [])"
  by (cases v) auto


subsection \<open>Properties\<close>

text \<open>
  Reducing a journal never loses progress and never mixes transactions. The state's checkpoint
  is the greatest checkpoint of the records that carry the first record's transaction id (a late
  record of a lower rank cannot move it back), each candidate, base, target, fence and receipt field
  is the one defined last, and the opening and update times are those of the first and last record.
\<close>

theorem reduce_journal_characterised:
  assumes "reduceHubLandingTransaction rs = Some s"
  shows "st_checkpoint s = Max (r_checkpoint ` set (valid_records rs))
    \<and> st_transactionId s = r_transactionId (hd rs)
    \<and> ev_sourceOid s = last_defined ev_sourceOid (valid_records rs)
    \<and> ev_baseOid s = last_defined ev_baseOid (valid_records rs)
    \<and> ev_candidateOid s = last_defined ev_candidateOid (valid_records rs)
    \<and> ev_publishTargetOid s = last_defined ev_publishTargetOid (valid_records rs)
    \<and> ev_fenceOid s = last_defined ev_fenceOid (valid_records rs)
    \<and> ev_receiptOid s = last_defined ev_receiptOid (valid_records rs)
    \<and> st_openedAt s = r_createdAt (hd rs)
    \<and> st_updatedAt s = r_createdAt (last (valid_records rs))"
proof -
  from assms obtain r0 rest where rs: "rs = r0 # rest"
    by (cases rs) (auto simp: reduce_fold)
  with assms have s: "s = foldl reduce_step (initial_state (valid_records rs) r0)
      (filter (\<lambda>r. r_transactionId r = r_transactionId r0) rest)"
    by (simp add: reduce_fold)
  have ids: "st_transactionId s = r_transactionId (hd rs)" "st_openedAt s = r_createdAt (hd rs)"
      "st_updatedAt s = r_createdAt (last (valid_records rs))"
    by (simp_all add: s rs fold_updatedAt)
  note field = reduce_field [OF _ _ assms]
  show ?thesis
    by (intro conjI reduce_checkpoint [OF assms] ids)
      (rule field; simp add: reduce_step_def)+
qed

theorem reduce_journal_witness:
  "\<exists>s. reduceHubLandingTransaction
       [plain_record CandidateVerified ''ltx'' ''t'' ''1'', plain_record Opened ''ltx'' ''t'' ''2'']
       = Some s \<and> st_checkpoint s = CandidateVerified \<and> st_updatedAt s = ''2''"
proof -
  let ?rs = "[plain_record CandidateVerified ''ltx'' ''t'' ''1'',
      plain_record Opened ''ltx'' ''t'' ''2'']"
  obtain s where s: "reduceHubLandingTransaction ?rs = Some s"
    by (cases "reduceHubLandingTransaction ?rs") (simp_all add: reduce_None)
  have v: "valid_records ?rs = ?rs" by (simp add: plain_record_def txn_evidence.defs)
  from reduce_journal_characterised [OF s] s show ?thesis
    unfolding v
    by (simp add: plain_record_def txn_evidence.defs max_def less_eq_checkpoint_def)
qed

text \<open>
  Appending a well-formed checkpoint to a journal cannot fail, returns exactly the state the
  next load returns, and that state is never behind the journal before the append nor behind the
  appended checkpoint. Journals of other transactions are untouched.
\<close>

theorem append_checkpoint_durable:
  assumes "record_ok r" and "journals_ok js"
    and "appendHubLandingCheckpoint js r = (res, js')"
  shows "(\<exists>s. res = Inr s \<and> loadHubLandingTransaction js' (r_transactionId r) = Some s
        \<and> r_checkpoint r \<le> st_checkpoint s
        \<and> (\<forall>s0. loadHubLandingTransaction js (r_transactionId r) = Some s0 \<longrightarrow>
              st_checkpoint s = max (st_checkpoint s0) (r_checkpoint r)))
    \<and> (\<forall>tx. tx \<noteq> r_transactionId r \<longrightarrow>
          loadHubLandingTransaction js' tx = loadHubLandingTransaction js tx)
    \<and> journals_ok js'"
proof -
  have js': "js' = js(r_transactionId r := js (r_transactionId r) @ [Some (record_json r)])"
    using append_checkpoint [OF assms(1,2)] assms(3) by simp
  have "loadHubLandingTransaction js' tx = loadHubLandingTransaction js tx"
    if "tx \<noteq> r_transactionId r" for tx
    using that by (simp add: js' loadHubLandingTransaction_def read_journal_append [OF assms(1)])
  moreover have "journals_ok js'" using append_journals_ok [OF assms(1,2)] assms(3) by simp
  ultimately show ?thesis using journal_appended [OF assms] by blast
qed

theorem append_checkpoint_durable_witness:
  "loadHubLandingTransaction
     (snd (appendHubLandingCheckpoint (\<lambda>_. []) (plain_record Opened ''ltx'' ''t'' ''1''))) ''ltx''
     \<noteq> None"
proof -
  let ?r = "plain_record Opened ''ltx'' ''t'' ''1''"
  have ok: "record_ok ?r"
    by (simp add: record_ok_def plain_record_def no_evidence_def evidence_ok_def txn_evidence.defs
        trimmed_def js_trim_def js_space_def)
  have jo: "journals_ok (\<lambda>_. [])"
    by (simp add: journals_ok_def readHubLandingJournal_def)
  obtain res js' where e: "appendHubLandingCheckpoint (\<lambda>_. []) ?r = (res, js')" by fastforce
  show ?thesis
    using append_checkpoint_durable [OF ok jo e] e
    by (auto simp: plain_record_def txn_evidence.defs)
qed

end
