(* ===== verification/Hub_State.thy ===== *)
theory Hub_State
  imports Landing_Transaction
begin

text \<open>
  What the landing operations share: the state of a hub project (its files and the Git repository),
  the parameters they run with (the Git commands on worktrees and remotes, the runtime), operations
  that may throw, injected crashes, and the relations between states that operations keep.
\<close>

subsection \<open>Operations that may throw\<close>

text \<open>
  An operation maps a state to a result or a thrown error, with the state it leaves behind in
  either case: a throw does not undo the writes before it. \<open>bind_act\<close> is the sequencing of
  statements, with \<open>await\<close> where the source has it.
\<close>

type_synonym ('s, 'e, 'a) act = "'s \<Rightarrow> ('e + 'a) \<times> 's"

definition ret_act :: "'a \<Rightarrow> ('s, 'e, 'a) act" where
  "ret_act a = (\<lambda>s. (Inr a, s))"

definition throw_act :: "'e \<Rightarrow> ('s, 'e, 'a) act" where
  "throw_act e = (\<lambda>s. (Inl e, s))"

definition bind_act :: "('s, 'e, 'a) act \<Rightarrow> ('a \<Rightarrow> ('s, 'e, 'b) act) \<Rightarrow> ('s, 'e, 'b) act" where
  "bind_act m f = (\<lambda>s. case m s of (Inl e, t) \<Rightarrow> (Inl e, t) | (Inr a, t) \<Rightarrow> f a t)"

text \<open>Reading the state, changing it, and a command that fails with \<open>None\<close>.\<close>

definition gets_act :: "('s \<Rightarrow> 'a) \<Rightarrow> ('s, 'e, 'a) act" where
  "gets_act f = (\<lambda>s. (Inr (f s), s))"

definition modify_act :: "('s \<Rightarrow> 's) \<Rightarrow> ('s, 'e, unit) act" where
  "modify_act f = (\<lambda>s. (Inr (), f s))"

definition demand_act :: "'e \<Rightarrow> ('s \<Rightarrow> 'a option) \<Rightarrow> ('s, 'e, 'a) act" where
  "demand_act e f = (\<lambda>s. case f s of None \<Rightarrow> (Inl e, s) | Some a \<Rightarrow> (Inr a, s))"

text \<open>A statement under a condition, and \<open>try m catch h\<close>.\<close>

definition when_act :: "bool \<Rightarrow> ('s, 'e, unit) act \<Rightarrow> ('s, 'e, unit) act" where
  "when_act b m = (if b then m else ret_act ())"

definition catch_act :: "('s, 'e, 'a) act \<Rightarrow> ('e \<Rightarrow> ('s, 'f, 'a) act) \<Rightarrow> ('s, 'f, 'a) act" where
  "catch_act m h = (\<lambda>s. case m s of (Inl e, t) \<Rightarrow> h e t | (Inr a, t) \<Rightarrow> (Inr a, t))"

text \<open>A \<open>for\<close> loop that collects a result per element.\<close>

fun each_act :: "('a \<Rightarrow> ('s, 'e, 'b) act) \<Rightarrow> 'a list \<Rightarrow> ('s, 'e, 'b list) act" where
  "each_act f [] = ret_act []"
| "each_act f (x # xs) =
     bind_act (f x) (\<lambda>y. bind_act (each_act f xs) (\<lambda>ys. ret_act (y # ys)))"

named_theorems act_defs \<open>unfolding the sequencing of operations\<close>

declare ret_act_def [act_defs] throw_act_def [act_defs] bind_act_def [act_defs]
  gets_act_def [act_defs] modify_act_def [act_defs] demand_act_def [act_defs]
  when_act_def [act_defs] catch_act_def [act_defs]

lemma bind_act_Inr [simp]:
  "bind_act m f s = (Inr b, t) \<longleftrightarrow> (\<exists>a u. m s = (Inr a, u) \<and> f a u = (Inr b, t))"
  by (auto simp: bind_act_def split: prod.splits sum.splits)

lemma bind_act_Inl [simp]:
  "bind_act m f s = (Inl e, t) \<longleftrightarrow>
     m s = (Inl e, t) \<or> (\<exists>a u. m s = (Inr a, u) \<and> f a u = (Inl e, t))"
  by (auto simp: bind_act_def split: prod.splits sum.splits)

text \<open>The laws of sequencing.\<close>

lemma bind_act_assoc: "bind_act (bind_act m f) g = bind_act m (\<lambda>x. bind_act (f x) g)"
  by (simp add: bind_act_def fun_eq_iff split: prod.split sum.split)

lemma bind_act_ret_left: "bind_act (ret_act x) f = f x"
  by (simp add: bind_act_def ret_act_def fun_eq_iff)

lemma bind_act_ret_right: "bind_act m ret_act = m"
  by (simp add: bind_act_def ret_act_def fun_eq_iff split: prod.split sum.split)

lemma ret_act_iff [simp]: "ret_act a s = (r, t) \<longleftrightarrow> r = Inr a \<and> t = s"
  by (auto simp: ret_act_def)

lemma throw_act_iff [simp]: "throw_act e s = (r, t) \<longleftrightarrow> r = Inl e \<and> t = s"
  by (auto simp: throw_act_def)

lemma gets_act_iff [simp]: "gets_act f s = (r, t) \<longleftrightarrow> r = Inr (f s) \<and> t = s"
  by (auto simp: gets_act_def)

lemma modify_act_iff [simp]: "modify_act f s = (r, t) \<longleftrightarrow> r = Inr () \<and> t = f s"
  by (auto simp: modify_act_def)

lemma demand_act_Inr [simp]: "demand_act e f s = (Inr a, t) \<longleftrightarrow> f s = Some a \<and> t = s"
  by (auto simp: demand_act_def split: option.splits)

lemma demand_act_Inl [simp]: "demand_act e f s = (Inl d, t) \<longleftrightarrow> f s = None \<and> d = e \<and> t = s"
  by (auto simp: demand_act_def split: option.splits)

lemma catch_act_Inr [simp]:
  "catch_act m h s = (Inr a, t) \<longleftrightarrow>
     m s = (Inr a, t) \<or> (\<exists>e u. m s = (Inl e, u) \<and> h e u = (Inr a, t))"
  by (auto simp: catch_act_def split: prod.splits sum.splits)

lemma catch_act_Inl [simp]:
  "catch_act m h s = (Inl f, t) \<longleftrightarrow> (\<exists>e u. m s = (Inl e, u) \<and> h e u = (Inl f, t))"
  by (auto simp: catch_act_def split: prod.splits sum.splits)


subsection \<open>Relations that operations keep\<close>

text \<open>
  \<open>moves R m\<close>: whatever \<open>m\<close> does, thrown errors included, the state after it is related to the
  state before it. For a reflexive and transitive \<open>R\<close> this is preserved by every way of putting
  operations together, which the locale states once for all relations.
\<close>

definition moves :: "('s \<Rightarrow> 's \<Rightarrow> bool) \<Rightarrow> ('s, 'e, 'a) act \<Rightarrow> bool" where
  "moves R m \<longleftrightarrow> (\<forall>s. R s (snd (m s)))"

lemma moves_result: "moves R m \<Longrightarrow> m s = (r, t) \<Longrightarrow> R s t"
  by (metis moves_def snd_conv)

locale kept_relation =
  fixes R :: "'s \<Rightarrow> 's \<Rightarrow> bool"
  assumes kept_refl: "R s s"
    and kept_trans: "R s t \<Longrightarrow> R t u \<Longrightarrow> R s u"
begin

lemma moves_ret: "moves R (ret_act a)"
  by (simp add: moves_def ret_act_def kept_refl)

lemma moves_throw: "moves R (throw_act e)"
  by (simp add: moves_def throw_act_def kept_refl)

lemma moves_gets: "moves R (gets_act f)"
  by (simp add: moves_def gets_act_def kept_refl)

lemma moves_demand: "moves R (demand_act e f)"
  by (simp add: moves_def demand_act_def kept_refl split: option.splits)

lemma moves_modify: "(\<And>s. R s (f s)) \<Longrightarrow> moves R (modify_act f)"
  by (simp add: moves_def modify_act_def)

lemma moves_bind: "moves R m \<Longrightarrow> (\<And>a. moves R (f a)) \<Longrightarrow> moves R (bind_act m f)"
  unfolding moves_def bind_act_def
  by (auto split: prod.splits sum.splits) (metis snd_conv kept_trans)+

lemma moves_when: "moves R m \<Longrightarrow> moves R (when_act b m)"
  by (simp add: when_act_def moves_ret)

lemma moves_catch: "moves R m \<Longrightarrow> (\<And>e. moves R (h e)) \<Longrightarrow> moves R (catch_act m h)"
  unfolding moves_def catch_act_def
  by (auto split: prod.splits sum.splits) (metis snd_conv kept_trans)+

lemma moves_each: "(\<And>x. moves R (f x)) \<Longrightarrow> moves R (each_act f xs)"
  by (induction xs) (auto intro: moves_ret moves_bind)

lemma moves_if: "(b \<Longrightarrow> moves R m) \<Longrightarrow> (\<not> b \<Longrightarrow> moves R n) \<Longrightarrow> moves R (if b then m else n)"
  by simp

lemma moves_case_option:
  "(v = None \<Longrightarrow> moves R m) \<Longrightarrow> (\<And>x. v = Some x \<Longrightarrow> moves R (f x)) \<Longrightarrow>
     moves R (case v of None \<Rightarrow> m | Some x \<Rightarrow> f x)"
  by (cases v) simp_all

lemma moves_case_sum:
  "(\<And>x. v = Inl x \<Longrightarrow> moves R (f x)) \<Longrightarrow> (\<And>y. v = Inr y \<Longrightarrow> moves R (g y)) \<Longrightarrow>
     moves R (case v of Inl x \<Rightarrow> f x | Inr y \<Rightarrow> g y)"
  by (cases v) simp_all

lemmas moves_rules = moves_case_sum moves_ret moves_throw moves_gets moves_demand moves_bind moves_when
  moves_catch moves_each moves_if moves_case_option

end


subsection \<open>Injected crashes\<close>

datatype HubLandingSideEffect =
    SE_candidate_ref
  | SE_verification_artifact
  | SE_landing_lease
  | SE_atomic_landing
  | SE_task_close
  | SE_cleanup
  | SE_checkout_projection
  | SE_publication

record HubLandingFaultInjection =
  crashBefore :: "HubLandingSideEffect option"
  crashAfter :: "HubLandingSideEffect option"

definition no_faults :: HubLandingFaultInjection where
  "no_faults = \<lparr>crashBefore = None, crashAfter = None\<rparr>"

datatype crash_timing = BeforeEffect | AfterEffect

text \<open>
  The errors of the landing operations. The messages of the source are the constructors, their
  interpolated values the arguments.
\<close>

datatype HubLandingPendingKind =
    PendingContention
  | TargetDrift
  | StaleOwnerRejected
  | TargetQuietWait
  | NotQueueHead

record HubLandingOidFields =
  o_expectedTargetOid :: "oid option"
  o_observedTargetOid :: "oid option"
  o_expectedFenceOid :: "oid option"
  o_observedFenceOid :: "oid option"

datatype hub_error =
    HubLandingCrash HubLandingSideEffect crash_timing
  | HubLandingPendingError HubLandingPendingKind HubLandingOidFields
  | PolicyError policy_error
  | JournalError journal_error
  | GitError
  | GitFailure string
      \<comment> \<open>a failed \<open>git merge\<close> with its text\<close>
  | JournalCandidateMismatch oid oid
      \<comment> \<open>\<open>landing_integrity_incident\<close>: journal candidate, candidate ref\<close>
  | ReceiptCandidateMismatch oid oid
      \<comment> \<open>\<open>landing_integrity_incident\<close>: receipt candidate, candidate\<close>
  | ReceiptOutsideTarget txn_id oid
      \<comment> \<open>\<open>landing_integrity_incident\<close>: transaction, candidate\<close>
  | UnverifiedCandidate oid
  | StaleVerificationArtifact txn_id oid oid
  | StaleVerifierFingerprint txn_id
  | VerificationDidNotSucceed txn_id
  | HubLandingWorktreeError hub_error string
      \<comment> \<open>the error of the merge callback, the worktree\<close>
  | OtherError string

definition maybeCrash ::
    "HubLandingFaultInjection \<Rightarrow> HubLandingSideEffect \<Rightarrow> crash_timing \<Rightarrow> ('s, hub_error, unit) act" where
  "maybeCrash fault effect timing =
     (if timing = BeforeEffect \<and> crashBefore fault = Some effect
      then throw_act (HubLandingCrash effect timing)
      else if timing = AfterEffect \<and> crashAfter fault = Some effect
      then throw_act (HubLandingCrash effect timing)
      else ret_act ())"

lemma maybeCrash_no_faults [simp]: "maybeCrash no_faults effect timing = ret_act ()"
  by (simp add: maybeCrash_def no_faults_def)

lemma maybeCrash_state: "maybeCrash fault effect timing s = (r, t) \<Longrightarrow> t = s"
  by (auto simp: maybeCrash_def split: if_splits)




subsection \<open>Git worktrees and remotes\<close>

text \<open>
  The commands of \<open>git worktree\<close> and the commands run inside a worktree, which the landing code uses
  to build a candidate. A command that fails returns \<open>None\<close>; a failed merge may leave a changed
  repository, so it returns the state with its exit status.
\<close>

record 'g git_trees =
  t_exists :: "'g \<Rightarrow> string \<Rightarrow> bool"
    \<comment> \<open>\<open>existsSync(worktreeDir)\<close>\<close>
  t_add :: "'g \<Rightarrow> string \<Rightarrow> oid \<Rightarrow> 'g option"
    \<comment> \<open>\<open>git worktree add --detach dir oid\<close>\<close>
  t_remove :: "'g \<Rightarrow> string \<Rightarrow> 'g option"
    \<comment> \<open>\<open>git worktree remove --force dir\<close>\<close>
  t_delete :: "'g \<Rightarrow> string \<Rightarrow> 'g"
    \<comment> \<open>\<open>rmSync(dir)\<close> followed by \<open>git worktree prune\<close>, whose failure is ignored\<close>
  t_merge :: "'g \<Rightarrow> string \<Rightarrow> string \<Rightarrow> string option \<times> 'g"
    \<comment> \<open>\<open>git merge --no-ff branch\<close> in the worktree: the text of its failure, if it fails\<close>
  t_head :: "'g \<Rightarrow> string \<Rightarrow> oid option"
    \<comment> \<open>\<open>git rev-parse HEAD\<close> in the worktree\<close>
  t_diff_names :: "'g \<Rightarrow> string \<Rightarrow> oid \<Rightarrow> string list option"
    \<comment> \<open>\<open>git diff --name-only --no-renames -z base HEAD\<close>, split at the NUL characters\<close>
  t_has_path :: "'g \<Rightarrow> string \<Rightarrow> oid \<Rightarrow> string \<Rightarrow> bool"
    \<comment> \<open>\<open>git cat-file -e base:path\<close> succeeds\<close>
  t_checkout_path :: "'g \<Rightarrow> string \<Rightarrow> oid \<Rightarrow> string \<Rightarrow> 'g option"
    \<comment> \<open>\<open>git checkout base -- path\<close>\<close>
  t_rm_path :: "'g \<Rightarrow> string \<Rightarrow> string \<Rightarrow> 'g option"
    \<comment> \<open>\<open>git rm -f --ignore-unmatch -- path\<close>\<close>
  t_clean :: "'g \<Rightarrow> string \<Rightarrow> bool option"
    \<comment> \<open>\<open>git status --porcelain=v1\<close> prints nothing\<close>
  t_commit :: "'g \<Rightarrow> string \<Rightarrow> 'g option"
    \<comment> \<open>\<open>git commit --no-verify -m ...\<close>\<close>

text \<open>
  The pushes of the publication outbox: \<open>git push remote oid:ref\<close>, and the same with
  \<open>--force-with-lease=ref:expected\<close>.
\<close>

datatype push_command =
    PushPlain (push_remote: string) (push_oid: oid) (push_ref: string)
  | PushWithLease (push_remote: string) (push_oid: oid) (push_ref: string) (push_lease: oid)

text \<open>
  Remotes. Other clients may change a remote at any time, so each command also returns the state it
  leaves. \<open>Inl\<close> is the trimmed standard error of a failed command, \<open>Inr\<close> its trimmed output.
\<close>

record 'g git_remotes =
  rm_ls_remote :: "'g \<Rightarrow> string \<Rightarrow> string \<Rightarrow> (string + string) \<times> 'g"
    \<comment> \<open>\<open>git ls-remote remote ref\<close>\<close>
  rm_push :: "'g \<Rightarrow> push_command \<Rightarrow> (string + string) \<times> 'g"
  rm_fetch :: "'g \<Rightarrow> string \<Rightarrow> string \<Rightarrow> 'g"
    \<comment> \<open>\<open>git fetch --no-tags remote ref\<close>, whose failure is ignored\<close>


text \<open>
  The user's worktrees, which the checkout projection inspects and fast-forwards. The texts are the
  trimmed output of the commands, except \<open>hw_status\<close>, which is the output as Git prints it.
\<close>

datatype host_command =
    HostCas string oid oid
      \<comment> \<open>\<open>git update-ref ref new old\<close>, hooks disabled\<close>
  | HostFastForward string oid
      \<comment> \<open>\<open>git merge --ff-only oid\<close> in a worktree, hooks disabled\<close>

record 'g host_trees =
  hw_list :: "'g \<Rightarrow> string option"
    \<comment> \<open>\<open>git worktree list --porcelain\<close>\<close>
  hw_verify_ref :: "'g \<Rightarrow> string \<Rightarrow> string \<Rightarrow> bool"
    \<comment> \<open>\<open>git rev-parse -q --verify ref\<close> succeeds in the worktree\<close>
  hw_path_exists :: "'g \<Rightarrow> string \<Rightarrow> string \<Rightarrow> bool"
    \<comment> \<open>the file that \<open>git rev-parse --git-path\<close> names exists\<close>
  hw_sparse :: "'g \<Rightarrow> string \<Rightarrow> string option"
    \<comment> \<open>\<open>git config --bool core.sparseCheckout\<close>\<close>
  hw_ls_files :: "'g \<Rightarrow> string \<Rightarrow> string option"
    \<comment> \<open>\<open>git ls-files -s\<close>\<close>
  hw_ls_tree :: "'g \<Rightarrow> string \<Rightarrow> string \<Rightarrow> string option"
    \<comment> \<open>\<open>git ls-tree -r treeish\<close>\<close>
  hw_status :: "'g \<Rightarrow> string \<Rightarrow> string option"
    \<comment> \<open>\<open>git status --porcelain=v1 --untracked-files=all\<close>\<close>
  hw_run :: "'g \<Rightarrow> host_command \<Rightarrow> bool \<times> 'g"
    \<comment> \<open>whether the command succeeded, and the repository after it\<close>


subsection \<open>The hub project\<close>

text \<open>
  The files of a hub project directory that the landing code owns, and the repository. A map from
  transaction ids stands for one file per transaction directory, an association list for a directory
  of \<open>id.json\<close> files in the order \<open>readdir\<close> lists them.
\<close>

record 'g hub =
  h_git :: 'g
  h_policy :: jfile
  h_journals :: journals
  h_artifact :: "txn_id \<Rightarrow> jfile"
  h_manifest :: "txn_id \<Rightarrow> jfile"
  h_queue :: jfile
  h_lease :: jfile
  h_publication :: "(string \<times> jfile) list"
  h_checkout :: "(string \<times> jfile) list"
  h_repair :: "string \<Rightarrow> jlines"

text \<open>What an operation runs with: the commands, the runtime, and where the project lives.\<close>

record 'g env =
  e_git :: "'g git"
  e_trees :: "'g git_trees"
  e_remotes :: "'g git_remotes"
  e_hosts :: "'g host_trees"
  e_rt :: runtime
  e_collate :: "string \<Rightarrow> rat"
    \<comment> \<open>a sort key for \<open>String.prototype.localeCompare\<close>\<close>
  e_dir :: string
    \<comment> \<open>\<open>hubProjectDir\<close>\<close>
  e_repoRoot :: string
  e_base :: string
    \<comment> \<open>\<open>basename(hubProjectDir)\<close>\<close>
  e_stringify :: "json \<Rightarrow> string"
    \<comment> \<open>the text of \<open>JSON.stringify\<close>\<close>
  e_verifyScript :: "string option"
    \<comment> \<open>the text of \<open>.archloop/verify.sh\<close>\<close>
  e_runtimeKey :: string
    \<comment> \<open>\<open>runtime:...\<close> and \<open>platform:...\<close>, one per line\<close>
  e_fault :: HubLandingFaultInjection

type_synonym ('g, 'a) hub_act = "('g hub, hub_error, 'a) act"

definition gitRead :: "'g env \<Rightarrow> ('g git \<Rightarrow> 'g \<Rightarrow> 'a) \<Rightarrow> ('g, 'a) hub_act" where
  "gitRead E f = gets_act (\<lambda>h. f (e_git E) (h_git h))"

text \<open>\<open>gitText\<close> with \<open>rev-parse\<close>, which throws when the name does not resolve, and \<open>tryGitText\<close>.\<close>

definition revParse :: "'g env \<Rightarrow> string \<Rightarrow> ('g, oid) hub_act" where
  "revParse E name = demand_act GitError (\<lambda>h. g_rev_parse (e_git E) (h_git h) name)"

definition tryRevParse :: "'g env \<Rightarrow> string \<Rightarrow> ('g, oid option) hub_act" where
  "tryRevParse E name = gets_act (\<lambda>h. g_rev_parse (e_git E) (h_git h) name)"

definition gitChange :: "('g \<Rightarrow> 'g option) \<Rightarrow> ('g, unit) hub_act" where
  "gitChange f = (\<lambda>h. case f (h_git h) of
      None \<Rightarrow> (Inl GitError, h) | Some g \<Rightarrow> (Inr (), h\<lparr>h_git := g\<rparr>))"

definition hashObject :: "'g env \<Rightarrow> json \<Rightarrow> ('g, oid) hub_act" where
  "hashObject E v = (\<lambda>h. let (new, g) = g_hash_object (e_git E) (h_git h) v
     in (Inr new, h\<lparr>h_git := g\<rparr>))"

text \<open>The journal and the policy of the project, as operations on its state.\<close>

definition appendCheckpoint ::
    "HubLandingTransactionRecord \<Rightarrow> ('g, HubLandingTransactionState) hub_act" where
  "appendCheckpoint r = (\<lambda>h.
     case appendHubLandingCheckpoint (h_journals h) r of
       (Inl e, js) \<Rightarrow> (Inl (JournalError e), h\<lparr>h_journals := js\<rparr>)
     | (Inr s, js) \<Rightarrow> (Inr s, h\<lparr>h_journals := js\<rparr>))"

definition ensurePolicy :: "'g env \<Rightarrow> iso_time \<Rightarrow> ('g, HubLandingPolicy) hub_act" where
  "ensurePolicy E now = (\<lambda>h.
     case ensureHubLandingPolicy (e_git E) (e_rt E)
            (resolveHubLandingTargetIdentity (rt_sha256 (e_rt E)) (e_dir E) (e_base E)) now
            (h_policy h, h_git h) of
       (Inl e, f, g) \<Rightarrow> (Inl (PolicyError e), h\<lparr>h_policy := f, h_git := g\<rparr>)
     | (Inr r, f, g) \<Rightarrow> (Inr (er_policy r), h\<lparr>h_policy := f, h_git := g\<rparr>))"

definition readPolicy :: "('g, HubLandingPolicy option) hub_act" where
  "readPolicy = gets_act (\<lambda>h. readHubLandingPolicy (h_policy h))"

lemma gitChange_Inr [simp]:
  "gitChange f h = (Inr u, h') \<longleftrightarrow> (\<exists>g. f (h_git h) = Some g \<and> h\<lparr>h_git := g\<rparr> = h')"
  by (cases "f (h_git h)") (simp_all add: gitChange_def)

lemma gitChange_Inl [simp]:
  "gitChange f h = (Inl e, h') \<longleftrightarrow> f (h_git h) = None \<and> GitError = e \<and> h = h'"
  by (cases "f (h_git h)") (simp_all add: gitChange_def)

lemma hashObject_iff [simp]:
  "hashObject E v h = (r, h') \<longleftrightarrow>
     Inr (fst (g_hash_object (e_git E) (h_git h) v)) = r
     \<and> h\<lparr>h_git := snd (g_hash_object (e_git E) (h_git h) v)\<rparr> = h'"
  by (cases "g_hash_object (e_git E) (h_git h) v") (simp add: hashObject_def)

lemma hashObject_eq:
  "hashObject E v h = (Inr (fst (g_hash_object (e_git E) (h_git h) v)),
     h\<lparr>h_git := snd (g_hash_object (e_git E) (h_git h) v)\<rparr>)"
  by (cases "g_hash_object (e_git E) (h_git h) v") (simp add: hashObject_def)

lemma appendCheckpoint_eq:
  "appendCheckpoint r h =
     (map_sum JournalError id (fst (appendHubLandingCheckpoint (h_journals h) r)),
      h\<lparr>h_journals := snd (appendHubLandingCheckpoint (h_journals h) r)\<rparr>)"
proof -
  obtain res js where e: "appendHubLandingCheckpoint (h_journals h) r = (res, js)"
    by (cases "appendHubLandingCheckpoint (h_journals h) r")
  show ?thesis unfolding appendCheckpoint_def e by (cases res) simp_all
qed

end
