(* ===== verification/Hub_Demo.thy ===== *)
theory Hub_Demo
  imports Hub_State
begin

text \<open>
  One concrete world for the witnesses: the repository in memory of \<open>Git_Interface\<close>, one remote branch
  with the log of its pushes, and worktrees that remember their \<open>HEAD\<close>. Its Git commands satisfy the
  laws assumed of Git, so the theorems about an arbitrary Git apply to it.
\<close>

subsection \<open>Git commands on a part of the state\<close>

definition lift_git :: "('w \<Rightarrow> 'g) \<Rightarrow> ('g \<Rightarrow> 'w \<Rightarrow> 'w) \<Rightarrow> 'g git \<Rightarrow> 'w git" where
  "lift_git rd wr G = \<lparr>
     g_rev_parse = (\<lambda>w. g_rev_parse G (rd w)),
     g_show_ref = (\<lambda>w. g_show_ref G (rd w)),
     g_is_ancestor = (\<lambda>w. g_is_ancestor G (rd w)),
     g_object_exists = (\<lambda>w. g_object_exists G (rd w)),
     g_cat_file = (\<lambda>w. g_cat_file G (rd w)),
     g_hash_object = (\<lambda>w v. (fst (g_hash_object G (rd w) v), wr (snd (g_hash_object G (rd w) v)) w)),
     g_update_ref = (\<lambda>w r v. map_option (\<lambda>s. wr s w) (g_update_ref G (rd w) r v)),
     g_transaction = (\<lambda>w cs. map_option (\<lambda>s. wr s w) (g_transaction G (rd w) cs)),
     g_show_current = (\<lambda>w. g_show_current G (rd w)),
     g_symbolic_head = (\<lambda>w. g_symbolic_head G (rd w))\<rparr>"

lemma lift_git_simps [simp]:
  "g_rev_parse (lift_git rd wr G) w = g_rev_parse G (rd w)"
  "g_show_ref (lift_git rd wr G) w = g_show_ref G (rd w)"
  "g_is_ancestor (lift_git rd wr G) w = g_is_ancestor G (rd w)"
  "g_object_exists (lift_git rd wr G) w = g_object_exists G (rd w)"
  "g_cat_file (lift_git rd wr G) w = g_cat_file G (rd w)"
  "g_hash_object (lift_git rd wr G) w v =
     (fst (g_hash_object G (rd w) v), wr (snd (g_hash_object G (rd w) v)) w)"
  "g_update_ref (lift_git rd wr G) w r x = map_option (\<lambda>s. wr s w) (g_update_ref G (rd w) r x)"
  "g_transaction (lift_git rd wr G) w cs = map_option (\<lambda>s. wr s w) (g_transaction G (rd w) cs)"
  by (simp_all add: lift_git_def)

lemma lift_git_laws:
  assumes "\<And>w g. rd (wr g w) = g" and laws: "git_laws G"
  shows "git_laws (lift_git rd wr G)"
  unfolding git_laws_def
proof (intro conjI)
  have holds: "command_holds (lift_git rd wr G) w c = command_holds G (rd w) c" for w c
    by (cases c) simp_all
  show "transaction_law (lift_git rd wr G)"
    unfolding transaction_law_def
  proof (intro allI impI)
    fix w w' and cs :: "ref_command list"
    assume "g_transaction (lift_git rd wr G) w cs = Some w' \<and> distinct (map command_ref cs)"
    then obtain s where s: "g_transaction G (rd w) cs = Some s" "w' = wr s w"
        and d: "distinct (map command_ref cs)" by auto
    note t = git_transaction [OF laws s(1) d]
    show "(\<forall>c\<in>set cs. command_holds (lift_git rd wr G) w c
          \<and> g_rev_parse (lift_git rd wr G) w' (command_ref c) = Some (command_new c))
        \<and> (\<forall>r. r \<notin> command_ref ` set cs \<longrightarrow>
             g_rev_parse (lift_git rd wr G) w' r = g_rev_parse (lift_git rd wr G) w r)
        \<and> same_objects (lift_git rd wr G) w w'"
      using t by (simp add: holds s(2) assms(1) same_objects_def)
  qed
  show "update_ref_law (lift_git rd wr G)"
    unfolding update_ref_law_def
  proof (intro allI impI)
    fix w r new w'
    assume "g_update_ref (lift_git rd wr G) w r new = Some w'"
    then obtain s where s: "g_update_ref G (rd w) r new = Some s" "w' = wr s w" by auto
    show "g_rev_parse (lift_git rd wr G) w' r = Some new
        \<and> (\<forall>q. q \<noteq> r \<longrightarrow> g_rev_parse (lift_git rd wr G) w' q = g_rev_parse (lift_git rd wr G) w q)
        \<and> same_objects (lift_git rd wr G) w w'"
      using git_update_ref [OF laws s(1)] by (simp add: s(2) assms(1) same_objects_def)
  qed
  show "hash_object_law (lift_git rd wr G)"
    unfolding hash_object_law_def
  proof (intro allI)
    fix w v
    obtain new s where "g_hash_object G (rd w) v = (new, s)" by fastforce
    with git_hash_object_law [OF laws this] show "let (new, w') = g_hash_object (lift_git rd wr G) w v in
        g_cat_file (lift_git rd wr G) w' new = Some v
        \<and> (\<forall>obj x. g_cat_file (lift_git rd wr G) w obj = Some x \<longrightarrow>
              g_cat_file (lift_git rd wr G) w' obj = Some x)
        \<and> g_rev_parse (lift_git rd wr G) w' = g_rev_parse (lift_git rd wr G) w
        \<and> g_is_ancestor (lift_git rd wr G) w' = g_is_ancestor (lift_git rd wr G) w"
      by (simp add: assms(1))
  qed
  show "\<forall>s r. g_show_ref (lift_git rd wr G) s r \<longleftrightarrow> g_rev_parse (lift_git rd wr G) s r \<noteq> None"
    unfolding lift_git_simps by (intro allI git_show_ref [OF laws])
  show "\<forall>s a. g_is_ancestor (lift_git rd wr G) s a a"
    unfolding lift_git_simps by (intro allI git_is_ancestor_refl [OF laws])
  have "\<forall>s a b c. g_is_ancestor G s a b \<and> g_is_ancestor G s b c \<longrightarrow> g_is_ancestor G s a c"
    using laws unfolding git_laws_def by (elim conjE)
  then show "\<forall>s a b c. g_is_ancestor (lift_git rd wr G) s a b \<and> g_is_ancestor (lift_git rd wr G) s b c
      \<longrightarrow> g_is_ancestor (lift_git rd wr G) s a c"
    unfolding lift_git_simps by blast
qed


subsection \<open>The demonstration world\<close>

record demo_world =
  dw_repo :: mem_repo
  dw_remote :: "oid option"
  dw_log :: "push_command list"
  dw_trees :: "(string \<times> oid) list"
  dw_host :: "host_command list"
  dw_status :: string

definition demo_git :: "demo_world git" where
  "demo_git = lift_git dw_repo (\<lambda>s w. w\<lparr>dw_repo := s\<rparr>) mem_git"

lemma demo_git_laws: "git_laws demo_git"
  unfolding demo_git_def by (rule lift_git_laws [OF _ mem_git_laws]) simp

text \<open>A merge in a worktree makes the commit named by forty letters \<open>c\<close>.\<close>

definition demo_oid :: "char \<Rightarrow> oid" where
  "demo_oid c = replicate 40 c"

definition demo_trees :: "demo_world git_trees" where
  "demo_trees = \<lparr>
     t_exists = (\<lambda>w d. map_of (dw_trees w) d \<noteq> None),
     t_add = (\<lambda>w d new. Some (w\<lparr>dw_trees := (d, new) # dw_trees w\<rparr>)),
     t_remove = (\<lambda>w d. Some (w\<lparr>dw_trees := filter (\<lambda>p. fst p \<noteq> d) (dw_trees w)\<rparr>)),
     t_delete = (\<lambda>w d. w\<lparr>dw_trees := filter (\<lambda>p. fst p \<noteq> d) (dw_trees w)\<rparr>),
     t_merge = (\<lambda>w d b. (None, w\<lparr>dw_trees := (d, demo_oid (CHR ''c'')) # dw_trees w,
        dw_repo := (dw_repo w)\<lparr>mr_history := mr_history (dw_repo w) @ [demo_oid (CHR ''c'')]\<rparr>\<rparr>)),
     t_head = (\<lambda>w d. map_of (dw_trees w) d),
     t_diff_names = (\<lambda>w d base. Some []),
     t_has_path = (\<lambda>w d base p. False),
     t_checkout_path = (\<lambda>w d base p. Some w),
     t_rm_path = (\<lambda>w d p. Some w),
     t_clean = (\<lambda>w d. Some True),
     t_commit = (\<lambda>w d. Some w)\<rparr>"

definition demo_push :: "demo_world \<Rightarrow> push_command \<Rightarrow> (string + string) \<times> demo_world" where
  "demo_push w c =
    (let w' = w\<lparr>dw_log := dw_log w @ [c]\<rparr>; ok = (Inr [], w'\<lparr>dw_remote := Some (push_oid c)\<rparr>) in
     case c of
       PushPlain _ _ _ \<Rightarrow> if dw_remote w = None then ok else (Inl ''non-fast-forward'', w')
     | PushWithLease _ _ _ lease \<Rightarrow> if dw_remote w = Some lease then ok else (Inl ''stale info'', w'))"

definition demo_remotes :: "demo_world git_remotes" where
  "demo_remotes = \<lparr>
     rm_ls_remote = (\<lambda>w n r. (Inr (case dw_remote w of None \<Rightarrow> [] | Some new \<Rightarrow> new @ CHR 0x09 # r), w)),
     rm_push = demo_push,
     rm_fetch = (\<lambda>w n r. w)\<rparr>"

text \<open>One user worktree at \<open>/repo\<close> on \<open>main\<close>, with the status text of the state.\<close>

definition demo_hosts :: "demo_world host_trees" where
  "demo_hosts = \<lparr>
     hw_list = (\<lambda>w. Some (''worktree /repo'' @ [CHR 0x0A] @ ''branch refs/heads/main'')),
     hw_verify_ref = (\<lambda>w d r. False),
     hw_path_exists = (\<lambda>w d p. False),
     hw_sparse = (\<lambda>w d. None),
     hw_ls_files = (\<lambda>w d. Some []),
     hw_ls_tree = (\<lambda>w d t. Some []),
     hw_status = (\<lambda>w d. Some (dw_status w)),
     hw_run = (\<lambda>w c. (True, w\<lparr>dw_host := dw_host w @ [c]\<rparr>))\<rparr>"

definition demo_env :: "demo_world env" where
  "demo_env = \<lparr>e_git = demo_git, e_trees = demo_trees, e_remotes = demo_remotes,
     e_hosts = demo_hosts, e_rt = demo_runtime, e_collate = (\<lambda>s. 0), e_dir = ''/hub/p'',
     e_repoRoot = ''/repo'', e_base = ''p'', e_stringify = (\<lambda>j. ''j''), e_verifyScript = None, e_runtimeKey = ''k'',
     e_fault = no_faults\<rparr>"

text \<open>A repository whose publish target is at the commit of forty letters \<open>a\<close>, with one branch on it.\<close>

definition demo_state :: demo_world where
  "demo_state = \<lparr>
     dw_repo = \<lparr>mr_refs = [(''HEAD'', demo_oid (CHR ''a'')),
         (''refs/archloop/publish/p-d'', demo_oid (CHR ''a'')),
         (''refs/archloop/fence/p-d'', demo_oid (CHR ''f'')),
         (''feature^{commit}'', demo_oid (CHR ''b''))],
       mr_objects = [(demo_oid (CHR ''f''), JNull)],
       mr_history = [demo_oid (CHR ''a''), demo_oid (CHR ''b'')]\<rparr>,
     dw_remote = None, dw_log = [], dw_trees = [], dw_host = [], dw_status = []\<rparr>"

definition demo_hub :: "demo_world hub" where
  "demo_hub = \<lparr>h_git = demo_state, h_policy = NoFile, h_journals = (\<lambda>_. []),
     h_artifact = (\<lambda>_. NoFile), h_manifest = (\<lambda>_. NoFile), h_queue = NoFile, h_lease = NoFile,
     h_publication = [], h_checkout = [], h_repair = (\<lambda>_. [])\<rparr>"

end
