(* ===== verification/Publication_Outbox.thy ===== *)
theory Publication_Outbox
  imports Hub_Demo "HOL-Library.AList" "HOL-Library.Monad_Syntax"
begin

text \<open>
  The publication outbox (\<open>src/src/hubPublication.ts\<close>): the items that record which landed candidate
  must reach which remote branch, their parser and writer, enqueueing, the projection that observes
  the remote and pushes under a lease, and the loop that drives required delivery to its timeout.
\<close>

subsection \<open>Outbox items\<close>

datatype HubPublicationPendingReason =
    NetworkError
  | CredentialRejected
  | ProtectedBranch
  | RemoteDiverged
  | NoRemoteConfigured
  | TransientRemoteError
  | ObserveFailed
  | RemoteForceRewriteIntegrity

definition HUB_PUBLICATION_PENDING_REASONS :: "HubPublicationPendingReason list" where
  "HUB_PUBLICATION_PENDING_REASONS =
     [NetworkError, CredentialRejected, ProtectedBranch, RemoteDiverged, NoRemoteConfigured,
      TransientRemoteError, ObserveFailed, RemoteForceRewriteIntegrity]"

fun reason_name :: "HubPublicationPendingReason \<Rightarrow> string" where
  "reason_name NetworkError = ''network_error''"
| "reason_name CredentialRejected = ''credential_rejected''"
| "reason_name ProtectedBranch = ''protected_branch''"
| "reason_name RemoteDiverged = ''remote_diverged''"
| "reason_name NoRemoteConfigured = ''no_remote_configured''"
| "reason_name TransientRemoteError = ''transient_remote_error''"
| "reason_name ObserveFailed = ''observe_failed''"
| "reason_name RemoteForceRewriteIntegrity = ''remote_force_rewrite_integrity''"

datatype HubPublicationStatus = PubPending | PubSucceeded

fun publication_status_name :: "HubPublicationStatus \<Rightarrow> string" where
  "publication_status_name PubPending = ''pending''"
| "publication_status_name PubSucceeded = ''succeeded''"

definition GIT_ZERO_OID :: oid where
  "GIT_ZERO_OID = replicate 40 (CHR ''0'')"

definition UNSET_REMOTE_MARKER :: string where
  "UNSET_REMOTE_MARKER = ''(unset)''"

record HubPublicationRemoteTarget =
  pt_remoteName :: string
  pt_branchName :: string
  pt_remoteRef :: string
  pt_remoteTarget :: string

record HubPublicationOutboxItem =
  po_id :: string
  po_transactionId :: txn_id
  po_taskId :: task_id
  po_remoteName :: string
  po_remoteRef :: string
  po_remoteTarget :: string
  po_candidateOid :: oid
  po_expectedRemoteOid :: oid
  po_publishTargetRef :: string
  po_status :: HubPublicationStatus
  po_createdAt :: iso_time
  po_updatedAt :: iso_time
  po_pendingReason :: "HubPublicationPendingReason option"
  po_message :: "string option"
  po_publishedOid :: "oid option"
  po_ambiguousPushAcknowledged :: bool

text \<open>\<open>isPendingReason\<close>, with the value it accepts.\<close>

fun isPendingReason :: "json option \<Rightarrow> HubPublicationPendingReason option" where
  "isPendingReason (Some (JStr s)) =
     find (\<lambda>r. reason_name r = s) HUB_PUBLICATION_PENDING_REASONS"
| "isPendingReason _ = None"

definition parse_publication_status :: "string option \<Rightarrow> HubPublicationStatus option" where
  "parse_publication_status v =
     (if v = Some ''pending'' then Some PubPending
      else if v = Some ''succeeded'' then Some PubSucceeded else None)"

text \<open>\<open>parseHubPublicationRemoteTarget\<close>: the text before and after the first slash.\<close>

definition parseHubPublicationRemoteTarget :: "string \<Rightarrow> HubPublicationRemoteTarget option" where
  "parseHubPublicationRemoteTarget remoteTarget =
     (let t = js_trim remoteTarget;
          remoteName = takeWhile (\<lambda>c. c \<noteq> CHR ''/'') t;
          branchName = drop (Suc (length remoteName)) t
      in if CHR ''/'' \<notin> set t \<or> remoteName = [] \<or> branchName = [] then None
         else Some \<lparr>pt_remoteName = remoteName, pt_branchName = branchName,
           pt_remoteRef = (if startsWith branchName ''refs/'' then branchName
                           else ''refs/heads/'' @ branchName),
           pt_remoteTarget = t\<rparr>)"

definition resolveHubPublicationId ::
    "(string \<Rightarrow> string) \<Rightarrow> txn_id \<Rightarrow> string \<Rightarrow> string \<Rightarrow> oid \<Rightarrow> oid \<Rightarrow> string" where
  "resolveHubPublicationId sha256 tx remoteName remoteRef candidateOid expectedRemoteOid =
     ''pub-'' @ take 16 (sha256 (tx @ CHR 0x00 # remoteName @ CHR 0x00 # remoteRef @ CHR 0x00 #
       candidateOid @ CHR 0x00 # expectedRemoteOid))"

definition parseOutboxItem :: "json \<Rightarrow> HubPublicationOutboxItem option" where
  "parseOutboxItem v =
    (let kvs = readObject v; publishedOid = readString kvs ''publishedOid'' in
     if jget kvs ''version'' \<noteq> Some (jint 1) then None
     else do {
       i \<leftarrow> readString kvs ''id'';
       tx \<leftarrow> readString kvs ''transactionId'';
       t \<leftarrow> readString kvs ''taskId'';
       name \<leftarrow> readString kvs ''remoteName'';
       rref \<leftarrow> readString kvs ''remoteRef'';
       target \<leftarrow> readString kvs ''remoteTarget'';
       cand \<leftarrow> readString kvs ''candidateOid'';
       expected \<leftarrow> readString kvs ''expectedRemoteOid'';
       pub \<leftarrow> readString kvs ''publishTargetRef'';
       status \<leftarrow> parse_publication_status (readString kvs ''status'');
       created \<leftarrow> readString kvs ''createdAt'';
       updated \<leftarrow> readString kvs ''updatedAt'';
       (if \<not> isGitOid cand \<or> \<not> isGitOid expected then None
        else if publishedOid \<noteq> None \<and> \<not> isGitOid_opt publishedOid then None
        else Some \<lparr>po_id = i, po_transactionId = tx, po_taskId = t, po_remoteName = name,
          po_remoteRef = rref, po_remoteTarget = target, po_candidateOid = cand,
          po_expectedRemoteOid = expected, po_publishTargetRef = pub, po_status = status,
          po_createdAt = created, po_updatedAt = updated,
          po_pendingReason = isPendingReason (jget kvs ''pendingReason''),
          po_message = readString kvs ''message'', po_publishedOid = publishedOid,
          po_ambiguousPushAcknowledged =
            (jget kvs ''ambiguousPushAcknowledged'' = Some (JBool True))\<rparr>)
     })"

definition publication_fields :: "HubPublicationOutboxItem \<Rightarrow> (string \<times> json option) list" where
  "publication_fields it =
     [(''version'', Some (jint 1)),
      (''id'', Some (JStr (po_id it))),
      (''transactionId'', Some (JStr (po_transactionId it))),
      (''taskId'', Some (JStr (po_taskId it))),
      (''remoteName'', Some (JStr (po_remoteName it))),
      (''remoteRef'', Some (JStr (po_remoteRef it))),
      (''remoteTarget'', Some (JStr (po_remoteTarget it))),
      (''candidateOid'', Some (JStr (po_candidateOid it))),
      (''expectedRemoteOid'', Some (JStr (po_expectedRemoteOid it))),
      (''publishTargetRef'', Some (JStr (po_publishTargetRef it))),
      (''status'', Some (JStr (publication_status_name (po_status it)))),
      (''createdAt'', Some (JStr (po_createdAt it))),
      (''updatedAt'', Some (JStr (po_updatedAt it))),
      (''pendingReason'', map_option (\<lambda>r. JStr (reason_name r)) (po_pendingReason it)),
      (''message'', jstr_opt (po_message it)),
      (''publishedOid'', jstr_opt (po_publishedOid it)),
      (''ambiguousPushAcknowledged'',
        if po_ambiguousPushAcknowledged it then Some (JBool True) else None)]"

definition publication_json :: "HubPublicationOutboxItem \<Rightarrow> json" where
  "publication_json it = jobj (publication_fields it)"

definition publication_ok :: "HubPublicationOutboxItem \<Rightarrow> bool" where
  "publication_ok it \<longleftrightarrow>
     list_all trimmed
       [po_id it, po_transactionId it, po_taskId it, po_remoteName it, po_remoteRef it,
        po_remoteTarget it, po_publishTargetRef it, po_createdAt it, po_updatedAt it]
     \<and> isGitOid (po_candidateOid it) \<and> isGitOid (po_expectedRemoteOid it)
     \<and> opt_ok trimmed (po_message it) \<and> opt_ok isGitOid (po_publishedOid it)"

lemma publication_json_get:
  "jget (readObject (publication_json it)) k =
     (case map_of (publication_fields it) k of None \<Rightarrow> None | Some v \<Rightarrow> v)"
  unfolding publication_json_def readObject_jobj
  by (rule jget_defined_fields) (simp add: publication_fields_def)

lemma find_reason_name:
  "find (\<lambda>r'. reason_name r' = reason_name r) HUB_PUBLICATION_PENDING_REASONS = Some r"
  by (cases r) (simp_all add: HUB_PUBLICATION_PENDING_REASONS_def)

lemma publication_surjective:
  "\<lparr>po_id = po_id it, po_transactionId = po_transactionId it, po_taskId = po_taskId it,
     po_remoteName = po_remoteName it, po_remoteRef = po_remoteRef it,
     po_remoteTarget = po_remoteTarget it, po_candidateOid = po_candidateOid it,
     po_expectedRemoteOid = po_expectedRemoteOid it,
     po_publishTargetRef = po_publishTargetRef it, po_status = po_status it,
     po_createdAt = po_createdAt it, po_updatedAt = po_updatedAt it,
     po_pendingReason = po_pendingReason it, po_message = po_message it,
     po_publishedOid = po_publishedOid it,
     po_ambiguousPushAcknowledged = po_ambiguousPushAcknowledged it\<rparr> = it"
  by simp

lemma publication_roundtrip:
  assumes "publication_ok it"
  shows "parseOutboxItem (publication_json it) = Some it"
proof -
  let ?kvs = "readObject (publication_json it)"
  note get = publication_json_get [of it, unfolded publication_fields_def]
  note ok = assms [unfolded publication_ok_def]
  have req: "readString ?kvs ''id'' = Some (po_id it)"
      "readString ?kvs ''transactionId'' = Some (po_transactionId it)"
      "readString ?kvs ''taskId'' = Some (po_taskId it)"
      "readString ?kvs ''remoteName'' = Some (po_remoteName it)"
      "readString ?kvs ''remoteRef'' = Some (po_remoteRef it)"
      "readString ?kvs ''remoteTarget'' = Some (po_remoteTarget it)"
      "readString ?kvs ''candidateOid'' = Some (po_candidateOid it)"
      "readString ?kvs ''expectedRemoteOid'' = Some (po_expectedRemoteOid it)"
      "readString ?kvs ''publishTargetRef'' = Some (po_publishTargetRef it)"
      "readString ?kvs ''createdAt'' = Some (po_createdAt it)"
      "readString ?kvs ''updatedAt'' = Some (po_updatedAt it)"
    using ok by (simp_all add: readString_jget_Some get isGitOid_trimmed)
  have opt: "readString ?kvs ''message'' = po_message it"
      "readString ?kvs ''publishedOid'' = po_publishedOid it"
    using ok by (simp_all add: readString_opt get opt_ok_git_trimmed)
  have "trimmed (publication_status_name (po_status it))"
    by (cases "po_status it") (simp_all add: trimmed_def js_trim_def js_space_def)
  then have status: "parse_publication_status (readString ?kvs ''status'') = Some (po_status it)"
    by (simp add: readString_jget_Some get)
      (cases "po_status it"; simp add: parse_publication_status_def)
  have reason: "isPendingReason (jget ?kvs ''pendingReason'') = po_pendingReason it"
    by (simp add: get) (cases "po_pendingReason it"; simp add: find_reason_name)
  have version: "jget ?kvs ''version'' = Some (jint 1)"
    by (simp add: get)
  have enum: "(jget ?kvs ''ambiguousPushAcknowledged'' = Some (JBool True))
        = po_ambiguousPushAcknowledged it"
    by (cases "po_ambiguousPushAcknowledged it") (simp_all add: get)
  have "isGitOid (po_candidateOid it)" "isGitOid (po_expectedRemoteOid it)"
      "\<not> (po_publishedOid it \<noteq> None \<and> \<not> isGitOid_opt (po_publishedOid it))"
    using ok opt_ok_git_not_bad by simp_all
  then show ?thesis
    unfolding parseOutboxItem_def Let_def req opt status reason version enum
    by (simp only: Option.bind.simps if_False if_True simp_thms)
       (simp only: publication_surjective)
qed

interpretation publication_codec: json_codec publication_json parseOutboxItem publication_ok
  by unfold_locales (rule publication_roundtrip)


subsection \<open>The outbox directory\<close>

definition readOutboxItem :: "(string \<times> jfile) list \<Rightarrow> string \<Rightarrow> HubPublicationOutboxItem option" where
  "readOutboxItem d i =
     (case map_of d i of None \<Rightarrow> None | Some f \<Rightarrow> read_json_file parseOutboxItem f)"

definition writeOutboxItem ::
    "(string \<times> jfile) list \<Rightarrow> HubPublicationOutboxItem \<Rightarrow> (string \<times> jfile) list" where
  "writeOutboxItem d it = AList.update (po_id it) (Text (publication_json it)) d"

text \<open>
  \<open>listHubPublicationOutboxItems\<close>: the readable items whose file name has no \<open>.tmp\<close> in it, by
  creation time. \<open>collate\<close> is a sort key for \<open>localeCompare\<close>.
\<close>

definition listHubPublicationOutboxItems ::
    "(string \<Rightarrow> rat) \<Rightarrow> (string \<times> jfile) list \<Rightarrow> HubPublicationOutboxItem list" where
  "listHubPublicationOutboxItems collate d =
     sort_key (\<lambda>it. collate (po_createdAt it))
       (List.map_filter (readOutboxItem d)
         (filter (\<lambda>i. \<not> includesText i ''.tmp'') (map fst d)))"

definition NO_RECOVER_SUFFIX :: string where
  "NO_RECOVER_SUFFIX = ''This is not a task failure and does not require a recovery command.''"

definition pendingMessage :: "HubPublicationOutboxItem \<Rightarrow> string" where
  "pendingMessage it =
    (let reason = (case po_pendingReason it of None \<Rightarrow> TransientRemoteError | Some r \<Rightarrow> r) in
     if reason = RemoteForceRewriteIntegrity
     then ''Code publication integrity incident for '' @ po_taskId it @ '': remote ''
       @ po_remoteTarget it
       @ '' was force-rewritten after an ambiguous successful push of candidate ''
       @ po_candidateOid it
       @ ''. This is not ordinary target drift and is not overwritten automatically. ''
       @ ''The task is not semantically failed. '' @ NO_RECOVER_SUFFIX
     else ''Code publication pending for '' @ po_taskId it @ '' ('' @ reason_name reason
       @ ''): remote '' @ po_remoteTarget it @ '' expected '' @ po_expectedRemoteOid it
       @ '', candidate '' @ po_candidateOid it
       @ ''. Local shipped proof is unchanged and is separate from GitHub task sync. ''
       @ ''The task is not semantically failed. '' @ NO_RECOVER_SUFFIX)"

definition succeededMessage :: "HubPublicationOutboxItem \<Rightarrow> string" where
  "succeededMessage it = ''Code published '' @ po_remoteTarget it @ '' to ''
     @ (case po_publishedOid it of None \<Rightarrow> po_candidateOid it | Some p \<Rightarrow> p) @ ''.''"

definition formatHubPublicationMessage :: "nat \<Rightarrow> HubPublicationOutboxItem list \<Rightarrow> string" where
  "formatHubPublicationMessage pendingCount items =
     (if pendingCount = 0 then []
      else (case find (\<lambda>it. po_status it = PubPending) items of
              Some it \<Rightarrow> pendingMessage it
            | None \<Rightarrow> ''Code publication pending for '' @ show_nat pendingCount
                @ '' shipped candidate(s). '' @ NO_RECOVER_SUFFIX))"

record HubPublicationOutboxInspection =
  pi_items :: "HubPublicationOutboxItem list"
  pi_pendingCount :: nat
  pi_succeededCount :: nat
  pi_message :: string

definition inspectHubPublicationOutbox ::
    "(string \<Rightarrow> rat) \<Rightarrow> (string \<times> jfile) list \<Rightarrow> HubPublicationOutboxInspection" where
  "inspectHubPublicationOutbox collate d =
     (let items = listHubPublicationOutboxItems collate d;
          pendingCount = length (filter (\<lambda>it. po_status it = PubPending) items);
          succeededCount = length (filter (\<lambda>it. po_status it = PubSucceeded) items)
      in \<lparr>pi_items = items, pi_pendingCount = pendingCount,
          pi_succeededCount = succeededCount,
          pi_message = formatHubPublicationMessage pendingCount items\<rparr>)"


subsection \<open>Observing a remote\<close>

text \<open>
  \<open>parseLsRemoteTipOid\<close>: \<open>Some tip\<close> for the kind \<open>ok\<close>, where \<open>tip\<close> may be absent, and \<open>None\<close> for
  \<open>invalid\<close>.
\<close>

definition parseLsRemoteTipOid :: "string \<Rightarrow> oid option option" where
  "parseLsRemoteTipOid out =
     (case find nonblank (split_on (CHR 0x0A) out) of
        None \<Rightarrow> Some None
      | Some line \<Rightarrow>
          (let new = js_trim (takeWhile (\<lambda>c. \<not> js_space c) line)
           in if isGitOid new then Some (Some new) else None))"

definition classifyRemoteFailure :: "string \<Rightarrow> HubPublicationPendingReason" where
  "classifyRemoteFailure stderr =
    (let t = toLowerCase stderr in
     if list_ex (includesText t)
          [''could not resolve host'', ''failed to connect'', ''unable to access'',
           ''network is unreachable'', ''connection refused'', ''timed out'', ''temporary failure'']
     then NetworkError
     else if list_ex (includesText t)
          [''authentication failed'', ''invalid username'', ''permission denied'', ''access denied'',
           ''could not read username'', ''401'', ''403'', ''terminal prompts disabled'']
     then CredentialRejected
     else if list_ex (includesText t)
          [''protected branch'', ''protected ref'', ''gh-hook'', ''pre-receive hook declined'',
           ''hook declined'']
     then ProtectedBranch
     else if list_ex (includesText t)
          [''failed to push some refs'', ''non-fast-forward'', ''stale info'', ''cannot lock ref'',
           ''fetch first'']
     then RemoteDiverged
     else TransientRemoteError)"

definition lsRemote :: "'g env \<Rightarrow> string \<Rightarrow> string \<Rightarrow> ('g, string + string) hub_act" where
  "lsRemote E name rref = (\<lambda>h.
     (Inr (fst (rm_ls_remote (e_remotes E) (h_git h) name rref)),
      h\<lparr>h_git := snd (rm_ls_remote (e_remotes E) (h_git h) name rref)\<rparr>))"

text \<open>\<open>observeRemoteTip\<close>: \<open>Inl\<close> the reason of the kind \<open>error\<close>, \<open>Inr\<close> the tip.\<close>

definition read_tip :: "string + string \<Rightarrow> HubPublicationPendingReason + oid option" where
  "read_tip r =
     (case r of
        Inl stderr \<Rightarrow> Inl (classifyRemoteFailure stderr)
      | Inr out \<Rightarrow> (case parseLsRemoteTipOid out of None \<Rightarrow> Inl ObserveFailed | Some tip \<Rightarrow> Inr tip))"

definition observeRemoteTip ::
    "'g env \<Rightarrow> string \<Rightarrow> string \<Rightarrow> ('g, HubPublicationPendingReason + oid option) hub_act" where
  "observeRemoteTip E name rref =
     bind_act (lsRemote E name rref) (\<lambda>r. ret_act (read_tip r))"

definition observeRemoteTipSync :: "'g env \<Rightarrow> string \<Rightarrow> string \<Rightarrow> ('g, oid option) hub_act" where
  "observeRemoteTipSync E name rref =
     bind_act (lsRemote E name rref)
       (\<lambda>r. ret_act (case read_tip r of Inl _ \<Rightarrow> None | Inr tip \<Rightarrow> tip))"

definition isAncestor :: "'g env \<Rightarrow> 'g \<Rightarrow> oid \<Rightarrow> oid \<Rightarrow> bool" where
  "isAncestor E g a d \<longleftrightarrow> a = d \<or> g_is_ancestor (e_git E) g a d"

fun remoteContainsCandidate :: "'g env \<Rightarrow> 'g \<Rightarrow> oid \<Rightarrow> oid option \<Rightarrow> bool" where
  "remoteContainsCandidate E g cand None = False"
| "remoteContainsCandidate E g cand (Some tip) = isAncestor E g cand tip"

fun candidateIsFastForwardOf :: "'g env \<Rightarrow> 'g \<Rightarrow> oid \<Rightarrow> oid option \<Rightarrow> bool" where
  "candidateIsFastForwardOf E g cand None = False"
| "candidateIsFastForwardOf E g cand (Some tip) = isAncestor E g tip cand"

definition remoteTipDivergedFromExpectation ::
    "'g env \<Rightarrow> 'g \<Rightarrow> HubPublicationOutboxItem \<Rightarrow> oid option \<Rightarrow> bool" where
  "remoteTipDivergedFromExpectation E g it tip \<longleftrightarrow>
     tip \<noteq> None \<and> tip \<noteq> Some (po_expectedRemoteOid it)
     \<and> \<not> candidateIsFastForwardOf E g (po_candidateOid it) tip"

definition isUnsetRemoteItem :: "HubPublicationOutboxItem \<Rightarrow> bool" where
  "isUnsetRemoteItem it \<longleftrightarrow>
     po_pendingReason it = Some NoRemoteConfigured \<or> po_remoteName it = UNSET_REMOTE_MARKER"


subsection \<open>Writing an item\<close>

definition putItem :: "HubPublicationOutboxItem \<Rightarrow> ('g, HubPublicationOutboxItem) hub_act" where
  "putItem it = bind_act (modify_act (\<lambda>h. h\<lparr>h_publication := writeOutboxItem (h_publication h) it\<rparr>))
     (\<lambda>_. ret_act it)"

definition succeeded_item :: "HubPublicationOutboxItem \<Rightarrow> oid \<Rightarrow> iso_time \<Rightarrow> HubPublicationOutboxItem" where
  "succeeded_item it published now =
     it\<lparr>po_status := PubSucceeded, po_updatedAt := now, po_pendingReason := None,
        po_message := None, po_publishedOid := Some published,
        po_ambiguousPushAcknowledged := False\<rparr>"

definition markSucceeded ::
    "HubPublicationOutboxItem \<Rightarrow> oid \<Rightarrow> iso_time \<Rightarrow> ('g, HubPublicationOutboxItem) hub_act" where
  "markSucceeded it published now = putItem (succeeded_item it published now)"

definition acknowledged_item :: "HubPublicationOutboxItem \<Rightarrow> iso_time \<Rightarrow> HubPublicationOutboxItem" where
  "acknowledged_item it now =
     it\<lparr>po_status := PubPending, po_updatedAt := now, po_ambiguousPushAcknowledged := True\<rparr>"

definition markAmbiguousPushAcknowledged ::
    "HubPublicationOutboxItem \<Rightarrow> iso_time \<Rightarrow> ('g, HubPublicationOutboxItem) hub_act" where
  "markAmbiguousPushAcknowledged it now = putItem (acknowledged_item it now)"

definition pending_item ::
    "HubPublicationOutboxItem \<Rightarrow> HubPublicationPendingReason \<Rightarrow> iso_time \<Rightarrow> HubPublicationOutboxItem" where
  "pending_item it reason now =
     (let next = it\<lparr>po_status := PubPending, po_updatedAt := now, po_pendingReason := Some reason\<rparr>
      in next\<lparr>po_message := Some (pendingMessage next)\<rparr>)"

definition markPending ::
    "HubPublicationOutboxItem \<Rightarrow> HubPublicationPendingReason \<Rightarrow> iso_time
     \<Rightarrow> ('g, HubPublicationOutboxItem) hub_act" where
  "markPending it reason now = putItem (pending_item it reason now)"


subsection \<open>Enqueueing\<close>

definition shouldEnqueuePublication :: "HubLandingPolicy \<Rightarrow> bool" where
  "shouldEnqueuePublication p \<longleftrightarrow> p_publishPolicy p = BestEffort \<or> p_publishPolicy p = Required"

definition new_item ::
    "string \<Rightarrow> txn_id \<Rightarrow> task_id \<Rightarrow> HubPublicationRemoteTarget \<Rightarrow> oid \<Rightarrow> oid \<Rightarrow> string \<Rightarrow> iso_time
     \<Rightarrow> HubPublicationOutboxItem" where
  "new_item i tx t target cand expected pub now =
     \<lparr>po_id = i, po_transactionId = tx, po_taskId = t, po_remoteName = pt_remoteName target,
      po_remoteRef = pt_remoteRef target, po_remoteTarget = pt_remoteTarget target,
      po_candidateOid = cand, po_expectedRemoteOid = expected, po_publishTargetRef = pub,
      po_status = PubPending, po_createdAt = now, po_updatedAt = now, po_pendingReason = None,
      po_message = None, po_publishedOid = None, po_ambiguousPushAcknowledged = False\<rparr>"

definition enqueueUnsetRemotePending ::
    "'g env \<Rightarrow> txn_id \<Rightarrow> task_id \<Rightarrow> HubLandingPolicy \<Rightarrow> oid \<Rightarrow> iso_time
     \<Rightarrow> ('g, HubPublicationOutboxItem) hub_act" where
  "enqueueUnsetRemotePending E tx t p cand now =
    (let i = resolveHubPublicationId (rt_sha256 (e_rt E)) tx UNSET_REMOTE_MARKER UNSET_REMOTE_MARKER
               cand GIT_ZERO_OID
     in bind_act (gets_act (\<lambda>h. readOutboxItem (h_publication h) i)) (\<lambda>existing.
        case existing of
          Some it \<Rightarrow> ret_act it
        | None \<Rightarrow>
          (let draft = (new_item i tx t
                 \<lparr>pt_remoteName = UNSET_REMOTE_MARKER, pt_branchName = UNSET_REMOTE_MARKER,
                  pt_remoteRef = UNSET_REMOTE_MARKER, pt_remoteTarget = UNSET_REMOTE_MARKER\<rparr>
                 cand GIT_ZERO_OID (p_publishTargetRef p) now)
                 \<lparr>po_pendingReason := Some NoRemoteConfigured\<rparr>
           in putItem (draft\<lparr>po_message := Some (pendingMessage draft)\<rparr>))))"

definition findSiblingOutboxItem ::
    "'g env \<Rightarrow> txn_id \<Rightarrow> HubPublicationRemoteTarget \<Rightarrow> oid \<Rightarrow> 'g hub
     \<Rightarrow> HubPublicationOutboxItem option" where
  "findSiblingOutboxItem E tx target cand h =
     find (\<lambda>it. po_transactionId it = tx \<and> po_remoteName it = pt_remoteName target
             \<and> po_remoteRef it = pt_remoteRef target \<and> po_candidateOid it = cand)
       (listHubPublicationOutboxItems (e_collate E) (h_publication h))"

definition enqueueHubPublication ::
    "'g env \<Rightarrow> txn_id \<Rightarrow> task_id \<Rightarrow> HubLandingPolicy \<Rightarrow> oid \<Rightarrow> iso_time
     \<Rightarrow> ('g, HubPublicationOutboxItem option) hub_act" where
  "enqueueHubPublication E tx t p cand now =
    (if \<not> shouldEnqueuePublication p then ret_act None
     else if \<not> truthy_string (p_remoteTarget p)
     then bind_act (enqueueUnsetRemotePending E tx t p cand now) (\<lambda>it. ret_act (Some it))
     else
     (case parseHubPublicationRemoteTarget (the (p_remoteTarget p)) of
        None \<Rightarrow> ret_act None
      | Some target \<Rightarrow>
          bind_act (observeRemoteTipSync E (pt_remoteName target) (pt_remoteRef target)) (\<lambda>tip.
          let expected = (case tip of None \<Rightarrow> GIT_ZERO_OID | Some new \<Rightarrow> new);
              i = resolveHubPublicationId (rt_sha256 (e_rt E)) tx (pt_remoteName target)
                    (pt_remoteRef target) cand expected
          in bind_act (gets_act (\<lambda>h. readOutboxItem (h_publication h) i)) (\<lambda>existing.
             case existing of
               Some it \<Rightarrow> ret_act (Some it)
             | None \<Rightarrow>
               bind_act (gets_act (findSiblingOutboxItem E tx target cand)) (\<lambda>sibling.
               case sibling of
                 Some it \<Rightarrow> ret_act (Some it)
               | None \<Rightarrow>
                 bind_act (putItem (new_item i tx t target cand expected (p_publishTargetRef p) now))
                   (\<lambda>it. ret_act (Some it)))))))"

definition enqueueHubPublicationAfterShipped ::
    "'g env \<Rightarrow> txn_id \<Rightarrow> task_id \<Rightarrow> oid \<Rightarrow> HubLandingPolicy option \<Rightarrow> iso_time
     \<Rightarrow> ('g, HubPublicationOutboxItem option) hub_act" where
  "enqueueHubPublicationAfterShipped E tx t cand given now =
     bind_act readPolicy (\<lambda>onDisk.
     case coalesce given onDisk of
       None \<Rightarrow> ret_act None
     | Some p \<Rightarrow> enqueueHubPublication E tx t p cand now)"

subsection \<open>Projecting the outbox\<close>

text \<open>\<open>buildPushArgs\<close>: the zero object id stands for a remote branch that does not exist.\<close>

definition buildPush :: "HubPublicationOutboxItem \<Rightarrow> oid \<Rightarrow> push_command" where
  "buildPush it lease =
     (if lease = GIT_ZERO_OID then PushPlain (po_remoteName it) (po_candidateOid it) (po_remoteRef it)
      else PushWithLease (po_remoteName it) (po_candidateOid it) (po_remoteRef it) lease)"

definition pushCandidate ::
    "'g env \<Rightarrow> HubPublicationOutboxItem \<Rightarrow> oid \<Rightarrow> ('g, string + string) hub_act" where
  "pushCandidate E it lease = (\<lambda>h.
     (Inr (fst (rm_push (e_remotes E) (h_git h) (buildPush it lease))),
      h\<lparr>h_git := snd (rm_push (e_remotes E) (h_git h) (buildPush it lease))\<rparr>))"

definition ensureCandidateObjectFetched ::
    "'g env \<Rightarrow> HubPublicationOutboxItem \<Rightarrow> oid \<Rightarrow> ('g, unit) hub_act" where
  "ensureCandidateObjectFetched E it tip = modify_act (\<lambda>h.
     if g_object_exists (e_git E) (h_git h) (tip @ ''^{commit}'') then h
     else h\<lparr>h_git := rm_fetch (e_remotes E) (h_git h) (po_remoteName it) (po_remoteRef it)\<rparr>)"

definition trySucceedFromRemoteObservation ::
    "'g env \<Rightarrow> HubPublicationOutboxItem \<Rightarrow> iso_time \<Rightarrow> bool
     \<Rightarrow> ('g, HubPublicationOutboxItem option) hub_act" where
  "trySucceedFromRemoteObservation E it now crashAfterOnSuccess =
     bind_act (observeRemoteTip E (po_remoteName it) (po_remoteRef it)) (\<lambda>observed.
     bind_act (gets_act h_git) (\<lambda>g.
     case observed of
       Inl _ \<Rightarrow> ret_act None
     | Inr tip \<Rightarrow>
         if \<not> remoteContainsCandidate E g (po_candidateOid it) tip then ret_act None
         else bind_act (when_act crashAfterOnSuccess (maybeCrash (e_fault E) SE_publication AfterEffect))
           (\<lambda>_. bind_act (markSucceeded it (the tip) now) (\<lambda>it'. ret_act (Some it')))))"

text \<open>
  \<open>pushCandidateWithCrashWindows\<close>: \<open>after_push\<close> is what follows the push itself. The \<open>catch\<close> block
  of the source rethrows an injected crash; the Git wrapper it guards returns failures as values, so
  there is nothing else to catch.
\<close>

definition after_push ::
    "'g env \<Rightarrow> HubPublicationOutboxItem \<Rightarrow> iso_time \<Rightarrow> string + string
     \<Rightarrow> ('g, HubPublicationOutboxItem) hub_act" where
  "after_push E it now pushed =
     (case pushed of
       Inl stderr \<Rightarrow>
         bind_act (trySucceedFromRemoteObservation E it now True) (\<lambda>recovered.
         case recovered of
           Some it' \<Rightarrow> ret_act it'
         | None \<Rightarrow> markPending it (classifyRemoteFailure stderr) now)
     | Inr _ \<Rightarrow>
         bind_act (markAmbiguousPushAcknowledged it now) (\<lambda>acknowledged.
         bind_act (maybeCrash (e_fault E) SE_publication AfterEffect) (\<lambda>_.
         bind_act (trySucceedFromRemoteObservation E acknowledged now False) (\<lambda>confirmed.
         case confirmed of
           Some it' \<Rightarrow> ret_act it'
         | None \<Rightarrow> markSucceeded acknowledged (po_candidateOid it) now))))"

definition pushCandidateWithCrashWindows ::
    "'g env \<Rightarrow> HubPublicationOutboxItem \<Rightarrow> oid \<Rightarrow> iso_time
     \<Rightarrow> ('g, HubPublicationOutboxItem) hub_act" where
  "pushCandidateWithCrashWindows E it lease now =
     bind_act (maybeCrash (e_fault E) SE_publication BeforeEffect) (\<lambda>_.
     bind_act (pushCandidate E it lease) (after_push E it now))"

definition projectOneItem ::
    "'g env \<Rightarrow> iso_time \<Rightarrow> HubPublicationOutboxItem \<Rightarrow> ('g, HubPublicationOutboxItem) hub_act" where
  "projectOneItem E now it =
    (if po_status it = PubSucceeded then ret_act it
     else if po_pendingReason it = Some RemoteForceRewriteIntegrity
     then markPending it RemoteForceRewriteIntegrity now
     else if isUnsetRemoteItem it then markPending it NoRemoteConfigured now
     else
       bind_act (observeRemoteTip E (po_remoteName it) (po_remoteRef it)) (\<lambda>observed.
       case observed of
         Inl reason \<Rightarrow> markPending it reason now
       | Inr tip \<Rightarrow>
         bind_act (case tip of None \<Rightarrow> ret_act () | Some new \<Rightarrow> ensureCandidateObjectFetched E it new)
         (\<lambda>_. bind_act (gets_act h_git) (\<lambda>g.
         if remoteContainsCandidate E g (po_candidateOid it) tip
         then markSucceeded it (the tip) now
         else if po_ambiguousPushAcknowledged it
         then markPending it RemoteForceRewriteIntegrity now
         else if remoteTipDivergedFromExpectation E g it tip
         then markPending it RemoteDiverged now
         else pushCandidateWithCrashWindows E it
                (case tip of None \<Rightarrow> GIT_ZERO_OID | Some new \<Rightarrow> new) now))))"

record HubPublicationOutcome =
  pa_attempts :: "HubPublicationOutboxItem list"
  pa_pendingCount :: nat
  pa_succeededCount :: nat
  pa_message :: string

text \<open>The attempt of an item: \<open>toAttempt\<close> with its message.\<close>

definition attemptMessage :: "HubPublicationOutboxItem \<Rightarrow> string" where
  "attemptMessage it =
     (if po_status it = PubSucceeded then succeededMessage it else pendingMessage it)"

definition publication_outcome :: "HubPublicationOutboxItem list \<Rightarrow> HubPublicationOutcome" where
  "publication_outcome attempts =
     (let pendingCount = length (filter (\<lambda>it. po_status it = PubPending) attempts)
      in \<lparr>pa_attempts = attempts, pa_pendingCount = pendingCount,
          pa_succeededCount = length (filter (\<lambda>it. po_status it = PubSucceeded) attempts),
          pa_message = formatHubPublicationMessage pendingCount attempts\<rparr>)"

definition projectHubPublicationOutbox ::
    "'g env \<Rightarrow> iso_time \<Rightarrow> ('g, HubPublicationOutcome) hub_act" where
  "projectHubPublicationOutbox E now =
     bind_act (gets_act (\<lambda>h. listHubPublicationOutboxItems (e_collate E) (h_publication h))) (\<lambda>items.
     bind_act (each_act (projectOneItem E now) items) (\<lambda>attempts.
     ret_act (publication_outcome attempts)))"

text \<open>The events of a projection: every pending attempt, and the items that became successful.\<close>

definition shouldEmitPublicationEvent ::
    "HubPublicationOutboxInspection \<Rightarrow> HubPublicationOutboxItem \<Rightarrow> bool" where
  "shouldEmitPublicationEvent before attempt \<longleftrightarrow>
     po_status attempt = PubPending
     \<or> (case find (\<lambda>it. po_id it = po_id attempt) (pi_items before) of
           None \<Rightarrow> True | Some prior \<Rightarrow> po_status prior \<noteq> PubSucceeded)"

definition selectHubPublicationEventDeltas ::
    "HubPublicationOutboxInspection \<Rightarrow> HubPublicationOutcome \<Rightarrow> HubPublicationOutboxItem list" where
  "selectHubPublicationEventDeltas before outcome =
     filter (shouldEmitPublicationEvent before) (pa_attempts outcome)"

definition syncHubPublications ::
    "'g env \<Rightarrow> iso_time \<Rightarrow> ('g, HubPublicationOutcome \<times> HubPublicationOutboxItem list) hub_act" where
  "syncHubPublications E now =
     bind_act (gets_act (\<lambda>h. inspectHubPublicationOutbox (e_collate E) (h_publication h))) (\<lambda>before.
     bind_act (projectHubPublicationOutbox E now) (\<lambda>outcome.
     ret_act (outcome, selectHubPublicationEventDeltas before outcome)))"

definition isHubRemotePublicationProven ::
    "(string \<Rightarrow> rat) \<Rightarrow> (string \<times> jfile) list \<Rightarrow> txn_id \<Rightarrow> oid option \<Rightarrow> bool" where
  "isHubRemotePublicationProven collate d tx cand \<longleftrightarrow>
     list_ex (\<lambda>it. po_transactionId it = tx \<and> po_status it = PubSucceeded
         \<and> (cand = None \<or> cand = Some (po_candidateOid it)))
       (listHubPublicationOutboxItems collate d)"


subsection \<open>Required delivery\<close>

definition HUB_DEFAULT_DELIVERY_TIMEOUT_MS :: int where
  "HUB_DEFAULT_DELIVERY_TIMEOUT_MS = 5 * 60 * 1000"

definition resolveHubDeliveryTimeoutMs :: "HubLandingPolicy \<Rightarrow> int" where
  "resolveHubDeliveryTimeoutMs p =
     (if p_publishPolicy p \<noteq> Required then 0
      else (case p_deliveryTimeoutMs p of
              None \<Rightarrow> HUB_DEFAULT_DELIVERY_TIMEOUT_MS | Some t \<Rightarrow> t))"

datatype delivery_outcome = Delivered | CompletedWithPendingDelivery | NotRequired

record HubRequiredDeliveryDriveResult =
  dr_outcome :: delivery_outcome
  dr_publication :: HubPublicationOutcome
  dr_pendingCount :: nat
  dr_message :: string
  dr_timedOut :: bool

definition HUB_COMPLETED_WITH_PENDING_DELIVERY :: string where
  "HUB_COMPLETED_WITH_PENDING_DELIVERY = ''completed_with_pending_delivery''"

definition timeout_message :: "int \<Rightarrow> nat \<Rightarrow> string" where
  "timeout_message timeoutMs pending =
     ''Required delivery timed out after '' @ show_int timeoutMs @ ''ms with '' @ show_nat pending
     @ '' pending publication(s). Local landing and automatic retry state are preserved; ''
     @ ''the task is not semantically failed. Outcome: '' @ HUB_COMPLETED_WITH_PENDING_DELIVERY @ ''.''"

text \<open>
  The loop of \<open>driveHubRequiredPublication\<close>, with the time in milliseconds that has been reached. The \<open>k\<close>th
  projection takes \<open>dt_spend k\<close>, and the sleep before it lasts \<open>dt_late k\<close> longer than asked. The result
  comes with the time at which it is returned; a loop that never ends has no value.
\<close>

record drive_time =
  dt_spend :: "nat \<Rightarrow> int"
  dt_late :: "nat \<Rightarrow> int"

partial_function (option) drive_loop ::
    "'g env \<Rightarrow> iso_time \<Rightarrow> int \<Rightarrow> int \<Rightarrow> drive_time \<Rightarrow> int \<Rightarrow> nat \<Rightarrow> int \<Rightarrow> HubPublicationOutcome
     \<Rightarrow> 'g hub \<Rightarrow> ((hub_error + HubRequiredDeliveryDriveResult) \<times> int \<times> 'g hub) option" where
  "drive_loop E now timeoutMs pollIntervalMs W startedAt k t publication h =
     (if pa_pendingCount publication = 0
      then Some (Inr \<lparr>dr_outcome = Delivered, dr_publication = publication, dr_pendingCount = 0,
             dr_message = pa_message publication, dr_timedOut = False\<rparr>, t, h)
      else if t - startedAt \<ge> timeoutMs
      then
        (let message = timeout_message timeoutMs (pa_pendingCount publication)
         in Some (Inr \<lparr>dr_outcome = CompletedWithPendingDelivery,
              dr_publication = publication\<lparr>pa_message := message\<rparr>,
              dr_pendingCount = pa_pendingCount publication, dr_message = message, dr_timedOut = True\<rparr>, t, h))
      else
        (let woken = t + min pollIntervalMs (max 1 (timeoutMs - (t - startedAt))) + dt_late W k
         in case projectHubPublicationOutbox E now h of
              (Inl e, h') \<Rightarrow> Some (Inl e, woken + dt_spend W k, h')
            | (Inr next, h') \<Rightarrow>
                drive_loop E now timeoutMs pollIntervalMs W startedAt (Suc k) (woken + dt_spend W k) next h'))"

definition driveHubRequiredPublication ::
    "'g env \<Rightarrow> HubLandingPolicy option \<Rightarrow> iso_time \<Rightarrow> int option \<Rightarrow> drive_time \<Rightarrow> int \<Rightarrow> 'g hub
     \<Rightarrow> ((hub_error + HubRequiredDeliveryDriveResult) \<times> int \<times> 'g hub) option" where
  "driveHubRequiredPublication E given now pollIntervalMs W startedAt h =
    (let policy = coalesce given (readHubLandingPolicy (h_policy h));
         t = startedAt + dt_spend W 0
     in case projectHubPublicationOutbox E now h of
       (Inl e, h') \<Rightarrow> Some (Inl e, t, h')
     | (Inr publication, h') \<Rightarrow>
         if policy = None \<or> p_publishPolicy (the policy) \<noteq> Required
         then Some (Inr \<lparr>dr_outcome = NotRequired, dr_publication = publication,
                dr_pendingCount = pa_pendingCount publication, dr_message = pa_message publication,
                dr_timedOut = False\<rparr>, t, h')
         else drive_loop E now (resolveHubDeliveryTimeoutMs (the policy))
                (case pollIntervalMs of None \<Rightarrow> 50 | Some ms \<Rightarrow> ms) W startedAt 1 t publication h')"


subsection \<open>Reading what was written\<close>

lemma bind_option_SomeE:
  "Option.bind m f = Some y \<Longrightarrow> (\<And>x. m = Some x \<Longrightarrow> f x = Some y \<Longrightarrow> P) \<Longrightarrow> P"
  by (cases m) simp_all

lemma parse_publication_ok: "parseOutboxItem v = Some it \<Longrightarrow> publication_ok it"
proof -
  assume parsed: "parseOutboxItem v = Some it"
  have opt: "opt_ok trimmed (readString kvs k)" for kvs k
    using readString_trimmed by (cases "readString kvs k") simp_all
  have git: "opt_ok isGitOid w" if "\<not> (w \<noteq> None \<and> \<not> isGitOid_opt w)" for w
    using that by (cases w) simp_all
  from parsed show ?thesis
    unfolding parseOutboxItem_def Let_def
    by (auto split: if_split_asm elim!: bind_option_SomeE dest!: readString_trimmed
        simp: publication_ok_def opt intro!: git)
qed

lemma read_publication_ok: "readOutboxItem d i = Some it \<Longrightarrow> publication_ok it"
proof -
  assume "readOutboxItem d i = Some it"
  then obtain j where "parseOutboxItem j = Some it"
    by (auto simp: readOutboxItem_def split: option.splits) (metis read_json_file.elims option.distinct(1))
  then show ?thesis by (rule parse_publication_ok)
qed

lemma read_written_item:
  assumes "publication_ok it"
  shows "readOutboxItem (writeOutboxItem d it) i = (if i = po_id it then Some it else readOutboxItem d i)"
  using publication_codec.read_written [OF assms]
  by (simp add: readOutboxItem_def writeOutboxItem_def update_conv' del: read_json_file.simps)

lemma pendingMessage_trimmed: "trimmed (pendingMessage it)"
proof -
  have "\<exists>s. pendingMessage it = CHR ''C'' # s @ [CHR ''.'']"
    by (simp add: pendingMessage_def NO_RECOVER_SUFFIX_def Let_def)
  then show ?thesis using trimmed_between [of "CHR ''C''" "CHR ''.''"] by (auto simp: js_space_def)
qed

lemma pending_item_ok: "publication_ok it \<Longrightarrow> trimmed now \<Longrightarrow> publication_ok (pending_item it r now)"
  using pendingMessage_trimmed by (simp add: publication_ok_def pending_item_def Let_def)

lemma succeeded_item_ok:
  "publication_ok it \<Longrightarrow> trimmed now \<Longrightarrow> isGitOid p \<Longrightarrow> publication_ok (succeeded_item it p now)"
  by (simp add: publication_ok_def succeeded_item_def)

lemma acknowledged_item_ok:
  "publication_ok it \<Longrightarrow> trimmed now \<Longrightarrow> publication_ok (acknowledged_item it now)"
  by (simp add: publication_ok_def acknowledged_item_def)

lemma updated_item_id [simp]:
  "po_id (pending_item it r now) = po_id it"
  "po_id (succeeded_item it p now) = po_id it"
  "po_id (acknowledged_item it now) = po_id it"
  by (simp_all add: pending_item_def succeeded_item_def acknowledged_item_def Let_def)

lemma updated_item_status [simp]:
  "po_status (pending_item it r now) = PubPending"
  "po_status (succeeded_item it p now) = PubSucceeded"
  "po_status (acknowledged_item it now) = PubPending"
  by (simp_all add: pending_item_def succeeded_item_def acknowledged_item_def Let_def)

text \<open>The tip a remote reports is an object id.\<close>

lemma read_tip_oid: "read_tip r = Inr (Some tip) \<Longrightarrow> isGitOid tip"
  by (auto simp: read_tip_def parseLsRemoteTipOid_def Let_def
      split: sum.splits option.splits if_splits)

lemma set_listed:
  "set (listHubPublicationOutboxItems collate d) =
     {it. \<exists>i. i \<in> set (map fst d) \<and> \<not> includesText i ''.tmp'' \<and> readOutboxItem d i = Some it}"
  by (force simp: listHubPublicationOutboxItems_def List.map_filter_def)


subsection \<open>Which files a projection writes\<close>

text \<open>An operation that leaves the file of item \<open>i\<close> alone.\<close>

definition publication_file_kept :: "string \<Rightarrow> 'g hub \<Rightarrow> 'g hub \<Rightarrow> bool" where
  "publication_file_kept i h h' \<longleftrightarrow> map_of (h_publication h') i = map_of (h_publication h) i"

interpretation publication_file: kept_relation "publication_file_kept i" for i
  by unfold_locales (simp_all add: publication_file_kept_def)

lemma putItem_file: "po_id it \<noteq> i \<Longrightarrow> moves (publication_file_kept i) (putItem it)"
  unfolding putItem_def
  by (intro publication_file.moves_bind publication_file.moves_ret publication_file.moves_modify)
    (simp add: publication_file_kept_def writeOutboxItem_def update_conv')

lemma remote_file:
  "moves (publication_file_kept i) (observeRemoteTip E n r)"
  "moves (publication_file_kept i) (pushCandidate E it lease)"
  "moves (publication_file_kept i) (ensureCandidateObjectFetched E it tip)"
  by (simp_all add: moves_def observeRemoteTip_def lsRemote_def pushCandidate_def bind_act_def
      ret_act_def ensureCandidateObjectFetched_def modify_act_def publication_file_kept_def)

lemma maybeCrash_file: "moves (publication_file_kept i) (maybeCrash f s t)"
  by (simp add: maybeCrash_def publication_file.moves_throw publication_file.moves_ret)

lemma mark_file:
  "po_id it \<noteq> i \<Longrightarrow> moves (publication_file_kept i) (markPending it r now)"
  "po_id it \<noteq> i \<Longrightarrow> moves (publication_file_kept i) (markSucceeded it p now)"
  "po_id it \<noteq> i \<Longrightarrow> moves (publication_file_kept i) (markAmbiguousPushAcknowledged it now)"
  by (simp_all add: markPending_def markSucceeded_def markAmbiguousPushAcknowledged_def putItem_file)

lemmas file_rules = publication_file.moves_rules remote_file
  maybeCrash_file mark_file

lemma trySucceed_file:
  "po_id it \<noteq> i \<Longrightarrow> moves (publication_file_kept i) (trySucceedFromRemoteObservation E it now c)"
  unfolding trySucceedFromRemoteObservation_def by (intro file_rules)

lemma putItem_bind_file:
  assumes "po_id it \<noteq> i" and "moves (publication_file_kept i) (f it)"
  shows "moves (publication_file_kept i) (bind_act (putItem it) f)"
proof -
  have "bind_act (putItem it) f = bind_act (putItem it) (\<lambda>_. f it)"
    by (simp add: putItem_def bind_act_def modify_act_def ret_act_def fun_eq_iff)
  then show ?thesis using assms by (simp add: publication_file.moves_bind putItem_file)
qed

lemma push_file:
  assumes "po_id it \<noteq> i"
  shows "moves (publication_file_kept i) (pushCandidateWithCrashWindows E it lease now)"
proof -
  let ?a = "acknowledged_item it now"
  have "moves (publication_file_kept i)
      (bind_act (maybeCrash (e_fault E) SE_publication AfterEffect) (\<lambda>_.
         bind_act (trySucceedFromRemoteObservation E ?a now False) (\<lambda>confirmed.
         case confirmed of Some it' \<Rightarrow> ret_act it'
         | None \<Rightarrow> markSucceeded ?a (po_candidateOid it) now)))"
    using assms by (intro file_rules trySucceed_file) simp_all
  then show ?thesis
    unfolding pushCandidateWithCrashWindows_def after_push_def markAmbiguousPushAcknowledged_def
    using assms
    by (intro publication_file.moves_bind [OF maybeCrash_file]
        publication_file.moves_bind [OF remote_file(2)] publication_file.moves_case_sum)
      (intro file_rules trySucceed_file, simp_all add: putItem_bind_file)
qed

lemma projectOneItem_file:
  "po_id it \<noteq> i \<Longrightarrow> moves (publication_file_kept i) (projectOneItem E now it)"
  unfolding projectOneItem_def by (intro file_rules push_file)


text \<open>An outbox directory: each readable item is stored under its own id, and names are unique.\<close>

definition outbox_keys :: "(string \<times> jfile) list \<Rightarrow> bool" where
  "outbox_keys d \<longleftrightarrow>
     distinct (map fst d) \<and> (\<forall>i it. readOutboxItem d i = Some it \<longrightarrow> po_id it = i)"

lemma outbox_keys_listed:
  assumes "outbox_keys d"
  shows "distinct (map po_id (listHubPublicationOutboxItems collate d))"
proof -
  have "distinct (map po_id (List.map_filter (readOutboxItem d) ks))" if "distinct ks" for ks
    using that
  proof (induction ks)
    case (Cons k ks)
    have "po_id it \<in> set ks" if "it \<in> set (List.map_filter (readOutboxItem d) ks)" for it
      using that assms by (fastforce simp: List.map_filter_def outbox_keys_def)
    with Cons assms show ?case
      by (cases "readOutboxItem d k") (auto simp: List.map_filter_simps outbox_keys_def)
  qed (simp add: List.map_filter_simps)
  then have "distinct (map po_id (List.map_filter (readOutboxItem d)
      (filter (\<lambda>i. \<not> includesText i ''.tmp'') (map fst d))))"
    using assms by (simp add: outbox_keys_def)
  then show ?thesis
    unfolding listHubPublicationOutboxItems_def
    by (metis (no_types, lifting) distinct_map distinct_sort set_sort)
qed

lemma each_moves:
  assumes "each_act f xs h = (res, h')" and "\<And>x. x \<in> set xs \<Longrightarrow> moves (publication_file_kept i) (f x)"
  shows "publication_file_kept i h h'"
proof -
  have "moves (publication_file_kept i) (each_act f xs)"
    using assms(2) by (induction xs) (auto intro!: publication_file.moves_bind publication_file.moves_ret)
  with assms(1) show ?thesis by (rule moves_result [rotated])
qed

lemma succeeded_moves:
  assumes "outbox_keys (h_publication h)" and "readOutboxItem (h_publication h) i = Some it"
    and "po_status it = PubSucceeded"
    and "x \<in> set (listHubPublicationOutboxItems collate (h_publication h))"
  shows "moves (publication_file_kept i) (projectOneItem E now x)"
proof (cases "po_id x = i")
  case True
  from assms(4) obtain k where "readOutboxItem (h_publication h) k = Some x"
    by (auto simp: set_listed)
  with assms(1) True have "readOutboxItem (h_publication h) i = Some x"
    by (auto simp: outbox_keys_def)
  with assms(2,3) have "po_status x = PubSucceeded" by simp
  then show ?thesis by (simp add: projectOneItem_def publication_file.moves_ret)
qed (rule projectOneItem_file)

text \<open>
  A publication that has succeeded is final. Whatever a projection of the outbox does, an injected
  crash included, the file of an item that was succeeded is left as it is.
\<close>

theorem succeeded_publications_final:
  assumes "outbox_keys (h_publication h)"
    and "projectHubPublicationOutbox E now h = (res, h')"
    and "readOutboxItem (h_publication h) i = Some it" and "po_status it = PubSucceeded"
  shows "map_of (h_publication h') i = map_of (h_publication h) i
    \<and> readOutboxItem (h_publication h') i = Some it"
proof -
  obtain items where items: "items = listHubPublicationOutboxItems (e_collate E) (h_publication h)"
    by simp
  have "\<exists>r. each_act (projectOneItem E now) items h = (r, h')"
    using assms(2) items unfolding projectHubPublicationOutbox_def
    by (cases "each_act (projectOneItem E now) items h" rule: prod.exhaust; cases res)
      (auto simp: bind_act_def gets_act_def ret_act_def split: sum.splits prod.splits)
  then obtain r where "each_act (projectOneItem E now) items h = (r, h')" ..
  then have "publication_file_kept i h h'"
    by (rule each_moves) (use succeeded_moves [OF assms(1,3,4)] items in blast)
  then show ?thesis
    using assms(3) by (simp add: publication_file_kept_def readOutboxItem_def)
qed


text \<open>A log of the pushes a remote received, as a view of the repository state.\<close>

definition push_log :: "'g git_remotes \<Rightarrow> ('g \<Rightarrow> push_command list) \<Rightarrow> bool" where
  "push_log R L \<longleftrightarrow>
     (\<forall>g c. L (snd (rm_push R g c)) = L g @ [c])
     \<and> (\<forall>g n r. L (snd (rm_ls_remote R g n r)) = L g) \<and> (\<forall>g n r. L (rm_fetch R g n r) = L g)"

text \<open>The tip that a projection of an item observes, and the repository it then decides on.\<close>

definition observed_tip ::
    "'g env \<Rightarrow> HubPublicationOutboxItem \<Rightarrow> 'g hub \<Rightarrow> HubPublicationPendingReason + oid option" where
  "observed_tip E it h =
     read_tip (fst (rm_ls_remote (e_remotes E) (h_git h) (po_remoteName it) (po_remoteRef it)))"

definition observed_repo :: "'g env \<Rightarrow> HubPublicationOutboxItem \<Rightarrow> 'g hub \<Rightarrow> oid option \<Rightarrow> 'g" where
  "observed_repo E it h tip =
     (let g = snd (rm_ls_remote (e_remotes E) (h_git h) (po_remoteName it) (po_remoteRef it))
      in case tip of None \<Rightarrow> g | Some new \<Rightarrow>
           if g_object_exists (e_git E) g (new @ ''^{commit}'') then g
           else rm_fetch (e_remotes E) g (po_remoteName it) (po_remoteRef it))"

text \<open>\<open>projectOneItem\<close> after the observation, on the state it left.\<close>

definition after_observation ::
    "'g env \<Rightarrow> iso_time \<Rightarrow> HubPublicationOutboxItem \<Rightarrow> oid option \<Rightarrow> 'g
     \<Rightarrow> ('g, HubPublicationOutboxItem) hub_act" where
  "after_observation E now it tip g =
     (if remoteContainsCandidate E g (po_candidateOid it) tip
      then markSucceeded it (the tip) now
      else if po_ambiguousPushAcknowledged it
      then markPending it RemoteForceRewriteIntegrity now
      else if remoteTipDivergedFromExpectation E g it tip
      then markPending it RemoteDiverged now
      else pushCandidateWithCrashWindows E it
             (case tip of None \<Rightarrow> GIT_ZERO_OID | Some new \<Rightarrow> new) now)"

lemma projectOneItem_cases:
  "projectOneItem E now it h =
    (if po_status it = PubSucceeded then (Inr it, h)
     else if po_pendingReason it = Some RemoteForceRewriteIntegrity
     then markPending it RemoteForceRewriteIntegrity now h
     else if isUnsetRemoteItem it then markPending it NoRemoteConfigured now h
     else (let h1 = h\<lparr>h_git := snd (rm_ls_remote (e_remotes E) (h_git h) (po_remoteName it)
                    (po_remoteRef it))\<rparr>
           in case observed_tip E it h of
                Inl reason \<Rightarrow> markPending it reason now h1
              | Inr tip \<Rightarrow> after_observation E now it tip (observed_repo E it h tip)
                  (h1\<lparr>h_git := observed_repo E it h tip\<rparr>)))"
  by (simp add: projectOneItem_def observeRemoteTip_def lsRemote_def bind_act_def ret_act_def
      gets_act_def after_observation_def observed_tip_def observed_repo_def Let_def modify_act_def
      ensureCandidateObjectFetched_def split: sum.split option.split)

lemma putItem_git: "h_git (snd (putItem it h)) = h_git h"
  by (simp add: putItem_def bind_act_def modify_act_def ret_act_def)

lemma mark_git [simp]:
  "h_git (snd (markPending it r now h)) = h_git h"
  "h_git (snd (markSucceeded it p now h)) = h_git h"
  "h_git (snd (markAmbiguousPushAcknowledged it now h)) = h_git h"
  by (simp_all add: markPending_def markSucceeded_def markAmbiguousPushAcknowledged_def putItem_git)

text \<open>Operations that push nothing keep the log; an operation that pushes once extends it.\<close>

definition log_kept :: "('g \<Rightarrow> push_command list) \<Rightarrow> 'g hub \<Rightarrow> 'g hub \<Rightarrow> bool" where
  "log_kept L h h' \<longleftrightarrow> L (h_git h') = L (h_git h)"

interpretation log: kept_relation "log_kept L" for L
  by unfold_locales (simp_all add: log_kept_def)

lemma log_rules:
  "push_log (e_remotes E) L \<Longrightarrow> moves (log_kept L) (observeRemoteTip E n r)"
  "moves (log_kept L) (markPending it reason now)"
  "moves (log_kept L) (markSucceeded it p now)"
  "moves (log_kept L) (markAmbiguousPushAcknowledged it now)"
  "moves (log_kept L) (maybeCrash f s t)"
  by (simp_all add: moves_def log_kept_def observeRemoteTip_def lsRemote_def bind_act_def ret_act_def
      push_log_def maybeCrash_def throw_act_def)

lemma trySucceed_log:
  "push_log (e_remotes E) L \<Longrightarrow> moves (log_kept L) (trySucceedFromRemoteObservation E it now c)"
  unfolding trySucceedFromRemoteObservation_def by (intro log.moves_rules log_rules)

lemma after_push_log: "push_log (e_remotes E) L \<Longrightarrow> moves (log_kept L) (after_push E it now r)"
  unfolding after_push_def by (intro log.moves_rules log_rules trySucceed_log)

lemma pushCandidate_log:
  assumes log: "push_log (e_remotes E) L"
    and run: "pushCandidateWithCrashWindows E it lease now h = (res, h')"
  shows "L (h_git h') = L (h_git h) \<or> L (h_git h') = L (h_git h) @ [buildPush it lease]"
proof -
  obtain c h0 where c: "maybeCrash (e_fault E) SE_publication BeforeEffect h = (c, h0)"
    by fastforce
  then have h0: "h0 = h" by (rule maybeCrash_state)
  show ?thesis
  proof (cases c)
    case (Inl e)
    with run c h0 show ?thesis by (simp add: pushCandidateWithCrashWindows_def bind_act_def)
  next
    case (Inr u)
    let ?g = "rm_push (e_remotes E) (h_git h) (buildPush it lease)"
    have "after_push E it now (fst ?g) (h\<lparr>h_git := snd ?g\<rparr>) = (res, h')"
      using run c h0 Inr
      by (simp add: pushCandidateWithCrashWindows_def bind_act_def pushCandidate_def)
    then have "log_kept L (h\<lparr>h_git := snd ?g\<rparr>) h'"
      by (rule moves_result [OF after_push_log [OF log]])
    with log show ?thesis by (simp add: log_kept_def push_log_def)
  qed
qed

lemma observed_log:
  "push_log (e_remotes E) L \<Longrightarrow> L (observed_repo E it h tip) = L (h_git h)"
  by (simp add: observed_repo_def push_log_def Let_def split: option.split)

lemma marks_log: "moves (log_kept L) m \<Longrightarrow> m h = (res, h') \<Longrightarrow> L (h_git h') = L (h_git h)"
  using moves_result [of "log_kept L" m h res h'] by (simp add: log_kept_def)

text \<open>
  C12: Every push is guarded. Projecting an item pushes at most once, and only when the item is pending,
  has a remote, is not an integrity incident and carries no acknowledged push, and the tip observed
  right before is absent, or the tip recorded when the item was enqueued, or an ancestor of the
  candidate; the push is then a plain push to a missing branch or leased on exactly that observed tip.
\<close>

theorem pushes_are_guarded:
  assumes "push_log (e_remotes E) L" and "projectOneItem E now it h = (res, h')"
    and "L (h_git h') \<noteq> L (h_git h)"
  shows "po_status it = PubPending \<and> po_pendingReason it \<noteq> Some RemoteForceRewriteIntegrity
    \<and> \<not> isUnsetRemoteItem it \<and> \<not> po_ambiguousPushAcknowledged it
    \<and> (\<exists>tip. observed_tip E it h = Inr tip
        \<and> (tip = None \<or> tip = Some (po_expectedRemoteOid it)
           \<or> candidateIsFastForwardOf E (observed_repo E it h tip) (po_candidateOid it) tip)
        \<and> L (h_git h') = L (h_git h)
            @ [buildPush it (case tip of None \<Rightarrow> GIT_ZERO_OID | Some new \<Rightarrow> new)])"
proof -
  note run = assms(2) [unfolded projectOneItem_cases Let_def]
  note log = assms(1)
  let ?h1 = "h\<lparr>h_git := snd (rm_ls_remote (e_remotes E) (h_git h) (po_remoteName it)
      (po_remoteRef it))\<rparr>"
  have L1: "L (h_git ?h1) = L (h_git h)" using log by (simp add: push_log_def)
  have guards: "po_status it \<noteq> PubSucceeded" "po_pendingReason it \<noteq> Some RemoteForceRewriteIntegrity"
      "\<not> isUnsetRemoteItem it"
    using run assms(3) by (auto split: if_split_asm dest: marks_log [OF log_rules(2), of _ _ _ _ _ _ L])
  then obtain tip where tip: "observed_tip E it h = Inr tip"
    using run assms(3) L1
    by (cases "observed_tip E it h")
      (auto split: if_split_asm dest: marks_log [OF log_rules(2), of _ _ _ _ _ _ L])
  let ?g = "observed_repo E it h tip"
  from run guards tip have after: "after_observation E now it tip ?g (?h1\<lparr>h_git := ?g\<rparr>) = (res, h')"
    by simp
  have L2: "L (h_git (?h1\<lparr>h_git := ?g\<rparr>)) = L (h_git h)" using observed_log [OF log] by simp
  have "\<not> remoteContainsCandidate E ?g (po_candidateOid it) tip"
      and amb: "\<not> po_ambiguousPushAcknowledged it"
      and div: "\<not> remoteTipDivergedFromExpectation E ?g it tip"
    using after assms(3) L2
    by (auto simp: after_observation_def split: if_split_asm
        dest: marks_log [OF log_rules(2), of _ _ _ _ _ _ L] marks_log [OF log_rules(3), of _ _ _ _ _ _ L])
  then have "L (h_git h') = L (h_git h)
      @ [buildPush it (case tip of None \<Rightarrow> GIT_ZERO_OID | Some new \<Rightarrow> new)]"
    using after pushCandidate_log [OF log, of it _ now "?h1\<lparr>h_git := ?g\<rparr>"] L2 assms(3)
    by (auto simp: after_observation_def)
  moreover have "po_status it = PubPending" using guards(1) by (cases "po_status it") simp_all
  ultimately show ?thesis
    using guards tip amb div by (auto simp: remoteTipDivergedFromExpectation_def)
qed

text \<open>
  C26: An integrity incident is never overwritten. Once a push was acknowledged and not confirmed, or the
  remote was found rewritten, no later projection pushes; the item stays pending with its mark, unless
  the remote is again seen to contain the candidate.
\<close>

theorem acknowledged_push_never_repeated:
  assumes "push_log (e_remotes E) L" and "projectOneItem E now it h = (res, h')"
    and "po_status it = PubPending"
    and "po_ambiguousPushAcknowledged it \<or> po_pendingReason it = Some RemoteForceRewriteIntegrity"
  shows "L (h_git h') = L (h_git h)
    \<and> (\<exists>it'. res = Inr it' \<and> po_id it' = po_id it
        \<and> (po_status it' = PubPending \<longrightarrow>
             po_ambiguousPushAcknowledged it' = po_ambiguousPushAcknowledged it
             \<and> (po_pendingReason it = Some RemoteForceRewriteIntegrity \<longrightarrow>
                  po_pendingReason it' = Some RemoteForceRewriteIntegrity))
        \<and> (po_status it' = PubSucceeded \<longrightarrow>
             (\<exists>tip. observed_tip E it h = Inr (Some tip) \<and> po_publishedOid it' = Some tip
                \<and> isAncestor E (observed_repo E it h (Some tip)) (po_candidateOid it) tip)))"
proof -
  have pend: "markPending it r now k = (Inr (pending_item it r now),
      k\<lparr>h_publication := writeOutboxItem (h_publication k) (pending_item it r now)\<rparr>)" for r k
    by (simp add: markPending_def putItem_def bind_act_def modify_act_def ret_act_def)
  have succ: "markSucceeded it p now k = (Inr (succeeded_item it p now),
      k\<lparr>h_publication := writeOutboxItem (h_publication k) (succeeded_item it p now)\<rparr>)" for p k
    by (simp add: markSucceeded_def putItem_def bind_act_def modify_act_def ret_act_def)
  have keep: "po_ambiguousPushAcknowledged (pending_item it r now) = po_ambiguousPushAcknowledged it"
      "po_pendingReason (pending_item it r now) = Some r"
      "po_publishedOid (succeeded_item it p now) = Some p" for r p
    by (simp_all add: pending_item_def succeeded_item_def Let_def)
  have log: "L (snd (rm_ls_remote (e_remotes E) (h_git h) (po_remoteName it) (po_remoteRef it)))
        = L (h_git h)" "L (observed_repo E it h tip) = L (h_git h)" for tip
    using assms(1) observed_log [OF assms(1)] by (simp_all add: push_log_def)
  note run = assms(2) [unfolded projectOneItem_cases Let_def]
  show ?thesis
  proof (cases "po_pendingReason it = Some RemoteForceRewriteIntegrity \<or> isUnsetRemoteItem it")
    case True
    with run assms(3,4) show ?thesis by (auto simp: pend keep split: if_split_asm)
  next
    case False
    show ?thesis
    proof (cases "observed_tip E it h")
      case (Inl r)
      with run False assms(3,4) show ?thesis by (auto simp: pend keep log)
    next
      case (Inr tip)
      with run False assms(3,4) show ?thesis
        by (cases tip) (auto simp: after_observation_def pend succ keep log split: if_split_asm)
    qed
  qed
qed


definition demo_item :: HubPublicationOutboxItem where
  "demo_item = new_item ''pub-d'' ''ltx'' ''t''
     \<lparr>pt_remoteName = ''origin'', pt_branchName = ''main'', pt_remoteRef = ''refs/heads/main'',
      pt_remoteTarget = ''origin/main''\<rparr>
     (demo_oid (CHR ''b'')) (demo_oid (CHR ''a'')) ''refs/archloop/publish/p-d'' ''1''"

lemma demo_item_ok: "publication_ok demo_item"
proof -
  have oids: "isGitOid (demo_oid (CHR ''b''))" "isGitOid (demo_oid (CHR ''a''))"
    by (simp_all add: demo_oid_def isGitOid_def hex_digit_def list_all_iff)
  show ?thesis
    by (simp add: publication_ok_def demo_item_def new_item_def oids trimmed_def js_trim_def js_space_def)
qed

lemma demo_log: "push_log (e_remotes demo_env) dw_log"
  by (simp add: push_log_def demo_env_def demo_remotes_def demo_push_def Let_def
      split: push_command.split)

theorem pushes_are_guarded_witness:
  "\<exists>res h'. projectOneItem demo_env ''2'' demo_item (demo_hub\<lparr>h_git := demo_state\<lparr>dw_remote := Some (demo_oid (CHR ''a''))\<rparr>\<rparr>)
       = (res, h')
     \<and> dw_log (h_git h') = [PushWithLease ''origin'' (demo_oid (CHR ''b'')) ''refs/heads/main''
         (demo_oid (CHR ''a''))]"
proof -
  let ?h = "demo_hub\<lparr>h_git := demo_state\<lparr>dw_remote := Some (demo_oid (CHR ''a''))\<rparr>\<rparr>"
  obtain res h' where run: "projectOneItem demo_env ''2'' demo_item ?h = (res, h')" by fastforce
  have log: "dw_log (h_git (snd (projectOneItem demo_env ''2'' demo_item ?h)))
      = [PushWithLease ''origin'' (demo_oid (CHR ''b'')) ''refs/heads/main'' (demo_oid (CHR ''a''))]"
    by code_simp
  have "dw_log (h_git h') \<noteq> dw_log (h_git ?h)"
    using log run by (simp add: demo_state_def)
  from pushes_are_guarded [OF demo_log run this] log run show ?thesis by auto
qed

definition demo_ack :: HubPublicationOutboxItem where
  "demo_ack = demo_item\<lparr>po_ambiguousPushAcknowledged := True\<rparr>"

theorem acknowledged_push_never_repeated_witness:
  "\<exists>it' h'. projectOneItem demo_env ''2'' demo_ack demo_hub = (Inr it', h') \<and> dw_log (h_git h') = []
     \<and> po_status it' = PubPending \<and> po_ambiguousPushAcknowledged it'"
proof -
  obtain res h' where run: "projectOneItem demo_env ''2'' demo_ack demo_hub = (res, h')" by fastforce
  have st: "po_status demo_ack = PubPending" and am: "po_ambiguousPushAcknowledged demo_ack"
    by (simp_all add: demo_ack_def demo_item_def new_item_def)
  have p: "case fst (projectOneItem demo_env ''2'' demo_ack demo_hub) of
      Inl _ \<Rightarrow> False | Inr it' \<Rightarrow> po_status it' = PubPending" by code_simp
  from acknowledged_push_never_repeated [OF demo_log run st] am p run show ?thesis
    by (auto simp: demo_hub_def demo_state_def)
qed

theorem succeeded_publications_final_witness:
  "\<exists>res h'. projectHubPublicationOutbox demo_env ''2''
       (demo_hub\<lparr>h_publication := [(''pub-d'', Text (publication_json (succeeded_item demo_item (demo_oid (CHR ''b'')) ''1'')))]\<rparr>)
       = (res, h') \<and> map_of (h_publication h') ''pub-d''
       = Some (Text (publication_json (succeeded_item demo_item (demo_oid (CHR ''b'')) ''1'')))"
proof -
  let ?it = "succeeded_item demo_item (demo_oid (CHR ''b'')) ''1''"
  let ?d = "[(''pub-d'', Text (publication_json ?it))]"
  let ?h = "demo_hub\<lparr>h_publication := ?d\<rparr>"
  have oids: "isGitOid (demo_oid (CHR ''b''))" "isGitOid (demo_oid (CHR ''a''))"
    by (simp_all add: demo_oid_def isGitOid_def hex_digit_def list_all_iff)
  have "publication_ok ?it"
    by (simp add: publication_ok_def succeeded_item_def demo_item_def new_item_def oids trimmed_def
        js_trim_def js_space_def)
  then have parse: "parseOutboxItem (publication_json ?it) = Some ?it"
    by (rule publication_roundtrip)
  have pid: "po_id ?it = ''pub-d''" by (simp add: demo_item_def new_item_def)
  have keys: "outbox_keys (h_publication ?h)"
    using parse pid by (simp add: outbox_keys_def readOutboxItem_def)
  have rd: "readOutboxItem (h_publication ?h) ''pub-d'' = Some ?it"
    using parse by (simp add: readOutboxItem_def)
  obtain res h' where run: "projectHubPublicationOutbox demo_env ''2'' ?h = (res, h')" by fastforce
  from succeeded_publications_final [OF keys run rd] run show ?thesis by simp
qed

text \<open>
  A remote branch that already diverged when its publication was enqueued is overwritten. The tip
  observed at that moment becomes the expected tip, and the projection pushes with a lease on it,
  although neither commit is an ancestor of the other.
\<close>

theorem diverged_at_enqueue_is_overwritten:
  assumes "push_log (e_remotes E) L" and "e_fault E = no_faults"
    and "po_status it = PubPending" and "po_pendingReason it = None"
    and "po_remoteName it \<noteq> UNSET_REMOTE_MARKER" and "\<not> po_ambiguousPushAcknowledged it"
    and "observed_tip E it h = Inr (Some (po_expectedRemoteOid it))"
    and "po_expectedRemoteOid it \<noteq> GIT_ZERO_OID"
    and "\<not> isAncestor E (observed_repo E it h (Some (po_expectedRemoteOid it)))
           (po_candidateOid it) (po_expectedRemoteOid it)"
  shows "L (h_git (snd (projectOneItem E now it h))) = L (h_git h)
     @ [PushWithLease (po_remoteName it) (po_candidateOid it) (po_remoteRef it)
          (po_expectedRemoteOid it)]"
proof -
  let ?tip = "Some (po_expectedRemoteOid it)"
  let ?g = "observed_repo E it h ?tip"
  let ?c = "PushWithLease (po_remoteName it) (po_candidateOid it) (po_remoteRef it)
          (po_expectedRemoteOid it)"
  have push: "buildPush it (po_expectedRemoteOid it) = ?c"
    using assms(8) by (simp add: buildPush_def)
  have "projectOneItem E now it h
      = after_push E it now (fst (rm_push (e_remotes E) ?g ?c)) (h\<lparr>h_git := snd (rm_push (e_remotes E) ?g ?c)\<rparr>)"
    using assms(2-9) push
    by (simp add: projectOneItem_cases Let_def isUnsetRemoteItem_def after_observation_def
        remoteTipDivergedFromExpectation_def pushCandidateWithCrashWindows_def bind_act_def
        ret_act_def pushCandidate_def)
  then have "log_kept L (h\<lparr>h_git := snd (rm_push (e_remotes E) ?g ?c)\<rparr>) (snd (projectOneItem E now it h))"
    using after_push_log [OF assms(1)] by (simp add: moves_def)
  then show ?thesis
    using assms(1) observed_log [OF assms(1), of it h ?tip] by (simp add: log_kept_def push_log_def)
qed


definition demo_diverged :: HubPublicationOutboxItem where
  "demo_diverged = demo_item\<lparr>po_expectedRemoteOid := demo_oid (CHR ''d'')\<rparr>"

theorem diverged_at_enqueue_is_overwritten_witness:
  "dw_remote (h_git (snd (projectOneItem demo_env ''2'' demo_diverged
       (demo_hub\<lparr>h_git := demo_state\<lparr>dw_remote := Some (demo_oid (CHR ''d''))\<rparr>\<rparr>))))
     = Some (demo_oid (CHR ''b''))
   \<and> dw_log (h_git (snd (projectOneItem demo_env ''2'' demo_diverged
       (demo_hub\<lparr>h_git := demo_state\<lparr>dw_remote := Some (demo_oid (CHR ''d''))\<rparr>\<rparr>))))
     = [PushWithLease ''origin'' (demo_oid (CHR ''b'')) ''refs/heads/main'' (demo_oid (CHR ''d''))]"
proof -
  let ?h = "demo_hub\<lparr>h_git := demo_state\<lparr>dw_remote := Some (demo_oid (CHR ''d''))\<rparr>\<rparr>"
  have f: "e_fault demo_env = no_faults" by (simp add: demo_env_def)
  have s: "po_status demo_diverged = PubPending" "po_pendingReason demo_diverged = None"
      "po_remoteName demo_diverged \<noteq> UNSET_REMOTE_MARKER"
      "\<not> po_ambiguousPushAcknowledged demo_diverged"
    by (simp_all add: demo_diverged_def demo_item_def new_item_def UNSET_REMOTE_MARKER_def)
  have t: "observed_tip demo_env demo_diverged ?h = Inr (Some (po_expectedRemoteOid demo_diverged))"
    by code_simp
  have z: "po_expectedRemoteOid demo_diverged \<noteq> GIT_ZERO_OID" by code_simp
  have a: "\<not> isAncestor demo_env (observed_repo demo_env demo_diverged ?h
        (Some (po_expectedRemoteOid demo_diverged)))
        (po_candidateOid demo_diverged) (po_expectedRemoteOid demo_diverged)"
    by code_simp
  have r: "dw_remote (h_git (snd (projectOneItem demo_env ''2'' demo_diverged ?h)))
      = Some (demo_oid (CHR ''b''))" by code_simp
  from diverged_at_enqueue_is_overwritten [OF demo_log f s t z a] r show ?thesis
    by (simp add: demo_diverged_def demo_item_def new_item_def demo_state_def)
qed


subsection \<open>The result of a whole projection\<close>

lemma putItem_written:
  "publication_ok it \<Longrightarrow> putItem it h = (Inr a, h') \<Longrightarrow>
     a = it \<and> readOutboxItem (h_publication h') (po_id it) = Some it
     \<and> set (map fst (h_publication h')) = insert (po_id it) (set (map fst (h_publication h)))
     \<and> (distinct (map fst (h_publication h)) \<longrightarrow> distinct (map fst (h_publication h')))"
  using read_written_item [of it "h_publication h" "po_id it"]
  by (auto simp: putItem_def writeOutboxItem_def dom_update distinct_update)

text \<open>
  \<open>stored it h h'\<close>: \<open>h'\<close> holds \<open>it\<close> under its own id, and its outbox has the same files as before.
\<close>

definition stored :: "HubPublicationOutboxItem \<Rightarrow> 'g hub \<Rightarrow> 'g hub \<Rightarrow> bool" where
  "stored it h h' \<longleftrightarrow>
     readOutboxItem (h_publication h') (po_id it) = Some it
     \<and> set (map fst (h_publication h')) = set (map fst (h_publication h))
     \<and> distinct (map fst (h_publication h'))"


text \<open>
  \<open>stores it m\<close>: from an outbox with the file of \<open>it\<close>, an operation that returns has stored what it
  returns under that name, in an outbox with the same files.
\<close>

definition has_file :: "HubPublicationOutboxItem \<Rightarrow> 'g hub \<Rightarrow> bool" where
  "has_file it h \<longleftrightarrow> distinct (map fst (h_publication h)) \<and> po_id it \<in> set (map fst (h_publication h))"

definition stores :: "HubPublicationOutboxItem \<Rightarrow> ('g, HubPublicationOutboxItem) hub_act \<Rightarrow> bool" where
  "stores it m \<longleftrightarrow> (\<forall>h a h'. has_file it h \<and> m h = (Inr a, h') \<longrightarrow> po_id a = po_id it \<and> stored a h h')"

lemma storesD: "stores it m \<Longrightarrow> has_file it h \<Longrightarrow> m h = (Inr a, h') \<Longrightarrow> po_id a = po_id it \<and> stored a h h'"
  by (simp add: stores_def)

lemma stores_put: "publication_ok a \<Longrightarrow> po_id a = po_id it \<Longrightarrow> stores it (putItem a)"
  unfolding stores_def using putItem_written [of a]
  by (fastforce simp: stored_def has_file_def insert_absorb)

lemma stored_trans: "stored a h h1 \<Longrightarrow> stored b h1 h2 \<Longrightarrow> stored b h h2"
  by (simp add: stored_def)

lemma stores_after:
  assumes "stores it m" and "\<And>a. stores it (f a)"
  shows "stores it (bind_act m f)"
  unfolding stores_def
proof (intro allI impI, elim conjE)
  fix h b h'
  assume held: "has_file it h" and "bind_act m f h = (Inr b, h')"
  then obtain a h1 where 1: "m h = (Inr a, h1)" and 2: "f a h1 = (Inr b, h')" by auto
  from storesD [OF assms(1) held 1] have s: "stored a h h1" by simp
  then have "has_file it h1" using held by (simp add: has_file_def stored_def)
  from storesD [OF assms(2) this 2] s show "po_id b = po_id it \<and> stored b h h'"
    by (blast intro: stored_trans)
qed

text \<open>Operations on the repository alone.\<close>

definition outbox_same :: "'g hub \<Rightarrow> 'g hub \<Rightarrow> bool" where
  "outbox_same h h' \<longleftrightarrow> h_publication h' = h_publication h"

interpretation outbox: kept_relation outbox_same
  by unfold_locales (simp_all add: outbox_same_def)

lemma stores_later:
  assumes "moves outbox_same m" and "\<And>a h h'. m h = (Inr a, h') \<Longrightarrow> stores it (f a)"
  shows "stores it (bind_act m f)"
  unfolding stores_def
proof (intro allI impI, elim conjE)
  fix h b h'
  assume held: "has_file it h" and "bind_act m f h = (Inr b, h')"
  then obtain a h1 where 1: "m h = (Inr a, h1)" and 2: "f a h1 = (Inr b, h')" by auto
  from moves_result [OF assms(1) 1] have s: "h_publication h1 = h_publication h"
    by (simp add: outbox_same_def)
  with held have "has_file it h1" by (simp add: has_file_def)
  from storesD [OF assms(2) [OF 1] this 2] s show "po_id b = po_id it \<and> stored b h h'"
    unfolding stored_def by metis
qed

lemma outbox_rules:
  "moves outbox_same (observeRemoteTip E n r)"
  "moves outbox_same (pushCandidate E it lease)"
  "moves outbox_same (ensureCandidateObjectFetched E it tip)"
  "moves outbox_same (maybeCrash f s t)"
  by (simp_all add: moves_def observeRemoteTip_def lsRemote_def pushCandidate_def bind_act_def
      ret_act_def throw_act_def ensureCandidateObjectFetched_def modify_act_def outbox_same_def
      maybeCrash_def)

lemma observeRemoteTip_oid:
  "observeRemoteTip E n r h = (Inr (Inr (Some tip)), h') \<Longrightarrow> isGitOid tip"
  by (auto simp: observeRemoteTip_def lsRemote_def bind_act_def ret_act_def dest: read_tip_oid)

lemma stores_mark:
  assumes "publication_ok a" and "po_id a = po_id it" and "trimmed now"
  shows "stores it (markPending a r now)" and "isGitOid p \<Longrightarrow> stores it (markSucceeded a p now)"
    and "stores it (markAmbiguousPushAcknowledged a now)"
  unfolding markPending_def markSucceeded_def markAmbiguousPushAcknowledged_def
  using assms
  by (simp_all add: stores_put pending_item_ok succeeded_item_ok acknowledged_item_ok)

text \<open>After the remote was observed to contain the candidate, else \<open>m\<close>.\<close>

lemma stores_try:
  assumes ok: "publication_ok a" and id: "po_id a = po_id it" and now: "trimmed now"
    and m: "stores it m"
  shows "stores it (bind_act (trySucceedFromRemoteObservation E a now c)
      (\<lambda>r. case r of Some b \<Rightarrow> ret_act b | None \<Rightarrow> m))"
proof -
  let ?k = "\<lambda>r. case r of Some b \<Rightarrow> ret_act b | None \<Rightarrow> m"
  show ?thesis
    unfolding trySucceedFromRemoteObservation_def bind_act_assoc
  proof (rule stores_later [OF outbox_rules(1)])
    fix observed h h'
    assume obs: "observeRemoteTip E (po_remoteName a) (po_remoteRef a) h = (Inr observed, h')"
    have git: "isGitOid (the tip)" if "observed = Inr tip" "remoteContainsCandidate E g cand tip"
      for tip g cand
      using that obs by (cases tip) (auto dest: observeRemoteTip_oid)
    show "stores it (bind_act (gets_act h_git) (\<lambda>g. bind_act (case observed of Inl _ \<Rightarrow> ret_act None
          | Inr tip \<Rightarrow> if \<not> remoteContainsCandidate E g (po_candidateOid a) tip then ret_act None
              else bind_act (when_act c (maybeCrash (e_fault E) SE_publication AfterEffect))
                (\<lambda>_. bind_act (markSucceeded a (the tip) now) (\<lambda>it'. ret_act (Some it')))) ?k))"
    proof (rule stores_later [OF outbox.moves_gets])
      fix g :: 'a
      show "stores it (bind_act (case observed of Inl _ \<Rightarrow> ret_act None
          | Inr tip \<Rightarrow> if \<not> remoteContainsCandidate E g (po_candidateOid a) tip then ret_act None
              else bind_act (when_act c (maybeCrash (e_fault E) SE_publication AfterEffect))
                (\<lambda>_. bind_act (markSucceeded a (the tip) now) (\<lambda>it'. ret_act (Some it')))) ?k)"
        by (cases observed)
          (auto simp: bind_act_ret_left bind_act_ret_right m bind_act_assoc intro!: stores_later [OF outbox.moves_when [OF outbox_rules(4)]]
            stores_mark(2) [OF ok id now] git)
    qed
  qed
qed

lemma stores_push:
  assumes "publication_ok it" and "trimmed now"
  shows "stores it (pushCandidateWithCrashWindows E it lease now)"
proof -
  have git: "isGitOid (po_candidateOid it)" using assms(1) by (simp add: publication_ok_def)
  let ?a = "acknowledged_item it now"
  have a: "publication_ok ?a" "po_id ?a = po_id it" using assms by (simp_all add: acknowledged_item_ok)
  have put: "stores it (bind_act (putItem ?a) f)" if "stores it (f ?a)" for f
  proof -
    have "bind_act (putItem ?a) f = bind_act (putItem ?a) (\<lambda>_. f ?a)"
      by (simp add: putItem_def bind_act_def modify_act_def ret_act_def fun_eq_iff)
    then show ?thesis using stores_after [OF stores_put [OF a], of "\<lambda>_. f ?a"] that by simp
  qed
  have "stores it (after_push E it now r)" for r
    unfolding after_push_def markAmbiguousPushAcknowledged_def
    by (cases r)
      (auto intro!: stores_try [OF assms(1) refl assms(2)] stores_mark [OF assms(1) refl assms(2)]
        put stores_later [OF outbox_rules(4)] stores_try [OF a assms(2)]
        stores_mark(2) [OF a assms(2)] git)
  then show ?thesis
    unfolding pushCandidateWithCrashWindows_def
    by (intro stores_later [OF outbox_rules(4)] stores_later [OF outbox_rules(2)])
qed

lemma stores_project:
  assumes "publication_ok it" and "trimmed now" and "po_status it = PubPending"
  shows "stores it (projectOneItem E now it)"
proof -
  note marks = stores_mark [OF assms(1) refl assms(2)]
  show ?thesis
    unfolding projectOneItem_def
  proof (simp add: assms(3) marks, intro impI stores_later [OF outbox_rules(1)])
    fix observed h h'
    assume obs: "observeRemoteTip E (po_remoteName it) (po_remoteRef it) h = (Inr observed, h')"
    show "stores it (case observed of Inl reason \<Rightarrow> markPending it reason now
       | Inr tip \<Rightarrow>
         bind_act (case tip of None \<Rightarrow> ret_act () | Some new \<Rightarrow> ensureCandidateObjectFetched E it new)
         (\<lambda>_. bind_act (gets_act h_git) (\<lambda>g.
         if remoteContainsCandidate E g (po_candidateOid it) tip
         then markSucceeded it (the tip) now
         else if po_ambiguousPushAcknowledged it
         then markPending it RemoteForceRewriteIntegrity now
         else if remoteTipDivergedFromExpectation E g it tip
         then markPending it RemoteDiverged now
         else pushCandidateWithCrashWindows E it
                (case tip of None \<Rightarrow> GIT_ZERO_OID | Some new \<Rightarrow> new) now)))"
    proof (cases observed)
      case (Inr tip)
      have git: "isGitOid (the tip)" if "remoteContainsCandidate E g cand tip" for g cand
        using that obs Inr by (cases tip) (auto dest: observeRemoteTip_oid)
      have "moves outbox_same (case tip of None \<Rightarrow> ret_act ()
          | Some new \<Rightarrow> ensureCandidateObjectFetched E it new)"
        by (intro outbox.moves_rules outbox_rules)
      then show ?thesis
        unfolding Inr
        by (auto intro!: stores_later [OF outbox.moves_gets] marks git stores_push [OF assms(1,2)]
            elim: stores_later)
    qed (simp add: marks)
  qed
qed


text \<open>Projecting items with different ids: each file ends as the result of its own projection.\<close>

lemma each_project_stored:
  assumes "each_act (projectOneItem E now) items h = (Inr rs, h')" and "trimmed now"
    and "distinct (map po_id items)" and "distinct (map fst (h_publication h))"
    and "\<forall>it \<in> set items. readOutboxItem (h_publication h) (po_id it) = Some it"
  shows "map po_id rs = map po_id items \<and> distinct (map fst (h_publication h'))
    \<and> set (map fst (h_publication h')) = set (map fst (h_publication h))
    \<and> (\<forall>r \<in> set rs. readOutboxItem (h_publication h') (po_id r) = Some r)"
  using assms(1,3-)
proof (induction items arbitrary: rs h)
  case Nil
  then show ?case by simp
next
  case (Cons it items)
  from Cons.prems(1) obtain r rs' h1 where p: "projectOneItem E now it h = (Inr r, h1)"
      and e: "each_act (projectOneItem E now) items h1 = (Inr rs', h')" and rs: "rs = r # rs'"
    by auto
  have rd: "readOutboxItem (h_publication h) (po_id it) = Some it" using Cons.prems(4) by simp
  then have held: "has_file it h"
    using Cons.prems(3) by (force simp: has_file_def readOutboxItem_def dest: map_of_SomeD
        split: option.splits)
  have st: "po_id r = po_id it \<and> stored r h h1"
  proof (cases "po_status it")
    case PubPending
    show ?thesis
      using storesD [OF stores_project held p] read_publication_ok [OF rd] assms(2) PubPending by blast
  next
    case PubSucceeded
    with p held rd show ?thesis by (simp add: projectOneItem_def stored_def has_file_def)
  qed
  have same: "readOutboxItem (h_publication h1) i = readOutboxItem (h_publication h) i"
    if "i \<noteq> po_id it" for i
    using moves_result [OF projectOneItem_file [OF that [symmetric]] p]
    by (simp add: publication_file_kept_def readOutboxItem_def)
  have "\<forall>x \<in> set items. readOutboxItem (h_publication h1) (po_id x) = Some x"
    using Cons.prems(2,4) same by (auto simp: image_iff)
  with Cons.IH [OF e] Cons.prems(2) st have IH: "map po_id rs' = map po_id items \<and> distinct (map fst (h_publication h'))
      \<and> set (map fst (h_publication h')) = set (map fst (h_publication h1))
      \<and> (\<forall>r \<in> set rs'. readOutboxItem (h_publication h') (po_id r) = Some r)"
    by (simp add: stored_def)
  have "publication_file_kept (po_id it) h1 h'"
    by (rule each_moves [OF e], rule projectOneItem_file) (use Cons.prems(2) in \<open>auto simp: image_iff\<close>)
  then have "readOutboxItem (h_publication h') (po_id r) = Some r"
    using st by (auto simp: publication_file_kept_def readOutboxItem_def stored_def)
  with IH rs st show ?case by (simp add: stored_def)
qed

lemma project_result:
  assumes keys: "outbox_keys (h_publication h)" and now: "trimmed now"
    and run: "projectHubPublicationOutbox E now h = (Inr out, h')"
  shows "outbox_keys (h_publication h')
    \<and> (\<forall>it \<in> set (listHubPublicationOutboxItems c (h_publication h')).
          po_status it = PubPending \<longrightarrow> pa_pendingCount out > 0)"
proof -
  let ?items = "listHubPublicationOutboxItems (e_collate E) (h_publication h)"
  from run obtain rs where e: "each_act (projectOneItem E now) ?items h = (Inr rs, h')"
      and out: "out = publication_outcome rs"
    by (auto simp: projectHubPublicationOutbox_def)
  have rd: "\<forall>it \<in> set ?items. readOutboxItem (h_publication h) (po_id it) = Some it"
    using keys by (auto simp: set_listed outbox_keys_def)
  note all = each_project_stored [OF e now outbox_keys_listed [OF keys] _ rd]
  have names: "set (map fst (h_publication h')) = set (map fst (h_publication h))"
      and ids: "map po_id rs = map po_id ?items" and dist: "distinct (map fst (h_publication h'))"
      and res: "\<forall>r \<in> set rs. readOutboxItem (h_publication h') (po_id r) = Some r"
    using all keys by (simp_all add: outbox_keys_def)
  have kept: "readOutboxItem (h_publication h') i = readOutboxItem (h_publication h) i"
    if "i \<notin> po_id ` set ?items" for i
  proof -
    have "publication_file_kept i h h'"
      by (rule each_moves [OF e], rule projectOneItem_file) (use that in blast)
    then show ?thesis by (simp add: publication_file_kept_def readOutboxItem_def)
  qed
  have image: "po_id ` set rs = po_id ` set ?items" using ids by (metis set_map)
  have mem: "\<exists>r \<in> set rs. po_id r = i" if "i \<in> po_id ` set ?items" for i
  proof -
    from that have "i \<in> po_id ` set rs" by (simp only: image)
    then show ?thesis by blast
  qed
  have id: "po_id it = i" if "readOutboxItem (h_publication h') i = Some it" for i it
  proof (cases "i \<in> po_id ` set ?items")
    case True
    with mem res that show ?thesis by (metis option.inject)
  next
    case False
    with kept that keys show ?thesis by (simp add: outbox_keys_def)
  qed
  have keys': "outbox_keys (h_publication h')" using id dist by (simp add: outbox_keys_def)
  have "pa_pendingCount out > 0"
    if it: "it \<in> set (listHubPublicationOutboxItems c (h_publication h'))" and p: "po_status it = PubPending"
    for it
  proof -
    from it obtain i where i: "i \<in> set (map fst (h_publication h'))" "\<not> includesText i ''.tmp''"
        "readOutboxItem (h_publication h') i = Some it" by (auto simp: set_listed)
    have "i \<in> po_id ` set ?items"
    proof (rule ccontr)
      assume "i \<notin> po_id ` set ?items"
      with kept i have "readOutboxItem (h_publication h) i = Some it" by simp
      with i names have "it \<in> set ?items" by (auto simp: set_listed)
      moreover have "po_id it = i" using id i(3) by blast
      ultimately show False using \<open>i \<notin> po_id ` set ?items\<close> by blast
    qed
    with mem obtain r where "r \<in> set rs" "po_id r = i" by blast
    with res i(3) have "it \<in> set rs" by (metis option.inject)
    with p show ?thesis by (force simp: out publication_outcome_def Let_def filter_empty_conv)
  qed
  with keys' show ?thesis by blast
qed


text \<open>What the loop promises for the publication it holds and the outbox it holds it for.\<close>

definition outcome_of :: "HubPublicationOutcome \<Rightarrow> 'g hub \<Rightarrow> bool" where
  "outcome_of out h \<longleftrightarrow> outbox_keys (h_publication h)
     \<and> (\<forall>c. \<forall>it \<in> set (listHubPublicationOutboxItems c (h_publication h)).
          po_status it = PubPending \<longrightarrow> pa_pendingCount out > 0)"

definition nothing_pending :: "'g hub \<Rightarrow> bool" where
  "nothing_pending h \<longleftrightarrow>
     (\<forall>c. \<forall>it \<in> set (listHubPublicationOutboxItems c (h_publication h)). po_status it = PubSucceeded)"

definition drive_result :: "int \<Rightarrow> int \<Rightarrow> HubRequiredDeliveryDriveResult \<Rightarrow> 'g hub \<Rightarrow> bool" where
  "drive_result timeoutMs elapsed d h \<longleftrightarrow>
     dr_outcome d = Delivered \<and> \<not> dr_timedOut d \<and> dr_pendingCount d = 0 \<and> nothing_pending h
     \<or> dr_outcome d = CompletedWithPendingDelivery \<and> dr_timedOut d \<and> dr_pendingCount d > 0
       \<and> timeoutMs \<le> elapsed"

lemma outcome_of_zero: "outcome_of out h \<Longrightarrow> pa_pendingCount out = 0 \<Longrightarrow> nothing_pending h"
  unfolding outcome_of_def nothing_pending_def
  by (metis HubPublicationStatus.exhaust less_irrefl)

text \<open>No projection takes longer than \<open>S\<close>, no sleep lasts more than \<open>L\<close> too long.\<close>

definition paced :: "drive_time \<Rightarrow> int \<Rightarrow> int \<Rightarrow> bool" where
  "paced W S L \<longleftrightarrow> (\<forall>k. 0 \<le> dt_spend W k \<and> dt_spend W k \<le> S \<and> 0 \<le> dt_late W k \<and> dt_late W k \<le> L)"

lemma pacedD: "paced W S L \<Longrightarrow> 0 \<le> dt_spend W k \<and> dt_spend W k \<le> S \<and> 0 \<le> dt_late W k \<and> dt_late W k \<le> L"
  by (simp add: paced_def)

lemma drive_loop_returns:
  assumes now: "trimmed now" and paced: "paced W S L" and poll: "1 \<le> pollIntervalMs"
    and "outcome_of out h" and "t - startedAt \<le> max 0 timeoutMs + L + S"
  shows "\<exists>r T h'. drive_loop E now timeoutMs pollIntervalMs W startedAt k t out h = Some (r, T, h')
    \<and> T - startedAt \<le> max 0 timeoutMs + L + S
    \<and> (\<forall>d. r = Inr d \<longrightarrow> drive_result timeoutMs (T - startedAt) d h')"
  using assms(4,5)
proof (induction "nat (timeoutMs - (t - startedAt))" arbitrary: k t out h rule: less_induct)
  case less
  show ?case
  proof (cases "pa_pendingCount out = 0 \<or> t - startedAt \<ge> timeoutMs")
    case True
    with less.prems show ?thesis
      by (subst drive_loop.simps) (auto simp: drive_result_def outcome_of_zero Let_def)
  next
    case False
    define t' where "t' = t + min pollIntervalMs (max 1 (timeoutMs - (t - startedAt))) + dt_late W k + dt_spend W k"
    have late: "t' - startedAt \<le> max 0 timeoutMs + L + S" and later: "t + 1 \<le> t'"
      using pacedD [OF paced, of k] poll False unfolding t'_def by linarith+
    obtain x h1 where p: "projectHubPublicationOutbox E now h = (x, h1)" by fastforce
    have step: "drive_loop E now timeoutMs pollIntervalMs W startedAt k t out h
        = (case x of Inl e \<Rightarrow> Some (Inl e, t', h1)
           | Inr nxt \<Rightarrow> drive_loop E now timeoutMs pollIntervalMs W startedAt (Suc k) t' nxt h1)"
      using False p by (subst drive_loop.simps) (simp add: Let_def t'_def split: sum.split)
    show ?thesis
    proof (cases x)
      case (Inl e)
      with step late show ?thesis by simp
    next
      case (Inr nxt)
      have out: "outcome_of nxt h1"
        using project_result [OF _ now p [unfolded Inr]] less.prems by (auto simp: outcome_of_def)
      have "nat (timeoutMs - (t' - startedAt)) < nat (timeoutMs - (t - startedAt))"
        using later False by linarith
      from less.hyps [OF this out late, of "Suc k"] show ?thesis by (simp only: step Inr sum.case)
    qed
  qed
qed

text \<open>
  C24: Required delivery returns within its deadline and says what it did. If no projection takes longer than
  \<open>S\<close> and no sleep lasts more than \<open>L\<close> too long, the drive has returned when the timeout, one such sleep
  and one such projection have passed. Unless a projection threw, it reports delivery, and then no item of
  the outbox is pending, or it reports pending delivery, and then the timeout has elapsed.
\<close>

theorem required_delivery_returns:
  assumes "outbox_keys (h_publication h)" and "trimmed now" and "paced W S L" and "1 \<le> pollIntervalMs"
    and "coalesce given (readHubLandingPolicy (h_policy h)) = Some p" and "p_publishPolicy p = Required"
  shows "\<exists>r T h'. driveHubRequiredPublication E given now (Some pollIntervalMs) W startedAt h = Some (r, T, h')
    \<and> T - startedAt \<le> max 0 (resolveHubDeliveryTimeoutMs p) + L + S
    \<and> (\<forall>d. r = Inr d \<longrightarrow>
         dr_outcome d = Delivered \<and> dr_pendingCount d = 0 \<and> nothing_pending h'
         \<or> dr_outcome d = CompletedWithPendingDelivery \<and> dr_pendingCount d > 0
           \<and> resolveHubDeliveryTimeoutMs p \<le> T - startedAt)"
proof -
  obtain x h1 where run: "projectHubPublicationOutbox E now h = (x, h1)" by fastforce
  let ?t = "startedAt + dt_spend W 0"
  have early: "?t - startedAt \<le> max 0 timeoutMs + L + S" for timeoutMs
    using pacedD [OF assms(3), of 0] by linarith
  show ?thesis
  proof (cases x)
    case (Inl e)
    with run early show ?thesis by (simp add: driveHubRequiredPublication_def Let_def)
  next
    case (Inr out)
    have "outcome_of out h1"
      using project_result [OF assms(1,2) run [unfolded Inr]] by (simp add: outcome_of_def)
    from drive_loop_returns [OF assms(2-4) this early, where E = E and k = 1
        and timeoutMs = "resolveHubDeliveryTimeoutMs p"]
    obtain r T h' where "drive_loop E now (resolveHubDeliveryTimeoutMs p) pollIntervalMs W startedAt 1 ?t out h1
          = Some (r, T, h')"
        and "T - startedAt \<le> max 0 (resolveHubDeliveryTimeoutMs p) + L + S"
        and "\<forall>d. r = Inr d \<longrightarrow> drive_result (resolveHubDeliveryTimeoutMs p) (T - startedAt) d h'"
      by blast
    with run Inr assms(5,6) show ?thesis
      by (auto simp: driveHubRequiredPublication_def Let_def drive_result_def)
  qed
qed

definition demo_policy :: HubLandingPolicy where
  "demo_policy = (fresh_policy ''main'' ''p-d'' ''1'')
     \<lparr>p_publishPolicy := Required, p_remoteTarget := Some ''origin/main''\<rparr>"

definition demo_pace :: drive_time where
  "demo_pace = \<lparr>dt_spend = (\<lambda>k. 20), dt_late = (\<lambda>k. 1)\<rparr>"

definition demo_outbox :: "demo_world hub" where
  "demo_outbox = demo_hub\<lparr>h_publication := [(po_id demo_item, Text (publication_json demo_item))]\<rparr>"

theorem required_delivery_returns_witness:
  "\<exists>r T h'. driveHubRequiredPublication demo_env (Some (demo_policy\<lparr>p_deliveryTimeoutMs := Some 100\<rparr>)) ''1''
       (Some 50) demo_pace 0 demo_outbox = Some (r, T, h') \<and> T \<le> 121"
proof -
  let ?p = "demo_policy\<lparr>p_deliveryTimeoutMs := Some 100\<rparr>"
  have read: "readOutboxItem (h_publication demo_outbox) i = (if i = po_id demo_item then Some demo_item else None)" for i
    by (simp add: demo_outbox_def readOutboxItem_def publication_codec.dec_enc demo_item_ok)
  have k: "outbox_keys (h_publication demo_outbox)"
    unfolding outbox_keys_def read by (simp add: demo_outbox_def)
  have t: "trimmed ''1''" by (simp add: trimmed_def js_trim_def js_space_def)
  have c: "paced demo_pace 20 1" by (simp add: paced_def demo_pace_def)
  have p: "coalesce (Some ?p) (readHubLandingPolicy (h_policy demo_outbox)) = Some ?p"
      "p_publishPolicy ?p = Required" and ms: "resolveHubDeliveryTimeoutMs ?p = 100"
    by (simp_all add: demo_policy_def resolveHubDeliveryTimeoutMs_def)
  have "(1::int) \<le> 50" by simp
  from required_delivery_returns [OF k t c this p, of demo_env 0] show ?thesis unfolding ms by auto
qed

text \<open>
  A required policy whose remote target has no slash enqueues nothing and pushes nothing, and its
  drive still reports delivery.
\<close>

theorem malformed_target_counts_as_delivered:
  assumes "p_publishPolicy p = Required" and "p_remoteTarget p = Some target" and "target \<noteq> []"
    and "CHR ''/'' \<notin> set target" and "h_publication h = []"
  shows "enqueueHubPublication E tx t p cand now h = (Inr None, h)
    \<and> (\<exists>d T. driveHubRequiredPublication E (Some p) now poll W startedAt h = Some (Inr d, T, h)
         \<and> dr_outcome d = Delivered \<and> dr_pendingCount d = 0)"
proof -
  have "CHR ''/'' \<notin> set (js_trim target)"
    using assms(4) by (auto simp: js_trim_def dest!: set_dropWhileD)
  then have none: "parseHubPublicationRemoteTarget target = None"
    by (simp add: parseHubPublicationRemoteTarget_def Let_def)
  have "enqueueHubPublication E tx t p cand now h = (Inr None, h)"
    using assms(1-3) none
    by (simp add: enqueueHubPublication_def shouldEnqueuePublication_def ret_act_def)
  moreover have "projectHubPublicationOutbox E now h = (Inr (publication_outcome []), h)"
    using assms(5) by (simp add: projectHubPublicationOutbox_def listHubPublicationOutboxItems_def
        List.map_filter_simps)
  ultimately show ?thesis
    using assms(1)
    by (simp add: driveHubRequiredPublication_def Let_def drive_loop.simps publication_outcome_def)
qed

theorem malformed_target_counts_as_delivered_witness:
  "\<exists>d T. driveHubRequiredPublication demo_env (Some (demo_policy\<lparr>p_remoteTarget := Some ''origin''\<rparr>))
       ''1'' None demo_pace 0 demo_hub = Some (Inr d, T, demo_hub) \<and> dr_outcome d = Delivered"
proof -
  let ?p = "demo_policy\<lparr>p_remoteTarget := Some ''origin''\<rparr>"
  have p: "p_publishPolicy ?p = Required" "p_remoteTarget ?p = Some ''origin''"
    by (simp_all add: demo_policy_def)
  have t: "''origin'' \<noteq> []" "CHR ''/'' \<notin> set ''origin''" by simp_all
  have h: "h_publication demo_hub = []" by (simp add: demo_hub_def)
  from malformed_target_counts_as_delivered [OF p t h] show ?thesis by blast
qed

end
