(* ===== verification/Checkout_Outbox.thy ===== *)
theory Checkout_Outbox
  imports Hub_Demo "HOL-Library.AList" "HOL-Library.Monad_Syntax"
begin

text \<open>
  The checkout outbox (\<open>src/src/hubCheckoutProjection.ts\<close>): after a landing the user's own branch is
  fast-forwarded to the landed candidate, when Git can prove that no local work is touched. Items,
  their parser and writer, enqueueing, the safety checks, and the projection.
\<close>

subsection \<open>Outbox items\<close>

datatype HubCheckoutPendingReason =
    StagedChanges
  | UnstagedChanges
  | UntrackedPaths
  | RenameOrDelete
  | OperationInProgress
  | SparseCheckout
  | Submodule
  | MultipleWorktrees
  | BranchDiverged

definition HUB_CHECKOUT_PENDING_REASONS :: "HubCheckoutPendingReason list" where
  "HUB_CHECKOUT_PENDING_REASONS =
     [StagedChanges, UnstagedChanges, UntrackedPaths, RenameOrDelete, OperationInProgress,
      SparseCheckout, Submodule, MultipleWorktrees, BranchDiverged]"

fun checkout_reason_name :: "HubCheckoutPendingReason \<Rightarrow> string" where
  "checkout_reason_name StagedChanges = ''staged_changes''"
| "checkout_reason_name UnstagedChanges = ''unstaged_changes''"
| "checkout_reason_name UntrackedPaths = ''untracked_paths''"
| "checkout_reason_name RenameOrDelete = ''rename_or_delete''"
| "checkout_reason_name OperationInProgress = ''operation_in_progress''"
| "checkout_reason_name SparseCheckout = ''sparse_checkout''"
| "checkout_reason_name Submodule = ''submodule''"
| "checkout_reason_name MultipleWorktrees = ''multiple_worktrees''"
| "checkout_reason_name BranchDiverged = ''branch_diverged''"

datatype HubCheckoutProjectionStatus = CheckoutPending | CheckoutSucceeded

fun checkout_status_name :: "HubCheckoutProjectionStatus \<Rightarrow> string" where
  "checkout_status_name CheckoutPending = ''pending''"
| "checkout_status_name CheckoutSucceeded = ''succeeded''"

record HubCheckoutOutboxItem =
  co_id :: string
  co_transactionId :: txn_id
  co_taskId :: task_id
  co_hostTargetBranch :: string
  co_branchRef :: string
  co_candidateOid :: oid
  co_expectedBranchOid :: oid
  co_publishTargetRef :: string
  co_status :: HubCheckoutProjectionStatus
  co_createdAt :: iso_time
  co_updatedAt :: iso_time
  co_pendingReason :: "HubCheckoutPendingReason option"
  co_message :: "string option"
  co_projectedOid :: "oid option"
  co_worktreePath :: "string option"

fun isCheckoutPendingReason :: "json option \<Rightarrow> HubCheckoutPendingReason option" where
  "isCheckoutPendingReason (Some (JStr s)) =
     find (\<lambda>r. checkout_reason_name r = s) HUB_CHECKOUT_PENDING_REASONS"
| "isCheckoutPendingReason _ = None"

definition parse_checkout_status :: "string option \<Rightarrow> HubCheckoutProjectionStatus option" where
  "parse_checkout_status v =
     (if v = Some ''pending'' then Some CheckoutPending
      else if v = Some ''succeeded'' then Some CheckoutSucceeded else None)"

definition resolveHubCheckoutProjectionId ::
    "(string \<Rightarrow> string) \<Rightarrow> txn_id \<Rightarrow> string \<Rightarrow> oid \<Rightarrow> string" where
  "resolveHubCheckoutProjectionId sha256 tx branch cand =
     ''cpo-'' @ take 16 (sha256 (tx @ CHR 0x00 # branch @ CHR 0x00 # cand))"

definition branchRefFor :: "string \<Rightarrow> string" where
  "branchRefFor b = (if startsWith b ''refs/'' then b else ''refs/heads/'' @ b)"

definition parseCheckoutItem :: "json \<Rightarrow> HubCheckoutOutboxItem option" where
  "parseCheckoutItem v =
    (let kvs = readObject v; projectedOid = readString kvs ''projectedOid'' in
     if jget kvs ''version'' \<noteq> Some (jint 1) then None
     else do {
       i \<leftarrow> readString kvs ''id'';
       tx \<leftarrow> readString kvs ''transactionId'';
       t \<leftarrow> readString kvs ''taskId'';
       host \<leftarrow> readString kvs ''hostTargetBranch'';
       rref \<leftarrow> readString kvs ''branchRef'';
       cand \<leftarrow> readString kvs ''candidateOid'';
       expected \<leftarrow> readString kvs ''expectedBranchOid'';
       pub \<leftarrow> readString kvs ''publishTargetRef'';
       status \<leftarrow> parse_checkout_status (readString kvs ''status'');
       created \<leftarrow> readString kvs ''createdAt'';
       updated \<leftarrow> readString kvs ''updatedAt'';
       (if \<not> isGitOid cand \<or> \<not> isGitOid expected then None
        else if projectedOid \<noteq> None \<and> \<not> isGitOid_opt projectedOid then None
        else Some \<lparr>co_id = i, co_transactionId = tx, co_taskId = t, co_hostTargetBranch = host,
          co_branchRef = rref, co_candidateOid = cand, co_expectedBranchOid = expected,
          co_publishTargetRef = pub, co_status = status, co_createdAt = created,
          co_updatedAt = updated,
          co_pendingReason = isCheckoutPendingReason (jget kvs ''pendingReason''),
          co_message = readString kvs ''message'', co_projectedOid = projectedOid,
          co_worktreePath = readString kvs ''worktreePath''\<rparr>)
     })"

definition checkout_fields :: "HubCheckoutOutboxItem \<Rightarrow> (string \<times> json option) list" where
  "checkout_fields it =
     [(''version'', Some (jint 1)),
      (''id'', Some (JStr (co_id it))),
      (''transactionId'', Some (JStr (co_transactionId it))),
      (''taskId'', Some (JStr (co_taskId it))),
      (''hostTargetBranch'', Some (JStr (co_hostTargetBranch it))),
      (''branchRef'', Some (JStr (co_branchRef it))),
      (''candidateOid'', Some (JStr (co_candidateOid it))),
      (''expectedBranchOid'', Some (JStr (co_expectedBranchOid it))),
      (''publishTargetRef'', Some (JStr (co_publishTargetRef it))),
      (''status'', Some (JStr (checkout_status_name (co_status it)))),
      (''createdAt'', Some (JStr (co_createdAt it))),
      (''updatedAt'', Some (JStr (co_updatedAt it))),
      (''pendingReason'', map_option (\<lambda>r. JStr (checkout_reason_name r)) (co_pendingReason it)),
      (''message'', jstr_opt (co_message it)),
      (''projectedOid'', jstr_opt (co_projectedOid it)),
      (''worktreePath'', jstr_opt (co_worktreePath it))]"

definition checkout_json :: "HubCheckoutOutboxItem \<Rightarrow> json" where
  "checkout_json it = jobj (checkout_fields it)"

definition checkout_ok :: "HubCheckoutOutboxItem \<Rightarrow> bool" where
  "checkout_ok it \<longleftrightarrow>
     list_all trimmed
       [co_id it, co_transactionId it, co_taskId it, co_hostTargetBranch it, co_branchRef it,
        co_publishTargetRef it, co_createdAt it, co_updatedAt it]
     \<and> isGitOid (co_candidateOid it) \<and> isGitOid (co_expectedBranchOid it)
     \<and> opt_ok trimmed (co_message it) \<and> opt_ok isGitOid (co_projectedOid it)
     \<and> opt_ok trimmed (co_worktreePath it)"

lemma checkout_json_get:
  "jget (readObject (checkout_json it)) k =
     (case map_of (checkout_fields it) k of None \<Rightarrow> None | Some v \<Rightarrow> v)"
  unfolding checkout_json_def readObject_jobj
  by (rule jget_defined_fields) (simp add: checkout_fields_def)

lemma find_checkout_reason:
  "find (\<lambda>r'. checkout_reason_name r' = checkout_reason_name r) HUB_CHECKOUT_PENDING_REASONS = Some r"
  by (cases r) (simp_all add: HUB_CHECKOUT_PENDING_REASONS_def)

lemma checkout_surjective:
  "\<lparr>co_id = co_id it, co_transactionId = co_transactionId it, co_taskId = co_taskId it,
     co_hostTargetBranch = co_hostTargetBranch it, co_branchRef = co_branchRef it,
     co_candidateOid = co_candidateOid it, co_expectedBranchOid = co_expectedBranchOid it,
     co_publishTargetRef = co_publishTargetRef it, co_status = co_status it,
     co_createdAt = co_createdAt it, co_updatedAt = co_updatedAt it,
     co_pendingReason = co_pendingReason it, co_message = co_message it,
     co_projectedOid = co_projectedOid it, co_worktreePath = co_worktreePath it\<rparr> = it"
  by simp

lemma checkout_roundtrip:
  assumes "checkout_ok it"
  shows "parseCheckoutItem (checkout_json it) = Some it"
proof -
  let ?kvs = "readObject (checkout_json it)"
  note get = checkout_json_get [of it, unfolded checkout_fields_def]
  note ok = assms [unfolded checkout_ok_def]
  have req: "readString ?kvs ''id'' = Some (co_id it)"
      "readString ?kvs ''transactionId'' = Some (co_transactionId it)"
      "readString ?kvs ''taskId'' = Some (co_taskId it)"
      "readString ?kvs ''hostTargetBranch'' = Some (co_hostTargetBranch it)"
      "readString ?kvs ''branchRef'' = Some (co_branchRef it)"
      "readString ?kvs ''candidateOid'' = Some (co_candidateOid it)"
      "readString ?kvs ''expectedBranchOid'' = Some (co_expectedBranchOid it)"
      "readString ?kvs ''publishTargetRef'' = Some (co_publishTargetRef it)"
      "readString ?kvs ''createdAt'' = Some (co_createdAt it)"
      "readString ?kvs ''updatedAt'' = Some (co_updatedAt it)"
    using ok by (simp_all add: readString_jget_Some get isGitOid_trimmed)
  have opt: "readString ?kvs ''message'' = co_message it"
      "readString ?kvs ''projectedOid'' = co_projectedOid it"
      "readString ?kvs ''worktreePath'' = co_worktreePath it"
    using ok by (simp_all add: readString_opt get opt_ok_git_trimmed)
  have "trimmed (checkout_status_name (co_status it))"
    by (cases "co_status it") (simp_all add: trimmed_def js_trim_def js_space_def)
  then have status: "parse_checkout_status (readString ?kvs ''status'') = Some (co_status it)"
    by (simp add: readString_jget_Some get)
      (cases "co_status it"; simp add: parse_checkout_status_def)
  have reason: "isCheckoutPendingReason (jget ?kvs ''pendingReason'') = co_pendingReason it"
    by (simp add: get) (cases "co_pendingReason it"; simp add: find_checkout_reason)
  have version: "jget ?kvs ''version'' = Some (jint 1)"
    by (simp add: get)
  have "isGitOid (co_candidateOid it)" "isGitOid (co_expectedBranchOid it)"
      "\<not> (co_projectedOid it \<noteq> None \<and> \<not> isGitOid_opt (co_projectedOid it))"
    using ok opt_ok_git_not_bad by simp_all
  then show ?thesis
    unfolding parseCheckoutItem_def Let_def req opt status reason version
    by (simp only: Option.bind.simps if_False if_True simp_thms) (simp only: checkout_surjective)
qed

interpretation checkout_codec: json_codec checkout_json parseCheckoutItem checkout_ok
  by unfold_locales (rule checkout_roundtrip)

subsection \<open>The outbox directory\<close>

definition readCheckoutItem :: "(string \<times> jfile) list \<Rightarrow> string \<Rightarrow> HubCheckoutOutboxItem option" where
  "readCheckoutItem d i =
     (case map_of d i of None \<Rightarrow> None | Some f \<Rightarrow> read_json_file parseCheckoutItem f)"

definition writeCheckoutItem ::
    "(string \<times> jfile) list \<Rightarrow> HubCheckoutOutboxItem \<Rightarrow> (string \<times> jfile) list" where
  "writeCheckoutItem d it = AList.update (co_id it) (Text (checkout_json it)) d"

definition listHubCheckoutOutboxItems ::
    "(string \<Rightarrow> rat) \<Rightarrow> (string \<times> jfile) list \<Rightarrow> HubCheckoutOutboxItem list" where
  "listHubCheckoutOutboxItems collate d =
     sort_key (\<lambda>it. collate (co_createdAt it))
       (List.map_filter (readCheckoutItem d)
         (filter (\<lambda>i. \<not> includesText i ''.tmp'') (map fst d)))"

definition checkout_no_recover :: string where
  "checkout_no_recover = ''This is not a task failure and does not require a recovery command.''"

definition checkoutPendingMessage :: "HubCheckoutOutboxItem \<Rightarrow> string" where
  "checkoutPendingMessage it =
     ''Checkout sync pending for '' @ co_taskId it @ '' (''
     @ (case co_pendingReason it of None \<Rightarrow> ''unsafe_checkout'' | Some r \<Rightarrow> checkout_reason_name r)
     @ ''): host branch '' @ co_hostTargetBranch it
     @ '' was not updated. Landed candidate '' @ co_candidateOid it
     @ '' remains on the Hub publish target and the task can stay shipped. '' @ checkout_no_recover"

definition checkoutSucceededMessage :: "HubCheckoutOutboxItem \<Rightarrow> string" where
  "checkoutSucceededMessage it = ''Checkout synced '' @ co_hostTargetBranch it @ '' to ''
     @ (case co_projectedOid it of None \<Rightarrow> co_candidateOid it | Some p \<Rightarrow> p) @ ''.''"

definition formatHubCheckoutSyncMessage :: "nat \<Rightarrow> HubCheckoutOutboxItem list \<Rightarrow> string" where
  "formatHubCheckoutSyncMessage pendingCount items =
     (if pendingCount = 0 then []
      else (case find (\<lambda>it. co_status it = CheckoutPending) items of
              Some it \<Rightarrow> checkoutPendingMessage it
            | None \<Rightarrow> ''Checkout sync pending for '' @ show_nat pendingCount
                @ '' landed candidate(s). '' @ checkout_no_recover))"

record HubCheckoutOutboxInspection =
  ck_items :: "HubCheckoutOutboxItem list"
  ck_pendingCount :: nat
  ck_succeededCount :: nat
  ck_message :: string

definition inspectHubCheckoutOutbox ::
    "(string \<Rightarrow> rat) \<Rightarrow> (string \<times> jfile) list \<Rightarrow> HubCheckoutOutboxInspection" where
  "inspectHubCheckoutOutbox collate d =
     (let items = listHubCheckoutOutboxItems collate d;
          pendingCount = length (filter (\<lambda>it. co_status it = CheckoutPending) items)
      in \<lparr>ck_items = items, ck_pendingCount = pendingCount,
          ck_succeededCount = length (filter (\<lambda>it. co_status it = CheckoutSucceeded) items),
          ck_message = formatHubCheckoutSyncMessage pendingCount items\<rparr>)"

definition putCheckout :: "HubCheckoutOutboxItem \<Rightarrow> ('g, HubCheckoutOutboxItem) hub_act" where
  "putCheckout it = bind_act (modify_act (\<lambda>h. h\<lparr>h_checkout := writeCheckoutItem (h_checkout h) it\<rparr>))
     (\<lambda>_. ret_act it)"

definition enqueueHubCheckoutProjection ::
    "'g env \<Rightarrow> txn_id \<Rightarrow> task_id \<Rightarrow> HubLandingPolicy \<Rightarrow> oid \<Rightarrow> iso_time
     \<Rightarrow> ('g, HubCheckoutOutboxItem) hub_act" where
  "enqueueHubCheckoutProjection E tx t p cand now =
    (let host = p_hostTargetBranch p;
         i = resolveHubCheckoutProjectionId (rt_sha256 (e_rt E)) tx host cand
     in bind_act (gets_act (\<lambda>h. readCheckoutItem (h_checkout h) i)) (\<lambda>existing.
        case existing of
          Some it \<Rightarrow> ret_act it
        | None \<Rightarrow>
          bind_act (tryRevParse E (branchRefFor host)) (\<lambda>tip.
          putCheckout \<lparr>co_id = i, co_transactionId = tx, co_taskId = t, co_hostTargetBranch = host,
            co_branchRef = branchRefFor host, co_candidateOid = cand,
            co_expectedBranchOid = (case tip of None \<Rightarrow> cand | Some new \<Rightarrow> new),
            co_publishTargetRef = p_publishTargetRef p, co_status = CheckoutPending,
            co_createdAt = now, co_updatedAt = now, co_pendingReason = None, co_message = None,
            co_projectedOid = None, co_worktreePath = None\<rparr>)))"


subsection \<open>Worktrees of the user\<close>

text \<open>\<open>parseWorktreeList\<close>: the pending path and branch, then the lines still to read.\<close>

fun flush_worktree :: "string option \<Rightarrow> string option \<Rightarrow> (string \<times> string option) list" where
  "flush_worktree (Some (c # cs)) b = [(c # cs, b)]"
| "flush_worktree _ b = []"

fun parse_worktree_lines ::
    "string option \<Rightarrow> string option \<Rightarrow> string list \<Rightarrow> (string \<times> string option) list" where
  "parse_worktree_lines path b [] = flush_worktree path b"
| "parse_worktree_lines path b (l # ls) =
     (if startsWith l ''worktree ''
      then flush_worktree path b
           @ parse_worktree_lines (Some (js_trim (drop (length ''worktree '') l))) None ls
      else if startsWith l ''branch refs/heads/''
      then parse_worktree_lines path (Some (js_trim (drop (length ''branch refs/heads/'') l))) ls
      else parse_worktree_lines path b ls)"

definition parseWorktreeList :: "string \<Rightarrow> (string \<times> string option) list" where
  "parseWorktreeList out = parse_worktree_lines None None (split_on (CHR 0x0A) out)"

text \<open>Node's \<open>resolve\<close> and \<open>relative\<close> on absolute paths, as lists of segments.\<close>

fun resolve_segments :: "string list \<Rightarrow> string list \<Rightarrow> string list" where
  "resolve_segments acc [] = rev acc"
| "resolve_segments acc (s # ss) =
     (if s = [] \<or> s = ''.'' then resolve_segments acc ss
      else if s = ''..'' then resolve_segments (drop 1 acc) ss
      else resolve_segments (s # acc) ss)"

definition path_segments :: "string \<Rightarrow> string list" where
  "path_segments p = resolve_segments [] (split_on (CHR ''/'') p)"

fun relative_segments :: "string list \<Rightarrow> string list \<Rightarrow> string list" where
  "relative_segments (a # as) (b # bs) =
     (if a = b then relative_segments as bs else replicate (Suc (length as)) ''..'' @ b # bs)"
| "relative_segments as bs = replicate (length as) ''..'' @ bs"

text \<open>\<open>relativePath === "" || !relativePath.startsWith("..")\<close>\<close>

definition isHubOwnedPath :: "string \<Rightarrow> string \<Rightarrow> bool" where
  "isHubOwnedPath hubProjectDir worktreePath =
     (case relative_segments (path_segments hubProjectDir) (path_segments worktreePath) of
        [] \<Rightarrow> True | s # _ \<Rightarrow> \<not> startsWith s ''..'')"

definition listUserWorktrees :: "'g env \<Rightarrow> 'g \<Rightarrow> (string \<times> string option) list" where
  "listUserWorktrees E g =
     (if \<not> truthy_string (hw_list (e_hosts E) g) then [(e_repoRoot E, g_show_current (e_git E) g)]
      else filter (\<lambda>(path, _). \<not> isHubOwnedPath (e_dir E) path)
             (parseWorktreeList (the (hw_list (e_hosts E) g))))"

definition owningWorktrees ::
    "(string \<times> string option) list \<Rightarrow> string \<Rightarrow> (string \<times> string option) list" where
  "owningWorktrees ws host = filter (\<lambda>(_, b). b = Some host) ws"


subsection \<open>Is the checkout safe to move?\<close>

definition hasOperationInProgress :: "'g env \<Rightarrow> 'g \<Rightarrow> string \<Rightarrow> bool" where
  "hasOperationInProgress E g cwd \<longleftrightarrow>
     list_ex (hw_verify_ref (e_hosts E) g cwd)
       [''MERGE_HEAD'', ''REBASE_HEAD'', ''CHERRY_PICK_HEAD'', ''REVERT_HEAD'']
     \<or> list_ex (hw_path_exists (e_hosts E) g cwd)
       [''rebase-merge'', ''rebase-apply'', ''BISECT_LOG'', ''BISECT_START'']"

definition hasSparseCheckout :: "'g env \<Rightarrow> 'g \<Rightarrow> string \<Rightarrow> bool" where
  "hasSparseCheckout E g cwd \<longleftrightarrow> hw_sparse (e_hosts E) g cwd = Some ''true''"

definition has_gitlink :: "string option \<Rightarrow> bool" where
  "has_gitlink out \<longleftrightarrow>
     list_ex (\<lambda>l. startsWith l ''160000 '')
       (split_on (CHR 0x0A) (case out of None \<Rightarrow> [] | Some s \<Rightarrow> s))"

definition treeHasGitlink :: "'g env \<Rightarrow> 'g \<Rightarrow> string \<Rightarrow> string \<Rightarrow> bool" where
  "treeHasGitlink E g cwd treeish \<longleftrightarrow>
     has_gitlink (hw_ls_files (e_hosts E) g cwd) \<or> has_gitlink (hw_ls_tree (e_hosts E) g cwd treeish)"

definition status_code :: "nat \<Rightarrow> string \<Rightarrow> char" where
  "status_code n l = (if n < length l then l ! n else CHR '' '')"

definition isRenameCopyOrDeleteCode :: "char \<Rightarrow> bool" where
  "isRenameCopyOrDeleteCode c \<longleftrightarrow> c = CHR ''R'' \<or> c = CHR ''C'' \<or> c = CHR ''D''"

definition classifyPorcelain :: "string \<Rightarrow> HubCheckoutPendingReason option" where
  "classifyPorcelain status =
    (let ls = filter (\<lambda>l. l \<noteq> []) (split_on (CHR 0x0A) status) in
     if ls = [] then None
     else if list_ex (\<lambda>l. isRenameCopyOrDeleteCode (status_code 0 l)
               \<or> isRenameCopyOrDeleteCode (status_code 1 l)) ls
     then Some RenameOrDelete
     else if list_ex (\<lambda>l. startsWith l ''??'' \<or> startsWith l ''!!'') ls
     then Some UntrackedPaths
     else if list_ex (\<lambda>l. status_code 0 l \<noteq> CHR '' '' \<and> status_code 0 l \<noteq> CHR ''?'') ls
     then Some StagedChanges
     else Some UnstagedChanges)"

text \<open>\<open>tryGitTextSync\<close> trims the status text before it is classified; a failure reads as no text.\<close>

definition inspectOwningWorktreeSafety ::
    "'g env \<Rightarrow> 'g \<Rightarrow> string \<Rightarrow> oid \<Rightarrow> HubCheckoutPendingReason option" where
  "inspectOwningWorktreeSafety E g cwd cand =
     (if hasOperationInProgress E g cwd then Some OperationInProgress
      else if hasSparseCheckout E g cwd then Some SparseCheckout
      else if treeHasGitlink E g cwd cand then Some Submodule
      else classifyPorcelain
             (case hw_status (e_hosts E) g cwd of None \<Rightarrow> [] | Some s \<Rightarrow> js_trim s))"

definition checkoutIsAncestor :: "'g env \<Rightarrow> 'g \<Rightarrow> oid \<Rightarrow> oid \<Rightarrow> bool" where
  "checkoutIsAncestor E g a d \<longleftrightarrow> a = d \<or> g_is_ancestor (e_git E) g a d"

fun hostBranchAlreadyContainsCandidate :: "'g env \<Rightarrow> 'g \<Rightarrow> oid \<Rightarrow> oid option \<Rightarrow> bool" where
  "hostBranchAlreadyContainsCandidate E g cand None = False"
| "hostBranchAlreadyContainsCandidate E g cand (Some cur) = checkoutIsAncestor E g cand cur"

fun checkoutIsFastForwardOf :: "'g env \<Rightarrow> 'g \<Rightarrow> oid \<Rightarrow> oid option \<Rightarrow> bool" where
  "checkoutIsFastForwardOf E g cand None = False"
| "checkoutIsFastForwardOf E g cand (Some cur) = checkoutIsAncestor E g cur cand"

fun casFailureReason :: "'g env \<Rightarrow> 'g \<Rightarrow> oid \<Rightarrow> oid option \<Rightarrow> HubCheckoutPendingReason" where
  "casFailureReason E g cand None = OperationInProgress"
| "casFailureReason E g cand (Some cur) =
     (if \<not> checkoutIsAncestor E g cur cand then BranchDiverged else OperationInProgress)"


subsection \<open>Projecting the outbox\<close>

definition checkoutSucceeded ::
    "HubCheckoutOutboxItem \<Rightarrow> oid \<Rightarrow> string option \<Rightarrow> iso_time \<Rightarrow> ('g, HubCheckoutOutboxItem) hub_act" where
  "checkoutSucceeded it projected path now = putCheckout
     (it\<lparr>co_status := CheckoutSucceeded, co_updatedAt := now, co_pendingReason := None,
         co_message := None, co_projectedOid := Some projected,
         co_worktreePath := (if truthy_string path then path else co_worktreePath it)\<rparr>)"

definition checkoutMarkPending ::
    "HubCheckoutOutboxItem \<Rightarrow> HubCheckoutPendingReason \<Rightarrow> iso_time
     \<Rightarrow> ('g, HubCheckoutOutboxItem) hub_act" where
  "checkoutMarkPending it reason now =
     (let next = it\<lparr>co_status := CheckoutPending, co_updatedAt := now,
            co_pendingReason := Some reason\<rparr>
      in putCheckout (next\<lparr>co_message := Some (checkoutPendingMessage next)\<rparr>))"

definition runHost :: "'g env \<Rightarrow> host_command \<Rightarrow> ('g, bool) hub_act" where
  "runHost E c = (\<lambda>h. (Inr (fst (hw_run (e_hosts E) (h_git h) c)),
     h\<lparr>h_git := snd (hw_run (e_hosts E) (h_git h) c)\<rparr>))"

definition advanceHostBranchWithCrashWindows ::
    "'g env \<Rightarrow> HubCheckoutOutboxItem \<Rightarrow> iso_time \<Rightarrow> host_command
     \<Rightarrow> ('g \<Rightarrow> oid option \<Rightarrow> HubCheckoutPendingReason) \<Rightarrow> string option
     \<Rightarrow> ('g, HubCheckoutOutboxItem) hub_act" where
  "advanceHostBranchWithCrashWindows E it now command pendingReasonAfterFailure path =
     bind_act (maybeCrash (e_fault E) SE_checkout_projection BeforeEffect) (\<lambda>_.
     bind_act (runHost E command) (\<lambda>ok.
     if \<not> ok then
       bind_act (tryRevParse E (co_branchRef it)) (\<lambda>observed.
       bind_act (gets_act h_git) (\<lambda>g.
       if hostBranchAlreadyContainsCandidate E g (co_candidateOid it) observed
       then bind_act (maybeCrash (e_fault E) SE_checkout_projection AfterEffect)
              (\<lambda>_. checkoutSucceeded it (the observed) path now)
       else checkoutMarkPending it (pendingReasonAfterFailure g observed) now))
     else
       bind_act (maybeCrash (e_fault E) SE_checkout_projection AfterEffect)
         (\<lambda>_. checkoutSucceeded it (co_candidateOid it) path now)))"

definition projectCheckoutItem ::
    "'g env \<Rightarrow> iso_time \<Rightarrow> HubCheckoutOutboxItem \<Rightarrow> ('g, HubCheckoutOutboxItem) hub_act" where
  "projectCheckoutItem E now it =
    (if co_status it = CheckoutSucceeded then ret_act it
     else
       bind_act (tryRevParse E (co_branchRef it)) (\<lambda>current.
       bind_act (gets_act h_git) (\<lambda>g.
       if hostBranchAlreadyContainsCandidate E g (co_candidateOid it) current
       then checkoutSucceeded it (the current) None now
       else if \<not> checkoutIsFastForwardOf E g (co_candidateOid it) current
       then checkoutMarkPending it BranchDiverged now
       else
         (case owningWorktrees (listUserWorktrees E g) (co_hostTargetBranch it) of
            [] \<Rightarrow>
              advanceHostBranchWithCrashWindows E it now
                (HostCas (co_branchRef it) (co_candidateOid it) (the current))
                (\<lambda>g' observed. casFailureReason E g' (co_candidateOid it) observed) None
          | [owner] \<Rightarrow>
              (case inspectOwningWorktreeSafety E g (fst owner) (co_candidateOid it) of
                 Some unsafe \<Rightarrow> checkoutMarkPending it unsafe now
               | None \<Rightarrow>
                   advanceHostBranchWithCrashWindows E it now
                     (HostFastForward (fst owner) (co_candidateOid it))
                     (\<lambda>g' observed.
                        case inspectOwningWorktreeSafety E g' (fst owner) (co_candidateOid it) of
                          Some r \<Rightarrow> r | None \<Rightarrow> OperationInProgress)
                     (Some (fst owner)))
          | _ \<Rightarrow> checkoutMarkPending it MultipleWorktrees now))))"

record HubCheckoutProjectionOutcome =
  cp_attempts :: "HubCheckoutOutboxItem list"
  cp_pendingCount :: nat
  cp_succeededCount :: nat
  cp_message :: string

definition checkout_outcome :: "HubCheckoutOutboxItem list \<Rightarrow> HubCheckoutProjectionOutcome" where
  "checkout_outcome attempts =
     (let pendingCount = length (filter (\<lambda>it. co_status it = CheckoutPending) attempts)
      in \<lparr>cp_attempts = attempts, cp_pendingCount = pendingCount,
          cp_succeededCount = length (filter (\<lambda>it. co_status it = CheckoutSucceeded) attempts),
          cp_message = formatHubCheckoutSyncMessage pendingCount attempts\<rparr>)"

definition projectHubCheckoutOutbox ::
    "'g env \<Rightarrow> iso_time \<Rightarrow> ('g, HubCheckoutProjectionOutcome) hub_act" where
  "projectHubCheckoutOutbox E now =
     bind_act (gets_act (\<lambda>h. listHubCheckoutOutboxItems (e_collate E) (h_checkout h))) (\<lambda>items.
     bind_act (each_act (projectCheckoutItem E now) items) (\<lambda>attempts.
     ret_act (checkout_outcome attempts)))"

definition shouldEmitCheckoutProjectionEvent ::
    "HubCheckoutOutboxInspection \<Rightarrow> HubCheckoutOutboxItem \<Rightarrow> bool" where
  "shouldEmitCheckoutProjectionEvent before attempt \<longleftrightarrow>
     co_status attempt = CheckoutPending
     \<or> (case find (\<lambda>it. co_id it = co_id attempt) (ck_items before) of
           None \<Rightarrow> True | Some prior \<Rightarrow> co_status prior \<noteq> CheckoutSucceeded)"

definition selectHubCheckoutProjectionEventDeltas ::
    "HubCheckoutOutboxInspection \<Rightarrow> HubCheckoutProjectionOutcome \<Rightarrow> HubCheckoutOutboxItem list" where
  "selectHubCheckoutProjectionEventDeltas before outcome =
     filter (shouldEmitCheckoutProjectionEvent before) (cp_attempts outcome)"

definition syncHubCheckoutProjections ::
    "'g env \<Rightarrow> iso_time \<Rightarrow> ('g, HubCheckoutProjectionOutcome \<times> HubCheckoutOutboxItem list) hub_act" where
  "syncHubCheckoutProjections E now =
     bind_act (gets_act (\<lambda>h. inspectHubCheckoutOutbox (e_collate E) (h_checkout h))) (\<lambda>before.
     bind_act (projectHubCheckoutOutbox E now) (\<lambda>outcome.
     ret_act (outcome, selectHubCheckoutProjectionEventDeltas before outcome)))"


subsection \<open>Properties\<close>

text \<open>A log of the commands that move the host branch, as a view of the repository state.\<close>

definition host_log :: "'g host_trees \<Rightarrow> ('g \<Rightarrow> host_command list) \<Rightarrow> bool" where
  "host_log H L \<longleftrightarrow> (\<forall>g c. L (snd (hw_run H g c)) = L g @ [c])"

definition host_log_kept :: "('g \<Rightarrow> host_command list) \<Rightarrow> 'g hub \<Rightarrow> 'g hub \<Rightarrow> bool" where
  "host_log_kept L h h' \<longleftrightarrow> L (h_git h') = L (h_git h)"

interpretation host: kept_relation "host_log_kept L" for L
  by unfold_locales (simp_all add: host_log_kept_def)

lemma host_log_rules:
  "moves (host_log_kept L) (checkoutSucceeded it p path now)"
  "moves (host_log_kept L) (checkoutMarkPending it reason now)"
  "moves (host_log_kept L) (maybeCrash f s t)"
  "moves (host_log_kept L) (tryRevParse E r)"
  by (simp_all add: moves_def host_log_kept_def checkoutSucceeded_def checkoutMarkPending_def
      putCheckout_def bind_act_def ret_act_def modify_act_def maybeCrash_def throw_act_def
      tryRevParse_def gets_act_def Let_def)

lemma advance_log:
  assumes log: "host_log (e_hosts E) L"
    and run: "advanceHostBranchWithCrashWindows E it now c reason path h = (res, h')"
  shows "L (h_git h') = L (h_git h) \<or> L (h_git h') = L (h_git h) @ [c]"
proof -
  obtain x h0 where x: "maybeCrash (e_fault E) SE_checkout_projection BeforeEffect h = (x, h0)"
    by fastforce
  then have h0: "h0 = h" by (rule maybeCrash_state)
  show ?thesis
  proof (cases x)
    case (Inl e)
    with run x h0 show ?thesis by (simp add: advanceHostBranchWithCrashWindows_def bind_act_def)
  next
    case (Inr u)
    let ?g = "hw_run (e_hosts E) (h_git h) c"
    define k where "k ok =
      (if \<not> ok then
       bind_act (tryRevParse E (co_branchRef it)) (\<lambda>observed.
       bind_act (gets_act h_git) (\<lambda>g.
       if hostBranchAlreadyContainsCandidate E g (co_candidateOid it) observed
       then bind_act (maybeCrash (e_fault E) SE_checkout_projection AfterEffect)
              (\<lambda>_. checkoutSucceeded it (the observed) path now)
       else checkoutMarkPending it (reason g observed) now))
     else
       bind_act (maybeCrash (e_fault E) SE_checkout_projection AfterEffect)
         (\<lambda>_. checkoutSucceeded it (co_candidateOid it) path now))" for ok
    have kept: "moves (host_log_kept L) (k ok)" for ok
      unfolding k_def by (intro host.moves_rules host_log_rules)
    have "k (fst ?g) (h\<lparr>h_git := snd ?g\<rparr>) = (res, h')"
      using run x h0 Inr unfolding advanceHostBranchWithCrashWindows_def k_def [symmetric]
      by (simp add: bind_act_def runHost_def)
    then have "host_log_kept L (h\<lparr>h_git := snd ?g\<rparr>) h'"
      by (rule moves_result [OF kept])
    with log show ?thesis by (simp add: host_log_kept_def host_log_def)
  qed
qed

text \<open>
  C25: The user's branch only ever moves forward, and never under local work. Projecting an item runs at
  most one command on the host repository, and only when the branch exists and its tip is a proper
  ancestor of the candidate: a compare-and-swap from exactly that tip when no worktree of the user has
  the branch checked out, or a fast-forward in the only worktree that has it, after its safety check
  found no operation in progress, no sparse checkout, no submodule and a clean status.
\<close>

theorem host_updates_are_guarded:
  assumes "host_log (e_hosts E) L" and "projectCheckoutItem E now it h = (res, h')"
    and "L (h_git h') \<noteq> L (h_git h)"
  shows "co_status it = CheckoutPending
    \<and> (\<exists>cur c. g_rev_parse (e_git E) (h_git h) (co_branchRef it) = Some cur
        \<and> \<not> checkoutIsAncestor E (h_git h) (co_candidateOid it) cur
        \<and> checkoutIsAncestor E (h_git h) cur (co_candidateOid it)
        \<and> L (h_git h') = L (h_git h) @ [c]
        \<and> (c = HostCas (co_branchRef it) (co_candidateOid it) cur
             \<and> owningWorktrees (listUserWorktrees E (h_git h)) (co_hostTargetBranch it) = []
           \<or> (\<exists>path b. c = HostFastForward path (co_candidateOid it)
                \<and> owningWorktrees (listUserWorktrees E (h_git h)) (co_hostTargetBranch it) = [(path, b)]
                \<and> inspectOwningWorktreeSafety E (h_git h) path (co_candidateOid it) = None)))"
proof -
  let ?g = "h_git h" and ?cand = "co_candidateOid it"
  let ?cur = "g_rev_parse (e_git E) ?g (co_branchRef it)"
  have mark: "m h = (res, h') \<Longrightarrow> moves (host_log_kept L) m \<Longrightarrow> False" for m
    using assms(3) moves_result [of "host_log_kept L" m h res h'] by (simp add: host_log_kept_def)
  from assms(2,3) have st: "co_status it \<noteq> CheckoutSucceeded"
    by (auto simp: projectCheckoutItem_def)
  then have run: "(if hostBranchAlreadyContainsCandidate E ?g ?cand ?cur
       then checkoutSucceeded it (the ?cur) None now
       else if \<not> checkoutIsFastForwardOf E ?g ?cand ?cur
       then checkoutMarkPending it BranchDiverged now
       else
         (case owningWorktrees (listUserWorktrees E ?g) (co_hostTargetBranch it) of
            [] \<Rightarrow>
              advanceHostBranchWithCrashWindows E it now (HostCas (co_branchRef it) ?cand (the ?cur))
                (\<lambda>g' observed. casFailureReason E g' ?cand observed) None
          | [owner] \<Rightarrow>
              (case inspectOwningWorktreeSafety E ?g (fst owner) ?cand of
                 Some unsafe \<Rightarrow> checkoutMarkPending it unsafe now
               | None \<Rightarrow>
                   advanceHostBranchWithCrashWindows E it now (HostFastForward (fst owner) ?cand)
                     (\<lambda>g' observed. case inspectOwningWorktreeSafety E g' (fst owner) ?cand of
                          Some r \<Rightarrow> r | None \<Rightarrow> OperationInProgress)
                     (Some (fst owner)))
          | _ \<Rightarrow> checkoutMarkPending it MultipleWorktrees now)) h = (res, h')"
    using assms(2) by (simp add: projectCheckoutItem_def tryRevParse_def bind_act_def gets_act_def)
  have nc: "\<not> hostBranchAlreadyContainsCandidate E ?g ?cand ?cur"
    using run mark [OF _ host_log_rules(1)] by (auto split: if_split_asm)
  moreover have ff: "checkoutIsFastForwardOf E ?g ?cand ?cur"
    using run nc mark [OF _ host_log_rules(2)] by (auto split: if_split_asm)
  ultimately obtain cur where cur: "?cur = Some cur" "\<not> checkoutIsAncestor E ?g ?cand cur"
      "checkoutIsAncestor E ?g cur ?cand"
    by (cases ?cur) simp_all
  have "\<exists>c. L (h_git h') = L ?g @ [c]
        \<and> (c = HostCas (co_branchRef it) ?cand cur
             \<and> owningWorktrees (listUserWorktrees E ?g) (co_hostTargetBranch it) = []
           \<or> (\<exists>path b. c = HostFastForward path ?cand
                \<and> owningWorktrees (listUserWorktrees E ?g) (co_hostTargetBranch it) = [(path, b)]
                \<and> inspectOwningWorktreeSafety E ?g path ?cand = None))"
  proof (cases "owningWorktrees (listUserWorktrees E ?g) (co_hostTargetBranch it)")
    case Nil
    with run nc ff cur have "advanceHostBranchWithCrashWindows E it now
        (HostCas (co_branchRef it) ?cand cur) (\<lambda>g' observed. casFailureReason E g' ?cand observed) None h
        = (res, h')" by simp
    from advance_log [OF assms(1) this] assms(3) Nil show ?thesis by blast
  next
    case (Cons owner rest)
    have rest: "rest = []"
      using run nc ff Cons mark [OF _ host_log_rules(2)] by (cases rest) auto
    have safe: "inspectOwningWorktreeSafety E ?g (fst owner) ?cand = None"
      using run nc ff Cons rest mark [OF _ host_log_rules(2)]
      by (cases "inspectOwningWorktreeSafety E ?g (fst owner) ?cand") auto
    with run nc ff Cons rest have "advanceHostBranchWithCrashWindows E it now
        (HostFastForward (fst owner) ?cand)
        (\<lambda>g' observed. case inspectOwningWorktreeSafety E g' (fst owner) ?cand of
             Some r \<Rightarrow> r | None \<Rightarrow> OperationInProgress) (Some (fst owner)) h = (res, h')" by simp
    from advance_log [OF assms(1) this] assms(3) Cons rest safe show ?thesis
      by (cases owner) auto
  qed
  moreover have "co_status it = CheckoutPending" using st by (cases "co_status it") simp_all
  ultimately show ?thesis using cur by blast
qed

definition demo_checkout :: HubCheckoutOutboxItem where
  "demo_checkout = \<lparr>co_id = ''cpo-d'', co_transactionId = ''ltx'', co_taskId = ''t'',
     co_hostTargetBranch = ''main'', co_branchRef = ''HEAD'',
     co_candidateOid = demo_oid (CHR ''b''), co_expectedBranchOid = demo_oid (CHR ''a''),
     co_publishTargetRef = ''refs/archloop/publish/p-d'', co_status = CheckoutPending,
     co_createdAt = ''1'', co_updatedAt = ''1'', co_pendingReason = None, co_message = None,
     co_projectedOid = None, co_worktreePath = None\<rparr>"

theorem host_updates_are_guarded_witness:
  "\<exists>res h'. projectCheckoutItem demo_env ''2'' demo_checkout demo_hub = (res, h')
     \<and> dw_host (h_git h') = [HostFastForward ''/repo'' (demo_oid (CHR ''b''))]"
proof -
  have log: "host_log (e_hosts demo_env) dw_host"
    by (simp add: host_log_def demo_env_def demo_hosts_def)
  obtain res h' where run: "projectCheckoutItem demo_env ''2'' demo_checkout demo_hub = (res, h')"
    by fastforce
  have moved: "dw_host (h_git (snd (projectCheckoutItem demo_env ''2'' demo_checkout demo_hub)))
      = [HostFastForward ''/repo'' (demo_oid (CHR ''b''))]" by code_simp
  have "dw_host (h_git h') \<noteq> dw_host (h_git demo_hub)"
    using moved run by (simp add: demo_hub_def demo_state_def)
  from host_updates_are_guarded [OF log run this] moved run show ?thesis by simp
qed

lemma split_on_none: "d \<notin> set s \<Longrightarrow> split_on d s = [s]"
  by (induction s) auto

text \<open>
  The reason shown for a single unstaged edit is wrong. The status line of a file changed only in
  the worktree starts with a space, which the Git helper trims away before the line is classified, so
  the edit is reported as staged; the classification of the untrimmed line is the right one.
\<close>

theorem unstaged_edit_reported_as_staged:
  assumes "CHR 0x0A \<notin> set p" and "p \<noteq> []" and "\<not> js_space (last p)"
    and "\<not> hasOperationInProgress E g cwd" and "\<not> hasSparseCheckout E g cwd"
    and "\<not> treeHasGitlink E g cwd cand"
    and "hw_status (e_hosts E) g cwd = Some (CHR '' '' # CHR ''M'' # CHR '' '' # p)"
  shows "inspectOwningWorktreeSafety E g cwd cand = Some StagedChanges
    \<and> classifyPorcelain (CHR '' '' # CHR ''M'' # CHR '' '' # p) = Some UnstagedChanges"
proof -
  obtain q c where p: "p = q @ [c]" "\<not> js_space c"
    using assms(2,3) by (cases p rule: rev_exhaust) auto
  have trim: "js_trim (CHR '' '' # CHR ''M'' # CHR '' '' # p) = CHR ''M'' # CHR '' '' # p"
    using p by (simp add: js_trim_def js_space_def)
  have "split_on (CHR 0x0A) (CHR ''M'' # CHR '' '' # p) = [CHR ''M'' # CHR '' '' # p]"
      "split_on (CHR 0x0A) (CHR '' '' # CHR ''M'' # CHR '' '' # p) = [CHR '' '' # CHR ''M'' # CHR '' '' # p]"
    using assms(1) split_on_none [of "CHR 0x0A" p] by simp_all
  then have "classifyPorcelain (CHR ''M'' # CHR '' '' # p) = Some StagedChanges"
      "classifyPorcelain (CHR '' '' # CHR ''M'' # CHR '' '' # p) = Some UnstagedChanges"
    by (simp_all add: classifyPorcelain_def status_code_def isRenameCopyOrDeleteCode_def startsWith_def
        del: split_on.simps)
  with trim show ?thesis using assms(4-7) by (simp add: inspectOwningWorktreeSafety_def)
qed

theorem unstaged_edit_reported_as_staged_witness:
  "inspectOwningWorktreeSafety demo_env (demo_state\<lparr>dw_status := '' M a''\<rparr>) ''/repo''
     (demo_oid (CHR ''b'')) = Some StagedChanges"
proof -
  let ?g = "demo_state\<lparr>dw_status := '' M a''\<rparr>" and ?c = "demo_oid (CHR ''b'')"
  have a: "CHR 0x0A \<notin> set ''a''" "''a'' \<noteq> []" "\<not> js_space (last ''a'')"
    by (simp_all add: js_space_def)
  have b: "\<not> hasOperationInProgress demo_env ?g ''/repo''" "\<not> hasSparseCheckout demo_env ?g ''/repo''"
      "\<not> treeHasGitlink demo_env ?g ''/repo'' ?c"
    by (simp_all add: hasOperationInProgress_def hasSparseCheckout_def treeHasGitlink_def
        has_gitlink_def demo_env_def demo_hosts_def startsWith_def)
  have s: "hw_status (e_hosts demo_env) ?g ''/repo'' = Some (CHR '' '' # CHR ''M'' # CHR '' '' # ''a'')"
    by (simp add: demo_env_def demo_hosts_def)
  from unstaged_edit_reported_as_staged [OF a b s] show ?thesis by blast
qed

end
