(* ===== verification/Landing_Core.thy ===== *)
theory Landing_Core
  imports Publication_Outbox Checkout_Outbox "HOL-Library.List_Lexorder" "HOL-Library.Char_ord"
begin

text \<open>
  The landing of one candidate (\<open>src/src/hubLanding.ts\<close>, \<open>src/src/hubBeadsRuntimePaths.ts\<close>): the files that
  carry its evidence, the construction of the candidate commit, the binding of a verification to it, the
  fenced compare-and-swap that lands it on the publish target, and the closing and cleaning up after.
\<close>

subsection \<open>Candidates, artifacts, receipts, manifests\<close>

record HubLandingCandidate =
  lc_transactionId :: txn_id
  lc_taskId :: task_id
  lc_branch :: string
  lc_sourceOid :: oid
  lc_baseOid :: oid
  lc_candidateOid :: oid
  lc_candidateRef :: string
  lc_worktreeDir :: string
  lc_policy :: HubLandingPolicy
  lc_state :: HubLandingTransactionState
  lc_filtered :: "string list option"

record HubLandingVerificationArtifact =
  va_candidateOid :: oid
  va_verifierFingerprint :: string
  va_verifierConfigHash :: "string option"
  va_runtimeFingerprint :: "string option"
  va_exitCode :: rat
  va_outputHash :: string
  va_artifactHash :: "string option"
  va_createdAt :: iso_time

record HubLandingReceipt =
  rc_transactionId :: txn_id
  rc_taskId :: task_id
  rc_candidateOid :: oid
  rc_sourceOid :: oid
  rc_baseOid :: oid
  rc_publishTargetRef :: string
  rc_fenceRef :: string
  rc_verifierFingerprint :: string
  rc_landedAt :: iso_time

record HubLandingCommitResult =
  cr_transactionId :: txn_id
  cr_candidateOid :: oid
  cr_publishTargetOid :: oid
  cr_fenceOid :: oid
  cr_receiptOid :: oid
  cr_receiptRef :: string
  cr_state :: HubLandingTransactionState

record HubLandingCandidateManifest =
  m_transactionId :: txn_id
  m_taskId :: task_id
  m_sourceOid :: oid
  m_baseOid :: oid
  m_candidateOid :: oid
  m_candidateRef :: string
  m_createdAt :: iso_time
  m_filtered :: "string list option"

definition HUB_HOST_CONTRIBUTION_TASK_ID :: task_id where
  "HUB_HOST_CONTRIBUTION_TASK_ID = ''hub-host-contribution''"

definition isHubLandingTaskBacked :: "task_id \<Rightarrow> bool" where
  "isHubLandingTaskBacked t \<longleftrightarrow> t \<noteq> HUB_HOST_CONTRIBUTION_TASK_ID"

record HubLandingBeadsCloseEvidence =
  bc_closed :: bool
  bc_transactionId :: "txn_id option"
  bc_candidateOid :: "oid option"

fun isMatchingHubLandingBeadsClose ::
    "HubLandingBeadsCloseEvidence option \<Rightarrow> txn_id \<Rightarrow> oid option \<Rightarrow> bool" where
  "isMatchingHubLandingBeadsClose None tx cand = False"
| "isMatchingHubLandingBeadsClose (Some e) tx cand =
     (bc_closed e \<and> bc_transactionId e = Some tx \<and> cand \<noteq> None \<and> bc_candidateOid e = cand)"

text \<open>The refs and paths of a transaction.\<close>

definition resolveHubLandingCandidateRef :: "txn_id \<Rightarrow> string" where
  "resolveHubLandingCandidateRef tx = ''refs/archloop/candidates/'' @ tx"

definition resolveHubLandingReceiptRef :: "txn_id \<Rightarrow> string" where
  "resolveHubLandingReceiptRef tx = ''refs/archloop/receipts/'' @ tx"

definition resolveHubLandingWorktreeDir :: "'g env \<Rightarrow> txn_id \<Rightarrow> string" where
  "resolveHubLandingWorktreeDir E tx = e_dir E @ ''/landing/worktrees/'' @ tx"

definition resolveHubLandingVerificationArtifactPath :: "'g env \<Rightarrow> txn_id \<Rightarrow> string" where
  "resolveHubLandingVerificationArtifactPath E tx =
     e_dir E @ ''/landing/transactions/'' @ tx @ ''/verification.json''"


subsection \<open>Reading and writing the evidence\<close>

definition artifact_fields :: "HubLandingVerificationArtifact \<Rightarrow> (string \<times> json option) list" where
  "artifact_fields a =
     [(''candidateOid'', Some (JStr (va_candidateOid a))),
      (''verifierFingerprint'', Some (JStr (va_verifierFingerprint a))),
      (''verifierConfigHash'', jstr_opt (va_verifierConfigHash a)),
      (''runtimeFingerprint'', jstr_opt (va_runtimeFingerprint a)),
      (''exitCode'', Some (JNum (va_exitCode a))),
      (''outputHash'', Some (JStr (va_outputHash a))),
      (''createdAt'', Some (JStr (va_createdAt a)))]"

text \<open>The artifact file: the hashed fields, and the hash.\<close>

definition artifact_json :: "HubLandingVerificationArtifact \<Rightarrow> json" where
  "artifact_json a = jobj ((''artifactHash'', jstr_opt (va_artifactHash a)) # artifact_fields a)"

fun exit_code :: "json option \<Rightarrow> rat option" where
  "exit_code (Some (JNum q)) = Some q"
| "exit_code _ = None"

definition parse_artifact :: "json \<Rightarrow> HubLandingVerificationArtifact option" where
  "parse_artifact v = do {
     kvs \<leftarrow> parseJsonRecord v;
     code \<leftarrow> exit_code (jget kvs ''exitCode'');
     cand \<leftarrow> anyStringField (jget kvs ''candidateOid'');
     fingerprint \<leftarrow> anyStringField (jget kvs ''verifierFingerprint'');
     outputHash \<leftarrow> anyStringField (jget kvs ''outputHash'');
     created \<leftarrow> anyStringField (jget kvs ''createdAt'');
     Some \<lparr>va_candidateOid = cand, va_verifierFingerprint = fingerprint,
       va_verifierConfigHash = anyStringField (jget kvs ''verifierConfigHash''),
       va_runtimeFingerprint = anyStringField (jget kvs ''runtimeFingerprint''),
       va_exitCode = code, va_outputHash = outputHash,
       va_artifactHash = anyStringField (jget kvs ''artifactHash''), va_createdAt = created\<rparr>
   }"

definition readHubLandingVerificationArtifact ::
    "'g hub \<Rightarrow> txn_id \<Rightarrow> HubLandingVerificationArtifact option" where
  "readHubLandingVerificationArtifact h tx = read_json_file parse_artifact (h_artifact h tx)"

definition receipt_fields :: "HubLandingReceipt \<Rightarrow> (string \<times> json option) list" where
  "receipt_fields r =
     [(''transactionId'', Some (JStr (rc_transactionId r))),
      (''taskId'', Some (JStr (rc_taskId r))),
      (''candidateOid'', Some (JStr (rc_candidateOid r))),
      (''sourceOid'', Some (JStr (rc_sourceOid r))),
      (''baseOid'', Some (JStr (rc_baseOid r))),
      (''publishTargetRef'', Some (JStr (rc_publishTargetRef r))),
      (''fenceRef'', Some (JStr (rc_fenceRef r))),
      (''verifierFingerprint'', Some (JStr (rc_verifierFingerprint r))),
      (''landedAt'', Some (JStr (rc_landedAt r)))]"

definition receipt_json :: "HubLandingReceipt \<Rightarrow> json" where
  "receipt_json r = jobj (receipt_fields r)"

definition parse_receipt :: "json \<Rightarrow> HubLandingReceipt option" where
  "parse_receipt v = do {
     kvs \<leftarrow> parseJsonRecord v;
     tx \<leftarrow> anyStringField (jget kvs ''transactionId'');
     t \<leftarrow> anyStringField (jget kvs ''taskId'');
     cand \<leftarrow> anyStringField (jget kvs ''candidateOid'');
     src \<leftarrow> anyStringField (jget kvs ''sourceOid'');
     base \<leftarrow> anyStringField (jget kvs ''baseOid'');
     target \<leftarrow> anyStringField (jget kvs ''publishTargetRef'');
     fence \<leftarrow> anyStringField (jget kvs ''fenceRef'');
     fingerprint \<leftarrow> anyStringField (jget kvs ''verifierFingerprint'');
     landed \<leftarrow> anyStringField (jget kvs ''landedAt'');
     Some \<lparr>rc_transactionId = tx, rc_taskId = t, rc_candidateOid = cand, rc_sourceOid = src,
       rc_baseOid = base, rc_publishTargetRef = target, rc_fenceRef = fence,
       rc_verifierFingerprint = fingerprint, rc_landedAt = landed\<rparr>
   }"

definition readHubLandingReceipt :: "'g env \<Rightarrow> 'g \<Rightarrow> txn_id \<Rightarrow> (HubLandingReceipt \<times> oid) option" where
  "readHubLandingReceipt E g tx = do {
     new \<leftarrow> g_rev_parse (e_git E) g (resolveHubLandingReceiptRef tx);
     payload \<leftarrow> g_cat_file (e_git E) g new;
     receipt \<leftarrow> parse_receipt payload;
     Some (receipt, new)
   }"

definition optionalNonEmptyPaths :: "string list option \<Rightarrow> string list option" where
  "optionalNonEmptyPaths ps = (case ps of None \<Rightarrow> None | Some xs \<Rightarrow> if xs = [] then None else Some xs)"

definition manifest_fields :: "HubLandingCandidateManifest \<Rightarrow> (string \<times> json option) list" where
  "manifest_fields m =
     [(''transactionId'', Some (JStr (m_transactionId m))),
      (''taskId'', Some (JStr (m_taskId m))),
      (''sourceOid'', Some (JStr (m_sourceOid m))),
      (''baseOid'', Some (JStr (m_baseOid m))),
      (''candidateOid'', Some (JStr (m_candidateOid m))),
      (''candidateRef'', Some (JStr (m_candidateRef m))),
      (''createdAt'', Some (JStr (m_createdAt m))),
      (''filteredBeadsRuntimePaths'', map_option jstrs (optionalNonEmptyPaths (m_filtered m)))]"

definition manifest_json :: "HubLandingCandidateManifest \<Rightarrow> json" where
  "manifest_json m = jobj (manifest_fields m)"

definition parse_manifest :: "json \<Rightarrow> HubLandingCandidateManifest option" where
  "parse_manifest v = do {
     kvs \<leftarrow> parseJsonRecord v;
     tx \<leftarrow> anyStringField (jget kvs ''transactionId'');
     t \<leftarrow> anyStringField (jget kvs ''taskId'');
     src \<leftarrow> anyStringField (jget kvs ''sourceOid'');
     base \<leftarrow> anyStringField (jget kvs ''baseOid'');
     cand \<leftarrow> anyStringField (jget kvs ''candidateOid'');
     rref \<leftarrow> anyStringField (jget kvs ''candidateRef'');
     created \<leftarrow> anyStringField (jget kvs ''createdAt'');
     Some \<lparr>m_transactionId = tx, m_taskId = t, m_sourceOid = src, m_baseOid = base,
       m_candidateOid = cand, m_candidateRef = rref, m_createdAt = created,
       m_filtered = stringArrayField (jget kvs ''filteredBeadsRuntimePaths'')\<rparr>
   }"

definition readHubLandingCandidateManifest ::
    "'g hub \<Rightarrow> txn_id \<Rightarrow> HubLandingCandidateManifest option" where
  "readHubLandingCandidateManifest h tx = read_json_file parse_manifest (h_manifest h tx)"

lemma parseJsonRecord_readObject: "v = jobj fs \<Longrightarrow> parseJsonRecord v = Some (readObject v)"
  by (simp add: jobj_def)

lemma artifact_get:
  "jget (readObject (artifact_json a)) k =
     (case map_of ((''artifactHash'', jstr_opt (va_artifactHash a)) # artifact_fields a) k of
        None \<Rightarrow> None | Some v \<Rightarrow> v)"
  unfolding artifact_json_def readObject_jobj
  by (rule jget_defined_fields) (simp add: artifact_fields_def)

lemma artifact_roundtrip: "parse_artifact (artifact_json a) = Some a"
proof -
  have p: "parseJsonRecord (artifact_json a) = Some (readObject (artifact_json a))"
    by (rule parseJsonRecord_readObject) (rule artifact_json_def)
  show ?thesis
    unfolding parse_artifact_def p Option.bind.simps
    by (simp add: artifact_get artifact_fields_def anyStringField_opt)
qed

lemma receipt_get:
  "jget (readObject (receipt_json r)) k =
     (case map_of (receipt_fields r) k of None \<Rightarrow> None | Some v \<Rightarrow> v)"
  unfolding receipt_json_def readObject_jobj
  by (rule jget_defined_fields) (simp add: receipt_fields_def)

lemma receipt_roundtrip: "parse_receipt (receipt_json r) = Some r"
proof -
  have p: "parseJsonRecord (receipt_json r) = Some (readObject (receipt_json r))"
    by (rule parseJsonRecord_readObject) (rule receipt_json_def)
  show ?thesis
    unfolding parse_receipt_def p Option.bind.simps
    by (simp add: receipt_get receipt_fields_def)
qed

definition manifest_ok :: "HubLandingCandidateManifest \<Rightarrow> bool" where
  "manifest_ok m \<longleftrightarrow> opt_ok (\<lambda>ps. ps \<noteq> [] \<and> list_all nonblank ps) (m_filtered m)"

lemma manifest_get:
  "jget (readObject (manifest_json m)) k =
     (case map_of (manifest_fields m) k of None \<Rightarrow> None | Some v \<Rightarrow> v)"
  unfolding manifest_json_def readObject_jobj
  by (rule jget_defined_fields) (simp add: manifest_fields_def)

lemma manifest_roundtrip: "manifest_ok m \<Longrightarrow> parse_manifest (manifest_json m) = Some m"
proof -
  assume ok: "manifest_ok m"
  have p: "parseJsonRecord (manifest_json m) = Some (readObject (manifest_json m))"
    by (rule parseJsonRecord_readObject) (rule manifest_json_def)
  have "optionalNonEmptyPaths (m_filtered m) = m_filtered m"
    using ok by (cases "m_filtered m") (simp_all add: optionalNonEmptyPaths_def manifest_ok_def)
  moreover have "stringArrayField (map_option jstrs (m_filtered m)) = m_filtered m"
    using ok by (simp add: manifest_ok_def paths_roundtrip)
  ultimately show ?thesis
    unfolding parse_manifest_def p Option.bind.simps
    by (simp add: manifest_get manifest_fields_def)
qed

interpretation artifact_codec: json_codec artifact_json parse_artifact "\<lambda>_. True"
  by unfold_locales (rule artifact_roundtrip)

interpretation receipt_codec: json_codec receipt_json parse_receipt "\<lambda>_. True"
  by unfold_locales (rule receipt_roundtrip)

interpretation manifest_codec: json_codec manifest_json parse_manifest manifest_ok
  by unfold_locales (rule manifest_roundtrip)

subsection \<open>The verifier\<close>

record HubVerifierFingerprintParts =
  vp_verifierConfigHash :: string
  vp_runtimeFingerprint :: string
  vp_verifierFingerprint :: string

definition computeHubVerifierParts :: "'g env \<Rightarrow> HubVerifierFingerprintParts" where
  "computeHubVerifierParts E =
    (let sha = rt_sha256 (e_rt E);
         scriptHash = (case e_verifyScript E of None \<Rightarrow> ''no-verify-script'' | Some s \<Rightarrow> sha s)
     in \<lparr>vp_verifierConfigHash = sha (''verify.sh:'' @ scriptHash),
         vp_runtimeFingerprint = sha (e_runtimeKey E),
         vp_verifierFingerprint = sha (''verify.sh:'' @ scriptHash @ [CHR 0x0A] @ e_runtimeKey E)\<rparr>)"

definition computeHubVerifierFingerprint :: "'g env \<Rightarrow> string" where
  "computeHubVerifierFingerprint E = vp_verifierFingerprint (computeHubVerifierParts E)"

definition hashVerificationArtifact :: "'g env \<Rightarrow> HubLandingVerificationArtifact \<Rightarrow> string" where
  "hashVerificationArtifact E a = rt_sha256 (e_rt E) (e_stringify E (jobj (artifact_fields a)))"

definition isReusableHubLandingVerificationArtifact ::
    "'g env \<Rightarrow> HubLandingVerificationArtifact \<Rightarrow> oid \<Rightarrow> string \<Rightarrow> string \<Rightarrow> string \<Rightarrow> bool" where
  "isReusableHubLandingVerificationArtifact E a cand fingerprint configHash runtimeFp \<longleftrightarrow>
     (if va_candidateOid a \<noteq> cand \<or> va_verifierFingerprint a \<noteq> fingerprint
         \<or> va_verifierConfigHash a \<noteq> Some configHash \<or> va_runtimeFingerprint a \<noteq> Some runtimeFp
         \<or> va_exitCode a \<noteq> 0 \<or> \<not> truthy_string (va_artifactHash a)
      then False
      else Some (hashVerificationArtifact E a) = va_artifactHash a)"


subsection \<open>Beads runtime files\<close>

definition HUB_BEADS_RUNTIME_EXPORT_FILES :: "string list" where
  "HUB_BEADS_RUNTIME_EXPORT_FILES =
     [''.beads/issues.jsonl'', ''.beads/interactions.jsonl'', ''.beads/events.jsonl'',
      ''.beads/export-state.json'', ''.beads/sync-state.json'', ''.beads/last-touched'',
      ''.beads/bd.sock'', ''.beads/bd.sock.startlock'', ''.beads/.exclusive-lock'']"

definition HUB_BEADS_RUNTIME_EXPORT_DIRECTORIES :: "string list" where
  "HUB_BEADS_RUNTIME_EXPORT_DIRECTORIES =
     [''.beads/embeddeddolt'', ''.beads/dolt'', ''.beads/backup'', ''.beads/export-state'']"

definition normalizeHubGitPath :: "string \<Rightarrow> string" where
  "normalizeHubGitPath p = map (\<lambda>c. if c = CHR 0x5C then CHR ''/'' else c) p"

definition isAllowlistedBeadsRuntimePath :: "string \<Rightarrow> bool" where
  "isAllowlistedBeadsRuntimePath path =
    (let p = normalizeHubGitPath path in
     if List.member HUB_BEADS_RUNTIME_EXPORT_FILES p then True
     else list_ex (\<lambda>d. p = d \<or> startsWith p (d @ ''/'')) HUB_BEADS_RUNTIME_EXPORT_DIRECTORIES)"

definition restoreAllowlistedPathFromBase ::
    "'g env \<Rightarrow> string \<Rightarrow> oid \<Rightarrow> string \<Rightarrow> ('g, unit) hub_act" where
  "restoreAllowlistedPathFromBase E dir base path =
     bind_act (gets_act (\<lambda>h. t_has_path (e_trees E) (h_git h) dir base path)) (\<lambda>existsOnBase.
     if existsOnBase then gitChange (\<lambda>g. t_checkout_path (e_trees E) g dir base path)
     else gitChange (\<lambda>g. t_rm_path (e_trees E) g dir path))"

definition listAllowlistedBeadsRuntimeDiffPaths ::
    "'g env \<Rightarrow> string \<Rightarrow> oid \<Rightarrow> ('g, string list) hub_act" where
  "listAllowlistedBeadsRuntimeDiffPaths E dir base =
     bind_act (demand_act GitError (\<lambda>h. t_diff_names (e_trees E) (h_git h) dir base)) (\<lambda>names.
     ret_act (sort (remdups
       (filter (\<lambda>p. p \<noteq> [] \<and> isAllowlistedBeadsRuntimePath p) names))))"

definition stripAllowlistedBeadsRuntimeFromCandidate ::
    "'g env \<Rightarrow> string \<Rightarrow> oid \<Rightarrow> ('g, string list) hub_act" where
  "stripAllowlistedBeadsRuntimeFromCandidate E dir base =
     bind_act (listAllowlistedBeadsRuntimeDiffPaths E dir base) (\<lambda>filtered.
     if filtered = [] then ret_act []
     else
       bind_act (each_act (restoreAllowlistedPathFromBase E dir base) filtered) (\<lambda>_.
       bind_act (demand_act GitError (\<lambda>h. t_clean (e_trees E) (h_git h) dir)) (\<lambda>clean.
       if clean then ret_act []
       else bind_act (gitChange (\<lambda>g. t_commit (e_trees E) g dir)) (\<lambda>_. ret_act filtered))))"


subsection \<open>Creating a candidate\<close>

definition ensureCandidateWorktree :: "'g env \<Rightarrow> txn_id \<Rightarrow> oid \<Rightarrow> ('g, string) hub_act" where
  "ensureCandidateWorktree E tx cand =
    (let dir = resolveHubLandingWorktreeDir E tx in
     bind_act (gets_act (\<lambda>h. t_exists (e_trees E) (h_git h) dir)) (\<lambda>present.
     bind_act (when_act (\<not> present) (gitChange (\<lambda>g. t_add (e_trees E) g dir cand)))
       (\<lambda>_. ret_act dir)))"

definition removeWorktree :: "'g env \<Rightarrow> string \<Rightarrow> ('g, unit) hub_act" where
  "removeWorktree E dir = modify_act (\<lambda>h. h\<lparr>h_git :=
     (case t_remove (e_trees E) (h_git h) dir of
        Some g \<Rightarrow> g | None \<Rightarrow> t_delete (e_trees E) (h_git h) dir)\<rparr>)"

definition restoreCandidateFromEvidence ::
    "'g env \<Rightarrow> txn_id \<Rightarrow> oid option \<Rightarrow> ('g, (oid \<times> string) option) hub_act" where
  "restoreCandidateFromEvidence E tx expected =
    (let rref = resolveHubLandingCandidateRef tx in
     bind_act (gets_act (\<lambda>h. readHubLandingCandidateManifest h tx)) (\<lambda>manifest.
     bind_act (tryRevParse E rref) (\<lambda>refOid.
     let found = coalesce refOid (map_option m_candidateOid manifest) in
     if \<not> truthy_string found then ret_act None
     else if truthy_string expected \<and> found \<noteq> expected then ret_act None
     else if truthy_string (map_option m_candidateOid manifest)
             \<and> map_option m_candidateOid manifest \<noteq> found then ret_act None
     else
       (let cand = the found in
        if refOid \<noteq> None then ret_act (Some (cand, rref))
        else bind_act (gitRead E (\<lambda>G g. g_object_exists G g cand)) (\<lambda>objectExists.
          if \<not> objectExists then ret_act None
          else bind_act (gitChange (\<lambda>g. g_update_ref (e_git E) g rref cand))
                 (\<lambda>_. ret_act (Some (cand, rref))))))))"

definition writeCandidateManifestAndRef ::
    "'g env \<Rightarrow> HubLandingCandidateManifest \<Rightarrow> ('g, unit) hub_act" where
  "writeCandidateManifestAndRef E m =
     bind_act (modify_act (\<lambda>h. h\<lparr>h_manifest := (h_manifest h)
         (m_transactionId m := Text (manifest_json m))\<rparr>)) (\<lambda>_.
     gitChange (\<lambda>g. g_update_ref (e_git E) g (m_candidateRef m) (m_candidateOid m)))"

text \<open>The journal record of \<open>recordCandidateCreatedCheckpoint\<close>.\<close>

definition candidate_record :: "HubLandingCandidateManifest \<Rightarrow> HubLandingTransactionRecord" where
  "candidate_record m =
     (plain_record CandidateCreated (m_transactionId m) (m_taskId m) (m_createdAt m))
       \<lparr>ev_sourceOid := Some (m_sourceOid m), ev_baseOid := Some (m_baseOid m),
        ev_candidateOid := Some (m_candidateOid m), ev_candidateRef := Some (m_candidateRef m),
        ev_filteredBeadsRuntimePaths := m_filtered m\<rparr>"

definition recordCandidateCreatedCheckpoint ::
    "HubLandingCandidateManifest \<Rightarrow> ('g, HubLandingTransactionState) hub_act" where
  "recordCandidateCreatedCheckpoint m = appendCheckpoint (candidate_record m)"

definition opening_record ::
    "checkpoint \<Rightarrow> txn_id \<Rightarrow> task_id \<Rightarrow> iso_time \<Rightarrow> oid \<Rightarrow> oid \<Rightarrow> HubLandingTransactionRecord" where
  "opening_record c tx t now src base =
     (plain_record c tx t now)\<lparr>ev_sourceOid := Some src, ev_baseOid := Some base\<rparr>"

text \<open>
  The merge of \<open>createHubLandingCandidate\<close>: the callback of the caller, whose error is wrapped, or
  \<open>git merge\<close>, whose failure removes the worktree again.
\<close>

definition merge_candidate ::
    "'g env \<Rightarrow> (string \<Rightarrow> ('g, unit) hub_act) option \<Rightarrow> string \<Rightarrow> string \<Rightarrow> ('g, unit) hub_act" where
  "merge_candidate E merge branch dir =
     (case merge of
        Some f \<Rightarrow> catch_act (f dir) (\<lambda>e. throw_act (HubLandingWorktreeError e dir))
      | None \<Rightarrow> (\<lambda>h.
          (case t_merge (e_trees E) (h_git h) dir branch of
             (None, g) \<Rightarrow> (Inr (), h\<lparr>h_git := g\<rparr>)
           | (Some text, g) \<Rightarrow>
               bind_act (removeWorktree E dir) (\<lambda>_. throw_act (GitFailure text)) (h\<lparr>h_git := g\<rparr>))))"

text \<open>The branch of \<open>createHubLandingCandidate\<close> that finds the candidate of an earlier run.\<close>

definition resume_candidate ::
    "'g env \<Rightarrow> task_id \<Rightarrow> string \<Rightarrow> HubLandingPolicy \<Rightarrow> oid \<Rightarrow> oid \<Rightarrow> txn_id \<Rightarrow> iso_time
     \<Rightarrow> HubLandingTransactionState option \<Rightarrow> oid \<times> string \<Rightarrow> ('g, HubLandingCandidate) hub_act" where
  "resume_candidate E t branch policy src base tx now existing restored =
    (let (cand, rref) = restored in
     bind_act (ensureCandidateWorktree E tx cand) (\<lambda>dir.
     bind_act (gets_act (\<lambda>h. readHubLandingCandidateManifest h tx)) (\<lambda>manifest.
     let filtered = coalesce (Option.bind existing ev_filteredBeadsRuntimePaths)
           (Option.bind manifest m_filtered)
     in bind_act
       (case existing of
          Some s \<Rightarrow>
            if ev_candidateOid s = Some cand then ret_act s
            else appendCheckpoint (candidate_record
              \<lparr>m_transactionId = tx, m_taskId = t, m_sourceOid = src, m_baseOid = base,
               m_candidateOid = cand, m_candidateRef = rref, m_createdAt = now,
               m_filtered = filtered\<rparr>)
        | None \<Rightarrow> appendCheckpoint (candidate_record
              \<lparr>m_transactionId = tx, m_taskId = t, m_sourceOid = src, m_baseOid = base,
               m_candidateOid = cand, m_candidateRef = rref, m_createdAt = now,
               m_filtered = filtered\<rparr>))
       (\<lambda>state. ret_act
         \<lparr>lc_transactionId = tx, lc_taskId = t, lc_branch = branch, lc_sourceOid = src,
          lc_baseOid = base, lc_candidateOid = cand, lc_candidateRef = rref, lc_worktreeDir = dir,
          lc_policy = policy, lc_state = state, lc_filtered = filtered\<rparr>))))"

text \<open>The branch that builds the candidate commit.\<close>

definition build_candidate ::
    "'g env \<Rightarrow> task_id \<Rightarrow> string \<Rightarrow> HubLandingPolicy \<Rightarrow> oid \<Rightarrow> oid \<Rightarrow> txn_id \<Rightarrow> iso_time
     \<Rightarrow> (string \<Rightarrow> ('g, unit) hub_act) option \<Rightarrow> ('g, HubLandingCandidate) hub_act" where
  "build_candidate E t branch policy src base tx now merge =
    (let dir = resolveHubLandingWorktreeDir E tx in
     bind_act (appendCheckpoint (opening_record Opened tx t now src base)) (\<lambda>_.
     bind_act (appendCheckpoint (opening_record BasePinned tx t now src base)) (\<lambda>_.
     bind_act (gets_act (\<lambda>h. t_exists (e_trees E) (h_git h) dir)) (\<lambda>present.
     bind_act (when_act present (removeWorktree E dir)) (\<lambda>_.
     bind_act (gitChange (\<lambda>g. t_add (e_trees E) g dir base)) (\<lambda>_.
     bind_act (merge_candidate E merge branch dir) (\<lambda>_.
     bind_act (stripAllowlistedBeadsRuntimeFromCandidate E dir base) (\<lambda>filtered.
     bind_act (demand_act GitError (\<lambda>h. t_head (e_trees E) (h_git h) dir)) (\<lambda>cand.
     let m = \<lparr>m_transactionId = tx, m_taskId = t, m_sourceOid = src, m_baseOid = base,
              m_candidateOid = cand, m_candidateRef = resolveHubLandingCandidateRef tx,
              m_createdAt = now, m_filtered = optionalNonEmptyPaths (Some filtered)\<rparr>
     in
     bind_act (maybeCrash (e_fault E) SE_candidate_ref BeforeEffect) (\<lambda>_.
     bind_act (writeCandidateManifestAndRef E m) (\<lambda>_.
     bind_act (maybeCrash (e_fault E) SE_candidate_ref AfterEffect) (\<lambda>_.
     bind_act (recordCandidateCreatedCheckpoint m) (\<lambda>state. ret_act
       \<lparr>lc_transactionId = tx, lc_taskId = t, lc_branch = branch, lc_sourceOid = src,
        lc_baseOid = base, lc_candidateOid = cand, lc_candidateRef = m_candidateRef m,
        lc_worktreeDir = dir, lc_policy = policy, lc_state = state,
        lc_filtered = m_filtered m\<rparr>)))))))))))))"

definition createHubLandingCandidate ::
    "'g env \<Rightarrow> task_id \<Rightarrow> string \<Rightarrow> oid option \<Rightarrow> iso_time \<Rightarrow> (string \<Rightarrow> ('g, unit) hub_act) option
     \<Rightarrow> ('g, HubLandingCandidate) hub_act" where
  "createHubLandingCandidate E t branch givenBase now merge =
     bind_act (ensurePolicy E now) (\<lambda>policy.
     bind_act (revParse E (branch @ ''^{commit}'')) (\<lambda>src.
     bind_act (case givenBase of Some b \<Rightarrow> ret_act b
               | None \<Rightarrow> revParse E (p_publishTargetRef policy)) (\<lambda>base.
     let tx = resolveHubLandingTransactionId (rt_sha256 (e_rt E)) t src base in
     bind_act (gets_act (\<lambda>h. loadHubLandingTransaction (h_journals h) tx)) (\<lambda>existing.
     bind_act (tryRevParse E (resolveHubLandingCandidateRef tx)) (\<lambda>currentRefOid.
     let journalled = Option.bind existing ev_candidateOid in
     if truthy_string journalled \<and> truthy_string currentRefOid \<and> journalled \<noteq> currentRefOid
     then throw_act (JournalCandidateMismatch (the journalled) (the currentRefOid))
     else
       bind_act (restoreCandidateFromEvidence E tx journalled) (\<lambda>restored.
       case restored of
         Some found \<Rightarrow> resume_candidate E t branch policy src base tx now existing found
       | None \<Rightarrow> build_candidate E t branch policy src base tx now merge))))))"

text \<open>\<open>snapshotHubLandingCandidateGeneration\<close>: the candidate after a repair changed its worktree.\<close>

definition snapshotHubLandingCandidateGeneration ::
    "'g env \<Rightarrow> HubLandingCandidate \<Rightarrow> iso_time \<Rightarrow> ('g, HubLandingCandidate) hub_act" where
  "snapshotHubLandingCandidateGeneration E c now =
     bind_act (stripAllowlistedBeadsRuntimeFromCandidate E (lc_worktreeDir c) (lc_baseOid c)) (\<lambda>filtered.
     bind_act (demand_act GitError (\<lambda>h. t_head (e_trees E) (h_git h) (lc_worktreeDir c))) (\<lambda>cand.
     if cand = lc_candidateOid c then ret_act c
     else
       (let m = \<lparr>m_transactionId = lc_transactionId c, m_taskId = lc_taskId c,
               m_sourceOid = lc_sourceOid c, m_baseOid = lc_baseOid c, m_candidateOid = cand,
               m_candidateRef = resolveHubLandingCandidateRef (lc_transactionId c),
               m_createdAt = now,
               m_filtered = coalesce (optionalNonEmptyPaths (Some filtered)) (lc_filtered c)\<rparr>
        in bind_act (writeCandidateManifestAndRef E m) (\<lambda>_.
           bind_act (recordCandidateCreatedCheckpoint m) (\<lambda>state. ret_act
             (c\<lparr>lc_candidateOid := cand, lc_candidateRef := m_candidateRef m,
                lc_filtered := m_filtered m, lc_state := state\<rparr>))))))"


subsection \<open>Binding a verification\<close>

definition recordCandidateVerifiedCheckpoint ::
    "'g env \<Rightarrow> txn_id \<Rightarrow> task_id \<Rightarrow> oid \<Rightarrow> string \<Rightarrow> iso_time
     \<Rightarrow> ('g, HubLandingTransactionState) hub_act" where
  "recordCandidateVerifiedCheckpoint E tx t cand fingerprint created = appendCheckpoint
     ((plain_record CandidateVerified tx t created)
       \<lparr>ev_candidateOid := Some cand, ev_verifierFingerprint := Some fingerprint,
        ev_verificationArtifactPath := Some (resolveHubLandingVerificationArtifactPath E tx)\<rparr>)"

record bind_input =
  bi_transactionId :: txn_id
  bi_taskId :: task_id
  bi_candidateOid :: oid
  bi_verifierFingerprint :: string
  bi_verifierConfigHash :: "string option"
  bi_runtimeFingerprint :: "string option"
  bi_repoRootGiven :: bool
  bi_exitCode :: "rat option"
  bi_output :: "string option"

definition bindHubLandingVerification ::
    "'g env \<Rightarrow> bind_input \<Rightarrow> iso_time \<Rightarrow> ('g, HubLandingVerificationArtifact) hub_act" where
  "bindHubLandingVerification E b now =
    (let parts = (if bi_repoRootGiven b then Some (computeHubVerifierParts E) else None);
         configHash = coalesce (bi_verifierConfigHash b) (map_option vp_verifierConfigHash parts);
         runtimeFp = coalesce (bi_runtimeFingerprint b) (map_option vp_runtimeFingerprint parts);
         tx = bi_transactionId b
     in
     bind_act (gets_act (\<lambda>h. readHubLandingVerificationArtifact h tx)) (\<lambda>existing.
     if existing \<noteq> None \<and> truthy_string configHash \<and> truthy_string runtimeFp
        \<and> isReusableHubLandingVerificationArtifact E (the existing) (bi_candidateOid b)
            (bi_verifierFingerprint b) (the configHash) (the runtimeFp)
     then
       bind_act (recordCandidateVerifiedCheckpoint E tx (bi_taskId b) (bi_candidateOid b)
                   (bi_verifierFingerprint b) (va_createdAt (the existing)))
         (\<lambda>_. ret_act (the existing))
     else
       (let base = \<lparr>va_candidateOid = bi_candidateOid b,
              va_verifierFingerprint = bi_verifierFingerprint b,
              va_verifierConfigHash = configHash, va_runtimeFingerprint = runtimeFp,
              va_exitCode = (case bi_exitCode b of None \<Rightarrow> 0 | Some q \<Rightarrow> q),
              va_outputHash = rt_sha256 (e_rt E) (case bi_output b of None \<Rightarrow> [] | Some s \<Rightarrow> s),
              va_artifactHash = None, va_createdAt = now\<rparr>;
            artifact = base\<lparr>va_artifactHash := Some (hashVerificationArtifact E base)\<rparr>
        in
        bind_act (maybeCrash (e_fault E) SE_verification_artifact BeforeEffect) (\<lambda>_.
        bind_act (modify_act (\<lambda>h. h\<lparr>h_artifact := (h_artifact h)(tx := Text (artifact_json artifact))\<rparr>)) (\<lambda>_.
        bind_act (maybeCrash (e_fault E) SE_verification_artifact AfterEffect) (\<lambda>_.
        bind_act (recordCandidateVerifiedCheckpoint E tx (bi_taskId b) (bi_candidateOid b)
                    (bi_verifierFingerprint b) now)
          (\<lambda>_. ret_act artifact)))))))"

definition assertVerifiedCandidate ::
    "txn_id \<Rightarrow> oid \<Rightarrow> string \<Rightarrow> ('g, HubLandingVerificationArtifact) hub_act" where
  "assertVerifiedCandidate tx cand fingerprint =
     bind_act (gets_act (\<lambda>h. readHubLandingVerificationArtifact h tx)) (\<lambda>artifact.
     case artifact of
       None \<Rightarrow> throw_act (UnverifiedCandidate cand)
     | Some a \<Rightarrow>
         if va_candidateOid a \<noteq> cand
         then throw_act (StaleVerificationArtifact tx (va_candidateOid a) cand)
         else if va_verifierFingerprint a \<noteq> fingerprint
         then throw_act (StaleVerifierFingerprint tx)
         else if va_exitCode a \<noteq> 0 then throw_act (VerificationDidNotSucceed tx)
         else ret_act a)"

definition invalidateHubLandingCandidate :: "txn_id \<Rightarrow> ('g, unit) hub_act" where
  "invalidateHubLandingCandidate tx =
     modify_act (\<lambda>h. h\<lparr>h_artifact := (h_artifact h)(tx := NoFile)\<rparr>)"

subsection \<open>Landing\<close>

definition landed_record ::
    "HubLandingCandidate \<Rightarrow> string \<Rightarrow> oid \<Rightarrow> string \<Rightarrow> oid \<Rightarrow> iso_time
     \<Rightarrow> HubLandingTransactionRecord" where
  "landed_record c fingerprint fenceOid receiptRef receiptOid created =
     (plain_record TargetLanded (lc_transactionId c) (lc_taskId c) created)
       \<lparr>ev_sourceOid := Some (lc_sourceOid c), ev_baseOid := Some (lc_baseOid c),
        ev_candidateOid := Some (lc_candidateOid c), ev_candidateRef := Some (lc_candidateRef c),
        ev_verifierFingerprint := Some fingerprint,
        ev_publishTargetOid := Some (lc_candidateOid c), ev_fenceOid := Some fenceOid,
        ev_receiptRef := Some receiptRef, ev_receiptOid := Some receiptOid\<rparr>"

definition recordTargetLandedCheckpoint ::
    "HubLandingCandidate \<Rightarrow> string \<Rightarrow> oid \<Rightarrow> string \<Rightarrow> oid \<Rightarrow> iso_time
     \<Rightarrow> ('g, HubLandingTransactionState) hub_act" where
  "recordTargetLandedCheckpoint c fingerprint fenceOid receiptRef receiptOid created =
     appendCheckpoint (landed_record c fingerprint fenceOid receiptRef receiptOid created)"

text \<open>
  \<open>toTargetLandedCommit\<close>. The enqueueing is not given the caller's time: \<open>clock\<close> is the current time
  it reads.
\<close>

definition toTargetLandedCommit ::
    "'g env \<Rightarrow> iso_time \<Rightarrow> HubLandingCandidate \<Rightarrow> string \<Rightarrow> oid \<Rightarrow> string \<Rightarrow> oid \<Rightarrow> iso_time \<Rightarrow> oid
     \<Rightarrow> ('g, HubLandingCommitResult) hub_act" where
  "toTargetLandedCommit E clock c fingerprint fenceOid receiptRef receiptOid created publishTargetOid =
     bind_act (recordTargetLandedCheckpoint c fingerprint fenceOid receiptRef receiptOid created) (\<lambda>state.
     bind_act (enqueueHubCheckoutProjection E (lc_transactionId c) (lc_taskId c) (lc_policy c)
                 (lc_candidateOid c) clock) (\<lambda>_.
     ret_act \<lparr>cr_transactionId = lc_transactionId c, cr_candidateOid = lc_candidateOid c,
       cr_publishTargetOid = publishTargetOid, cr_fenceOid = fenceOid, cr_receiptOid = receiptOid,
       cr_receiptRef = receiptRef, cr_state = state\<rparr>))"

definition landing_oids :: "oid \<Rightarrow> oid \<Rightarrow> oid \<Rightarrow> oid \<Rightarrow> HubLandingOidFields" where
  "landing_oids expectedTarget observedTarget expectedFence observedFence =
     \<lparr>o_expectedTargetOid = Some expectedTarget, o_observedTargetOid = Some observedTarget,
      o_expectedFenceOid = Some expectedFence, o_observedFenceOid = Some observedFence\<rparr>"

definition throwIfPinnedLandingOidsMismatch :: "HubLandingOidFields \<Rightarrow> ('g, unit) hub_act" where
  "throwIfPinnedLandingOidsMismatch oids =
     (if o_observedTargetOid oids \<noteq> o_expectedTargetOid oids
      then throw_act (HubLandingPendingError TargetDrift oids)
      else if o_observedFenceOid oids \<noteq> o_expectedFenceOid oids
      then throw_act (HubLandingPendingError StaleOwnerRejected oids)
      else ret_act ())"

definition throwFromFailedLandingCas :: "HubLandingOidFields \<Rightarrow> ('g, 'a) hub_act" where
  "throwFromFailedLandingCas oids =
     (if o_observedFenceOid oids \<noteq> o_expectedFenceOid oids
      then throw_act (HubLandingPendingError StaleOwnerRejected oids)
      else if o_observedTargetOid oids \<noteq> o_expectedTargetOid oids
      then throw_act (HubLandingPendingError TargetDrift oids)
      else throw_act (HubLandingPendingError PendingContention oids))"

text \<open>\<open>createFencePayload\<close>\<close>

definition fence_json :: "'g env \<Rightarrow> iso_time \<Rightarrow> string option \<Rightarrow> json" where
  "fence_json E now ownerNonce = jobj
     [(''kind'', Some (JStr ''hub-landing-fence'')),
      (''ownerNonce'', Some (JStr (case ownerNonce of None \<Rightarrow> rt_uuid (e_rt E) | Some n \<Rightarrow> n))),
      (''pid'', Some (jint (rt_pid (e_rt E)))),
      (''bootId'', jstr_opt (rt_bootId (e_rt E))),
      (''createdAt'', Some (JStr now))]"

definition landing_receipt :: "HubLandingCandidate \<Rightarrow> string \<Rightarrow> iso_time \<Rightarrow> HubLandingReceipt" where
  "landing_receipt c fingerprint now =
     \<lparr>rc_transactionId = lc_transactionId c, rc_taskId = lc_taskId c,
      rc_candidateOid = lc_candidateOid c, rc_sourceOid = lc_sourceOid c,
      rc_baseOid = lc_baseOid c, rc_publishTargetRef = p_publishTargetRef (lc_policy c),
      rc_fenceRef = p_fenceRef (lc_policy c), rc_verifierFingerprint = fingerprint,
      rc_landedAt = now\<rparr>"

text \<open>The \<open>update-ref --stdin\<close> transaction of a landing.\<close>

definition landing_commands :: "HubLandingCandidate \<Rightarrow> oid \<Rightarrow> oid \<Rightarrow> oid \<Rightarrow> oid \<Rightarrow> ref_command list" where
  "landing_commands c expectedTarget fenceOid expectedFence receiptOid =
     [RefUpdate (p_publishTargetRef (lc_policy c)) (lc_candidateOid c) expectedTarget,
      RefUpdate (p_fenceRef (lc_policy c)) fenceOid expectedFence,
      RefCreate (resolveHubLandingReceiptRef (lc_transactionId c)) receiptOid]"

record commit_input =
  cc_candidate :: HubLandingCandidate
  cc_verifierFingerprint :: string
  cc_now :: iso_time
  cc_clock :: iso_time
  cc_expectedFenceOid :: "oid option"
  cc_ownerNonce :: "string option"

text \<open>The branch for a receipt of an earlier landing.\<close>

definition resume_landed ::
    "'g env \<Rightarrow> commit_input \<Rightarrow> HubLandingReceipt \<Rightarrow> oid \<Rightarrow> ('g, HubLandingCommitResult) hub_act" where
  "resume_landed E ci receipt receiptOid =
    (let c = cc_candidate ci in
     if rc_candidateOid receipt \<noteq> lc_candidateOid c
     then throw_act (ReceiptCandidateMismatch (rc_candidateOid receipt) (lc_candidateOid c))
     else
       bind_act (tryRevParse E (p_fenceRef (lc_policy c))) (\<lambda>fence.
       bind_act (revParse E (p_publishTargetRef (lc_policy c))) (\<lambda>target.
       bind_act (gitRead E (\<lambda>G g. target = lc_candidateOid c
                   \<or> g_is_ancestor G g (lc_candidateOid c) target)) (\<lambda>inAncestry.
       if \<not> inAncestry
       then throw_act (ReceiptOutsideTarget (lc_transactionId c) (lc_candidateOid c))
       else toTargetLandedCommit E (cc_clock ci) c (cc_verifierFingerprint ci)
              (case fence of None \<Rightarrow> receiptOid | Some f \<Rightarrow> f)
              (resolveHubLandingReceiptRef (lc_transactionId c)) receiptOid
              (rc_landedAt receipt) target))))"

text \<open>
  The \<open>catch\<close> block of the compare-and-swap: the landing of the same candidate by somebody else
  counts, anything else is thrown as pending.
\<close>

definition failed_cas ::
    "'g env \<Rightarrow> commit_input \<Rightarrow> oid \<Rightarrow> oid \<Rightarrow> oid \<Rightarrow> oid \<Rightarrow> ('g, HubLandingCommitResult) hub_act" where
  "failed_cas E ci expectedTarget observedTarget expectedFence observedFence =
    (let c = cc_candidate ci; receiptRef = resolveHubLandingReceiptRef (lc_transactionId c) in
     bind_act (gets_act (\<lambda>h. readHubLandingReceipt E (h_git h) (lc_transactionId c))) (\<lambda>raced.
     if map_option (rc_candidateOid \<circ> fst) raced = Some (lc_candidateOid c)
     then
       bind_act (revParse E (p_publishTargetRef (lc_policy c))) (\<lambda>target.
       bind_act (tryRevParse E (p_fenceRef (lc_policy c))) (\<lambda>fence.
       toTargetLandedCommit E (cc_clock ci) c (cc_verifierFingerprint ci)
         (case fence of None \<Rightarrow> snd (the raced) | Some f \<Rightarrow> f) receiptRef (snd (the raced))
         (rc_landedAt (fst (the raced))) target))
     else
       bind_act (tryRevParse E (p_publishTargetRef (lc_policy c))) (\<lambda>target.
       bind_act (tryRevParse E (p_fenceRef (lc_policy c))) (\<lambda>fence.
       throwFromFailedLandingCas (landing_oids
         expectedTarget (case target of None \<Rightarrow> observedTarget | Some t \<Rightarrow> t)
         expectedFence (case fence of None \<Rightarrow> observedFence | Some f \<Rightarrow> f))))))"

text \<open>
  \<open>commitHubLandingTarget\<close>, in three parts: the reference transaction, the landing of a candidate
  without a receipt, and the whole. \<open>race\<close> is what other processes do to the repository between the
  observation of the refs and the transaction.
\<close>

definition swap_refs ::
    "'g env \<Rightarrow> ('g \<Rightarrow> 'g) \<Rightarrow> commit_input \<Rightarrow> oid \<Rightarrow> oid \<Rightarrow> oid \<Rightarrow> oid \<Rightarrow> oid \<Rightarrow> oid
     \<Rightarrow> ('g, HubLandingCommitResult) hub_act" where
  "swap_refs E race ci expectedTarget observedTarget expectedFence observedFence receiptOid fenceOid =
    (let c = cc_candidate ci in
     bind_act (modify_act (\<lambda>h. h\<lparr>h_git := race (h_git h)\<rparr>)) (\<lambda>_.
     bind_act (gets_act (\<lambda>h. g_transaction (e_git E) (h_git h)
         (landing_commands c expectedTarget fenceOid expectedFence receiptOid))) (\<lambda>moved.
     case moved of
       None \<Rightarrow> failed_cas E ci expectedTarget observedTarget expectedFence observedFence
     | Some g \<Rightarrow>
         bind_act (modify_act (\<lambda>h. h\<lparr>h_git := g\<rparr>)) (\<lambda>_.
         bind_act (maybeCrash (e_fault E) SE_atomic_landing AfterEffect) (\<lambda>_.
         toTargetLandedCommit E (cc_clock ci) c (cc_verifierFingerprint ci) fenceOid
           (resolveHubLandingReceiptRef (lc_transactionId c)) receiptOid (cc_now ci)
           (lc_candidateOid c))))))"

definition land_fresh ::
    "'g env \<Rightarrow> ('g \<Rightarrow> 'g) \<Rightarrow> commit_input \<Rightarrow> ('g, HubLandingCommitResult) hub_act" where
  "land_fresh E race ci =
    (let c = cc_candidate ci in
     bind_act (revParse E (p_publishTargetRef (lc_policy c))) (\<lambda>observedTarget.
     bind_act (revParse E (p_fenceRef (lc_policy c))) (\<lambda>observedFence.
     let expectedTarget = lc_baseOid c;
         expectedFence = (case cc_expectedFenceOid ci of None \<Rightarrow> observedFence | Some f \<Rightarrow> f)
     in
     bind_act (throwIfPinnedLandingOidsMismatch
       (landing_oids expectedTarget observedTarget expectedFence observedFence)) (\<lambda>_.
     bind_act (hashObject E (receipt_json
       (landing_receipt c (cc_verifierFingerprint ci) (cc_now ci)))) (\<lambda>receiptOid.
     bind_act (hashObject E (fence_json E (cc_now ci) (cc_ownerNonce ci))) (\<lambda>fenceOid.
     bind_act (maybeCrash (e_fault E) SE_landing_lease BeforeEffect) (\<lambda>_.
     bind_act (maybeCrash (e_fault E) SE_landing_lease AfterEffect) (\<lambda>_.
     bind_act (maybeCrash (e_fault E) SE_atomic_landing BeforeEffect) (\<lambda>_.
     swap_refs E race ci expectedTarget observedTarget expectedFence observedFence receiptOid
       fenceOid)))))))))"

definition commitHubLandingTarget ::
    "'g env \<Rightarrow> ('g \<Rightarrow> 'g) \<Rightarrow> commit_input \<Rightarrow> ('g, HubLandingCommitResult) hub_act" where
  "commitHubLandingTarget E race ci =
    (let c = cc_candidate ci in
     bind_act (assertVerifiedCandidate (lc_transactionId c) (lc_candidateOid c)
                 (cc_verifierFingerprint ci)) (\<lambda>_.
     bind_act (gets_act (\<lambda>h. readHubLandingReceipt E (h_git h) (lc_transactionId c))) (\<lambda>existing.
     case existing of
       Some (receipt, receiptOid) \<Rightarrow> resume_landed E ci receipt receiptOid
     | None \<Rightarrow> land_fresh E race ci)))"


subsection \<open>Closing and cleaning up\<close>

definition cleanupHubLandingCandidate :: "'g env \<Rightarrow> HubLandingCandidate \<Rightarrow> iso_time \<Rightarrow> ('g, unit) hub_act" where
  "cleanupHubLandingCandidate E c now =
     bind_act (maybeCrash (e_fault E) SE_cleanup BeforeEffect) (\<lambda>_.
     bind_act (gets_act (\<lambda>h. t_exists (e_trees E) (h_git h) (lc_worktreeDir c))) (\<lambda>present.
     bind_act (when_act present (removeWorktree E (lc_worktreeDir c))) (\<lambda>_.
     bind_act (maybeCrash (e_fault E) SE_cleanup AfterEffect) (\<lambda>_.
     bind_act (appendCheckpoint ((plain_record Cleaned (lc_transactionId c) (lc_taskId c) now)
         \<lparr>ev_candidateOid := Some (lc_candidateOid c)\<rparr>)) (\<lambda>_. ret_act ())))))"

definition recordHubLandingTaskClosed ::
    "txn_id \<Rightarrow> task_id \<Rightarrow> oid \<Rightarrow> iso_time \<Rightarrow> ('g, HubLandingTransactionState) hub_act" where
  "recordHubLandingTaskClosed tx t cand now = appendCheckpoint
     ((plain_record TaskClosed tx t now)\<lparr>ev_candidateOid := Some cand\<rparr>)"

text \<open>
  \<open>closeHubLandingTask\<close>. The reader and the closer of the task tracker are callbacks; the closer may
  change the repository and may throw. \<open>repo\<close> says whether a repository root was passed.
\<close>

definition closeHubLandingTask ::
    "'g env \<Rightarrow> txn_id \<Rightarrow> task_id \<Rightarrow> oid \<Rightarrow> bool
     \<Rightarrow> (task_id \<Rightarrow> HubLandingBeadsCloseEvidence option)
     \<Rightarrow> (task_id \<Rightarrow> txn_id \<Rightarrow> oid \<Rightarrow> ('g, unit) hub_act) \<Rightarrow> iso_time
     \<Rightarrow> ('g, HubLandingTransactionState) hub_act" where
  "closeHubLandingTask E tx t cand repo readTaskClose closeTask now =
     bind_act (when_act (isHubLandingTaskBacked t
         \<and> \<not> isMatchingHubLandingBeadsClose (readTaskClose t) tx (Some cand))
       (bind_act (maybeCrash (e_fault E) SE_task_close BeforeEffect) (\<lambda>_.
        bind_act (closeTask t tx cand) (\<lambda>_.
        maybeCrash (e_fault E) SE_task_close AfterEffect)))) (\<lambda>_.
     bind_act (recordHubLandingTaskClosed tx t cand now) (\<lambda>state.
     bind_act (when_act repo
       (bind_act (enqueueHubPublicationAfterShipped E tx t cand None now) (\<lambda>_. ret_act ())))
       (\<lambda>_. ret_act state)))"


subsection \<open>How a landing runs\<close>

text \<open>The repository after the two objects of a landing were written.\<close>

definition receipt_object :: "'g env \<Rightarrow> commit_input \<Rightarrow> 'g hub \<Rightarrow> oid" where
  "receipt_object E ci h = fst (g_hash_object (e_git E) (h_git h)
     (receipt_json (landing_receipt (cc_candidate ci) (cc_verifierFingerprint ci) (cc_now ci))))"

definition receipt_written :: "'g env \<Rightarrow> commit_input \<Rightarrow> 'g hub \<Rightarrow> 'g" where
  "receipt_written E ci h = snd (g_hash_object (e_git E) (h_git h)
     (receipt_json (landing_receipt (cc_candidate ci) (cc_verifierFingerprint ci) (cc_now ci))))"

definition fence_object :: "'g env \<Rightarrow> commit_input \<Rightarrow> 'g hub \<Rightarrow> oid" where
  "fence_object E ci h = fst (g_hash_object (e_git E) (receipt_written E ci h)
     (fence_json E (cc_now ci) (cc_ownerNonce ci)))"

definition fence_written :: "'g env \<Rightarrow> commit_input \<Rightarrow> 'g hub \<Rightarrow> 'g" where
  "fence_written E ci h = snd (g_hash_object (e_git E) (receipt_written E ci h)
     (fence_json E (cc_now ci) (cc_ownerNonce ci)))"

definition observed_target :: "'g env \<Rightarrow> commit_input \<Rightarrow> 'g \<Rightarrow> oid option" where
  "observed_target E ci g = g_rev_parse (e_git E) g (p_publishTargetRef (lc_policy (cc_candidate ci)))"

definition observed_fence :: "'g env \<Rightarrow> commit_input \<Rightarrow> 'g \<Rightarrow> oid option" where
  "observed_fence E ci g = g_rev_parse (e_git E) g (p_fenceRef (lc_policy (cc_candidate ci)))"

definition receipt_ref :: "commit_input \<Rightarrow> string" where
  "receipt_ref ci = resolveHubLandingReceiptRef (lc_transactionId (cc_candidate ci))"

definition after_transaction ::
    "'g env \<Rightarrow> ('g \<Rightarrow> 'g) \<Rightarrow> commit_input \<Rightarrow> oid \<Rightarrow> 'g hub
     \<Rightarrow> (hub_error + HubLandingCommitResult) \<times> 'g hub" where
  "after_transaction E race ci fence h =
     swap_refs E race ci (lc_baseOid (cc_candidate ci)) (lc_baseOid (cc_candidate ci)) fence fence
       (receipt_object E ci h) (fence_object E ci h) (h\<lparr>h_git := fence_written E ci h\<rparr>)"

definition crash_before :: "HubLandingFaultInjection \<Rightarrow> bool" where
  "crash_before f \<longleftrightarrow> crashBefore f = Some SE_landing_lease \<or> crashAfter f = Some SE_landing_lease
     \<or> crashBefore f = Some SE_atomic_landing"

text \<open>
  A landing without a receipt ends in one of three ways: before anything but two objects was written,
  or after the transaction was tried.
\<close>

lemma land_fresh_cases:
  "(\<exists>e h1. land_fresh E race ci h = (Inl e, h1) \<and> (h1 = h \<or> h_git h1 = fence_written E ci h \<and>
        h1 = h\<lparr>h_git := fence_written E ci h\<rparr> \<and> crash_before (e_fault E))
      \<and> (observed_target E ci (h_git h) = Some (lc_baseOid (cc_candidate ci)) \<longrightarrow>
           observed_fence E ci (h_git h) \<noteq> None \<longrightarrow>
           cc_expectedFenceOid ci \<in> {None, observed_fence E ci (h_git h)} \<longrightarrow> crash_before (e_fault E))
      \<and> (\<forall>k oids. e = HubLandingPendingError k oids \<longrightarrow> h1 = h
           \<and> (k = TargetDrift \<and> observed_target E ci (h_git h) \<noteq> Some (lc_baseOid (cc_candidate ci))
              \<or> k = StaleOwnerRejected \<and> observed_fence E ci (h_git h) \<noteq> cc_expectedFenceOid ci)))
   \<or> (\<exists>fence. observed_target E ci (h_git h) = Some (lc_baseOid (cc_candidate ci))
        \<and> observed_fence E ci (h_git h) = Some fence
        \<and> cc_expectedFenceOid ci \<in> {None, Some fence} \<and> \<not> crash_before (e_fault E)
        \<and> land_fresh E race ci h = after_transaction E race ci fence h)"
proof -
  let ?c = "cc_candidate ci" and ?f = "e_fault E"
  show ?thesis
  proof (cases "observed_target E ci (h_git h)")
    case None
    then have "land_fresh E race ci h = (Inl GitError, h)"
      by (simp add: land_fresh_def Let_def bind_act_def revParse_def demand_act_def observed_target_def)
    with None show ?thesis by simp
  next
    case (Some target)
    note t = Some
    show ?thesis
    proof (cases "observed_fence E ci (h_git h)")
      case None
      with t have "land_fresh E race ci h = (Inl GitError, h)"
        by (simp add: land_fresh_def Let_def bind_act_def revParse_def demand_act_def
            observed_target_def observed_fence_def)
      with t None show ?thesis by simp
    next
      case (Some fence)
      note f = Some
      define expected where "expected = (case cc_expectedFenceOid ci of None \<Rightarrow> fence | Some x \<Rightarrow> x)"
      consider (drift) "target \<noteq> lc_baseOid ?c" | (stale) "target = lc_baseOid ?c" "expected \<noteq> fence"
        | (ok) "target = lc_baseOid ?c" "expected = fence" by blast
      then show ?thesis
      proof cases
        case drift
        with t f have "land_fresh E race ci h = (Inl (HubLandingPendingError TargetDrift
            (landing_oids (lc_baseOid ?c) target expected fence)), h)"
          by (simp add: land_fresh_def Let_def bind_act_def revParse_def demand_act_def
              observed_target_def observed_fence_def throwIfPinnedLandingOidsMismatch_def
              landing_oids_def throw_act_def expected_def)
        with t drift show ?thesis by simp
      next
        case stale
        then have "cc_expectedFenceOid ci \<notin> {None, Some fence}"
          by (auto simp: expected_def split: option.splits)
        moreover from stale t f have "land_fresh E race ci h = (Inl (HubLandingPendingError StaleOwnerRejected
            (landing_oids (lc_baseOid ?c) target expected fence)), h)"
          by (simp add: land_fresh_def Let_def bind_act_def revParse_def demand_act_def
              observed_target_def observed_fence_def throwIfPinnedLandingOidsMismatch_def
              landing_oids_def throw_act_def expected_def)
        ultimately show ?thesis using t f by auto
      next
        case ok
        then have exp: "cc_expectedFenceOid ci \<in> {None, Some fence}"
          by (auto simp: expected_def split: option.splits)
        let ?h2 = "h\<lparr>h_git := fence_written E ci h\<rparr>"
        have pins: "throwIfPinnedLandingOidsMismatch (landing_oids (lc_baseOid ?c) target expected fence) h
            = (Inr (), h)"
          using ok by (simp add: throwIfPinnedLandingOidsMismatch_def landing_oids_def)
        have run: "land_fresh E race ci h =
          bind_act (maybeCrash ?f SE_landing_lease BeforeEffect) (\<lambda>_.
          bind_act (maybeCrash ?f SE_landing_lease AfterEffect) (\<lambda>_.
          bind_act (maybeCrash ?f SE_atomic_landing BeforeEffect) (\<lambda>_ h'.
            after_transaction E race ci fence h))) ?h2"
          using ok t f pins
          by (simp add: land_fresh_def Let_def bind_act_def revParse_def demand_act_def
              observed_target_def observed_fence_def expected_def [symmetric] hashObject_eq
              receipt_object_def [symmetric] receipt_written_def [symmetric]
              fence_object_def [symmetric] fence_written_def [symmetric] after_transaction_def
              maybeCrash_def throw_act_def ret_act_def)
        show ?thesis
        proof (cases "crash_before ?f")
          case True
          then have "\<exists>s tm. land_fresh E race ci h = (Inl (HubLandingCrash s tm), ?h2)"
            unfolding run by (auto simp: crash_before_def maybeCrash_def bind_act_def throw_act_def ret_act_def)
          with True show ?thesis by auto
        next
          case False
          then have "land_fresh E race ci h = after_transaction E race ci fence h"
            unfolding run by (simp add: crash_before_def maybeCrash_def bind_act_def ret_act_def)
          with t f ok exp False show ?thesis by blast
        qed
      qed
    qed
  qed
qed


lemma appendCheckpoint_git: "appendCheckpoint r h = (x, h') \<Longrightarrow> \<exists>js. h' = h\<lparr>h_journals := js\<rparr>"
  unfolding appendCheckpoint_eq by (metis prod.inject)

lemma enqueueCheckout_git:
  "enqueueHubCheckoutProjection E tx t p cand now h = (x, h') \<Longrightarrow>
     h_git h' = h_git h \<and> h_artifact h' = h_artifact h \<and> h_journals h' = h_journals h
     \<and> (\<exists>it. x = Inr it)"
  by (auto simp: enqueueHubCheckoutProjection_def Let_def bind_act_def gets_act_def ret_act_def
      tryRevParse_def putCheckout_def modify_act_def split: option.splits)

lemma toTargetLandedCommit_git:
  assumes "toTargetLandedCommit E clock c fp fo rr ro created target h = (x, h')"
  shows "h_git h' = h_git h \<and> h_artifact h' = h_artifact h
    \<and> (\<forall>r. x = Inr r \<longrightarrow> cr_receiptOid r = ro \<and> cr_fenceOid r = fo \<and> cr_candidateOid r = lc_candidateOid c
          \<and> cr_publishTargetOid r = target)
    \<and> (\<forall>e. x = Inl e \<longrightarrow> (\<exists>j. e = JournalError j))"
proof -
  obtain y h1 where y: "recordTargetLandedCheckpoint c fp fo rr ro created h = (y, h1)" by fastforce
  then obtain js where h1: "h1 = h\<lparr>h_journals := js\<rparr>"
    unfolding recordTargetLandedCheckpoint_def by (blast dest: appendCheckpoint_git)
  show ?thesis
  proof (cases y)
    case (Inl e)
    then have "\<exists>j. e = JournalError j"
      using y unfolding recordTargetLandedCheckpoint_def appendCheckpoint_eq
      by (cases "fst (appendHubLandingCheckpoint (h_journals h) (landed_record c fp fo rr ro created))")
        auto
    with assms y Inl h1 show ?thesis by (auto simp: toTargetLandedCommit_def bind_act_def)
  next
    case (Inr st)
    obtain z h2 where z: "enqueueHubCheckoutProjection E (lc_transactionId c) (lc_taskId c) (lc_policy c)
        (lc_candidateOid c) clock h1 = (z, h2)" by fastforce
    with enqueueCheckout_git [OF z] h1 assms y Inr show ?thesis
      by (auto simp: toTargetLandedCommit_def bind_act_def ret_act_def)
  qed
qed

text \<open>
  What the landing relies on other processes for: they may move refs, but no object disappears from
  the repository (Git collects only old unreachable objects).
\<close>

definition keeps_objects :: "'g git \<Rightarrow> ('g \<Rightarrow> 'g) \<Rightarrow> bool" where
  "keeps_objects G race \<longleftrightarrow> (\<forall>g x v. g_cat_file G g x = Some v \<longrightarrow> g_cat_file G (race g) x = Some v)"

definition distinct_refs :: "commit_input \<Rightarrow> bool" where
  "distinct_refs ci \<longleftrightarrow> distinct
     [p_publishTargetRef (lc_policy (cc_candidate ci)), p_fenceRef (lc_policy (cc_candidate ci)),
      receipt_ref ci]"

lemma receipt_readable:
  assumes laws: "git_laws (e_git E)" and race: "keeps_objects (e_git E) race"
  shows "g_cat_file (e_git E) (race (fence_written E ci h)) (receipt_object E ci h)
    = Some (receipt_json (landing_receipt (cc_candidate ci) (cc_verifierFingerprint ci) (cc_now ci)))"
proof -
  let ?v = "receipt_json (landing_receipt (cc_candidate ci) (cc_verifierFingerprint ci) (cc_now ci))"
  have "g_hash_object (e_git E) (h_git h) ?v = (receipt_object E ci h, receipt_written E ci h)"
    by (simp add: receipt_object_def receipt_written_def)
  from git_hash_object(1) [OF laws this]
  have 1: "g_cat_file (e_git E) (receipt_written E ci h) (receipt_object E ci h) = Some ?v" .
  have "g_hash_object (e_git E) (receipt_written E ci h) (fence_json E (cc_now ci) (cc_ownerNonce ci))
      = (fence_object E ci h, fence_written E ci h)"
    by (simp add: fence_object_def fence_written_def)
  from git_hash_object(2) [OF laws this 1] race show ?thesis by (simp add: keeps_objects_def)
qed

lemma objects_refs:
  assumes laws: "git_laws (e_git E)"
  shows "g_rev_parse (e_git E) (fence_written E ci h) = g_rev_parse (e_git E) (h_git h)"
proof -
  have "g_hash_object (e_git E) (h_git h)
      (receipt_json (landing_receipt (cc_candidate ci) (cc_verifierFingerprint ci) (cc_now ci)))
      = (receipt_object E ci h, receipt_written E ci h)"
    by (simp add: receipt_object_def receipt_written_def)
  moreover have "g_hash_object (e_git E) (receipt_written E ci h)
      (fence_json E (cc_now ci) (cc_ownerNonce ci)) = (fence_object E ci h, fence_written E ci h)"
    by (simp add: fence_object_def fence_written_def)
  ultimately show ?thesis using git_hash_object(3) [OF laws] by metis
qed

text \<open>What a landing transaction that went through did to the repository.\<close>

definition landed_atomically :: "'g env \<Rightarrow> ('g \<Rightarrow> 'g) \<Rightarrow> commit_input \<Rightarrow> 'g hub \<Rightarrow> 'g \<Rightarrow> bool" where
  "landed_atomically E race ci h g \<longleftrightarrow>
    (let before = race (fence_written E ci h); c = cc_candidate ci in
     observed_target E ci before = Some (lc_baseOid c)
     \<and> observed_fence E ci before = observed_fence E ci (h_git h)
     \<and> g_rev_parse (e_git E) before (receipt_ref ci) = None
     \<and> observed_target E ci g = Some (lc_candidateOid c)
     \<and> observed_fence E ci g = Some (fence_object E ci h)
     \<and> g_rev_parse (e_git E) g (receipt_ref ci) = Some (receipt_object E ci h)
     \<and> (\<forall>r. r \<notin> {p_publishTargetRef (lc_policy c), p_fenceRef (lc_policy c), receipt_ref ci} \<longrightarrow>
          g_rev_parse (e_git E) g r = g_rev_parse (e_git E) before r))"

lemma transaction_lands:
  assumes laws: "git_laws (e_git E)" and race: "keeps_objects (e_git E) race" and d: "distinct_refs ci"
    and f: "observed_fence E ci (h_git h) = Some fence"
    and t: "g_transaction (e_git E) (race (fence_written E ci h))
      (landing_commands (cc_candidate ci) (lc_baseOid (cc_candidate ci)) (fence_object E ci h) fence
        (receipt_object E ci h)) = Some g"
  shows "landed_atomically E race ci h g
    \<and> readHubLandingReceipt E g (lc_transactionId (cc_candidate ci))
      = Some (landing_receipt (cc_candidate ci) (cc_verifierFingerprint ci) (cc_now ci), receipt_object E ci h)"
proof -
  let ?cs = "landing_commands (cc_candidate ci) (lc_baseOid (cc_candidate ci)) (fence_object E ci h) fence
        (receipt_object E ci h)"
  have dc: "distinct (map command_ref ?cs)"
    using d by (simp add: landing_commands_def distinct_refs_def receipt_ref_def)
  note tr = git_transaction [OF laws t dc]
  have refs: "landed_atomically E race ci h g"
    using tr(1) [of "?cs ! 0"] tr(1) [of "?cs ! 1"] tr(1) [of "?cs ! 2"]
      tr(2) [of "?cs ! 0"] tr(2) [of "?cs ! 1"] tr(2) [of "?cs ! 2"] tr(3) f
    by (simp add: landed_atomically_def Let_def landing_commands_def observed_target_def
        observed_fence_def receipt_ref_def)
  have "g_cat_file (e_git E) g (receipt_object E ci h)
      = Some (receipt_json (landing_receipt (cc_candidate ci) (cc_verifierFingerprint ci) (cc_now ci)))"
    using tr(4) receipt_readable [OF laws race, of ci h] by (simp add: same_objects_def)
  with refs have "readHubLandingReceipt E g (lc_transactionId (cc_candidate ci))
      = Some (landing_receipt (cc_candidate ci) (cc_verifierFingerprint ci) (cc_now ci), receipt_object E ci h)"
    by (simp add: readHubLandingReceipt_def landed_atomically_def Let_def receipt_ref_def
        receipt_roundtrip)
  with refs show ?thesis by blast
qed

lemma failed_cas_Inr:
  assumes "failed_cas E ci et ot ef of' h = (Inr r, h')"
  shows "h_git h' = h_git h \<and> (\<exists>receipt. readHubLandingReceipt E (h_git h) (lc_transactionId (cc_candidate ci))
      = Some (receipt, cr_receiptOid r) \<and> rc_candidateOid receipt = lc_candidateOid (cc_candidate ci))"
proof -
  let ?raced = "readHubLandingReceipt E (h_git h) (lc_transactionId (cc_candidate ci))"
  have "map_option (rc_candidateOid \<circ> fst) ?raced = Some (lc_candidateOid (cc_candidate ci))"
  proof (rule ccontr)
    assume "\<not> ?thesis"
    with assms show False
      by (simp add: failed_cas_def Let_def throwFromFailedLandingCas_def split: if_split_asm)
  qed
  then obtain receipt ro where raced: "?raced = Some (receipt, ro)"
      and cand: "rc_candidateOid receipt = lc_candidateOid (cc_candidate ci)"
    by auto
  with assms obtain fo target where "toTargetLandedCommit E (cc_clock ci) (cc_candidate ci)
      (cc_verifierFingerprint ci) fo (resolveHubLandingReceiptRef (lc_transactionId (cc_candidate ci)))
      ro (rc_landedAt receipt) target h = (Inr r, h')"
    by (auto simp: failed_cas_def Let_def revParse_def tryRevParse_def)
  from toTargetLandedCommit_git [OF this] raced cand show ?thesis by simp
qed

lemma resume_landed_Inr:
  assumes "resume_landed E ci receipt ro h = (Inr r, h')"
  shows "h_git h' = h_git h \<and> cr_receiptOid r = ro
    \<and> rc_candidateOid receipt = lc_candidateOid (cc_candidate ci)
    \<and> (\<exists>target. observed_target E ci (h_git h) = Some target
         \<and> (target = lc_candidateOid (cc_candidate ci)
            \<or> g_is_ancestor (e_git E) (h_git h) (lc_candidateOid (cc_candidate ci)) target))"
proof -
  from assms have cand: "rc_candidateOid receipt = lc_candidateOid (cc_candidate ci)"
    by (auto simp: resume_landed_def Let_def split: if_split_asm)
  from assms cand obtain target fo where target: "observed_target E ci (h_git h) = Some target"
      and anc: "target = lc_candidateOid (cc_candidate ci)
            \<or> g_is_ancestor (e_git E) (h_git h) (lc_candidateOid (cc_candidate ci)) target"
      and run: "toTargetLandedCommit E (cc_clock ci) (cc_candidate ci) (cc_verifierFingerprint ci) fo
        (resolveHubLandingReceiptRef (lc_transactionId (cc_candidate ci))) ro (rc_landedAt receipt) target h
        = (Inr r, h')"
    by (auto simp: resume_landed_def Let_def revParse_def tryRevParse_def gitRead_def
        observed_target_def split: if_split_asm)
  from toTargetLandedCommit_git [OF run] cand target anc show ?thesis by simp
qed


lemma after_transaction_cases:
  assumes "after_transaction E race ci fence h = (x, h')"
  shows "(\<exists>g. g_transaction (e_git E) (race (fence_written E ci h))
        (landing_commands (cc_candidate ci) (lc_baseOid (cc_candidate ci)) (fence_object E ci h) fence
          (receipt_object E ci h)) = Some g
      \<and> h_git h' = g \<and> h_artifact h' = h_artifact h
      \<and> (x = Inl (HubLandingCrash SE_atomic_landing AfterEffect)
           \<and> crashAfter (e_fault E) = Some SE_atomic_landing \<and> h' = h\<lparr>h_git := g\<rparr>
         \<or> crashAfter (e_fault E) \<noteq> Some SE_atomic_landing
           \<and> toTargetLandedCommit E (cc_clock ci) (cc_candidate ci) (cc_verifierFingerprint ci)
               (fence_object E ci h) (receipt_ref ci) (receipt_object E ci h) (cc_now ci)
               (lc_candidateOid (cc_candidate ci)) (h\<lparr>h_git := g\<rparr>) = (x, h')))
    \<or> failed_cas E ci (lc_baseOid (cc_candidate ci)) (lc_baseOid (cc_candidate ci)) fence fence
        (h\<lparr>h_git := race (fence_written E ci h)\<rparr>) = (x, h')
      \<and> g_transaction (e_git E) (race (fence_written E ci h))
          (landing_commands (cc_candidate ci) (lc_baseOid (cc_candidate ci)) (fence_object E ci h) fence
            (receipt_object E ci h)) = None"
proof (cases "g_transaction (e_git E) (race (fence_written E ci h))
    (landing_commands (cc_candidate ci) (lc_baseOid (cc_candidate ci)) (fence_object E ci h) fence
      (receipt_object E ci h))")
  case None
  with assms show ?thesis
    by (simp add: after_transaction_def swap_refs_def Let_def bind_act_def modify_act_def gets_act_def)
next
  case (Some g)
  let ?m = "toTargetLandedCommit E (cc_clock ci) (cc_candidate ci) (cc_verifierFingerprint ci)
               (fence_object E ci h) (receipt_ref ci) (receipt_object E ci h) (cc_now ci)
               (lc_candidateOid (cc_candidate ci)) (h\<lparr>h_git := g\<rparr>)"
  from Some assms have run: "(x, h') = (if crashAfter (e_fault E) = Some SE_atomic_landing
      then (Inl (HubLandingCrash SE_atomic_landing AfterEffect), h\<lparr>h_git := g\<rparr>) else ?m)"
    by (auto simp: after_transaction_def swap_refs_def Let_def bind_act_def modify_act_def
        gets_act_def maybeCrash_def throw_act_def ret_act_def receipt_ref_def)
  then show ?thesis
    using Some toTargetLandedCommit_git [of E _ _ _ _ _ _ _ _ "h\<lparr>h_git := g\<rparr>" x h']
    by (cases "crashAfter (e_fault E) = Some SE_atomic_landing") auto
qed

lemma assert_Inr:
  assumes "assertVerifiedCandidate tx cand fp h = (Inr a, h')"
  shows "h' = h \<and> readHubLandingVerificationArtifact h tx = Some a \<and> va_candidateOid a = cand
    \<and> va_verifierFingerprint a = fp \<and> va_exitCode a = 0"
  using assms by (auto simp: assertVerifiedCandidate_def split: option.splits if_split_asm)

lemma assert_Inl: "assertVerifiedCandidate tx cand fp h = (Inl e, h') \<Longrightarrow> h' = h"
  by (auto simp: assertVerifiedCandidate_def split: option.splits if_split_asm)

lemma commit_cases:
  assumes "commitHubLandingTarget E race ci h = (x, h')"
  shows "(\<exists>e. x = Inl e \<and> h' = h \<and> assertVerifiedCandidate (lc_transactionId (cc_candidate ci))
          (lc_candidateOid (cc_candidate ci)) (cc_verifierFingerprint ci) h = (Inl e, h))
    \<or> (\<exists>a. assertVerifiedCandidate (lc_transactionId (cc_candidate ci))
          (lc_candidateOid (cc_candidate ci)) (cc_verifierFingerprint ci) h = (Inr a, h))
      \<and> (case readHubLandingReceipt E (h_git h) (lc_transactionId (cc_candidate ci)) of
           Some (receipt, ro) \<Rightarrow> resume_landed E ci receipt ro h = (x, h')
         | None \<Rightarrow> land_fresh E race ci h = (x, h'))"
proof -
  obtain y h1 where y: "assertVerifiedCandidate (lc_transactionId (cc_candidate ci))
          (lc_candidateOid (cc_candidate ci)) (cc_verifierFingerprint ci) h = (y, h1)" by fastforce
  have h1: "h1 = h" using y by (cases y) (auto dest: assert_Inr assert_Inl)
  show ?thesis
  proof (cases y)
    case (Inl e)
    with assms y h1 show ?thesis by (simp add: commitHubLandingTarget_def Let_def bind_act_def)
  next
    case (Inr a)
    with assms y h1 show ?thesis
      by (cases "readHubLandingReceipt E (h_git h) (lc_transactionId (cc_candidate ci))")
        (auto simp: commitHubLandingTarget_def Let_def bind_act_def gets_act_def)
  qed
qed

text \<open>What a landing that returns has done.\<close>

lemma commit_lands_verified:
  assumes "git_laws (e_git E)" and "keeps_objects (e_git E) race" and "distinct_refs ci"
    and "commitHubLandingTarget E race ci h = (Inr r, h')"
  shows "(\<exists>a. readHubLandingVerificationArtifact h (lc_transactionId (cc_candidate ci)) = Some a
        \<and> va_candidateOid a = lc_candidateOid (cc_candidate ci)
        \<and> va_verifierFingerprint a = cc_verifierFingerprint ci \<and> va_exitCode a = 0)
    \<and> (\<exists>receipt. readHubLandingReceipt E (h_git h') (lc_transactionId (cc_candidate ci))
          = Some (receipt, cr_receiptOid r)
        \<and> rc_candidateOid receipt = lc_candidateOid (cc_candidate ci))
    \<and> (readHubLandingReceipt E (h_git h) (lc_transactionId (cc_candidate ci)) = None \<longrightarrow>
         landed_atomically E race ci h (h_git h')
         \<or> h_git h' = race (fence_written E ci h))"
proof -
  from commit_cases [OF assms(4)] obtain a where
      a: "assertVerifiedCandidate (lc_transactionId (cc_candidate ci))
          (lc_candidateOid (cc_candidate ci)) (cc_verifierFingerprint ci) h = (Inr a, h)"
    and rest: "case readHubLandingReceipt E (h_git h) (lc_transactionId (cc_candidate ci)) of
           Some (receipt, ro) \<Rightarrow> resume_landed E ci receipt ro h = (Inr r, h')
         | None \<Rightarrow> land_fresh E race ci h = (Inr r, h')"
    by auto
  note art = assert_Inr [OF a]
  show ?thesis
  proof (cases "readHubLandingReceipt E (h_git h) (lc_transactionId (cc_candidate ci))")
    case (Some p)
    then obtain receipt ro where p: "readHubLandingReceipt E (h_git h) (lc_transactionId (cc_candidate ci))
        = Some (receipt, ro)" by (cases p) simp
    with rest have "resume_landed E ci receipt ro h = (Inr r, h')" by simp
    from resume_landed_Inr [OF this] p art show ?thesis by auto
  next
    case None
    with rest have "land_fresh E race ci h = (Inr r, h')" by simp
    with land_fresh_cases [of E race ci h] obtain fence where
        f: "observed_fence E ci (h_git h) = Some fence"
      and run: "after_transaction E race ci fence h = (Inr r, h')" by auto
    from after_transaction_cases [OF run] show ?thesis
    proof (elim disjE exE conjE)
      fix g
      assume t: "g_transaction (e_git E) (race (fence_written E ci h))
          (landing_commands (cc_candidate ci) (lc_baseOid (cc_candidate ci)) (fence_object E ci h) fence
            (receipt_object E ci h)) = Some g" and g: "h_git h' = g"
        and m: "toTargetLandedCommit E (cc_clock ci) (cc_candidate ci) (cc_verifierFingerprint ci)
            (fence_object E ci h) (receipt_ref ci) (receipt_object E ci h) (cc_now ci)
            (lc_candidateOid (cc_candidate ci)) (h\<lparr>h_git := g\<rparr>) = (Inr r, h')"
      from transaction_lands [OF assms(1-3) f t] toTargetLandedCommit_git [OF m] g art
      show ?thesis by (auto simp: landing_receipt_def)
    next
      assume "failed_cas E ci (lc_baseOid (cc_candidate ci)) (lc_baseOid (cc_candidate ci)) fence fence
        (h\<lparr>h_git := race (fence_written E ci h)\<rparr>) = (Inr r, h')"
      from failed_cas_Inr [OF this] art show ?thesis by auto
    qed simp
  qed
qed

text \<open>
  C1: Only a verified candidate lands, and it lands atomically. When a landing returns, the
  verification artifact on disk is for exactly this candidate and verifier and reports exit code zero,
  and the repository holds a receipt for exactly this candidate. If there was no receipt before, then
  either the transaction found the publish target at the candidate's base and the fence where it was
  observed, and moved the target to the candidate, the fence to a new object and created the receipt,
  changing no other ref, or another process had landed the same candidate in between.
\<close>

theorem landing_is_verified_and_atomic:
  assumes "git_laws (e_git E)" and "keeps_objects (e_git E) race" and "distinct_refs ci"
    and "commitHubLandingTarget E race ci h = (Inr r, h')"
  shows "(\<exists>a. readHubLandingVerificationArtifact h (lc_transactionId (cc_candidate ci)) = Some a
        \<and> va_candidateOid a = lc_candidateOid (cc_candidate ci)
        \<and> va_verifierFingerprint a = cc_verifierFingerprint ci \<and> va_exitCode a = 0)
    \<and> (\<exists>receipt. readHubLandingReceipt E (h_git h') (lc_transactionId (cc_candidate ci))
          = Some (receipt, cr_receiptOid r)
        \<and> rc_candidateOid receipt = lc_candidateOid (cc_candidate ci))
    \<and> (readHubLandingReceipt E (h_git h) (lc_transactionId (cc_candidate ci)) = None \<longrightarrow>
         landed_atomically E race ci h (h_git h')
         \<or> h_git h' = race (fence_written E ci h))"
  using assms by (rule commit_lands_verified)

text \<open>What \<open>failed_cas\<close> throws, and that it changes nothing.\<close>

lemma failed_cas_Inl:
  assumes "failed_cas E ci t t f f h = (Inl e, h')" and "\<forall>j. e \<noteq> JournalError j"
  shows "h_git h' = h_git h
    \<and> (\<forall>k oids. e = HubLandingPendingError k oids \<longrightarrow>
         k \<in> {TargetDrift, StaleOwnerRejected, PendingContention}
         \<and> (k = TargetDrift \<longrightarrow> observed_target E ci (h_git h) \<noteq> Some t)
         \<and> (k = StaleOwnerRejected \<longrightarrow> observed_fence E ci (h_git h) \<noteq> Some f))"
proof (cases "map_option (rc_candidateOid \<circ> fst) (readHubLandingReceipt E (h_git h)
      (lc_transactionId (cc_candidate ci))) = Some (lc_candidateOid (cc_candidate ci))")
  case True
  let ?raced = "readHubLandingReceipt E (h_git h) (lc_transactionId (cc_candidate ci))"
  from True obtain receipt ro where raced: "?raced = Some (receipt, ro)" by auto
  show ?thesis
  proof (cases "observed_target E ci (h_git h)")
    case None
    with True assms(1) show ?thesis
      by (auto simp: failed_cas_def Let_def revParse_def observed_target_def)
  next
    case (Some target)
    with True raced assms(1) obtain fo where "toTargetLandedCommit E (cc_clock ci) (cc_candidate ci)
      (cc_verifierFingerprint ci) fo (resolveHubLandingReceiptRef (lc_transactionId (cc_candidate ci)))
      ro (rc_landedAt receipt) target h = (Inl e, h')"
      by (auto simp: failed_cas_def Let_def revParse_def tryRevParse_def observed_target_def)
    from toTargetLandedCommit_git [OF this] assms(2) show ?thesis by auto
  qed
next
  case False
  with assms(1) show ?thesis
    by (auto simp: failed_cas_def Let_def tryRevParse_def throwFromFailedLandingCas_def
        landing_oids_def observed_target_def observed_fence_def split: if_split_asm option.split_asm)
qed

lemma resume_landed_Inl:
  assumes "resume_landed E ci receipt ro h = (Inl e, h')"
  shows "h_git h' = h_git h \<and> (\<forall>k oids. e \<noteq> HubLandingPendingError k oids)"
proof (cases "rc_candidateOid receipt = lc_candidateOid (cc_candidate ci)
    \<and> (\<exists>target. observed_target E ci (h_git h) = Some target
        \<and> (target = lc_candidateOid (cc_candidate ci)
           \<or> g_is_ancestor (e_git E) (h_git h) (lc_candidateOid (cc_candidate ci)) target))")
  case True
  then obtain target where t: "observed_target E ci (h_git h) = Some target" by blast
  with True assms obtain fo where run: "toTargetLandedCommit E (cc_clock ci) (cc_candidate ci)
      (cc_verifierFingerprint ci) fo (resolveHubLandingReceiptRef (lc_transactionId (cc_candidate ci)))
      ro (rc_landedAt receipt) target h = (Inl e, h')"
    by (auto simp: resume_landed_def Let_def revParse_def tryRevParse_def gitRead_def
        observed_target_def split: if_split_asm)
  from toTargetLandedCommit_git [OF run] show ?thesis by auto
next
  case False
  with assms show ?thesis
    by (auto simp: resume_landed_def Let_def revParse_def tryRevParse_def gitRead_def
        observed_target_def split: if_split_asm)
qed

lemma assert_not_pending:
  "assertVerifiedCandidate tx cand fp h \<noteq> (Inl (HubLandingPendingError k oids), h')"
  by (auto simp: assertVerifiedCandidate_def split: option.splits if_split_asm)

text \<open>What a landing that throws has done.\<close>

lemma commit_fails_cleanly:
  assumes "git_laws (e_git E)" and "commitHubLandingTarget E race ci h = (Inl e, h')"
    and "e \<noteq> HubLandingCrash SE_atomic_landing AfterEffect" and "\<forall>j. e \<noteq> JournalError j"
  shows "((\<forall>q. g_rev_parse (e_git E) (h_git h') q = g_rev_parse (e_git E) (h_git h) q)
        \<or> h_git h' = race (fence_written E ci h))
    \<and> (\<forall>oids. e = HubLandingPendingError TargetDrift oids \<longrightarrow>
        observed_target E ci (h_git h') \<noteq> Some (lc_baseOid (cc_candidate ci)))
    \<and> (\<forall>oids. e = HubLandingPendingError StaleOwnerRejected oids \<longrightarrow>
        observed_fence E ci (h_git h') \<noteq> cc_expectedFenceOid ci
        \<or> observed_fence E ci (h_git h') \<noteq> observed_fence E ci (h_git h))"
  using commit_cases [OF assms(2)]
proof (elim disjE exE conjE)
  fix e' assume "Inl e = Inl e'" "h' = h"
    "assertVerifiedCandidate (lc_transactionId (cc_candidate ci))
          (lc_candidateOid (cc_candidate ci)) (cc_verifierFingerprint ci) h = (Inl e', h)"
  then show ?thesis by (auto simp: assert_not_pending)
next
  fix a
  assume rest: "case readHubLandingReceipt E (h_git h) (lc_transactionId (cc_candidate ci)) of
           Some (receipt, ro) \<Rightarrow> resume_landed E ci receipt ro h = (Inl e, h')
         | None \<Rightarrow> land_fresh E race ci h = (Inl e, h')"
  show ?thesis
  proof (cases "readHubLandingReceipt E (h_git h) (lc_transactionId (cc_candidate ci))")
    case (Some p)
    then obtain receipt ro where p: "readHubLandingReceipt E (h_git h) (lc_transactionId (cc_candidate ci))
        = Some (receipt, ro)" by (cases p) simp
    with rest have "resume_landed E ci receipt ro h = (Inl e, h')" by simp
    from resume_landed_Inl [OF this] show ?thesis by simp
  next
    case None
    with rest have run: "land_fresh E race ci h = (Inl e, h')" by simp
    from land_fresh_cases [of E race ci h] show ?thesis
    proof (elim disjE exE conjE, goal_cases)
      case (1 e1 h1)
      with run show ?thesis by (auto simp: objects_refs [OF assms(1)])
    next
      case (2 e1 h1)
      with run objects_refs [OF assms(1), of ci h] show ?thesis by auto
    next
      case (3 fence)
      then have "after_transaction E race ci fence h = (Inl e, h')" using run by simp
      from after_transaction_cases [OF this] show ?thesis
      proof (elim disjE exE conjE)
        fix g
        assume "toTargetLandedCommit E (cc_clock ci) (cc_candidate ci) (cc_verifierFingerprint ci)
            (fence_object E ci h) (receipt_ref ci) (receipt_object E ci h) (cc_now ci)
            (lc_candidateOid (cc_candidate ci)) (h\<lparr>h_git := g\<rparr>) = (Inl e, h')"
        from toTargetLandedCommit_git [OF this] assms(4) show ?thesis by blast
      next
        assume "failed_cas E ci (lc_baseOid (cc_candidate ci)) (lc_baseOid (cc_candidate ci)) fence fence
          (h\<lparr>h_git := race (fence_written E ci h)\<rparr>) = (Inl e, h')"
        from failed_cas_Inl [OF this assms(4)] 3 show ?thesis by auto
      qed (use assms(3) in simp)
    qed
  qed
qed

text \<open>
  C19: A landing that fails moves no ref. Unless the error is a crash injected after the transaction or
  a journal that cannot be written, the refs are those from before the landing or those that other
  processes left; and the error says truly what was seen: drift means the target was not at the
  candidate's base, a stale owner means the fence was not the expected or the observed one.
\<close>

theorem failed_landing_moves_nothing:
  assumes "git_laws (e_git E)" and "commitHubLandingTarget E race ci h = (Inl e, h')"
    and "e \<noteq> HubLandingCrash SE_atomic_landing AfterEffect" and "\<forall>j. e \<noteq> JournalError j"
  shows "((\<forall>q. g_rev_parse (e_git E) (h_git h') q = g_rev_parse (e_git E) (h_git h) q)
        \<or> h_git h' = race (fence_written E ci h))
    \<and> (\<forall>oids. e = HubLandingPendingError TargetDrift oids \<longrightarrow>
        observed_target E ci (h_git h') \<noteq> Some (lc_baseOid (cc_candidate ci)))
    \<and> (\<forall>oids. e = HubLandingPendingError StaleOwnerRejected oids \<longrightarrow>
        observed_fence E ci (h_git h') \<noteq> cc_expectedFenceOid ci
        \<or> observed_fence E ci (h_git h') \<noteq> observed_fence E ci (h_git h))"
  using assms by (rule commit_fails_cleanly)

text \<open>
  Landing again is harmless. Once the repository holds the receipt of a verified candidate that the
  publish target contains, landing it again, in whatever process, returns that receipt, changes
  nothing in the repository and brings the journal to the landed checkpoint or leaves it beyond.
\<close>

theorem landing_again_is_harmless:
  assumes "readHubLandingReceipt E (h_git h) (lc_transactionId (cc_candidate ci)) = Some (receipt, ro)"
    and "rc_candidateOid receipt = lc_candidateOid (cc_candidate ci)"
    and "observed_target E ci (h_git h) = Some target"
    and "isAncestor E (h_git h) (lc_candidateOid (cc_candidate ci)) target"
    and "readHubLandingVerificationArtifact h (lc_transactionId (cc_candidate ci)) = Some a"
    and "va_candidateOid a = lc_candidateOid (cc_candidate ci)"
    and "va_verifierFingerprint a = cc_verifierFingerprint ci" and "va_exitCode a = 0"
    and "journals_ok (h_journals h)"
    and "record_ok (landed_record (cc_candidate ci) (cc_verifierFingerprint ci)
          (case observed_fence E ci (h_git h) of None \<Rightarrow> ro | Some f \<Rightarrow> f) (receipt_ref ci) ro
          (rc_landedAt receipt))"
  shows "\<exists>r h'. commitHubLandingTarget E race ci h = (Inr r, h') \<and> h_git h' = h_git h
    \<and> cr_receiptOid r = ro \<and> cr_candidateOid r = lc_candidateOid (cc_candidate ci)
    \<and> cr_publishTargetOid r = target
    \<and> loadHubLandingTransaction (h_journals h') (lc_transactionId (cc_candidate ci)) = Some (cr_state r)
    \<and> TargetLanded \<le> st_checkpoint (cr_state r)"
proof -
  let ?c = "cc_candidate ci" and ?fp = "cc_verifierFingerprint ci"
  let ?fo = "case observed_fence E ci (h_git h) of None \<Rightarrow> ro | Some f \<Rightarrow> f"
  let ?rec = "landed_record ?c ?fp ?fo (receipt_ref ci) ro (rc_landedAt receipt)"
  have tx: "r_transactionId ?rec = lc_transactionId ?c" "r_checkpoint ?rec = TargetLanded"
    by (simp_all add: landed_record_def plain_record_def txn_evidence.defs)
  obtain res js where app: "appendHubLandingCheckpoint (h_journals h) ?rec = (res, js)" by fastforce
  from journal_appended [OF assms(10,9) app] obtain s where s: "res = Inr s"
      "loadHubLandingTransaction js (lc_transactionId ?c) = Some s" "TargetLanded \<le> st_checkpoint s"
    by (auto simp: tx)
  let ?h1 = "h\<lparr>h_journals := js\<rparr>"
  have rec: "recordTargetLandedCheckpoint ?c ?fp ?fo (receipt_ref ci) ro (rc_landedAt receipt) h
      = (Inr s, ?h1)"
    using app s by (simp add: recordTargetLandedCheckpoint_def appendCheckpoint_eq)
  obtain y h2 where y: "enqueueHubCheckoutProjection E (lc_transactionId ?c) (lc_taskId ?c) (lc_policy ?c)
      (lc_candidateOid ?c) (cc_clock ci) ?h1 = (y, h2)" by fastforce
  note enq = enqueueCheckout_git [OF y]
  let ?r = "\<lparr>cr_transactionId = lc_transactionId ?c, cr_candidateOid = lc_candidateOid ?c,
       cr_publishTargetOid = target, cr_fenceOid = ?fo, cr_receiptOid = ro,
       cr_receiptRef = receipt_ref ci, cr_state = s\<rparr>"
  have landed: "toTargetLandedCommit E (cc_clock ci) ?c ?fp ?fo (receipt_ref ci) ro (rc_landedAt receipt)
      target h = (Inr ?r, h2)"
    using rec y enq by (auto simp: toTargetLandedCommit_def bind_act_def ret_act_def)
  have "resume_landed E ci receipt ro h = (Inr ?r, h2)"
    using assms(2-4) landed
    by (simp add: resume_landed_def Let_def bind_act_def revParse_def demand_act_def tryRevParse_def
        gets_act_def gitRead_def observed_target_def observed_fence_def isAncestor_def receipt_ref_def
        eq_commute [of target])
  moreover have "assertVerifiedCandidate (lc_transactionId ?c) (lc_candidateOid ?c) ?fp h = (Inr a, h)"
    using assms(5-8) by (simp add: assertVerifiedCandidate_def)
  ultimately have "commitHubLandingTarget E race ci h = (Inr ?r, h2)"
    using assms(1) by (simp add: commitHubLandingTarget_def Let_def bind_act_def gets_act_def)
  with enq s show ?thesis by auto
qed


subsection \<open>A landing in the demonstration world\<close>

definition demo_candidate :: HubLandingCandidate where
  "demo_candidate = \<lparr>lc_transactionId = ''ltx-t-d'', lc_taskId = ''t'', lc_branch = ''feature'',
     lc_sourceOid = demo_oid (CHR ''b''), lc_baseOid = demo_oid (CHR ''a''),
     lc_candidateOid = demo_oid (CHR ''b''),
     lc_candidateRef = ''refs/archloop/candidates/ltx-t-d'', lc_worktreeDir = ''/hub/p/w'',
     lc_policy = fresh_policy ''main'' ''p-d'' ''1'',
     lc_state = initial_state [] (plain_record CandidateVerified ''ltx-t-d'' ''t'' ''1''),
     lc_filtered = None\<rparr>"

definition demo_commit :: commit_input where
  "demo_commit = \<lparr>cc_candidate = demo_candidate, cc_verifierFingerprint = ''fp'', cc_now = ''2'',
     cc_clock = ''2'', cc_expectedFenceOid = None, cc_ownerNonce = Some ''n''\<rparr>"

definition demo_artifact :: HubLandingVerificationArtifact where
  "demo_artifact = \<lparr>va_candidateOid = demo_oid (CHR ''b''), va_verifierFingerprint = ''fp'',
     va_verifierConfigHash = None, va_runtimeFingerprint = None, va_exitCode = 0,
     va_outputHash = ''d'', va_artifactHash = None, va_createdAt = ''1''\<rparr>"

definition demo_verified :: "demo_world hub" where
  "demo_verified = demo_hub\<lparr>h_artifact := (\<lambda>_. Text (artifact_json demo_artifact))\<rparr>"

definition demo_receipt :: HubLandingReceipt where
  "demo_receipt = landing_receipt demo_candidate ''fp'' ''2''"

definition demo_landed :: "demo_world hub" where
  "demo_landed = demo_verified\<lparr>h_git := demo_state\<lparr>dw_repo :=
     \<lparr>mr_refs = [(''refs/archloop/publish/p-d'', demo_oid (CHR ''b'')),
         (''refs/archloop/fence/p-d'', demo_oid (CHR ''f'')),
         (''refs/archloop/receipts/ltx-t-d'', demo_oid (CHR ''e''))],
      mr_objects = [(demo_oid (CHR ''e''), receipt_json demo_receipt)],
      mr_history = [demo_oid (CHR ''a''), demo_oid (CHR ''b'')]\<rparr>\<rparr>\<rparr>"

lemma demo_distinct: "distinct_refs demo_commit"
  by (simp add: distinct_refs_def demo_commit_def demo_candidate_def fresh_policy_def receipt_ref_def
      resolveHubLandingReceiptRef_def)

lemma demo_env_git: "git_laws (e_git demo_env)"
  by (simp add: demo_env_def demo_git_laws)

theorem landing_is_verified_and_atomic_witness:
  "\<exists>r h'. commitHubLandingTarget demo_env id demo_commit demo_verified = (Inr r, h')
     \<and> landed_atomically demo_env id demo_commit demo_verified (h_git h')"
proof -
  let ?e = "commitHubLandingTarget demo_env id demo_commit demo_verified"
  let ?b = "demo_oid (CHR ''b'')"
  have "case ?e of (Inl _, _) \<Rightarrow> False
      | (Inr r, h') \<Rightarrow> observed_target demo_env demo_commit (h_git h') = Some ?b" by code_simp
  then obtain r h' where e: "?e = (Inr r, h')"
      and target: "observed_target demo_env demo_commit (h_git h') = Some ?b"
    by (cases ?e; cases "fst ?e") simp_all
  have k: "keeps_objects (e_git demo_env) id" by (simp add: keeps_objects_def)
  have none: "readHubLandingReceipt demo_env (h_git demo_verified)
      (lc_transactionId (cc_candidate demo_commit)) = None" by code_simp
  have "observed_target demo_env demo_commit (fence_written demo_env demo_commit demo_verified)
      \<noteq> Some ?b" by code_simp
  then have "h_git h' \<noteq> id (fence_written demo_env demo_commit demo_verified)"
    using target by auto
  with landing_is_verified_and_atomic [OF demo_env_git k demo_distinct e] none e show ?thesis
    by auto
qed

theorem failed_landing_moves_nothing_witness:
  "\<exists>h'. commitHubLandingTarget demo_env id demo_commit demo_hub
     = (Inl (UnverifiedCandidate (demo_oid (CHR ''b''))), h')
     \<and> (\<forall>q. g_rev_parse (e_git demo_env) (h_git h') q = g_rev_parse (e_git demo_env) (h_git demo_hub) q
          \<or> h_git h' = fence_written demo_env demo_commit demo_hub)"
proof -
  have e: "commitHubLandingTarget demo_env id demo_commit demo_hub
     = (Inl (UnverifiedCandidate (demo_oid (CHR ''b''))), demo_hub)"
    by (simp add: commitHubLandingTarget_def Let_def bind_act_def assertVerifiedCandidate_def gets_act_def
        readHubLandingVerificationArtifact_def demo_hub_def throw_act_def demo_commit_def demo_candidate_def)
  from failed_landing_moves_nothing [OF demo_env_git e] e show ?thesis by auto
qed

theorem landing_again_is_harmless_witness:
  "\<exists>r h'. commitHubLandingTarget demo_env id demo_commit demo_landed = (Inr r, h')
     \<and> h_git h' = h_git demo_landed \<and> TargetLanded \<le> st_checkpoint (cr_state r)"
proof -
  let ?c = "cc_candidate demo_commit"
  have tx: "lc_transactionId ?c = ''ltx-t-d''" by (simp add: demo_commit_def demo_candidate_def)
  have r: "readHubLandingReceipt demo_env (h_git demo_landed) (lc_transactionId ?c)
      = Some (demo_receipt, demo_oid (CHR ''e''))"
    by (simp add: tx readHubLandingReceipt_def demo_env_def demo_git_def mem_git_def demo_landed_def
        resolveHubLandingReceiptRef_def receipt_roundtrip)
  have c: "rc_candidateOid demo_receipt = lc_candidateOid ?c"
    by (simp add: demo_receipt_def landing_receipt_def demo_commit_def)
  have t: "observed_target demo_env demo_commit (h_git demo_landed) = Some (demo_oid (CHR ''b''))"
      and f: "observed_fence demo_env demo_commit (h_git demo_landed) = Some (demo_oid (CHR ''f''))"
    by (simp_all add: observed_target_def observed_fence_def demo_env_def demo_git_def mem_git_def
        demo_landed_def demo_commit_def demo_candidate_def fresh_policy_def)
  have i: "isAncestor demo_env (h_git demo_landed) (lc_candidateOid ?c) (demo_oid (CHR ''b''))"
    by (simp add: isAncestor_def demo_commit_def demo_candidate_def)
  have a: "readHubLandingVerificationArtifact demo_landed (lc_transactionId ?c) = Some demo_artifact"
    by (simp add: readHubLandingVerificationArtifact_def demo_landed_def demo_verified_def
        artifact_roundtrip)
  have v: "va_candidateOid demo_artifact = lc_candidateOid ?c"
      "va_verifierFingerprint demo_artifact = cc_verifierFingerprint demo_commit"
      "va_exitCode demo_artifact = 0"
    by (simp_all add: demo_artifact_def demo_commit_def demo_candidate_def)
  have j: "journals_ok (h_journals demo_landed)"
    by (simp add: journals_ok_def readHubLandingJournal_def demo_landed_def demo_verified_def demo_hub_def)
  have oid: "isGitOid (demo_oid (CHR ''a''))" "isGitOid (demo_oid (CHR ''b''))"
      "isGitOid (demo_oid (CHR ''e''))" "isGitOid (demo_oid (CHR ''f''))"
    by (simp_all add: demo_oid_def isGitOid_def hex_digit_def list_all_iff)
  have k: "record_ok (landed_record ?c (cc_verifierFingerprint demo_commit)
      (case observed_fence demo_env demo_commit (h_git demo_landed) of
         None \<Rightarrow> demo_oid (CHR ''e'') | Some f \<Rightarrow> f)
      (receipt_ref demo_commit) (demo_oid (CHR ''e'')) (rc_landedAt demo_receipt))"
    unfolding f option.case by (simp add: record_ok_def evidence_ok_def landed_record_def plain_record_def no_evidence_def
        txn_evidence.defs demo_commit_def demo_candidate_def oid trimmed_def js_trim_def js_space_def
        demo_receipt_def landing_receipt_def receipt_ref_def resolveHubLandingReceiptRef_def)
  from landing_again_is_harmless [OF r c t i a v j k] show ?thesis by blast
qed

end
