(* ===== verification/Landing_Queue.thy ===== *)
theory Landing_Queue
  imports Landing_Core
begin

text \<open>
  The landing queue of a publish target (\<open>src/src/hubLandingQueue.ts\<close>): one ticket per task in the
  order of assignment, the head that may land, the hold of a ticket whose required delivery is still
  running, the invalidation of the speculative suffix, the quiet wait after repeated target drift, and
  the import of commits that the user made on the host branch.
\<close>

subsection \<open>Tickets\<close>

datatype HubLandingTicketStatus =
    Queued
  | Speculating
  | Verified
  | Landed
  | Publishing
  | Invalidated
  | BlockedUnshippedPrerequisite
  | Failed
  | QuietWait

fun ticket_status_name :: "HubLandingTicketStatus \<Rightarrow> string" where
  "ticket_status_name Queued = ''queued''"
| "ticket_status_name Speculating = ''speculating''"
| "ticket_status_name Verified = ''verified''"
| "ticket_status_name Landed = ''landed''"
| "ticket_status_name Publishing = ''publishing''"
| "ticket_status_name Invalidated = ''invalidated''"
| "ticket_status_name BlockedUnshippedPrerequisite = ''blocked_unshipped_prerequisite''"
| "ticket_status_name Failed = ''failed''"
| "ticket_status_name QuietWait = ''target_quiet_wait''"

definition HUB_LANDING_TICKET_STATUSES :: "HubLandingTicketStatus list" where
  "HUB_LANDING_TICKET_STATUSES =
     [Queued, Speculating, Verified, Landed, Publishing, Invalidated, BlockedUnshippedPrerequisite,
      Failed, QuietWait]"

definition ELIGIBLE_STATUSES :: "HubLandingTicketStatus list" where
  "ELIGIBLE_STATUSES = [Queued, Speculating, Verified, Invalidated, QuietWait]"

definition TERMINAL_STATUSES :: "HubLandingTicketStatus list" where
  "TERMINAL_STATUSES = [Landed, Failed]"

definition isHubLandingTicketStatus :: "string \<Rightarrow> HubLandingTicketStatus option" where
  "isHubLandingTicketStatus s = find (\<lambda>st. ticket_status_name st = s) HUB_LANDING_TICKET_STATUSES"

record HubLandingQueueTicket =
  tk_ticketId :: string
  tk_sequence :: int
  tk_taskId :: task_id
  tk_assignedAt :: iso_time
  tk_status :: HubLandingTicketStatus
  tk_blockerTaskIds :: "task_id list"
  tk_sourceOid :: "oid option"
  tk_predecessorOid :: "oid option"
  tk_candidateOid :: "oid option"
  tk_transactionId :: "txn_id option"
  tk_activationId :: "string option"
  tk_activationDriftRebuilds :: int
  tk_lastObservedTargetOid :: "oid option"
  tk_quietWaitEnteredAt :: "iso_time option"
  tk_suffixInvalidatedAt :: "iso_time option"
  tk_suffixInvalidationReason :: "string option"

record HubLandingQueueState =
  q_publishTargetRef :: string
  q_nextSequence :: int
  q_tickets :: "HubLandingQueueTicket list"

definition parseTicket :: "json \<Rightarrow> HubLandingQueueTicket option" where
  "parseTicket v = do {
     kvs \<leftarrow> parseJsonRecord v;
     i \<leftarrow> stringField (jget kvs ''ticketId'');
     n \<leftarrow> numberField (jget kvs ''sequence'');
     t \<leftarrow> stringField (jget kvs ''taskId'');
     assigned \<leftarrow> stringField (jget kvs ''assignedAt'');
     name \<leftarrow> stringField (jget kvs ''status'');
     status \<leftarrow> isHubLandingTicketStatus name;
     Some \<lparr>tk_ticketId = i, tk_sequence = n, tk_taskId = t, tk_assignedAt = assigned,
       tk_status = status,
       tk_blockerTaskIds = (case stringArrayField (jget kvs ''blockerTaskIds'') of
          None \<Rightarrow> [] | Some ts \<Rightarrow> ts),
       tk_sourceOid = stringField (jget kvs ''sourceOid''),
       tk_predecessorOid = stringField (jget kvs ''predecessorOid''),
       tk_candidateOid = stringField (jget kvs ''candidateOid''),
       tk_transactionId = stringField (jget kvs ''transactionId''),
       tk_activationId = stringField (jget kvs ''activationId''),
       tk_activationDriftRebuilds =
         (case numberField (jget kvs ''activationDriftRebuilds'') of None \<Rightarrow> 0 | Some k \<Rightarrow> k),
       tk_lastObservedTargetOid = stringField (jget kvs ''lastObservedTargetOid''),
       tk_quietWaitEnteredAt = stringField (jget kvs ''quietWaitEnteredAt''),
       tk_suffixInvalidatedAt = stringField (jget kvs ''suffixInvalidatedAt''),
       tk_suffixInvalidationReason = stringField (jget kvs ''suffixInvalidationReason'')\<rparr>
   }"

definition ticket_fields :: "HubLandingQueueTicket \<Rightarrow> (string \<times> json option) list" where
  "ticket_fields tk =
     [(''ticketId'', Some (JStr (tk_ticketId tk))),
      (''sequence'', Some (jint (tk_sequence tk))),
      (''taskId'', Some (JStr (tk_taskId tk))),
      (''assignedAt'', Some (JStr (tk_assignedAt tk))),
      (''status'', Some (JStr (ticket_status_name (tk_status tk)))),
      (''blockerTaskIds'', Some (jstrs (tk_blockerTaskIds tk))),
      (''sourceOid'', jstr_opt (tk_sourceOid tk)),
      (''predecessorOid'', jstr_opt (tk_predecessorOid tk)),
      (''candidateOid'', jstr_opt (tk_candidateOid tk)),
      (''transactionId'', jstr_opt (tk_transactionId tk)),
      (''activationId'', jstr_opt (tk_activationId tk)),
      (''activationDriftRebuilds'', Some (jint (tk_activationDriftRebuilds tk))),
      (''lastObservedTargetOid'', jstr_opt (tk_lastObservedTargetOid tk)),
      (''quietWaitEnteredAt'', jstr_opt (tk_quietWaitEnteredAt tk)),
      (''suffixInvalidatedAt'', jstr_opt (tk_suffixInvalidatedAt tk)),
      (''suffixInvalidationReason'', jstr_opt (tk_suffixInvalidationReason tk))]"

definition ticket_json :: "HubLandingQueueTicket \<Rightarrow> json" where
  "ticket_json tk = jobj (ticket_fields tk)"

fun json_items :: "json option \<Rightarrow> json list" where
  "json_items (Some (JArr vs)) = vs"
| "json_items _ = []"

definition parseQueue :: "json \<Rightarrow> HubLandingQueueState option" where
  "parseQueue v = do {
     kvs \<leftarrow> parseJsonRecord v;
     (if jget kvs ''version'' \<noteq> Some (jint 1) then None
      else do {
        target \<leftarrow> stringField (jget kvs ''publishTargetRef'');
        n \<leftarrow> numberField (jget kvs ''nextSequence'');
        Some \<lparr>q_publishTargetRef = target, q_nextSequence = n,
          q_tickets = List.map_filter parseTicket (json_items (jget kvs ''tickets''))\<rparr>
      })
   }"

definition queue_json :: "HubLandingQueueState \<Rightarrow> json" where
  "queue_json q = jobj
     [(''version'', Some (jint 1)),
      (''publishTargetRef'', Some (JStr (q_publishTargetRef q))),
      (''nextSequence'', Some (jint (q_nextSequence q))),
      (''tickets'', Some (JArr (map ticket_json (q_tickets q))))]"

text \<open>What reads back as written: the strings that are there are not blank.\<close>

definition ticket_ok :: "HubLandingQueueTicket \<Rightarrow> bool" where
  "ticket_ok tk \<longleftrightarrow>
     list_all nonblank [tk_ticketId tk, tk_taskId tk, tk_assignedAt tk]
     \<and> list_all nonblank (tk_blockerTaskIds tk)
     \<and> list_all (opt_ok nonblank)
         [tk_sourceOid tk, tk_predecessorOid tk, tk_candidateOid tk, tk_transactionId tk,
          tk_activationId tk, tk_lastObservedTargetOid tk, tk_quietWaitEnteredAt tk,
          tk_suffixInvalidatedAt tk, tk_suffixInvalidationReason tk]"

definition queue_ok :: "HubLandingQueueState \<Rightarrow> bool" where
  "queue_ok q \<longleftrightarrow> nonblank (q_publishTargetRef q) \<and> list_all ticket_ok (q_tickets q)"

lemma find_ticket_status [json_simps]:
  "isHubLandingTicketStatus (ticket_status_name st) = Some st"
  by (cases st) (simp_all add: isHubLandingTicketStatus_def HUB_LANDING_TICKET_STATUSES_def)

lemma ticket_status_nonblank [json_simps]: "nonblank (ticket_status_name st)"
  by (cases st) (simp_all add: nonblank_def js_space_def)

lemma stringField_jstr_opt [json_simps]: "opt_ok nonblank v \<Longrightarrow> stringField (jstr_opt v) = v"
  by (cases v) (simp_all add: jstr_opt_def)

lemma stringField_JStr [json_simps]: "nonblank s \<Longrightarrow> stringField (Some (JStr s)) = Some s"
  by simp

lemma ticket_surjective:
  "\<lparr>tk_ticketId = tk_ticketId tk, tk_sequence = tk_sequence tk, tk_taskId = tk_taskId tk,
     tk_assignedAt = tk_assignedAt tk, tk_status = tk_status tk,
     tk_blockerTaskIds = tk_blockerTaskIds tk, tk_sourceOid = tk_sourceOid tk,
     tk_predecessorOid = tk_predecessorOid tk, tk_candidateOid = tk_candidateOid tk,
     tk_transactionId = tk_transactionId tk, tk_activationId = tk_activationId tk,
     tk_activationDriftRebuilds = tk_activationDriftRebuilds tk,
     tk_lastObservedTargetOid = tk_lastObservedTargetOid tk,
     tk_quietWaitEnteredAt = tk_quietWaitEnteredAt tk,
     tk_suffixInvalidatedAt = tk_suffixInvalidatedAt tk,
     tk_suffixInvalidationReason = tk_suffixInvalidationReason tk\<rparr> = tk"
  by simp

lemma ticket_json_get:
  "jget (readObject (ticket_json tk)) k =
     (case map_of (ticket_fields tk) k of None \<Rightarrow> None | Some v \<Rightarrow> v)"
  unfolding ticket_json_def readObject_jobj
  by (rule jget_defined_fields) (simp add: ticket_fields_def)

lemma ticket_json_record: "parseJsonRecord (ticket_json tk) = Some (readObject (ticket_json tk))"
  by (simp add: ticket_json_def json_simps)

lemma ticket_roundtrip:
  assumes "ticket_ok tk"
  shows "parseTicket (ticket_json tk) = Some tk"
proof -
  let ?kvs = "readObject (ticket_json tk)"
  note get = ticket_json_get [of tk, unfolded ticket_fields_def]
  note ok = assms [unfolded ticket_ok_def]
  have req: "stringField (jget ?kvs ''ticketId'') = Some (tk_ticketId tk)"
      "numberField (jget ?kvs ''sequence'') = Some (tk_sequence tk)"
      "stringField (jget ?kvs ''taskId'') = Some (tk_taskId tk)"
      "stringField (jget ?kvs ''assignedAt'') = Some (tk_assignedAt tk)"
      "stringField (jget ?kvs ''status'') = Some (ticket_status_name (tk_status tk))"
      "numberField (jget ?kvs ''activationDriftRebuilds'') = Some (tk_activationDriftRebuilds tk)"
    using ok by (simp_all add: get json_simps del: stringField.simps numberField.simps)
  have blockers: "(case stringArrayField (jget ?kvs ''blockerTaskIds'') of None \<Rightarrow> [] | Some ts \<Rightarrow> ts)
      = tk_blockerTaskIds tk"
    using ok by (simp add: get json_simps)
  have opt: "stringField (jget ?kvs ''sourceOid'') = tk_sourceOid tk"
      "stringField (jget ?kvs ''predecessorOid'') = tk_predecessorOid tk"
      "stringField (jget ?kvs ''candidateOid'') = tk_candidateOid tk"
      "stringField (jget ?kvs ''transactionId'') = tk_transactionId tk"
      "stringField (jget ?kvs ''activationId'') = tk_activationId tk"
      "stringField (jget ?kvs ''lastObservedTargetOid'') = tk_lastObservedTargetOid tk"
      "stringField (jget ?kvs ''quietWaitEnteredAt'') = tk_quietWaitEnteredAt tk"
      "stringField (jget ?kvs ''suffixInvalidatedAt'') = tk_suffixInvalidatedAt tk"
      "stringField (jget ?kvs ''suffixInvalidationReason'') = tk_suffixInvalidationReason tk"
    using ok by (simp_all add: get json_simps del: stringField.simps numberField.simps)
  show ?thesis
    unfolding parseTicket_def ticket_json_record Option.bind.simps req opt blockers
      find_ticket_status
    by (simp only: option.case Option.bind.simps ticket_surjective)
qed

lemma tickets_roundtrip:
  "list_all ticket_ok tks \<Longrightarrow> List.map_filter parseTicket (map ticket_json tks) = tks"
  by (induction tks) (simp_all add: List.map_filter_simps ticket_roundtrip)

lemma queue_roundtrip: "queue_ok q \<Longrightarrow> parseQueue (queue_json q) = Some q"
  by (simp add: parseQueue_def queue_json_def parseJsonRecord_jobj jget_def queue_ok_def
      tickets_roundtrip numberField_jint stringField_JStr del: stringField.simps numberField.simps)

interpretation queue_codec: json_codec queue_json parseQueue queue_ok
  by unfold_locales (rule queue_roundtrip)

text \<open>\<open>readHubLandingQueue\<close>, on the queue file.\<close>

definition readHubLandingQueue :: "jfile \<Rightarrow> HubLandingQueueState option" where
  "readHubLandingQueue f = read_json_file parseQueue f"

lemma readHubLandingQueue_written [simp]:
  "queue_ok q \<Longrightarrow> readHubLandingQueue (Text (queue_json q)) = Some q"
  unfolding readHubLandingQueue_def by (rule queue_codec.read_written)

definition findHubLandingQueueTicket :: "jfile \<Rightarrow> task_id \<Rightarrow> HubLandingQueueTicket option" where
  "findHubLandingQueueTicket f t =
     Option.bind (readHubLandingQueue f) (\<lambda>q. find (\<lambda>tk. tk_taskId tk = t) (q_tickets q))"

definition readQueue :: "('g, HubLandingQueueState option) hub_act" where
  "readQueue = gets_act (\<lambda>h. readHubLandingQueue (h_queue h))"

definition writeQueue :: "HubLandingQueueState \<Rightarrow> ('g, HubLandingQueueState) hub_act" where
  "writeQueue q = bind_act (modify_act (\<lambda>h. h\<lparr>h_queue := Text (queue_json q)\<rparr>)) (\<lambda>_. ret_act q)"

definition emptyQueue :: "string \<Rightarrow> HubLandingQueueState" where
  "emptyQueue target = \<lparr>q_publishTargetRef = target, q_nextSequence = 1, q_tickets = []\<rparr>"

definition replaceTicket :: "HubLandingQueueState \<Rightarrow> HubLandingQueueTicket \<Rightarrow> HubLandingQueueState" where
  "replaceTicket q tk = q\<lparr>q_tickets :=
     map (\<lambda>entry. if tk_ticketId entry = tk_ticketId tk then tk else entry) (q_tickets q)\<rparr>"


subsection \<open>Assigning tickets\<close>

fun refreshInvalidatedTicketStatus :: "HubLandingTicketStatus \<Rightarrow> HubLandingTicketStatus" where
  "refreshInvalidatedTicketStatus Invalidated = Queued"
| "refreshInvalidatedTicketStatus st = st"

record HubLandingQueueTaskInput =
  qt_taskId :: task_id
  qt_blockerTaskIds :: "task_id list option"
  qt_sourceOid :: "oid option"

text \<open>
  The variables of the loop: \<open>byTaskId\<close>, \<open>nextSequence\<close> and \<open>tickets\<close>. Refreshing a ticket does not
  update \<open>byTaskId\<close>: a task that is named twice is refreshed twice from the same old ticket.
\<close>

record assign_loop =
  al_byTaskId :: "task_id \<Rightarrow> HubLandingQueueTicket option"
  al_nextSequence :: int
  al_tickets :: "HubLandingQueueTicket list"

definition refreshed_ticket :: "HubLandingQueueTicket \<Rightarrow> HubLandingQueueTaskInput \<Rightarrow> HubLandingQueueTicket" where
  "refreshed_ticket current task = current
     \<lparr>tk_blockerTaskIds := (case qt_blockerTaskIds task of None \<Rightarrow> tk_blockerTaskIds current | Some b \<Rightarrow> b),
      tk_sourceOid := coalesce (qt_sourceOid task) (tk_sourceOid current),
      tk_status := refreshInvalidatedTicketStatus (tk_status current)\<rparr>"

definition new_ticket :: "iso_time \<Rightarrow> int \<Rightarrow> HubLandingQueueTaskInput \<Rightarrow> HubLandingQueueTicket" where
  "new_ticket assignedAt n task =
     \<lparr>tk_ticketId = ''lqt-'' @ safeTaskId (qt_taskId task) @ CHR ''-'' # show_int n,
      tk_sequence = n, tk_taskId = qt_taskId task, tk_assignedAt = assignedAt, tk_status = Queued,
      tk_blockerTaskIds = (case qt_blockerTaskIds task of None \<Rightarrow> [] | Some b \<Rightarrow> b),
      tk_sourceOid = qt_sourceOid task, tk_predecessorOid = None, tk_candidateOid = None,
      tk_transactionId = None, tk_activationId = None, tk_activationDriftRebuilds = 0,
      tk_lastObservedTargetOid = None, tk_quietWaitEnteredAt = None, tk_suffixInvalidatedAt = None,
      tk_suffixInvalidationReason = None\<rparr>"

text \<open>\<open>tickets[index] = updated\<close> for the first ticket with the id, if there is one.\<close>

fun update_first :: "('a \<Rightarrow> bool) \<Rightarrow> 'a \<Rightarrow> 'a list \<Rightarrow> 'a list" where
  "update_first P y [] = []"
| "update_first P y (x # xs) = (if P x then y # xs else x # update_first P y xs)"

definition assign_task ::
    "iso_time \<Rightarrow> assign_loop \<Rightarrow> HubLandingQueueTaskInput \<Rightarrow> assign_loop" where
  "assign_task assignedAt s task =
     (case al_byTaskId s (qt_taskId task) of
        Some current \<Rightarrow> s\<lparr>al_tickets := update_first
          (\<lambda>tk. tk_ticketId tk = tk_ticketId current) (refreshed_ticket current task) (al_tickets s)\<rparr>
      | None \<Rightarrow>
          (let tk = new_ticket assignedAt (al_nextSequence s) task in
           s\<lparr>al_byTaskId := (al_byTaskId s)(qt_taskId task \<mapsto> tk),
             al_nextSequence := al_nextSequence s + 1, al_tickets := al_tickets s @ [tk]\<rparr>))"

definition by_task_id :: "HubLandingQueueTicket list \<Rightarrow> task_id \<Rightarrow> HubLandingQueueTicket option" where
  "by_task_id tks = map_of (rev (map (\<lambda>tk. (tk_taskId tk, tk)) tks))"

definition assign_queue ::
    "string \<Rightarrow> HubLandingQueueTaskInput list \<Rightarrow> iso_time \<Rightarrow> HubLandingQueueState
     \<Rightarrow> HubLandingQueueState" where
  "assign_queue target tasks assignedAt existing =
     (let s = foldl (assign_task assignedAt)
            \<lparr>al_byTaskId = by_task_id (q_tickets existing),
             al_nextSequence = q_nextSequence existing, al_tickets = q_tickets existing\<rparr> tasks
      in \<lparr>q_publishTargetRef = target, q_nextSequence = al_nextSequence s, q_tickets = al_tickets s\<rparr>)"

definition assignHubLandingQueueTickets ::
    "string \<Rightarrow> HubLandingQueueTaskInput list \<Rightarrow> iso_time \<Rightarrow> ('g, HubLandingQueueState) hub_act" where
  "assignHubLandingQueueTickets target tasks now =
     bind_act readQueue (\<lambda>existing.
     writeQueue (assign_queue target tasks now
       (case existing of None \<Rightarrow> emptyQueue target | Some q \<Rightarrow> q)))"

text \<open>
  \<open>ensureHubLandingQueueTicket\<close>: the ticket is there, as the task is new or has one already.
\<close>

definition ensureHubLandingQueueTicket ::
    "string \<Rightarrow> task_id \<Rightarrow> oid option \<Rightarrow> task_id list option \<Rightarrow> iso_time
     \<Rightarrow> ('g, HubLandingQueueTicket option) hub_act" where
  "ensureHubLandingQueueTicket target t src blockers now =
     bind_act (assignHubLandingQueueTickets target
       [\<lparr>qt_taskId = t, qt_blockerTaskIds = blockers, qt_sourceOid = src\<rparr>] now) (\<lambda>q.
     ret_act (find (\<lambda>tk. tk_taskId tk = t) (q_tickets q)))"


subsection \<open>The head of the queue\<close>

definition blockersShipped :: "HubLandingQueueTicket \<Rightarrow> task_id set \<Rightarrow> bool" where
  "blockersShipped tk shipped \<longleftrightarrow> list_all (\<lambda>t. t \<in> shipped) (tk_blockerTaskIds tk)"

definition eligible :: "task_id set \<Rightarrow> HubLandingQueueTicket \<Rightarrow> bool" where
  "eligible shipped tk \<longleftrightarrow> tk_status tk \<in> set ELIGIBLE_STATUSES \<and> blockersShipped tk shipped"

definition resolveHubLandingQueueHead ::
    "HubLandingQueueState option \<Rightarrow> task_id set \<Rightarrow> HubLandingQueueTicket option" where
  "resolveHubLandingQueueHead queue shipped =
     Option.bind queue (\<lambda>q. first_by tk_sequence (filter (eligible shipped) (q_tickets q)))"

definition findEarlierRequiredDeliveryHold ::
    "HubLandingQueueState option \<Rightarrow> task_id \<Rightarrow> HubLandingQueueTicket option" where
  "findEarlierRequiredDeliveryHold queue t = do {
     q \<leftarrow> queue;
     mine \<leftarrow> find (\<lambda>tk. tk_taskId tk = t) (q_tickets q);
     first_by tk_sequence
       (filter (\<lambda>tk. tk_sequence tk < tk_sequence mine \<and> tk_status tk = Publishing) (q_tickets q))
   }"

definition may_land :: "HubLandingQueueState option \<Rightarrow> task_id set \<Rightarrow> task_id \<Rightarrow> bool" where
  "may_land queue shipped t \<longleftrightarrow>
     (if findEarlierRequiredDeliveryHold queue t \<noteq> None then False
      else map_option tk_taskId (resolveHubLandingQueueHead queue shipped) = Some t)"

definition canLandHubLandingTicket :: "task_id \<Rightarrow> task_id set \<Rightarrow> ('g, bool) hub_act" where
  "canLandHubLandingTicket t shipped =
     bind_act readQueue (\<lambda>q. ret_act (may_land q shipped t))"

definition resolveRequiredDeliveryPredecessor ::
    "task_id \<Rightarrow> ('g, HubLandingQueueTicket option) hub_act" where
  "resolveRequiredDeliveryPredecessor t =
     bind_act readQueue (\<lambda>q. ret_act (findEarlierRequiredDeliveryHold q t))"

definition fifoPositionForTicket :: "HubLandingQueueTicket \<Rightarrow> int" where
  "fifoPositionForTicket tk = tk_sequence tk"

definition HUB_LANDING_SPECULATIVE_CHAIN_LIMIT :: nat where
  "HUB_LANDING_SPECULATIVE_CHAIN_LIMIT = 8"

definition selectHubSpeculativeChain ::
    "HubLandingQueueState option \<Rightarrow> task_id set \<Rightarrow> nat \<Rightarrow> HubLandingQueueTicket list" where
  "selectHubSpeculativeChain queue shipped limit =
     (case queue of None \<Rightarrow> []
      | Some q \<Rightarrow> take limit (sort_key tk_sequence (filter (\<lambda>tk.
          tk_status tk \<notin> set TERMINAL_STATUSES \<and> tk_status tk \<noteq> BlockedUnshippedPrerequisite
          \<and> tk_status tk \<noteq> Publishing \<and> blockersShipped tk shipped) (q_tickets q))))"

subsection \<open>Changing a ticket\<close>

text \<open>
  \<open>updateTicket\<close>: the patch is applied to the first ticket of the task, and every ticket with its
  ticket id is replaced by the result.
\<close>

definition patch_queue ::
    "task_id \<Rightarrow> (HubLandingQueueTicket \<Rightarrow> HubLandingQueueTicket) \<Rightarrow> HubLandingQueueState
     \<Rightarrow> (HubLandingQueueTicket \<times> HubLandingQueueState) option" where
  "patch_queue t patch q =
     map_option (\<lambda>current. (patch current, replaceTicket q (patch current)))
       (find (\<lambda>tk. tk_taskId tk = t) (q_tickets q))"

definition updateTicket ::
    "task_id \<Rightarrow> (HubLandingQueueTicket \<Rightarrow> HubLandingQueueTicket)
     \<Rightarrow> ('g, HubLandingQueueTicket option) hub_act" where
  "updateTicket t patch =
     bind_act readQueue (\<lambda>queue.
     case Option.bind queue (patch_queue t patch) of
       None \<Rightarrow> ret_act None
     | Some (tk, q) \<Rightarrow> bind_act (writeQueue q) (\<lambda>_. ret_act (Some tk)))"

definition candidate_patch ::
    "oid \<Rightarrow> oid \<Rightarrow> oid \<Rightarrow> txn_id \<Rightarrow> HubLandingQueueTicket \<Rightarrow> HubLandingQueueTicket" where
  "candidate_patch src predecessor cand tx tk = tk
     \<lparr>tk_status := Speculating, tk_sourceOid := Some src, tk_predecessorOid := Some predecessor,
      tk_candidateOid := Some cand, tk_transactionId := Some tx\<rparr>"

definition recordHubLandingQueueCandidate ::
    "task_id \<Rightarrow> oid \<Rightarrow> oid \<Rightarrow> oid \<Rightarrow> txn_id \<Rightarrow> ('g, HubLandingQueueTicket option) hub_act" where
  "recordHubLandingQueueCandidate t src predecessor cand tx =
     updateTicket t (candidate_patch src predecessor cand tx)"

definition status_patch :: "HubLandingTicketStatus \<Rightarrow> HubLandingQueueTicket \<Rightarrow> HubLandingQueueTicket" where
  "status_patch st tk = tk\<lparr>tk_status := st\<rparr>"

definition settled_patch :: "HubLandingTicketStatus \<Rightarrow> HubLandingQueueTicket \<Rightarrow> HubLandingQueueTicket" where
  "settled_patch st tk = tk
     \<lparr>tk_status := st, tk_activationDriftRebuilds := 0, tk_quietWaitEnteredAt := None\<rparr>"

definition markHubLandingQueueVerified :: "task_id \<Rightarrow> ('g, HubLandingQueueTicket option) hub_act" where
  "markHubLandingQueueVerified t = updateTicket t (status_patch Verified)"

definition markHubLandingQueueLanded :: "task_id \<Rightarrow> ('g, HubLandingQueueTicket option) hub_act" where
  "markHubLandingQueueLanded t = updateTicket t (settled_patch Landed)"

definition markHubLandingQueuePublishing :: "task_id \<Rightarrow> ('g, HubLandingQueueTicket option) hub_act" where
  "markHubLandingQueuePublishing t = updateTicket t (settled_patch Publishing)"

definition markHubLandingQueueAfterLocalLand ::
    "task_id \<Rightarrow> publish_policy \<Rightarrow> ('g, HubLandingQueueTicket option) hub_act" where
  "markHubLandingQueueAfterLocalLand t policy =
     (if policy = Required then markHubLandingQueuePublishing t else markHubLandingQueueLanded t)"

definition markHubLandingQueueFailed :: "task_id \<Rightarrow> ('g, HubLandingQueueTicket option) hub_act" where
  "markHubLandingQueueFailed t = updateTicket t (status_patch Failed)"

definition markHubLandingQueueBlockedPrerequisite ::
    "task_id \<Rightarrow> ('g, HubLandingQueueTicket option) hub_act" where
  "markHubLandingQueueBlockedPrerequisite t = updateTicket t (status_patch BlockedUnshippedPrerequisite)"


subsection \<open>The speculative suffix\<close>

text \<open>Which tickets go, and what becomes of one.\<close>

definition in_suffix :: "int \<Rightarrow> HubLandingQueueTicket \<Rightarrow> bool" where
  "in_suffix n tk \<longleftrightarrow> \<not> (tk_sequence tk \<le> n \<or> tk_status tk \<in> set TERMINAL_STATUSES
     \<or> tk_status tk = BlockedUnshippedPrerequisite)"

definition invalidated_ticket ::
    "iso_time \<Rightarrow> string \<Rightarrow> HubLandingQueueTicket \<Rightarrow> HubLandingQueueTicket" where
  "invalidated_ticket now reason tk = tk
     \<lparr>tk_status := Invalidated, tk_candidateOid := None, tk_predecessorOid := None,
      tk_transactionId := None, tk_suffixInvalidatedAt := Some now,
      tk_suffixInvalidationReason := Some reason\<rparr>"

definition invalidate_queue ::
    "iso_time \<Rightarrow> string \<Rightarrow> int \<Rightarrow> HubLandingQueueState \<Rightarrow> HubLandingQueueState" where
  "invalidate_queue now reason n q = q\<lparr>q_tickets :=
     map (\<lambda>tk. if in_suffix n tk then invalidated_ticket now reason tk else tk) (q_tickets q)\<rparr>"

text \<open>The loop deletes the verification artifact of each ticket that goes and has a transaction.\<close>

definition invalidate_candidate_of :: "HubLandingQueueTicket \<Rightarrow> ('g, unit) hub_act" where
  "invalidate_candidate_of tk =
     (case tk_transactionId tk of
        None \<Rightarrow> ret_act ()
      | Some tx \<Rightarrow> if tx = [] then ret_act () else invalidateHubLandingCandidate tx)"

definition invalidateHubLandingSpeculativeSuffix ::
    "task_id \<Rightarrow> string \<Rightarrow> iso_time \<Rightarrow> ('g, HubLandingQueueTicket list) hub_act" where
  "invalidateHubLandingSpeculativeSuffix t reason now =
     bind_act readQueue (\<lambda>queue.
     case queue of
       None \<Rightarrow> ret_act []
     | Some q \<Rightarrow>
         (case find (\<lambda>tk. tk_taskId tk = t) (q_tickets q) of
            None \<Rightarrow> ret_act []
          | Some origin \<Rightarrow>
              (let n = tk_sequence origin; gone = filter (in_suffix n) (q_tickets q) in
               bind_act (each_act invalidate_candidate_of gone) (\<lambda>_.
               bind_act (writeQueue (invalidate_queue now reason n q)) (\<lambda>_.
               ret_act (map (invalidated_ticket now reason) gone))))))"


subsection \<open>Target drift and the quiet wait\<close>

definition HUB_LANDING_TARGET_DRIFT_REBUILD_LIMIT :: int where
  "HUB_LANDING_TARGET_DRIFT_REBUILD_LIMIT = 3"

text \<open>
  \<open>computeHubLandingDriftBackoffMs\<close>, with the value of \<open>random()\<close>, in exact arithmetic:
  \<open>Math.round(x)\<close> is the floor of \<open>x + 1/2\<close>.
\<close>

definition computeHubLandingDriftBackoffMs :: "int \<Rightarrow> rat \<Rightarrow> int" where
  "computeHubLandingDriftBackoffMs rebuildIndex random =
     (let base = 25 * 2 ^ nat (min (max rebuildIndex 0) 4);
          jitter = 3/4 + random * (1/2)
      in \<lfloor>base * jitter + 1/2\<rfloor>)"

text \<open>The wait itself is a call of the clock; what it returns is the delay.\<close>

definition waitHubLandingDriftBackoff :: "rat \<Rightarrow> int \<Rightarrow> ('g, int) hub_act" where
  "waitHubLandingDriftBackoff random rebuildIndex =
     ret_act (computeHubLandingDriftBackoffMs rebuildIndex random)"

definition activation_id :: "task_id \<Rightarrow> iso_time \<Rightarrow> string" where
  "activation_id t now = ''act-'' @ t @ CHR ''-'' # now"

definition drift_patch ::
    "HubLandingQueueTicket option \<Rightarrow> task_id \<Rightarrow> oid \<Rightarrow> iso_time \<Rightarrow> HubLandingQueueTicket
     \<Rightarrow> HubLandingQueueTicket" where
  "drift_patch current t observed now tk = tk
     \<lparr>tk_activationId := coalesce (Option.bind current tk_activationId) (Some (activation_id t now)),
      tk_activationDriftRebuilds :=
        (case current of None \<Rightarrow> 0 | Some c \<Rightarrow> tk_activationDriftRebuilds c) + 1,
      tk_lastObservedTargetOid := Some observed, tk_status := Queued\<rparr>"

definition recordHubLandingDriftRebuild ::
    "task_id \<Rightarrow> oid \<Rightarrow> iso_time \<Rightarrow> ('g, HubLandingQueueTicket option) hub_act" where
  "recordHubLandingDriftRebuild t observed now =
     bind_act (gets_act (\<lambda>h. findHubLandingQueueTicket (h_queue h) t)) (\<lambda>current.
     updateTicket t (drift_patch current t observed now))"

definition shouldEnterHubLandingQuietWait :: "task_id \<Rightarrow> ('g, bool) hub_act" where
  "shouldEnterHubLandingQuietWait t =
     gets_act (\<lambda>h. (case findHubLandingQueueTicket (h_queue h) t of
        None \<Rightarrow> 0 | Some tk \<Rightarrow> tk_activationDriftRebuilds tk) \<ge> HUB_LANDING_TARGET_DRIFT_REBUILD_LIMIT)"

definition quiet_patch :: "oid \<Rightarrow> iso_time \<Rightarrow> HubLandingQueueTicket \<Rightarrow> HubLandingQueueTicket" where
  "quiet_patch observed now tk = tk
     \<lparr>tk_status := QuietWait, tk_lastObservedTargetOid := Some observed,
      tk_quietWaitEnteredAt := Some now\<rparr>"

definition enterHubLandingQuietWait ::
    "task_id \<Rightarrow> oid \<Rightarrow> iso_time \<Rightarrow> ('g, HubLandingQueueTicket option) hub_act" where
  "enterHubLandingQuietWait t observed now = updateTicket t (quiet_patch observed now)"

datatype quiet_wait_outcome = Resumed | Waiting | NotWaiting

definition observed_patch :: "oid \<Rightarrow> HubLandingQueueTicket \<Rightarrow> HubLandingQueueTicket" where
  "observed_patch observed tk = tk\<lparr>tk_lastObservedTargetOid := Some observed\<rparr>"

definition resume_patch :: "task_id \<Rightarrow> oid \<Rightarrow> iso_time \<Rightarrow> HubLandingQueueTicket \<Rightarrow> HubLandingQueueTicket" where
  "resume_patch t observed now tk = tk
     \<lparr>tk_status := Queued, tk_activationId := Some (activation_id t now),
      tk_activationDriftRebuilds := 0, tk_quietWaitEnteredAt := None,
      tk_lastObservedTargetOid := Some observed\<rparr>"

definition resumeHubLandingQuietWaitIfStable ::
    "task_id \<Rightarrow> oid \<Rightarrow> iso_time \<Rightarrow> ('g, quiet_wait_outcome) hub_act" where
  "resumeHubLandingQuietWaitIfStable t observed now =
     bind_act (gets_act (\<lambda>h. findHubLandingQueueTicket (h_queue h) t)) (\<lambda>ticket.
     if map_option tk_status ticket \<noteq> Some QuietWait then ret_act NotWaiting
     else
       (let last = Option.bind ticket tk_lastObservedTargetOid in
        if truthy_string last \<and> last \<noteq> Some observed
        then bind_act (updateTicket t (observed_patch observed)) (\<lambda>_. ret_act Waiting)
        else bind_act (updateTicket t (resume_patch t observed now)) (\<lambda>_. ret_act Resumed)))"


subsection \<open>Inspection\<close>

definition queue_no_recover :: string where
  "queue_no_recover = ''This is not a task failure and does not require a recovery command.''"

record HubLandingQueueInspection =
  qi_tickets :: "HubLandingQueueTicket list"
  qi_pendingQuietWaitCount :: nat
  qi_fifoHeadTaskId :: "task_id option"
  qi_fifoHeadPosition :: "int option"
  qi_message :: string
  qi_nextAction :: string

definition quietWaitInspection ::
    "HubLandingQueueTicket list \<Rightarrow> HubLandingQueueTicket \<Rightarrow> nat \<Rightarrow> HubLandingQueueInspection" where
  "quietWaitInspection tks head n =
     \<lparr>qi_tickets = tks, qi_pendingQuietWaitCount = n, qi_fifoHeadTaskId = Some (tk_taskId head),
      qi_fifoHeadPosition = Some (tk_sequence head),
      qi_message = ''Target quiet wait for '' @ tk_taskId head @ '' at FIFO position ''
        @ show_int (tk_sequence head)
        @ ''. Later transactions cannot overtake this ticket. '' @ queue_no_recover,
      qi_nextAction = ''Wait for a stable Hub publish target window; Hub will start a new activation ''
        @ ''automatically without resetting semantic repair budgets.''\<rparr>"

fun join_with :: "string \<Rightarrow> string list \<Rightarrow> string" where
  "join_with sep [] = []"
| "join_with sep [s] = s"
| "join_with sep (s # t # ss) = s @ sep @ join_with sep (t # ss)"

definition activeHeadInspection ::
    "HubLandingQueueTicket list \<Rightarrow> HubLandingQueueTicket \<Rightarrow> nat \<Rightarrow> HubLandingQueueInspection" where
  "activeHeadInspection tks head n =
     (let part = (\<lambda>label v. if truthy_string v then [label @ the v] else []);
          oidParts = part ''predecessor '' (tk_predecessorOid head)
            @ part ''candidate '' (tk_candidateOid head);
          oidSuffix = (if oidParts \<noteq> [] then ''; '' @ join_with ''; '' oidParts else [])
      in \<lparr>qi_tickets = tks, qi_pendingQuietWaitCount = n, qi_fifoHeadTaskId = Some (tk_taskId head),
          qi_fifoHeadPosition = Some (tk_sequence head),
          qi_message = ''Landing queue head '' @ tk_taskId head @ '' at FIFO position ''
            @ show_int (tk_sequence head) @ oidSuffix @ ''.'',
          qi_nextAction = ''Hub will land the queue head with fenced CAS when verified.''\<rparr>)"

definition inspectHubLandingQueue :: "jfile \<Rightarrow> task_id set \<Rightarrow> HubLandingQueueInspection" where
  "inspectHubLandingQueue f shipped =
     (let queue = readHubLandingQueue f;
          tks = (case queue of None \<Rightarrow> [] | Some q \<Rightarrow> q_tickets q);
          n = length (filter (\<lambda>tk. tk_status tk = QuietWait) tks)
      in (case resolveHubLandingQueueHead queue shipped of
            None \<Rightarrow> \<lparr>qi_tickets = tks, qi_pendingQuietWaitCount = n, qi_fifoHeadTaskId = None,
              qi_fifoHeadPosition = None, qi_message = [], qi_nextAction = []\<rparr>
          | Some head \<Rightarrow>
              if tk_status head = QuietWait then quietWaitInspection tks head n
              else activeHeadInspection tks head n))"

subsection \<open>Commits on the host branch\<close>

datatype HubHostTargetRelation = HostEqual | HostBehind | HostDescendant | HostDiverged

fun host_relation_name :: "HubHostTargetRelation \<Rightarrow> string" where
  "host_relation_name HostEqual = ''equal''"
| "host_relation_name HostBehind = ''behind''"
| "host_relation_name HostDescendant = ''descendant''"
| "host_relation_name HostDiverged = ''diverged''"

text \<open>
  The working tree of the user, a parameter: the output of \<open>git status --porcelain\<close>, and what is at a
  path below the repository root (\<open>existsSync\<close>, \<open>lstatSync\<close>, \<open>readFileSync\<close>).
\<close>

datatype file_entry =
    NoEntry
  | DirectoryOrLink string
      \<comment> \<open>with the mode\<close>
  | PlainText string
  | UnreadableEntry

record 'g host_files =
  hf_status :: "'g \<Rightarrow> string option"
  hf_entry :: "'g \<Rightarrow> string \<Rightarrow> file_entry"

record HubHostDirtySnapshot =
  ds_porcelain :: string
  ds_contents :: "(string \<times> string option) list"

text \<open>\<open>line.match(/ -> (.+)$/)\<close>: what follows the first arrow that has something after it.\<close>

fun after_arrow :: "string \<Rightarrow> string option" where
  "after_arrow [] = None"
| "after_arrow (c # cs) =
     (if startsWith (c # cs) '' -> '' \<and> length (c # cs) > 4 then Some (drop 4 (c # cs))
      else after_arrow cs)"

definition strip_slash :: "string \<Rightarrow> string" where
  "strip_slash s = (if s \<noteq> [] \<and> last s = CHR ''/'' then butlast s else s)"

definition porcelain_path :: "string \<Rightarrow> string" where
  "porcelain_path line = strip_slash (js_trim
     (case after_arrow line of Some renamed \<Rightarrow> renamed | None \<Rightarrow> drop 3 line))"

text \<open>One line of the loop that fills \<open>contents\<close>.\<close>

definition snapshot_line ::
    "(string \<Rightarrow> file_entry) \<Rightarrow> string \<Rightarrow> (string \<times> string option) list
     \<Rightarrow> (string \<times> string option) list option" where
  "snapshot_line entry line contents =
     (let path = porcelain_path line in
      if \<not> nonblank line \<or> path = [] then Some contents
      else (case entry path of
              NoEntry \<Rightarrow> Some (AList.update path None contents)
            | DirectoryOrLink mode \<Rightarrow> Some (AList.update path (Some (''mode:'' @ mode)) contents)
            | PlainText s \<Rightarrow> Some (AList.update path (Some s) contents)
            | UnreadableEntry \<Rightarrow> None))"

fun snapshot_lines ::
    "(string \<Rightarrow> file_entry) \<Rightarrow> string list \<Rightarrow> (string \<times> string option) list
     \<Rightarrow> (string \<times> string option) list option" where
  "snapshot_lines entry [] contents = Some contents"
| "snapshot_lines entry (line # ls) contents =
     Option.bind (snapshot_line entry line contents) (snapshot_lines entry ls)"

definition dirty_snapshot :: "string \<Rightarrow> (string \<Rightarrow> file_entry) \<Rightarrow> HubHostDirtySnapshot option" where
  "dirty_snapshot status entry =
     (let porcelain = js_trim status in
      map_option (\<lambda>c. \<lparr>ds_porcelain = porcelain, ds_contents = c\<rparr>)
        (snapshot_lines entry (split_on (CHR 0x0A) porcelain) []))"

definition readHubHostDirtySnapshot :: "'g host_files \<Rightarrow> ('g, HubHostDirtySnapshot) hub_act" where
  "readHubHostDirtySnapshot F =
     bind_act (demand_act GitError (\<lambda>h. hf_status F (h_git h))) (\<lambda>status.
     demand_act (OtherError ''readFileSync'') (\<lambda>h. dirty_snapshot status (hf_entry F (h_git h))))"

definition hubHostDirtySnapshotsEqual :: "HubHostDirtySnapshot \<Rightarrow> HubHostDirtySnapshot \<Rightarrow> bool" where
  "hubHostDirtySnapshotsEqual l r \<longleftrightarrow>
     ds_porcelain l = ds_porcelain r \<and> ds_contents l = ds_contents r"

record HubHostTargetClassification =
  ht_relation :: HubHostTargetRelation
  ht_hostOid :: oid
  ht_targetOid :: oid

definition classifyHubHostTargetRelation ::
    "'g env \<Rightarrow> HubLandingPolicy \<Rightarrow> ('g, HubHostTargetClassification) hub_act" where
  "classifyHubHostTargetRelation E policy =
     bind_act (revParse E (p_hostTargetBranch policy @ ''^{commit}'')) (\<lambda>hostOid.
     bind_act (revParse E (p_publishTargetRef policy)) (\<lambda>targetOid.
     bind_act (gitRead E (\<lambda>G g. (g_is_ancestor G g hostOid targetOid, g_is_ancestor G g targetOid hostOid)))
       (\<lambda>(hostIsAncestor, targetIsAncestor).
     ret_act \<lparr>ht_relation =
         (if hostOid = targetOid then HostEqual
          else if hostIsAncestor then HostBehind
          else if targetIsAncestor then HostDescendant
          else HostDiverged),
       ht_hostOid = hostOid, ht_targetOid = targetOid\<rparr>)))"

datatype HubHostContributionPendingReason = HostContributionConflict | HostContributionPending

record HubHostContributionResult =
  hr_relation :: HubHostTargetRelation
  hr_hostOid :: oid
  hr_targetOid :: oid
  hr_imported :: bool
  hr_hostDirtyUnchanged :: bool
  hr_beforeDirty :: HubHostDirtySnapshot
  hr_afterDirty :: HubHostDirtySnapshot
  hr_candidate :: "HubLandingCandidate option"
  hr_commit :: "HubLandingCommitResult option"
  hr_message :: string
  hr_pending :: bool
  hr_pendingReason :: "HubHostContributionPendingReason option"

text \<open>What the land callback returns: a landing with its commit, or another kind.\<close>

datatype host_land = HostLanded HubLandingCommitResult | HostNotLanded string

text \<open>
  The texts of an error, a parameter: its \<open>message\<close>, and that with its stack and captured output.
\<close>

record error_texts =
  et_message :: "hub_error \<Rightarrow> string"
  et_combined :: "hub_error \<Rightarrow> string"

fun isHostContributionMergeConflict :: "error_texts \<Rightarrow> hub_error \<Rightarrow> bool" where
  "isHostContributionMergeConflict X (HubLandingWorktreeError e dir) =
     (if isHostContributionMergeConflict X e then True
      else includesText (toLowerCase (et_combined X (HubLandingWorktreeError e dir))) ''conflict'')"
| "isHostContributionMergeConflict X e = includesText (toLowerCase (et_combined X e)) ''conflict''"

definition hostContributionConflictMessage :: "string \<Rightarrow> string \<Rightarrow> string" where
  "hostContributionConflictMessage branch detail =
     ''Host contribution for '' @ branch
     @ '' has a deterministic merge conflict into the Hub publish target: '' @ detail
     @ ''. Resolve the conflict on the host target or publish target, then rerun the same flow ''
     @ ''(archloop run). Uncommitted host state was not imported. '' @ queue_no_recover"

definition hostContributionPendingMessage :: "string \<Rightarrow> string \<Rightarrow> string" where
  "hostContributionPendingMessage branch detail =
     ''Host contribution for '' @ branch @ '' could not be merged into the canonical chain: '' @ detail
     @ ''. Uncommitted host state was not imported. '' @ queue_no_recover"

record 'g host_contribution_input =
  hc_policy :: "HubLandingPolicy option"
  hc_now :: iso_time
  hc_clock :: iso_time
  hc_verify :: "(HubLandingCandidate \<Rightarrow> ('g, unit) hub_act) option"
  hc_land :: "(HubLandingCandidate \<Rightarrow> ('g, host_land) hub_act) option"

definition defaultHostContributionVerify ::
    "'g env \<Rightarrow> string \<Rightarrow> iso_time \<Rightarrow> HubLandingCandidate \<Rightarrow> ('g, unit) hub_act" where
  "defaultHostContributionVerify E fingerprint clock c =
     bind_act (bindHubLandingVerification (E\<lparr>e_fault := no_faults\<rparr>)
       \<lparr>bi_transactionId = lc_transactionId c, bi_taskId = lc_taskId c,
        bi_candidateOid = lc_candidateOid c, bi_verifierFingerprint = fingerprint,
        bi_verifierConfigHash = None, bi_runtimeFingerprint = None, bi_repoRootGiven = True,
        bi_exitCode = None, bi_output = None\<rparr> clock) (\<lambda>_. ret_act ())"

definition defaultHostContributionLand ::
    "'g env \<Rightarrow> ('g \<Rightarrow> 'g) \<Rightarrow> string \<Rightarrow> iso_time \<Rightarrow> iso_time \<Rightarrow> HubLandingCandidate
     \<Rightarrow> ('g, host_land) hub_act" where
  "defaultHostContributionLand E race fingerprint now clock c =
     bind_act (commitHubLandingTarget E race
       \<lparr>cc_candidate = c, cc_verifierFingerprint = fingerprint, cc_now = now, cc_clock = clock,
        cc_expectedFenceOid = None, cc_ownerNonce = None\<rparr>) (\<lambda>r. ret_act (HostLanded r))"

text \<open>
  \<open>finish\<close> takes its second snapshot outside the \<open>try\<close>: the promise is returned, not awaited there.
\<close>

record contribution_outcome =
  co_imported :: bool
  co_candidate :: "HubLandingCandidate option"
  co_commit :: "HubLandingCommitResult option"
  co_message :: string
  co_pendingReason :: "HubHostContributionPendingReason option"

definition finish_contribution ::
    "'g host_files \<Rightarrow> HubHostDirtySnapshot \<Rightarrow> HubHostTargetClassification \<Rightarrow> contribution_outcome
     \<Rightarrow> ('g, HubHostContributionResult) hub_act" where
  "finish_contribution F before c r =
     bind_act (readHubHostDirtySnapshot F) (\<lambda>after. ret_act
       \<lparr>hr_relation = ht_relation c, hr_hostOid = ht_hostOid c, hr_targetOid = ht_targetOid c,
        hr_imported = co_imported r,
        hr_hostDirtyUnchanged = hubHostDirtySnapshotsEqual before after,
        hr_beforeDirty = before, hr_afterDirty = after, hr_candidate = co_candidate r,
        hr_commit = co_commit r, hr_message = co_message r,
        hr_pending = (co_pendingReason r \<noteq> None), hr_pendingReason = co_pendingReason r\<rparr>)"

fun contribution_of ::
    "HubLandingPolicy \<Rightarrow> HubHostTargetClassification \<Rightarrow> HubLandingCandidate \<Rightarrow> host_land
     \<Rightarrow> contribution_outcome" where
  "contribution_of policy c candidate (HostNotLanded kind) =
     \<lparr>co_imported = False, co_candidate = Some candidate, co_commit = None,
      co_message = ''Host contribution for '' @ p_hostTargetBranch policy @ '' is pending (''
        @ kind @ ''). Task candidates wait until committed host work is in the canonical chain. ''
        @ queue_no_recover,
      co_pendingReason = Some HostContributionPending\<rparr>"
| "contribution_of policy c candidate (HostLanded commit) =
     \<lparr>co_imported = True, co_candidate = Some candidate, co_commit = Some commit,
      co_message = ''Imported committed host-target '' @ host_relation_name (ht_relation c)
        @ '' tip '' @ ht_hostOid c @ '' into the Hub publish target as ''
        @ cr_candidateOid commit @ ''.'',
      co_pendingReason = None\<rparr>"

lemma contribution_pending: "co_imported (contribution_of p c d l) \<longleftrightarrow> co_pendingReason (contribution_of p c d l) = None"
  by (cases l) simp_all

text \<open>The body of the \<open>try\<close>.\<close>

definition import_contribution ::
    "'g env \<Rightarrow> ('g \<Rightarrow> 'g) \<Rightarrow> 'g host_contribution_input \<Rightarrow> HubLandingPolicy
     \<Rightarrow> HubHostTargetClassification \<Rightarrow> ('g, contribution_outcome) hub_act" where
  "import_contribution E race i policy c =
     bind_act (createHubLandingCandidate E HUB_HOST_CONTRIBUTION_TASK_ID (p_hostTargetBranch policy)
        (Some (ht_targetOid c)) (hc_now i) None) (\<lambda>candidate.
     let fingerprint = computeHubVerifierFingerprint E;
         verify = (case hc_verify i of Some v \<Rightarrow> v
                   | None \<Rightarrow> defaultHostContributionVerify E fingerprint (hc_clock i));
         land = (case hc_land i of Some l \<Rightarrow> l
                 | None \<Rightarrow> defaultHostContributionLand E race fingerprint (hc_now i) (hc_clock i))
     in
     bind_act (verify candidate) (\<lambda>_.
     bind_act (land candidate) (\<lambda>landed. ret_act (contribution_of policy c candidate landed))))"

definition failed_contribution ::
    "error_texts \<Rightarrow> HubLandingPolicy \<Rightarrow> hub_error \<Rightarrow> contribution_outcome" where
  "failed_contribution X policy e =
     (let conflict = isHostContributionMergeConflict X e;
          text = (if conflict then hostContributionConflictMessage else hostContributionPendingMessage)
      in \<lparr>co_imported = False, co_candidate = None, co_commit = None,
          co_message = text (p_hostTargetBranch policy) (et_message X e),
          co_pendingReason =
            Some (if conflict then HostContributionConflict else HostContributionPending)\<rparr>)"

definition reconcileHubHostTargetContribution ::
    "'g env \<Rightarrow> 'g host_files \<Rightarrow> error_texts \<Rightarrow> ('g \<Rightarrow> 'g) \<Rightarrow> 'g host_contribution_input
     \<Rightarrow> ('g, HubHostContributionResult option) hub_act" where
  "reconcileHubHostTargetContribution E F X race i =
     bind_act (case hc_policy i of Some p \<Rightarrow> ret_act (Some p) | None \<Rightarrow> readPolicy) (\<lambda>found.
     case found of
       None \<Rightarrow> ret_act None
     | Some policy \<Rightarrow>
         bind_act (readHubHostDirtySnapshot F) (\<lambda>before.
         bind_act (classifyHubHostTargetRelation E policy) (\<lambda>c.
         bind_act
           (if ht_relation c \<in> {HostEqual, HostBehind}
            then ret_act \<lparr>co_imported = False, co_candidate = None, co_commit = None,
                co_message = ''Host target '' @ p_hostTargetBranch policy @ '' is ''
                  @ host_relation_name (ht_relation c)
                  @ '' the Hub publish target; no committed host contribution to import.'',
                co_pendingReason = None\<rparr>
            else catch_act (import_contribution E race i policy c)
                   (\<lambda>e. ret_act (failed_contribution X policy e)))
           (\<lambda>outcome.
         bind_act (finish_contribution F before c outcome) (\<lambda>r. ret_act (Some r))))))"

end
