(* ===== verification/Host_Import.thy ===== *)
theory Host_Import
  imports Landing_Queue
begin

text \<open>
  Properties of the import of host commits (\<open>reconcileHubHostTargetContribution\<close> of
  \<open>src/src/hubLandingQueue.ts\<close>): what it reports in every case, what a reported import rests on, and what
  the comparison of the working tree before and after can miss.
\<close>

subsection \<open>The relation of host and publish target\<close>

lemma classify_Inr:
  assumes "classifyHubHostTargetRelation E policy h = (Inr c, h')"
  shows "h' = h
    \<and> g_rev_parse (e_git E) (h_git h) (p_hostTargetBranch policy @ ''^{commit}'') = Some (ht_hostOid c)
    \<and> g_rev_parse (e_git E) (h_git h) (p_publishTargetRef policy) = Some (ht_targetOid c)
    \<and> (ht_relation c \<in> {HostEqual, HostBehind} \<longleftrightarrow> isAncestor E (h_git h) (ht_hostOid c) (ht_targetOid c))
    \<and> (ht_relation c = HostDiverged \<longrightarrow> \<not> isAncestor E (h_git h) (ht_targetOid c) (ht_hostOid c))"
  using assms
  by (auto simp: classifyHubHostTargetRelation_def revParse_def gitRead_def isAncestor_def split: if_splits)

subsection \<open>Every outcome\<close>

text \<open>
  The import of host commits reports every outcome. With a policy, a readable working tree and a
  classified host branch it returns a result: when the publish target contains the host tip, nothing is
  touched and nothing is pending; otherwise it tries the import, and whatever that throws, a crash
  included, becomes a pending result, so that such a result is pending exactly when nothing was imported.
\<close>

theorem host_import_reports_every_outcome:
  assumes "hc_policy i = Some policy"
    and "readHubHostDirtySnapshot F h = (Inr before, h)"
    and "\<forall>g. fst (readHubHostDirtySnapshot F g) \<in> range Inr"
    and "classifyHubHostTargetRelation E policy h = (Inr c, h)"
  shows "\<exists>r h'. reconcileHubHostTargetContribution E F X race i h = (Inr (Some r), h')
    \<and> hr_relation r = ht_relation c \<and> hr_hostOid r = ht_hostOid c \<and> hr_targetOid r = ht_targetOid c
    \<and> (if isAncestor E (h_git h) (ht_hostOid c) (ht_targetOid c)
       then h' = h \<and> \<not> hr_imported r \<and> \<not> hr_pending r \<and> hr_hostDirtyUnchanged r
       else hr_pending r = (\<not> hr_imported r)
         \<and> h' = snd (import_contribution E race i policy c h)
         \<and> (hr_imported r \<longleftrightarrow> (\<exists>outcome. fst (import_contribution E race i policy c h) = Inr outcome
              \<and> co_imported outcome)))"
proof -
  have snap: "\<exists>s. readHubHostDirtySnapshot F g = (Inr s, g)" for g
    using assms(3) [rule_format, of g]
    by (auto simp: readHubHostDirtySnapshot_def bind_act_def demand_act_def split: option.splits)
  have rel: "ht_relation c \<in> {HostEqual, HostBehind} \<longleftrightarrow>
      isAncestor E (h_git h) (ht_hostOid c) (ht_targetOid c)"
    using classify_Inr [OF assms(4)] by blast
  show ?thesis
  proof (cases "ht_relation c \<in> {HostEqual, HostBehind}")
    case True
    then show ?thesis using assms(1,2,4) rel
      by (simp add: reconcileHubHostTargetContribution_def bind_act_def ret_act_def
          finish_contribution_def hubHostDirtySnapshotsEqual_def)
  next
    case False
    obtain res h1 where imp: "import_contribution E race i policy c h = (res, h1)" by fastforce
    obtain s where s: "readHubHostDirtySnapshot F h1 = (Inr s, h1)" using snap by blast
    have outcome: "co_imported o1 \<longleftrightarrow> co_pendingReason o1 = None" if "res = Inr o1" for o1
      using imp that by (auto simp: import_contribution_def Let_def contribution_pending)
    show ?thesis
      using False assms(1,2,4) rel imp s outcome
      by (cases res) (simp_all add: reconcileHubHostTargetContribution_def bind_act_def ret_act_def
          catch_act_def finish_contribution_def failed_contribution_def Let_def)
  qed
qed


subsection \<open>What an import rests on\<close>

lemma import_lands:
  assumes "import_contribution E race i policy c h = (Inr outcome, h')" and "hc_land i = None"
  shows "\<exists>cand ci h1 r. co_candidate outcome = Some cand \<and> cc_candidate ci = cand \<and> co_imported outcome
    \<and> co_commit outcome = Some r
    \<and> cc_verifierFingerprint ci = computeHubVerifierFingerprint E
    \<and> commitHubLandingTarget E race ci h1 = (Inr r, h')"
proof -
  let ?ci = "\<lambda>cand. \<lparr>cc_candidate = cand, cc_verifierFingerprint = computeHubVerifierFingerprint E,
      cc_now = hc_now i, cc_clock = hc_clock i, cc_expectedFenceOid = None, cc_ownerNonce = None\<rparr>"
  from assms obtain cand h1 r where "commitHubLandingTarget E race (?ci cand) h1 = (Inr r, h')"
      "co_candidate outcome = Some cand" "co_imported outcome" "co_commit outcome = Some r"
    by (auto simp: import_contribution_def Let_def defaultHostContributionLand_def)
  then show ?thesis
    by (intro exI [of _ cand] exI [of _ "?ci cand"] exI [of _ h1] exI [of _ r]) simp
qed

text \<open>
  With the default landing, a reported import is a landing: the repository holds the receipt of the
  candidate that merged the host tip, provided the refs of the policy are not the same ref.
\<close>

theorem reported_import_has_landed:
  assumes "git_laws (e_git E)" and "keeps_objects (e_git E) race" and "hc_land i = None"
    and "reconcileHubHostTargetContribution E F X race i h = (Inr (Some r), h')" and "hr_imported r"
  shows "\<exists>cand commit. hr_candidate r = Some cand \<and> hr_commit r = Some commit
    \<and> (distinct [p_publishTargetRef (lc_policy cand), p_fenceRef (lc_policy cand),
          resolveHubLandingReceiptRef (lc_transactionId cand)] \<longrightarrow>
       (\<exists>receipt. readHubLandingReceipt E (h_git h') (lc_transactionId cand)
            = Some (receipt, cr_receiptOid commit)
          \<and> rc_candidateOid receipt = lc_candidateOid cand))"
proof -
  from assms(4,5) obtain policy c outcome h0 where
      imp: "import_contribution E race i policy c h0 = (Inr outcome, h')"
      and r: "hr_candidate r = co_candidate outcome" "hr_commit r = co_commit outcome"
    by (auto simp: reconcileHubHostTargetContribution_def finish_contribution_def readHubHostDirtySnapshot_def
        classifyHubHostTargetRelation_def revParse_def gitRead_def failed_contribution_def Let_def
        split: option.splits if_splits)
  with import_lands [OF imp assms(3)] obtain cand ci h2 commit where
      out: "hr_candidate r = Some cand" "cc_candidate ci = cand" "hr_commit r = Some commit"
      and run: "commitHubLandingTarget E race ci h2 = (Inr commit, h')"
    by auto
  have "distinct_refs ci" if "distinct [p_publishTargetRef (lc_policy cand), p_fenceRef (lc_policy cand),
      resolveHubLandingReceiptRef (lc_transactionId cand)]"
    using that out(2) by (simp add: distinct_refs_def receipt_ref_def)
  with commit_lands_verified [OF assms(1,2) _ run] out show ?thesis by blast
qed


subsection \<open>What the snapshots miss\<close>

lemma split_on_absent: "d \<notin> set s \<Longrightarrow> split_on d s = [s]"
  by (induction s) auto

lemma after_arrow_absent: "CHR '' '' \<notin> set s \<Longrightarrow> after_arrow s = None"
  by (induction s) (auto simp: startsWith_def)

lemma js_trim_inner:
  assumes "\<forall>x \<in> set p. \<not> js_space x" and "p \<noteq> []"
  shows "js_trim p = p"
  using trimmed_if_no_space [of p] assms by (simp add: trimmed_def)

lemma unstaged_line_trimmed:
  assumes "\<forall>x \<in> set (c # p). \<not> js_space x"
  shows "js_trim ('' M '' @ c # p @ [CHR 0x0A]) = ''M '' @ c # p"
proof -
  have "rev (c # p) \<noteq> [] \<and> \<not> js_space (hd (rev (c # p)))"
    using assms last_in_set [of "c # p"] by (simp add: hd_append hd_rev)
  then have "dropWhile js_space (rev (c # p) @ x) = rev (c # p) @ x" for x
    by (cases "rev (c # p)") simp_all
  from this [of "rev ''M ''"] show ?thesis by (simp add: js_trim_def js_space_def)
qed

text \<open>
  With one edited file the snapshot of the working tree reads another path. Git prints the edit as a
  line that starts with a space; the output is trimmed before its first three columns are cut off, so
  the path loses its first letter. The snapshot then does not depend on the content of the edited file:
  an edit between the two snapshots of an import goes unseen, and the host tree is reported unchanged.
\<close>

lemma edited_file_is_not_read:
  assumes "hf_status F g = Some ('' M '' @ c # p @ [CHR 0x0A])"
    and "\<forall>x \<in> set (c # p). \<not> js_space x" and "p \<noteq> []" and "last p \<noteq> CHR ''/''"
    and "hf_entry F g p = NoEntry" and "h_git h = g"
  shows "readHubHostDirtySnapshot F h
    = (Inr \<lparr>ds_porcelain = ''M '' @ c # p, ds_contents = [(p, None)]\<rparr>, h)"
proof -
  have nl: "CHR 0x0A \<notin> set (c # p)" and sp: "CHR '' '' \<notin> set (c # p)"
    using assms(2) by (auto simp: js_space_def)
  then have split: "split_on (CHR 0x0A) (''M '' @ c # p) = [''M '' @ c # p]"
    by (intro split_on_absent) auto
  have arrow: "after_arrow (''M '' @ c # p) = None"
  proof -
    have "CHR '' '' \<notin> set (take 2 p)" using sp in_set_takeD [of "CHR '' ''" 2 p] by auto
    then have "take 2 p \<noteq> ''> ''" by auto
    with after_arrow_absent [OF sp] show ?thesis by (auto simp: startsWith_def numeral_eq_Suc)
  qed
  have "porcelain_path (''M '' @ c # p) = p"
    using assms(2-4) js_trim_inner [of p]
    unfolding porcelain_path_def arrow option.case by (simp add: strip_slash_def)
  moreover have "nonblank (''M '' @ c # p)" by (simp add: nonblank_def js_space_def)
  ultimately show ?thesis
    using assms(1,3,5,6) split unstaged_line_trimmed [OF assms(2)]
    by (simp add: readHubHostDirtySnapshot_def dirty_snapshot_def snapshot_line_def act_defs)
qed


subsection \<open>Imports in the demonstration world\<close>

text \<open>A working tree with one edited file, whose text is the status text of the world.\<close>

definition demo_files :: "demo_world host_files" where
  "demo_files = \<lparr>hf_status = (\<lambda>w. Some ('' M '' @ ''ab'' @ [CHR 0x0A])),
     hf_entry = (\<lambda>w path. if path = ''ab'' then PlainText (dw_status w) else NoEntry)\<rparr>"

lemma edited_file_is_not_read_witness:
  "fst (readHubHostDirtySnapshot demo_files demo_hub)
     = fst (readHubHostDirtySnapshot demo_files (demo_hub\<lparr>h_git := demo_state\<lparr>dw_status := ''new''\<rparr>\<rparr>))"
proof -
  have f: "hf_status demo_files g = Some ('' M '' @ CHR ''a'' # ''b'' @ [CHR 0x0A])"
    "hf_entry demo_files g ''b'' = NoEntry" for g
    by (simp_all add: demo_files_def)
  have p: "\<forall>x \<in> set (CHR ''a'' # ''b''). \<not> js_space x" "''b'' \<noteq> []" "last ''b'' \<noteq> CHR ''/''"
    by (simp_all add: js_space_def)
  show ?thesis
    using edited_file_is_not_read [OF f(1) p f(2), of demo_hub "h_git demo_hub"]
      edited_file_is_not_read [OF f(1) p f(2), of "demo_hub\<lparr>h_git := demo_state\<lparr>dw_status := ''new''\<rparr>\<rparr>"
        "demo_state\<lparr>dw_status := ''new''\<rparr>"] by simp
qed

text \<open>The host branch is ahead of the publish target by one commit, or equal to it.\<close>

definition host_world :: "char \<Rightarrow> demo_world hub" where
  "host_world tip = demo_hub\<lparr>h_git := demo_state\<lparr>dw_repo := (dw_repo demo_state)
     \<lparr>mr_refs := (''main^{commit}'', demo_oid tip) # mr_refs (dw_repo demo_state)\<rparr>\<rparr>\<rparr>"

definition host_input :: "demo_world host_contribution_input" where
  "host_input = \<lparr>hc_policy = Some (fresh_policy ''main'' ''p-d'' ''1''), hc_now = ''2'', hc_clock = ''2'',
     hc_verify = None, hc_land = None\<rparr>"

definition demo_texts :: error_texts where
  "demo_texts = \<lparr>et_message = (\<lambda>e. ''failed''), et_combined = (\<lambda>e. ''failed'')\<rparr>"

theorem host_import_reports_every_outcome_witness:
  "\<exists>r h'. reconcileHubHostTargetContribution demo_env demo_files demo_texts id host_input (host_world (CHR ''a''))
     = (Inr (Some r), h') \<and> hr_relation r = HostEqual \<and> h' = host_world (CHR ''a'')"
proof -
  let ?h = "host_world (CHR ''a'')" and ?a = "demo_oid (CHR ''a'')"
  let ?c = "\<lparr>ht_relation = HostEqual, ht_hostOid = ?a, ht_targetOid = ?a\<rparr>"
  let ?s = "\<lparr>ds_porcelain = ''M ab'', ds_contents = [(''b'', None)]\<rparr>"
  have policy: "hc_policy host_input = Some (fresh_policy ''main'' ''p-d'' ''1'')"
    by (simp add: host_input_def)
  have d: "dirty_snapshot ('' M '' @ ''ab'' @ [CHR 0x0A]) (hf_entry demo_files g) = Some ?s" for g
    by (simp add: dirty_snapshot_def demo_files_def snapshot_line_def porcelain_path_def nonblank_def
        js_trim_def js_space_def startsWith_def strip_slash_def Let_def)
  have "hf_status demo_files g = Some ('' M '' @ ''ab'' @ [CHR 0x0A])" for g
    by (simp add: demo_files_def)
  with d have snap: "readHubHostDirtySnapshot demo_files h = (Inr ?s, h)" for h
    by (simp add: readHubHostDirtySnapshot_def act_defs)
  have c: "classifyHubHostTargetRelation demo_env (fresh_policy ''main'' ''p-d'' ''1'') ?h = (Inr ?c, ?h)"
    by (simp add: classifyHubHostTargetRelation_def revParse_def gitRead_def demo_env_def demo_git_def
        mem_git_def host_world_def fresh_policy_def demo_state_def act_defs)
  have ok: "\<forall>g. fst (readHubHostDirtySnapshot demo_files g) \<in> range Inr" by (simp add: snap)
  have "isAncestor demo_env (h_git ?h) ?a ?a" by (simp add: isAncestor_def)
  with host_import_reports_every_outcome [OF policy snap ok c, of demo_texts id] show ?thesis by auto
qed

text \<open>
  A host commit whose candidate was made, verified and landed by a run that stopped before it reported.
\<close>

definition landed_import :: "demo_world hub" where
  "landed_import = (let a = demo_oid (CHR ''a''); e = demo_oid (CHR ''e''); tx = ''ltx-hub-host-contribution-d'' in
     demo_hub\<lparr>h_policy := Text (policy_json (fresh_policy ''main'' ''p-d'' ''1'')),
       h_artifact := (\<lambda>_. Text (artifact_json (demo_artifact
         \<lparr>va_candidateOid := a, va_verifierFingerprint := computeHubVerifierFingerprint demo_env\<rparr>))),
       h_git := demo_state\<lparr>dw_repo := (dw_repo demo_state)
         \<lparr>mr_refs := [(''main^{commit}'', demo_oid (CHR ''b'')), (resolveHubLandingCandidateRef tx, a),
              (resolveHubLandingReceiptRef tx, e)] @ mr_refs (dw_repo demo_state),
          mr_objects := [(e, receipt_json (demo_receipt\<lparr>rc_candidateOid := a\<rparr>))]\<rparr>\<rparr>\<rparr>)"

definition landed_input :: "demo_world host_contribution_input" where
  "landed_input = host_input\<lparr>hc_verify := Some (\<lambda>c. ret_act ())\<rparr>"

theorem reported_import_has_landed_witness:
  "\<exists>r h' cand commit. reconcileHubHostTargetContribution demo_env demo_files demo_texts id landed_input
       landed_import = (Inr (Some r), h')
     \<and> hr_candidate r = Some cand \<and> hr_commit r = Some commit \<and> hr_imported r"
proof -
  let ?e = "reconcileHubHostTargetContribution demo_env demo_files demo_texts id landed_input landed_import"
  have "case fst ?e of Inr (Some r) \<Rightarrow> hr_imported r | _ \<Rightarrow> False" by code_simp
  then obtain r h' where e: "?e = (Inr (Some r), h')" and i: "hr_imported r"
    by (cases ?e; cases "fst ?e") (auto split: option.splits)
  have g: "git_laws (e_git demo_env)" by (simp add: demo_env_def demo_git_laws)
  have k: "keeps_objects (e_git demo_env) id" by (simp add: keeps_objects_def)
  have l: "hc_land landed_input = None" by (simp add: landed_input_def host_input_def)
  from reported_import_has_landed [OF g k l e i] e i show ?thesis by blast
qed

end
