(* ===== verification/Landing_Repair.thy ===== *)
theory Landing_Repair
  imports Hub_State Hub_Demo "HOL-Library.Monad_Syntax"
begin

text \<open>
  The repair budget of a landing (\<open>src/src/hubLandingRepair.ts\<close>): the attempts recorded for a task and
  a source commit, how many of a kind are left, and which errors count as transient.
\<close>

subsection \<open>Attempts\<close>

definition HUB_LANDING_REPAIR_BUDGET :: int where
  "HUB_LANDING_REPAIR_BUDGET = 2"

datatype HubLandingRepairKind = MergeConflict | Verification

fun repair_kind_name :: "HubLandingRepairKind \<Rightarrow> string" where
  "repair_kind_name MergeConflict = ''merge_conflict''"
| "repair_kind_name Verification = ''verification''"

definition parse_repair_kind :: "string option \<Rightarrow> HubLandingRepairKind option" where
  "parse_repair_kind v =
     (if v = Some ''merge_conflict'' then Some MergeConflict
      else if v = Some ''verification'' then Some Verification else None)"

record HubLandingRepairAttempt =
  ra_kind :: HubLandingRepairKind
  ra_taskId :: task_id
  ra_sourceOid :: oid
  ra_fingerprint :: string
  ra_attempt :: int
  ra_createdAt :: iso_time
  ra_candidateOid :: "oid option"
  ra_candidateGeneration :: "int option"

record HubLandingRepairBudgetState =
  rb_taskId :: task_id
  rb_sourceOid :: oid
  rb_attempts :: "HubLandingRepairAttempt list"
  rb_mergeConflictAttempts :: nat
  rb_verificationAttempts :: nat

definition computeHubLandingMergeInputFingerprint :: "(string \<Rightarrow> string) \<Rightarrow> oid \<Rightarrow> oid \<Rightarrow> string" where
  "computeHubLandingMergeInputFingerprint sha256 src base = sha256 (src @ CHR 0x00 # base)"

text \<open>The name of the budget file below \<open>landing/repair-budgets\<close>.\<close>

definition resolveHubLandingRepairBudgetPath :: "task_id \<Rightarrow> oid \<Rightarrow> string" where
  "resolveHubLandingRepairBudgetPath t src = safeTaskId t @ CHR ''-'' # src @ ''.jsonl''"

definition parseRepairAttempt :: "json \<Rightarrow> HubLandingRepairAttempt option" where
  "parseRepairAttempt v =
    (let kvs = readObject v in
     if jget kvs ''type'' \<noteq> Some (JStr ''repair_attempt'') then None
     else do {
       kind \<leftarrow> parse_repair_kind (readString kvs ''kind'');
       t \<leftarrow> readString kvs ''taskId'';
       src \<leftarrow> readString kvs ''sourceOid'';
       fingerprint \<leftarrow> readString kvs ''fingerprint'';
       created \<leftarrow> readString kvs ''createdAt'';
       n \<leftarrow> numberField (jget kvs ''attempt'');
       Some \<lparr>ra_kind = kind, ra_taskId = t, ra_sourceOid = src, ra_fingerprint = fingerprint,
         ra_attempt = n, ra_createdAt = created, ra_candidateOid = readString kvs ''candidateOid'',
         ra_candidateGeneration = numberField (jget kvs ''candidateGeneration'')\<rparr>
     })"

definition attempt_fields :: "HubLandingRepairAttempt \<Rightarrow> (string \<times> json option) list" where
  "attempt_fields a =
     [(''type'', Some (JStr ''repair_attempt'')),
      (''kind'', Some (JStr (repair_kind_name (ra_kind a)))),
      (''taskId'', Some (JStr (ra_taskId a))),
      (''sourceOid'', Some (JStr (ra_sourceOid a))),
      (''fingerprint'', Some (JStr (ra_fingerprint a))),
      (''attempt'', Some (jint (ra_attempt a))),
      (''createdAt'', Some (JStr (ra_createdAt a))),
      (''candidateOid'', jstr_opt (ra_candidateOid a)),
      (''candidateGeneration'', map_option jint (ra_candidateGeneration a))]"

definition attempt_json :: "HubLandingRepairAttempt \<Rightarrow> json" where
  "attempt_json a = jobj (attempt_fields a)"

definition attempt_ok :: "HubLandingRepairAttempt \<Rightarrow> bool" where
  "attempt_ok a \<longleftrightarrow>
     list_all trimmed [ra_taskId a, ra_sourceOid a, ra_fingerprint a, ra_createdAt a]
     \<and> opt_ok trimmed (ra_candidateOid a)"

lemma attempt_json_get:
  "jget (readObject (attempt_json a)) k =
     (case map_of (attempt_fields a) k of None \<Rightarrow> None | Some v \<Rightarrow> v)"
  unfolding attempt_json_def readObject_jobj
  by (rule jget_defined_fields) (simp add: attempt_fields_def)

lemma numberField_jint_opt: "numberField (map_option jint n) = n"
  by (cases n) (simp_all add: numberField_jint)

lemma attempt_surjective:
  "\<lparr>ra_kind = ra_kind a, ra_taskId = ra_taskId a, ra_sourceOid = ra_sourceOid a,
     ra_fingerprint = ra_fingerprint a, ra_attempt = ra_attempt a, ra_createdAt = ra_createdAt a,
     ra_candidateOid = ra_candidateOid a, ra_candidateGeneration = ra_candidateGeneration a\<rparr> = a"
  by simp

lemma attempt_roundtrip:
  assumes "attempt_ok a"
  shows "parseRepairAttempt (attempt_json a) = Some a"
proof -
  let ?kvs = "readObject (attempt_json a)"
  note get = attempt_json_get [of a, unfolded attempt_fields_def]
  note ok = assms [unfolded attempt_ok_def]
  have kind: "jget ?kvs ''kind'' = Some (JStr (repair_kind_name (ra_kind a)))" by (simp add: get)
  have "trimmed (repair_kind_name (ra_kind a))"
    by (cases "ra_kind a") (simp_all add: trimmed_def js_trim_def js_space_def)
  with kind have k: "parse_repair_kind (readString ?kvs ''kind'') = Some (ra_kind a)"
    by (simp add: readString_jget_Some) (cases "ra_kind a"; simp add: parse_repair_kind_def)
  have req: "readString ?kvs ''taskId'' = Some (ra_taskId a)"
      "readString ?kvs ''sourceOid'' = Some (ra_sourceOid a)"
      "readString ?kvs ''fingerprint'' = Some (ra_fingerprint a)"
      "readString ?kvs ''createdAt'' = Some (ra_createdAt a)"
    using ok by (simp_all add: readString_jget_Some get)
  have num: "numberField (jget ?kvs ''attempt'') = Some (ra_attempt a)"
      "numberField (jget ?kvs ''candidateGeneration'') = ra_candidateGeneration a"
    by (simp_all add: get numberField_jint numberField_jint_opt del: numberField.simps)
  have opt: "readString ?kvs ''candidateOid'' = ra_candidateOid a"
    using ok by (simp add: readString_opt get)
  have type: "jget ?kvs ''type'' = Some (JStr ''repair_attempt'')" by (simp add: get)
  show ?thesis
    unfolding parseRepairAttempt_def Let_def type req num opt k
    by (simp only: Option.bind.simps simp_thms if_False attempt_surjective)
qed

interpretation repair_codec: json_codec attempt_json parseRepairAttempt attempt_ok
  by unfold_locales (rule attempt_roundtrip)


subsection \<open>The budget\<close>

type_synonym repair_files = "string \<Rightarrow> jlines"

definition readHubLandingRepairAttempts :: "repair_files \<Rightarrow> task_id \<Rightarrow> oid \<Rightarrow> HubLandingRepairAttempt list" where
  "readHubLandingRepairAttempts fs t src =
     read_json_lines parseRepairAttempt (fs (resolveHubLandingRepairBudgetPath t src))"

definition countRepairAttempts ::
    "HubLandingRepairAttempt list \<Rightarrow> HubLandingRepairKind \<Rightarrow> string option \<Rightarrow> nat" where
  "countRepairAttempts attempts kind fingerprint =
     length (filter (\<lambda>a. ra_kind a = kind \<and>
       (case fingerprint of None \<Rightarrow> True | Some f \<Rightarrow> ra_fingerprint a = f)) attempts)"

fun usedAttemptsForKind :: "HubLandingRepairBudgetState \<Rightarrow> HubLandingRepairKind \<Rightarrow> nat" where
  "usedAttemptsForKind b MergeConflict = rb_mergeConflictAttempts b"
| "usedAttemptsForKind b Verification = rb_verificationAttempts b"

definition remainingFromUsed :: "nat \<Rightarrow> int" where
  "remainingFromUsed used = max 0 (HUB_LANDING_REPAIR_BUDGET - int used)"

definition loadHubLandingRepairBudget ::
    "repair_files \<Rightarrow> task_id \<Rightarrow> oid \<Rightarrow> HubLandingRepairBudgetState" where
  "loadHubLandingRepairBudget fs t src =
     (let attempts = readHubLandingRepairAttempts fs t src in
      \<lparr>rb_taskId = t, rb_sourceOid = src, rb_attempts = attempts,
       rb_mergeConflictAttempts = countRepairAttempts attempts MergeConflict None,
       rb_verificationAttempts = countRepairAttempts attempts Verification None\<rparr>)"

definition remainingHubLandingRepairAttempts ::
    "repair_files \<Rightarrow> task_id \<Rightarrow> oid \<Rightarrow> HubLandingRepairKind \<Rightarrow> string option \<Rightarrow> int" where
  "remainingHubLandingRepairAttempts fs t src kind fingerprint =
     (let budget = loadHubLandingRepairBudget fs t src;
          remaining = remainingFromUsed (usedAttemptsForKind budget kind)
      in if \<not> truthy_string fingerprint then remaining
         else min remaining
           (remainingFromUsed (countRepairAttempts (rb_attempts budget) kind fingerprint)))"

record repair_input =
  ri_taskId :: task_id
  ri_sourceOid :: oid
  ri_kind :: HubLandingRepairKind
  ri_fingerprint :: string
  ri_candidateOid :: "oid option"
  ri_candidateGeneration :: "int option"
  ri_now :: iso_time

definition next_attempt :: "repair_files \<Rightarrow> repair_input \<Rightarrow> HubLandingRepairAttempt" where
  "next_attempt fs i =
     \<lparr>ra_kind = ri_kind i, ra_taskId = ri_taskId i, ra_sourceOid = ri_sourceOid i,
      ra_fingerprint = ri_fingerprint i,
      ra_attempt = int (usedAttemptsForKind
        (loadHubLandingRepairBudget fs (ri_taskId i) (ri_sourceOid i)) (ri_kind i)) + 1,
      ra_createdAt = ri_now i, ra_candidateOid = ri_candidateOid i,
      ra_candidateGeneration = ri_candidateGeneration i\<rparr>"

definition recordHubLandingRepairAttempt ::
    "repair_files \<Rightarrow> repair_input \<Rightarrow> HubLandingRepairBudgetState \<times> repair_files" where
  "recordHubLandingRepairAttempt fs i =
     (let path = resolveHubLandingRepairBudgetPath (ri_taskId i) (ri_sourceOid i);
          fs' = fs(path := fs path @ [Some (attempt_json (next_attempt fs i))])
      in (loadHubLandingRepairBudget fs' (ri_taskId i) (ri_sourceOid i), fs'))"


subsection \<open>Transient errors\<close>

text \<open>
  A thrown value: a primitive with its text, or an object with the properties that the classification
  reads. The pattern is matched without regard to case; its \<open>.\<close> does not match the end of a line.
\<close>

record thrown_object =
  th_name :: "string option"
  th_code :: "string option"
  th_errorMessage :: string
    \<comment> \<open>\<open>error.message\<close> of an \<open>Error\<close>, else empty\<close>
  th_stdout :: string
  th_stderr :: string
  th_message :: string

datatype thrown = FalsyThrown | PrimitiveThrown string | ObjectThrown thrown_object

fun text_lines :: "string \<Rightarrow> string list" where
  "text_lines [] = [[]]"
| "text_lines (c # cs) =
     (if c = CHR 0x0A \<or> c = CHR 0x0D then [] # text_lines cs
      else (case text_lines cs of [] \<Rightarrow> [[c]] | l # ls \<Rightarrow> (c # l) # ls))"

text \<open>\<open>/a.*b/\<close> on one line: \<open>b\<close> somewhere after an occurrence of \<open>a\<close>.\<close>

fun followed_by :: "string \<Rightarrow> (string \<Rightarrow> bool) \<Rightarrow> string \<Rightarrow> bool" where
  "followed_by a later [] = (a = [] \<and> later [])"
| "followed_by a later (c # cs) =
     (startsWith (c # cs) a \<and> later (drop (length a) (c # cs)) \<or> followed_by a later cs)"

definition word_char :: "char \<Rightarrow> bool" where
  "word_char c \<longleftrightarrow> (let n = (of_char c :: nat) in
     65 \<le> n \<and> n \<le> 90 \<or> 97 \<le> n \<and> n \<le> 122 \<or> 48 \<le> n \<and> n \<le> 57 \<or> n = 95)"

definition word_start :: "string \<Rightarrow> bool" where
  "word_start s \<longleftrightarrow> s \<noteq> [] \<and> word_char (hd s)"

text \<open>\<open>p\<close> followed by a word boundary, and \<open>\beio\b\<close>.\<close>

definition ends_word :: "string \<Rightarrow> string \<Rightarrow> bool" where
  "ends_word p s \<longleftrightarrow> followed_by p (\<lambda>rest. \<not> word_start rest) s"

fun whole_word :: "bool \<Rightarrow> string \<Rightarrow> string \<Rightarrow> bool" where
  "whole_word inside p [] = False"
| "whole_word inside p (c # cs) =
     (\<not> inside \<and> startsWith (c # cs) p \<and> \<not> word_start (drop (length p) (c # cs))
      \<or> whole_word (word_char c) p cs)"

definition transient_line :: "string \<Rightarrow> bool" where
  "transient_line l \<longleftrightarrow>
     list_ex (includesText l)
       [''index.lock'', ''cannot lock ref'', ''resource temporarily unavailable'', ''eagain'', ''ebusy'',
        ''enospc'', ''input/output error'', ''etxtbsy'', ''emfile'', ''enfile'', ''publish target drifted'',
        ''cas failed'', ''pending contention'', ''stale hub landing owner'', ''landing lease'']
     \<or> followed_by ''/'' (ends_word ''.lock'') l
     \<or> followed_by ''unable to create'' (\<lambda>rest. includesText rest ''lock'') l
     \<or> whole_word False ''eio'' l"

definition matches_transient_pattern :: "string \<Rightarrow> bool" where
  "matches_transient_pattern s \<longleftrightarrow> list_ex transient_line (text_lines (toLowerCase s))"

definition TRANSIENT_NODE_CODES :: "string list" where
  "TRANSIENT_NODE_CODES =
     [''EAGAIN'', ''EBUSY'', ''ELOCKED'', ''ETXTBSY'', ''EMFILE'', ''ENFILE'', ''ENOSPC'', ''EIO'']"

fun isTransientHubLandingError :: "thrown \<Rightarrow> bool" where
  "isTransientHubLandingError FalsyThrown = False"
| "isTransientHubLandingError (PrimitiveThrown s) = matches_transient_pattern s"
| "isTransientHubLandingError (ObjectThrown e) =
     (if th_name e = Some ''HubLandingPendingError'' then True
      else if (\<exists>c \<in> set TRANSIENT_NODE_CODES. th_code e = Some c) then True
      else matches_transient_pattern
        (th_errorMessage e @ CHR 0x0A # th_stdout e @ CHR 0x0A # th_stderr e @ CHR 0x0A # th_message e))"

subsection \<open>What the budget promises\<close>

definition record_repairs :: "repair_files \<Rightarrow> repair_input list \<Rightarrow> repair_files" where
  "record_repairs fs is = foldl (\<lambda>fs i. snd (recordHubLandingRepairAttempt fs i)) fs is"

definition repair_input_ok :: "repair_input \<Rightarrow> bool" where
  "repair_input_ok i \<longleftrightarrow>
     list_all trimmed [ri_taskId i, ri_sourceOid i, ri_fingerprint i, ri_now i]
     \<and> opt_ok trimmed (ri_candidateOid i)"

definition repairs_of :: "HubLandingRepairKind \<Rightarrow> repair_input list \<Rightarrow> nat" where
  "repairs_of k is = length (filter (\<lambda>i. ri_kind i = k) is)"

lemma next_attempt_ok: "repair_input_ok i \<Longrightarrow> attempt_ok (next_attempt fs i)"
  by (simp add: repair_input_ok_def attempt_ok_def next_attempt_def)

lemma next_attempt_kind [simp]: "ra_kind (next_attempt fs i) = ri_kind i"
  and next_attempt_fingerprint [simp]: "ra_fingerprint (next_attempt fs i) = ri_fingerprint i"
  by (simp_all add: next_attempt_def)

lemma count_append:
  "countRepairAttempts (xs @ [a]) k f =
     countRepairAttempts xs k f
       + (if ra_kind a = k \<and> (case f of None \<Rightarrow> True | Some g \<Rightarrow> ra_fingerprint a = g) then 1 else 0)"
  by (simp add: countRepairAttempts_def)

lemma used_attempts:
  "usedAttemptsForKind (loadHubLandingRepairBudget fs t src) k =
     countRepairAttempts (readHubLandingRepairAttempts fs t src) k None"
  by (cases k) (simp_all add: loadHubLandingRepairBudget_def Let_def)

lemma budget_attempts:
  "rb_attempts (loadHubLandingRepairBudget fs t src) = readHubLandingRepairAttempts fs t src"
  by (simp add: loadHubLandingRepairBudget_def Let_def)

text \<open>A budget file is addressed by its name, so two tasks with the same name share it.\<close>

lemma recorded_attempts:
  assumes "repair_input_ok i"
  shows "readHubLandingRepairAttempts (snd (recordHubLandingRepairAttempt fs i)) t src =
    readHubLandingRepairAttempts fs t src
      @ (if resolveHubLandingRepairBudgetPath t src
            = resolveHubLandingRepairBudgetPath (ri_taskId i) (ri_sourceOid i)
         then [next_attempt fs i] else [])"
  using repair_codec.lines_append [OF next_attempt_ok [OF assms]]
  by (simp add: recordHubLandingRepairAttempt_def readHubLandingRepairAttempts_def Let_def)

lemma recorded_elsewhere:
  "path \<noteq> resolveHubLandingRepairBudgetPath (ri_taskId i) (ri_sourceOid i) \<Longrightarrow>
     snd (recordHubLandingRepairAttempt fs i) path = fs path"
  by (simp add: recordHubLandingRepairAttempt_def Let_def)

lemma record_repairs_used:
  assumes "list_all repair_input_ok is" "list_all (\<lambda>i. ri_taskId i = t \<and> ri_sourceOid i = src) is"
  shows "countRepairAttempts (readHubLandingRepairAttempts (record_repairs fs is) t src) k None =
    countRepairAttempts (readHubLandingRepairAttempts fs t src) k None + repairs_of k is"
  using assms
  by (induction "is" arbitrary: fs)
    (simp_all add: record_repairs_def repairs_of_def recorded_attempts count_append)

lemma record_repairs_elsewhere:
  assumes "list_all (\<lambda>i. ri_taskId i = t \<and> ri_sourceOid i = src) is"
    "path \<noteq> resolveHubLandingRepairBudgetPath t src"
  shows "record_repairs fs is path = fs path"
  using assms
  by (induction "is" arbitrary: fs) (simp_all add: record_repairs_def recorded_elsewhere)

lemma remaining_without_fingerprint:
  "remainingHubLandingRepairAttempts fs t src k None =
     max 0 (2 - int (countRepairAttempts (readHubLandingRepairAttempts fs t src) k None))"
  by (simp add: remainingHubLandingRepairAttempts_def Let_def used_attempts remainingFromUsed_def
    HUB_LANDING_REPAIR_BUDGET_def)

lemma remaining_le_without_fingerprint:
  "remainingHubLandingRepairAttempts fs t src k f \<le> remainingHubLandingRepairAttempts fs t src k None"
  by (simp add: remainingHubLandingRepairAttempts_def Let_def)

lemma remaining_nonneg: "0 \<le> remainingHubLandingRepairAttempts fs t src k f"
  by (simp add: remainingHubLandingRepairAttempts_def Let_def remainingFromUsed_def)

definition demo_repair :: "task_id \<Rightarrow> HubLandingRepairKind \<Rightarrow> repair_input" where
  "demo_repair t k = \<lparr>ri_taskId = t, ri_sourceOid = ''s1'', ri_kind = k, ri_fingerprint = ''f1'',
     ri_candidateOid = None, ri_candidateGeneration = Some 1, ri_now = ''2024''\<rparr>"

text \<open>
  C28: A task has two repairs of a kind for a source commit. After any number of recorded attempts the
  repairs left of a kind are two less the attempts of that kind made before and since, and never below
  zero, so a loop that repairs while the budget is positive ends; asking for one input (a fingerprint)
  never gives more. Attempts of the other kind do not count, and no other budget file changes.
\<close>
theorem repair_budget_runs_out:
  assumes "list_all repair_input_ok is" "list_all (\<lambda>i. ri_taskId i = t \<and> ri_sourceOid i = src) is"
  shows "remainingHubLandingRepairAttempts (record_repairs fs is) t src k None =
      max 0 (2 - int (countRepairAttempts (readHubLandingRepairAttempts fs t src) k None)
        - int (repairs_of k is))
    \<and> remainingHubLandingRepairAttempts (record_repairs fs is) t src k f \<le>
      remainingHubLandingRepairAttempts (record_repairs fs is) t src k None
    \<and> 0 \<le> remainingHubLandingRepairAttempts (record_repairs fs is) t src k f
    \<and> (\<forall>path. path \<noteq> resolveHubLandingRepairBudgetPath t src \<longrightarrow> record_repairs fs is path = fs path)"
  by (intro conjI allI impI, simp add: remaining_without_fingerprint record_repairs_used [OF assms],
    rule remaining_le_without_fingerprint, rule remaining_nonneg, rule record_repairs_elsewhere [OF assms(2)])

theorem repair_budget_runs_out_witness:
  "remainingHubLandingRepairAttempts
     (record_repairs (\<lambda>_. []) [demo_repair ''a'' MergeConflict, demo_repair ''a'' Verification,
        demo_repair ''a'' MergeConflict])
     ''a'' ''s1'' MergeConflict None = 0
   \<and> record_repairs (\<lambda>_. []) [demo_repair ''a'' MergeConflict] ''b-s1.jsonl'' = []"
proof -
  have "trimmed ''a''" "trimmed ''s1''" "trimmed ''f1''" "trimmed ''2024''"
    by (simp_all add: trimmed_def js_trim_def js_space_def)
  then have ok: "repair_input_ok (demo_repair ''a'' k)" for k
    by (simp add: repair_input_ok_def demo_repair_def)
  have path: "resolveHubLandingRepairBudgetPath ''a'' ''s1'' = ''a-s1.jsonl''" by code_simp
  have here: "ri_taskId (demo_repair ''a'' k) = ''a'' \<and> ri_sourceOid (demo_repair ''a'' k) = ''s1''" for k
    by (simp add: demo_repair_def)
  let ?is = "[demo_repair ''a'' MergeConflict, demo_repair ''a'' Verification, demo_repair ''a'' MergeConflict]"
  have "list_all repair_input_ok ?is" "list_all (\<lambda>i. ri_taskId i = ''a'' \<and> ri_sourceOid i = ''s1'') ?is"
    by (simp_all add: ok here)
  note used = repair_budget_runs_out [OF this, of "\<lambda>_. []" MergeConflict, THEN conjunct1]
  have "list_all repair_input_ok [demo_repair ''a'' MergeConflict]"
      "list_all (\<lambda>i. ri_taskId i = ''a'' \<and> ri_sourceOid i = ''s1'') [demo_repair ''a'' MergeConflict]"
    by (simp_all add: ok here)
  note other = repair_budget_runs_out [OF this, of "\<lambda>_. []", THEN conjunct2, THEN conjunct2, THEN conjunct2,
    rule_format, of "''b-s1.jsonl''"]
  have "repairs_of MergeConflict ?is = 2" by (simp add: repairs_of_def demo_repair_def)
  with used other show ?thesis
    by (simp add: path readHubLandingRepairAttempts_def countRepairAttempts_def)
qed

text \<open>
  The name of a budget file replaces the characters that a path cannot have, and does not keep
  what they were. Two tasks whose identifiers are replaced alike share one budget: an attempt that is
  recorded for the one is read, and counted, for the other.
\<close>
theorem repair_budget_is_shared:
  assumes "repair_input_ok i" "safeTaskId t = safeTaskId (ri_taskId i)"
  shows "remainingHubLandingRepairAttempts (snd (recordHubLandingRepairAttempt fs i)) t (ri_sourceOid i)
      (ri_kind i) None =
    max 0 (remainingHubLandingRepairAttempts fs t (ri_sourceOid i) (ri_kind i) None - 1)"
  by (simp add: remaining_without_fingerprint recorded_attempts [OF assms(1)]
    resolveHubLandingRepairBudgetPath_def assms(2) count_append)

theorem repair_budget_is_shared_witness:
  "remainingHubLandingRepairAttempts
     (snd (recordHubLandingRepairAttempt (\<lambda>_. []) (demo_repair ''a-b'' Verification))) ''a/b'' ''s1''
     Verification None = 1"
proof -
  have "trimmed ''a-b''" "trimmed ''s1''" "trimmed ''f1''" "trimmed ''2024''"
    by (simp_all add: trimmed_def js_trim_def js_space_def)
  then have ok: "repair_input_ok (demo_repair ''a-b'' Verification)"
    by (simp add: repair_input_ok_def demo_repair_def)
  have "safeTaskId ''a/b'' = safeTaskId ''a-b''" by code_simp
  then have "safeTaskId ''a/b'' = safeTaskId (ri_taskId (demo_repair ''a-b'' Verification))"
    by (simp add: demo_repair_def)
  note shared = repair_budget_is_shared [OF ok this, of "\<lambda>_. []"]
  have "ri_sourceOid (demo_repair ''a-b'' Verification) = ''s1''"
      "ri_kind (demo_repair ''a-b'' Verification) = Verification"
    by (simp_all add: demo_repair_def)
  with shared show ?thesis
    by (simp add: remaining_without_fingerprint readHubLandingRepairAttempts_def
      countRepairAttempts_def)
qed

end
