(* ===== verification/Queue_Properties.thy ===== *)
theory Queue_Properties
  imports Landing_Queue
begin

text \<open>
  What holds of the landing queue: its well-formedness in every reachable state, landing in the order of
  assignment, the refinement of a plain line of tasks, the files its operations leave, the quiet wait,
  and the import of host commits.
\<close>

subsection \<open>Well-formed queues\<close>

text \<open>What no operation changes of a ticket.\<close>

definition ident :: "HubLandingQueueTicket \<Rightarrow> string \<times> int \<times> task_id \<times> iso_time" where
  "ident tk = (tk_ticketId tk, tk_sequence tk, tk_taskId tk, tk_assignedAt tk)"

definition ticket_name :: "task_id \<Rightarrow> int \<Rightarrow> string" where
  "ticket_name t n = ''lqt-'' @ safeTaskId t @ CHR ''-'' # show_int n"

definition idents_wf :: "int \<Rightarrow> (string \<times> int \<times> task_id \<times> iso_time) list \<Rightarrow> bool" where
  "idents_wf n is \<longleftrightarrow> 1 \<le> n \<and> sorted_wrt (<) (map (fst \<circ> snd) is) \<and> distinct (map (fst \<circ> snd \<circ> snd) is)
     \<and> (\<forall>(i, k, t, a) \<in> set is. 1 \<le> k \<and> k < n \<and> i = ticket_name t k)"

definition tickets_wf :: "int \<Rightarrow> HubLandingQueueTicket list \<Rightarrow> bool" where
  "tickets_wf n tks \<longleftrightarrow> idents_wf n (map ident tks)"

definition queue_wf :: "HubLandingQueueState \<Rightarrow> bool" where
  "queue_wf q \<longleftrightarrow> tickets_wf (q_nextSequence q) (q_tickets q)"

lemma tickets_wf_facts:
  assumes "tickets_wf n tks"
  shows "1 \<le> n" and "sorted_wrt (<) (map tk_sequence tks)" and "distinct (map tk_taskId tks)"
    and "tk \<in> set tks \<Longrightarrow> 1 \<le> tk_sequence tk \<and> tk_sequence tk < n
           \<and> tk_ticketId tk = ticket_name (tk_taskId tk) (tk_sequence tk)"
  using assms by (auto simp: tickets_wf_def idents_wf_def ident_def comp_def)

lemma ticket_name_sequence:
  assumes "0 \<le> m" and "0 \<le> n" and "ticket_name t m = ticket_name u n"
  shows "m = n"
proof -
  have "(''lqt-'' @ safeTaskId t) @ CHR ''-'' # show_nat (nat m)
      = (''lqt-'' @ safeTaskId u) @ CHR ''-'' # show_nat (nat n)"
    using assms by (simp add: ticket_name_def show_int_def)
  then have "nat m = nat n" by (rule dash_numeral_inject)
  with assms(1,2) show ?thesis by simp
qed

lemma sorted_wrt_less_inj:
  "sorted_wrt (<) (map f xs) \<Longrightarrow> x \<in> set xs \<Longrightarrow> y \<in> set xs \<Longrightarrow> f x = (f y :: int) \<Longrightarrow> x = y"
  by (induction xs) auto

lemma tickets_wf_unique:
  assumes "tickets_wf n tks" and "x \<in> set tks" and "y \<in> set tks"
    and "tk_ticketId x = tk_ticketId y \<or> tk_sequence x = tk_sequence y \<or> tk_taskId x = tk_taskId y"
  shows "x = y"
proof -
  note wf = tickets_wf_facts [OF assms(1)]
  from wf(4) [OF assms(2)] wf(4) [OF assms(3)] assms(4)
  have "tk_sequence x = tk_sequence y \<or> tk_taskId x = tk_taskId y"
    using ticket_name_sequence [of "tk_sequence x" "tk_sequence y"] by force
  then show ?thesis
    using sorted_wrt_less_inj [OF wf(2) assms(2,3)] wf(3) assms(2,3)
    by (auto simp: distinct_map inj_on_def)
qed

lemma find_task:
  "tickets_wf n tks \<Longrightarrow> find (\<lambda>tk. tk_taskId tk = t) tks = Some tk \<longleftrightarrow> tk \<in> set tks \<and> tk_taskId tk = t"
proof
  assume "find (\<lambda>tk. tk_taskId tk = t) tks = Some tk"
  then show "tk \<in> set tks \<and> tk_taskId tk = t" by (auto simp: find_Some_iff)
next
  assume wf: "tickets_wf n tks" and tk: "tk \<in> set tks \<and> tk_taskId tk = t"
  then obtain x where x: "find (\<lambda>tk. tk_taskId tk = t) tks = Some x"
    by (metis (mono_tags, lifting) find_None_iff not_None_eq)
  then have "x \<in> set tks \<and> tk_taskId x = t" by (auto simp: find_Some_iff)
  with tickets_wf_unique [OF wf, of x tk] tk have "x = tk" by simp
  with x show "find (\<lambda>tk. tk_taskId tk = t) tks = Some tk" by simp
qed

lemma map_ident_wf: "map ident tks' = map ident tks \<Longrightarrow> tickets_wf n tks \<Longrightarrow> tickets_wf n tks'"
  by (simp add: tickets_wf_def)


subsection \<open>Steps\<close>

text \<open>The patches keep who a ticket is.\<close>

named_theorems patch_ident \<open>patches that keep the identity of a ticket\<close>

lemma patches_keep_ident [patch_ident]:
  "ident (candidate_patch src p c tx tk) = ident tk"
  "ident (status_patch st tk) = ident tk"
  "ident (settled_patch st tk) = ident tk"
  "ident (drift_patch cur t observed now tk) = ident tk"
  "ident (quiet_patch observed now tk) = ident tk"
  "ident (observed_patch observed tk) = ident tk"
  "ident (resume_patch t observed now tk) = ident tk"
  "ident (invalidated_ticket now reason tk) = ident tk"
  "ident (refreshed_ticket tk task) = ident tk"
  by (simp_all add: ident_def candidate_patch_def status_patch_def settled_patch_def drift_patch_def
      quiet_patch_def observed_patch_def resume_patch_def invalidated_ticket_def refreshed_ticket_def)

text \<open>A patched queue, when tickets are told apart by their ids.\<close>

lemma patch_queue_Some:
  assumes wf: "queue_wf q" and keep: "\<And>tk. ident (patch tk) = ident tk"
    and p: "patch_queue t patch q = Some (tk, q')"
  shows "\<exists>cur. cur \<in> set (q_tickets q) \<and> tk_taskId cur = t \<and> tk = patch cur
    \<and> q' = q\<lparr>q_tickets := map (\<lambda>x. if x = cur then patch x else x) (q_tickets q)\<rparr>"
proof -
  from p obtain cur where f: "find (\<lambda>tk. tk_taskId tk = t) (q_tickets q) = Some cur"
      and tk: "tk = patch cur" and q': "q' = replaceTicket q (patch cur)"
    by (auto simp: patch_queue_def)
  from f have cur: "cur \<in> set (q_tickets q)" "tk_taskId cur = t" by (auto simp: find_Some_iff)
  have "tk_ticketId (patch cur) = tk_ticketId cur" using keep [of cur] by (simp add: ident_def)
  then have "(if tk_ticketId x = tk_ticketId (patch cur) then patch cur else x)
      = (if x = cur then patch x else x)" if "x \<in> set (q_tickets q)" for x
    using tickets_wf_unique [OF wf [unfolded queue_wf_def] that cur(1)] by auto
  then have "q' = q\<lparr>q_tickets := map (\<lambda>x. if x = cur then patch x else x) (q_tickets q)\<rparr>"
    unfolding q' replaceTicket_def by (simp cong: map_cong)
  with cur tk show ?thesis by blast
qed

lemma patch_queue_wf:
  assumes "queue_wf q" and keep: "\<And>tk. ident (patch tk) = ident tk"
    and "patch_queue t patch q = Some (tk, q')"
  shows "queue_wf q'"
proof -
  obtain cur where q': "q' = q\<lparr>q_tickets := map (\<lambda>x. if x = cur then patch x else x) (q_tickets q)\<rparr>"
    using patch_queue_Some [OF assms] by blast
  have "ident \<circ> (\<lambda>x. if x = cur then patch x else x) = ident" by (simp add: fun_eq_iff keep)
  with assms(1) show ?thesis by (simp add: queue_wf_def tickets_wf_def q')
qed

lemma invalidate_queue_wf: "queue_wf q \<Longrightarrow> queue_wf (invalidate_queue now reason n q)"
  by (simp add: queue_wf_def tickets_wf_def invalidate_queue_def comp_def patch_ident
      if_distrib [of ident] cong: if_cong)

text \<open>The loop of the assignment.\<close>

definition index_ok ::
    "(task_id \<Rightarrow> HubLandingQueueTicket option) \<Rightarrow> HubLandingQueueTicket list \<Rightarrow> task_id \<Rightarrow> bool" where
  "index_ok f tks t \<longleftrightarrow> (f t = None \<longrightarrow> t \<notin> tk_taskId ` set tks)
     \<and> (\<forall>c. f t = Some c \<longrightarrow> tk_taskId c = t \<and> ident c \<in> ident ` set tks)"

definition loop_ok :: "assign_loop \<Rightarrow> bool" where
  "loop_ok s \<longleftrightarrow> tickets_wf (al_nextSequence s) (al_tickets s)
     \<and> (\<forall>t. index_ok (al_byTaskId s) (al_tickets s) t)"

lemma map_update_first:
  "(\<And>x. x \<in> set xs \<Longrightarrow> P x \<Longrightarrow> f x = f y) \<Longrightarrow> map f (update_first P y xs) = map f xs"
  by (induction xs) auto

lemma set_update_first: "set (update_first P y xs) \<subseteq> insert y (set xs)"
  by (induction xs) auto

lemma refresh_idents:
  assumes wf: "tickets_wf n tks" and c: "ident c \<in> ident ` set tks"
  shows "map ident (update_first (\<lambda>tk. tk_ticketId tk = tk_ticketId c) (refreshed_ticket c task) tks)
    = map ident tks"
proof (rule map_update_first)
  fix x assume x: "x \<in> set tks" and same: "tk_ticketId x = tk_ticketId c"
  from c obtain y where y: "y \<in> set tks" "ident y = ident c" by auto
  with same have "x = y" using tickets_wf_unique [OF wf x y(1)] by (auto simp: ident_def)
  with y show "ident x = ident (refreshed_ticket c task)" by (simp add: patch_ident)
qed

lemma idents_wf_snoc:
  "idents_wf n is \<Longrightarrow> t \<notin> (fst \<circ> snd \<circ> snd) ` set is \<Longrightarrow>
     idents_wf (n + 1) (is @ [(ticket_name t n, n, t, a)])"
  by (force simp: idents_wf_def sorted_wrt_append)

lemma ident_new_ticket: "ident (new_ticket now n task) = (ticket_name (qt_taskId task) n, n, qt_taskId task, now)"
  by (simp add: ident_def new_ticket_def ticket_name_def)

lemma new_ticket_task [simp]: "tk_taskId (new_ticket now n task) = qt_taskId task"
  by (simp add: new_ticket_def)

lemma task_of_ident: "tk_taskId ` set tks = (fst \<circ> snd \<circ> snd) ` ident ` set tks"
  by (simp add: image_image ident_def)

lemma assign_task_ok:
  assumes ok: "loop_ok s"
  shows "loop_ok (assign_task now s task)"
proof (cases "al_byTaskId s (qt_taskId task)")
  case None
  from ok None have new: "qt_taskId task \<notin> tk_taskId ` set (al_tickets s)"
    by (simp add: loop_ok_def index_ok_def)
  have "tickets_wf (al_nextSequence s + 1) (al_tickets s @ [new_ticket now (al_nextSequence s) task])"
    using ok new idents_wf_snoc [of "al_nextSequence s" "map ident (al_tickets s)" "qt_taskId task" now]
    by (simp add: loop_ok_def tickets_wf_def ident_new_ticket task_of_ident)
  moreover have "index_ok ((al_byTaskId s)(qt_taskId task \<mapsto> new_ticket now (al_nextSequence s) task))
      (al_tickets s @ [new_ticket now (al_nextSequence s) task]) t" for t
    using ok by (auto simp: loop_ok_def index_ok_def)
  ultimately show ?thesis using None by (simp add: loop_ok_def assign_task_def Let_def)
next
  case (Some c)
  then have c: "tk_taskId c = qt_taskId task" "ident c \<in> ident ` set (al_tickets s)"
    using ok by (auto simp: loop_ok_def index_ok_def)
  let ?tks = "update_first (\<lambda>tk. tk_ticketId tk = tk_ticketId c) (refreshed_ticket c task) (al_tickets s)"
  have same: "map ident ?tks = map ident (al_tickets s)"
    using ok c(2) by (intro refresh_idents) (auto simp: loop_ok_def)
  then have image: "ident ` set ?tks = ident ` set (al_tickets s)" by (metis set_map)
  have "tk_taskId ` set ?tks = tk_taskId ` set (al_tickets s)"
    unfolding task_of_ident image ..
  then show ?thesis using ok Some same image map_ident_wf [OF same]
    by (simp add: loop_ok_def assign_task_def index_ok_def)
qed

lemma assign_start_ok:
  assumes "tickets_wf n tks"
  shows "loop_ok \<lparr>al_byTaskId = by_task_id tks, al_nextSequence = n, al_tickets = tks\<rparr>"
proof -
  have "index_ok (by_task_id tks) tks t" for t
    by (auto simp: index_ok_def by_task_id_def map_of_eq_None_iff image_image dest!: map_of_SomeD)
  with assms show ?thesis by (simp add: loop_ok_def)
qed

lemma foldl_keeps: "P s \<Longrightarrow> (\<And>s x. P s \<Longrightarrow> P (f s x)) \<Longrightarrow> P (foldl f s xs)"
  by (induction xs arbitrary: s) auto

lemma assign_queue_wf: "queue_wf q \<Longrightarrow> queue_wf (assign_queue target tasks now q)"
  using foldl_keeps [of loop_ok, OF assign_start_ok assign_task_ok]
  by (fastforce simp: queue_wf_def assign_queue_def Let_def loop_ok_def)

subsection \<open>Reachable queues\<close>

definition queue_init :: "HubLandingQueueState \<Rightarrow> bool" where
  "queue_init q \<longleftrightarrow> (\<exists>target. q = emptyQueue target)"

inductive queue_step :: "HubLandingQueueState \<Rightarrow> HubLandingQueueState \<Rightarrow> bool" where
  assign_step: "queue_step q (assign_queue target tasks now q)"
| candidate_step: "patch_queue t (candidate_patch src p c tx) q = Some (tk, q') \<Longrightarrow> queue_step q q'"
| status_step: "patch_queue t (status_patch st) q = Some (tk, q') \<Longrightarrow> queue_step q q'"
| settled_step: "patch_queue t (settled_patch st) q = Some (tk, q') \<Longrightarrow> queue_step q q'"
| drift_step: "patch_queue t (drift_patch cur t observed now) q = Some (tk, q') \<Longrightarrow> queue_step q q'"
| quiet_step: "patch_queue t (quiet_patch observed now) q = Some (tk, q') \<Longrightarrow> queue_step q q'"
| observed_step: "patch_queue t (observed_patch observed) q = Some (tk, q') \<Longrightarrow> queue_step q q'"
| resume_step: "patch_queue t (resume_patch t observed now) q = Some (tk, q') \<Longrightarrow> queue_step q q'"
| invalidate_step: "find (\<lambda>tk. tk_taskId tk = t) (q_tickets q) = Some origin \<Longrightarrow>
     queue_step q (invalidate_queue now reason (tk_sequence origin) q)"

lemma queue_step_wf: "queue_step q q' \<Longrightarrow> queue_wf q \<Longrightarrow> queue_wf q'"
  by (induction rule: queue_step.induct)
    (auto intro: assign_queue_wf invalidate_queue_wf elim!: patch_queue_wf [rotated 2] simp: patch_ident)

lemma empty_queue_wf: "queue_init q \<Longrightarrow> queue_wf q"
  by (auto simp: queue_init_def emptyQueue_def queue_wf_def tickets_wf_def idents_wf_def)

interpretation lq: step_invariant queue_init queue_step queue_wf
  by unfold_locales (auto intro: queue_step_wf empty_queue_wf)


subsection \<open>The line of tasks\<close>

text \<open>
  The abstract view of a queue: the tasks that wait, first come first, and whether an earlier ticket
  holds the line until its required delivery is done.
\<close>

definition waiting :: "task_id set \<Rightarrow> HubLandingQueueState \<Rightarrow> task_id list" where
  "waiting shipped q = map tk_taskId (filter (eligible shipped) (q_tickets q))"

definition line_held :: "HubLandingQueueState \<Rightarrow> task_id \<Rightarrow> bool" where
  "line_held q t \<longleftrightarrow> (\<exists>mine \<in> set (q_tickets q). \<exists>tk \<in> set (q_tickets q).
     tk_taskId mine = t \<and> tk_sequence tk < tk_sequence mine \<and> tk_status tk = Publishing)"

lemma wf_sorted: "queue_wf q \<Longrightarrow> sorted (map tk_sequence (q_tickets q))"
  unfolding queue_wf_def using tickets_wf_facts(2) strict_sorted_imp_sorted by blast

lemma first_by_sorted:
  "sorted (map f xs) \<Longrightarrow> first_by f (filter P xs) = (case filter P xs of [] \<Rightarrow> None | x # _ \<Rightarrow> Some x)"
  using sorted_filter [of f xs P] by (simp add: first_by_def sort_key_id_if_sorted)

lemma head_first_waiting:
  "queue_wf q \<Longrightarrow> map_option tk_taskId (resolveHubLandingQueueHead (Some q) shipped)
     = (case waiting shipped q of [] \<Rightarrow> None | t # _ \<Rightarrow> Some t)"
  using wf_sorted [of q]
  by (auto simp: resolveHubLandingQueueHead_def first_by_sorted waiting_def split: list.splits)

lemma no_hold_iff:
  assumes "queue_wf q"
  shows "findEarlierRequiredDeliveryHold (Some q) t = None \<longleftrightarrow> \<not> line_held q t"
proof (cases "find (\<lambda>tk. tk_taskId tk = t) (q_tickets q)")
  case None
  then have "\<not> line_held q t" by (auto simp: line_held_def find_None_iff)
  with None show ?thesis by (simp add: findEarlierRequiredDeliveryHold_def)
next
  case (Some mine)
  with assms have mine: "mine \<in> set (q_tickets q)" "tk_taskId mine = t"
    by (auto simp: queue_wf_def find_task)
  have "x = mine" if "x \<in> set (q_tickets q)" "tk_taskId x = t" for x
    using tickets_wf_unique [OF assms [unfolded queue_wf_def] that(1) mine(1)] that(2) mine(2) by simp
  with mine have "line_held q t \<longleftrightarrow>
      (\<exists>tk \<in> set (q_tickets q). tk_sequence tk < tk_sequence mine \<and> tk_status tk = Publishing)"
    unfolding line_held_def by blast
  with Some show ?thesis
    by (simp add: findEarlierRequiredDeliveryHold_def first_by_None filter_empty_conv)
qed

lemma may_land_iff:
  assumes wf: "queue_wf q"
  shows "may_land (Some q) shipped t \<longleftrightarrow> (\<exists>rest. waiting shipped q = t # rest) \<and> \<not> line_held q t"
  unfolding may_land_def head_first_waiting [OF wf] using no_hold_iff [OF wf, of t]
  by (auto split: list.splits)

text \<open>Adding a task to the end of a line, unless it stands in it.\<close>

definition line_up :: "task_id list \<Rightarrow> task_id \<Rightarrow> task_id list" where
  "line_up ts t = (if t \<in> set ts then ts else ts @ [t])"

definition assign_grows :: "assign_loop \<Rightarrow> task_id list \<Rightarrow> assign_loop \<Rightarrow> bool" where
  "assign_grows s ts s' \<longleftrightarrow> (\<exists>new. map ident (al_tickets s') = map ident (al_tickets s) @ new
     \<and> map (fst \<circ> snd) new = [al_nextSequence s..al_nextSequence s' - 1]
     \<and> al_nextSequence s \<le> al_nextSequence s'
     \<and> map tk_taskId (al_tickets s') = foldl line_up (map tk_taskId (al_tickets s)) ts)"

lemma tasks_of_idents: "map ident tks' = map ident tks \<Longrightarrow> map tk_taskId tks' = map tk_taskId tks"
proof -
  have "map tk_taskId tks = map (fst \<circ> snd \<circ> snd) (map ident tks)" for tks
    by (simp add: ident_def comp_def)
  then show "map ident tks' = map ident tks \<Longrightarrow> map tk_taskId tks' = map tk_taskId tks" by metis
qed

lemma assign_task_grows:
  assumes ok: "loop_ok s"
  shows "assign_grows s [qt_taskId task] (assign_task now s task)"
proof (cases "al_byTaskId s (qt_taskId task)")
  case None
  with ok have "qt_taskId task \<notin> tk_taskId ` set (al_tickets s)" by (simp add: loop_ok_def index_ok_def)
  with None show ?thesis
    by (simp add: assign_grows_def assign_task_def Let_def ident_new_ticket line_up_def)
next
  case (Some c)
  with ok have c: "tk_taskId c = qt_taskId task" "ident c \<in> ident ` set (al_tickets s)"
    by (auto simp: loop_ok_def index_ok_def)
  have same: "map ident (al_tickets (assign_task now s task)) = map ident (al_tickets s)"
    using ok c(2) Some refresh_idents [of "al_nextSequence s" "al_tickets s" c task]
    by (simp add: assign_task_def loop_ok_def)
  from c(2) obtain x where "x \<in> set (al_tickets s)" "tk_taskId x = tk_taskId c"
    by (auto simp: ident_def)
  then have "qt_taskId task \<in> tk_taskId ` set (al_tickets s)" using c(1) by force
  moreover have "al_nextSequence (assign_task now s task) = al_nextSequence s"
    using Some by (simp add: assign_task_def)
  ultimately show ?thesis using same tasks_of_idents [OF same]
    by (simp add: assign_grows_def line_up_def)
qed

lemma assign_grows_trans:
  assumes "assign_grows s ts u" and "assign_grows u us v"
  shows "assign_grows s (ts @ us) v"
proof -
  have split: "[a..b - 1] @ [b..c - 1] = [a..c - 1]" if "a \<le> b" "b \<le> c" for a b c :: int
    using upto_split1 [of a "b" "c - 1"] that by (cases "b = c") simp_all
  from assms obtain m n where
    "map ident (al_tickets u) = map ident (al_tickets s) @ m"
    "map (fst \<circ> snd) m = [al_nextSequence s..al_nextSequence u - 1]"
    "al_nextSequence s \<le> al_nextSequence u"
    "map tk_taskId (al_tickets u) = foldl line_up (map tk_taskId (al_tickets s)) ts"
    "map ident (al_tickets v) = map ident (al_tickets u) @ n"
    "map (fst \<circ> snd) n = [al_nextSequence u..al_nextSequence v - 1]"
    "al_nextSequence u \<le> al_nextSequence v"
    "map tk_taskId (al_tickets v) = foldl line_up (map tk_taskId (al_tickets u)) us"
    unfolding assign_grows_def by blast
  then show ?thesis
    unfolding assign_grows_def by (intro exI [of _ "m @ n"]) (simp add: split)
qed

lemma assign_loop_grows:
  "loop_ok s \<Longrightarrow> assign_grows s (map qt_taskId tasks) (foldl (assign_task now) s tasks)"
proof (induction tasks arbitrary: s)
  case Nil
  then show ?case by (simp add: assign_grows_def)
next
  case (Cons task tasks)
  have "assign_grows s ([qt_taskId task] @ map qt_taskId tasks)
      (foldl (assign_task now) (assign_task now s task) tasks)"
    using assign_task_grows [OF Cons.prems] Cons.IH [OF assign_task_ok [OF Cons.prems]]
    by (rule assign_grows_trans)
  then show ?case by simp
qed

text \<open>
  Assigning tickets lines up the tasks that have none, each once and in the order given, with
  consecutive numbers from the next one on; the tickets that were there keep their place, id, number,
  task and time.
\<close>

theorem assignment_lines_up:
  assumes "reach queue_init queue_step q"
  shows "let q' = assign_queue target tasks now q; old = length (q_tickets q) in
    map tk_taskId (q_tickets q') = foldl line_up (map tk_taskId (q_tickets q)) (map qt_taskId tasks)
    \<and> map ident (take old (q_tickets q')) = map ident (q_tickets q)
    \<and> map tk_sequence (drop old (q_tickets q')) = [q_nextSequence q..q_nextSequence q' - 1]"
proof -
  let ?s = "\<lparr>al_byTaskId = by_task_id (q_tickets q), al_nextSequence = q_nextSequence q,
    al_tickets = q_tickets q\<rparr>"
  let ?s' = "foldl (assign_task now) ?s tasks" and ?old = "length (q_tickets q)"
  have "loop_ok ?s" using lq.inv_reach [OF assms] by (simp add: assign_start_ok queue_wf_def)
  then obtain new where new: "map ident (al_tickets ?s') = map ident (q_tickets q) @ new"
      "map (fst \<circ> snd) new = [q_nextSequence q..al_nextSequence ?s' - 1]"
      "map tk_taskId (al_tickets ?s') = foldl line_up (map tk_taskId (q_tickets q)) (map qt_taskId tasks)"
    using assign_loop_grows [of ?s tasks now] by (auto simp: assign_grows_def)
  have "map ident (take ?old (al_tickets ?s')) = map ident (q_tickets q)"
    and "map ident (drop ?old (al_tickets ?s')) = new"
    unfolding take_map [symmetric] drop_map [symmetric] new(1) by simp_all
  moreover from this(2) have "map tk_sequence (drop ?old (al_tickets ?s')) = map (fst \<circ> snd) new"
    by (auto simp: ident_def)
  ultimately show ?thesis using new(2,3) by (simp add: assign_queue_def Let_def)
qed

subsection \<open>The queue file\<close>

text \<open>What the reader accepts is what the writer can write.\<close>

lemma opt_ok_stringField: "opt_ok nonblank (stringField v)"
  by (cases v rule: stringField.cases) simp_all

lemma stringField_Some: "stringField v = Some s \<Longrightarrow> nonblank s"
  using opt_ok_stringField [of v] by simp

lemma stringArrayField_nonblank:
  "list_all nonblank (case stringArrayField v of None \<Rightarrow> [] | Some ts \<Rightarrow> ts)"
  by (cases v rule: stringArrayField.cases)
    (auto simp: list_all_iff Let_def List.map_filter_def elim!: nonblank_string.elims split: if_splits)

lemma parseTicket_ok: "parseTicket v = Some tk \<Longrightarrow> ticket_ok tk"
  by (auto simp: parseTicket_def bind_eq_Some_conv ticket_ok_def opt_ok_stringField
      stringArrayField_nonblank dest: stringField_Some)

lemma read_queue_ok: "readHubLandingQueue f = Some q \<Longrightarrow> queue_ok q"
proof -
  assume "readHubLandingQueue f = Some q"
  then obtain v where "parseQueue v = Some q"
    by (cases f) (simp_all add: readHubLandingQueue_def)
  then obtain target vs where "nonblank target" and "q_publishTargetRef q = target"
      and tks: "q_tickets q = List.map_filter parseTicket vs"
    by (auto simp: parseQueue_def bind_eq_Some_conv dest: stringField_Some split: if_splits)
  moreover have "list_all ticket_ok (List.map_filter parseTicket vs)"
    by (induction vs) (auto simp: List.map_filter_simps parseTicket_ok split: option.split)
  ultimately show "queue_ok q" by (simp add: queue_ok_def)
qed

text \<open>The operations write what reads back, when their text arguments are not blank.\<close>

lemma patches_ok:
  "nonblank src \<Longrightarrow> nonblank p \<Longrightarrow> nonblank c \<Longrightarrow> nonblank tx \<Longrightarrow> ticket_ok tk \<Longrightarrow>
     ticket_ok (candidate_patch src p c tx tk)"
  "ticket_ok tk \<Longrightarrow> ticket_ok (status_patch st tk)"
  "ticket_ok tk \<Longrightarrow> ticket_ok (settled_patch st tk)"
  "nonblank observed \<Longrightarrow> ticket_ok tk \<Longrightarrow> ticket_ok (observed_patch observed tk)"
  "nonblank observed \<Longrightarrow> nonblank now \<Longrightarrow> ticket_ok tk \<Longrightarrow> ticket_ok (quiet_patch observed now tk)"
  "nonblank now \<Longrightarrow> nonblank reason \<Longrightarrow> ticket_ok tk \<Longrightarrow> ticket_ok (invalidated_ticket now reason tk)"
  by (simp_all add: ticket_ok_def candidate_patch_def status_patch_def settled_patch_def
      observed_patch_def quiet_patch_def invalidated_ticket_def)

lemma activation_id_nonblank: "nonblank (activation_id t now)"
  by (auto simp: nonblank_def activation_id_def js_space_def)

lemma activation_patches_ok:
  "nonblank observed \<Longrightarrow> ticket_ok tk \<Longrightarrow> ticket_ok (resume_patch t observed now tk)"
  "nonblank observed \<Longrightarrow> opt_ok ticket_ok cur \<Longrightarrow> ticket_ok tk \<Longrightarrow>
     ticket_ok (drift_patch cur t observed now tk)"
  by (cases cur; auto simp: ticket_ok_def resume_patch_def drift_patch_def activation_id_nonblank
      coalesce_def split: option.split)+

lemma patch_queue_ok:
  assumes "queue_ok q" and "\<And>tk. ticket_ok tk \<Longrightarrow> ticket_ok (patch tk)"
    and "patch_queue t patch q = Some (tk, q')"
  shows "queue_ok q'"
  using assms by (auto simp: patch_queue_def queue_ok_def replaceTicket_def list_all_iff find_Some_iff)

definition task_ok :: "HubLandingQueueTaskInput \<Rightarrow> bool" where
  "task_ok task \<longleftrightarrow> nonblank (qt_taskId task) \<and> opt_ok (list_all nonblank) (qt_blockerTaskIds task)
     \<and> opt_ok nonblank (qt_sourceOid task)"

lemma assign_task_tickets_ok:
  assumes "task_ok task" and "nonblank now"
    and "list_all ticket_ok (al_tickets s) \<and> (\<forall>t c. al_byTaskId s t = Some c \<longrightarrow> ticket_ok c)"
  shows "list_all ticket_ok (al_tickets (assign_task now s task))
    \<and> (\<forall>t c. al_byTaskId (assign_task now s task) t = Some c \<longrightarrow> ticket_ok c)"
proof -
  have new: "ticket_ok (new_ticket now n task)" for n
    using assms(1,2) by (cases "qt_blockerTaskIds task")
      (auto simp: ticket_ok_def new_ticket_def task_ok_def nonblank_def js_space_def)
  have old: "ticket_ok (refreshed_ticket c task)" if "ticket_ok c" for c
    using that assms(1) by (auto simp: ticket_ok_def refreshed_ticket_def task_ok_def coalesce_def
        split: option.splits)
  show ?thesis
  proof (cases "al_byTaskId s (qt_taskId task)")
    case None
    with new assms(3) show ?thesis by (auto simp: assign_task_def Let_def)
  next
    case (Some c)
    with assms(3) have "ticket_ok (refreshed_ticket c task)" by (blast intro: old)
    with Some assms(3) show ?thesis
      using set_update_first [of "\<lambda>tk. tk_ticketId tk = tk_ticketId c" "refreshed_ticket c task"
          "al_tickets s"]
      by (auto simp: assign_task_def list_all_iff)
  qed
qed

lemma assign_queue_ok:
  assumes "queue_ok q" and "nonblank target" and "nonblank now" and "list_all task_ok tasks"
  shows "queue_ok (assign_queue target tasks now q)"
proof -
  have "list_all ticket_ok (al_tickets s) \<and> (\<forall>t c. al_byTaskId s t = Some c \<longrightarrow> ticket_ok c) \<Longrightarrow>
      list_all ticket_ok (al_tickets (foldl (assign_task now) s tasks))" for s
    using assms(4)
  proof (induction tasks arbitrary: s)
    case (Cons task tasks)
    then show ?case using assign_task_tickets_ok [OF _ assms(3), of task s] by simp
  qed simp
  note loop = this [of "\<lparr>al_byTaskId = by_task_id (q_tickets q), al_nextSequence = q_nextSequence q,
      al_tickets = q_tickets q\<rparr>"]
  have "ticket_ok c" if "by_task_id (q_tickets q) t = Some c" for t c
    using assms(1) map_of_SomeD [OF that [unfolded by_task_id_def]]
    by (auto simp: queue_ok_def list_all_iff)
  with loop assms(1,2) show ?thesis by (simp add: queue_ok_def assign_queue_def Let_def)
qed

lemma invalidate_queue_ok:
  "queue_ok q \<Longrightarrow> nonblank now \<Longrightarrow> nonblank reason \<Longrightarrow> queue_ok (invalidate_queue now reason n q)"
  by (auto simp: queue_ok_def invalidate_queue_def list_all_iff patches_ok)

text \<open>A queue file is sound when it is missing, unreadable or holds a reachable queue.\<close>

definition sound_file :: "jfile \<Rightarrow> bool" where
  "sound_file f \<longleftrightarrow> (\<forall>q. readHubLandingQueue f = Some q \<longrightarrow> reach queue_init queue_step q)"

definition soundness_kept :: "'g hub \<Rightarrow> 'g hub \<Rightarrow> bool" where
  "soundness_kept h h' \<longleftrightarrow> (sound_file (h_queue h) \<longrightarrow> sound_file (h_queue h'))"

interpretation soundness: kept_relation soundness_kept
  by unfold_locales (simp_all add: soundness_kept_def)

text \<open>Writing a queue that is one step from the one that was read.\<close>

lemma moves_write_step:
  "readHubLandingQueue (h_queue h) = Some q \<Longrightarrow> queue_step q q' \<Longrightarrow> queue_ok q' \<Longrightarrow>
     soundness_kept h (h\<lparr>h_queue := Text (queue_json q')\<rparr>)"
  by (auto simp: soundness_kept_def sound_file_def intro: reach.reach_step)

lemma moves_updateTicket:
  assumes step: "\<And>q tk q'. patch_queue t patch q = Some (tk, q') \<Longrightarrow> queue_step q q'"
    and ok: "\<And>tk. ticket_ok tk \<Longrightarrow> ticket_ok (patch tk)"
  shows "moves soundness_kept (updateTicket t patch)"
proof -
  have "soundness_kept h (h\<lparr>h_queue := Text (queue_json q')\<rparr>)"
    if "Option.bind (readHubLandingQueue (h_queue h)) (patch_queue t patch) = Some (tk, q')" for h :: "'a hub" and tk q'
  proof -
    from that obtain q where q: "readHubLandingQueue (h_queue h) = Some q"
        and p: "patch_queue t patch q = Some (tk, q')"
      by (auto simp: bind_eq_Some_conv)
    from read_queue_ok [OF q] ok p have "queue_ok q'" by (rule patch_queue_ok)
    with q step [OF p] show ?thesis by (rule moves_write_step)
  qed
  then show ?thesis
    by (auto simp: moves_def updateTicket_def readQueue_def writeQueue_def act_defs soundness.kept_refl
        split: option.split)
qed

lemma moves_assign:
  assumes "nonblank target" and "nonblank now" and "list_all task_ok tasks"
  shows "moves soundness_kept (assignHubLandingQueueTickets target tasks now)"
proof -
  have "soundness_kept h (h\<lparr>h_queue := Text (queue_json (assign_queue target tasks now
      (case readHubLandingQueue (h_queue h) of None \<Rightarrow> emptyQueue target | Some q \<Rightarrow> q)))\<rparr>)"
    for h :: "'a hub"
  proof (cases "readHubLandingQueue (h_queue h)")
    case None
    have "queue_ok (emptyQueue target)" using assms(1) by (simp add: queue_ok_def emptyQueue_def)
    then have "queue_ok (assign_queue target tasks now (emptyQueue target))"
      using assms by (rule assign_queue_ok)
    moreover have "reach queue_init queue_step (emptyQueue target)"
      by (rule reach.reach_init) (auto simp: queue_init_def)
    then have "reach queue_init queue_step (assign_queue target tasks now (emptyQueue target))"
      by (rule reach.reach_step) (rule assign_step)
    ultimately show ?thesis using None by (simp add: soundness_kept_def sound_file_def)
  next
    case (Some q)
    from read_queue_ok [OF Some] assms have "queue_ok (assign_queue target tasks now q)"
      by (rule assign_queue_ok)
    with Some assign_step show ?thesis by (simp add: moves_write_step)
  qed
  then show ?thesis
    by (simp add: moves_def assignHubLandingQueueTickets_def readQueue_def writeQueue_def act_defs)
qed

text \<open>The loop of the suffix invalidation only deletes artifacts.\<close>

definition transactions_of :: "HubLandingQueueTicket list \<Rightarrow> txn_id set" where
  "transactions_of tks = {tx. tx \<noteq> [] \<and> (\<exists>tk \<in> set tks. tk_transactionId tk = Some tx)}"

lemma each_invalidate:
  "each_act invalidate_candidate_of tks h = (Inr (replicate (length tks) ()),
     h\<lparr>h_artifact := (\<lambda>tx. if tx \<in> transactions_of tks then NoFile else h_artifact h tx)\<rparr>)"
proof (induction tks arbitrary: h)
  case Nil
  then show ?case by (simp add: transactions_of_def ret_act_def)
next
  case (Cons tk tks)
  have one: "invalidate_candidate_of tk h = (Inr (),
      h\<lparr>h_artifact := (\<lambda>tx. if tx \<in> transactions_of [tk] then NoFile else h_artifact h tx)\<rparr>)"
    by (cases "tk_transactionId tk")
      (auto simp: invalidate_candidate_of_def invalidateHubLandingCandidate_def transactions_of_def
        ret_act_def modify_act_def fun_eq_iff intro!: hub.equality)
  have "transactions_of (tk # tks) = transactions_of [tk] \<union> transactions_of tks"
    by (auto simp: transactions_of_def)
  with one Cons.IH show ?case
    by (simp add: bind_act_def ret_act_def) (auto simp: fun_eq_iff intro!: hub.equality)
qed

lemma invalidate_eq:
  assumes "readHubLandingQueue (h_queue h) = Some q"
    and "find (\<lambda>tk. tk_taskId tk = t) (q_tickets q) = Some origin"
  shows "invalidateHubLandingSpeculativeSuffix t reason now h =
    (let gone = filter (in_suffix (tk_sequence origin)) (q_tickets q) in
     (Inr (map (invalidated_ticket now reason) gone),
      h\<lparr>h_artifact := (\<lambda>tx. if tx \<in> transactions_of gone then NoFile else h_artifact h tx),
        h_queue := Text (queue_json (invalidate_queue now reason (tk_sequence origin) q))\<rparr>))"
  using assms by (simp add: invalidateHubLandingSpeculativeSuffix_def readQueue_def writeQueue_def
      act_defs each_invalidate Let_def)

lemma invalidate_none:
  assumes "Option.bind (readHubLandingQueue (h_queue h))
      (\<lambda>q. find (\<lambda>tk. tk_taskId tk = t) (q_tickets q)) = None"
  shows "invalidateHubLandingSpeculativeSuffix t reason now h = (Inr [], h)"
  using assms by (cases "readHubLandingQueue (h_queue h)")
    (auto simp: invalidateHubLandingSpeculativeSuffix_def readQueue_def act_defs)

lemma moves_invalidate:
  assumes "nonblank reason" and "nonblank now"
  shows "moves soundness_kept (invalidateHubLandingSpeculativeSuffix t reason now)"
  unfolding moves_def
proof
  fix h :: "'a hub"
  show "soundness_kept h (snd (invalidateHubLandingSpeculativeSuffix t reason now h))"
  proof (cases "Option.bind (readHubLandingQueue (h_queue h))
      (\<lambda>q. find (\<lambda>tk. tk_taskId tk = t) (q_tickets q))")
    case None
    then show ?thesis by (simp add: invalidate_none soundness.kept_refl)
  next
    case (Some origin)
    then obtain q where q: "readHubLandingQueue (h_queue h) = Some q"
        and f: "find (\<lambda>tk. tk_taskId tk = t) (q_tickets q) = Some origin"
      by (auto simp: bind_eq_Some_conv)
    have "queue_ok (invalidate_queue now reason (tk_sequence origin) q)"
      using read_queue_ok [OF q] assms(2,1) by (rule invalidate_queue_ok)
    with q invalidate_step [OF f] show ?thesis
      by (auto simp: invalidate_eq [OF q f] Let_def soundness_kept_def sound_file_def
          intro: reach.reach_step)
  qed
qed

lemma find_ticket_ok: "opt_ok ticket_ok (findHubLandingQueueTicket f t)"
  by (cases "readHubLandingQueue f")
    (auto simp: findHubLandingQueueTicket_def opt_ok_def queue_ok_def list_all_iff find_Some_iff
      dest!: read_queue_ok split: option.split)

lemma moves_drift:
  assumes "nonblank observed"
  shows "moves soundness_kept (recordHubLandingDriftRebuild t observed now :: ('g, _) hub_act)"
proof -
  have "moves soundness_kept
      (updateTicket t (drift_patch (findHubLandingQueueTicket f t) t observed now) :: ('g, _) hub_act)" for f
    by (rule moves_updateTicket)
      (auto intro: drift_step activation_patches_ok assms find_ticket_ok)
  then show ?thesis
    by (simp add: moves_def recordHubLandingDriftRebuild_def bind_act_def gets_act_def)
qed

lemma moves_resume:
  "nonblank observed \<Longrightarrow> moves soundness_kept (resumeHubLandingQuietWaitIfStable t observed now)"
  unfolding resumeHubLandingQuietWaitIfStable_def Let_def
  by (intro soundness.moves_rules moves_updateTicket)
    (auto intro: observed_step resume_step patches_ok activation_patches_ok)

text \<open>The calls that change the queue.\<close>

datatype queue_call =
    CallAssign string "HubLandingQueueTaskInput list" iso_time
  | CallCandidate task_id oid oid oid txn_id
  | CallVerified task_id
  | CallAfterLocalLand task_id publish_policy
  | CallLanded task_id
  | CallFailed task_id
  | CallBlocked task_id
  | CallInvalidate task_id string iso_time
  | CallDrift task_id oid iso_time
  | CallQuietWait task_id oid iso_time
  | CallResume task_id oid iso_time

definition void :: "('g, 'a) hub_act \<Rightarrow> ('g, unit) hub_act" where
  "void m = bind_act m (\<lambda>_. ret_act ())"

fun run_call :: "queue_call \<Rightarrow> ('g, unit) hub_act" where
  "run_call (CallAssign target tasks now) = void (assignHubLandingQueueTickets target tasks now)"
| "run_call (CallCandidate t src p c tx) = void (recordHubLandingQueueCandidate t src p c tx)"
| "run_call (CallVerified t) = void (markHubLandingQueueVerified t)"
| "run_call (CallAfterLocalLand t policy) = void (markHubLandingQueueAfterLocalLand t policy)"
| "run_call (CallLanded t) = void (markHubLandingQueueLanded t)"
| "run_call (CallFailed t) = void (markHubLandingQueueFailed t)"
| "run_call (CallBlocked t) = void (markHubLandingQueueBlockedPrerequisite t)"
| "run_call (CallInvalidate t reason now) = void (invalidateHubLandingSpeculativeSuffix t reason now)"
| "run_call (CallDrift t observed now) = void (recordHubLandingDriftRebuild t observed now)"
| "run_call (CallQuietWait t observed now) = void (enterHubLandingQuietWait t observed now)"
| "run_call (CallResume t observed now) = void (resumeHubLandingQuietWaitIfStable t observed now)"

fun call_ok :: "queue_call \<Rightarrow> bool" where
  "call_ok (CallAssign target tasks now) \<longleftrightarrow> nonblank target \<and> nonblank now \<and> list_all task_ok tasks"
| "call_ok (CallCandidate t src p c tx) \<longleftrightarrow> nonblank src \<and> nonblank p \<and> nonblank c \<and> nonblank tx"
| "call_ok (CallInvalidate t reason now) \<longleftrightarrow> nonblank reason \<and> nonblank now"
| "call_ok (CallDrift t observed now) \<longleftrightarrow> nonblank observed"
| "call_ok (CallQuietWait t observed now) \<longleftrightarrow> nonblank observed \<and> nonblank now"
| "call_ok (CallResume t observed now) \<longleftrightarrow> nonblank observed"
| "call_ok _ \<longleftrightarrow> True"

lemma moves_void: "moves soundness_kept m \<Longrightarrow> moves soundness_kept (void m)"
  unfolding void_def by (intro soundness.moves_rules)

lemma moves_run_call: "call_ok c \<Longrightarrow> moves soundness_kept (run_call c)"
proof (cases c)
  case (CallAfterLocalLand t policy)
  then show ?thesis
    by (auto simp: markHubLandingQueueAfterLocalLand_def markHubLandingQueuePublishing_def
        markHubLandingQueueLanded_def intro!: moves_void moves_updateTicket
        intro: settled_step patches_ok)
qed (auto simp: recordHubLandingQueueCandidate_def markHubLandingQueueVerified_def
    markHubLandingQueueLanded_def markHubLandingQueueFailed_def markHubLandingQueueBlockedPrerequisite_def
    enterHubLandingQuietWait_def intro!: moves_void moves_assign moves_invalidate moves_drift moves_resume
    moves_updateTicket intro: candidate_step status_step settled_step quiet_step patches_ok)

lemma each_calls_sound:
  fixes h :: "'g hub"
  shows "list_all call_ok calls \<Longrightarrow> soundness_kept h (snd (each_act run_call calls h))"
proof (induction calls arbitrary: h)
  case (Cons c calls)
  have "moves soundness_kept (run_call c :: ('g, _) hub_act)"
    using Cons.prems by (simp add: moves_run_call)
  then have 1: "soundness_kept h (snd (run_call c h))" by (simp add: moves_def)
  have 2: "soundness_kept h1 (snd (each_act run_call calls h1))" for h1 :: "'g hub"
    using Cons by simp
  show ?case
    using 1 2 by (auto simp: bind_act_def ret_act_def split: prod.splits sum.splits)
      (metis snd_conv soundness.kept_trans)+
qed (simp add: ret_act_def soundness.kept_refl)

text \<open>
  C7: Whatever calls change the queue of a project that starts without one, and in whatever order, the
  queue file then holds a well-formed queue: tickets in the order of their numbers, every task once, ids
  that tell tickets apart. So at every moment at most one task may land, the first that waits.
\<close>

theorem queue_file_stays_sound:
  assumes "h_queue h = NoFile" and "list_all call_ok calls"
    and "readHubLandingQueue (h_queue (snd (each_act run_call calls h))) = Some q"
  shows "queue_wf q \<and> (\<forall>shipped t. may_land (Some q) shipped t \<longleftrightarrow>
    (\<exists>rest. waiting shipped q = t # rest) \<and> \<not> line_held q t)"
proof -
  have "sound_file (h_queue h)" by (simp add: assms(1) sound_file_def readHubLandingQueue_def)
  with each_calls_sound [OF assms(2), of h] assms(3) have "reach queue_init queue_step q"
    by (simp add: soundness_kept_def sound_file_def)
  then have "queue_wf q" by (rule lq.inv_reach)
  with may_land_iff show ?thesis by blast
qed

subsection \<open>Target drift and the quiet wait\<close>

text \<open>
  The delay before a rebuild lies between 19 and 500 milliseconds, does not shrink from one rebuild
  to the next, and stays the same from the fifth on, whatever the random number in \<open>[0, 1)\<close> is.
\<close>

lemma drift_backoff_bounded:
  assumes "0 \<le> r" and "r < 1"
  shows "19 \<le> computeHubLandingDriftBackoffMs i r \<and> computeHubLandingDriftBackoffMs i r \<le> 500
    \<and> computeHubLandingDriftBackoffMs i r \<le> computeHubLandingDriftBackoffMs (i + 1) r
    \<and> (4 \<le> i \<longrightarrow> computeHubLandingDriftBackoffMs i r = computeHubLandingDriftBackoffMs 4 r)"
proof -
  define b :: "int \<Rightarrow> rat" where "b = (\<lambda>i. 25 * 2 ^ nat (min (max i 0) 4))"
  have delay: "computeHubLandingDriftBackoffMs i r = \<lfloor>b i * (3/4 + r * (1/2)) + 1/2\<rfloor>" for i
    by (simp add: computeHubLandingDriftBackoffMs_def b_def)
  have "b i \<in> {25, 50, 100, 200, 400}"
  proof -
    have "25 * 2 ^ k \<in> {25, 50, 100, 200, 400 :: rat}" if "k \<in> {0, 1, 2, 3, 4}" for k :: nat
      using that by auto
    moreover have "nat (min (max i 0) 4) \<in> {0, 1, 2, 3, 4}" by auto
    ultimately show ?thesis unfolding b_def by blast
  qed
  then have b: "25 \<le> b i" "b i \<le> 400" by auto
  have jitter: "3/4 \<le> 3/4 + r * (1/2)" "3/4 + r * (1/2) \<le> 5/4" using assms by simp_all
  have low: "25 * (3/4) \<le> b i * (3/4 + r * (1/2))"
    using b jitter by (intro mult_mono) auto
  have high: "b i * (3/4 + r * (1/2)) < 400 * (5/4) + 1/2"
  proof -
    have "b i * (3/4 + r * (1/2)) \<le> 400 * (5/4)" using b jitter by (intro mult_mono) auto
    then show ?thesis by simp
  qed
  have mono: "b i \<le> b (i + 1)"
    unfolding b_def by (intro mult_left_mono power_increasing) auto
  have "19 \<le> computeHubLandingDriftBackoffMs i r" unfolding delay le_floor_iff using low by simp
  moreover have "computeHubLandingDriftBackoffMs i r \<le> 500"
    unfolding delay floor_le_iff using high by simp
  moreover have "computeHubLandingDriftBackoffMs i r \<le> computeHubLandingDriftBackoffMs (i + 1) r"
    unfolding delay using mono jitter(1) by (intro floor_mono add_right_mono mult_right_mono) auto
  moreover have "4 \<le> i \<longrightarrow> b i = b 4" by (simp add: b_def)
  then have "4 \<le> i \<longrightarrow> computeHubLandingDriftBackoffMs i r = computeHubLandingDriftBackoffMs 4 r"
    unfolding delay by simp
  ultimately show ?thesis by blast
qed

lemma drift_backoff_bounded_witness:
  "19 \<le> computeHubLandingDriftBackoffMs 2 (1/4) \<and> computeHubLandingDriftBackoffMs 2 (1/4) \<le> 500"
  using drift_backoff_bounded [of "1/4" 2] by simp

text \<open>What an update does to the ticket of the task, and to the tickets of the others.\<close>

definition wf_file :: "jfile \<Rightarrow> bool" where
  "wf_file f \<longleftrightarrow> (\<exists>q. readHubLandingQueue f = Some q \<and> queue_wf q)"

lemma find_patched:
  assumes wf: "queue_wf q" and keep: "\<And>tk. ident (patch tk) = ident tk"
    and p: "patch_queue t patch q = Some (tk', q')"
  shows "find (\<lambda>tk. tk_taskId tk = t) (q_tickets q') = Some tk'"
    and "u \<noteq> t \<Longrightarrow> find (\<lambda>tk. tk_taskId tk = u) (q_tickets q') = find (\<lambda>tk. tk_taskId tk = u) (q_tickets q)"
proof -
  obtain cur where cur: "cur \<in> set (q_tickets q)" "tk_taskId cur = t" "tk' = patch cur"
      and "q' = q\<lparr>q_tickets := map (\<lambda>x. if x = cur then patch x else x) (q_tickets q)\<rparr>"
    using patch_queue_Some [OF assms] by blast
  then have q': "q_tickets q' = map (\<lambda>x. if x = cur then patch x else x) (q_tickets q)" by simp
  have task: "tk_taskId (patch x) = tk_taskId x" for x using keep [of x] by (simp add: ident_def)
  have "queue_wf q'" using assms by (rule patch_queue_wf)
  then have wf': "tickets_wf (q_nextSequence q') (q_tickets q')" by (simp add: queue_wf_def)
  have "tk' \<in> set (q_tickets q')" and "tk_taskId tk' = t" using cur task by (auto simp: q')
  then show "find (\<lambda>tk. tk_taskId tk = t) (q_tickets q') = Some tk'"
    by (intro iffD2 [OF find_task [OF wf']] conjI)
  have "find (\<lambda>tk. tk_taskId tk = u) (map (\<lambda>x. if x = cur then patch x else x) tks)
      = find (\<lambda>tk. tk_taskId tk = u) tks" if "u \<noteq> t" for tks
    using that cur(2) task by (induction tks) auto
  then show "u \<noteq> t \<Longrightarrow> find (\<lambda>tk. tk_taskId tk = u) (q_tickets q') = find (\<lambda>tk. tk_taskId tk = u) (q_tickets q)"
    unfolding q' by simp
qed

lemma updateTicket_found:
  assumes "wf_file (h_queue h)" and "findHubLandingQueueTicket (h_queue h) t = Some tk"
    and keep: "\<And>tk. ident (patch tk) = ident tk" and ok: "\<And>tk. ticket_ok tk \<Longrightarrow> ticket_ok (patch tk)"
  shows "\<exists>f. updateTicket t patch h = (Inr (Some (patch tk)), h\<lparr>h_queue := f\<rparr>) \<and> wf_file f
    \<and> findHubLandingQueueTicket f t = Some (patch tk)
    \<and> (\<forall>u. u \<noteq> t \<longrightarrow> findHubLandingQueueTicket f u = findHubLandingQueueTicket (h_queue h) u)"
proof -
  from assms(1) obtain q where q: "readHubLandingQueue (h_queue h) = Some q" and wf: "queue_wf q"
    by (auto simp: wf_file_def)
  with assms(2) have "find (\<lambda>tk. tk_taskId tk = t) (q_tickets q) = Some tk"
    by (simp add: findHubLandingQueueTicket_def)
  then obtain q' where p: "patch_queue t patch q = Some (patch tk, q')"
    by (simp add: patch_queue_def)
  have r: "readHubLandingQueue (Text (queue_json q')) = Some q'"
    using patch_queue_ok [OF read_queue_ok [OF q] ok p] by simp
  have "updateTicket t patch h = (Inr (Some (patch tk)), h\<lparr>h_queue := Text (queue_json q')\<rparr>)"
    using q p by (simp add: updateTicket_def readQueue_def writeQueue_def act_defs)
  moreover have "wf_file (Text (queue_json q'))"
    using r patch_queue_wf [OF wf keep p] by (auto simp: wf_file_def)
  ultimately show ?thesis
    using find_patched [OF wf keep p] q r by (auto simp: findHubLandingQueueTicket_def)
qed

text \<open>Rebuilding on a target that moved, once for each oid that was observed.\<close>

definition drift_rebuilds :: "task_id \<Rightarrow> iso_time \<Rightarrow> oid list \<Rightarrow> ('g, HubLandingQueueTicket option list) hub_act" where
  "drift_rebuilds t now os = each_act (\<lambda>observed. recordHubLandingDriftRebuild t observed now) os"

lemma drift_rebuilds_count:
  assumes "wf_file (h_queue h)" and "findHubLandingQueueTicket (h_queue h) t = Some tk"
    and "list_all nonblank os"
  shows "\<exists>rs f tk'. drift_rebuilds t now os h = (Inr rs, h\<lparr>h_queue := f\<rparr>) \<and> wf_file f
    \<and> findHubLandingQueueTicket f t = Some tk'
    \<and> tk_activationDriftRebuilds tk' = tk_activationDriftRebuilds tk + int (length os)
    \<and> (os \<noteq> [] \<longrightarrow> tk_lastObservedTargetOid tk' = Some (last os) \<and> tk_status tk' = Queued)"
  using assms
proof (induction os arbitrary: h tk)
  case Nil
  then show ?case
    by (intro exI [of _ "[]"] exI [of _ "h_queue h"] exI [of _ tk])
      (simp add: drift_rebuilds_def ret_act_def)
next
  case (Cons observed os)
  let ?patch = "drift_patch (Some tk) t observed now"
  have "opt_ok ticket_ok (Some tk)" using find_ticket_ok [of "h_queue h" t] Cons.prems(2) by simp
  then obtain f where f: "updateTicket t ?patch h = (Inr (Some (?patch tk)), h\<lparr>h_queue := f\<rparr>)"
      "wf_file f" "findHubLandingQueueTicket f t = Some (?patch tk)"
    using updateTicket_found [OF Cons.prems(1,2), of ?patch] Cons.prems(3)
    by (auto simp: patch_ident activation_patches_ok)
  then have 1: "recordHubLandingDriftRebuild t observed now h
      = (Inr (Some (?patch tk)), h\<lparr>h_queue := f\<rparr>)"
    using Cons.prems(2) by (simp add: recordHubLandingDriftRebuild_def bind_act_def gets_act_def)
  obtain rs f' tk' where 2: "drift_rebuilds t now os (h\<lparr>h_queue := f\<rparr>) = (Inr rs, h\<lparr>h_queue := f'\<rparr>)"
      "wf_file f'" "findHubLandingQueueTicket f' t = Some tk'"
      "tk_activationDriftRebuilds tk' = tk_activationDriftRebuilds (?patch tk) + int (length os)"
      "os \<noteq> [] \<longrightarrow> tk_lastObservedTargetOid tk' = Some (last os) \<and> tk_status tk' = Queued"
      "os = [] \<longrightarrow> tk' = ?patch tk"
    using Cons.IH [of "h\<lparr>h_queue := f\<rparr>" "?patch tk"] f(2,3) Cons.prems(3)
    by (cases os) (auto simp: drift_rebuilds_def ret_act_def)
  have "drift_rebuilds t now (observed # os) h = (Inr (Some (?patch tk) # rs), h\<lparr>h_queue := f'\<rparr>)"
    using 1 2(1) by (simp add: drift_rebuilds_def bind_act_def ret_act_def)
  with 2 show ?case
    by (cases os) (auto simp: drift_patch_def)
qed

text \<open>
  A ticket without rebuilds goes into the quiet wait from the third observed move of the target on,
  and not before.
\<close>

lemma quiet_wait_after_three_rebuilds:
  assumes "wf_file (h_queue h)" and "findHubLandingQueueTicket (h_queue h) t = Some tk"
    and "tk_activationDriftRebuilds tk = 0" and "list_all nonblank os"
  shows "\<exists>rs h'. drift_rebuilds t now os h = (Inr rs, h')
    \<and> shouldEnterHubLandingQuietWait t h' = (Inr (3 \<le> length os), h')"
proof -
  obtain rs f tk' where f: "drift_rebuilds t now os h = (Inr rs, h\<lparr>h_queue := f\<rparr>)"
      "findHubLandingQueueTicket f t = Some tk'"
      "tk_activationDriftRebuilds tk' = int (length os)"
    using drift_rebuilds_count [OF assms(1,2,4), of now] assms(3) by auto
  then show ?thesis
    by (intro exI [of _ rs] exI [of _ "h\<lparr>h_queue := f\<rparr>"])
      (simp add: shouldEnterHubLandingQuietWait_def gets_act_def HUB_LANDING_TARGET_DRIFT_REBUILD_LIMIT_def)
qed

text \<open>
  A ticket in the quiet wait is resumed by the first observation that agrees with the one before it,
  with its count of rebuilds back at zero; an observation that disagrees leaves it waiting. What the
  ticket is, and the tickets of all other tasks, do not change.
\<close>

theorem quiet_wait_ends_when_stable:
  assumes "wf_file (h_queue h)" and "findHubLandingQueueTicket (h_queue h) t = Some tk"
    and "tk_status tk = QuietWait" and "tk_lastObservedTargetOid tk = Some seen"
    and "nonblank seen" and "nonblank observed"
  shows "\<exists>f tk'. resumeHubLandingQuietWaitIfStable t observed now h
       = (Inr (if observed = seen then Resumed else Waiting), h\<lparr>h_queue := f\<rparr>)
    \<and> findHubLandingQueueTicket f t = Some tk' \<and> ident tk' = ident tk
    \<and> tk_lastObservedTargetOid tk' = Some observed
    \<and> (if observed = seen then tk_status tk' = Queued \<and> tk_activationDriftRebuilds tk' = 0
       else tk_status tk' = QuietWait \<and> tk_activationDriftRebuilds tk' = tk_activationDriftRebuilds tk)
    \<and> (\<forall>u. u \<noteq> t \<longrightarrow> findHubLandingQueueTicket f u = findHubLandingQueueTicket (h_queue h) u)"
proof -
  let ?patch = "if observed = seen then resume_patch t observed now else observed_patch observed"
  have "seen \<noteq> []" using assms(5) by (auto simp: nonblank_def)
  then have run: "resumeHubLandingQuietWaitIfStable t observed now h
      = bind_act (updateTicket t ?patch)
          (\<lambda>_. ret_act (if observed = seen then Resumed else Waiting)) h"
    using assms(2-4) by (simp add: resumeHubLandingQuietWaitIfStable_def bind_act_def gets_act_def Let_def)
  have keep: "ident (?patch x) = ident x" and ok: "ticket_ok x \<Longrightarrow> ticket_ok (?patch x)" for x
    using assms(6) by (cases "observed = seen"; simp add: patch_ident activation_patches_ok patches_ok)+
  obtain f where f: "updateTicket t ?patch h = (Inr (Some (?patch tk)), h\<lparr>h_queue := f\<rparr>)"
      "findHubLandingQueueTicket f t = Some (?patch tk)"
      "\<forall>u. u \<noteq> t \<longrightarrow> findHubLandingQueueTicket f u = findHubLandingQueueTicket (h_queue h) u"
    using updateTicket_found [OF assms(1,2) keep ok] by blast
  have tk': "ident (?patch tk) = ident tk" "tk_lastObservedTargetOid (?patch tk) = Some observed"
    "if observed = seen then tk_status (?patch tk) = Queued \<and> tk_activationDriftRebuilds (?patch tk) = 0
     else tk_status (?patch tk) = QuietWait
       \<and> tk_activationDriftRebuilds (?patch tk) = tk_activationDriftRebuilds tk"
    using assms(3) by (simp_all add: patch_ident) (simp_all add: resume_patch_def observed_patch_def)
  have "resumeHubLandingQuietWaitIfStable t observed now h
      = (Inr (if observed = seen then Resumed else Waiting), h\<lparr>h_queue := f\<rparr>)"
    unfolding run by (simp add: bind_act_def f(1) ret_act_def)
  with f(2,3) tk' show ?thesis by blast
qed


subsection \<open>The speculative suffix\<close>

text \<open>
  Invalidating the suffix behind a task leaves the tickets up to its own, and every landed, failed or
  blocked one, as they are; all the others lose their candidate and go back in line, and the verification
  artifacts of their transactions, and no others, are deleted.
\<close>

theorem suffix_invalidation_effect:
  assumes "readHubLandingQueue (h_queue h) = Some q"
    and "find (\<lambda>tk. tk_taskId tk = t) (q_tickets q) = Some origin"
    and "nonblank reason" and "nonblank now"
    and "invalidateHubLandingSpeculativeSuffix t reason now h = (r, h')"
  shows "\<exists>q'. readHubLandingQueue (h_queue h') = Some q' \<and> q_nextSequence q' = q_nextSequence q
    \<and> q_tickets q' = map (\<lambda>tk.
        if tk_sequence tk \<le> tk_sequence origin
           \<or> tk_status tk \<in> {Landed, Failed, BlockedUnshippedPrerequisite} then tk
        else tk\<lparr>tk_status := Invalidated, tk_candidateOid := None, tk_predecessorOid := None,
          tk_transactionId := None, tk_suffixInvalidatedAt := Some now,
          tk_suffixInvalidationReason := Some reason\<rparr>) (q_tickets q)
    \<and> (\<forall>tx. h_artifact h' tx =
        (if tx \<in> transactions_of (filter (in_suffix (tk_sequence origin)) (q_tickets q)) then NoFile
         else h_artifact h tx))
    \<and> h_git h' = h_git h \<and> h_journals h' = h_journals h"
proof -
  let ?q' = "invalidate_queue now reason (tk_sequence origin) q"
  have "queue_ok ?q'" using read_queue_ok [OF assms(1)] assms(4,3) by (rule invalidate_queue_ok)
  then have "readHubLandingQueue (Text (queue_json ?q')) = Some ?q'" by simp
  moreover have "(if in_suffix n tk then invalidated_ticket now reason tk else tk) =
      (if tk_sequence tk \<le> n \<or> tk_status tk \<in> {Landed, Failed, BlockedUnshippedPrerequisite} then tk
       else tk\<lparr>tk_status := Invalidated, tk_candidateOid := None, tk_predecessorOid := None,
          tk_transactionId := None, tk_suffixInvalidatedAt := Some now,
          tk_suffixInvalidationReason := Some reason\<rparr>)" for n tk
    by (auto simp: in_suffix_def TERMINAL_STATUSES_def invalidated_ticket_def)
  ultimately show ?thesis
    using assms(5) unfolding invalidate_eq [OF assms(1,2)]
    by (auto simp: Let_def invalidate_queue_def)
qed

text \<open>
  A ticket that is publishing, so that its commit has landed and later tasks wait for its delivery, is
  not spared: it loses its transaction and stands in line again, to be landed once more, and it no longer
  holds back the tasks behind it.
\<close>

theorem publishing_ticket_is_invalidated:
  assumes "readHubLandingQueue (h_queue h) = Some q" and "queue_wf q"
    and "origin \<in> set (q_tickets q)" and "p \<in> set (q_tickets q)"
    and "tk_sequence origin < tk_sequence p" and "tk_status p = Publishing"
    and "nonblank reason" and "nonblank now"
    and "invalidateHubLandingSpeculativeSuffix (tk_taskId origin) reason now h = (r, h')"
  shows "\<exists>q'. readHubLandingQueue (h_queue h') = Some q'
    \<and> (\<forall>tk \<in> set (q_tickets q'). tk_sequence origin < tk_sequence tk \<longrightarrow> tk_status tk \<noteq> Publishing)
    \<and> (blockersShipped p shipped \<longrightarrow> tk_taskId p \<in> set (waiting shipped q'))"
proof -
  let ?q' = "invalidate_queue now reason (tk_sequence origin) q"
  have f: "find (\<lambda>tk. tk_taskId tk = tk_taskId origin) (q_tickets q) = Some origin"
    using assms(2,3) by (simp add: queue_wf_def find_task)
  have "queue_ok ?q'" using read_queue_ok [OF assms(1)] assms(8,7) by (rule invalidate_queue_ok)
  then have 1: "readHubLandingQueue (h_queue h') = Some ?q'"
    using assms(9) unfolding invalidate_eq [OF assms(1) f] by (auto simp: Let_def)
  have 2: "\<forall>tk \<in> set (q_tickets ?q').
      tk_sequence origin < tk_sequence tk \<longrightarrow> tk_status tk \<noteq> Publishing"
    by (auto simp: invalidate_queue_def invalidated_ticket_def in_suffix_def TERMINAL_STATUSES_def)
  have "in_suffix (tk_sequence origin) p"
    using assms(5,6) by (simp add: in_suffix_def TERMINAL_STATUSES_def)
  then have "invalidated_ticket now reason p \<in> set (q_tickets ?q')"
    using assms(4) by (force simp: invalidate_queue_def)
  moreover have "eligible shipped (invalidated_ticket now reason p)" if "blockersShipped p shipped"
    using that by (simp add: eligible_def invalidated_ticket_def ELIGIBLE_STATUSES_def blockersShipped_def)
  moreover have "tk_taskId (invalidated_ticket now reason p) = tk_taskId p"
    by (simp add: invalidated_ticket_def)
  ultimately have "blockersShipped p shipped \<longrightarrow> tk_taskId p \<in> set (waiting shipped ?q')"
    unfolding waiting_def by (auto intro!: image_eqI [of _ _ "invalidated_ticket now reason p"])
  with 1 2 show ?thesis by blast
qed

subsection \<open>Demonstration queues\<close>

definition demo_task :: "task_id \<Rightarrow> HubLandingQueueTaskInput" where
  "demo_task t = \<lparr>qt_taskId = t, qt_blockerTaskIds = None, qt_sourceOid = None\<rparr>"

definition demo_queue :: HubLandingQueueState where
  "demo_queue = assign_queue ''r'' [demo_task ''a'', demo_task ''b''] ''1'' (emptyQueue ''r'')"

definition queued_hub :: "HubLandingQueueState \<Rightarrow> demo_world hub" where
  "queued_hub q = demo_hub\<lparr>h_queue := Text (queue_json q)\<rparr>"

lemma demo_nonblank: "nonblank ''r''" "nonblank ''1''" "nonblank ''a''" "nonblank ''b''"
  by (simp_all add: nonblank_def js_space_def)

lemma demo_tasks_ok: "list_all task_ok [demo_task ''a'', demo_task ''b'']"
  by (simp add: task_ok_def demo_task_def demo_nonblank)

lemma demo_queue_ok: "queue_ok demo_queue"
proof -
  have "queue_ok (emptyQueue ''r'')" by (simp add: queue_ok_def emptyQueue_def demo_nonblank)
  then show ?thesis unfolding demo_queue_def
    using demo_nonblank(1,2) demo_tasks_ok by (rule assign_queue_ok)
qed

lemma demo_queue_reached: "reach queue_init queue_step demo_queue"
proof -
  have "reach queue_init queue_step (emptyQueue ''r'')"
    by (rule reach.reach_init) (auto simp: queue_init_def)
  then show ?thesis unfolding demo_queue_def by (rule reach.reach_step) (rule assign_step)
qed

lemma queued_hub_read: "queue_ok q \<Longrightarrow> readHubLandingQueue (h_queue (queued_hub q)) = Some q"
  by (simp add: queued_hub_def)

theorem assignment_lines_up_witness:
  "map tk_taskId (q_tickets (assign_queue ''r'' [demo_task ''b'', demo_task ''c'', demo_task ''c''] ''2''
     demo_queue)) = [''a'', ''b'', ''c'']"
proof -
  have "map tk_taskId (q_tickets demo_queue) = [''a'', ''b'']" by code_simp
  with assignment_lines_up [OF demo_queue_reached, of "''r''"
      "[demo_task ''b'', demo_task ''c'', demo_task ''c'']" "''2''"]
  show ?thesis by (simp add: Let_def line_up_def demo_task_def)
qed

theorem queue_file_stays_sound_witness:
  "\<exists>q. readHubLandingQueue (h_queue (snd (each_act run_call
       [CallAssign ''r'' [demo_task ''a'', demo_task ''b''] ''1'', CallVerified ''a''] demo_hub))) = Some q
     \<and> queue_wf q"
proof -
  let ?calls = "[CallAssign ''r'' [demo_task ''a'', demo_task ''b''] ''1'', CallVerified ''a'']"
  have "readHubLandingQueue (h_queue (snd (each_act run_call ?calls demo_hub))) \<noteq> None" by code_simp
  then obtain q where q: "readHubLandingQueue (h_queue (snd (each_act run_call ?calls demo_hub))) = Some q"
    by blast
  have "h_queue demo_hub = NoFile" by (simp add: demo_hub_def)
  moreover have "list_all call_ok ?calls" using demo_nonblank demo_tasks_ok by simp
  ultimately show ?thesis using queue_file_stays_sound [OF _ _ q] q by blast
qed

definition demo_ticket :: HubLandingQueueTicket where
  "demo_ticket = new_ticket ''1'' 1 (demo_task ''a'')"

lemma demo_file: "wf_file (h_queue (queued_hub demo_queue))"
    "findHubLandingQueueTicket (h_queue (queued_hub demo_queue)) ''a'' = Some demo_ticket"
proof -
  note read = queued_hub_read [OF demo_queue_ok]
  show "wf_file (h_queue (queued_hub demo_queue))"
    using read lq.inv_reach [OF demo_queue_reached] by (auto simp: wf_file_def)
  have "find (\<lambda>tk. tk_taskId tk = ''a'') (q_tickets demo_queue) = Some demo_ticket" by code_simp
  with read show "findHubLandingQueueTicket (h_queue (queued_hub demo_queue)) ''a'' = Some demo_ticket"
    by (simp add: findHubLandingQueueTicket_def)
qed

lemma quiet_wait_after_three_rebuilds_witness:
  "\<exists>rs h'. drift_rebuilds ''a'' ''2'' [''x'', ''y'', ''z''] (queued_hub demo_queue) = (Inr rs, h')
     \<and> shouldEnterHubLandingQuietWait ''a'' h' = (Inr True, h')"
proof -
  have "tk_activationDriftRebuilds demo_ticket = 0" by (simp add: demo_ticket_def new_ticket_def)
  moreover have "list_all nonblank [''x'', ''y'', ''z'']" by (simp add: nonblank_def js_space_def)
  ultimately show ?thesis
    using quiet_wait_after_three_rebuilds [OF demo_file, of "[''x'', ''y'', ''z'']" "''2''"] by simp
qed

text \<open>The first task waits for a quiet target, or is publishing.\<close>

definition waiting_queue :: HubLandingQueueState where
  "waiting_queue = snd (the (patch_queue ''a'' (quiet_patch ''x'' ''2'') demo_queue))"

definition publishing_queue :: HubLandingQueueState where
  "publishing_queue = snd (the (patch_queue ''b'' (settled_patch Publishing) demo_queue))"

lemma demo_patched:
  "patch_queue ''a'' (quiet_patch ''x'' ''2'') demo_queue
     = Some (quiet_patch ''x'' ''2'' demo_ticket, waiting_queue)"
  "\<exists>tk. patch_queue ''b'' (settled_patch Publishing) demo_queue = Some (tk, publishing_queue)"
proof -
  have "fst (the (patch_queue ''a'' (quiet_patch ''x'' ''2'') demo_queue)) = quiet_patch ''x'' ''2'' demo_ticket"
    and "patch_queue ''a'' (quiet_patch ''x'' ''2'') demo_queue \<noteq> None"
    and b: "patch_queue ''b'' (settled_patch Publishing) demo_queue \<noteq> None" by code_simp+
  then show "patch_queue ''a'' (quiet_patch ''x'' ''2'') demo_queue
     = Some (quiet_patch ''x'' ''2'' demo_ticket, waiting_queue)"
    by (auto simp: waiting_queue_def)
  from b show "\<exists>tk. patch_queue ''b'' (settled_patch Publishing) demo_queue = Some (tk, publishing_queue)"
    by (auto simp: publishing_queue_def)
qed

theorem quiet_wait_ends_when_stable_witness:
  "fst (resumeHubLandingQuietWaitIfStable ''a'' ''x'' ''3'' (queued_hub waiting_queue)) = Inr Resumed
   \<and> fst (resumeHubLandingQuietWaitIfStable ''a'' ''y'' ''3'' (queued_hub waiting_queue)) = Inr Waiting"
proof -
  let ?tk = "quiet_patch ''x'' ''2'' demo_ticket"
  have nb: "nonblank ''x''" "nonblank ''y''" "nonblank ''2''" by (simp_all add: nonblank_def js_space_def)
  note wf = lq.inv_reach [OF demo_queue_reached]
  have keep: "ident (quiet_patch ''x'' ''2'' tk) = ident tk" for tk by (simp add: patch_ident)
  have "queue_ok waiting_queue"
    using demo_queue_ok _ demo_patched(1) by (rule patch_queue_ok) (simp add: patches_ok nb)
  note read = queued_hub_read [OF this]
  have 1: "wf_file (h_queue (queued_hub waiting_queue))"
    using read patch_queue_wf [OF wf keep demo_patched(1)] by (auto simp: wf_file_def)
  have 2: "findHubLandingQueueTicket (h_queue (queued_hub waiting_queue)) ''a'' = Some ?tk"
    using read find_patched(1) [OF wf keep demo_patched(1)] by (simp add: findHubLandingQueueTicket_def)
  have 3: "tk_status ?tk = QuietWait" "tk_lastObservedTargetOid ?tk = Some ''x''"
    by (simp_all add: quiet_patch_def)
  show ?thesis
    using quiet_wait_ends_when_stable [OF 1 2 3 nb(1), of "''x''" "''3''"]
      quiet_wait_ends_when_stable [OF 1 2 3 nb(1), of "''y''" "''3''"] nb by auto
qed

lemma publishing_queue_facts:
  "readHubLandingQueue (h_queue (queued_hub publishing_queue)) = Some publishing_queue"
  "queue_wf publishing_queue"
proof -
  obtain tk where p: "patch_queue ''b'' (settled_patch Publishing) demo_queue = Some (tk, publishing_queue)"
    using demo_patched(2) by blast
  have keep: "ident (settled_patch Publishing x) = ident x" for x by (simp add: patch_ident)
  show "queue_wf publishing_queue"
    using lq.inv_reach [OF demo_queue_reached] keep p by (rule patch_queue_wf)
  have "queue_ok publishing_queue"
    using demo_queue_ok _ p by (rule patch_queue_ok) (simp add: patches_ok)
  then show "readHubLandingQueue (h_queue (queued_hub publishing_queue)) = Some publishing_queue"
    by (rule queued_hub_read)
qed

theorem suffix_invalidation_effect_witness:
  "\<exists>r h' q'. invalidateHubLandingSpeculativeSuffix ''a'' ''r'' ''1'' (queued_hub demo_queue) = (r, h')
     \<and> readHubLandingQueue (h_queue h') = Some q' \<and> q_nextSequence q' = 3"
proof -
  obtain r h' where e: "invalidateHubLandingSpeculativeSuffix ''a'' ''r'' ''1'' (queued_hub demo_queue) = (r, h')"
    by fastforce
  have "find (\<lambda>tk. tk_taskId tk = ''a'') (q_tickets demo_queue) = Some demo_ticket"
    and "q_nextSequence demo_queue = 3" by code_simp+
  with suffix_invalidation_effect [OF queued_hub_read [OF demo_queue_ok] _ demo_nonblank(1,2) e] e
  show ?thesis by auto
qed

theorem publishing_ticket_is_invalidated_witness:
  "\<exists>r h' q'. invalidateHubLandingSpeculativeSuffix ''a'' ''r'' ''1'' (queued_hub publishing_queue) = (r, h')
     \<and> readHubLandingQueue (h_queue h') = Some q' \<and> ''b'' \<in> set (waiting {} q')"
proof -
  obtain r h' where e: "invalidateHubLandingSpeculativeSuffix ''a'' ''r'' ''1'' (queued_hub publishing_queue) = (r, h')"
    by fastforce
  let ?a = "q_tickets publishing_queue ! 0" and ?b = "q_tickets publishing_queue ! 1"
  have "length (q_tickets publishing_queue) = 2" by code_simp
  then have mem: "?a \<in> set (q_tickets publishing_queue)" "?b \<in> set (q_tickets publishing_queue)" by simp_all
  have "tk_taskId ?a = ''a'' \<and> tk_taskId ?b = ''b'' \<and> tk_sequence ?a < tk_sequence ?b
      \<and> tk_status ?b = Publishing \<and> blockersShipped ?b {}" by code_simp
  with publishing_ticket_is_invalidated [OF publishing_queue_facts mem _ _ demo_nonblank(1,2), of r h' "{}"] e
  show ?thesis by auto
qed

end
