(* ===== verification/Landing_Lease.thy ===== *)
theory Landing_Lease
  imports Landing_Core Queue_Properties "HOL-Library.Monad_Syntax"
begin

text \<open>
  The landing lease (\<open>src/src/hubLandingCoordinator.ts\<close>): the file that names the process that is landing,
  how a process is recognised and how its death is noticed, taking and releasing the lease, and the
  landing of one candidate under it.
\<close>

subsection \<open>Process identities\<close>

definition HUB_LANDING_LEASE_TTL_MS :: int where
  "HUB_LANDING_LEASE_TTL_MS = 30000"

record HubLandingProcessIdentity =
  pi_pid :: int
  pi_processStartIdentity :: string
  pi_bootIdentity :: string

text \<open>
  What the operating system tells: the own process id, the text of \<open>/proc/<pid>/stat\<close> and of the boot id
  file (\<open>None\<close> where they cannot be read), and what \<open>process.kill(pid, 0)\<close> does: it returns, or throws an
  error with a code.
\<close>

datatype kill_result = KillReturns | KillThrows "string option"

record process_table =
  os_pid :: int
  os_stat :: "int \<Rightarrow> string option"
  os_boot_id :: "string option"
  os_kill :: "int \<Rightarrow> kill_result"

text \<open>\<open>raw.slice(raw.lastIndexOf(")") + 2)\<close>, and \<open>split(/\s+/)\<close>.\<close>

fun after_last_paren :: "string \<Rightarrow> string option" where
  "after_last_paren [] = None"
| "after_last_paren (c # cs) =
     (case after_last_paren cs of
        Some rest \<Rightarrow> Some rest
      | None \<Rightarrow> if c = CHR '')'' then Some (drop 1 cs) else None)"

function split_spaces :: "string \<Rightarrow> string list" where
  "split_spaces [] = [[]]"
| "split_spaces (c # cs) =
     (if js_space c then [] # split_spaces (dropWhile js_space cs)
      else (case split_spaces cs of [] \<Rightarrow> [[c]] | w # ws \<Rightarrow> (c # w) # ws))"
  by pat_completeness auto
termination
  by (relation "measure length") (auto simp: le_imp_less_Suc length_dropWhile_le)

definition readProcessStartIdentity :: "process_table \<Rightarrow> int \<Rightarrow> string option" where
  "readProcessStartIdentity os pid = do {
     raw \<leftarrow> os_stat os pid;
     rest \<leftarrow> after_last_paren raw;
     let fields = split_spaces (js_trim rest);
     if 19 < length fields \<and> fields ! 19 \<noteq> [] then Some (show_int pid @ CHR '':'' # fields ! 19) else None
   }"

definition readBootIdentity :: "process_table \<Rightarrow> string option" where
  "readBootIdentity os = map_option js_trim (os_boot_id os)"

definition isProcessAlive :: "process_table \<Rightarrow> int \<Rightarrow> bool" where
  "isProcessAlive os pid \<longleftrightarrow>
     (if pid \<le> 0 then False
      else (case os_kill os pid of KillReturns \<Rightarrow> True | KillThrows code \<Rightarrow> code = Some ''EPERM''))"

definition readHubLandingProcessIdentity :: "process_table \<Rightarrow> HubLandingProcessIdentity" where
  "readHubLandingProcessIdentity os =
     \<lparr>pi_pid = os_pid os,
      pi_processStartIdentity = (case readProcessStartIdentity os (os_pid os) of
          None \<Rightarrow> show_int (os_pid os) @ '':unknown'' | Some s \<Rightarrow> s),
      pi_bootIdentity = (case readBootIdentity os of None \<Rightarrow> ''unknown'' | Some s \<Rightarrow> s)\<rparr>"

text \<open>
  The probe of a caller, whose parts are optional, and the probe with its parts resolved. The time is
  given as the text of now and of now plus a number of milliseconds.
\<close>

record lease_clock =
  cl_now :: iso_time
  cl_after :: "int \<Rightarrow> iso_time"

record HubLandingLeaseProbe =
  po_now :: "lease_clock option"
  po_createNonce :: "string option"
  po_readIdentity :: "HubLandingProcessIdentity option"
  po_readProcessStartIdentity :: "(int \<Rightarrow> string option) option"
  po_isProcessAlive :: "(int \<Rightarrow> bool) option"
  po_readBootIdentity :: "string option option"

record resolved_probe =
  pr_now :: lease_clock
  pr_nonce :: string
  pr_identity :: HubLandingProcessIdentity
  pr_start :: "int \<Rightarrow> string option"
  pr_alive :: "int \<Rightarrow> bool"
  pr_boot :: "string option"

definition resolveProbe ::
    "process_table \<Rightarrow> lease_clock \<Rightarrow> string \<Rightarrow> HubLandingLeaseProbe \<Rightarrow> resolved_probe" where
  "resolveProbe os clock uuid p =
    (let who = (case po_readIdentity p of None \<Rightarrow> readHubLandingProcessIdentity os | Some i \<Rightarrow> i) in
     \<lparr>pr_now = (case po_now p of None \<Rightarrow> clock | Some c \<Rightarrow> c),
      pr_nonce = (case po_createNonce p of None \<Rightarrow> uuid | Some n \<Rightarrow> n),
      pr_identity = who,
      pr_start = (case po_readProcessStartIdentity p of None \<Rightarrow> readProcessStartIdentity os | Some f \<Rightarrow> f),
      pr_alive = (case po_isProcessAlive p of None \<Rightarrow> isProcessAlive os | Some f \<Rightarrow> f),
      pr_boot = (case po_readBootIdentity p of None \<Rightarrow> Some (pi_bootIdentity who) | Some b \<Rightarrow> b)\<rparr>)"

definition no_probe :: HubLandingLeaseProbe where
  "no_probe = \<lparr>po_now = None, po_createNonce = None, po_readIdentity = None,
     po_readProcessStartIdentity = None, po_isProcessAlive = None, po_readBootIdentity = None\<rparr>"


subsection \<open>The lease file\<close>

record HubLandingLease =
  ls_ownerNonce :: string
  ls_pid :: int
  ls_processStartIdentity :: string
  ls_bootIdentity :: string
  ls_expectedFenceOid :: oid
  ls_expectedTargetOid :: oid
  ls_acquiredAt :: iso_time
  ls_expiresAt :: iso_time

definition parseHubLandingLease :: "json \<Rightarrow> HubLandingLease option" where
  "parseHubLandingLease v = do {
     kvs \<leftarrow> parseJsonRecord v;
     nonce \<leftarrow> stringField (jget kvs ''ownerNonce'');
     pid \<leftarrow> numberField (jget kvs ''pid'');
     start \<leftarrow> stringField (jget kvs ''processStartIdentity'');
     boot \<leftarrow> stringField (jget kvs ''bootIdentity'');
     fence \<leftarrow> stringField (jget kvs ''expectedFenceOid'');
     target \<leftarrow> stringField (jget kvs ''expectedTargetOid'');
     acquired \<leftarrow> stringField (jget kvs ''acquiredAt'');
     expires \<leftarrow> stringField (jget kvs ''expiresAt'');
     Some \<lparr>ls_ownerNonce = nonce, ls_pid = pid, ls_processStartIdentity = start, ls_bootIdentity = boot,
       ls_expectedFenceOid = fence, ls_expectedTargetOid = target, ls_acquiredAt = acquired,
       ls_expiresAt = expires\<rparr>
   }"

definition lease_fields :: "HubLandingLease \<Rightarrow> (string \<times> json option) list" where
  "lease_fields l =
     [(''ownerNonce'', Some (JStr (ls_ownerNonce l))),
      (''pid'', Some (jint (ls_pid l))),
      (''processStartIdentity'', Some (JStr (ls_processStartIdentity l))),
      (''bootIdentity'', Some (JStr (ls_bootIdentity l))),
      (''expectedFenceOid'', Some (JStr (ls_expectedFenceOid l))),
      (''expectedTargetOid'', Some (JStr (ls_expectedTargetOid l))),
      (''acquiredAt'', Some (JStr (ls_acquiredAt l))),
      (''expiresAt'', Some (JStr (ls_expiresAt l)))]"

definition lease_json :: "HubLandingLease \<Rightarrow> json" where
  "lease_json l = jobj (lease_fields l)"

definition lease_ok :: "HubLandingLease \<Rightarrow> bool" where
  "lease_ok l \<longleftrightarrow> list_all nonblank
     [ls_ownerNonce l, ls_processStartIdentity l, ls_bootIdentity l, ls_expectedFenceOid l,
      ls_expectedTargetOid l, ls_acquiredAt l, ls_expiresAt l]"

lemma lease_get:
  "jget (readObject (lease_json l)) k = (case map_of (lease_fields l) k of None \<Rightarrow> None | Some v \<Rightarrow> v)"
  unfolding lease_json_def readObject_jobj
  by (rule jget_defined_fields) (simp add: lease_fields_def)

lemma lease_roundtrip: "lease_ok l \<Longrightarrow> parseHubLandingLease (lease_json l) = Some l"
proof -
  assume ok: "lease_ok l"
  have p: "parseJsonRecord (lease_json l) = Some (readObject (lease_json l))"
    by (rule parseJsonRecord_readObject) (rule lease_json_def)
  show ?thesis
    unfolding parseHubLandingLease_def p Option.bind.simps
    using ok by (simp add: lease_get lease_fields_def lease_ok_def numberField_jint del: numberField.simps)
qed

interpretation lease_codec: json_codec lease_json parseHubLandingLease lease_ok
  by unfold_locales (rule lease_roundtrip)

definition readHubLandingLease :: "jfile \<Rightarrow> HubLandingLease option" where
  "readHubLandingLease f = read_json_file parseHubLandingLease f"

definition isLiveHubLandingLeaseOwner :: "resolved_probe \<Rightarrow> HubLandingLease \<Rightarrow> bool" where
  "isLiveHubLandingLeaseOwner p l \<longleftrightarrow>
     (if pr_boot p \<noteq> Some (ls_bootIdentity l) then False
      else if pr_start p (ls_pid l) \<noteq> Some (ls_processStartIdentity l) then False
      else pr_alive p (ls_pid l))"

definition isSameProcessOwner :: "HubLandingLease \<Rightarrow> HubLandingProcessIdentity \<Rightarrow> bool" where
  "isSameProcessOwner l i \<longleftrightarrow> ls_pid l = pi_pid i \<and> ls_processStartIdentity l = pi_processStartIdentity i
     \<and> ls_bootIdentity l = pi_bootIdentity i"

record HubLandingOidEvidence =
  oe_expectedTargetOid :: oid
  oe_observedTargetOid :: oid
  oe_expectedFenceOid :: oid
  oe_observedFenceOid :: oid

datatype HubLandingLeaseAcquireResult =
    LeaseAcquired HubLandingLease
  | LeaseContention HubLandingLease HubLandingOidEvidence string

definition lease_held_message :: "HubLandingLease \<Rightarrow> string" where
  "lease_held_message l = ''Hub landing lease is held by a live owner (pid '' @ show_int (ls_pid l)
     @ '', nonce '' @ ls_ownerNonce l
     @ ''). Transient contention remains pending and does not require a recovery command.''"

definition lease_raced_message :: string where
  "lease_raced_message = ''Hub landing lease contention prevented exclusive ownership. ''
     @ ''Automatic retry will continue without a recovery command.''"

definition new_lease :: "resolved_probe \<Rightarrow> oid \<Rightarrow> oid \<Rightarrow> HubLandingLease" where
  "new_lease p target fence =
     \<lparr>ls_ownerNonce = pr_nonce p, ls_pid = pi_pid (pr_identity p),
      ls_processStartIdentity = pi_processStartIdentity (pr_identity p),
      ls_bootIdentity = pi_bootIdentity (pr_identity p),
      ls_expectedFenceOid = fence, ls_expectedTargetOid = target,
      ls_acquiredAt = cl_now (pr_now p),
      ls_expiresAt = cl_after (pr_now p) HUB_LANDING_LEASE_TTL_MS\<rparr>"

text \<open>
  \<open>acquireHubLandingLease\<close>, in its two parts: the look at the lease that is there, and the writing and
  confirming of the own one. \<open>meanwhile\<close> is what other processes do to the file in between.
\<close>

definition check_lease ::
    "'g env \<Rightarrow> resolved_probe \<Rightarrow> HubLandingPolicy
     \<Rightarrow> ('g, HubLandingLeaseAcquireResult + oid \<times> oid) hub_act" where
  "check_lease E p policy =
     bind_act (revParse E (p_publishTargetRef policy)) (\<lambda>target.
     bind_act (revParse E (p_fenceRef policy)) (\<lambda>fence.
     bind_act (gets_act (\<lambda>h. readHubLandingLease (h_lease h))) (\<lambda>existing.
     ret_act (case existing of
       None \<Rightarrow> Inr (target, fence)
     | Some l \<Rightarrow>
         if isLiveHubLandingLeaseOwner p l \<and> \<not> isSameProcessOwner l (pr_identity p)
         then Inl (LeaseContention l
           \<lparr>oe_expectedTargetOid = ls_expectedTargetOid l, oe_observedTargetOid = target,
            oe_expectedFenceOid = ls_expectedFenceOid l, oe_observedFenceOid = fence\<rparr>
           (lease_held_message l))
         else Inr (target, fence)))))"

definition write_lease ::
    "resolved_probe \<Rightarrow> (jfile \<Rightarrow> jfile) \<Rightarrow> oid \<times> oid \<Rightarrow> ('g, HubLandingLeaseAcquireResult) hub_act" where
  "write_lease p meanwhile observed =
    (let (target, fence) = observed; lease = new_lease p target fence in
     bind_act (modify_act (\<lambda>h. h\<lparr>h_lease := Text (lease_json lease)\<rparr>)) (\<lambda>_.
     bind_act (modify_act (\<lambda>h. h\<lparr>h_lease := meanwhile (h_lease h)\<rparr>)) (\<lambda>_.
     bind_act (gets_act (\<lambda>h. readHubLandingLease (h_lease h))) (\<lambda>confirmed.
     ret_act (if map_option ls_ownerNonce confirmed \<noteq> Some (ls_ownerNonce lease)
       then LeaseContention (case confirmed of None \<Rightarrow> lease | Some l \<Rightarrow> l)
         \<lparr>oe_expectedTargetOid = ls_expectedTargetOid lease, oe_observedTargetOid = target,
          oe_expectedFenceOid = ls_expectedFenceOid lease, oe_observedFenceOid = fence\<rparr>
         lease_raced_message
       else LeaseAcquired (the confirmed))))))"

definition acquireHubLandingLease ::
    "'g env \<Rightarrow> resolved_probe \<Rightarrow> (jfile \<Rightarrow> jfile) \<Rightarrow> HubLandingPolicy
     \<Rightarrow> ('g, HubLandingLeaseAcquireResult) hub_act" where
  "acquireHubLandingLease E p meanwhile policy =
     bind_act (check_lease E p policy) (\<lambda>seen.
     case seen of Inl contention \<Rightarrow> ret_act contention | Inr observed \<Rightarrow> write_lease p meanwhile observed)"

definition released_file :: "string option \<Rightarrow> jfile \<Rightarrow> jfile" where
  "released_file ownerNonce f =
     (case readHubLandingLease f of
        None \<Rightarrow> f
      | Some current \<Rightarrow>
          if truthy_string ownerNonce \<and> Some (ls_ownerNonce current) \<noteq> ownerNonce then f else NoFile)"

definition releaseHubLandingLease :: "string option \<Rightarrow> 'g hub \<Rightarrow> 'g hub" where
  "releaseHubLandingLease ownerNonce h = h\<lparr>h_lease := released_file ownerNonce (h_lease h)\<rparr>"


subsection \<open>Landing one candidate\<close>

text \<open>The text of an attempt: written here, or the message of the error that was caught.\<close>

datatype attempt_message = MessageText string | MessageOf hub_error

datatype attempt_outcome =
    AttemptLanded HubLandingCommitResult
  | AttemptPendingContention attempt_message
  | AttemptStaleOwnerRejected attempt_message
  | AttemptTargetQuietWait attempt_message "HubLandingQueueTicket option"
  | AttemptNotQueueHead attempt_message
  | AttemptTargetDrift attempt_message

record HubLandingAttemptResult =
  at_outcome :: attempt_outcome
  at_candidate :: HubLandingCandidate
  at_oids :: HubLandingOidEvidence

fun attempt_of_kind :: "HubLandingPendingKind \<Rightarrow> attempt_message \<Rightarrow> attempt_outcome" where
  "attempt_of_kind PendingContention msg = AttemptPendingContention msg"
| "attempt_of_kind TargetDrift msg = AttemptTargetDrift msg"
| "attempt_of_kind StaleOwnerRejected msg = AttemptStaleOwnerRejected msg"
| "attempt_of_kind TargetQuietWait msg = AttemptTargetQuietWait msg None"
| "attempt_of_kind NotQueueHead msg = AttemptNotQueueHead msg"

definition or_else :: "'a option \<Rightarrow> 'a \<Rightarrow> 'a" where
  "or_else v d = (case v of None \<Rightarrow> d | Some x \<Rightarrow> x)"

lemma or_else_simps [simp]: "or_else None d = d" "or_else (Some x) d = x"
  by (simp_all add: or_else_def)

definition oidsFromPending :: "HubLandingOidFields \<Rightarrow> HubLandingOidEvidence \<Rightarrow> HubLandingOidEvidence" where
  "oidsFromPending oids fallback =
     \<lparr>oe_expectedTargetOid = or_else (o_expectedTargetOid oids) (oe_expectedTargetOid fallback),
      oe_observedTargetOid = or_else (o_observedTargetOid oids) (oe_observedTargetOid fallback),
      oe_expectedFenceOid = or_else (o_expectedFenceOid oids) (oe_expectedFenceOid fallback),
      oe_observedFenceOid = or_else (o_observedFenceOid oids) (oe_observedFenceOid fallback)\<rparr>"

definition toLandedAttempt ::
    "HubLandingCandidate \<Rightarrow> HubLandingCommitResult \<Rightarrow> oid option \<Rightarrow> HubLandingAttemptResult" where
  "toLandedAttempt c commit expectedFence =
     \<lparr>at_outcome = AttemptLanded commit, at_candidate = c,
      at_oids = \<lparr>oe_expectedTargetOid = lc_baseOid c, oe_observedTargetOid = cr_publishTargetOid commit,
        oe_expectedFenceOid = or_else expectedFence (cr_fenceOid commit),
        oe_observedFenceOid = cr_fenceOid commit\<rparr>\<rparr>"

definition toPendingAttempt ::
    "HubLandingCandidate \<Rightarrow> HubLandingOidEvidence \<Rightarrow> string \<Rightarrow> HubLandingAttemptResult" where
  "toPendingAttempt c oids msg =
     \<lparr>at_outcome = AttemptPendingContention (MessageText msg), at_candidate = c, at_oids = oids\<rparr>"

text \<open>
  What a landing attempt runs with: the candidate, the lease that the caller holds already, if any, and
  what other processes do to the lease file and to the repository meanwhile.
\<close>

record 'g land_input =
  li_candidate :: HubLandingCandidate
  li_verifierFingerprint :: string
  li_now :: iso_time
  li_clock :: iso_time
  li_probe :: resolved_probe
  li_lease :: "HubLandingLease option"
  li_meanwhile :: "jfile \<Rightarrow> jfile"
  li_race :: "'g \<Rightarrow> 'g"

definition commit_of :: "'g land_input \<Rightarrow> HubLandingLease option \<Rightarrow> commit_input" where
  "commit_of li lease =
     \<lparr>cc_candidate = li_candidate li, cc_verifierFingerprint = li_verifierFingerprint li,
      cc_now = li_now li, cc_clock = li_clock li,
      cc_expectedFenceOid = map_option ls_expectedFenceOid lease,
      cc_ownerNonce = map_option ls_ownerNonce lease\<rparr>"

definition commitCandidateWithLease ::
    "'g env \<Rightarrow> 'g land_input \<Rightarrow> HubLandingLease option \<Rightarrow> ('g, HubLandingAttemptResult) hub_act" where
  "commitCandidateWithLease E li lease =
     bind_act (commitHubLandingTarget E (li_race li) (commit_of li lease)) (\<lambda>commit.
     ret_act (toLandedAttempt (li_candidate li) commit (map_option ls_expectedFenceOid lease)))"

text \<open>\<open>try m finally f\<close>, for an \<open>f\<close> that does not throw.\<close>

definition finally_act :: "('s, 'e, 'a) act \<Rightarrow> ('s \<Rightarrow> 's) \<Rightarrow> ('s, 'e, 'a) act" where
  "finally_act m f = (\<lambda>s. case m s of (r, t) \<Rightarrow> (r, f t))"

definition lease_oids :: "HubLandingLease \<Rightarrow> HubLandingOidEvidence" where
  "lease_oids l =
     \<lparr>oe_expectedTargetOid = ls_expectedTargetOid l, oe_observedTargetOid = ls_expectedTargetOid l,
      oe_expectedFenceOid = ls_expectedFenceOid l, oe_observedFenceOid = ls_expectedFenceOid l\<rparr>"

definition stale_owner_message :: "txn_id \<Rightarrow> string \<Rightarrow> string" where
  "stale_owner_message tx nonce = ''Stale Hub landing owner rejected for '' @ tx @ '': lease nonce ''
     @ nonce @ '' is no longer the owner.''"

definition drift_message :: "txn_id \<Rightarrow> oid \<Rightarrow> oid \<Rightarrow> string" where
  "drift_message tx expected found = ''Hub publish target drifted before landing '' @ tx
     @ '': expected '' @ expected @ '', found '' @ found @ ''.''"

text \<open>The \<open>try\<close> block, once a lease is there.\<close>

definition land_with_lease ::
    "'g env \<Rightarrow> 'g land_input \<Rightarrow> HubLandingLease \<Rightarrow> ('g, HubLandingAttemptResult) hub_act" where
  "land_with_lease E li lease =
    (let c = li_candidate li in
     bind_act (gets_act (\<lambda>h. readHubLandingLease (h_lease h))) (\<lambda>current.
     if li_lease li \<noteq> None \<and> map_option ls_ownerNonce current \<noteq> map_option ls_ownerNonce (li_lease li)
     then ret_act \<lparr>at_outcome = AttemptStaleOwnerRejected (MessageText
           (stale_owner_message (lc_transactionId c) (ls_ownerNonce lease))),
         at_candidate = c,
         at_oids = \<lparr>oe_expectedTargetOid = ls_expectedTargetOid lease,
           oe_observedTargetOid = or_else (map_option ls_expectedTargetOid current) (ls_expectedTargetOid lease),
           oe_expectedFenceOid = ls_expectedFenceOid lease,
           oe_observedFenceOid = or_else (map_option ls_expectedFenceOid current) (ls_expectedFenceOid lease)\<rparr>\<rparr>
     else if ls_expectedTargetOid lease \<noteq> lc_baseOid c
     then ret_act \<lparr>at_outcome = AttemptTargetDrift (MessageText
           (drift_message (lc_transactionId c) (lc_baseOid c) (ls_expectedTargetOid lease))),
         at_candidate = c,
         at_oids = (lease_oids lease)\<lparr>oe_expectedTargetOid := lc_baseOid c\<rparr>\<rparr>
     else
       catch_act (commitCandidateWithLease E li (Some lease)) (\<lambda>e.
         case e of
           HubLandingPendingError k oids \<Rightarrow>
             ret_act \<lparr>at_outcome = attempt_of_kind k (MessageOf e), at_candidate = c,
               at_oids = oidsFromPending oids (lease_oids lease)\<rparr>
         | _ \<Rightarrow> throw_act e)))"

definition landHubCandidateWithLease ::
    "'g env \<Rightarrow> 'g land_input \<Rightarrow> ('g, HubLandingAttemptResult) hub_act" where
  "landHubCandidateWithLease E li =
    (let c = li_candidate li in
     bind_act (gets_act (\<lambda>h. readHubLandingReceipt E (h_git h) (lc_transactionId c))) (\<lambda>existing.
     if map_option (rc_candidateOid \<circ> fst) existing = Some (lc_candidateOid c)
     then commitCandidateWithLease E li (li_lease li)
     else
       bind_act (maybeCrash (e_fault E) SE_landing_lease BeforeEffect) (\<lambda>_.
       bind_act (case li_lease li of
           Some l \<Rightarrow> ret_act (LeaseAcquired l)
         | None \<Rightarrow> acquireHubLandingLease E (li_probe li) (li_meanwhile li) (lc_policy c)) (\<lambda>acquired.
       case acquired of
         LeaseAcquired l \<Rightarrow>
           finally_act
             (bind_act (maybeCrash (e_fault E) SE_landing_lease AfterEffect) (\<lambda>_. land_with_lease E li l))
             (releaseHubLandingLease (Some (ls_ownerNonce l)))
       | LeaseContention owner oids msg \<Rightarrow>
           bind_act (maybeCrash (e_fault E) SE_landing_lease AfterEffect) (\<lambda>_.
           ret_act (toPendingAttempt c oids msg))))))"

subsection \<open>What a landing leaves alone\<close>

text \<open>Candidates and landings do not touch the lease file and the queue file.\<close>

definition same_files :: "'g hub \<Rightarrow> 'g hub \<Rightarrow> bool" where
  "same_files h h' \<longleftrightarrow> h_lease h' = h_lease h \<and> h_queue h' = h_queue h"

interpretation files: kept_relation same_files
  by unfold_locales (simp_all add: same_files_def)

lemma files_append: "moves same_files (appendCheckpoint r)"
  by (simp add: moves_def appendCheckpoint_eq same_files_def)

lemma files_hash: "moves same_files (hashObject E v)"
  by (simp add: moves_def hashObject_eq same_files_def)

lemma files_change: "moves same_files (gitChange f)"
  by (auto simp: moves_def gitChange_def same_files_def split: option.split)

lemma files_crash: "moves same_files (maybeCrash f e t)"
  by (auto simp: moves_def maybeCrash_def throw_act_def ret_act_def same_files_def)

lemma files_rev: "moves same_files (revParse E n)" "moves same_files (tryRevParse E n)"
    "moves same_files (gitRead E g)"
  unfolding revParse_def tryRevParse_def gitRead_def by (intro files.moves_rules)+

lemma moves_case_prod:
  "(\<And>x y. moves R (f x y)) \<Longrightarrow> moves R (case v of (x, y) \<Rightarrow> f x y)"
  by (cases v) simp

lemmas files_rules = moves_case_prod files.moves_rules files_append files_hash files_change files_crash files_rev

lemma files_checkout: "moves same_files (enqueueHubCheckoutProjection E tx t p cand now)"
  unfolding enqueueHubCheckoutProjection_def putCheckout_def Let_def
  by (intro files_rules files.moves_modify) (simp_all add: same_files_def)

lemma files_landed: "moves same_files (toTargetLandedCommit E clock c fp fo rr ro created target)"
  unfolding toTargetLandedCommit_def recordTargetLandedCheckpoint_def
  by (intro files_rules files_checkout)

lemma files_commit: "moves same_files (commitHubLandingTarget E race ci)"
  unfolding commitHubLandingTarget_def assertVerifiedCandidate_def resume_landed_def land_fresh_def
    swap_refs_def failed_cas_def throwFromFailedLandingCas_def throwIfPinnedLandingOidsMismatch_def Let_def
  by (intro files_rules files_landed files.moves_modify) (simp_all add: same_files_def)

lemma finally_act_eq: "finally_act m f s = (fst (m s), f (snd (m s)))"
  by (simp add: finally_act_def split: prod.split)

lemma released_same: "same_files h (releaseHubLandingLease n h) \<longleftrightarrow> released_file n (h_lease h) = h_lease h"
  by (simp add: same_files_def releaseHubLandingLease_def)

lemma release_simps [simp]:
  "h_git (releaseHubLandingLease n h) = h_git h" "h_queue (releaseHubLandingLease n h) = h_queue h"
  "h_journals (releaseHubLandingLease n h) = h_journals h"
  "h_artifact (releaseHubLandingLease n h) = h_artifact h"
  "h_lease (releaseHubLandingLease n h) = released_file n (h_lease h)"
  by (simp_all add: releaseHubLandingLease_def)


subsection \<open>Taking the lease\<close>

definition live_other :: "resolved_probe \<Rightarrow> jfile \<Rightarrow> HubLandingLease option" where
  "live_other p f = (case readHubLandingLease f of
      Some l \<Rightarrow> if isLiveHubLandingLeaseOwner p l \<and> \<not> isSameProcessOwner l (pr_identity p)
        then Some l else None
    | None \<Rightarrow> None)"

definition held_evidence :: "HubLandingLease \<Rightarrow> oid \<Rightarrow> oid \<Rightarrow> HubLandingOidEvidence" where
  "held_evidence l target fence =
     \<lparr>oe_expectedTargetOid = ls_expectedTargetOid l, oe_observedTargetOid = target,
      oe_expectedFenceOid = ls_expectedFenceOid l, oe_observedFenceOid = fence\<rparr>"

lemma check_lease_eq:
  "check_lease E p policy h =
    (case g_rev_parse (e_git E) (h_git h) (p_publishTargetRef policy) of
       None \<Rightarrow> (Inl GitError, h)
     | Some target \<Rightarrow> (case g_rev_parse (e_git E) (h_git h) (p_fenceRef policy) of
         None \<Rightarrow> (Inl GitError, h)
       | Some fence \<Rightarrow> (Inr (case live_other p (h_lease h) of
             None \<Rightarrow> Inr (target, fence)
           | Some l \<Rightarrow> Inl (LeaseContention l (held_evidence l target fence) (lease_held_message l))), h)))"
  by (auto simp: check_lease_def revParse_def act_defs live_other_def held_evidence_def split: option.split)

lemma new_lease_simps [simp]:
  "ls_ownerNonce (new_lease p target fence) = pr_nonce p"
  "ls_expectedTargetOid (new_lease p target fence) = target"
  "ls_expectedFenceOid (new_lease p target fence) = fence"
  by (simp_all add: new_lease_def)

definition written_lease :: "resolved_probe \<Rightarrow> (jfile \<Rightarrow> jfile) \<Rightarrow> oid \<Rightarrow> oid \<Rightarrow> jfile" where
  "written_lease p meanwhile target fence = meanwhile (Text (lease_json (new_lease p target fence)))"

lemma write_lease_eq:
  "write_lease p meanwhile (target, fence) h =
    (let f = written_lease p meanwhile target fence in
     (Inr (case readHubLandingLease f of
         Some l \<Rightarrow> if ls_ownerNonce l = pr_nonce p then LeaseAcquired l
           else LeaseContention l (held_evidence (new_lease p target fence) target fence) lease_raced_message
       | None \<Rightarrow> LeaseContention (new_lease p target fence)
           (held_evidence (new_lease p target fence) target fence) lease_raced_message),
      h\<lparr>h_lease := f\<rparr>))"
  by (simp add: write_lease_def act_defs Let_def written_lease_def held_evidence_def split: option.split)

lemma acquire_cases:
  assumes "acquireHubLandingLease E p meanwhile policy h = (r, h')"
  obtains (failed) "r = Inl GitError" "h' = h"
  | (held) l target fence where "live_other p (h_lease h) = Some l" "h' = h"
      "r = Inr (LeaseContention l (held_evidence l target fence) (lease_held_message l))"
  | (raced) target fence l oids where "live_other p (h_lease h) = None"
      "h' = h\<lparr>h_lease := written_lease p meanwhile target fence\<rparr>"
      "map_option ls_ownerNonce (readHubLandingLease (h_lease h')) \<noteq> Some (pr_nonce p)"
      "r = Inr (LeaseContention l oids lease_raced_message)"
  | (acquired) target fence l where "live_other p (h_lease h) = None"
      "h' = h\<lparr>h_lease := written_lease p meanwhile target fence\<rparr>"
      "readHubLandingLease (h_lease h') = Some l" "ls_ownerNonce l = pr_nonce p"
      "r = Inr (LeaseAcquired l)"
      "g_rev_parse (e_git E) (h_git h) (p_publishTargetRef policy) = Some target"
      "g_rev_parse (e_git E) (h_git h) (p_fenceRef policy) = Some fence"
proof (cases "g_rev_parse (e_git E) (h_git h) (p_publishTargetRef policy)")
  case None
  with assms show ?thesis
    by (intro failed) (auto simp: acquireHubLandingLease_def bind_act_def check_lease_eq)
next
  case (Some target)
  note t = Some
  show ?thesis
  proof (cases "g_rev_parse (e_git E) (h_git h) (p_fenceRef policy)")
    case None
    with t assms show ?thesis
      by (intro failed) (auto simp: acquireHubLandingLease_def bind_act_def check_lease_eq)
  next
    case (Some fence)
    note run = assms [unfolded acquireHubLandingLease_def bind_act_def check_lease_eq t Some option.case]
    show ?thesis
    proof (cases "live_other p (h_lease h)")
      case (Some l)
      with run show ?thesis by (intro held) (auto simp: ret_act_def)
    next
      case None
      with run have w: "write_lease p meanwhile (target, fence) h = (r, h')" by simp
      show ?thesis
      proof (cases "map_option ls_ownerNonce (readHubLandingLease (written_lease p meanwhile target fence))
          = Some (pr_nonce p)")
        case True
        then obtain l where "readHubLandingLease (written_lease p meanwhile target fence) = Some l"
          "ls_ownerNonce l = pr_nonce p" by auto
        with w None t Some show ?thesis
          by (intro acquired [of target fence l]) (auto simp: write_lease_eq Let_def)
      next
        case False
        with w have "\<exists>l oids. r = Inr (LeaseContention l oids lease_raced_message)"
          by (cases "readHubLandingLease (written_lease p meanwhile target fence)")
            (auto simp: write_lease_eq Let_def)
        with w None False show ?thesis
          by (elim exE, intro raced [of target fence]) (auto simp: write_lease_eq Let_def)
      qed
    qed
  qed
qed

text \<open>What landing under a lease comes to.\<close>

lemma land_with_lease_cases:
  assumes "land_with_lease E li l h = (r, h')"
  obtains (refused) a where "r = Inr a" "h' = h" "\<nexists>c. at_outcome a = AttemptLanded c"
      "at_candidate a = li_candidate li"
      "\<forall>msg. at_outcome a = AttemptTargetDrift msg \<longrightarrow> ls_expectedTargetOid l \<noteq> lc_baseOid (li_candidate li)"
  | (landed) c where
      "commitHubLandingTarget E (li_race li) (commit_of li (Some l)) h = (Inr c, h')"
      "r = Inr (toLandedAttempt (li_candidate li) c (Some (ls_expectedFenceOid l)))"
  | (pending) k oids where
      "commitHubLandingTarget E (li_race li) (commit_of li (Some l)) h = (Inl (HubLandingPendingError k oids), h')"
      "r = Inr \<lparr>at_outcome = attempt_of_kind k (MessageOf (HubLandingPendingError k oids)),
        at_candidate = li_candidate li, at_oids = oidsFromPending oids (lease_oids l)\<rparr>"
  | (failed) e where
      "commitHubLandingTarget E (li_race li) (commit_of li (Some l)) h = (Inl e, h')"
      "r = Inl e" "\<nexists>k oids. e = HubLandingPendingError k oids"
proof (cases "li_lease li \<noteq> None
    \<and> map_option ls_ownerNonce (readHubLandingLease (h_lease h)) \<noteq> map_option ls_ownerNonce (li_lease li)")
  case True
  with assms show ?thesis
    by (intro refused) (auto simp: land_with_lease_def Let_def act_defs)
next
  case False
  note mine = False
  show ?thesis
  proof (cases "ls_expectedTargetOid l = lc_baseOid (li_candidate li)")
    case False
    with mine assms show ?thesis
      by (intro refused) (auto simp: land_with_lease_def Let_def act_defs)
  next
    case True
    obtain x h1 where run: "commitHubLandingTarget E (li_race li) (commit_of li (Some l)) h = (x, h1)"
      by fastforce
    have eq: "(r, h') = (case x of
        Inr c \<Rightarrow> (Inr (toLandedAttempt (li_candidate li) c (Some (ls_expectedFenceOid l))), h1)
      | Inl e \<Rightarrow> (case e of HubLandingPendingError k oids \<Rightarrow>
          ret_act \<lparr>at_outcome = attempt_of_kind k (MessageOf e), at_candidate = li_candidate li,
            at_oids = oidsFromPending oids (lease_oids l)\<rparr> | _ \<Rightarrow> throw_act e) h1)"
      using assms mine True run
      by (auto simp: land_with_lease_def Let_def bind_act_def gets_act_def catch_act_def
          commitCandidateWithLease_def ret_act_def split: sum.splits)
    show ?thesis
    proof (cases x)
      case (Inr c)
      with eq run show ?thesis by (intro landed [of c]) simp_all
    next
      case (Inl e)
      show ?thesis
      proof (cases "\<exists>k oids. e = HubLandingPendingError k oids")
        case True
        then obtain k oids where "e = HubLandingPendingError k oids" by blast
        with eq run Inl show ?thesis by (intro pending [of k oids]) (simp_all add: ret_act_def)
      next
        case False
        with eq run Inl show ?thesis
          by (intro failed [of e]) (auto simp: throw_act_def split: hub_error.splits)
      qed
    qed
  qed
qed

lemma files_land_with_lease: "moves same_files (land_with_lease E li l)"
proof -
  have "same_files h h'" if run: "land_with_lease E li l h = (r, h')" for h h' r
    using run
    by (cases rule: land_with_lease_cases)
      (auto simp: files.kept_refl intro: moves_result [OF files_commit])
  then show ?thesis by (simp add: moves_def) (metis prod.collapse)
qed

text \<open>The branches of a landing attempt without a lease of the caller.\<close>

lemma land_cases:
  assumes "landHubCandidateWithLease E li h = (r, h')" and "li_lease li = None"
    and "e_fault E = no_faults"
  obtains (again) receipt ro where
      "readHubLandingReceipt E (h_git h) (lc_transactionId (li_candidate li)) = Some (receipt, ro)"
      "rc_candidateOid receipt = lc_candidateOid (li_candidate li)"
      "commitCandidateWithLease E li None h = (r, h')"
  | (failed) "r = Inl GitError" "h' = h"
  | (held) l oids where "live_other (li_probe li) (h_lease h) = Some l" "h' = h"
      "r = Inr (toPendingAttempt (li_candidate li) oids (lease_held_message l))"
  | (raced) target fence oids where "live_other (li_probe li) (h_lease h) = None"
      "h' = h\<lparr>h_lease := written_lease (li_probe li) (li_meanwhile li) target fence\<rparr>"
      "map_option ls_ownerNonce (readHubLandingLease (h_lease h')) \<noteq> Some (pr_nonce (li_probe li))"
      "r = Inr (toPendingAttempt (li_candidate li) oids lease_raced_message)"
  | (leased) target fence l h1 where "live_other (li_probe li) (h_lease h) = None"
      "readHubLandingLease (written_lease (li_probe li) (li_meanwhile li) target fence) = Some l"
      "ls_ownerNonce l = pr_nonce (li_probe li)"
      "land_with_lease E li l
        (h\<lparr>h_lease := written_lease (li_probe li) (li_meanwhile li) target fence\<rparr>) = (r, h1)"
      "h' = releaseHubLandingLease (Some (ls_ownerNonce l)) h1"
      "h_lease h1 = written_lease (li_probe li) (li_meanwhile li) target fence"
proof -
  let ?tx = "lc_transactionId (li_candidate li)" and ?cand = "lc_candidateOid (li_candidate li)"
  show ?thesis
  proof (cases "map_option (rc_candidateOid \<circ> fst) (readHubLandingReceipt E (h_git h) ?tx) = Some ?cand")
    case True
    then obtain receipt ro where "readHubLandingReceipt E (h_git h) ?tx = Some (receipt, ro)"
      "rc_candidateOid receipt = ?cand" by auto
    with True assms(1) show ?thesis
      by (intro again) (auto simp: landHubCandidateWithLease_def Let_def bind_act_def gets_act_def assms(2))
  next
    case False
    obtain x h2 where acq: "acquireHubLandingLease E (li_probe li) (li_meanwhile li)
        (lc_policy (li_candidate li)) h = (x, h2)" by fastforce
    have gets: "bind_act (gets_act f) k = (\<lambda>s. k (f s) s)" for f :: "'a hub \<Rightarrow> 'b"
        and k :: "'b \<Rightarrow> ('a, HubLandingAttemptResult) hub_act"
      by (simp add: bind_act_def gets_act_def fun_eq_iff)
    have "landHubCandidateWithLease E li h = bind_act (acquireHubLandingLease E (li_probe li)
        (li_meanwhile li) (lc_policy (li_candidate li))) (\<lambda>acquired. case acquired of
          LeaseAcquired l \<Rightarrow> finally_act (land_with_lease E li l)
            (releaseHubLandingLease (Some (ls_ownerNonce l)))
        | LeaseContention owner oids msg \<Rightarrow> ret_act (toPendingAttempt (li_candidate li) oids msg)) h"
      unfolding landHubCandidateWithLease_def Let_def gets if_not_P [OF False] assms(2,3) option.case
        maybeCrash_no_faults bind_act_ret_left ..
    then have run: "(r, h') = (case x of Inl e \<Rightarrow> (Inl e, h2)
      | Inr (LeaseAcquired l) \<Rightarrow> finally_act (land_with_lease E li l)
          (releaseHubLandingLease (Some (ls_ownerNonce l))) h2
      | Inr (LeaseContention owner oids msg) \<Rightarrow> (Inr (toPendingAttempt (li_candidate li) oids msg), h2))"
      using assms(1) acq
      by (auto simp: bind_act_def ret_act_def split: sum.split HubLandingLeaseAcquireResult.split)
    from acq show ?thesis
    proof (cases rule: acquire_cases)
      case failed
      with run that(2) show ?thesis by simp
    next
      case (held l target fence)
      with run that(3) show ?thesis by simp
    next
      case (raced target fence l oids)
      with run that(4) show ?thesis by simp
    next
      case (acquired target fence l)
      let ?h2 = "h\<lparr>h_lease := written_lease (li_probe li) (li_meanwhile li) target fence\<rparr>"
      obtain y h1 where y: "land_with_lease E li l ?h2 = (y, h1)" by fastforce
      from moves_result [OF files_land_with_lease y] have "h_lease h1 = h_lease ?h2"
        by (simp add: same_files_def)
      with y acquired run that(5) [of target fence l h1] show ?thesis
        by (simp add: finally_act_eq)
    qed
  qed
qed

subsection \<open>What the lease promises\<close>

lemma read_new_lease:
  "lease_ok (new_lease p target fence) \<Longrightarrow>
     readHubLandingLease (Text (lease_json (new_lease p target fence))) = Some (new_lease p target fence)"
  unfolding readHubLandingLease_def by (rule lease_codec.read_written)

text \<open>
  C21: On a quiet file the lease is refused exactly when it names a process that is alive, in this boot and
  with the same start, and is not the asking one: then nothing changes, however long ago the lease
  expired. In every other case, a dead owner, a reused process id, another boot, the own process or an
  unreadable file, the asking process gets a lease with its own nonce and the refs it observed.
\<close>

theorem lease_excludes_live_owners:
  assumes "g_rev_parse (e_git E) (h_git h) (p_publishTargetRef policy) = Some target"
    and "g_rev_parse (e_git E) (h_git h) (p_fenceRef policy) = Some fence"
    and "lease_ok (new_lease p target fence)"
  shows "acquireHubLandingLease E p id policy h =
    (case readHubLandingLease (h_lease h) of
       Some l \<Rightarrow>
         if pr_boot p = Some (ls_bootIdentity l) \<and> pr_start p (ls_pid l) = Some (ls_processStartIdentity l)
            \<and> pr_alive p (ls_pid l) \<and> \<not> isSameProcessOwner l (pr_identity p)
         then (Inr (LeaseContention l (held_evidence l target fence) (lease_held_message l)), h)
         else (Inr (LeaseAcquired (new_lease p target fence)),
               h\<lparr>h_lease := Text (lease_json (new_lease p target fence))\<rparr>)
     | None \<Rightarrow> (Inr (LeaseAcquired (new_lease p target fence)),
               h\<lparr>h_lease := Text (lease_json (new_lease p target fence))\<rparr>))"
proof -
  have w: "write_lease p id (target, fence) h = (Inr (LeaseAcquired (new_lease p target fence)),
      h\<lparr>h_lease := Text (lease_json (new_lease p target fence))\<rparr>)"
    using read_new_lease [OF assms(3)] by (simp add: write_lease_eq written_lease_def Let_def)
  show ?thesis
    unfolding acquireHubLandingLease_def bind_act_def check_lease_eq assms(1,2) option.case
    by (auto simp: live_other_def isLiveHubLandingLeaseOwner_def w ret_act_def split: option.split)
qed

text \<open>
  C29: The file lease alone does not exclude. When a second process takes the lease after the first has
  looked at the file and before it writes, both are told that they have it.
\<close>

theorem lease_is_only_advisory:
  assumes "check_lease E p policy h = (Inr (Inr seen), h)"
    and "acquireHubLandingLease E q id policy h = (Inr (LeaseAcquired other), h1)"
    and "lease_ok (new_lease p (fst seen) (snd seen))"
  shows "\<exists>mine h2. write_lease p id seen h1 = (Inr (LeaseAcquired mine), h2)
    \<and> ls_ownerNonce mine = pr_nonce p \<and> ls_ownerNonce other = pr_nonce q
    \<and> h_git h2 = h_git h"
proof -
  obtain target fence where seen: "seen = (target, fence)" by (cases seen)
  have "write_lease p id seen h1 = (Inr (LeaseAcquired (new_lease p target fence)),
      h1\<lparr>h_lease := Text (lease_json (new_lease p target fence))\<rparr>)"
    using read_new_lease [of p target fence] assms(3) seen
    by (simp add: write_lease_eq written_lease_def Let_def)
  moreover from assms(2) have "ls_ownerNonce other = pr_nonce q \<and> h_git h1 = h_git h"
    by (cases rule: acquire_cases) auto
  ultimately show ?thesis by simp
qed

text \<open>
  Where the start of a process cannot be read, the lease excludes nobody: the identity that is
  written into it then is never found again, so every such lease counts as that of a dead process and a
  second process takes it over while its owner is alive and landing.
\<close>

theorem lease_without_start_time_excludes_nobody:
  assumes "acquireHubLandingLease E (resolveProbe mine clock nonce no_probe) id policy h
      = (Inr (LeaseAcquired l), h1)"
    and "os_stat yours (os_pid mine) = None"
    and "lease_ok (new_lease (resolveProbe mine clock nonce no_probe) target fence)"
    and "lease_ok (new_lease (resolveProbe yours clock' nonce' no_probe) target fence)"
    and "g_rev_parse (e_git E) (h_git h) (p_publishTargetRef policy) = Some target"
    and "g_rev_parse (e_git E) (h_git h) (p_fenceRef policy) = Some fence"
  shows "\<exists>l' h2. acquireHubLandingLease E (resolveProbe yours clock' nonce' no_probe) id policy h1
      = (Inr (LeaseAcquired l'), h2) \<and> ls_ownerNonce l' = nonce' \<and> ls_pid l = os_pid mine"
proof -
  let ?p = "resolveProbe mine clock nonce no_probe" and ?q = "resolveProbe yours clock' nonce' no_probe"
  from assms(1) have h1: "h1 = h\<lparr>h_lease := Text (lease_json (new_lease ?p target fence))\<rparr>"
      and l: "l = new_lease ?p target fence"
    by (cases rule: acquire_cases, auto simp: written_lease_def assms(5,6) read_new_lease [OF assms(3)])+
  have pid: "ls_pid (new_lease ?p target fence) = os_pid mine"
    by (simp add: new_lease_def resolveProbe_def no_probe_def readHubLandingProcessIdentity_def Let_def)
  have "pr_start ?q (os_pid mine) = None"
    using assms(2) by (simp add: resolveProbe_def no_probe_def readProcessStartIdentity_def Let_def)
  then have "live_other ?q (h_lease h1) = None"
    by (simp add: h1 live_other_def read_new_lease [OF assms(3)] isLiveHubLandingLeaseOwner_def pid)
  then have "acquireHubLandingLease E ?q id policy h1 = write_lease ?q id (target, fence) h1"
    unfolding acquireHubLandingLease_def bind_act_def check_lease_eq by (simp add: h1 assms(5,6))
  also have "\<dots> = (Inr (LeaseAcquired (new_lease ?q target fence)),
      h1\<lparr>h_lease := Text (lease_json (new_lease ?q target fence))\<rparr>)"
    using read_new_lease [OF assms(4)] by (simp add: write_lease_eq written_lease_def Let_def)
  finally show ?thesis
    by (simp add: l pid) (simp add: resolveProbe_def no_probe_def Let_def)
qed

text \<open>
  No lease is left behind. However a landing attempt ends, thrown errors included, the lease file
  does not hold a lease with the nonce of this attempt.
\<close>

theorem lease_never_left_behind:
  assumes "landHubCandidateWithLease E li h = (r, h')" and "li_lease li = None"
    and "e_fault E = no_faults" and "pr_nonce (li_probe li) \<noteq> []"
    and "map_option ls_ownerNonce (readHubLandingLease (h_lease h)) \<noteq> Some (pr_nonce (li_probe li))"
  shows "map_option ls_ownerNonce (readHubLandingLease (h_lease h')) \<noteq> Some (pr_nonce (li_probe li))"
  using assms(1-3)
proof (cases rule: land_cases)
  case (again receipt ro)
  have "moves same_files (commitCandidateWithLease E li None)"
    unfolding commitCandidateWithLease_def by (intro files.moves_rules files_commit)
  from moves_result [OF this again(3)] assms(5) show ?thesis by (simp add: same_files_def)
next
  case (leased target fence l h1)
  then have "released_file (Some (ls_ownerNonce l)) (h_lease h1) = NoFile"
    by (simp add: released_file_def)
  with leased(5) show ?thesis by (simp add: readHubLandingLease_def)
qed (use assms(5) in simp_all)

subsection \<open>What a landing attempt comes to\<close>

text \<open>The refs are as they were, or as other processes left them, starting from what they were.\<close>

definition moved_by_others :: "'g env \<Rightarrow> ('g \<Rightarrow> 'g) \<Rightarrow> 'g \<Rightarrow> 'g \<Rightarrow> bool" where
  "moved_by_others E race g g' \<longleftrightarrow>
     g_rev_parse (e_git E) g' = g_rev_parse (e_git E) g
     \<or> (\<exists>same. g_rev_parse (e_git E) same = g_rev_parse (e_git E) g \<and> g' = race same)"

lemma commit_of_simps [simp]:
  "cc_candidate (commit_of li l) = li_candidate li"
  "cc_verifierFingerprint (commit_of li l) = li_verifierFingerprint li"
  by (simp_all add: commit_of_def)

lemma commit_pending:
  assumes "git_laws (e_git E)"
    and "commitHubLandingTarget E race ci h = (Inl (HubLandingPendingError k oids), h')"
  shows "moved_by_others E race (h_git h) (h_git h')"
proof -
  have "(\<forall>q. g_rev_parse (e_git E) (h_git h') q = g_rev_parse (e_git E) (h_git h) q)
      \<or> h_git h' = race (fence_written E ci h)"
    using commit_fails_cleanly [OF assms] by simp
  with objects_refs [OF assms(1), of ci h] show ?thesis
    by (auto simp: moved_by_others_def)
qed

lemma again_not_pending:
  assumes "readHubLandingReceipt E (h_git h) (lc_transactionId (cc_candidate ci)) \<noteq> None"
  shows "commitHubLandingTarget E race ci h \<noteq> (Inl (HubLandingPendingError k oids), h')"
proof
  assume "commitHubLandingTarget E race ci h = (Inl (HubLandingPendingError k oids), h')"
  from commit_cases [OF this] assms obtain receipt ro where
      "resume_landed E ci receipt ro h = (Inl (HubLandingPendingError k oids), h')"
    by (auto simp: assert_not_pending)
  from resume_landed_Inl [OF this] show False by simp
qed

definition landed_evidence :: "'g env \<Rightarrow> 'g land_input \<Rightarrow> 'g hub \<Rightarrow> 'g hub \<Rightarrow> oid \<Rightarrow> bool" where
  "landed_evidence E li h h' receiptOid \<longleftrightarrow>
     (\<exists>a. readHubLandingVerificationArtifact h (lc_transactionId (li_candidate li)) = Some a
        \<and> va_candidateOid a = lc_candidateOid (li_candidate li)
        \<and> va_verifierFingerprint a = li_verifierFingerprint li \<and> va_exitCode a = 0)
     \<and> (\<exists>receipt. readHubLandingReceipt E (h_git h') (lc_transactionId (li_candidate li))
          = Some (receipt, receiptOid)
        \<and> rc_candidateOid receipt = lc_candidateOid (li_candidate li))"

lemma commit_evidence:
  assumes "git_laws (e_git E)" and "keeps_objects (e_git E) (li_race li)"
    and "distinct_refs (commit_of li l)"
    and "commitHubLandingTarget E (li_race li) (commit_of li l) h = (Inr c, h')"
  shows "landed_evidence E li h h' (cr_receiptOid c)"
  using commit_lands_verified [OF assms] unfolding landed_evidence_def by simp

lemma distinct_refs_lease: "distinct_refs (commit_of li l) \<longleftrightarrow> distinct_refs (commit_of li None)"
  by (simp add: distinct_refs_def receipt_ref_def)

lemma evidence_files:
  "landed_evidence E li (h\<lparr>h_lease := f\<rparr>) h1 r \<longleftrightarrow> landed_evidence E li h h1 r"
  "landed_evidence E li h (releaseHubLandingLease n h1) r \<longleftrightarrow> landed_evidence E li h h1 r"
  by (simp_all add: landed_evidence_def readHubLandingVerificationArtifact_def)

lemma attempt_of_kind_not_landed: "attempt_of_kind k msg \<noteq> AttemptLanded c"
  by (cases k) simp_all

lemma attempt_facts:
  assumes "git_laws (e_git E)" and "keeps_objects (e_git E) (li_race li)"
    and "distinct_refs (commit_of li None)" and "li_lease li = None" and "e_fault E = no_faults"
    and run: "landHubCandidateWithLease E li h = (r, h')"
  shows "case r of
      Inl e \<Rightarrow> \<forall>k oids. e \<noteq> HubLandingPendingError k oids
    | Inr a \<Rightarrow> at_candidate a = li_candidate li \<and>
       (case at_outcome a of
          AttemptLanded c \<Rightarrow> landed_evidence E li h h' (cr_receiptOid c)
        | _ \<Rightarrow> moved_by_others E (li_race li) (h_git h) (h_git h'))"
  using run assms(4,5)
proof (cases rule: land_cases)
  case (again receipt ro)
  obtain x h1 where c: "commitHubLandingTarget E (li_race li) (commit_of li None) h = (x, h1)" by fastforce
  have none: "x \<noteq> Inl (HubLandingPendingError k oids)" for k oids
    using again_not_pending [of E h "commit_of li None" "li_race li" k oids h1] again(1) c by auto
  show ?thesis
  proof (cases x)
    case (Inl e)
    with again(3) c none show ?thesis by (auto simp: commitCandidateWithLease_def bind_act_def)
  next
    case (Inr commit)
    with again(3) c have "r = Inr (toLandedAttempt (li_candidate li) commit None)" "h' = h1"
      by (auto simp: commitCandidateWithLease_def bind_act_def ret_act_def)
    with commit_evidence [OF assms(1-3)] c Inr show ?thesis by (simp add: toLandedAttempt_def)
  qed
next
  case (leased target fence l h1)
  note d = assms(3) [folded distinct_refs_lease [of li "Some l"]]
  from leased(4) show ?thesis
  proof (cases rule: land_with_lease_cases)
    case (refused a)
    then show ?thesis
      by (auto simp: leased(5) moved_by_others_def split: attempt_outcome.splits)
  next
    case (landed c)
    from commit_evidence [OF assms(1,2) d landed(1)] landed(2) leased(5) show ?thesis
      by (simp add: toLandedAttempt_def evidence_files)
  next
    case (pending k oids)
    from commit_pending [OF assms(1) pending(1)] pending(2) leased(5) show ?thesis
      by (cases k) simp_all
  next
    case (failed e)
    then show ?thesis by simp
  qed
qed (auto simp: toPendingAttempt_def moved_by_others_def)

text \<open>
  C8: What a landing attempt reports is what happened. It reports a landing only with a successful
  verification of exactly this candidate on disk and the receipt for it in the repository; whatever else
  it reports, contention, drift or a stale owner, it has moved no ref; and none of these is ever thrown.
\<close>

theorem attempt_reports_what_happened:
  assumes "git_laws (e_git E)" and "keeps_objects (e_git E) (li_race li)"
    and "distinct_refs (commit_of li None)" and "li_lease li = None" and "e_fault E = no_faults"
    and "landHubCandidateWithLease E li h = (r, h')"
  shows "case r of
      Inl e \<Rightarrow> \<forall>k oids. e \<noteq> HubLandingPendingError k oids
    | Inr a \<Rightarrow> at_candidate a = li_candidate li \<and>
       (case at_outcome a of
          AttemptLanded c \<Rightarrow> landed_evidence E li h h' (cr_receiptOid c)
        | _ \<Rightarrow> moved_by_others E (li_race li) (h_git h) (h_git h'))"
  using assms by (rule attempt_facts)

text \<open>
  C20: Two overlapping landings on one target land once. When a landing went through, a second candidate
  that was built on the same base, and whose process may hold a lease of its own, is turned away and
  changes nothing in the repository.
\<close>

theorem overlapping_landings_land_once:
  assumes "landed_atomically E race first h (h_git h1)"
    and "p_publishTargetRef (lc_policy (cc_candidate second)) = p_publishTargetRef (lc_policy (cc_candidate first))"
    and "lc_baseOid (cc_candidate second) = lc_baseOid (cc_candidate first)"
    and "lc_candidateOid (cc_candidate first) \<noteq> lc_baseOid (cc_candidate first)"
    and "readHubLandingReceipt E (h_git h1) (lc_transactionId (cc_candidate second)) = None"
  shows "\<exists>e. commitHubLandingTarget E race' second h1 = (Inl e, h1)"
proof -
  obtain x h2 where run: "commitHubLandingTarget E race' second h1 = (x, h2)" by fastforce
  have target: "observed_target E second (h_git h1) \<noteq> Some (lc_baseOid (cc_candidate second))"
    using assms(1-4) by (simp add: landed_atomically_def Let_def observed_target_def)
  from commit_cases [OF run] show ?thesis
  proof (elim disjE exE conjE)
    fix a
    assume "case readHubLandingReceipt E (h_git h1) (lc_transactionId (cc_candidate second)) of
           Some (receipt, ro) \<Rightarrow> resume_landed E second receipt ro h1 = (x, h2)
         | None \<Rightarrow> land_fresh E race' second h1 = (x, h2)"
    with assms(5) have fresh: "land_fresh E race' second h1 = (x, h2)" by simp
    obtain e where "land_fresh E race' second h1 = (Inl e, h1)"
    proof (cases "observed_target E second (h_git h1)")
      case None
      with that show ?thesis
        by (simp add: land_fresh_def Let_def bind_act_def revParse_def demand_act_def observed_target_def)
    next
      case (Some t)
      with that target show ?thesis
        by (cases "observed_fence E second (h_git h1)")
          (simp_all add: land_fresh_def Let_def bind_act_def revParse_def demand_act_def
            observed_target_def observed_fence_def throwIfPinnedLandingOidsMismatch_def landing_oids_def
            throw_act_def)
    qed
    with fresh run show ?thesis by auto
  qed (use run in auto)
qed

subsection \<open>Two processes in the demonstration world\<close>

definition demo_clock :: lease_clock where
  "demo_clock = \<lparr>cl_now = ''2'', cl_after = (\<lambda>_. ''3'')\<rparr>"

text \<open>A process with the given id, as its own process table shows it.\<close>

definition demo_table :: "int \<Rightarrow> process_table" where
  "demo_table pid = \<lparr>os_pid = pid, os_stat = (\<lambda>_. None), os_boot_id = Some ''b'', os_kill = (\<lambda>_. KillReturns)\<rparr>"

definition demo_probe :: "int \<Rightarrow> string \<Rightarrow> resolved_probe" where
  "demo_probe pid nonce = resolveProbe (demo_table pid) demo_clock nonce
     (no_probe\<lparr>po_readProcessStartIdentity := Some (\<lambda>p. Some (show_int p @ '':unknown''))\<rparr>)"

definition demo_land :: "demo_world land_input" where
  "demo_land = \<lparr>li_candidate = demo_candidate, li_verifierFingerprint = ''fp'', li_now = ''2'',
     li_clock = ''2'', li_probe = demo_probe 7 ''n'', li_lease = None, li_meanwhile = id, li_race = id\<rparr>"

abbreviation "demo_target \<equiv> demo_oid (CHR ''a'')"

abbreviation "demo_fence \<equiv> demo_oid (CHR ''f'')"

lemma demo_refs:
  "g_rev_parse (e_git demo_env) (h_git demo_verified) (p_publishTargetRef (lc_policy demo_candidate))
     = Some demo_target"
  "g_rev_parse (e_git demo_env) (h_git demo_verified) (p_fenceRef (lc_policy demo_candidate))
     = Some demo_fence"
  by (simp_all add: demo_env_def demo_git_def mem_git_def demo_verified_def demo_hub_def demo_state_def
      demo_candidate_def fresh_policy_def)

lemma demo_lease_ok:
  "lease_ok (new_lease (demo_probe 7 ''n'') demo_target demo_fence)"
  "lease_ok (new_lease (demo_probe 8 ''m'') demo_target demo_fence)"
  "lease_ok (new_lease (resolveProbe (demo_table 7) demo_clock ''n'' no_probe) demo_target demo_fence)"
  "lease_ok (new_lease (resolveProbe (demo_table 8) demo_clock ''m'' no_probe) demo_target demo_fence)"
  by code_simp+

lemma demo_no_lease: "h_lease demo_verified = NoFile"
  by (simp add: demo_verified_def demo_hub_def)

definition demo_leased :: "demo_world hub" where
  "demo_leased = demo_verified\<lparr>h_lease := Text (lease_json (new_lease (demo_probe 7 ''n'') demo_target demo_fence))\<rparr>"

theorem lease_excludes_live_owners_witness:
  "acquireHubLandingLease demo_env (demo_probe 8 ''m'') id (lc_policy demo_candidate) demo_leased
     = (Inr (LeaseContention (new_lease (demo_probe 7 ''n'') demo_target demo_fence)
         (held_evidence (new_lease (demo_probe 7 ''n'') demo_target demo_fence) demo_target demo_fence)
         (lease_held_message (new_lease (demo_probe 7 ''n'') demo_target demo_fence))), demo_leased)"
proof -
  let ?l = "new_lease (demo_probe 7 ''n'') demo_target demo_fence"
  have refs: "g_rev_parse (e_git demo_env) (h_git demo_leased) (p_publishTargetRef (lc_policy demo_candidate))
      = Some demo_target"
    "g_rev_parse (e_git demo_env) (h_git demo_leased) (p_fenceRef (lc_policy demo_candidate)) = Some demo_fence"
    using demo_refs by (simp_all add: demo_leased_def)
  have "pr_boot (demo_probe 8 ''m'') = Some (ls_bootIdentity ?l)
      \<and> pr_start (demo_probe 8 ''m'') (ls_pid ?l) = Some (ls_processStartIdentity ?l)
      \<and> pr_alive (demo_probe 8 ''m'') (ls_pid ?l) \<and> \<not> isSameProcessOwner ?l (pr_identity (demo_probe 8 ''m''))"
    by code_simp
  with lease_excludes_live_owners [OF refs demo_lease_ok(2)] show ?thesis
    by (simp add: demo_leased_def read_new_lease [OF demo_lease_ok(1)])
qed

lemma demo_acquired:
  "acquireHubLandingLease demo_env p id (lc_policy demo_candidate) demo_verified
     = write_lease p id (demo_target, demo_fence) demo_verified"
  unfolding acquireHubLandingLease_def bind_act_def check_lease_eq demo_refs option.case
  by (simp add: demo_no_lease live_other_def readHubLandingLease_def)

lemma demo_written:
  "lease_ok (new_lease p demo_target demo_fence) \<Longrightarrow>
     write_lease p id (demo_target, demo_fence) h
       = (Inr (LeaseAcquired (new_lease p demo_target demo_fence)),
          h\<lparr>h_lease := Text (lease_json (new_lease p demo_target demo_fence))\<rparr>)"
  by (simp add: write_lease_eq written_lease_def Let_def read_new_lease)

theorem lease_is_only_advisory_witness:
  "\<exists>other h1 mine h2.
     acquireHubLandingLease demo_env (demo_probe 8 ''m'') id (lc_policy demo_candidate) demo_verified
       = (Inr (LeaseAcquired other), h1)
     \<and> write_lease (demo_probe 7 ''n'') id (demo_target, demo_fence) h1 = (Inr (LeaseAcquired mine), h2)
     \<and> ls_ownerNonce mine \<noteq> ls_ownerNonce other"
proof -
  have look: "check_lease demo_env (demo_probe 7 ''n'') (lc_policy demo_candidate) demo_verified
      = (Inr (Inr (demo_target, demo_fence)), demo_verified)"
    unfolding check_lease_eq demo_refs option.case
    by (simp add: demo_no_lease live_other_def readHubLandingLease_def)
  note take = demo_acquired [of "demo_probe 8 ''m''", unfolded demo_written [OF demo_lease_ok(2)]]
  have "pr_nonce (demo_probe 7 ''n'') \<noteq> pr_nonce (demo_probe 8 ''m'')" by code_simp
  with lease_is_only_advisory [OF look take] demo_lease_ok(1) take show ?thesis
    by (metis fst_conv snd_conv)
qed

theorem lease_without_start_time_excludes_nobody_witness:
  "\<exists>l h1 l' h2.
     acquireHubLandingLease demo_env (resolveProbe (demo_table 7) demo_clock ''n'' no_probe) id
       (lc_policy demo_candidate) demo_verified = (Inr (LeaseAcquired l), h1)
     \<and> acquireHubLandingLease demo_env (resolveProbe (demo_table 8) demo_clock ''m'' no_probe) id
       (lc_policy demo_candidate) h1 = (Inr (LeaseAcquired l'), h2)
     \<and> isProcessAlive (demo_table 8) (ls_pid l)"
proof -
  note take = demo_acquired [of "resolveProbe (demo_table 7) demo_clock ''n'' no_probe",
      unfolded demo_written [OF demo_lease_ok(3)]]
  have "os_stat (demo_table 8) (os_pid (demo_table 7)) = None" and alive: "isProcessAlive (demo_table 8) 7"
    and pid: "os_pid (demo_table 7) = 7"
    by (simp_all add: demo_table_def isProcessAlive_def)
  with lease_without_start_time_excludes_nobody [OF take _ demo_lease_ok(3,4) demo_refs] take
  show ?thesis by auto
qed

theorem lease_never_left_behind_witness:
  "map_option ls_ownerNonce (readHubLandingLease (h_lease (snd (landHubCandidateWithLease demo_env demo_land
     demo_verified)))) \<noteq> Some ''n''"
proof -
  have 1: "li_lease demo_land = None" "e_fault demo_env = no_faults"
    by (simp_all add: demo_land_def demo_env_def)
  have 2: "pr_nonce (li_probe demo_land) = ''n''"
    by (simp add: demo_land_def demo_probe_def resolveProbe_def no_probe_def Let_def)
  have 3: "readHubLandingLease (h_lease demo_verified) = None"
    by (simp add: demo_no_lease readHubLandingLease_def)
  obtain r h' where "landHubCandidateWithLease demo_env demo_land demo_verified = (r, h')" by fastforce
  with lease_never_left_behind [OF this 1] 2 3 show ?thesis by simp
qed

lemma demo_land_distinct: "distinct_refs (commit_of demo_land None)"
  by (simp add: distinct_refs_def demo_land_def demo_candidate_def fresh_policy_def receipt_ref_def
      resolveHubLandingReceiptRef_def)

theorem attempt_reports_what_happened_witness:
  "\<exists>a c h'. landHubCandidateWithLease demo_env demo_land demo_verified = (Inr a, h')
     \<and> at_outcome a = AttemptLanded c \<and> landed_evidence demo_env demo_land demo_verified h' (cr_receiptOid c)"
proof -
  let ?e = "landHubCandidateWithLease demo_env demo_land demo_verified"
  have "case fst ?e of Inl _ \<Rightarrow> False
      | Inr a \<Rightarrow> (case at_outcome a of AttemptLanded c \<Rightarrow> True | _ \<Rightarrow> False)" by code_simp
  then obtain a c h' where e: "?e = (Inr a, h')" "at_outcome a = AttemptLanded c"
    by (cases ?e; cases "fst ?e") (auto split: attempt_outcome.splits)
  have k: "keeps_objects (e_git demo_env) (li_race demo_land)"
    by (simp add: keeps_objects_def demo_land_def)
  have "li_lease demo_land = None" "e_fault demo_env = no_faults"
    by (simp_all add: demo_land_def demo_env_def)
  from attempt_reports_what_happened [OF demo_env_git k demo_land_distinct this e(1)] e show ?thesis
    by auto
qed

definition demo_second :: commit_input where
  "demo_second = demo_commit\<lparr>cc_candidate := demo_candidate\<lparr>lc_transactionId := ''ltx-u-d'',
     lc_taskId := ''u'', lc_candidateOid := demo_oid (CHR ''c'')\<rparr>\<rparr>"

lemma demo_first_lands:
  "\<exists>r h1. commitHubLandingTarget demo_env id demo_commit demo_verified = (Inr r, h1)
     \<and> landed_atomically demo_env id demo_commit demo_verified (h_git h1)"
proof -
  let ?e = "commitHubLandingTarget demo_env id demo_commit demo_verified"
  let ?b = "demo_oid (CHR ''b'')"
  have "case ?e of (Inl _, _) \<Rightarrow> False
      | (Inr r, h') \<Rightarrow> observed_target demo_env demo_commit (h_git h') = Some ?b" by code_simp
  then obtain r h1 where e: "?e = (Inr r, h1)"
      and target: "observed_target demo_env demo_commit (h_git h1) = Some ?b"
    by (cases ?e; cases "fst ?e") simp_all
  have k: "keeps_objects (e_git demo_env) id" by (simp add: keeps_objects_def)
  have none: "readHubLandingReceipt demo_env (h_git demo_verified)
      (lc_transactionId (cc_candidate demo_commit)) = None" by code_simp
  have "observed_target demo_env demo_commit (fence_written demo_env demo_commit demo_verified)
      \<noteq> Some ?b" by code_simp
  then have "h_git h1 \<noteq> id (fence_written demo_env demo_commit demo_verified)"
    using target by auto
  with commit_lands_verified [OF demo_env_git k demo_distinct e] none e show ?thesis
    by auto
qed

theorem overlapping_landings_land_once_witness:
  "\<exists>r h1 e. commitHubLandingTarget demo_env id demo_commit demo_verified = (Inr r, h1)
     \<and> commitHubLandingTarget demo_env id demo_second h1 = (Inl e, h1)"
proof -
  obtain r h1 where run: "commitHubLandingTarget demo_env id demo_commit demo_verified = (Inr r, h1)"
      and lands: "landed_atomically demo_env id demo_commit demo_verified (h_git h1)"
    using demo_first_lands by blast
  let ?ref = "resolveHubLandingReceiptRef ''ltx-u-d''"
  have "?ref \<notin> {p_publishTargetRef (lc_policy (cc_candidate demo_commit)),
      p_fenceRef (lc_policy (cc_candidate demo_commit)), receipt_ref demo_commit}" by code_simp
  with lands have "g_rev_parse (e_git demo_env) (h_git h1) ?ref
      = g_rev_parse (e_git demo_env) (fence_written demo_env demo_commit demo_verified) ?ref"
    by (simp add: landed_atomically_def Let_def)
  also have "\<dots> = g_rev_parse (e_git demo_env) (h_git demo_verified) ?ref"
    by (simp add: objects_refs [OF demo_env_git])
  also have "\<dots> = None" by code_simp
  finally have none: "readHubLandingReceipt demo_env (h_git h1) (lc_transactionId (cc_candidate demo_second)) = None"
    by (simp add: readHubLandingReceipt_def demo_second_def)
  have "p_publishTargetRef (lc_policy (cc_candidate demo_second))
        = p_publishTargetRef (lc_policy (cc_candidate demo_commit))"
    "lc_baseOid (cc_candidate demo_second) = lc_baseOid (cc_candidate demo_commit)"
    "lc_candidateOid (cc_candidate demo_commit) \<noteq> lc_baseOid (cc_candidate demo_commit)"
    by code_simp+
  with overlapping_landings_land_once [OF lands _ _ _ none] run show ?thesis by blast
qed

end
