(* ===== verification/Landing_Coordinator.thy ===== *)
theory Landing_Coordinator
  imports Landing_Lease
begin

text \<open>
  The coordinator of the queue head (\<open>coordinateHubQueueHeadLanding\<close> of \<open>src/src/hubLandingCoordinator.ts\<close>):
  it lines the task up, waits its turn, lands its candidate, and rebuilds the candidate when the publish
  target moves, at most three times before the quiet wait.
\<close>

subsection \<open>The parameters of a run\<close>

text \<open>
  The callbacks \<open>rebuild\<close>, \<open>verify\<close> and \<open>merge\<close> are operations on the project. What changes from one
  landing attempt to the next is a function of its number: the clock readings, the random numbers, the
  lease probe, and what other processes do to the lease file, to the repository during the reference
  transaction, and to the project during the backoff.
\<close>

record 'g head_input =
  hi_taskId :: task_id
  hi_branch :: string
  hi_candidate :: "HubLandingCandidate option"
  hi_verifierFingerprint :: string
  hi_rebuild :: "('g, HubLandingCandidate) hub_act option"
  hi_verify :: "(HubLandingCandidate \<Rightarrow> ('g, unit) hub_act) option"
  hi_now :: iso_time
  hi_merge :: "(string \<Rightarrow> ('g, unit) hub_act) option"
  hi_shipped :: "task_id set"
  hi_clock :: "nat \<Rightarrow> iso_time"
  hi_queueNow :: "nat \<Rightarrow> iso_time"
  hi_random :: "nat \<Rightarrow> rat"
  hi_probe :: "nat \<Rightarrow> resolved_probe"
  hi_meanwhile :: "nat \<Rightarrow> jfile \<Rightarrow> jfile"
  hi_race :: "nat \<Rightarrow> 'g \<Rightarrow> 'g"
  hi_sleep :: "nat \<Rightarrow> int \<Rightarrow> 'g hub \<Rightarrow> 'g hub"
    \<comment> \<open>the project after a wait of so many milliseconds\<close>

definition build_head :: "'g env \<Rightarrow> 'g head_input \<Rightarrow> ('g, HubLandingCandidate) hub_act" where
  "build_head E hi =
     createHubLandingCandidate E (hi_taskId hi) (hi_branch hi) None (hi_now hi) (hi_merge hi)"

definition verify_head ::
    "'g env \<Rightarrow> 'g head_input \<Rightarrow> HubLandingCandidate \<Rightarrow> ('g, unit) hub_act" where
  "verify_head E hi c =
     (case hi_verify hi of
        Some verify \<Rightarrow> verify c
      | None \<Rightarrow> bind_act (bindHubLandingVerification E
            \<lparr>bi_transactionId = lc_transactionId c, bi_taskId = lc_taskId c,
             bi_candidateOid = lc_candidateOid c,
             bi_verifierFingerprint = hi_verifierFingerprint hi, bi_verifierConfigHash = None,
             bi_runtimeFingerprint = None, bi_repoRootGiven = True, bi_exitCode = None,
             bi_output = None\<rparr> (hi_now hi)) (\<lambda>_. ret_act ()))"

definition rebuild_head :: "'g env \<Rightarrow> 'g head_input \<Rightarrow> ('g, HubLandingCandidate) hub_act" where
  "rebuild_head E hi = (case hi_rebuild hi of Some rebuild \<Rightarrow> rebuild | None \<Rightarrow> build_head E hi)"

definition syncQueueCandidate :: "'g head_input \<Rightarrow> HubLandingCandidate \<Rightarrow> ('g, unit) hub_act" where
  "syncQueueCandidate hi c =
     bind_act (recordHubLandingQueueCandidate (hi_taskId hi) (lc_sourceOid c) (lc_baseOid c)
       (lc_candidateOid c) (lc_transactionId c)) (\<lambda>_. ret_act ())"

definition rebuildVerifiedCandidate :: "'g env \<Rightarrow> 'g head_input \<Rightarrow> ('g, HubLandingCandidate) hub_act" where
  "rebuildVerifiedCandidate E hi =
     bind_act (rebuild_head E hi) (\<lambda>c.
     bind_act (verify_head E hi c) (\<lambda>_.
     bind_act (syncQueueCandidate hi c) (\<lambda>_. ret_act c)))"

text \<open>\<open>withFenceEvidence\<close>: the target oids are reported for the fence, too.\<close>

definition withFenceEvidence ::
    "attempt_outcome \<Rightarrow> HubLandingCandidate \<Rightarrow> oid \<Rightarrow> oid \<Rightarrow> HubLandingAttemptResult" where
  "withFenceEvidence outcome c expected observed =
     \<lparr>at_outcome = outcome, at_candidate = c,
      at_oids = \<lparr>oe_expectedTargetOid = expected, oe_observedTargetOid = observed,
        oe_expectedFenceOid = expected, oe_observedFenceOid = observed\<rparr>\<rparr>"

definition ticket_of :: "task_id \<Rightarrow> 'g hub \<Rightarrow> HubLandingQueueTicket option" where
  "ticket_of t h = findHubLandingQueueTicket (h_queue h) t"

definition activationDriftRebuilds :: "task_id \<Rightarrow> 'g hub \<Rightarrow> int" where
  "activationDriftRebuilds t h =
     (case ticket_of t h of None \<Rightarrow> 0 | Some tk \<Rightarrow> tk_activationDriftRebuilds tk)"


subsection \<open>Messages\<close>

definition waiting_message :: "task_id \<Rightarrow> string" where
  "waiting_message t = ''Retaining FIFO ticket for '' @ t
     @ '' in target_quiet_wait until the Hub publish target is stable. ''
     @ queue_no_recover"

definition predecessor_message :: "task_id \<Rightarrow> task_id \<Rightarrow> string" where
  "predecessor_message t p = ''Task '' @ t
     @ '' cannot advance the ordered local delivery sequence before required predecessor '' @ p
     @ '' has remote ancestry proof. Successors may build and verify. '' @ queue_no_recover"

definition overtake_message :: "task_id \<Rightarrow> task_id option \<Rightarrow> string" where
  "overtake_message t head = ''Task '' @ t @ '' cannot overtake FIFO queue head ''
     @ (case head of None \<Rightarrow> ''(unknown)'' | Some x \<Rightarrow> x) @ ''. '' @ queue_no_recover"

definition quiet_message :: "task_id \<Rightarrow> string" where
  "quiet_message t = ''Queue head '' @ t @ '' entered target_quiet_wait after ''
     @ show_int HUB_LANDING_TARGET_DRIFT_REBUILD_LIMIT
     @ '' immediate target-drift rebuilds. Later transactions cannot overtake this ticket. ''
     @ queue_no_recover"


subsection \<open>Lining up\<close>

text \<open>The part before the loop: \<open>Inl\<close> is a result, \<open>Inr\<close> the candidate to land.\<close>

definition first_candidate :: "'g env \<Rightarrow> 'g head_input \<Rightarrow> ('g, HubLandingCandidate) hub_act" where
  "first_candidate E hi =
     bind_act (case hi_candidate hi of Some c \<Rightarrow> ret_act c | None \<Rightarrow> build_head E hi) (\<lambda>c.
     bind_act (verify_head E hi c) (\<lambda>_. ret_act c))"

definition enter_queue :: "'g head_input \<Rightarrow> HubLandingCandidate \<Rightarrow> ('g, unit) hub_act" where
  "enter_queue hi c =
     bind_act (ensureHubLandingQueueTicket (p_publishTargetRef (lc_policy c)) (hi_taskId hi)
       (Some (lc_sourceOid c)) None (hi_queueNow hi 0)) (\<lambda>_. syncQueueCandidate hi c)"

definition my_turn ::
    "'g head_input \<Rightarrow> HubLandingCandidate \<Rightarrow> oid
     \<Rightarrow> ('g, HubLandingAttemptResult + HubLandingCandidate) hub_act" where
  "my_turn hi c observed =
    (let t = hi_taskId hi in
     bind_act (canLandHubLandingTicket t (hi_shipped hi)) (\<lambda>mine.
     if mine then ret_act (Inr c)
     else
       bind_act (resolveRequiredDeliveryPredecessor t) (\<lambda>predecessor.
       case predecessor of
         Some p \<Rightarrow> ret_act (Inl (withFenceEvidence (AttemptNotQueueHead (MessageText
           (predecessor_message t (tk_taskId p)))) c (lc_baseOid c) observed))
       | None \<Rightarrow>
           bind_act readQueue (\<lambda>q.
           ret_act (Inl (withFenceEvidence (AttemptNotQueueHead (MessageText
             (overtake_message t (map_option tk_taskId
               (resolveHubLandingQueueHead q (hi_shipped hi)))))) c (lc_baseOid c) observed))))))"

definition line_up_head ::
    "'g env \<Rightarrow> 'g head_input \<Rightarrow> ('g, HubLandingAttemptResult + HubLandingCandidate) hub_act" where
  "line_up_head E hi =
    (let t = hi_taskId hi in
     bind_act (first_candidate E hi) (\<lambda>c.
     bind_act (enter_queue hi c) (\<lambda>_.
     bind_act (revParse E (p_publishTargetRef (lc_policy c))) (\<lambda>observed.
     bind_act (resumeHubLandingQuietWaitIfStable t observed (hi_queueNow hi 1)) (\<lambda>resume.
     if resume = Waiting
     then
       bind_act (gets_act (ticket_of t)) (\<lambda>ticket.
       ret_act (Inl (withFenceEvidence (AttemptTargetQuietWait (MessageText (waiting_message t)) ticket)
         c (lc_baseOid c) observed)))
     else
       bind_act (if resume = Resumed
           then bind_act (invalidateHubLandingCandidate (lc_transactionId c))
             (\<lambda>_. rebuildVerifiedCandidate E hi)
           else ret_act c) (\<lambda>c'. my_turn hi c' observed))))))"


subsection \<open>The landing loop\<close>

definition land_input_of :: "'g head_input \<Rightarrow> nat \<Rightarrow> HubLandingCandidate \<Rightarrow> 'g land_input" where
  "land_input_of hi n c =
     \<lparr>li_candidate = c, li_verifierFingerprint = hi_verifierFingerprint hi, li_now = hi_now hi,
      li_clock = hi_clock hi n, li_probe = hi_probe hi n, li_lease = None,
      li_meanwhile = hi_meanwhile hi n, li_race = hi_race hi n\<rparr>"

text \<open>The ticket after an attempt that landed, or that ended otherwise than by drift.\<close>

definition settle_attempt ::
    "'g head_input \<Rightarrow> HubLandingCandidate \<Rightarrow> HubLandingAttemptResult
     \<Rightarrow> ('g, HubLandingAttemptResult) hub_act" where
  "settle_attempt hi c outcome =
     (case at_outcome outcome of
        AttemptLanded _ \<Rightarrow> bind_act (markHubLandingQueueAfterLocalLand (hi_taskId hi)
          (p_publishPolicy (lc_policy c))) (\<lambda>_. ret_act outcome)
      | _ \<Rightarrow> ret_act outcome)"

definition wait_quietly ::
    "'g head_input \<Rightarrow> nat \<Rightarrow> HubLandingCandidate \<Rightarrow> HubLandingAttemptResult
     \<Rightarrow> ('g, HubLandingAttemptResult) hub_act" where
  "wait_quietly hi n c outcome =
    (let t = hi_taskId hi in
     bind_act (enterHubLandingQuietWait t (oe_observedTargetOid (at_oids outcome))
       (hi_queueNow hi (3 * n + 2))) (\<lambda>ticket.
     ret_act \<lparr>at_outcome = AttemptTargetQuietWait (MessageText (quiet_message t)) ticket,
       at_candidate = c, at_oids = at_oids outcome\<rparr>))"

definition rebuild_after_drift ::
    "'g env \<Rightarrow> 'g head_input \<Rightarrow> nat \<Rightarrow> HubLandingCandidate \<Rightarrow> HubLandingAttemptResult
     \<Rightarrow> ('g, HubLandingCandidate) hub_act" where
  "rebuild_after_drift E hi n c outcome =
    (let t = hi_taskId hi in
     bind_act (gets_act (activationDriftRebuilds t)) (\<lambda>rebuilds.
     bind_act (waitHubLandingDriftBackoff (hi_random hi n) rebuilds) (\<lambda>delay.
     bind_act (modify_act (hi_sleep hi n delay)) (\<lambda>_.
     bind_act (recordHubLandingDriftRebuild t (oe_observedTargetOid (at_oids outcome))
       (hi_queueNow hi (3 * n + 3))) (\<lambda>_.
     bind_act (invalidateHubLandingCandidate (lc_transactionId c)) (\<lambda>_.
     bind_act (invalidateHubLandingSpeculativeSuffix t ''target_drift''
       (hi_queueNow hi (3 * n + 4))) (\<lambda>_.
     rebuildVerifiedCandidate E hi)))))))"

text \<open>
  The endless loop of the source, with fuel: \<open>None\<close> is a run that is still going after that many
  attempts.
\<close>

fun land_head ::
    "'g env \<Rightarrow> 'g head_input \<Rightarrow> nat \<Rightarrow> nat \<Rightarrow> HubLandingCandidate
     \<Rightarrow> ('g, HubLandingAttemptResult option) hub_act" where
  "land_head E hi 0 n c = ret_act None"
| "land_head E hi (Suc fuel) n c =
     bind_act (landHubCandidateWithLease E (land_input_of hi n c)) (\<lambda>outcome.
     case at_outcome outcome of
       AttemptTargetDrift _ \<Rightarrow>
         bind_act (shouldEnterHubLandingQuietWait (hi_taskId hi)) (\<lambda>quiet.
         if quiet then bind_act (wait_quietly hi n c outcome) (\<lambda>r. ret_act (Some r))
         else bind_act (rebuild_after_drift E hi n c outcome) (\<lambda>c'. land_head E hi fuel (Suc n) c'))
     | _ \<Rightarrow> bind_act (settle_attempt hi c outcome) (\<lambda>r. ret_act (Some r)))"

definition coordinateHubQueueHeadLanding ::
    "'g env \<Rightarrow> 'g head_input \<Rightarrow> nat \<Rightarrow> ('g, HubLandingAttemptResult option) hub_act" where
  "coordinateHubQueueHeadLanding E hi fuel =
     bind_act (line_up_head E hi) (\<lambda>r.
     case r of Inl result \<Rightarrow> ret_act (Some result) | Inr c \<Rightarrow> land_head E hi fuel 0 c)"

subsection \<open>What a written ticket reads back as\<close>

text \<open>
  The parts of a ticket that survive being written and read whatever the optional parts hold: who it is,
  its status and its count of rebuilds.
\<close>

definition ticket_core :: "HubLandingQueueTicket \<Rightarrow> string \<times> task_id \<times> iso_time \<times> HubLandingTicketStatus \<times> int" where
  "ticket_core tk = (tk_ticketId tk, tk_taskId tk, tk_assignedAt tk, tk_status tk, tk_activationDriftRebuilds tk)"

definition core_ok :: "HubLandingQueueTicket \<Rightarrow> bool" where
  "core_ok tk \<longleftrightarrow> list_all nonblank [tk_ticketId tk, tk_taskId tk, tk_assignedAt tk]"

lemma ticket_ok_core: "ticket_ok tk \<Longrightarrow> core_ok tk"
  by (simp add: ticket_ok_def core_ok_def)

lemma core_reads_back:
  assumes "core_ok tk"
  shows "\<exists>tk'. parseTicket (ticket_json tk) = Some tk' \<and> ticket_core tk' = ticket_core tk"
proof -
  let ?kvs = "readObject (ticket_json tk)"
  note get = ticket_json_get [of tk, unfolded ticket_fields_def]
  note ok = assms [unfolded core_ok_def]
  have req: "stringField (jget ?kvs ''ticketId'') = Some (tk_ticketId tk)"
      "numberField (jget ?kvs ''sequence'') = Some (tk_sequence tk)"
      "stringField (jget ?kvs ''taskId'') = Some (tk_taskId tk)"
      "stringField (jget ?kvs ''assignedAt'') = Some (tk_assignedAt tk)"
      "stringField (jget ?kvs ''status'') = Some (ticket_status_name (tk_status tk))"
      "numberField (jget ?kvs ''activationDriftRebuilds'') = Some (tk_activationDriftRebuilds tk)"
    using ok by (simp_all add: get json_simps del: stringField.simps numberField.simps)
  show ?thesis
    unfolding parseTicket_def ticket_json_record Option.bind.simps req find_ticket_status
    by (simp add: ticket_core_def)
qed

lemma cores_read_back:
  "list_all core_ok tks \<Longrightarrow>
     map ticket_core (List.map_filter parseTicket (map ticket_json tks)) = map ticket_core tks"
proof (induction tks)
  case (Cons tk tks)
  then obtain tk' where "parseTicket (ticket_json tk) = Some tk'" "ticket_core tk' = ticket_core tk"
    using core_reads_back by auto
  with Cons show ?case by (simp add: List.map_filter_simps)
qed (simp add: List.map_filter_simps)

lemma queue_reads_back:
  assumes "nonblank (q_publishTargetRef q)" and "list_all core_ok (q_tickets q)"
  shows "\<exists>q'. readHubLandingQueue (Text (queue_json q)) = Some q'
    \<and> map ticket_core (q_tickets q') = map ticket_core (q_tickets q)"
  using assms cores_read_back [OF assms(2)]
  by (simp add: readHubLandingQueue_def parseQueue_def queue_json_def parseJsonRecord_jobj jget_def
      numberField_jint stringField_JStr del: stringField.simps numberField.simps)

lemma find_core:
  assumes "map ticket_core tks' = map ticket_core tks"
  shows "map_option ticket_core (find (\<lambda>tk. tk_taskId tk = t) tks')
    = map_option ticket_core (find (\<lambda>tk. tk_taskId tk = t) tks)"
proof -
  have "map_option ticket_core (find (\<lambda>tk. tk_taskId tk = t) xs)
      = find (\<lambda>c. fst (snd c) = t) (map ticket_core xs)" for xs
    by (induction xs) (simp_all add: ticket_core_def)
  with assms show ?thesis by metis
qed

text \<open>The core of a task's ticket in a project.\<close>

definition core_of :: "task_id \<Rightarrow> 'g hub \<Rightarrow> (string \<times> task_id \<times> iso_time \<times> HubLandingTicketStatus \<times> int) option" where
  "core_of t h = map_option ticket_core (ticket_of t h)"

lemma ticket_of_read:
  "ticket_of t h = Some tk \<longleftrightarrow> (\<exists>q. readHubLandingQueue (h_queue h) = Some q
     \<and> find (\<lambda>tk. tk_taskId tk = t) (q_tickets q) = Some tk)"
  by (cases "readHubLandingQueue (h_queue h)") (simp_all add: ticket_of_def findHubLandingQueueTicket_def)

text \<open>An update of the ticket of a task, and no other.\<close>

lemma find_replaced:
  assumes "find (\<lambda>tk. tk_taskId tk = t) tks = Some cur" and "tk_taskId new = t"
    and "tk_ticketId new = tk_ticketId cur"
  shows "find (\<lambda>tk. tk_taskId tk = t) (map (\<lambda>x. if tk_ticketId x = tk_ticketId new then new else x) tks) = Some new"
  using assms by (induction tks) (auto split: if_split_asm)

lemma updateTicket_core:
  assumes "ticket_of t h = Some tk" and "updateTicket t patch h = (r, h')"
    and "tk_taskId (patch tk) = t" and "tk_ticketId (patch tk) = tk_ticketId tk"
    and "tk_assignedAt (patch tk) = tk_assignedAt tk"
  shows "r = Inr (Some (patch tk)) \<and> core_of t h' = Some (ticket_core (patch tk))
    \<and> h' = h\<lparr>h_queue := h_queue h'\<rparr>"
proof -
  from assms(1) obtain q where q: "readHubLandingQueue (h_queue h) = Some q"
      and f: "find (\<lambda>tk. tk_taskId tk = t) (q_tickets q) = Some tk"
    by (auto simp: ticket_of_read)
  let ?q = "replaceTicket q (patch tk)"
  have ok: "nonblank (q_publishTargetRef q)" "list_all ticket_ok (q_tickets q)"
    using read_queue_ok [OF q] by (simp_all add: queue_ok_def)
  have tk: "core_ok tk" "tk_taskId tk = t"
    using f ok(2) by (auto simp: find_Some_iff list_all_iff ticket_ok_core list_all_length)
  then have "core_ok (patch tk)" using assms(3-5) by (simp add: core_ok_def)
  moreover have "list_all core_ok (q_tickets q)"
    using ok(2) by (auto simp: list_all_iff ticket_ok_core)
  ultimately have "list_all core_ok (q_tickets ?q)" by (auto simp: replaceTicket_def list_all_iff)
  moreover have "nonblank (q_publishTargetRef ?q)" using ok(1) by (simp add: replaceTicket_def)
  ultimately obtain q' where q': "readHubLandingQueue (Text (queue_json ?q)) = Some q'"
      "map ticket_core (q_tickets q') = map ticket_core (q_tickets ?q)"
    using queue_reads_back by blast
  have "find (\<lambda>tk. tk_taskId tk = t) (q_tickets ?q) = Some (patch tk)"
    using find_replaced [OF f assms(3,4)] by (simp add: replaceTicket_def)
  with find_core [OF q'(2), of t] have "map_option ticket_core (find (\<lambda>tk. tk_taskId tk = t) (q_tickets q'))
      = Some (ticket_core (patch tk))" by simp
  moreover have run: "updateTicket t patch h = (Inr (Some (patch tk)), h\<lparr>h_queue := Text (queue_json ?q)\<rparr>)"
    using q f by (simp add: updateTicket_def readQueue_def writeQueue_def act_defs patch_queue_def)
  ultimately show ?thesis
    using assms(2) q'(1) by (auto simp: core_of_def ticket_of_def findHubLandingQueueTicket_def)
qed

lemma updateTicket_missing:
  assumes "ticket_of t h = None"
  shows "updateTicket t patch h = (Inr None, h)"
  using assms
  by (cases "readHubLandingQueue (h_queue h)")
    (simp_all add: ticket_of_def findHubLandingQueueTicket_def updateTicket_def readQueue_def act_defs
      patch_queue_def)

subsection \<open>Counting the rebuilds\<close>

text \<open>The ticket stays there, and its count does not go down.\<close>

definition count_kept :: "task_id \<Rightarrow> 'g hub \<Rightarrow> 'g hub \<Rightarrow> bool" where
  "count_kept t h h' \<longleftrightarrow> (ticket_of t h \<noteq> None \<longrightarrow>
     ticket_of t h' \<noteq> None \<and> activationDriftRebuilds t h \<le> activationDriftRebuilds t h')"

interpretation counted: kept_relation "count_kept t" for t
  by unfold_locales (auto simp: count_kept_def)

lemma core_of_Some:
  assumes "core_of t h = Some (ticket_core tk)"
  shows "ticket_of t h \<noteq> None" "activationDriftRebuilds t h = tk_activationDriftRebuilds tk"
    "map_option tk_status (ticket_of t h) = Some (tk_status tk)"
  using assms by (cases "ticket_of t h"; simp add: core_of_def activationDriftRebuilds_def ticket_core_def)+

lemma count_kept_same: "h_queue h' = h_queue h \<Longrightarrow> count_kept t h h'"
  by (simp add: count_kept_def activationDriftRebuilds_def ticket_of_def)

text \<open>Operations that leave the queue file alone keep every count.\<close>

definition same_queue :: "'g hub \<Rightarrow> 'g hub \<Rightarrow> bool" where
  "same_queue h h' \<longleftrightarrow> h_queue h' = h_queue h"

interpretation unqueued: kept_relation same_queue
  by unfold_locales (simp_all add: same_queue_def)

lemma moves_mono: "moves R m \<Longrightarrow> (\<And>s t. R s t \<Longrightarrow> Q s t) \<Longrightarrow> moves Q m"
  by (simp add: moves_def)

lemma counted_unqueued: "moves same_queue m \<Longrightarrow> moves (count_kept t) m"
  by (erule moves_mono) (simp add: same_queue_def count_kept_same)

lemma unqueued_files: "moves same_files m \<Longrightarrow> moves same_queue m"
  by (erule moves_mono) (simp add: same_queue_def same_files_def)

lemmas unqueued_rules = moves_case_prod unqueued.moves_rules files_append [THEN unqueued_files]
  files_hash [THEN unqueued_files] files_change [THEN unqueued_files]
  files_crash [THEN unqueued_files] files_rev [THEN unqueued_files]

lemma unqueued_land: "moves same_queue (landHubCandidateWithLease E li)"
proof -
  have commit: "moves same_queue (commitCandidateWithLease E li l)" for l
    unfolding commitCandidateWithLease_def
    by (intro unqueued_rules unqueued_files files_commit)
  have acquire: "moves same_queue (acquireHubLandingLease E p m policy)" for p m policy
    unfolding acquireHubLandingLease_def check_lease_def write_lease_def Let_def
    by (intro unqueued_rules unqueued.moves_modify) (simp_all add: same_queue_def)
  have final: "moves same_queue (finally_act m (releaseHubLandingLease n))"
    if "moves same_queue m" for m :: "('a, HubLandingAttemptResult) hub_act" and n
    using that by (simp add: moves_def finally_act_eq same_queue_def)
  have "moves same_queue (case a of LeaseAcquired l \<Rightarrow>
           finally_act
             (bind_act (maybeCrash (e_fault E) SE_landing_lease AfterEffect) (\<lambda>_. land_with_lease E li l))
             (releaseHubLandingLease (Some (ls_ownerNonce l)))
       | LeaseContention owner oids msg \<Rightarrow>
           bind_act (maybeCrash (e_fault E) SE_landing_lease AfterEffect) (\<lambda>_.
           ret_act (toPendingAttempt (li_candidate li) oids msg)))" for a
    by (cases a) (simp_all add: final unqueued_rules unqueued_files [OF files_land_with_lease])
  then show ?thesis
    unfolding landHubCandidateWithLease_def Let_def
    by (intro unqueued_rules commit acquire)
qed

lemma counted_update:
  assumes "\<And>tk. tk_taskId (patch tk) = tk_taskId tk" "\<And>tk. tk_ticketId (patch tk) = tk_ticketId tk"
    "\<And>tk. tk_assignedAt (patch tk) = tk_assignedAt tk"
    "\<And>tk. tk_activationDriftRebuilds tk \<le> tk_activationDriftRebuilds (patch tk)"
  shows "moves (count_kept t) (updateTicket t patch)"
proof -
  have "count_kept t h h'" if run: "updateTicket t patch h = (r, h')" for h h' :: "'a hub" and r
  proof (cases "ticket_of t h")
    case None
    then show ?thesis by (simp add: count_kept_def)
  next
    case (Some tk)
    then have "tk_taskId tk = t" by (auto simp: ticket_of_read find_Some_iff)
    with updateTicket_core [OF Some run] assms have "core_of t h' = Some (ticket_core (patch tk))" by simp
    with Some assms(4) [of tk] show ?thesis
      using core_of_Some [of t h' "patch tk"] by (simp add: count_kept_def activationDriftRebuilds_def)
  qed
  then show ?thesis by (simp add: moves_def) (metis prod.collapse)
qed

lemma find_mapped:
  assumes "\<And>tk. tk_taskId (f tk) = tk_taskId tk"
  shows "find (\<lambda>tk. tk_taskId tk = t) (map f tks) = map_option f (find (\<lambda>tk. tk_taskId tk = t) tks)"
  by (induction tks) (simp_all add: assms)

lemma counted_invalidate: "moves (count_kept t) (invalidateHubLandingSpeculativeSuffix u reason now)"
proof -
  have "count_kept t h h'" if run: "invalidateHubLandingSpeculativeSuffix u reason now h = (r, h')"
    for h h' :: "'a hub" and r
  proof (cases "ticket_of u h")
    case None
    then have "Option.bind (readHubLandingQueue (h_queue h))
        (\<lambda>q. find (\<lambda>tk. tk_taskId tk = u) (q_tickets q)) = None"
      by (simp add: ticket_of_def findHubLandingQueueTicket_def)
    from invalidate_none [OF this] run show ?thesis by (simp add: counted.kept_refl)
  next
    case (Some origin)
    then obtain q where q: "readHubLandingQueue (h_queue h) = Some q"
        and f: "find (\<lambda>tk. tk_taskId tk = u) (q_tickets q) = Some origin"
      by (auto simp: ticket_of_read)
    let ?q = "invalidate_queue now reason (tk_sequence origin) q"
    let ?f = "\<lambda>tk. if in_suffix (tk_sequence origin) tk then invalidated_ticket now reason tk else tk"
    have h': "h_queue h' = Text (queue_json ?q)"
      using run unfolding invalidate_eq [OF q f] by (auto simp: Let_def)
    have ok: "nonblank (q_publishTargetRef q)" "list_all ticket_ok (q_tickets q)"
      using read_queue_ok [OF q] by (simp_all add: queue_ok_def)
    then have "list_all core_ok (q_tickets ?q)" "nonblank (q_publishTargetRef ?q)"
      by (auto simp: invalidate_queue_def list_all_iff ticket_ok_core)
        (use ticket_ok_core in \<open>force simp: invalidated_ticket_def core_ok_def\<close>)
    from queue_reads_back [OF this(2,1)] obtain q' where
        q': "readHubLandingQueue (h_queue h') = Some q'"
          "map ticket_core (q_tickets q') = map ticket_core (q_tickets ?q)"
      using h' by auto
    have "find (\<lambda>tk. tk_taskId tk = t) (q_tickets ?q)
        = map_option ?f (find (\<lambda>tk. tk_taskId tk = t) (q_tickets q))"
      unfolding invalidate_queue_def by (simp add: find_mapped invalidated_ticket_def)
    with find_core [OF q'(2), of t] have core: "core_of t h' = map_option (ticket_core \<circ> ?f) (ticket_of t h)"
      using q q'(1)
      by (simp add: core_of_def ticket_of_def findHubLandingQueueTicket_def option.map_comp)
    show ?thesis
    proof (cases "ticket_of t h")
      case (Some tk)
      with core have "core_of t h' = Some (ticket_core (?f tk))" by simp
      from core_of_Some [OF this] Some show ?thesis
        by (simp add: count_kept_def activationDriftRebuilds_def invalidated_ticket_def)
    qed (simp add: count_kept_def)
  qed
  then show ?thesis by (simp add: moves_def) (metis prod.collapse)
qed

text \<open>Building a candidate and binding a verification do not touch the queue, the callbacks apart.\<close>

lemmas counted_rules = moves_case_prod counted.moves_rules files_append [THEN unqueued_files, THEN counted_unqueued]
  files_hash [THEN unqueued_files, THEN counted_unqueued]
  files_change [THEN unqueued_files, THEN counted_unqueued]
  files_crash [THEN unqueued_files, THEN counted_unqueued]
  files_rev [THEN unqueued_files, THEN counted_unqueued]

lemma counted_remove: "moves (count_kept t) (removeWorktree E dir)"
  unfolding removeWorktree_def by (intro counted.moves_modify) (simp add: count_kept_same)

lemma counted_merge:
  assumes "\<forall>f d. merge = Some f \<longrightarrow> moves (count_kept t) (f d)"
  shows "moves (count_kept t) (merge_candidate E merge branch dir)"
proof (cases merge)
  case None
  have "count_kept t h (snd (merge_candidate E None branch dir h))" for h
  proof (cases "t_merge (e_trees E) (h_git h) dir branch")
    case (Pair err g)
    have kept: "count_kept t h (h\<lparr>h_git := g\<rparr>)" by (simp add: count_kept_same)
    have "moves (count_kept t) (bind_act (removeWorktree E dir) (\<lambda>_. throw_act (GitFailure msg)))" for msg
      by (intro counted_rules counted_remove)
    from this [unfolded moves_def, rule_format]
    have removed: "count_kept t (h\<lparr>h_git := g\<rparr>)
        (snd (bind_act (removeWorktree E dir) (\<lambda>_. throw_act (GitFailure msg)) (h\<lparr>h_git := g\<rparr>)))" for msg .
    from kept Pair show ?thesis
      by (cases err) (simp_all add: merge_candidate_def counted.kept_trans [OF kept removed])
  qed
  with None show ?thesis by (simp add: moves_def)
next
  case (Some f)
  with assms show ?thesis
    by (simp add: merge_candidate_def) (intro counted_rules, blast)
qed

lemma counted_policy: "moves (count_kept t) (ensurePolicy E now)"
proof -
  have "h_queue (snd (ensurePolicy E now h)) = h_queue h" for h
    by (simp add: ensurePolicy_def split: prod.split sum.split)
  then show ?thesis by (simp add: moves_def count_kept_same)
qed

lemma counted_create:
  assumes "\<forall>f d. merge = Some f \<longrightarrow> moves (count_kept t) (f d)"
  shows "moves (count_kept t) (createHubLandingCandidate E u branch base now merge)"
  unfolding createHubLandingCandidate_def resume_candidate_def build_candidate_def Let_def
    restoreCandidateFromEvidence_def ensureCandidateWorktree_def writeCandidateManifestAndRef_def
    recordCandidateCreatedCheckpoint_def stripAllowlistedBeadsRuntimeFromCandidate_def
    listAllowlistedBeadsRuntimeDiffPaths_def restoreAllowlistedPathFromBase_def
  by (intro counted_rules counted_policy counted_remove counted_merge [OF assms] counted.moves_modify)
    (simp_all add: count_kept_same)

lemma counted_bind: "moves (count_kept t) (bindHubLandingVerification E b now)"
  unfolding bindHubLandingVerification_def recordCandidateVerifiedCheckpoint_def Let_def
  by (intro counted_rules counted.moves_modify) (simp_all add: count_kept_same)

text \<open>What a run relies on: nobody takes the ticket away or turns its count back meanwhile.\<close>

definition callbacks_keep :: "'g head_input \<Rightarrow> bool" where
  "callbacks_keep hi \<longleftrightarrow>
     (\<forall>m. hi_rebuild hi = Some m \<longrightarrow> moves (count_kept (hi_taskId hi)) m)
     \<and> (\<forall>v c. hi_verify hi = Some v \<longrightarrow> moves (count_kept (hi_taskId hi)) (v c))
     \<and> (\<forall>f d. hi_merge hi = Some f \<longrightarrow> moves (count_kept (hi_taskId hi)) (f d))
     \<and> (\<forall>n d h. count_kept (hi_taskId hi) h (hi_sleep hi n d h))"

lemma counted_rebuilt:
  assumes "callbacks_keep hi"
  shows "moves (count_kept (hi_taskId hi)) (rebuildVerifiedCandidate E hi)"
proof -
  let ?t = "hi_taskId hi"
  have 1: "moves (count_kept ?t) (rebuild_head E hi)"
    using assms by (cases "hi_rebuild hi")
      (auto simp: rebuild_head_def build_head_def callbacks_keep_def intro: counted_create)
  have 2: "moves (count_kept ?t) (verify_head E hi c)" for c
    using assms by (cases "hi_verify hi")
      (auto simp: verify_head_def callbacks_keep_def intro!: counted_rules counted_bind)
  have 3: "moves (count_kept ?t) (syncQueueCandidate hi c)" for c
    unfolding syncQueueCandidate_def recordHubLandingQueueCandidate_def
    by (intro counted_rules counted_update) (simp_all add: candidate_patch_def)
  show ?thesis
    unfolding rebuildVerifiedCandidate_def by (intro counted_rules 1 2 3)
qed

lemma drift_counts_one:
  assumes "ticket_of t h \<noteq> None" and "recordHubLandingDriftRebuild t observed now h = (r, h')"
  shows "ticket_of t h' \<noteq> None \<and> activationDriftRebuilds t h' = activationDriftRebuilds t h + 1"
proof -
  from assms(1) obtain tk where tk: "ticket_of t h = Some tk" by auto
  let ?patch = "drift_patch (Some tk) t observed now"
  have "tk_taskId tk = t" using tk by (auto simp: ticket_of_read find_Some_iff)
  moreover from assms(2) tk have "updateTicket t ?patch h = (r, h')"
    by (simp add: recordHubLandingDriftRebuild_def bind_act_def gets_act_def ticket_of_def)
  ultimately have "core_of t h' = Some (ticket_core (?patch tk))"
    using updateTicket_core [OF tk, of ?patch r h'] by (simp add: drift_patch_def)
  from core_of_Some [OF this] tk show ?thesis
    by (simp add: activationDriftRebuilds_def drift_patch_def)
qed

lemma rebuild_counts:
  assumes "callbacks_keep hi" and "ticket_of (hi_taskId hi) h \<noteq> None"
    and "rebuild_after_drift E hi n c outcome h = (Inr c', h')"
  shows "ticket_of (hi_taskId hi) h' \<noteq> None
    \<and> activationDriftRebuilds (hi_taskId hi) h + 1 \<le> activationDriftRebuilds (hi_taskId hi) h'"
proof -
  let ?t = "hi_taskId hi"
  let ?d = "computeHubLandingDriftBackoffMs (activationDriftRebuilds ?t h) (hi_random hi n)"
  let ?h1 = "hi_sleep hi n ?d h"
  obtain r h2 where drift: "recordHubLandingDriftRebuild ?t (oe_observedTargetOid (at_oids outcome))
      (hi_queueNow hi (3 * n + 3)) ?h1 = (r, h2)" by fastforce
  let ?rest = "bind_act (invalidateHubLandingCandidate (lc_transactionId c)) (\<lambda>_.
     bind_act (invalidateHubLandingSpeculativeSuffix ?t ''target_drift'' (hi_queueNow hi (3 * n + 4))) (\<lambda>_.
     rebuildVerifiedCandidate E hi))"
  have 1: "count_kept ?t h ?h1" using assms(1) by (simp add: callbacks_keep_def)
  then have t1: "ticket_of ?t ?h1 \<noteq> None" using assms(2) by (simp add: count_kept_def)
  note 2 = drift_counts_one [OF t1 drift]
  obtain x where "r = Inr x" and rest: "?rest h2 = (Inr c', h')"
    using assms(3) drift
    by (cases r) (simp_all add: rebuild_after_drift_def Let_def bind_act_def gets_act_def
      waitHubLandingDriftBackoff_def ret_act_def modify_act_def)
  have "moves (count_kept ?t) ?rest"
    unfolding invalidateHubLandingCandidate_def
    by (intro counted_rules counted_invalidate counted_rebuilt [OF assms(1)] counted.moves_modify)
      (simp add: count_kept_same)
  from moves_result [OF this rest] have "count_kept ?t h2 h'" .
  with 1 2 assms(2) show ?thesis unfolding count_kept_def by linarith
qed

subsection \<open>Entering the queue\<close>

lemma find_update_first:
  assumes "find (\<lambda>tk. tk_taskId tk = t) tks = Some cur" and "\<forall>x \<in> set tks. P x \<longrightarrow> x = cur" and "P cur"
    and "tk_taskId new = t"
  shows "find (\<lambda>tk. tk_taskId tk = t) (update_first P new tks) = Some new"
  using assms
proof (induction tks)
  case (Cons x tks)
  have cur: "tk_taskId cur = t" using Cons.prems(1) unfolding find_Some_iff by blast
  show ?case
  proof (cases "tk_taskId x = t")
    case True
    with Cons.prems(1) have "x = cur" by simp
    with Cons.prems(3,4) show ?thesis by simp
  next
    case False
    with Cons.prems(2) cur have "\<not> P x" by auto
    with False Cons.prems Cons.IH show ?thesis by simp
  qed
qed simp

lemma by_task_id_wf:
  assumes "tickets_wf n tks" and "find (\<lambda>tk. tk_taskId tk = t) tks = Some cur"
  shows "by_task_id tks t = Some cur"
proof -
  have "distinct (map fst (rev (map (\<lambda>tk. (tk_taskId tk, tk)) tks)))"
    using tickets_wf_facts(3) [OF assms(1)] by (simp add: rev_map [symmetric] comp_def)
  moreover have "(t, cur) \<in> set (rev (map (\<lambda>tk. (tk_taskId tk, tk)) tks))"
    using assms(2) find_task [OF assms(1)] by auto
  ultimately show ?thesis unfolding by_task_id_def by (simp only: map_of_is_SomeI)
qed

text \<open>Lining a task up again keeps its ticket, the rebuilds that it counts included.\<close>

lemma ensure_refreshes:
  assumes "wf_file (h_queue h)" and "ticket_of t h = Some tk" and "nonblank target"
    and "opt_ok nonblank src" and "nonblank now"
    and "ensureHubLandingQueueTicket target t src None now h = (r, h')"
  shows "(\<exists>v. r = Inr v) \<and> ticket_of t h' = Some (refreshed_ticket tk
    \<lparr>qt_taskId = t, qt_blockerTaskIds = None, qt_sourceOid = src\<rparr>)"
proof -
  let ?task = "\<lparr>qt_taskId = t, qt_blockerTaskIds = None, qt_sourceOid = src\<rparr>"
  from assms(1) obtain q where q: "readHubLandingQueue (h_queue h) = Some q" "queue_wf q"
    by (auto simp: wf_file_def)
  with assms(2) have f: "find (\<lambda>tk. tk_taskId tk = t) (q_tickets q) = Some tk"
    by (auto simp: ticket_of_read)
  note wf = q(2) [unfolded queue_wf_def]
  from f find_task [OF wf] have tk: "tk \<in> set (q_tickets q)" "tk_taskId tk = t" by auto
  let ?q = "assign_queue target [?task] now q"
  have "nonblank t" using read_queue_ok [OF q(1)] tk by (auto simp: queue_ok_def list_all_iff ticket_ok_def)
  then have "list_all task_ok [?task]" using assms(4) by (simp add: task_ok_def)
  from assign_queue_ok [OF read_queue_ok [OF q(1)] assms(3,5) this]
  have r: "readHubLandingQueue (Text (queue_json ?q)) = Some ?q" by simp
  have "q_tickets ?q = update_first (\<lambda>x. tk_ticketId x = tk_ticketId tk) (refreshed_ticket tk ?task) (q_tickets q)"
    by (simp add: assign_queue_def Let_def assign_task_def by_task_id_wf [OF wf f])
  moreover have "\<forall>x \<in> set (q_tickets q). tk_ticketId x = tk_ticketId tk \<longrightarrow> x = tk"
    using tickets_wf_unique [OF wf _ tk(1)] by blast
  ultimately have "find (\<lambda>tk. tk_taskId tk = t) (q_tickets ?q) = Some (refreshed_ticket tk ?task)"
    using find_update_first [OF f, of "\<lambda>x. tk_ticketId x = tk_ticketId tk" "refreshed_ticket tk ?task"] tk(2)
    by (simp add: refreshed_ticket_def)
  with assms(6) q(1) r show ?thesis
    by (auto simp: ensureHubLandingQueueTicket_def assignHubLandingQueueTickets_def readQueue_def
        writeQueue_def act_defs ticket_of_read)
qed

lemma sync_core:
  assumes "syncQueueCandidate hi c h = (r, h')"
  shows "r = Inr () \<and> (case ticket_of (hi_taskId hi) h of
      None \<Rightarrow> h' = h
    | Some tk \<Rightarrow> core_of (hi_taskId hi) h' = Some (ticket_core (tk\<lparr>tk_status := Speculating\<rparr>)))"
proof -
  let ?t = "hi_taskId hi"
  let ?patch = "candidate_patch (lc_sourceOid c) (lc_baseOid c) (lc_candidateOid c) (lc_transactionId c)"
  obtain v h1 where run: "updateTicket ?t ?patch h = (v, h1)" by fastforce
  have h1: "(r, h') = (case v of Inl e \<Rightarrow> (Inl e, h1) | Inr _ \<Rightarrow> (Inr (), h1))"
    using assms run
    by (cases v) (simp_all add: syncQueueCandidate_def recordHubLandingQueueCandidate_def bind_act_def ret_act_def)
  show ?thesis
  proof (cases "ticket_of ?t h")
    case None
    with updateTicket_missing [OF None, of ?patch] run h1 show ?thesis by simp
  next
    case (Some tk)
    then have "tk_taskId tk = ?t" by (auto simp: ticket_of_read find_Some_iff)
    with updateTicket_core [OF Some run] h1 Some show ?thesis
      by (auto simp: candidate_patch_def ticket_core_def)
  qed
qed

lemma resume_not_waiting:
  "map_option tk_status (ticket_of t h) \<noteq> Some QuietWait \<Longrightarrow>
     resumeHubLandingQuietWaitIfStable t observed now h = (Inr NotWaiting, h)"
  by (simp add: resumeHubLandingQuietWaitIfStable_def bind_act_def gets_act_def ticket_of_def ret_act_def)

lemma enter_queue_status:
  assumes "enter_queue hi c h = (Inr (), h')"
  shows "map_option tk_status (ticket_of (hi_taskId hi) h') \<in> {None, Some Speculating}"
proof -
  from assms obtain v h1 where "syncQueueCandidate hi c h1 = (Inr (), h')"
    by (auto simp: enter_queue_def)
  from sync_core [OF this] show ?thesis
    by (cases "ticket_of (hi_taskId hi) h1") (auto dest: core_of_Some(3))
qed

text \<open>
  The coordinator never finds a task in the quiet wait. It lines the task up and records the candidate
  before it asks whether the wait is over, which overwrites the status of the ticket, so the answer is
  always that the task does not wait: no later run resumes it, and its count of rebuilds stays where it
  was. A ticket that has used up its rebuilds goes back into the quiet wait at the next drift without a
  single rebuild.
\<close>

theorem quiet_wait_is_forgotten:
  assumes "wf_file (h_queue h)" and "ticket_of (hi_taskId hi) h = Some tk"
    and "tk_status tk = QuietWait" and "HUB_LANDING_TARGET_DRIFT_REBUILD_LIMIT \<le> tk_activationDriftRebuilds tk"
    and "nonblank (p_publishTargetRef (lc_policy c))" and "nonblank (lc_sourceOid c)"
    and "nonblank (hi_queueNow hi 0)"
  shows "\<exists>h1. enter_queue hi c h = (Inr (), h1)
    \<and> resumeHubLandingQuietWaitIfStable (hi_taskId hi) observed now h1 = (Inr NotWaiting, h1)
    \<and> shouldEnterHubLandingQuietWait (hi_taskId hi) h1 = (Inr True, h1)"
proof -
  let ?t = "hi_taskId hi"
  let ?new = "refreshed_ticket tk \<lparr>qt_taskId = ?t, qt_blockerTaskIds = None, qt_sourceOid = Some (lc_sourceOid c)\<rparr>"
  obtain r h0 where e: "ensureHubLandingQueueTicket (p_publishTargetRef (lc_policy c)) ?t
      (Some (lc_sourceOid c)) None (hi_queueNow hi 0) h = (r, h0)" by fastforce
  have "opt_ok nonblank (Some (lc_sourceOid c))" using assms(6) by simp
  from ensure_refreshes [OF assms(1,2,5) this assms(7) e] obtain v where
      v: "r = Inr v" and t0: "ticket_of ?t h0 = Some ?new" by blast
  obtain x h1 where s: "syncQueueCandidate hi c h0 = (x, h1)" by fastforce
  from sync_core [OF s] t0 have x: "x = Inr ()"
      and core: "core_of ?t h1 = Some (ticket_core (?new\<lparr>tk_status := Speculating\<rparr>))" by auto
  have run: "enter_queue hi c h = (Inr (), h1)"
    using e v s x by (simp add: enter_queue_def bind_act_def)
  have "resumeHubLandingQuietWaitIfStable ?t observed now h1 = (Inr NotWaiting, h1)"
    by (intro resume_not_waiting) (simp only: core_of_Some(3) [OF core], simp)
  moreover have "activationDriftRebuilds ?t h1 = tk_activationDriftRebuilds tk"
    using core_of_Some(2) [OF core] by (simp add: refreshed_ticket_def)
  ultimately show ?thesis
    using run assms(4)
    by (simp add: shouldEnterHubLandingQuietWait_def gets_act_def activationDriftRebuilds_def ticket_of_def)
qed

subsection \<open>Runs of the coordinator\<close>

lemma turn_has_ticket:
  assumes "may_land (readHubLandingQueue (h_queue h)) shipped t"
  shows "ticket_of t h \<noteq> None"
proof -
  from assms obtain q head where q: "readHubLandingQueue (h_queue h) = Some q"
      and head: "first_by tk_sequence (filter (eligible shipped) (q_tickets q)) = Some head" "tk_taskId head = t"
    by (cases "readHubLandingQueue (h_queue h)")
      (auto simp: may_land_def resolveHubLandingQueueHead_def split: if_split_asm)
  then have "head \<in> set (q_tickets q)" using first_by_Some [OF head(1)] by simp
  with head(2) q show ?thesis
    by (auto simp: ticket_of_def findHubLandingQueueTicket_def find_None_iff)
qed

lemma line_up_turn:
  assumes "line_up_head E hi h = (Inr (Inr c), h1)"
  shows "may_land (readHubLandingQueue (h_queue h1)) (hi_shipped hi) (hi_taskId hi)"
proof -
  from assms obtain c0 observed h0 where "my_turn hi c0 observed h0 = (Inr (Inr c), h1)"
    by (auto simp: line_up_head_def Let_def split: if_split_asm)
  then show ?thesis
    by (auto simp: my_turn_def Let_def canLandHubLandingTicket_def readQueue_def
        resolveRequiredDeliveryPredecessor_def split: if_split_asm option.splits)
qed

text \<open>One round of the loop.\<close>

lemma land_head_cases:
  assumes "land_head E hi (Suc fuel) n c h = (r, h')"
  obtains (failed) e where "r = Inl e"
  | (settled) outcome h1 where
      "landHubCandidateWithLease E (land_input_of hi n c) h = (Inr outcome, h1)"
      "r = Inr (Some outcome)" "settle_attempt hi c outcome h1 = (Inr outcome, h')"
  | (quiet) outcome x h1 where
      "r = Inr (Some x)" "\<nexists>commit. at_outcome x = AttemptLanded commit"
  | (again) outcome h1 c' h2 where
      "landHubCandidateWithLease E (land_input_of hi n c) h = (Inr outcome, h1)"
      "activationDriftRebuilds (hi_taskId hi) h1 < HUB_LANDING_TARGET_DRIFT_REBUILD_LIMIT"
      "rebuild_after_drift E hi n c outcome h1 = (Inr c', h2)"
      "land_head E hi fuel (Suc n) c' h2 = (r, h')"
proof -
  obtain x h1 where land: "landHubCandidateWithLease E (land_input_of hi n c) h = (x, h1)" by fastforce
  show ?thesis
  proof (cases x)
    case (Inl e)
    with land assms show ?thesis by (intro failed [of e]) (auto simp: bind_act_def)
  next
    case (Inr outcome)
    show ?thesis
    proof (cases "\<exists>msg. at_outcome outcome = AttemptTargetDrift msg")
      case False
      have settle: "(r, h') = (case settle_attempt hi c outcome h1 of
          (Inl e, t) \<Rightarrow> (Inl e, t) | (Inr v, t) \<Rightarrow> (Inr (Some v), t))"
        using assms land Inr False by (auto simp: bind_act_def ret_act_def split: attempt_outcome.splits)
      obtain y h2 where y: "settle_attempt hi c outcome h1 = (y, h2)" by fastforce
      show ?thesis
      proof (cases y)
        case (Inl e)
        with settle y show ?thesis by (intro failed) simp
      next
        case (Inr v)
        then have "v = outcome"
          using y by (auto simp: settle_attempt_def split: attempt_outcome.splits)
        with settle y Inr land \<open>x = Inr outcome\<close> show ?thesis by (intro settled) simp_all
      qed
    next
      case True
      then obtain msg where drift: "at_outcome outcome = AttemptTargetDrift msg" by blast
      let ?k = "activationDriftRebuilds (hi_taskId hi) h1"
      have quiet: "shouldEnterHubLandingQuietWait (hi_taskId hi) h1
          = (Inr (HUB_LANDING_TARGET_DRIFT_REBUILD_LIMIT \<le> ?k), h1)"
        by (simp add: shouldEnterHubLandingQuietWait_def gets_act_def activationDriftRebuilds_def ticket_of_def)
      show ?thesis
      proof (cases "HUB_LANDING_TARGET_DRIFT_REBUILD_LIMIT \<le> ?k")
        case True
        then have wait: "(r, h') = (case wait_quietly hi n c outcome h1 of
            (Inl e, t) \<Rightarrow> (Inl e, t) | (Inr v, t) \<Rightarrow> (Inr (Some v), t))"
          using assms land Inr drift quiet by (auto simp: bind_act_def ret_act_def)
        obtain y h2 where y: "wait_quietly hi n c outcome h1 = (y, h2)" by fastforce
        show ?thesis
        proof (cases y)
          case (Inl e)
          with wait y show ?thesis by (intro failed) simp
        next
          case (Inr v)
          then have "\<nexists>commit. at_outcome v = AttemptLanded commit"
            using y by (auto simp: wait_quietly_def Let_def)
          with wait y Inr quiet that(3) show ?thesis by simp
        qed
      next
        case False
        then have go: "(r, h') = bind_act (rebuild_after_drift E hi n c outcome)
            (\<lambda>c'. land_head E hi fuel (Suc n) c') h1"
          using assms land Inr drift quiet by (simp add: bind_act_def)
        obtain y h2 where y: "rebuild_after_drift E hi n c outcome h1 = (y, h2)" by fastforce
        show ?thesis
        proof (cases y)
          case (Inl e)
          with go y show ?thesis by (intro failed) (simp add: bind_act_def)
        next
          case (Inr c')
          with go y land \<open>x = Inr outcome\<close> False show ?thesis
            by (intro again [of outcome h1 c' h2]) (simp_all add: bind_act_def)
        qed
      qed
    qed
  qed
qed

lemma land_head_ends:
  assumes "callbacks_keep hi"
  shows "ticket_of (hi_taskId hi) h \<noteq> None \<Longrightarrow> 0 < fuel \<Longrightarrow>
    HUB_LANDING_TARGET_DRIFT_REBUILD_LIMIT < int fuel + activationDriftRebuilds (hi_taskId hi) h \<Longrightarrow>
    land_head E hi fuel n c h \<noteq> (Inr None, h')"
proof (induction fuel arbitrary: n c h)
  case (Suc fuel)
  let ?t = "hi_taskId hi"
  show ?case
  proof
    assume run: "land_head E hi (Suc fuel) n c h = (Inr None, h')"
    then show False
    proof (cases rule: land_head_cases)
      case (again outcome h1 c' h2)
      have "same_queue h h1" using moves_result [OF unqueued_land again(1)] .
      then have h1: "ticket_of ?t h1 \<noteq> None"
          "activationDriftRebuilds ?t h1 = activationDriftRebuilds ?t h"
        using Suc.prems(1) by (simp_all add: same_queue_def ticket_of_def activationDriftRebuilds_def)
      from rebuild_counts [OF assms h1(1) again(3)] h1(2) Suc.prems(3) again(2)
      have "ticket_of ?t h2 \<noteq> None" "0 < fuel"
        "HUB_LANDING_TARGET_DRIFT_REBUILD_LIMIT < int fuel + activationDriftRebuilds ?t h2" by linarith+
      from Suc.IH [OF this] again(4) show False by simp
    qed simp_all
  qed
qed simp

lemma coordinate_Inr:
  assumes "coordinateHubQueueHeadLanding E hi fuel h = (Inr v, h')"
  shows "(\<exists>x. line_up_head E hi h = (Inr (Inl x), h') \<and> v = Some x)
    \<or> (\<exists>c h1. line_up_head E hi h = (Inr (Inr c), h1) \<and> land_head E hi fuel 0 c h1 = (Inr v, h'))"
proof -
  obtain y h1 where y: "line_up_head E hi h = (y, h1)" by fastforce
  with assms show ?thesis
    by (cases y; cases "projr y")
      (auto simp: coordinateHubQueueHeadLanding_def bind_act_def ret_act_def)
qed

text \<open>
  C13: The loop of the coordinator ends. As long as nobody takes the ticket away or turns its count of
  rebuilds back, a run makes at most four attempts when the count starts at zero, and in general one more
  than the rebuilds that are left: then it returns a result or throws.
\<close>

theorem head_landing_ends:
  assumes "callbacks_keep hi" and "0 < fuel"
    and "\<And>c h1. line_up_head E hi h = (Inr (Inr c), h1) \<Longrightarrow>
      HUB_LANDING_TARGET_DRIFT_REBUILD_LIMIT < int fuel + activationDriftRebuilds (hi_taskId hi) h1"
  shows "\<exists>r h'. coordinateHubQueueHeadLanding E hi fuel h = (r, h') \<and> r \<noteq> Inr None"
proof -
  obtain r h' where run: "coordinateHubQueueHeadLanding E hi fuel h = (r, h')" by fastforce
  have "r \<noteq> Inr None"
  proof
    assume "r = Inr None"
    with run coordinate_Inr obtain c h1 where line: "line_up_head E hi h = (Inr (Inr c), h1)"
        and land: "land_head E hi fuel 0 c h1 = (Inr None, h')"
      by blast
    note 1 = turn_has_ticket [OF line_up_turn [OF line]]
    from land_head_ends [OF assms(1) 1 assms(2) assms(3) [OF line]] land show False by simp
  qed
  with run show ?thesis by blast
qed

text \<open>What a landing of the loop has done.\<close>

lemma settle_status:
  assumes "settle_attempt hi c outcome h = (Inr outcome, h')" and "at_outcome outcome = AttemptLanded commit"
  shows "h_git h' = h_git h \<and> (\<forall>tk. ticket_of (hi_taskId hi) h' = Some tk \<longrightarrow>
    tk_status tk = (if p_publishPolicy (lc_policy c) = Required then Publishing else Landed))"
proof -
  let ?t = "hi_taskId hi"
  let ?st = "if p_publishPolicy (lc_policy c) = Required then Publishing else Landed"
  from assms obtain v where run: "updateTicket ?t (settled_patch ?st) h = (Inr v, h')"
    by (auto simp: settle_attempt_def markHubLandingQueueAfterLocalLand_def
        markHubLandingQueuePublishing_def markHubLandingQueueLanded_def split: if_split_asm)
  show ?thesis
  proof (cases "ticket_of ?t h")
    case None
    with updateTicket_missing [OF None, of "settled_patch ?st"] run show ?thesis by auto
  next
    case (Some tk)
    then have "tk_taskId tk = ?t" by (auto simp: ticket_of_read find_Some_iff)
    with updateTicket_core [OF Some run] have
        core: "core_of ?t h' = Some (ticket_core (settled_patch ?st tk))" and g: "h' = h\<lparr>h_queue := h_queue h'\<rparr>"
      by (simp_all add: settled_patch_def)
    from g have "h_git h' = h_git h" by (metis hub.select_convs(1) hub.surjective hub.update_convs(6))
    moreover have "map_option tk_status (ticket_of ?t h') = Some ?st"
      using core_of_Some(3) [OF core] by (simp add: settled_patch_def)
    ultimately show ?thesis by auto
  qed
qed

lemma land_head_landed:
  assumes "land_head E hi fuel n c h = (Inr (Some a), h')" and "at_outcome a = AttemptLanded commit"
  shows "\<exists>n c h1 h2. landHubCandidateWithLease E (land_input_of hi n c) h1 = (Inr a, h2)
    \<and> settle_attempt hi c a h2 = (Inr a, h')"
  using assms(1)
proof (induction fuel arbitrary: n c h)
  case (Suc fuel)
  from Suc.prems show ?case
    by (cases rule: land_head_cases) (use assms(2) Suc.IH in auto)
qed simp

text \<open>
  C3: A task lands in its turn. When a run of the coordinator reports a landing, the task was the head of
  the queue, with no earlier delivery outstanding, when its landing began; the repository holds the
  receipt of the candidate that is reported, which may be a rebuilt one; and the ticket of the task is
  settled: landed, or publishing when delivery is required.
\<close>

theorem head_lands_in_turn:
  assumes "git_laws (e_git E)" and "\<forall>n. keeps_objects (e_git E) (hi_race hi n)"
    and "e_fault E = no_faults"
    and "distinct_refs (commit_of (land_input_of hi 0 (at_candidate a)) None)"
    and "coordinateHubQueueHeadLanding E hi fuel h = (Inr (Some a), h')"
    and "at_outcome a = AttemptLanded commit"
  shows "(\<exists>c h1. line_up_head E hi h = (Inr (Inr c), h1)
        \<and> may_land (readHubLandingQueue (h_queue h1)) (hi_shipped hi) (hi_taskId hi))
    \<and> (\<exists>receipt. readHubLandingReceipt E (h_git h') (lc_transactionId (at_candidate a))
          = Some (receipt, cr_receiptOid commit)
        \<and> rc_candidateOid receipt = lc_candidateOid (at_candidate a))
    \<and> (\<forall>tk. ticket_of (hi_taskId hi) h' = Some tk \<longrightarrow> tk_status tk =
        (if p_publishPolicy (lc_policy (at_candidate a)) = Required then Publishing else Landed))"
proof -
  have no: "line_up_head E hi h \<noteq> (Inr (Inl a), h')"
  proof
    assume "line_up_head E hi h = (Inr (Inl a), h')"
    with assms(6) show False
      by (auto simp: line_up_head_def Let_def my_turn_def withFenceEvidence_def
          split: if_split_asm option.splits)
  qed
  with coordinate_Inr [OF assms(5)] obtain c0 h0 where line: "line_up_head E hi h = (Inr (Inr c0), h0)"
      and land: "land_head E hi fuel 0 c0 h0 = (Inr (Some a), h')"
    by auto
  from land_head_landed [OF land assms(6)] obtain n c h1 h2 where
      run: "landHubCandidateWithLease E (land_input_of hi n c) h1 = (Inr a, h2)"
    and settle: "settle_attempt hi c a h2 = (Inr a, h')" by blast
  have li: "li_lease (land_input_of hi n c) = None" "li_race (land_input_of hi n c) = hi_race hi n"
      "li_candidate (land_input_of hi n c) = c"
    by (simp_all add: land_input_of_def)
  have k: "keeps_objects (e_git E) (li_race (land_input_of hi n c))" using assms(2) li by simp
  have c: "at_candidate a = c"
  proof -
    from run li(1) assms(3) show ?thesis
      by (cases rule: land_cases)
        (auto simp: commitCandidateWithLease_def toLandedAttempt_def toPendingAttempt_def li
          elim!: land_with_lease_cases)
  qed
  then have d: "distinct_refs (commit_of (land_input_of hi n c) None)"
    using assms(4) by (simp add: distinct_refs_def receipt_ref_def land_input_of_def)
  from attempt_facts [OF assms(1) k d li(1) assms(3) run] assms(6) li(3)
  have "landed_evidence E (land_input_of hi n c) h1 h2 (cr_receiptOid commit)" by simp
  with settle_status [OF settle assms(6)] line line_up_turn [OF line] c li(3) show ?thesis
    by (auto simp: landed_evidence_def)
qed

subsection \<open>A run in the demonstration world\<close>

definition demo_head :: "demo_world head_input" where
  "demo_head = \<lparr>hi_taskId = ''t'', hi_branch = ''feature'', hi_candidate = Some demo_candidate,
     hi_verifierFingerprint = ''fp'', hi_rebuild = Some (ret_act demo_candidate),
     hi_verify = Some (\<lambda>_. ret_act ()), hi_now = ''2'', hi_merge = None, hi_shipped = {},
     hi_clock = (\<lambda>_. ''2''), hi_queueNow = (\<lambda>_. ''2''), hi_random = (\<lambda>_. 0),
     hi_probe = (\<lambda>_. demo_probe 7 ''n''), hi_meanwhile = (\<lambda>_. id), hi_race = (\<lambda>_. id),
     hi_sleep = (\<lambda>_ _. id)\<rparr>"

theorem head_lands_in_turn_witness:
  "\<exists>a commit h' receipt. coordinateHubQueueHeadLanding demo_env demo_head 1 demo_verified = (Inr (Some a), h')
     \<and> at_outcome a = AttemptLanded commit
     \<and> readHubLandingReceipt demo_env (h_git h') (lc_transactionId (at_candidate a))
         = Some (receipt, cr_receiptOid commit)"
proof -
  let ?e = "coordinateHubQueueHeadLanding demo_env demo_head 1 demo_verified"
  let ?d = "\<lambda>a. distinct_refs (commit_of (land_input_of demo_head 0 (at_candidate a)) None)"
  have "case fst ?e of Inr (Some a) \<Rightarrow> (case at_outcome a of AttemptLanded c \<Rightarrow> ?d a | _ \<Rightarrow> False)
      | _ \<Rightarrow> False" by code_simp
  then obtain a where a: "fst ?e = Inr (Some a)"
      "case at_outcome a of AttemptLanded c \<Rightarrow> ?d a | _ \<Rightarrow> False"
    by (cases "fst ?e") (auto split: option.splits)
  then obtain commit where l: "at_outcome a = AttemptLanded commit" and d: "?d a"
    by (cases "at_outcome a") simp_all
  with a(1) obtain h' where e: "?e = (Inr (Some a), h')" "at_outcome a = AttemptLanded commit"
    by (cases ?e) simp
  have k: "\<forall>n. keeps_objects (e_git demo_env) (hi_race demo_head n)"
    by (simp add: keeps_objects_def demo_head_def)
  have "e_fault demo_env = no_faults" by (simp add: demo_env_def)
  from head_lands_in_turn [OF demo_env_git k this d e] e show ?thesis by blast
qed

text \<open>A candidate on a base that the target is not at, rebuilt on the same base again and again.\<close>

definition stale_head :: "demo_world head_input" where
  "stale_head = demo_head\<lparr>hi_candidate := Some (demo_candidate\<lparr>lc_baseOid := demo_oid (CHR ''c'')\<rparr>),
     hi_rebuild := Some (ret_act (demo_candidate\<lparr>lc_baseOid := demo_oid (CHR ''c'')\<rparr>))\<rparr>"

theorem head_landing_ends_witness:
  "\<exists>r h'. coordinateHubQueueHeadLanding demo_env stale_head 4 demo_verified = (r, h') \<and> r \<noteq> Inr None"
proof -
  have keep: "callbacks_keep stale_head"
    by (auto simp: callbacks_keep_def stale_head_def demo_head_def counted.kept_refl intro: counted.moves_ret)
  have "case line_up_head demo_env stale_head demo_verified of
        (Inr (Inr c), h1) \<Rightarrow> 0 \<le> activationDriftRebuilds (hi_taskId stale_head) h1 | _ \<Rightarrow> True" by code_simp
  then have "HUB_LANDING_TARGET_DRIFT_REBUILD_LIMIT < int 4 + activationDriftRebuilds (hi_taskId stale_head) h1"
    if "line_up_head demo_env stale_head demo_verified = (Inr (Inr c), h1)" for c h1
    using that by (simp add: HUB_LANDING_TARGET_DRIFT_REBUILD_LIMIT_def)
  with head_landing_ends [OF keep, of 4 demo_env demo_verified] show ?thesis by simp
qed

text \<open>The first task of the queue has used up its rebuilds and waits.\<close>

definition exhausted_patch :: "HubLandingQueueTicket \<Rightarrow> HubLandingQueueTicket" where
  "exhausted_patch tk = (quiet_patch ''x'' ''2'' tk)\<lparr>tk_activationDriftRebuilds := 3\<rparr>"

definition exhausted_queue :: HubLandingQueueState where
  "exhausted_queue = snd (the (patch_queue ''a'' exhausted_patch demo_queue))"

theorem quiet_wait_is_forgotten_witness:
  "\<exists>h1. enter_queue (demo_head\<lparr>hi_taskId := ''a''\<rparr>) demo_candidate (queued_hub exhausted_queue) = (Inr (), h1)
     \<and> resumeHubLandingQuietWaitIfStable ''a'' ''x'' ''3'' h1 = (Inr NotWaiting, h1)
     \<and> shouldEnterHubLandingQuietWait ''a'' h1 = (Inr True, h1)"
proof -
  let ?tk = "exhausted_patch demo_ticket" and ?hi = "demo_head\<lparr>hi_taskId := ''a''\<rparr>"
  have "fst (the (patch_queue ''a'' exhausted_patch demo_queue)) = ?tk"
    and "patch_queue ''a'' exhausted_patch demo_queue \<noteq> None" by code_simp+
  then have p: "patch_queue ''a'' exhausted_patch demo_queue = Some (?tk, exhausted_queue)"
    by (auto simp: exhausted_queue_def)
  have keep: "ident (exhausted_patch tk) = ident tk" for tk
    by (simp add: exhausted_patch_def quiet_patch_def ident_def)
  have ok: "ticket_ok (exhausted_patch tk)" if "ticket_ok tk" for tk
    using that by (auto simp: exhausted_patch_def quiet_patch_def ticket_ok_def nonblank_def js_space_def)
  note wf = lq.inv_reach [OF demo_queue_reached]
  have "queue_ok exhausted_queue" using demo_queue_ok ok p by (rule patch_queue_ok)
  note read = queued_hub_read [OF this]
  have good: "wf_file (h_queue (queued_hub exhausted_queue))"
    using read patch_queue_wf [OF wf keep p] by (auto simp: wf_file_def)
  have ticket: "ticket_of (hi_taskId ?hi) (queued_hub exhausted_queue) = Some ?tk"
    using read find_patched(1) [OF wf keep p] by (simp add: ticket_of_def findHubLandingQueueTicket_def)
  have st: "tk_status ?tk = QuietWait"
      "HUB_LANDING_TARGET_DRIFT_REBUILD_LIMIT \<le> tk_activationDriftRebuilds ?tk"
    by (simp_all add: exhausted_patch_def quiet_patch_def HUB_LANDING_TARGET_DRIFT_REBUILD_LIMIT_def)
  have "nonblank (p_publishTargetRef (lc_policy demo_candidate))" "nonblank (lc_sourceOid demo_candidate)"
      "nonblank (hi_queueNow ?hi 0)" by code_simp+
  from quiet_wait_is_forgotten [OF good ticket st this, of "''x''" "''3''"] show ?thesis by simp
qed

end
