(* ===== verification/Task_Board.thy ===== *)
theory Task_Board
  imports Hub_State "HOL-Library.List_Lexorder" "HOL-Library.Char_ord"
begin

text \<open>
  The tasks of a hub project (\<open>src/src/taskBoard.ts\<close>, \<open>src/src/bdCliArgs.ts\<close>, and the claims and task
  events of \<open>src/src/hubExecution.ts\<close>): the projection of a Beads record to a task with a hub status, the
  transition that writes a status and checks it, claims, and the other operations on the task store.
  The Beads command \<open>bd\<close> is a parameter.
\<close>

subsection \<open>Objects\<close>

text \<open>Assignment, deletion and spreading of the properties of an object.\<close>

definition jset :: "(string \<times> json) list \<Rightarrow> string \<Rightarrow> json \<Rightarrow> (string \<times> json) list" where
  "jset kvs k v =
     (if k \<in> fst ` set kvs then map (\<lambda>p. if fst p = k then (k, v) else p) kvs else kvs @ [(k, v)])"

definition jdel :: "(string \<times> json) list \<Rightarrow> string \<Rightarrow> (string \<times> json) list" where
  "jdel kvs k = filter (\<lambda>p. fst p \<noteq> k) kvs"

definition jspread :: "(string \<times> json) list \<Rightarrow> (string \<times> json) list \<Rightarrow> (string \<times> json) list" where
  "jspread a b = foldl (\<lambda>kvs (k, v). jset kvs k v) a b"

definition deleteMetadataKeys :: "(string \<times> json) list \<Rightarrow> string list \<Rightarrow> (string \<times> json) list" where
  "deleteMetadataKeys kvs keys = foldl jdel kvs keys"

text \<open>\<open>record.a ?? record.b ?? ...\<close>, and whether a value is truthy.\<close>

fun first_value :: "(string \<times> json) list \<Rightarrow> string list \<Rightarrow> json option" where
  "first_value kvs [] = None"
| "first_value kvs (k # ks) =
     (case jget kvs k of None \<Rightarrow> first_value kvs ks
      | Some v \<Rightarrow> if v = JNull then first_value kvs ks else Some v)"

fun truthy :: "json option \<Rightarrow> bool" where
  "truthy None = False"
| "truthy (Some JNull) = False"
| "truthy (Some (JBool b)) = b"
| "truthy (Some (JNum q)) = (q \<noteq> 0)"
| "truthy (Some (JStr s)) = (s \<noteq> [])"
| "truthy (Some (JArr vs)) = True"
| "truthy (Some (JObj kvs)) = True"

definition as_object :: "json option \<Rightarrow> (string \<times> json) list" where
  "as_object v = (case v of None \<Rightarrow> [] | Some w \<Rightarrow> readObject w)"

text \<open>\<open>replace(/[...]+/g, d)\<close>: a maximal run of matching characters becomes one \<open>d\<close>.\<close>

fun replace_matching :: "(char \<Rightarrow> bool) \<Rightarrow> char \<Rightarrow> bool \<Rightarrow> string \<Rightarrow> string" where
  "replace_matching P d in_run [] = []"
| "replace_matching P d in_run (c # cs) =
     (if \<not> P c then c # replace_matching P d False cs
      else if in_run then replace_matching P d True cs
      else d # replace_matching P d True cs)"

definition normalizeKey :: "string \<Rightarrow> string" where
  "normalizeKey s =
     replace_matching (\<lambda>c. js_space c \<or> c = CHR ''-'') (CHR ''_'') False (toLowerCase (js_trim s))"

text \<open>The first of each group of equal elements, as \<open>[...new Set(values)]\<close> keeps them.\<close>

fun uniqueStrings :: "string list \<Rightarrow> string list" where
  "uniqueStrings [] = []"
| "uniqueStrings (x # xs) = x # filter (\<lambda>y. y \<noteq> x) (uniqueStrings xs)"


subsection \<open>Statuses\<close>

datatype HubTaskStatus =
    HubInbox | HubNeedsInfo | HubReadyForAgent | HubReadyForHuman | HubBlocked | HubImplementing
  | HubReviewing | HubWaitingForMerge | HubMerging | HubPublishing | HubDone | HubWontfix | HubFailed
  | HubSyncConflict

fun hub_status_name :: "HubTaskStatus \<Rightarrow> string" where
  "hub_status_name HubInbox = ''inbox''"
| "hub_status_name HubNeedsInfo = ''needs_info''"
| "hub_status_name HubReadyForAgent = ''ready_for_agent''"
| "hub_status_name HubReadyForHuman = ''ready_for_human''"
| "hub_status_name HubBlocked = ''blocked''"
| "hub_status_name HubImplementing = ''implementing''"
| "hub_status_name HubReviewing = ''reviewing''"
| "hub_status_name HubWaitingForMerge = ''waiting_for_merge''"
| "hub_status_name HubMerging = ''merging''"
| "hub_status_name HubPublishing = ''publishing''"
| "hub_status_name HubDone = ''done''"
| "hub_status_name HubWontfix = ''wontfix''"
| "hub_status_name HubFailed = ''failed''"
| "hub_status_name HubSyncConflict = ''sync_conflict''"

definition HUB_TASK_STATUSES :: "HubTaskStatus list" where
  "HUB_TASK_STATUSES =
     [HubInbox, HubNeedsInfo, HubReadyForAgent, HubReadyForHuman, HubBlocked, HubImplementing,
      HubReviewing, HubWaitingForMerge, HubMerging, HubPublishing, HubDone, HubWontfix, HubFailed,
      HubSyncConflict]"

definition isCompletedHubStatus :: "HubTaskStatus \<Rightarrow> bool" where
  "isCompletedHubStatus st \<longleftrightarrow> st = HubDone \<or> st = HubWontfix"

definition BEADS_LIFECYCLE_STATUSES :: "string list" where
  "BEADS_LIFECYCLE_STATUSES = [''open'', ''in_progress'', ''blocked'', ''closed'']"

definition TASK_STATUS_KEYS :: "string list" where
  "TASK_STATUS_KEYS =
     [''hub_status'', ''hubStatus'', ''task_status'', ''taskStatus'', ''hub_state'', ''hubState'',
      ''triage_status'', ''triageStatus'', ''task_board_status'', ''taskBoardStatus'']"

definition BEADS_LIFECYCLE_KEYS :: "string list" where
  "BEADS_LIFECYCLE_KEYS = [''state'', ''status'', ''lifecycle'']"

definition BLOCKED_METADATA_KEYS :: "string list" where
  "BLOCKED_METADATA_KEYS =
     [''blocked_reason'', ''blockedReason'', ''blocked_reason_kind'', ''blockedReasonKind'', ''blocked'']"

definition NEEDS_INFO_METADATA_KEYS :: "string list" where
  "NEEDS_INFO_METADATA_KEYS =
     [''needs_info'', ''needsInfo'', ''needs_info_reason'', ''needsInfoReason'']"

definition FAILURE_METADATA_KEYS :: "string list" where
  "FAILURE_METADATA_KEYS = [''failureReason'', ''failure_reason'', ''failed'']"

definition SYNC_CONFLICT_METADATA_KEYS :: "string list" where
  "SYNC_CONFLICT_METADATA_KEYS =
     [''sync_conflict'', ''syncConflict'', ''sync_conflict_reason'', ''syncConflictReason'']"

definition WONTFIX_METADATA_KEYS :: "string list" where
  "WONTFIX_METADATA_KEYS = [''wontfix'', ''wontFix'', ''rejected'']"

definition DONE_METADATA_KEYS :: "string list" where
  "DONE_METADATA_KEYS = [''done'']"

text \<open>The metadata that by itself decides the status, in the order in which it is looked for.\<close>

definition METADATA_STATUS_RULES :: "(string list \<times> HubTaskStatus) list" where
  "METADATA_STATUS_RULES =
     [([''blocked_reason'', ''blockedReason'', ''blocked_reason_kind'', ''blockedReasonKind'', ''blocked''],
         HubBlocked),
      ([''needs_info'', ''needsInfo'', ''needs_info_reason'', ''needsInfoReason''], HubNeedsInfo),
      ([''failed'', ''failedReason'', ''failure_reason'', ''failureReason''], HubFailed),
      ([''sync_conflict'', ''syncConflict'', ''sync_conflict_reason'', ''syncConflictReason''],
         HubSyncConflict),
      ([''wontfix'', ''wontFix'', ''rejected''], HubWontfix),
      ([''done''], HubDone)]"

definition IMPLEMENTING_LABEL_STATUSES :: "HubTaskStatus list" where
  "IMPLEMENTING_LABEL_STATUSES = [HubInbox, HubNeedsInfo, HubReadyForAgent, HubReadyForHuman]"

definition LABEL_AUTHORITATIVE_STATUSES :: "HubTaskStatus list" where
  "LABEL_AUTHORITATIVE_STATUSES =
     [HubImplementing, HubReviewing, HubWaitingForMerge, HubMerging, HubPublishing, HubFailed, HubDone,
      HubWontfix]"

definition STATUS_LABEL_TO_HUB_STATUS :: "(string \<times> HubTaskStatus) list" where
  "STATUS_LABEL_TO_HUB_STATUS =
     (''needs_triage'', HubInbox) # map (\<lambda>st. (hub_status_name st, st)) HUB_TASK_STATUSES"

subsection \<open>Reading a record\<close>

fun readFirstString :: "(string \<times> json) list \<Rightarrow> string list \<Rightarrow> string option" where
  "readFirstString kvs [] = None"
| "readFirstString kvs (k # ks) = coalesce (readString kvs k) (readFirstString kvs ks)"

text \<open>One item of \<open>readStringList\<close>; the keys may be \<open>undefined\<close>. Arrays have none of the properties.\<close>

fun list_item :: "string list option \<Rightarrow> json \<Rightarrow> string option" where
  "list_item keys (JStr s) = (if nonblank s then Some (js_trim s) else None)"
| "list_item keys (JObj kvs) =
     coalesce (case keys of None \<Rightarrow> None | Some ks \<Rightarrow> readFirstString kvs ks)
       (readFirstString kvs [''name'', ''title'', ''id'', ''ref''])"
| "list_item keys _ = None"

fun readStringList :: "json option \<Rightarrow> string list option \<Rightarrow> string list" where
  "readStringList (Some (JArr vs)) keys = List.map_filter (list_item keys) vs"
| "readStringList _ keys = []"

record BeadsTaskComment =
  co_body :: "string option"
  co_author :: "string option"
  co_createdAt :: "string option"

fun comment_item :: "json \<Rightarrow> BeadsTaskComment option" where
  "comment_item (JObj kvs) =
    (let c = \<lparr>co_body = readFirstString kvs [''body'', ''text'', ''message'', ''comment''],
           co_author = readFirstString kvs [''author'', ''user'', ''login'', ''name''],
           co_createdAt = readFirstString kvs [''createdAt'', ''created_at'', ''timestamp'', ''date'']\<rparr>
     in if co_body c = None \<and> co_author c = None \<and> co_createdAt c = None then None else Some c)"
| "comment_item _ = None"

fun readComments :: "json option \<Rightarrow> BeadsTaskComment list" where
  "readComments (Some (JArr vs)) = List.map_filter comment_item vs"
| "readComments _ = []"

definition readRefs :: "json option \<Rightarrow> string list" where
  "readRefs v = readStringList v (Some [''url'', ''ref'', ''name'', ''title'', ''id'', ''branch''])"

definition decimal :: "string \<Rightarrow> bool" where
  "decimal s \<longleftrightarrow> s \<noteq> [] \<and> list_all (\<lambda>c. 48 \<le> (of_char c :: nat) \<and> (of_char c :: nat) \<le> 57) s"

text \<open>\<open>Number\<close> prints as the integer it reads up to \<open>2 ^ 53\<close>; issue numbers are far below.\<close>

fun readGithubIssueRemoteRefs :: "json option \<Rightarrow> string list" where
  "readGithubIssueRemoteRefs (Some (JNum q)) =
     (if of_int \<lfloor>q\<rfloor> = q \<and> 0 < q then [''github#'' @ show_int \<lfloor>q\<rfloor>] else [])"
| "readGithubIssueRemoteRefs (Some (JStr s)) =
     (if decimal (js_trim s) then [''github#'' @ show_nat (read_nat 0 (js_trim s))] else [])"
| "readGithubIssueRemoteRefs _ = []"

text \<open>\<open>String(value)\<close>; \<open>numText\<close> prints a number that is no integer.\<close>

fun comma_join :: "string list \<Rightarrow> string" where
  "comma_join [] = []"
| "comma_join [s] = s"
| "comma_join (s # ss) = s @ CHR '','' # comma_join ss"

fun js_text :: "(rat \<Rightarrow> string) \<Rightarrow> json \<Rightarrow> string" where
  "js_text numText JNull = ''null''"
| "js_text numText (JBool b) = (if b then ''true'' else ''false'')"
| "js_text numText (JNum q) = (if of_int \<lfloor>q\<rfloor> = q then show_int \<lfloor>q\<rfloor> else numText q)"
| "js_text numText (JStr s) = s"
| "js_text numText (JArr vs) =
     comma_join (map (\<lambda>v. if v = JNull then [] else js_text numText v) vs)"
| "js_text numText (JObj kvs) = ''[object Object]''"


subsection \<open>Claims\<close>

record HubTaskClaimMetadata =
  hc_runId :: "string option"
  hc_batchId :: "string option"
  hc_taskId :: "string option"
  hc_branch :: "string option"
  hc_claimedAt :: "string option"
  hc_baseHead :: "string option"
  hc_branchExistedBeforeClaim :: "bool option"
  hc_raw :: "(string \<times> json) list"

fun boolean_value :: "json option \<Rightarrow> bool option" where
  "boolean_value (Some (JBool b)) = Some b"
| "boolean_value (Some (JStr s)) =
     (if s = ''true'' then Some True else if s = ''false'' then Some False else None)"
| "boolean_value _ = None"

fun readBoolean :: "(string \<times> json) list \<Rightarrow> string list \<Rightarrow> bool option" where
  "readBoolean kvs [] = None"
| "readBoolean kvs (k # ks) = coalesce (boolean_value (jget kvs k)) (readBoolean kvs ks)"

definition readClaimRecord :: "(string \<times> json) list \<Rightarrow> (string \<times> json) list option" where
  "readClaimRecord metadata =
    (let nested = as_object (first_value metadata [''claim'', ''hubClaim'', ''hub_claim'', ''taskClaim''])
     in if nested \<noteq> [] then Some nested
        else if list_all (\<lambda>k. readString metadata k \<noteq> None) [''runId'', ''batchId'', ''branch'', ''claimedAt'']
        then Some metadata else None)"

definition readHubTaskClaim :: "(string \<times> json) list \<Rightarrow> HubTaskClaimMetadata option" where
  "readHubTaskClaim metadata =
     (case readClaimRecord metadata of
        None \<Rightarrow> None
      | Some kvs \<Rightarrow> Some
          \<lparr>hc_runId = readFirstString kvs [''runId'', ''run_id''],
           hc_batchId = readFirstString kvs [''batchId'', ''batch_id''],
           hc_taskId = readFirstString kvs [''taskId'', ''task_id''],
           hc_branch = readFirstString kvs [''branch''],
           hc_claimedAt = readFirstString kvs [''claimedAt'', ''claimed_at''],
           hc_baseHead = readFirstString kvs [''baseHead'', ''base_head''],
           hc_branchExistedBeforeClaim =
             readBoolean kvs [''branchExistedBeforeClaim'', ''branch_existed_before_claim''],
           hc_raw = kvs\<rparr>)"

definition ACTIVE_HUB_TASK_CLAIM_STATUSES :: "HubTaskStatus list" where
  "ACTIVE_HUB_TASK_CLAIM_STATUSES = [HubImplementing, HubReviewing, HubWaitingForMerge, HubMerging]"

definition isHubTaskClaimActive :: "HubTaskStatus \<Rightarrow> bool" where
  "isHubTaskClaimActive st \<longleftrightarrow> st \<in> set ACTIVE_HUB_TASK_CLAIM_STATUSES"

datatype claim_state = ClaimActive | ClaimStale

definition resolveHubTaskClaimState ::
    "HubTaskStatus \<Rightarrow> HubTaskClaimMetadata option \<Rightarrow> claim_state option" where
  "resolveHubTaskClaimState st claim =
     (if claim = None then None else Some (if isHubTaskClaimActive st then ClaimActive else ClaimStale))"

definition createHubTaskClaimMetadata ::
    "string \<Rightarrow> string \<Rightarrow> task_id \<Rightarrow> string \<Rightarrow> iso_time \<Rightarrow> string option \<Rightarrow> bool option
     \<Rightarrow> HubTaskClaimMetadata" where
  "createHubTaskClaimMetadata run batch t branch claimedAt baseHead existed =
     \<lparr>hc_runId = Some run, hc_batchId = Some batch, hc_taskId = Some t, hc_branch = Some branch,
      hc_claimedAt = Some claimedAt, hc_baseHead = baseHead, hc_branchExistedBeforeClaim = existed,
      hc_raw = defined_fields
        [(''runId'', Some (JStr run)), (''batchId'', Some (JStr batch)), (''taskId'', Some (JStr t)),
         (''branch'', Some (JStr branch)), (''claimedAt'', Some (JStr claimedAt)),
         (''baseHead'', jstr_opt baseHead),
         (''branchExistedBeforeClaim'', map_option JBool existed)]\<rparr>"

subsection \<open>The projection of a task\<close>

fun normalizeHubTaskStatus :: "json option \<Rightarrow> HubTaskStatus option" where
  "normalizeHubTaskStatus (Some (JStr s)) =
     find (\<lambda>st. hub_status_name st = normalizeKey s) HUB_TASK_STATUSES"
| "normalizeHubTaskStatus _ = None"

definition normalizeBeadsLifecycle :: "string option \<Rightarrow> string option" where
  "normalizeBeadsLifecycle v =
     (case v of None \<Rightarrow> None
      | Some s \<Rightarrow> if normalizeKey s \<in> set BEADS_LIFECYCLE_STATUSES then Some (normalizeKey s) else None)"

fun first_status :: "(string \<times> json) list \<Rightarrow> string list \<Rightarrow> HubTaskStatus option" where
  "first_status kvs [] = None"
| "first_status kvs (k # ks) = coalesce (normalizeHubTaskStatus (jget kvs k)) (first_status kvs ks)"

definition resolveMetadataStatus :: "(string \<times> json) list \<Rightarrow> HubTaskStatus option" where
  "resolveMetadataStatus metadata = first_status metadata TASK_STATUS_KEYS"

text \<open>A value is present unless it is \<open>undefined\<close>, \<open>null\<close> or a blank string; \<open>false\<close> is present.\<close>

fun present :: "json option \<Rightarrow> bool" where
  "present None = False"
| "present (Some JNull) = False"
| "present (Some (JStr s)) = nonblank s"
| "present (Some _) = True"

definition hasTruthyMetadata :: "(string \<times> json) list \<Rightarrow> string list \<Rightarrow> bool" where
  "hasTruthyMetadata metadata keys \<longleftrightarrow> list_ex (\<lambda>k. present (jget metadata k)) keys"

definition resolveStatusFromMetadataReasons :: "(string \<times> json) list \<Rightarrow> HubTaskStatus option" where
  "resolveStatusFromMetadataReasons metadata =
     map_option snd (find (\<lambda>rule. hasTruthyMetadata metadata (fst rule)) METADATA_STATUS_RULES)"

fun resolveStatusFromLabels :: "string list \<Rightarrow> HubTaskStatus option" where
  "resolveStatusFromLabels [] = None"
| "resolveStatusFromLabels (l # ls) =
     coalesce (map_of STATUS_LABEL_TO_HUB_STATUS (normalizeKey l)) (resolveStatusFromLabels ls)"

definition status_from_lifecycle :: "string option \<Rightarrow> HubTaskStatus" where
  "status_from_lifecycle lifecycle =
     (if lifecycle = Some ''blocked'' then HubBlocked
      else if lifecycle = Some ''closed'' then HubDone
      else if lifecycle = Some ''in_progress'' then HubImplementing
      else HubInbox)"

definition resolveStatusFromTaskShape ::
    "(string \<times> json) list \<Rightarrow> string list \<Rightarrow> (string \<times> json) list \<Rightarrow> HubTaskStatus" where
  "resolveStatusFromTaskShape task labels metadata =
    (case normalizeHubTaskStatus (jstr_opt (readFirstString task TASK_STATUS_KEYS)) of
       Some direct \<Rightarrow> direct
     | None \<Rightarrow>
       (let lifecycle = normalizeBeadsLifecycle (readFirstString task BEADS_LIFECYCLE_KEYS);
            labelStatus = resolveStatusFromLabels labels;
            metadataStatus = resolveMetadataStatus metadata
        in case resolveStatusFromMetadataReasons metadata of
          Some reason \<Rightarrow>
            (case metadataStatus of
               Some m \<Rightarrow> if reason = HubSyncConflict \<and> isCompletedHubStatus m then m else reason
             | None \<Rightarrow> reason)
        | None \<Rightarrow>
            if labelStatus \<noteq> None \<and> the labelStatus \<in> set LABEL_AUTHORITATIVE_STATUSES
               \<and> metadataStatus \<noteq> labelStatus
            then the labelStatus
            else if metadataStatus \<noteq> None then the metadataStatus
            else if lifecycle = Some ''in_progress'' \<and> labelStatus \<noteq> None
               \<and> the labelStatus \<in> set IMPLEMENTING_LABEL_STATUSES
            then HubImplementing
            else if labelStatus \<noteq> None then the labelStatus
            else status_from_lifecycle lifecycle))"

record HubTaskProjection =
  tp_id :: task_id
  tp_title :: string
  tp_beadsStatus :: "string option"
  tp_hubStatus :: HubTaskStatus
  tp_owner :: "string option"
  tp_claim :: "HubTaskClaimMetadata option"
  tp_claimState :: "claim_state option"
  tp_labels :: "string list"
  tp_metadata :: "(string \<times> json) list"
  tp_description :: "string option"
  tp_notes :: "string option"
  tp_comments :: "BeadsTaskComment list"
  tp_remoteRefs :: "string list"
  tp_runRefs :: "string list"

definition record_metadata :: "(string \<times> json) list \<Rightarrow> (string \<times> json) list" where
  "record_metadata task =
     as_object (first_value task [''metadata'', ''meta'', ''custom_metadata'', ''customMetadata''])"

definition record_labels :: "(string \<times> json) list \<Rightarrow> string list" where
  "record_labels task = readStringList (first_value task [''labels'', ''tags'', ''labelNames'']) None"

definition projectHubTask :: "(rat \<Rightarrow> string) \<Rightarrow> (string \<times> json) list \<Rightarrow> HubTaskProjection" where
  "projectHubTask numText task =
    (let metadata = record_metadata task;
         labels = record_labels task;
         hubStatus = resolveStatusFromTaskShape task labels metadata;
         claim = readHubTaskClaim metadata
     in \<lparr>tp_id = (case first_value task [''id'', ''key'', ''slug'', ''title''] of
           None \<Rightarrow> ''unknown'' | Some v \<Rightarrow> js_text numText v),
         tp_title = (case readFirstString task [''title'', ''summary'', ''name''] of
           Some s \<Rightarrow> s
         | None \<Rightarrow> (case first_value task [''id''] of None \<Rightarrow> ''untitled'' | Some v \<Rightarrow> js_text numText v)),
         tp_beadsStatus = readFirstString task BEADS_LIFECYCLE_KEYS,
         tp_hubStatus = hubStatus,
         tp_owner = readFirstString task [''owner'', ''assignee'', ''claimed_by'', ''claimedBy''],
         tp_claim = claim,
         tp_claimState = resolveHubTaskClaimState hubStatus claim,
         tp_labels = labels,
         tp_metadata = metadata,
         tp_description = readFirstString task [''description'', ''body'', ''details''],
         tp_notes = readFirstString task [''notes'', ''note''],
         tp_comments = readComments (first_value task [''comments'', ''comment_threads'', ''commentThreads'']),
         tp_remoteRefs = uniqueStrings
           (readRefs (first_value task [''remoteRefs'', ''remote_refs'', ''remoteReferences''])
            @ readRefs (first_value metadata [''remoteRefs'', ''remote_refs'', ''remoteReferences''])
            @ readGithubIssueRemoteRefs (jget metadata ''github_issue'')),
         tp_runRefs = uniqueStrings
           (readRefs (first_value task [''runRefs'', ''run_refs'', ''runReferences''])
            @ readRefs (first_value metadata [''runRefs'', ''run_refs'', ''runReferences'']))\<rparr>)"


subsection \<open>Boards\<close>

record HubTaskGroup =
  tg_status :: HubTaskStatus
  tg_tasks :: "HubTaskProjection list"

record HubTaskBoard =
  bo_tasks :: "HubTaskProjection list"
  bo_groups :: "HubTaskGroup list"

text \<open>\<open>collate\<close> is a sort key for \<open>localeCompare\<close>.\<close>

definition groupHubTasks :: "(string \<Rightarrow> rat) \<Rightarrow> HubTaskProjection list \<Rightarrow> HubTaskGroup list" where
  "groupHubTasks collate tasks =
     filter (\<lambda>g. tg_tasks g \<noteq> [])
       (map (\<lambda>st. \<lparr>tg_status = st,
           tg_tasks = sort_key (\<lambda>t. collate (tp_id t)) (filter (\<lambda>t. tp_hubStatus t = st) tasks)\<rparr>)
         HUB_TASK_STATUSES)"

definition buildHubTaskBoard ::
    "(rat \<Rightarrow> string) \<Rightarrow> (string \<Rightarrow> rat) \<Rightarrow> (string \<times> json) list list \<Rightarrow> bool \<Rightarrow> HubTaskBoard" where
  "buildHubTaskBoard numText collate tasks sortByTaskId =
    (let projected = map (projectHubTask numText) tasks;
         ordered = (if sortByTaskId then sort_key (\<lambda>t. collate (tp_id t)) projected else projected)
     in \<lparr>bo_tasks = ordered, bo_groups = groupHubTasks collate ordered\<rparr>)"

definition getHubTaskBoardDisplayTasks :: "HubTaskBoard \<Rightarrow> HubTaskProjection list" where
  "getHubTaskBoardDisplayTasks board = concat (map tg_tasks (bo_groups board))"

definition isHubFlowEligibleTask :: "HubTaskProjection \<Rightarrow> bool" where
  "isHubFlowEligibleTask t \<longleftrightarrow> tp_hubStatus t = HubReadyForAgent \<and> tp_claimState t \<noteq> Some ClaimActive"

definition selectHubFlowTasks :: "HubTaskBoard \<Rightarrow> HubTaskProjection list" where
  "selectHubFlowTasks board = filter isHubFlowEligibleTask (bo_tasks board)"

definition claim_batch :: "HubTaskProjection \<Rightarrow> string option" where
  "claim_batch t = (case tp_claim t of None \<Rightarrow> None | Some c \<Rightarrow> hc_batchId c)"

definition selectHubBatchMergeTasks :: "HubTaskBoard \<Rightarrow> string \<Rightarrow> HubTaskProjection list" where
  "selectHubBatchMergeTasks board batch =
     filter (\<lambda>t. tp_hubStatus t = HubWaitingForMerge \<and> claim_batch t = Some batch) (bo_tasks board)"

text \<open>The branch of a task.\<close>

definition lower_alnum :: "char \<Rightarrow> bool" where
  "lower_alnum c \<longleftrightarrow>
     (let n = (of_char c :: nat) in 97 \<le> n \<and> n \<le> 122 \<or> 48 \<le> n \<and> n \<le> 57)"

definition strip_dashes :: "string \<Rightarrow> string" where
  "strip_dashes s =
     rev (dropWhile (\<lambda>c. c = CHR ''-'') (rev (dropWhile (\<lambda>c. c = CHR ''-'') s)))"

definition slugifyHubTaskTitle :: "string \<Rightarrow> string" where
  "slugifyHubTaskTitle title =
    (let slug = strip_dashes (replace_matching (\<lambda>c. \<not> lower_alnum c) (CHR ''-'') False
           (toLowerCase (js_trim title)))
     in if slug \<noteq> [] then take 48 slug else ''task'')"

definition resolveHubTaskBranch :: "task_id \<Rightarrow> string \<Rightarrow> string" where
  "resolveHubTaskBranch t title =
    (let normalizedId = strip_dashes (replace_matching
           (\<lambda>c. \<not> (lower_alnum c \<or> c \<in> {CHR ''.'', CHR ''_'', CHR ''-''})) (CHR ''-'') False
           (toLowerCase (js_trim t)))
     in ''archloop/'' @ normalizedId @ CHR ''-'' # slugifyHubTaskTitle title)"

subsection \<open>The task store\<close>

text \<open>
  The commands of \<open>bd\<close> with the options the sources pass. A show or list command returns what it
  prints, if it succeeds and prints JSON; a command that changes the store returns the store after it.
\<close>

datatype show_kind = ShowPlain | ShowLong | ShowThread | ShowRefs

datatype bd_option =
    SetStatus string
  | SetLabel string
  | AddLabel string
  | RemoveLabel string
  | SetMetadata "(string \<times> json) list"
  | UnsetMetadata string

datatype bd_command =
    BdUpdate task_id "bd_option list"
  | BdDelete "task_id list" bool bool bool
      \<comment> \<open>\<open>--dry-run\<close>, \<open>--cascade\<close>, \<open>--force\<close>\<close>
  | BdComment task_id string
  | BdDependency task_id task_id

record 's bd =
  bd_show :: "'s \<Rightarrow> show_kind \<Rightarrow> task_id \<Rightarrow> json option"
  bd_list :: "'s \<Rightarrow> json option"
  bd_ready :: "'s \<Rightarrow> json option"
  bd_run :: "'s \<Rightarrow> bd_command \<Rightarrow> 's option"
  bd_create :: "'s \<Rightarrow> string \<Rightarrow> string option \<Rightarrow> string list \<Rightarrow> (string \<times> json) list \<Rightarrow> (json \<times> 's) option"
    \<comment> \<open>title, description, labels, metadata\<close>

text \<open>What the operations run with; the identifiers are those of \<open>randomUUID\<close>.\<close>

record 's tb_env =
  tb_bd :: "'s bd"
  tb_numText :: "rat \<Rightarrow> string"
  tb_collate :: "string \<Rightarrow> rat"
  tb_head :: "oid option"
  tb_branchExists :: "string \<Rightarrow> bool"
  tb_newRunId :: string
  tb_newBatchId :: string
  tb_hubProjectDir :: string
  tb_repoRoot :: string

text \<open>
  The events of a task; the type and the status are the words that are written. A line of an event
  file that is no task event reads as \<open>None\<close>.
\<close>

record HubTaskEvent =
  te_type :: string
  te_runId :: string
  te_batchId :: string
  te_taskId :: task_id
  te_branch :: string
  te_createdAt :: iso_time
  te_status :: string
  te_reason :: "string option"
  te_failureReason :: "string option"
  te_diagnosticSummary :: "string option"
  te_diagnostics :: "json option"
  te_commitCount :: "int option"
  te_branchHasUnmergedWork :: "bool option"
  te_implementationWork :: "string option"
  te_claim :: "HubTaskClaimMetadata option"

datatype run_event =
    RunStarted string string iso_time string string
  | BatchStarted string string string iso_time

text \<open>The store, and for each run directory the lines of its event files.\<close>

record 's tb_state =
  ts_store :: 's
  ts_events :: "(string \<times> HubTaskEvent option list) list"
  ts_runEvents :: "(string \<times> run_event) list"

datatype tb_error =
    BdFailed
  | EmptySelector
  | AmbiguousTitle "task_id list"
  | NoSuchTask string
  | NothingShown task_id
  | WroteButProjected task_id HubTaskStatus HubTaskStatus
      \<comment> \<open>the status written, the status projected\<close>
  | WrongStatusLabels task_id HubTaskStatus "string list"
  | ClaimNotCleared task_id HubTaskStatus
  | ClaimIncomplete task_id HubTaskStatus
  | FailureIncomplete task_id
  | StaleFailure task_id HubTaskStatus
  | NothingToDelete
  | StillPresent "task_id list"
  | GitHeadFailed
  | NotMergedIntoHead task_id string
  | RecoveryVerificationFailed task_id
  | NothingToRecover task_id HubTaskStatus

type_synonym ('s, 'a) tb_act = "('s tb_state, tb_error, 'a) act"

fun first_array :: "(string \<times> json) list \<Rightarrow> string list \<Rightarrow> json list option" where
  "first_array kvs [] = None"
| "first_array kvs (k # ks) =
     (case jget kvs k of Some (JArr vs) \<Rightarrow> Some vs | _ \<Rightarrow> first_array kvs ks)"

fun parseBdJsonOutput :: "json \<Rightarrow> json list" where
  "parseBdJsonOutput (JArr vs) = vs"
| "parseBdJsonOutput (JObj kvs) =
     (case first_array kvs [''tasks'', ''issues'', ''items'', ''results'', ''data'', ''beads''] of
        Some vs \<Rightarrow> vs | None \<Rightarrow> [JObj kvs])"
| "parseBdJsonOutput _ = []"

definition runBdJson :: "('s \<Rightarrow> json option) \<Rightarrow> ('s, json list) tb_act" where
  "runBdJson command = demand_act BdFailed (\<lambda>s. map_option parseBdJsonOutput (command (ts_store s)))"

definition tryRunBdJson :: "('s \<Rightarrow> json option) \<Rightarrow> ('s, json list) tb_act" where
  "tryRunBdJson command = catch_act (runBdJson command) (\<lambda>_. ret_act [])"

definition runBdText :: "'s tb_env \<Rightarrow> bd_command \<Rightarrow> ('s, unit) tb_act" where
  "runBdText E c =
     bind_act (demand_act BdFailed (\<lambda>s. bd_run (tb_bd E) (ts_store s) c)) (\<lambda>store.
     modify_act (\<lambda>s. s\<lparr>ts_store := store\<rparr>))"

text \<open>\<open>const [task] = ...; if (task)\<close>\<close>

definition first_task :: "json list \<Rightarrow> (string \<times> json) list option" where
  "first_task vs =
     (case vs of [] \<Rightarrow> None | v # _ \<Rightarrow> if truthy (Some v) then Some (readObject v) else None)"

definition OPTIONAL_DETAIL_KEYS :: "string list" where
  "OPTIONAL_DETAIL_KEYS =
     [''comments'', ''comment_threads'', ''commentThreads'', ''remoteRefs'', ''remote_refs'',
      ''remoteReferences'', ''runRefs'', ''run_refs'', ''runReferences'']"

definition merge_detail ::
    "(string \<times> json) list \<Rightarrow> (string \<times> json) list \<Rightarrow> string \<Rightarrow> (string \<times> json) list" where
  "merge_detail detail merged k =
     (case (jget merged k, jget detail k) of (None, Some v) \<Rightarrow> jset merged k v | _ \<Rightarrow> merged)"

definition mergeOptionalTaskDetails ::
    "(string \<times> json) list \<Rightarrow> json list \<Rightarrow> (string \<times> json) list" where
  "mergeOptionalTaskDetails task details =
     foldl (\<lambda>merged d. foldl (merge_detail (readObject d)) merged OPTIONAL_DETAIL_KEYS) task details"

definition loadHubTaskBoard :: "'s tb_env \<Rightarrow> ('s, HubTaskBoard) tb_act" where
  "loadHubTaskBoard E =
     bind_act (runBdJson (bd_list (tb_bd E))) (\<lambda>tasks.
     ret_act (buildHubTaskBoard (tb_numText E) (tb_collate E) (map readObject tasks) True))"

definition loadHubReadyQueue :: "'s tb_env \<Rightarrow> ('s, HubTaskBoard) tb_act" where
  "loadHubReadyQueue E =
     bind_act (runBdJson (bd_ready (tb_bd E))) (\<lambda>tasks.
     ret_act (buildHubTaskBoard (tb_numText E) (tb_collate E) (map readObject tasks) False))"

definition select_from_board :: "HubTaskBoard \<Rightarrow> string \<Rightarrow> ('s, HubTaskProjection) tb_act" where
  "select_from_board board selector =
     (case find (\<lambda>t. tp_id t = selector) (bo_tasks board) of
        Some t \<Rightarrow> ret_act t
      | None \<Rightarrow>
          (case filter (\<lambda>t. tp_title t = selector) (bo_tasks board) of
             [] \<Rightarrow> throw_act (NoSuchTask selector)
           | [t] \<Rightarrow> ret_act t
           | ts \<Rightarrow> throw_act (AmbiguousTitle (map tp_id ts))))"

definition resolveHubTaskSelector :: "'s tb_env \<Rightarrow> string \<Rightarrow> ('s, HubTaskProjection) tb_act" where
  "resolveHubTaskSelector E selector =
     (if js_trim selector = [] then throw_act EmptySelector
      else
        bind_act (tryRunBdJson (\<lambda>s. bd_show (tb_bd E) s ShowPlain (js_trim selector))) (\<lambda>shown.
        case first_task shown of
          Some task \<Rightarrow> ret_act (projectHubTask (tb_numText E) task)
        | None \<Rightarrow>
            bind_act (loadHubTaskBoard E) (\<lambda>board. select_from_board board (js_trim selector))))"

fun resolve_selectors ::
    "'s tb_env \<Rightarrow> task_id list \<Rightarrow> string list \<Rightarrow> ('s, HubTaskProjection list) tb_act" where
  "resolve_selectors E seen [] = ret_act []"
| "resolve_selectors E seen (sel # sels) =
     bind_act (resolveHubTaskSelector E sel) (\<lambda>task.
     if tp_id task \<in> set seen then resolve_selectors E seen sels
     else bind_act (resolve_selectors E (tp_id task # seen) sels) (\<lambda>ts. ret_act (task # ts)))"

definition resolveHubTaskSelectors :: "'s tb_env \<Rightarrow> string list \<Rightarrow> ('s, HubTaskProjection list) tb_act" where
  "resolveHubTaskSelectors E sels =
     (if sels = [] then throw_act NothingToDelete else resolve_selectors E [] sels)"

definition loadHubTask :: "'s tb_env \<Rightarrow> string \<Rightarrow> ('s, HubTaskProjection) tb_act" where
  "loadHubTask E selector =
     bind_act (resolveHubTaskSelector E selector) (\<lambda>resolved.
     bind_act (runBdJson (\<lambda>s. bd_show (tb_bd E) s ShowLong (tp_id resolved))) (\<lambda>shown.
     case first_task shown of
       None \<Rightarrow> throw_act (NothingShown (tp_id resolved))
     | Some task \<Rightarrow>
         bind_act (tryRunBdJson (\<lambda>s. bd_show (tb_bd E) s ShowThread (tp_id resolved))) (\<lambda>thread.
         bind_act (tryRunBdJson (\<lambda>s. bd_show (tb_bd E) s ShowRefs (tp_id resolved))) (\<lambda>refs.
         ret_act (projectHubTask (tb_numText E) (mergeOptionalTaskDetails task (thread @ refs)))))))"

subsection \<open>Transitions\<close>

fun hub_status_label :: "HubTaskStatus \<Rightarrow> string" where
  "hub_status_label HubInbox = ''needs-triage''"
| "hub_status_label HubNeedsInfo = ''needs-info''"
| "hub_status_label HubReadyForAgent = ''ready-for-agent''"
| "hub_status_label HubReadyForHuman = ''ready-for-human''"
| "hub_status_label HubBlocked = ''blocked''"
| "hub_status_label HubImplementing = ''implementing''"
| "hub_status_label HubReviewing = ''reviewing''"
| "hub_status_label HubWaitingForMerge = ''waiting-for-merge''"
| "hub_status_label HubMerging = ''merging''"
| "hub_status_label HubPublishing = ''publishing''"
| "hub_status_label HubFailed = ''failed''"
| "hub_status_label HubDone = ''done''"
| "hub_status_label HubWontfix = ''wontfix''"
| "hub_status_label HubSyncConflict = ''sync-conflict''"

definition managed_label :: "string \<Rightarrow> bool" where
  "managed_label l \<longleftrightarrow>
     normalizeKey l \<in> set (map (\<lambda>st. normalizeKey (hub_status_label st)) HUB_TASK_STATUSES)"

fun hub_status_lifecycle :: "HubTaskStatus \<Rightarrow> string" where
  "hub_status_lifecycle HubImplementing = ''in_progress''"
| "hub_status_lifecycle HubReviewing = ''in_progress''"
| "hub_status_lifecycle HubWaitingForMerge = ''in_progress''"
| "hub_status_lifecycle HubMerging = ''in_progress''"
| "hub_status_lifecycle HubPublishing = ''in_progress''"
| "hub_status_lifecycle HubFailed = ''open''"
| "hub_status_lifecycle HubReadyForAgent = ''open''"
| "hub_status_lifecycle HubReadyForHuman = ''open''"
| "hub_status_lifecycle HubNeedsInfo = ''open''"
| "hub_status_lifecycle HubInbox = ''open''"
| "hub_status_lifecycle HubBlocked = ''blocked''"
| "hub_status_lifecycle HubDone = ''closed''"
| "hub_status_lifecycle HubWontfix = ''closed''"
| "hub_status_lifecycle HubSyncConflict = ''blocked''"

definition labelsToSetForHubStatus :: "string list \<Rightarrow> HubTaskStatus \<Rightarrow> string list \<Rightarrow> string list" where
  "labelsToSetForHubStatus labels st labelsToRemove =
     uniqueStrings (filter (\<lambda>l. \<not> managed_label l \<and> l \<notin> set labelsToRemove) labels
       @ [hub_status_label st])"

definition clearStaleHubStatusMetadata ::
    "(string \<times> json) list \<Rightarrow> HubTaskStatus \<Rightarrow> (string \<times> json) list" where
  "clearStaleHubStatusMetadata m0 st =
    (let m1 = (if st \<noteq> HubFailed then deleteMetadataKeys m0 FAILURE_METADATA_KEYS else m0);
         m2 = (if st \<noteq> HubBlocked then deleteMetadataKeys m1 BLOCKED_METADATA_KEYS else m1);
         m3 = (if st \<noteq> HubNeedsInfo then deleteMetadataKeys m2 NEEDS_INFO_METADATA_KEYS else m2);
         m4 = (if st \<noteq> HubSyncConflict \<and> jget m3 ''sync_state'' \<noteq> Some (JStr ''conflict'')
               then deleteMetadataKeys m3 SYNC_CONFLICT_METADATA_KEYS else m3);
         m5 = (if st \<noteq> HubWontfix then deleteMetadataKeys m4 WONTFIX_METADATA_KEYS else m4)
     in if st \<noteq> HubDone then deleteMetadataKeys m5 DONE_METADATA_KEYS else m5)"

definition STRUCTURED_METADATA_PATCH_KEYS :: "string list" where
  "STRUCTURED_METADATA_PATCH_KEYS =
     [''claim'', ''hubClaim'', ''hub_claim'', ''taskClaim'', ''remoteRefs'', ''remote_refs'',
      ''remoteReferences'', ''runRefs'', ''run_refs'', ''runReferences'']"

definition clearTransitionOwnedMetadataPatchKeys :: "(string \<times> json) list \<Rightarrow> (string \<times> json) list" where
  "clearTransitionOwnedMetadataPatchKeys m =
     deleteMetadataKeys (deleteMetadataKeys m TASK_STATUS_KEYS) STRUCTURED_METADATA_PATCH_KEYS"

definition CLAIM_PRESERVING_STATUSES :: "HubTaskStatus list" where
  "CLAIM_PRESERVING_STATUSES =
     [HubImplementing, HubReviewing, HubWaitingForMerge, HubMerging, HubPublishing, HubFailed]"

definition CLAIM_REQUIRED_STATUSES :: "HubTaskStatus list" where
  "CLAIM_REQUIRED_STATUSES =
     [HubImplementing, HubReviewing, HubWaitingForMerge, HubMerging, HubPublishing]"

definition shouldClearClaimForStatus :: "HubTaskStatus \<Rightarrow> bool" where
  "shouldClearClaimForStatus st \<longleftrightarrow> st \<notin> set CLAIM_PRESERVING_STATUSES"

fun readPatchClaimRecord :: "(string \<times> json) list \<Rightarrow> (string \<times> json) list option" where
  "readPatchClaimRecord metadata =
     (case jget metadata ''claim'' of Some (JObj kvs) \<Rightarrow> Some kvs | _ \<Rightarrow> None)"

definition resolveTransitionClaim ::
    "HubTaskProjection \<Rightarrow> HubTaskStatus \<Rightarrow> (string \<times> json) list \<Rightarrow> bool \<Rightarrow> (string \<times> json) list option" where
  "resolveTransitionClaim task st patch replace =
     (if shouldClearClaimForStatus st then None
      else if replace \<and> readPatchClaimRecord patch \<noteq> None then readPatchClaimRecord patch
      else (case tp_claim task of
          Some c \<Rightarrow> if hc_raw c \<noteq> [] then Some (hc_raw c) else readPatchClaimRecord patch
        | None \<Rightarrow> readPatchClaimRecord patch))"

definition removedMetadataKeys :: "(string \<times> json) list \<Rightarrow> (string \<times> json) list \<Rightarrow> string list" where
  "removedMetadataKeys previous next =
     filter (\<lambda>k. k \<notin> fst ` set next) (uniqueStrings (map fst previous))"

text \<open>\<open>bdCliArgs.ts\<close>: labels are split at commas and trimmed.\<close>

definition normalizeBdLabels :: "string list \<Rightarrow> string list" where
  "normalizeBdLabels labels =
     filter (\<lambda>l. l \<noteq> []) (map js_trim (concat (map (split_on (CHR '','')) labels)))"

definition appendBdSetLabelsArgs :: "bd_option list \<Rightarrow> string list \<Rightarrow> bd_option list" where
  "appendBdSetLabelsArgs args labels = args @ map SetLabel (normalizeBdLabels labels)"

definition appendBdAddLabelArgs :: "bd_option list \<Rightarrow> string list \<Rightarrow> bd_option list" where
  "appendBdAddLabelArgs args labels = args @ map AddLabel (normalizeBdLabels labels)"

definition appendBdRemoveLabelArgs :: "bd_option list \<Rightarrow> string list \<Rightarrow> bd_option list" where
  "appendBdRemoveLabelArgs args labels = args @ map RemoveLabel (normalizeBdLabels labels)"

definition appendBdUnsetMetadataArgs :: "bd_option list \<Rightarrow> string list \<Rightarrow> bd_option list" where
  "appendBdUnsetMetadataArgs args keys =
     args @ map UnsetMetadata (uniqueStrings (filter (\<lambda>k. k \<noteq> []) (map js_trim keys)))"

definition appendBdMetadataArg :: "bd_option list \<Rightarrow> (string \<times> json) list \<Rightarrow> bd_option list" where
  "appendBdMetadataArg args metadata = args @ [SetMetadata metadata]"

text \<open>The checks after a transition.\<close>

definition assertProjectedHubStatus :: "HubTaskProjection \<Rightarrow> HubTaskStatus \<Rightarrow> ('s, unit) tb_act" where
  "assertProjectedHubStatus task st =
     (if tp_hubStatus task \<noteq> st then throw_act (WroteButProjected (tp_id task) st (tp_hubStatus task))
      else ret_act ())"

definition assertCanonicalHubStatusLabel :: "HubTaskProjection \<Rightarrow> HubTaskStatus \<Rightarrow> ('s, unit) tb_act" where
  "assertCanonicalHubStatusLabel task st =
    (let statusLabels = filter managed_label (tp_labels task) in
     case statusLabels of
       [l] \<Rightarrow> if normalizeKey l = normalizeKey (hub_status_label st) then ret_act ()
         else throw_act (WrongStatusLabels (tp_id task) st statusLabels)
     | _ \<Rightarrow> throw_act (WrongStatusLabels (tp_id task) st statusLabels))"

definition complete_claim :: "HubTaskClaimMetadata option \<Rightarrow> bool" where
  "complete_claim claim =
     (case claim of None \<Rightarrow> False
      | Some c \<Rightarrow> hc_runId c \<noteq> None \<and> hc_batchId c \<noteq> None \<and> hc_branch c \<noteq> None)"

definition assertHubTaskClaimPolicy :: "HubTaskProjection \<Rightarrow> HubTaskStatus \<Rightarrow> ('s, unit) tb_act" where
  "assertHubTaskClaimPolicy task st =
     (if shouldClearClaimForStatus st \<and> tp_claim task \<noteq> None
      then throw_act (ClaimNotCleared (tp_id task) st)
      else if st \<in> set CLAIM_REQUIRED_STATUSES \<and> \<not> complete_claim (tp_claim task)
      then throw_act (ClaimIncomplete (tp_id task) st)
      else ret_act ())"

fun is_string :: "json option \<Rightarrow> bool" where
  "is_string (Some (JStr s)) = True"
| "is_string _ = False"

definition assertHubFailureMetadataPolicy :: "HubTaskProjection \<Rightarrow> HubTaskStatus \<Rightarrow> ('s, unit) tb_act" where
  "assertHubFailureMetadataPolicy task st =
    (let m = tp_metadata task in
     if st = HubFailed
     then (if \<not> truthy (jget m ''failed'') \<or> \<not> is_string (jget m ''failureReason'')
           then throw_act (FailureIncomplete (tp_id task)) else ret_act ())
     else if jget m ''failed'' \<noteq> None \<or> jget m ''failureReason'' \<noteq> None
             \<or> jget m ''failure_reason'' \<noteq> None
     then throw_act (StaleFailure (tp_id task) st)
     else ret_act ())"

definition assertHubTaskTransition :: "HubTaskProjection \<Rightarrow> HubTaskStatus \<Rightarrow> ('s, unit) tb_act" where
  "assertHubTaskTransition task st =
     bind_act (assertProjectedHubStatus task st) (\<lambda>_.
     bind_act (assertCanonicalHubStatusLabel task st) (\<lambda>_.
     bind_act (assertHubTaskClaimPolicy task st) (\<lambda>_.
     assertHubFailureMetadataPolicy task st)))"

datatype HubFailureReason =
    AgentFailed | SandboxFailed | MergeConflicted | MergeFailed | VerificationFailure | CloseFailed
  | UnknownFailure

fun failure_reason_name :: "HubFailureReason \<Rightarrow> string" where
  "failure_reason_name AgentFailed = ''agent_failed''"
| "failure_reason_name SandboxFailed = ''sandbox_failed''"
| "failure_reason_name MergeConflicted = ''merge_conflict''"
| "failure_reason_name MergeFailed = ''merge_failed''"
| "failure_reason_name VerificationFailure = ''verification_failure''"
| "failure_reason_name CloseFailed = ''close_failed''"
| "failure_reason_name UnknownFailure = ''unknown''"

record transition_input =
  ui_taskId :: task_id
  ui_hubStatus :: HubTaskStatus
  ui_metadata :: "(string \<times> json) list"
  ui_failureReason :: "HubFailureReason option"
  ui_labelsToRemove :: "string list"
  ui_replaceClaimMetadata :: bool

text \<open>The metadata a transition writes.\<close>

definition transition_metadata :: "transition_input \<Rightarrow> HubTaskProjection \<Rightarrow> (string \<times> json) list" where
  "transition_metadata i task =
    (let patch = clearTransitionOwnedMetadataPatchKeys (ui_metadata i);
         m0 = jset (jspread (tp_metadata task) patch) ''hubStatus''
                (JStr (hub_status_name (ui_hubStatus i)));
         m1 = clearStaleHubStatusMetadata m0 (ui_hubStatus i);
         m2 = (case resolveTransitionClaim task (ui_hubStatus i) (ui_metadata i)
                      (ui_replaceClaimMetadata i) of
                 Some claim \<Rightarrow> jset m1 ''claim'' (JObj claim) | None \<Rightarrow> jdel m1 ''claim'')
     in case ui_failureReason i of
          Some reason \<Rightarrow> jset (jset m2 ''failureReason'' (JStr (failure_reason_name reason))) ''failed'' (JBool True)
        | None \<Rightarrow> jdel (jdel m2 ''failureReason'') ''failed'')"

definition transitionHubTaskStatus :: "'s tb_env \<Rightarrow> transition_input \<Rightarrow> ('s, HubTaskProjection) tb_act" where
  "transitionHubTaskStatus E i =
     bind_act (loadHubTask E (ui_taskId i)) (\<lambda>task.
     let metadata = transition_metadata i task;
         args = appendBdMetadataArg
           (appendBdSetLabelsArgs [SetStatus (hub_status_lifecycle (ui_hubStatus i))]
             (labelsToSetForHubStatus (tp_labels task) (ui_hubStatus i) (ui_labelsToRemove i))) metadata;
         unset = removedMetadataKeys (tp_metadata task) metadata
     in
     bind_act (runBdText E (BdUpdate (ui_taskId i) args)) (\<lambda>_.
     bind_act (when_act (unset \<noteq> [])
       (runBdText E (BdUpdate (ui_taskId i) (appendBdUnsetMetadataArgs [] unset)))) (\<lambda>_.
     bind_act (loadHubTask E (ui_taskId i)) (\<lambda>updatedTask.
     bind_act (assertHubTaskTransition updatedTask (ui_hubStatus i)) (\<lambda>_.
     ret_act updatedTask)))))"

definition updateHubTaskStatus :: "'s tb_env \<Rightarrow> transition_input \<Rightarrow> ('s, HubTaskProjection) tb_act" where
  "updateHubTaskStatus E i = transitionHubTaskStatus E i"

definition status_input ::
    "task_id \<Rightarrow> HubTaskStatus \<Rightarrow> (string \<times> json) list \<Rightarrow> HubFailureReason option \<Rightarrow> transition_input" where
  "status_input t st metadata failureReason =
     \<lparr>ui_taskId = t, ui_hubStatus = st, ui_metadata = metadata, ui_failureReason = failureReason,
      ui_labelsToRemove = [], ui_replaceClaimMetadata = False\<rparr>"

definition closeHubTask :: "'s tb_env \<Rightarrow> task_id \<Rightarrow> (string \<times> json) list \<Rightarrow> ('s, HubTaskProjection) tb_act" where
  "closeHubTask E t metadata =
     transitionHubTaskStatus E (status_input t HubDone (jset metadata ''done'' (JBool True)) None)"

subsection \<open>Events and claims\<close>

definition append_line :: "(string \<times> 'a list) list \<Rightarrow> string \<Rightarrow> 'a \<Rightarrow> (string \<times> 'a list) list" where
  "append_line files name line =
     (if name \<in> fst ` set files then map (\<lambda>p. if fst p = name then (name, snd p @ [line]) else p) files
      else files @ [(name, [line])])"

definition appendHubTaskEvent :: "string \<Rightarrow> HubTaskEvent \<Rightarrow> ('s, unit) tb_act" where
  "appendHubTaskEvent runDir event =
     modify_act (\<lambda>s. s\<lparr>ts_events := append_line (ts_events s) runDir (Some event)\<rparr>)"

text \<open>\<open>hubRunEventLog.ts\<close>: the events of all runs, the run directories in order.\<close>

definition readTaskEvents :: "'s tb_state \<Rightarrow> HubTaskEvent list" where
  "readTaskEvents s =
     concat (map (\<lambda>p. List.map_filter (\<lambda>l. l) (snd p)) (sort_key fst (ts_events s)))"

definition plain_event ::
    "string \<Rightarrow> string \<Rightarrow> string \<Rightarrow> task_id \<Rightarrow> string \<Rightarrow> iso_time \<Rightarrow> string \<Rightarrow> HubTaskEvent" where
  "plain_event ty run batch t branch created status =
     \<lparr>te_type = ty, te_runId = run, te_batchId = batch, te_taskId = t, te_branch = branch,
      te_createdAt = created, te_status = status, te_reason = None, te_failureReason = None,
      te_diagnosticSummary = None, te_diagnostics = None, te_commitCount = None,
      te_branchHasUnmergedWork = None, te_implementationWork = None, te_claim = None\<rparr>"

definition resolveHubRunDirectory :: "string \<Rightarrow> string \<Rightarrow> string" where
  "resolveHubRunDirectory hubProjectDir runId = hubProjectDir @ ''/runs/'' @ runId"

record HubRunContext =
  rx_runId :: string
  rx_batchId :: string
  rx_runDir :: string

definition createHubRunContext ::
    "'s tb_env \<Rightarrow> string option \<Rightarrow> string option \<Rightarrow> string \<Rightarrow> iso_time \<Rightarrow> ('s, HubRunContext) tb_act" where
  "createHubRunContext E runId batchId branch startedAt =
    (let run = (case runId of None \<Rightarrow> tb_newRunId E | Some r \<Rightarrow> r);
         batch = (case batchId of None \<Rightarrow> tb_newBatchId E | Some b \<Rightarrow> b);
         runDir = resolveHubRunDirectory (tb_hubProjectDir E) run
     in
     bind_act (when_act (runId = None)
       (modify_act (\<lambda>s. s\<lparr>ts_runEvents := ts_runEvents s
          @ [(runDir, RunStarted run branch startedAt (tb_repoRoot E) (tb_hubProjectDir E)),
             (runDir, BatchStarted run batch branch startedAt)]\<rparr>))) (\<lambda>_.
     ret_act \<lparr>rx_runId = run, rx_batchId = batch, rx_runDir = runDir\<rparr>))"

record ClaimHubTaskInput =
  ci_taskId :: task_id
  ci_branch :: string
  ci_runId :: "string option"
  ci_batchId :: "string option"
  ci_startedAt :: iso_time

datatype claim_outcome = Claimed | SkippedActiveClaim

record ClaimHubTaskResult =
  cl_outcome :: claim_outcome
  cl_runId :: string
  cl_batchId :: string
  cl_runDir :: string
  cl_task :: HubTaskProjection
  cl_claim :: "HubTaskClaimMetadata option"

text \<open>\<open>hubManagedBranchOwnership.ts\<close>: where the branch starts, and whether it was there before.\<close>

definition inspectHubManagedBranchClaimContext :: "'s tb_env \<Rightarrow> string \<Rightarrow> ('s, oid \<times> bool) tb_act" where
  "inspectHubManagedBranchClaimContext E branch =
     (case tb_head E of None \<Rightarrow> throw_act GitHeadFailed
      | Some head \<Rightarrow> ret_act (head, tb_branchExists E branch))"

text \<open>
  The task is read by one process and written by others, so another run may act in between: \<open>others\<close> is what
  it does there.
\<close>

definition claim_between :: "'s tb_env \<Rightarrow> ('s tb_state \<Rightarrow> 's tb_state) \<Rightarrow> ClaimHubTaskInput \<Rightarrow> ('s, ClaimHubTaskResult) tb_act" where
  "claim_between E others i =
     bind_act (createHubRunContext E (ci_runId i) (ci_batchId i) (ci_branch i) (ci_startedAt i)) (\<lambda>ctx.
     bind_act (loadHubTask E (ci_taskId i)) (\<lambda>task.
     bind_act (modify_act others) (\<lambda>_.
     if isHubTaskClaimActive (tp_hubStatus task)
     then
       bind_act (appendHubTaskEvent (rx_runDir ctx)
         ((plain_event ''task_claim_skipped'' (rx_runId ctx) (rx_batchId ctx) (ci_taskId i) (ci_branch i)
             (ci_startedAt i) (hub_status_name (tp_hubStatus task)))
           \<lparr>te_reason := Some ''active_claim'', te_claim := tp_claim task\<rparr>)) (\<lambda>_.
       ret_act \<lparr>cl_outcome = SkippedActiveClaim, cl_runId = rx_runId ctx, cl_batchId = rx_batchId ctx,
         cl_runDir = rx_runDir ctx, cl_task = task, cl_claim = tp_claim task\<rparr>)
     else
       bind_act (inspectHubManagedBranchClaimContext E (ci_branch i)) (\<lambda>(head, existed).
       let claim = createHubTaskClaimMetadata (rx_runId ctx) (rx_batchId ctx) (ci_taskId i) (ci_branch i)
             (ci_startedAt i) (Some head) (Some existed)
       in
       bind_act (updateHubTaskStatus E (status_input (ci_taskId i) HubImplementing
         (jset (tp_metadata task) ''claim'' (JObj (hc_raw claim))) None)) (\<lambda>updatedTask.
       bind_act (appendHubTaskEvent (rx_runDir ctx)
         ((plain_event ''task_claimed'' (rx_runId ctx) (rx_batchId ctx) (ci_taskId i) (ci_branch i)
             (ci_startedAt i) (hub_status_name (tp_hubStatus updatedTask)))\<lparr>te_claim := Some claim\<rparr>)) (\<lambda>_.
       ret_act \<lparr>cl_outcome = Claimed, cl_runId = rx_runId ctx, cl_batchId = rx_batchId ctx,
         cl_runDir = rx_runDir ctx, cl_task = updatedTask, cl_claim = Some claim\<rparr>))))))"

definition claimHubTask :: "'s tb_env \<Rightarrow> ClaimHubTaskInput \<Rightarrow> ('s, ClaimHubTaskResult) tb_act" where
  "claimHubTask E = claim_between E (\<lambda>s. s)"

lemma undisturbed: "bind_act (modify_act (\<lambda>s. s)) f = f ()"
  by (simp add: bind_act_def modify_act_def fun_eq_iff)

lemmas claimHubTask_steps = claim_between_def [where others = "\<lambda>s. s", unfolded undisturbed, folded claimHubTask_def]


subsection \<open>Deleting, creating, commenting\<close>

definition hubBeadsTaskExists :: "'s tb_env \<Rightarrow> task_id \<Rightarrow> ('s, bool) tb_act" where
  "hubBeadsTaskExists E t =
     bind_act (tryRunBdJson (\<lambda>s. bd_show (tb_bd E) s ShowPlain t)) (\<lambda>shown. ret_act (shown \<noteq> []))"

definition verifyHubTasksDeleted :: "'s tb_env \<Rightarrow> task_id list \<Rightarrow> ('s, unit) tb_act" where
  "verifyHubTasksDeleted E ts =
     bind_act (each_act (hubBeadsTaskExists E) ts) (\<lambda>present.
     let still = map fst (filter snd (zip ts present)) in
     if still = [] then ret_act () else throw_act (StillPresent still))"

definition deleteHubTasks :: "'s tb_env \<Rightarrow> task_id list \<Rightarrow> bool \<Rightarrow> bool \<Rightarrow> bool \<Rightarrow> ('s, unit) tb_act" where
  "deleteHubTasks E ts dryRun cascade force =
     (if ts = [] then throw_act NothingToDelete
      else
        bind_act (runBdText E (BdDelete ts dryRun cascade (force \<and> \<not> dryRun))) (\<lambda>_.
        when_act (\<not> dryRun \<and> force) (verifyHubTasksDeleted E ts)))"

datatype created_status = CreateInbox | CreateReadyForAgent | CreateReadyForHuman

fun created_label :: "created_status \<Rightarrow> string" where
  "created_label CreateInbox = ''needs-triage''"
| "created_label CreateReadyForAgent = ''ready-for-agent''"
| "created_label CreateReadyForHuman = ''ready-for-human''"

record CreateHubTaskInput =
  cn_title :: string
  cn_description :: "string option"
  cn_origin :: "string option"
  cn_kind :: "string option"
  cn_sliceType :: "string option"
  cn_prdRef :: "string option"
  cn_proposalRunId :: "string option"
  cn_hubStatus :: "created_status option"
  cn_sliceTempId :: "string option"
  cn_prdWarning :: "(string \<times> string) option"
    \<comment> \<open>severity and message\<close>
  cn_extraLabels :: "string list"

definition given :: "string option \<Rightarrow> string option" where
  "given v = (case v of Some s \<Rightarrow> if s \<noteq> [] then Some s else None | None \<Rightarrow> None)"

definition created_metadata :: "CreateHubTaskInput \<Rightarrow> (string \<times> json) list" where
  "created_metadata i = defined_fields
     [(''origin'', Some (JStr (case cn_origin i of None \<Rightarrow> ''manual'' | Some s \<Rightarrow> s))),
      (''kind'', jstr_opt (given (cn_kind i))),
      (''slice_type'', jstr_opt (given (cn_sliceType i))),
      (''prd_ref'', jstr_opt (given (cn_prdRef i))),
      (''proposal_run_id'', jstr_opt (given (cn_proposalRunId i))),
      (''slice_temp_id'', jstr_opt (given (cn_sliceTempId i))),
      (''warning_severity'', map_option (JStr \<circ> fst) (cn_prdWarning i)),
      (''warning_message'', map_option (JStr \<circ> snd) (cn_prdWarning i))]"

record CreateHubTaskResult =
  cr_id :: string
  cr_title :: string
  cr_prdWarning :: "(string \<times> string \<times> string) option"
    \<comment> \<open>temporary identifier of the slice, severity and message\<close>

definition echoed_warning :: "CreateHubTaskInput \<Rightarrow> (string \<times> string \<times> string) option" where
  "echoed_warning i =
     (case (cn_prdWarning i, given (cn_sliceTempId i)) of
        (Some (severity, message), Some tempId) \<Rightarrow> Some (tempId, severity, message)
      | _ \<Rightarrow> None)"

definition createHubTask :: "'s tb_env \<Rightarrow> CreateHubTaskInput \<Rightarrow> ('s, CreateHubTaskResult) tb_act" where
  "createHubTask E i =
    (let labels = created_label (case cn_hubStatus i of None \<Rightarrow> CreateInbox | Some c \<Rightarrow> c) # cn_extraLabels i in
     bind_act (demand_act BdFailed (\<lambda>s. bd_create (tb_bd E) (ts_store s) (cn_title i)
       (given (cn_description i)) labels (created_metadata i))) (\<lambda>(out, store).
     bind_act (modify_act (\<lambda>s. s\<lparr>ts_store := store\<rparr>)) (\<lambda>_.
     let created = (case parseBdJsonOutput out of v # _ \<Rightarrow> readObject v | [] \<Rightarrow> []) in
     ret_act
       \<lparr>cr_id = (case first_value created [''id'', ''issue_id'', ''key''] of
           None \<Rightarrow> ''unknown'' | Some v \<Rightarrow> js_text (tb_numText E) v),
        cr_title = (case first_value created [''title''] of
           None \<Rightarrow> cn_title i | Some v \<Rightarrow> js_text (tb_numText E) v),
        cr_prdWarning = echoed_warning i\<rparr>)))"

definition appendHubTaskComment :: "'s tb_env \<Rightarrow> task_id \<Rightarrow> string \<Rightarrow> ('s, unit) tb_act" where
  "appendHubTaskComment E t body = runBdText E (BdComment t body)"

definition addHubTaskDependency :: "'s tb_env \<Rightarrow> task_id \<Rightarrow> task_id \<Rightarrow> ('s, unit) tb_act" where
  "addHubTaskDependency E dependentId blockerId = runBdText E (BdDependency dependentId blockerId)"

end
