(* ===== verification/Task_Transitions.thy ===== *)
theory Task_Transitions
  imports Task_Board
begin

text \<open>
  What the transitions of \<open>src/src/taskBoard.ts\<close> and the claims of \<open>src/src/hubExecution.ts\<close> do to a task
  of a store that keeps the laws of the Beads commands: the laws, an in-memory store that satisfies
  them, the metadata and the labels a transition leaves, the status the task is projected to afterwards.
\<close>

subsection \<open>Objects\<close>

lemma jget_Nil [simp]: "jget [] k = None"
  by (simp add: jget_def)

lemma jget_None: "jget kvs k = None \<longleftrightarrow> k \<notin> fst ` set kvs"
  by (simp add: jget_def map_of_eq_None_iff)

lemma jget_append: "jget (xs @ ys) k = coalesce (jget ys k) (jget xs k)"
  by (simp add: jget_def map_add_def coalesce_def)

lemma jget_Cons: "jget (p # ps) k = coalesce (jget ps k) (if fst p = k then Some (snd p) else None)"
  using jget_append [of "[p]" ps k] by (simp add: jget_def)

lemma coalesce_None [simp]: "coalesce a None = a"
  by (cases a) simp_all

lemma jget_jdel: "jget (jdel kvs k) j = (if j = k then None else jget kvs j)"
  by (induction kvs) (auto simp: jdel_def jget_Cons)

lemma jget_overwrite:
  "jget (map (\<lambda>p. if fst p = k then (k, v) else p) kvs) i =
     (if i = k \<and> k \<in> fst ` set kvs then Some v else jget kvs i)"
proof -
  have "map_of (map (\<lambda>p. if fst p = k then (k, v) else p) xs) i =
      (if i = k \<and> map_of xs k \<noteq> None then Some v else map_of xs i)" for xs
    by (induction xs) auto
  then show ?thesis by (simp add: jget_def rev_map map_of_eq_None_iff)
qed

lemma jget_jset [simp]: "jget (jset kvs k v) j = (if j = k then Some v else jget kvs j)"
  by (auto simp: jset_def jget_overwrite jget_append jget_Cons)

lemma jget_deleteMetadataKeys [simp]:
  "jget (deleteMetadataKeys kvs keys) k = (if k \<in> set keys then None else jget kvs k)"
  unfolding deleteMetadataKeys_def
  by (induction keys arbitrary: kvs) (auto simp: jget_jdel)

lemma jget_jspread [simp]: "jget (jspread a b) k = coalesce (jget b k) (jget a k)"
  unfolding jspread_def
proof (induction b arbitrary: a)
  case (Cons p ps)
  then show ?case by (cases p) (auto simp: jget_Cons coalesce_def split: option.splits)
qed simp

lemma keys_jget: "k \<in> fst ` set kvs \<longleftrightarrow> jget kvs k \<noteq> None"
  by (simp add: jget_None)

text \<open>What is read of an object depends on \<open>jget\<close> alone.\<close>

lemma first_value_cong: "(\<And>k. k \<in> set ks \<Longrightarrow> jget a k = jget b k) \<Longrightarrow> first_value a ks = first_value b ks"
  by (induction ks) (auto split: option.splits)

lemma readString_same_value: "jget a k = jget b k \<Longrightarrow> readString a k = readString b k"
  by (simp add: readString_def)

lemma readFirstString_cong:
  "(\<And>k. k \<in> set ks \<Longrightarrow> jget a k = jget b k) \<Longrightarrow> readFirstString a ks = readFirstString b ks"
  by (induction ks) (auto simp: readString_def)

lemma first_status_cong:
  "(\<And>k. k \<in> set ks \<Longrightarrow> jget a k = jget b k) \<Longrightarrow> first_status a ks = first_status b ks"
  by (induction ks) auto

lemma hasTruthyMetadata_cong:
  "(\<And>k. k \<in> set ks \<Longrightarrow> jget a k = jget b k) \<Longrightarrow> hasTruthyMetadata a ks = hasTruthyMetadata b ks"
  by (induction ks) (auto simp: hasTruthyMetadata_def)

lemma status_from_shape_cong:
  assumes "readFirstString a TASK_STATUS_KEYS = readFirstString b TASK_STATUS_KEYS"
    and "readFirstString a BEADS_LIFECYCLE_KEYS = readFirstString b BEADS_LIFECYCLE_KEYS"
    and "jget m = jget n"
  shows "resolveStatusFromTaskShape a ls m = resolveStatusFromTaskShape b ls n"
proof -
  have "first_status m ks = first_status n ks" "hasTruthyMetadata m ks = hasTruthyMetadata n ks" for ks
    by (rule first_status_cong hasTruthyMetadata_cong, simp only: assms(3))+
  then show ?thesis
    by (simp only: resolveStatusFromTaskShape_def resolveMetadataStatus_def
        resolveStatusFromMetadataReasons_def assms(1,2))
qed

subsection \<open>Loading changes nothing\<close>

text \<open>An operation that reads the task store and nothing else, and changes nothing.\<close>

definition reads_store :: "('s, 'a) tb_act \<Rightarrow> bool" where
  "reads_store m \<longleftrightarrow> (\<forall>s. snd (m s) = s) \<and> (\<forall>s t. ts_store s = ts_store t \<longrightarrow> fst (m s) = fst (m t))"

lemma reads_ret: "reads_store (ret_act a)"
  by (simp add: reads_store_def ret_act_def)

lemma reads_throw: "reads_store (throw_act e)"
  by (simp add: reads_store_def throw_act_def)

lemma reads_bind:
  assumes "reads_store m" and "\<And>a. reads_store (f a)"
  shows "reads_store (bind_act m f)"
proof -
  have eq: "bind_act m f s = (case fst (m s) of Inl e \<Rightarrow> (Inl e, s) | Inr a \<Rightarrow> f a s)" for s
  proof -
    obtain r where "m s = (r, s)" using assms(1) by (metis reads_store_def prod.collapse)
    then show ?thesis by (cases r) (simp_all add: bind_act_def)
  qed
  have first: "fst (m s) = fst (m t)" "fst (f v s) = fst (f v t)" if "ts_store s = ts_store t" for s t v
    using assms that unfolding reads_store_def by blast+
  have "snd (f v s) = s" for v s using assms(2) unfolding reads_store_def by blast
  then show ?thesis
    unfolding reads_store_def eq
  proof (intro conjI allI impI)
    fix s t :: "'a tb_state"
    assume st: "ts_store s = ts_store t"
    show "fst (case fst (m s) of Inl e \<Rightarrow> (Inl e, s) | Inr a \<Rightarrow> f a s) =
        fst (case fst (m t) of Inl e \<Rightarrow> (Inl e, t) | Inr a \<Rightarrow> f a t)"
      using first(1) [OF st] first(2) [OF st] by (simp split: sum.split)
  qed (simp split: sum.split)
qed

lemma reads_catch:
  assumes "reads_store m" and "\<And>e. reads_store (h e)"
  shows "reads_store (catch_act m h)"
proof -
  have eq: "catch_act m h s = (case fst (m s) of Inl e \<Rightarrow> h e s | Inr a \<Rightarrow> (Inr a, s))" for s
  proof -
    obtain r where "m s = (r, s)" using assms(1) by (metis reads_store_def prod.collapse)
    then show ?thesis by (cases r) (simp_all add: catch_act_def)
  qed
  have first: "fst (m s) = fst (m t)" "fst (h v s) = fst (h v t)" if "ts_store s = ts_store t" for s t v
    using assms that unfolding reads_store_def by blast+
  have "snd (h v s) = s" for v s using assms(2) unfolding reads_store_def by blast
  then show ?thesis
    unfolding reads_store_def eq
  proof (intro conjI allI impI)
    fix s t :: "'a tb_state"
    assume st: "ts_store s = ts_store t"
    show "fst (case fst (m s) of Inl e \<Rightarrow> h e s | Inr a \<Rightarrow> (Inr a, s)) =
        fst (case fst (m t) of Inl e \<Rightarrow> h e t | Inr a \<Rightarrow> (Inr a, t))"
      using first(1) [OF st] first(2) [OF st] by (simp split: sum.split)
  qed (simp split: sum.split)
qed

lemma reads_runBdJson: "reads_store (runBdJson c)"
  by (auto simp: reads_store_def runBdJson_def demand_act_def split: option.split)

lemma reads_tryRunBdJson: "reads_store (tryRunBdJson c)"
  by (simp add: tryRunBdJson_def reads_catch reads_runBdJson reads_ret)

lemma reads_select: "reads_store (select_from_board board sel)"
  by (simp add: select_from_board_def reads_ret reads_throw split: option.split list.split)

lemma reads_resolve: "reads_store (resolveHubTaskSelector E sel)"
  by (auto simp: resolveHubTaskSelector_def loadHubTaskBoard_def reads_throw reads_ret
      intro!: reads_bind reads_tryRunBdJson reads_runBdJson reads_select split: option.split)

lemma reads_loadHubTask: "reads_store (loadHubTask E sel)"
  by (auto simp: loadHubTask_def reads_throw reads_ret
      intro!: reads_bind reads_tryRunBdJson reads_runBdJson reads_resolve split: option.split)

lemma loadHubTask_same: "loadHubTask E sel s = (r, t) \<Longrightarrow> t = s"
  using reads_loadHubTask [of E sel] by (metis reads_store_def snd_conv)

lemma loadHubTask_store:
  "loadHubTask E sel s = (r, s) \<Longrightarrow> ts_store t = ts_store s \<Longrightarrow> loadHubTask E sel t = (r, t)"
  using reads_loadHubTask [of E sel] unfolding reads_store_def by (metis prod.collapse fst_conv)

subsection \<open>The laws of the Beads commands\<close>

text \<open>
  What the sources rely on. A task of the store has a status, labels and metadata. \<open>bd show\<close> prints
  them with the identifier, and with no status field of the hub. \<open>bd update\<close> of a task succeeds: the
  status and the labels are the ones given, the metadata given is written, the keys given to
  \<open>--unset-metadata\<close> are gone, other keys may be kept or dropped, and other tasks are left alone.
\<close>

record bd_view =
  bv_status :: string
  bv_labels :: "string list"
  bv_metadata :: "(string \<times> json) list"

definition bd_record :: "(string \<times> json) list \<Rightarrow> task_id \<Rightarrow> bd_view \<Rightarrow> bool" where
  "bd_record r t v \<longleftrightarrow>
     jget r ''id'' = Some (JStr t) \<and> jget r ''status'' = Some (JStr (bv_status v))
     \<and> jget r ''labels'' = Some (jstrs (bv_labels v)) \<and> jget r ''metadata'' = Some (JObj (bv_metadata v))
     \<and> list_all (\<lambda>k. jget r k = None) (''state'' # ''lifecycle'' # TASK_STATUS_KEYS) \<and> list_all trimmed (bv_labels v)"

definition statuses :: "bd_option list \<Rightarrow> string list" where
  "statuses opts = List.map_filter (\<lambda>opt. case opt of SetStatus st \<Rightarrow> Some st | _ \<Rightarrow> None) opts"

definition set_labels :: "bd_option list \<Rightarrow> string list" where
  "set_labels opts = List.map_filter (\<lambda>opt. case opt of SetLabel l \<Rightarrow> Some l | _ \<Rightarrow> None) opts"

definition metadata_sets :: "bd_option list \<Rightarrow> (string \<times> json) list list" where
  "metadata_sets opts = List.map_filter (\<lambda>opt. case opt of SetMetadata m \<Rightarrow> Some m | _ \<Rightarrow> None) opts"

definition metadata_unsets :: "bd_option list \<Rightarrow> string list" where
  "metadata_unsets opts = List.map_filter (\<lambda>opt. case opt of UnsetMetadata k \<Rightarrow> Some k | _ \<Rightarrow> None) opts"

text \<open>An update with a status, labels and metadata, and an update that only removes metadata.\<close>

definition bd_written :: "bd_option list \<Rightarrow> bd_view \<Rightarrow> bd_view \<Rightarrow> bool" where
  "bd_written opts v w \<longleftrightarrow>
     (\<forall>st m. statuses opts = [st] \<and> metadata_sets opts = [m] \<and> metadata_unsets opts = []
         \<and> set_labels opts \<noteq> [] \<and> length opts = length (set_labels opts) + 2 \<longrightarrow>
       bv_status w = st \<and> set (bv_labels w) = set (set_labels opts) \<and> distinct (bv_labels w)
       \<and> (\<forall>k. jget (bv_metadata w) k
             \<in> (if jget m k \<noteq> None then {jget m k} else {None, jget (bv_metadata v) k})))
     \<and> (length opts = length (metadata_unsets opts) \<longrightarrow>
       bv_status w = bv_status v \<and> bv_labels w = bv_labels v
       \<and> (\<forall>k. jget (bv_metadata w) k =
             (if k \<in> set (metadata_unsets opts) then None else jget (bv_metadata v) k)))"

definition bd_laws :: "'s bd \<Rightarrow> ('s \<Rightarrow> task_id \<Rightarrow> bd_view option) \<Rightarrow> bool" where
  "bd_laws B view \<longleftrightarrow>
     (\<forall>s t v. view s t = Some v \<longrightarrow>
        (\<forall>kind \<in> {ShowPlain, ShowLong}. \<exists>r. bd_show B s kind t = Some (JArr [JObj r]) \<and> bd_record r t v))
     \<and> (\<forall>s t v opts. view s t = Some v \<longrightarrow>
        (\<exists>u w. bd_run B s (BdUpdate t opts) = Some u \<and> view u t = Some w
           \<and> (list_all trimmed (set_labels opts) \<longrightarrow> bd_written opts v w)
           \<and> (\<forall>t'. t' \<noteq> t \<longrightarrow> view u t' = view s t')))"

text \<open>A store in memory, which merges metadata.\<close>

type_synonym mem_store = "(task_id \<times> bd_view) list"

definition mem_record :: "task_id \<Rightarrow> bd_view \<Rightarrow> (string \<times> json) list" where
  "mem_record t v =
     [(''id'', JStr t), (''title'', JStr t), (''status'', JStr (bv_status v)),
      (''labels'', jstrs (bv_labels v)), (''metadata'', JObj (bv_metadata v))]"

definition mem_view :: "mem_store \<Rightarrow> task_id \<Rightarrow> bd_view option" where
  "mem_view s t = (case map_of s t of None \<Rightarrow> None
     | Some v \<Rightarrow> if list_all trimmed (bv_labels v) then Some v else None)"

definition mem_update :: "bd_option list \<Rightarrow> bd_view \<Rightarrow> bd_view" where
  "mem_update opts v =
     \<lparr>bv_status = (if statuses opts = [] then bv_status v else last (statuses opts)),
      bv_labels = (if set_labels opts = [] then bv_labels v else remdups (filter trimmed (set_labels opts))),
      bv_metadata = deleteMetadataKeys (foldl jspread (bv_metadata v) (metadata_sets opts))
        (metadata_unsets opts)\<rparr>"

fun mem_run :: "mem_store \<Rightarrow> bd_command \<Rightarrow> mem_store option" where
  "mem_run s (BdUpdate t opts) =
     (case map_of s t of None \<Rightarrow> None | Some v \<Rightarrow> Some ((t, mem_update opts v) # s))"
| "mem_run s (BdDelete ts dry cascade force) =
     Some (if dry \<or> \<not> force then s else filter (\<lambda>p. fst p \<notin> set ts) s)"
| "mem_run s _ = Some s"

definition mem_bd :: "mem_store bd" where
  "mem_bd =
     \<lparr>bd_show = (\<lambda>s kind t. case mem_view s t of None \<Rightarrow> None
        | Some v \<Rightarrow> Some (JArr [JObj (mem_record t v)])),
      bd_list = (\<lambda>s. Some (JArr (map (\<lambda>t. JObj (mem_record t (the (map_of s t))))
        (remdups (map fst s))))),
      bd_ready = (\<lambda>s. Some (JArr [])),
      bd_run = mem_run,
      bd_create = (\<lambda>s title description labels metadata.
        Some (JObj [(''id'', JStr title), (''title'', JStr title)],
          (title, \<lparr>bv_status = ''open'', bv_labels = labels, bv_metadata = metadata\<rparr>) # s))\<rparr>"

lemma bd_option_lengths:
  "length opts \<ge> length (statuses opts) + length (set_labels opts) + length (metadata_sets opts)
     + length (metadata_unsets opts)"
  by (induction opts) (auto simp: statuses_def set_labels_def metadata_sets_def metadata_unsets_def
      List.map_filter_simps split: bd_option.split)

lemma mem_record: "list_all trimmed (bv_labels v) \<Longrightarrow> bd_record (mem_record t v) t v"
  by (simp add: bd_record_def mem_record_def TASK_STATUS_KEYS_def jget_def)

lemma mem_written:
  assumes "list_all trimmed (set_labels opts)"
  shows "bd_written opts v (mem_update opts v)"
proof -
  have trimmed: "filter trimmed (set_labels opts) = set_labels opts"
    using assms by (simp add: list_all_iff)
  show ?thesis
    using bd_option_lengths [of opts]
    by (auto simp: bd_written_def mem_update_def trimmed coalesce_def split: option.splits)
qed

lemma mem_laws: "bd_laws mem_bd mem_view"
proof -
  have "mem_view ((t, mem_update opts v) # s) t = Some (mem_update opts v)"
    if "list_all trimmed (bv_labels v)" for opts t v s
    using that by (auto simp: mem_view_def mem_update_def list_all_iff)
  then show ?thesis
    by (auto simp: bd_laws_def mem_bd_def mem_view_def mem_record mem_written
        split: option.splits if_splits)
qed

subsection \<open>Loading a task of the store\<close>

text \<open>The status of a task that has none of the hub's own status fields.\<close>

definition view_status :: "bd_view \<Rightarrow> HubTaskStatus" where
  "view_status v =
     resolveStatusFromTaskShape [(''status'', JStr (bv_status v))] (bv_labels v) (bv_metadata v)"

definition shows_view :: "HubTaskProjection \<Rightarrow> task_id \<Rightarrow> bd_view \<Rightarrow> bool" where
  "shows_view task t v \<longleftrightarrow>
     tp_id task = t \<and> tp_labels task = bv_labels v \<and> tp_metadata task = bv_metadata v
     \<and> tp_hubStatus task = view_status v \<and> tp_claim task = readHubTaskClaim (bv_metadata v)"

lemma readStringList_jstrs: "list_all trimmed ls \<Longrightarrow> readStringList (Some (jstrs ls)) keys = ls"
proof -
  have "list_all trimmed ls \<Longrightarrow> List.map_filter (list_item keys) (map JStr ls) = ls"
  proof (induction ls)
    case (Cons l ls)
    then show ?case
      using trimmed_nonblank [of l] by (simp add: List.map_filter_simps trimmed_def)
  qed (simp add: List.map_filter_simps)
  then show "list_all trimmed ls \<Longrightarrow> readStringList (Some (jstrs ls)) keys = ls"
    by (simp add: jstrs_def)
qed

lemma readFirstString_none: "list_all (\<lambda>k. jget r k = None) ks \<Longrightarrow> readFirstString r ks = None"
  by (induction ks) (auto simp: readString_def)

lemma bd_record_projection:
  assumes "bd_record r t v"
  shows "shows_view (projectHubTask nt r) t v"
proof -
  have get: "jget r ''id'' = Some (JStr t)" "jget r ''labels'' = Some (jstrs (bv_labels v))"
    "jget r ''metadata'' = Some (JObj (bv_metadata v))"
    and trimmed: "list_all trimmed (bv_labels v)"
    using assms by (simp_all add: bd_record_def)
  have labels: "record_labels r = bv_labels v"
    using readStringList_jstrs [OF trimmed, of None] get by (simp add: record_labels_def jstrs_def)
  have metadata: "record_metadata r = bv_metadata v"
    using get by (simp add: record_metadata_def as_object_def)
  have "readFirstString r TASK_STATUS_KEYS = None"
    using assms by (intro readFirstString_none) (simp add: bd_record_def)
  moreover have "readFirstString [(''status'', JStr (bv_status v))] TASK_STATUS_KEYS = None"
    by (simp add: TASK_STATUS_KEYS_def readString_def jget_def)
  moreover have "readFirstString r BEADS_LIFECYCLE_KEYS =
      readFirstString [(''status'', JStr (bv_status v))] BEADS_LIFECYCLE_KEYS"
    using assms by (intro readFirstString_cong)
      (auto simp: bd_record_def BEADS_LIFECYCLE_KEYS_def jget_Cons)
  ultimately have "resolveStatusFromTaskShape r (bv_labels v) (bv_metadata v) = view_status v"
    unfolding view_status_def by (intro status_from_shape_cong) simp_all
  then show ?thesis
    using get by (simp add: shows_view_def projectHubTask_def labels metadata Let_def
        del: readFirstString.simps)
qed

text \<open>The optional details add no key the status or the claim is read from.\<close>

lemma jget_merge_details:
  assumes "k \<notin> set OPTIONAL_DETAIL_KEYS"
  shows "jget (mergeOptionalTaskDetails task details) k = jget task k"
proof -
  have one: "jget (foldl (merge_detail d) m ks) k = jget m k" if "k \<notin> set ks" for d m ks
    using that by (induction ks arbitrary: m) (auto simp: merge_detail_def split: option.splits)
  show ?thesis
    unfolding mergeOptionalTaskDetails_def
    by (induction details arbitrary: task) (simp_all add: one [OF assms])
qed

lemma bd_record_merge:
  assumes "bd_record r t v"
  shows "bd_record (mergeOptionalTaskDetails r details) t v"
proof -
  have "jget (mergeOptionalTaskDetails r details) k = jget r k"
    if "k \<in> {''id'', ''status'', ''labels'', ''metadata'', ''state'', ''lifecycle''} \<union> set TASK_STATUS_KEYS" for k
    using that by (intro jget_merge_details) (auto simp: OPTIONAL_DETAIL_KEYS_def TASK_STATUS_KEYS_def)
  with assms show ?thesis by (auto simp: bd_record_def list_all_iff)
qed

lemma first_task_singleton: "first_task [JObj r] = Some r"
  by (simp add: first_task_def)

lemma tryRunBdJson_returns: "\<exists>vs. tryRunBdJson c s = (Inr vs, s)"
  by (cases "c (ts_store s)") (simp_all add: tryRunBdJson_def runBdJson_def act_defs)

lemma load_shows:
  assumes laws: "bd_laws (tb_bd E) view" and seen: "view (ts_store s) t = Some v"
    and t: "trimmed t"
  shows "\<exists>task. loadHubTask E t s = (Inr task, s) \<and> shows_view task t v"
proof -
  obtain r1 r2 where r1: "bd_show (tb_bd E) (ts_store s) ShowPlain t = Some (JArr [JObj r1])" "bd_record r1 t v"
    and r2: "bd_show (tb_bd E) (ts_store s) ShowLong t = Some (JArr [JObj r2])" "bd_record r2 t v"
    using laws seen unfolding bd_laws_def by (meson insertCI)
  have plain: "resolveHubTaskSelector E t s = (Inr (projectHubTask (tb_numText E) r1), s)"
    using r1 t
    by (simp add: resolveHubTaskSelector_def trimmed_def tryRunBdJson_def runBdJson_def first_task_singleton
        act_defs)
  have "tp_id (projectHubTask (tb_numText E) r1) = t"
    using bd_record_projection [OF r1(2)] by (simp add: shows_view_def)
  moreover obtain thread where "tryRunBdJson (\<lambda>s. bd_show (tb_bd E) s ShowThread t) s = (Inr thread, s)"
    using tryRunBdJson_returns by blast
  moreover obtain refs where "tryRunBdJson (\<lambda>s. bd_show (tb_bd E) s ShowRefs t) s = (Inr refs, s)"
    using tryRunBdJson_returns by blast
  ultimately have "loadHubTask E t s =
      (Inr (projectHubTask (tb_numText E) (mergeOptionalTaskDetails r2 (thread @ refs))), s)"
    using r2(1) plain by (simp add: loadHubTask_def runBdJson_def first_task_singleton bind_act_def
        demand_act_def ret_act_def)
  then show ?thesis using bd_record_projection [OF bd_record_merge [OF r2(2)]] by blast
qed

subsection \<open>What a transition writes\<close>

lemma uniqueStrings_set: "set (uniqueStrings xs) = set xs"
  by (induction xs) auto

lemma uniqueStrings_distinct: "distinct (uniqueStrings xs)"
  by (induction xs) (auto simp: uniqueStrings_set)

definition STATUS_OWNED_KEYS :: "string list" where
  "STATUS_OWNED_KEYS = ''claim'' # FAILURE_METADATA_KEYS @ BLOCKED_METADATA_KEYS @ NEEDS_INFO_METADATA_KEYS
     @ SYNC_CONFLICT_METADATA_KEYS @ WONTFIX_METADATA_KEYS @ DONE_METADATA_KEYS"

lemmas key_lists = FAILURE_METADATA_KEYS_def BLOCKED_METADATA_KEYS_def NEEDS_INFO_METADATA_KEYS_def
  SYNC_CONFLICT_METADATA_KEYS_def WONTFIX_METADATA_KEYS_def DONE_METADATA_KEYS_def TASK_STATUS_KEYS_def
  STRUCTURED_METADATA_PATCH_KEYS_def

lemma owned_keys_trimmed: "list_all trimmed STATUS_OWNED_KEYS"
  by code_simp

lemma clear_keeps: "k \<notin> set STATUS_OWNED_KEYS \<Longrightarrow> jget (clearStaleHubStatusMetadata m st) k = jget m k"
  by (auto simp: clearStaleHubStatusMetadata_def STATUS_OWNED_KEYS_def Let_def)

text \<open>The metadata of a transition before its claim and its failure are set.\<close>

definition merged_metadata :: "transition_input \<Rightarrow> HubTaskProjection \<Rightarrow> (string \<times> json) list" where
  "merged_metadata i task =
     jset (jspread (tp_metadata task) (clearTransitionOwnedMetadataPatchKeys (ui_metadata i))) ''hubStatus''
       (JStr (hub_status_name (ui_hubStatus i)))"

lemma jget_transition_metadata:
  "jget (transition_metadata i task) k =
     (if k = ''failureReason'' then map_option (JStr \<circ> failure_reason_name) (ui_failureReason i)
      else if k = ''failed'' then (if ui_failureReason i = None then None else Some (JBool True))
      else if k = ''claim'' then map_option JObj
        (resolveTransitionClaim task (ui_hubStatus i) (ui_metadata i) (ui_replaceClaimMetadata i))
      else jget (clearStaleHubStatusMetadata (merged_metadata i task) (ui_hubStatus i)) k)"
  by (simp add: transition_metadata_def merged_metadata_def Let_def jget_jdel split: option.split)

lemma transition_removes_owned:
  assumes "k \<in> set (removedMetadataKeys (tp_metadata task) (transition_metadata i task))"
  shows "k \<in> set STATUS_OWNED_KEYS"
proof (rule ccontr)
  assume out: "k \<notin> set STATUS_OWNED_KEYS"
  then have "k \<notin> {''failureReason'', ''failed'', ''claim''}"
    by (auto simp: STATUS_OWNED_KEYS_def FAILURE_METADATA_KEYS_def)
  then have "jget (transition_metadata i task) k = jget (merged_metadata i task) k"
    using clear_keeps [OF out] by (simp add: jget_transition_metadata)
  moreover have "jget (transition_metadata i task) k = None" "jget (tp_metadata task) k \<noteq> None"
    using assms by (auto simp: removedMetadataKeys_def keys_jget uniqueStrings_set)
  ultimately show False by (simp add: merged_metadata_def coalesce_def split: if_splits option.splits)
qed

lemma split_on_missing: "d \<notin> set s \<Longrightarrow> split_on d s = [s]"
  by (induction s) auto

definition plain_label :: "string \<Rightarrow> bool" where
  "plain_label l \<longleftrightarrow> trimmed l \<and> CHR '','' \<notin> set l"

lemma normalizeBdLabels_plain: "list_all plain_label ls \<Longrightarrow> normalizeBdLabels ls = ls"
  by (induction ls) (auto simp: normalizeBdLabels_def plain_label_def split_on_missing trimmed_def)

lemma plain_status_label: "plain_label (hub_status_label st)"
  by (cases st) (simp_all add: plain_label_def trimmed_def js_trim_def js_space_def)

lemma plain_labels_to_set:
  "list_all plain_label labels \<Longrightarrow> list_all plain_label (labelsToSetForHubStatus labels st remove)"
  using plain_status_label [of st]
  by (auto simp: labelsToSetForHubStatus_def uniqueStrings_set list_all_iff)

lemma map_filter_append: "List.map_filter f (xs @ ys) = List.map_filter f xs @ List.map_filter f ys"
  by (induction xs) (auto simp: List.map_filter_simps split: option.split)

lemma map_filter_labels:
  "List.map_filter (\<lambda>opt. case opt of SetLabel l \<Rightarrow> Some l | _ \<Rightarrow> None) (map SetLabel ls) = ls"
  "List.map_filter (\<lambda>opt. case opt of SetStatus l \<Rightarrow> Some l | _ \<Rightarrow> None) (map SetLabel ls) = []"
  "List.map_filter (\<lambda>opt. case opt of SetMetadata l \<Rightarrow> Some l | _ \<Rightarrow> None) (map SetLabel ls) = []"
  "List.map_filter (\<lambda>opt. case opt of UnsetMetadata l \<Rightarrow> Some l | _ \<Rightarrow> None) (map SetLabel ls) = []"
  by (induction ls) (simp_all add: List.map_filter_simps)

lemma update_options:
  "statuses (appendBdMetadataArg (appendBdSetLabelsArgs [SetStatus st] ls) m) = [st]"
  "set_labels (appendBdMetadataArg (appendBdSetLabelsArgs [SetStatus st] ls) m) = normalizeBdLabels ls"
  "metadata_sets (appendBdMetadataArg (appendBdSetLabelsArgs [SetStatus st] ls) m) = [m]"
  "metadata_unsets (appendBdMetadataArg (appendBdSetLabelsArgs [SetStatus st] ls) m) = []"
  "length (appendBdMetadataArg (appendBdSetLabelsArgs [SetStatus st] ls) m) = length (normalizeBdLabels ls) + 2"
  by (simp_all add: statuses_def set_labels_def metadata_sets_def metadata_unsets_def appendBdMetadataArg_def
      appendBdSetLabelsArgs_def map_filter_append List.map_filter_simps map_filter_labels)

lemma unset_options:
  assumes "list_all trimmed ks"
  shows "set (metadata_unsets (appendBdUnsetMetadataArgs [] ks)) = set ks"
    "length (metadata_unsets (appendBdUnsetMetadataArgs [] ks)) = length (appendBdUnsetMetadataArgs [] ks)"
    "set_labels (appendBdUnsetMetadataArgs [] ks) = []"
proof -
  have "filter (\<lambda>k. k \<noteq> []) (map js_trim ks) = ks"
    using assms by (induction ks) (auto simp: trimmed_def)
  moreover have "List.map_filter (\<lambda>opt. case opt of UnsetMetadata k \<Rightarrow> Some k | _ \<Rightarrow> None) (map UnsetMetadata us) = us"
    "List.map_filter (\<lambda>opt. case opt of SetLabel l \<Rightarrow> Some l | _ \<Rightarrow> None) (map UnsetMetadata us) = []" for us
    by (induction us) (simp_all add: List.map_filter_simps)
  ultimately show "set (metadata_unsets (appendBdUnsetMetadataArgs [] ks)) = set ks"
    "length (metadata_unsets (appendBdUnsetMetadataArgs [] ks)) = length (appendBdUnsetMetadataArgs [] ks)"
    "set_labels (appendBdUnsetMetadataArgs [] ks) = []"
    by (simp_all add: metadata_unsets_def set_labels_def appendBdUnsetMetadataArgs_def uniqueStrings_set)
qed

lemma status_label_set: "hub_status_label st \<in> set (labelsToSetForHubStatus labels st remove)"
  by (simp add: labelsToSetForHubStatus_def uniqueStrings_set)

lemma runBdText_run:
  "bd_run (tb_bd E) (ts_store s) c = Some u \<Longrightarrow> runBdText E c s = (Inr (), s\<lparr>ts_store := u\<rparr>)"
  by (simp add: runBdText_def act_defs)

text \<open>A task after a transition: the view of the store, the metadata up to the order of the keys.\<close>

definition view_after :: "transition_input \<Rightarrow> HubTaskProjection \<Rightarrow> bd_view \<Rightarrow> bool" where
  "view_after i task w \<longleftrightarrow>
     bv_status w = hub_status_lifecycle (ui_hubStatus i)
     \<and> set (bv_labels w) = set (labelsToSetForHubStatus (tp_labels task) (ui_hubStatus i) (ui_labelsToRemove i))
     \<and> distinct (bv_labels w) \<and> jget (bv_metadata w) = jget (transition_metadata i task)"

lemma transition_store:
  assumes laws: "bd_laws (tb_bd E) view" and seen: "view (ts_store s) (ui_taskId i) = Some v"
    and t: "trimmed (ui_taskId i)" and plain: "list_all plain_label (bv_labels v)"
    and load: "loadHubTask E (ui_taskId i) s = (Inr task, s)"
  shows "\<exists>u w. view u (ui_taskId i) = Some w \<and> view_after i task w
     \<and> (\<forall>t'. t' \<noteq> ui_taskId i \<longrightarrow> view u t' = view (ts_store s) t')
     \<and> transitionHubTaskStatus E i s =
         bind_act (loadHubTask E (ui_taskId i)) (\<lambda>updatedTask.
           bind_act (assertHubTaskTransition updatedTask (ui_hubStatus i)) (\<lambda>_. ret_act updatedTask))
         (s\<lparr>ts_store := u\<rparr>)"
proof -
  let ?t = "ui_taskId i" and ?m = "transition_metadata i task"
  let ?ls = "labelsToSetForHubStatus (tp_labels task) (ui_hubStatus i) (ui_labelsToRemove i)"
  let ?args = "appendBdMetadataArg
    (appendBdSetLabelsArgs [SetStatus (hub_status_lifecycle (ui_hubStatus i))] ?ls) ?m"
  let ?unset = "removedMetadataKeys (tp_metadata task) ?m"
  have task: "shows_view task ?t v" using load_shows [OF laws seen t] load by auto
  then have labels: "list_all plain_label ?ls"
    using plain_labels_to_set plain by (simp add: shows_view_def)
  then have norm: "normalizeBdLabels ?ls = ?ls" by (rule normalizeBdLabels_plain)
  have "?ls \<noteq> []" using status_label_set [of "ui_hubStatus i" "tp_labels task"] by (metis empty_iff empty_set)
  obtain u w where run: "bd_run (tb_bd E) (ts_store s) (BdUpdate ?t ?args) = Some u" "view u ?t = Some w"
    and written: "list_all trimmed (set_labels ?args) \<longrightarrow> bd_written ?args v w"
    and others: "\<forall>t'. t' \<noteq> ?t \<longrightarrow> view u t' = view (ts_store s) t'"
    using laws seen unfolding bd_laws_def by meson
  have "bd_written ?args v w"
    using written labels by (auto simp: update_options norm plain_label_def list_all_iff)
  then have w: "bv_status w = hub_status_lifecycle (ui_hubStatus i)" "set (bv_labels w) = set ?ls"
    "distinct (bv_labels w)"
    and wm: "\<And>k. jget (bv_metadata w) k
      \<in> (if jget ?m k \<noteq> None then {jget ?m k} else {None, jget (bv_metadata v) k})"
    using \<open>?ls \<noteq> []\<close> by (simp_all add: bd_written_def update_options norm)
  have md: "tp_metadata task = bv_metadata v" using task by (simp add: shows_view_def)
  have unset_gone: "k \<in> set ?unset \<longleftrightarrow> jget ?m k = None \<and> jget (bv_metadata v) k \<noteq> None" for k
    by (simp add: removedMetadataKeys_def keys_jget uniqueStrings_set md) blast
  show ?thesis
  proof (cases "?unset = []")
    case True
    then have "jget (bv_metadata w) k = jget ?m k" for k
      using wm [of k] unset_gone [of k] by (auto split: if_splits)
    then have "view_after i task w" using w by (auto simp: view_after_def)
    moreover have "transitionHubTaskStatus E i s =
        bind_act (loadHubTask E ?t) (\<lambda>updatedTask.
          bind_act (assertHubTaskTransition updatedTask (ui_hubStatus i)) (\<lambda>_. ret_act updatedTask))
        (s\<lparr>ts_store := u\<rparr>)"
      using load runBdText_run [OF run(1)] True
      by (simp add: transitionHubTaskStatus_def Let_def bind_act_def when_act_def ret_act_def)
    ultimately show ?thesis using run(2) others by blast
  next
    case False
    let ?cmd = "BdUpdate ?t (appendBdUnsetMetadataArgs [] ?unset)"
    have keys: "list_all trimmed ?unset"
      using transition_removes_owned owned_keys_trimmed by (auto simp: list_all_iff)
    obtain u' w' where run': "bd_run (tb_bd E) u ?cmd = Some u'" "view u' ?t = Some w'"
      and written': "list_all trimmed (set_labels (appendBdUnsetMetadataArgs [] ?unset))
        \<longrightarrow> bd_written (appendBdUnsetMetadataArgs [] ?unset) w w'"
      and others': "\<forall>t'. t' \<noteq> ?t \<longrightarrow> view u' t' = view u t'"
      using laws run(2) unfolding bd_laws_def by meson
    have "bv_status w' = bv_status w" "bv_labels w' = bv_labels w"
      and wm': "\<And>k. jget (bv_metadata w') k = (if k \<in> set ?unset then None else jget (bv_metadata w) k)"
      using written' by (simp_all add: bd_written_def unset_options [OF keys])
    moreover have "jget (bv_metadata w') k = jget ?m k" for k
      using wm [of k] unset_gone [of k] wm' [of k] by (auto split: if_splits)
    ultimately have "view_after i task w'" using w by (auto simp: view_after_def)
    moreover have "transitionHubTaskStatus E i s =
        bind_act (loadHubTask E ?t) (\<lambda>updatedTask.
          bind_act (assertHubTaskTransition updatedTask (ui_hubStatus i)) (\<lambda>_. ret_act updatedTask))
        (s\<lparr>ts_store := u'\<rparr>)"
      using load runBdText_run [OF run(1)] False
        runBdText_run [of E "s\<lparr>ts_store := u\<rparr>" ?cmd u'] run'(1)
      by (simp add: transitionHubTaskStatus_def Let_def bind_act_def when_act_def ret_act_def)
    ultimately show ?thesis using run'(2) others others'
      by (intro exI [of _ u'] exI [of _ w'] conjI) simp_all
  qed
qed

subsection \<open>The status a task has after a transition\<close>

text \<open>The metadata of the task with the patch: what the transition starts from.\<close>

definition patched_metadata :: "transition_input \<Rightarrow> HubTaskProjection \<Rightarrow> (string \<times> json) list" where
  "patched_metadata i task =
     jspread (tp_metadata task) (clearTransitionOwnedMetadataPatchKeys (ui_metadata i))"

text \<open>
  No leftover \<open>failedReason\<close>, a failure reason exactly for a failed task, and no open synchronisation
  conflict unless the status allows one.
\<close>

definition reasons_ready :: "transition_input \<Rightarrow> HubTaskProjection \<Rightarrow> bool" where
  "reasons_ready i task \<longleftrightarrow>
    (let st = ui_hubStatus i; m = patched_metadata i task
     in (st = HubFailed \<or> \<not> present (jget m ''failedReason''))
        \<and> (ui_failureReason i \<noteq> None) = (st = HubFailed)
        \<and> (jget m ''sync_state'' = Some (JStr ''conflict'') \<and> hasTruthyMetadata m SYNC_CONFLICT_METADATA_KEYS
             \<longrightarrow> st = HubSyncConflict \<or> isCompletedHubStatus st))"

text \<open>No claim under another name where the status clears the claim, and a complete one where it needs one.\<close>

definition claim_ready :: "transition_input \<Rightarrow> HubTaskProjection \<Rightarrow> bool" where
  "claim_ready i task \<longleftrightarrow>
    (let st = ui_hubStatus i;
         claim = resolveTransitionClaim task st (ui_metadata i) (ui_replaceClaimMetadata i)
     in if shouldClearClaimForStatus st then readClaimRecord (jdel (patched_metadata i task) ''claim'') = None
        else st = HubFailed
          \<or> complete_claim (readHubTaskClaim [(''claim'', JObj (case claim of None \<Rightarrow> [] | Some c \<Rightarrow> c))]))"

text \<open>No status of another writer under \<open>hub_status\<close> either.\<close>

definition transition_ready :: "transition_input \<Rightarrow> HubTaskProjection \<Rightarrow> bool" where
  "transition_ready i task \<longleftrightarrow>
     normalizeHubTaskStatus (jget (tp_metadata task) ''hub_status'') \<in> {None, Some (ui_hubStatus i)}
     \<and> reasons_ready i task \<and> claim_ready i task"

lemma jget_clear:
  "jget (clearStaleHubStatusMetadata m st) k =
     (if st \<noteq> HubFailed \<and> k \<in> set FAILURE_METADATA_KEYS
         \<or> st \<noteq> HubBlocked \<and> k \<in> set BLOCKED_METADATA_KEYS
         \<or> st \<noteq> HubNeedsInfo \<and> k \<in> set NEEDS_INFO_METADATA_KEYS
         \<or> st \<noteq> HubSyncConflict \<and> jget m ''sync_state'' \<noteq> Some (JStr ''conflict'')
            \<and> k \<in> set SYNC_CONFLICT_METADATA_KEYS
         \<or> st \<noteq> HubWontfix \<and> k \<in> set WONTFIX_METADATA_KEYS
         \<or> st \<noteq> HubDone \<and> k \<in> set DONE_METADATA_KEYS
      then None else jget m k)"
proof -
  have "''sync_state'' \<notin> set (FAILURE_METADATA_KEYS @ BLOCKED_METADATA_KEYS @ NEEDS_INFO_METADATA_KEYS)"
    by (simp add: key_lists)
  then show ?thesis by (simp add: clearStaleHubStatusMetadata_def Let_def)
qed

lemma status_key_get:
  assumes "k \<in> set TASK_STATUS_KEYS" and "k \<noteq> ''hubStatus''"
  shows "jget (transition_metadata i task) k = jget (tp_metadata task) k"
proof -
  have "k \<notin> set STATUS_OWNED_KEYS" "k \<noteq> ''failureReason''" "k \<noteq> ''failed''" "k \<noteq> ''claim''"
    using assms(1) by (auto simp: key_lists STATUS_OWNED_KEYS_def)
  then show ?thesis
    using assms by (simp add: jget_transition_metadata clear_keeps merged_metadata_def
        clearTransitionOwnedMetadataPatchKeys_def)
qed

lemma hub_status_key_get:
  "jget (transition_metadata i task) ''hubStatus'' = Some (JStr (hub_status_name (ui_hubStatus i)))"
  using clear_keeps [of "''hubStatus''"]
  by (simp add: jget_transition_metadata merged_metadata_def key_lists STATUS_OWNED_KEYS_def)

lemma normalizeKey_name: "normalizeKey (hub_status_name st) = hub_status_name st"
  by (cases st) (simp_all add: normalizeKey_def js_trim_def js_space_def toLowerCase_def lower_char_def)

lemma normalize_status_name: "normalizeHubTaskStatus (Some (JStr (hub_status_name st))) = Some st"
  unfolding normalizeHubTaskStatus.simps normalizeKey_name
  by (cases st) (simp_all add: HUB_TASK_STATUSES_def)

lemma metadata_status_after:
  assumes "normalizeHubTaskStatus (jget (tp_metadata task) ''hub_status'') \<in> {None, Some (ui_hubStatus i)}"
  shows "resolveMetadataStatus (transition_metadata i task) = Some (ui_hubStatus i)"
proof -
  have "''hub_status'' \<in> set TASK_STATUS_KEYS" by (simp add: TASK_STATUS_KEYS_def)
  then have "normalizeHubTaskStatus (jget (transition_metadata i task) ''hub_status'')
      \<in> {None, Some (ui_hubStatus i)}"
    using status_key_get [of "''hub_status''"] assms by simp
  then show ?thesis
    by (auto simp: resolveMetadataStatus_def TASK_STATUS_KEYS_def hub_status_key_get normalize_status_name
        simp del: normalizeHubTaskStatus.simps)
qed

lemma absent_not_truthy: "list_all (\<lambda>k. \<not> present (jget m k)) ks \<Longrightarrow> \<not> hasTruthyMetadata m ks"
  by (auto simp: hasTruthyMetadata_def list_all_iff list_ex_iff)

lemma reasons_after:
  assumes "reasons_ready i task"
  defines "st \<equiv> ui_hubStatus i" and "m \<equiv> transition_metadata i task"
  shows "resolveStatusFromMetadataReasons m \<in> {None, Some st}
     \<or> resolveStatusFromMetadataReasons m = Some HubSyncConflict \<and> isCompletedHubStatus st"
proof -
  let ?M = "patched_metadata i task"
  have merged: "jget (merged_metadata i task) k = (if k = ''hubStatus'' then Some (JStr (hub_status_name st)) else jget ?M k)" for k
    by (simp add: merged_metadata_def patched_metadata_def st_def)
  have get: "jget m k = jget (clearStaleHubStatusMetadata (merged_metadata i task) st) k"
    if "k \<noteq> ''failureReason''" "k \<noteq> ''failed''" "k \<noteq> ''claim''" for k
    using that by (simp add: m_def st_def jget_transition_metadata)
  have blocked: "st \<noteq> HubBlocked \<Longrightarrow> \<not> hasTruthyMetadata m
      [''blocked_reason'', ''blockedReason'', ''blocked_reason_kind'', ''blockedReasonKind'', ''blocked'']"
    by (rule absent_not_truthy) (simp add: get jget_clear BLOCKED_METADATA_KEYS_def)
  have info: "st \<noteq> HubNeedsInfo \<Longrightarrow> \<not> hasTruthyMetadata m
      [''needs_info'', ''needsInfo'', ''needs_info_reason'', ''needsInfoReason'']"
    by (rule absent_not_truthy) (simp add: get jget_clear NEEDS_INFO_METADATA_KEYS_def)
  have wontfix: "st \<noteq> HubWontfix \<Longrightarrow> \<not> hasTruthyMetadata m [''wontfix'', ''wontFix'', ''rejected'']"
    by (rule absent_not_truthy) (simp add: get jget_clear WONTFIX_METADATA_KEYS_def)
  have dn: "st \<noteq> HubDone \<Longrightarrow> \<not> hasTruthyMetadata m [''done'']"
    by (rule absent_not_truthy) (simp add: get jget_clear DONE_METADATA_KEYS_def)
  have failed: "\<not> hasTruthyMetadata m [''failed'', ''failedReason'', ''failure_reason'', ''failureReason'']"
    if "st \<noteq> HubFailed"
  proof (rule absent_not_truthy)
    have none: "ui_failureReason i = None" and "\<not> present (jget ?M ''failedReason'')"
      using assms(1) that by (simp_all add: reasons_ready_def Let_def st_def)
    moreover have "jget m ''failedReason'' = jget ?M ''failedReason''"
      using that by (simp add: get jget_clear key_lists merged)
    moreover have "jget m ''failure_reason'' = None"
      using that by (simp add: get jget_clear FAILURE_METADATA_KEYS_def)
    moreover have "jget m ''failed'' = None" "jget m ''failureReason'' = None"
      using none by (simp_all add: m_def jget_transition_metadata)
    ultimately show "list_all (\<lambda>k. \<not> present (jget m k)) [''failed'', ''failedReason'', ''failure_reason'', ''failureReason'']"
      by simp
  qed
  have sync: "isCompletedHubStatus st"
    if "st \<noteq> HubSyncConflict" and truthy: "hasTruthyMetadata m
      [''sync_conflict'', ''syncConflict'', ''sync_conflict_reason'', ''syncConflictReason'']"
  proof -
    let ?ks = "[''sync_conflict'', ''syncConflict'', ''sync_conflict_reason'', ''syncConflictReason'']"
    have "jget m k = (if jget ?M ''sync_state'' \<noteq> Some (JStr ''conflict'') then None else jget ?M k)"
      if "k \<in> set ?ks" for k
      using that \<open>st \<noteq> HubSyncConflict\<close> by (auto simp: get jget_clear key_lists merged)
    then have "jget ?M ''sync_state'' = Some (JStr ''conflict'')" "hasTruthyMetadata ?M ?ks"
      using truthy by (auto simp: hasTruthyMetadata_def split: if_splits)
    then show ?thesis
      using assms(1) that(1) by (auto simp: reasons_ready_def Let_def st_def SYNC_CONFLICT_METADATA_KEYS_def)
  qed
  show ?thesis
    using blocked info wontfix dn failed sync
    by (cases st) (auto simp: resolveStatusFromMetadataReasons_def METADATA_STATUS_RULES_def)
qed

lemma managed_names:
  "map (\<lambda>st. normalizeKey (hub_status_label st)) HUB_TASK_STATUSES =
     ''needs_triage'' # map hub_status_name (tl HUB_TASK_STATUSES)"
  by code_simp

lemma unmanaged_status: "\<not> managed_label l \<Longrightarrow> map_of STATUS_LABEL_TO_HUB_STATUS (normalizeKey l) \<in> {None, Some HubInbox}"
  unfolding managed_label_def managed_names
  unfolding STATUS_LABEL_TO_HUB_STATUS_def HUB_TASK_STATUSES_def by simp

lemma normalizeKey_label:
  "normalizeKey (hub_status_label st) = (if st = HubInbox then ''needs_triage'' else hub_status_name st)"
  by (cases st) (simp_all add: normalizeKey_def js_trim_def js_space_def toLowerCase_def lower_char_def)

lemma label_status: "map_of STATUS_LABEL_TO_HUB_STATUS (normalizeKey (hub_status_label st)) = Some st"
  unfolding normalizeKey_label
  by (cases st) (simp_all add: STATUS_LABEL_TO_HUB_STATUS_def HUB_TASK_STATUSES_def)

lemma all_statuses: "st \<in> set HUB_TASK_STATUSES"
  by (cases st) (simp_all add: HUB_TASK_STATUSES_def)

lemma status_label_managed: "managed_label (hub_status_label st)"
  using all_statuses [of st] by (auto simp: managed_label_def)

lemma resolveStatusFromLabels_in:
  "resolveStatusFromLabels ls = Some x \<Longrightarrow> \<exists>l \<in> set ls. map_of STATUS_LABEL_TO_HUB_STATUS (normalizeKey l) = Some x"
proof (induction ls)
  case (Cons l ls)
  then show ?case by (cases "map_of STATUS_LABEL_TO_HUB_STATUS (normalizeKey l)") auto
qed simp

lemma distinct_singleton_list: "set xs = {x} \<Longrightarrow> distinct xs \<Longrightarrow> xs = [x]"
proof (cases xs)
  case (Cons y ys)
  moreover assume "set xs = {x}" "distinct xs"
  ultimately show ?thesis by (cases ys) auto
qed simp

text \<open>The labels after a transition: the task's own labels and one managed label.\<close>

lemma labels_after:
  assumes "set ls = set (labelsToSetForHubStatus labels st remove)" and "distinct ls"
  shows "filter managed_label ls = [hub_status_label st]"
    and "{l \<in> set ls. \<not> managed_label l} = {l \<in> set labels. \<not> managed_label l \<and> l \<notin> set remove}"
    and "resolveStatusFromLabels ls \<in> {None, Some HubInbox, Some st}"
proof -
  have mem: "l \<in> set ls \<longleftrightarrow>
      \<not> managed_label l \<and> l \<in> set labels \<and> l \<notin> set remove \<or> l = hub_status_label st" for l
    using assms(1) by (auto simp: labelsToSetForHubStatus_def uniqueStrings_set)
  have "set (filter managed_label ls) = {hub_status_label st}"
    using mem status_label_managed by auto
  moreover have "distinct (filter managed_label ls)" using assms(2) by simp
  ultimately show "filter managed_label ls = [hub_status_label st]"
    by (intro distinct_singleton_list)
  show "{l \<in> set ls. \<not> managed_label l} = {l \<in> set labels. \<not> managed_label l \<and> l \<notin> set remove}"
    using mem status_label_managed by auto
  show "resolveStatusFromLabels ls \<in> {None, Some HubInbox, Some st}"
  proof (cases "resolveStatusFromLabels ls")
    case (Some x)
    then obtain l where l: "l \<in> set ls" "map_of STATUS_LABEL_TO_HUB_STATUS (normalizeKey l) = Some x"
      using resolveStatusFromLabels_in by blast
    then show ?thesis
      using mem [of l] unmanaged_status [of l] label_status [of st] Some by auto
  qed simp
qed

lemma inbox_not_authoritative: "HubInbox \<notin> set LABEL_AUTHORITATIVE_STATUSES"
  by (simp add: LABEL_AUTHORITATIVE_STATUSES_def)

lemma shape_status:
  assumes direct: "readFirstString r TASK_STATUS_KEYS = None"
    and metadata: "resolveMetadataStatus m = Some st"
    and labels: "resolveStatusFromLabels ls \<in> {None, Some HubInbox, Some st}"
    and reasons: "resolveStatusFromMetadataReasons m \<in> {None, Some st}
      \<or> resolveStatusFromMetadataReasons m = Some HubSyncConflict \<and> isCompletedHubStatus st"
  shows "resolveStatusFromTaskShape r ls m = st"
proof (cases "resolveStatusFromMetadataReasons m")
  case None
  show ?thesis
    unfolding resolveStatusFromTaskShape_def direct metadata None jstr_opt_def
    using labels inbox_not_authoritative by auto
next
  case (Some reason)
  show ?thesis
    unfolding resolveStatusFromTaskShape_def direct metadata Some jstr_opt_def
    using reasons Some by auto
qed

lemma status_after:
  assumes ready: "transition_ready i task" and after: "view_after i task w"
  shows "view_status w = ui_hubStatus i"
proof -
  let ?st = "ui_hubStatus i" and ?m = "transition_metadata i task"
  have get: "jget (bv_metadata w) = jget ?m" using after by (simp add: view_after_def)
  have labels: "set (bv_labels w) =
        set (labelsToSetForHubStatus (tp_labels task) ?st (ui_labelsToRemove i))" "distinct (bv_labels w)"
    using after by (simp_all add: view_after_def)
  have "view_status w = resolveStatusFromTaskShape
      [(''status'', JStr (bv_status w))] (bv_labels w) ?m"
    unfolding view_status_def by (rule status_from_shape_cong) (simp_all only: get)
  also have "\<dots> = ?st"
  proof (rule shape_status)
    show "readFirstString [(''status'', JStr (bv_status w))] TASK_STATUS_KEYS = None"
      by (rule readFirstString_none) (simp add: TASK_STATUS_KEYS_def jget_Cons)
    show "resolveMetadataStatus ?m = Some ?st"
      using ready by (intro metadata_status_after) (simp add: transition_ready_def)
    show "resolveStatusFromMetadataReasons ?m \<in> {None, Some ?st}
        \<or> resolveStatusFromMetadataReasons ?m = Some HubSyncConflict \<and> isCompletedHubStatus ?st"
      using ready by (intro reasons_after) (simp add: transition_ready_def)
  qed (rule labels_after(3) [OF labels])
  finally show ?thesis .
qed

subsection \<open>A transition that passes its own checks\<close>

lemma readClaimRecord_nonempty: "readClaimRecord m \<noteq> Some []"
proof (cases "m = []")
  case True
  then have "readString m ''runId'' = None" by (simp add: readString_def)
  then show ?thesis by (simp add: readClaimRecord_def Let_def)
next
  case False
  then show ?thesis by (auto simp: readClaimRecord_def Let_def)
qed

lemma claim_record_nonempty: "readHubTaskClaim m = Some c \<Longrightarrow> hc_raw c \<noteq> []"
  using readClaimRecord_nonempty [of m] by (auto simp: readHubTaskClaim_def split: option.splits)

lemma claim_of_raw:
  assumes "readHubTaskClaim m = Some c"
  shows "readHubTaskClaim [(''claim'', JObj (hc_raw c))] = Some c"
proof -
  have "hc_raw c \<noteq> []" by (rule claim_record_nonempty [OF assms])
  then have "readClaimRecord [(''claim'', JObj (hc_raw c))] = Some (hc_raw c)"
    by (simp add: readClaimRecord_def as_object_def jget_Cons)
  then show ?thesis using assms by (auto simp: readHubTaskClaim_def split: option.splits)
qed

lemma nested_claim:
  "jget m ''claim'' = Some (JObj c) \<Longrightarrow> c \<noteq> [] \<Longrightarrow> readHubTaskClaim m = readHubTaskClaim [(''claim'', JObj c)]"
  by (simp add: readHubTaskClaim_def readClaimRecord_def as_object_def jget_Cons)

definition CLAIM_RECORD_KEYS :: "string list" where
  "CLAIM_RECORD_KEYS =
     [''claim'', ''hubClaim'', ''hub_claim'', ''taskClaim'', ''runId'', ''batchId'', ''branch'', ''claimedAt'']"

lemma claim_record_None_cong:
  assumes "\<And>k. k \<in> set CLAIM_RECORD_KEYS \<Longrightarrow> jget a k = jget b k"
  shows "readClaimRecord a = None \<longleftrightarrow> readClaimRecord b = None"
proof -
  have "first_value a [''claim'', ''hubClaim'', ''hub_claim'', ''taskClaim''] =
      first_value b [''claim'', ''hubClaim'', ''hub_claim'', ''taskClaim'']"
    by (rule first_value_cong, rule assms) (auto simp: CLAIM_RECORD_KEYS_def)
  moreover have "readString a k = readString b k" if "k \<in> set CLAIM_RECORD_KEYS" for k
    using assms [OF that] by (rule readString_same_value)
  ultimately show ?thesis by (simp add: readClaimRecord_def Let_def CLAIM_RECORD_KEYS_def)
qed

definition claim_written :: "transition_input \<Rightarrow> HubTaskProjection \<Rightarrow> HubTaskClaimMetadata option" where
  "claim_written i task =
     (case resolveTransitionClaim task (ui_hubStatus i) (ui_metadata i) (ui_replaceClaimMetadata i) of
        None \<Rightarrow> None | Some c \<Rightarrow> readHubTaskClaim [(''claim'', JObj c)])"

text \<open>The claim after a transition.\<close>

lemma claim_after:
  assumes ready: "claim_ready i task" and get: "jget m = jget (transition_metadata i task)"
  shows "if shouldClearClaimForStatus (ui_hubStatus i) then readHubTaskClaim m = None
     else ui_hubStatus i \<noteq> HubFailed \<longrightarrow> readHubTaskClaim m = claim_written i task \<and> complete_claim (readHubTaskClaim m)"
proof (cases "shouldClearClaimForStatus (ui_hubStatus i)")
  case True
  have "jget m k = jget (jdel (patched_metadata i task) ''claim'') k" if "k \<in> set CLAIM_RECORD_KEYS" for k
  proof (cases "k = ''claim''")
    case claim: True
    then show ?thesis
      using True by (simp add: get jget_transition_metadata resolveTransitionClaim_def jget_jdel)
  next
    case False
    then have "k \<notin> set STATUS_OWNED_KEYS" "k \<noteq> ''failureReason''" "k \<noteq> ''failed''" "k \<noteq> ''hubStatus''"
      using that by (auto simp: CLAIM_RECORD_KEYS_def STATUS_OWNED_KEYS_def key_lists)
    then show ?thesis
      using False by (simp add: get jget_transition_metadata clear_keeps jget_jdel merged_metadata_def
          patched_metadata_def)
  qed
  then have "readClaimRecord m = None \<longleftrightarrow> readClaimRecord (jdel (patched_metadata i task) ''claim'') = None"
    by (rule claim_record_None_cong)
  moreover have "readClaimRecord (jdel (patched_metadata i task) ''claim'') = None"
    using ready True by (simp add: claim_ready_def Let_def)
  ultimately have "readClaimRecord m = None" by simp
  then show ?thesis using True by (simp add: readHubTaskClaim_def)
next
  case False
  show ?thesis
  proof (cases "ui_hubStatus i = HubFailed")
    case True
    then show ?thesis by (simp add: shouldClearClaimForStatus_def CLAIM_PRESERVING_STATUSES_def)
  next
    case nf: False
    let ?c = "resolveTransitionClaim task (ui_hubStatus i) (ui_metadata i) (ui_replaceClaimMetadata i)"
    have complete: "complete_claim (readHubTaskClaim [(''claim'', JObj (case ?c of None \<Rightarrow> [] | Some c \<Rightarrow> c))])"
      using ready False nf by (simp add: claim_ready_def Let_def)
    have "readHubTaskClaim [(''claim'', JObj [])] = None"
      by (simp add: readHubTaskClaim_def readClaimRecord_def as_object_def jget_Cons readString_def)
    then have empty: "\<not> complete_claim (readHubTaskClaim [(''claim'', JObj [])])"
      by (simp add: complete_claim_def)
    then obtain c where c: "?c = Some c" using complete by (cases ?c) simp_all
    with complete empty have "c \<noteq> []" by (metis option.simps(5))
    note c = c this
    then have "jget m ''claim'' = Some (JObj c)"
      by (simp add: get jget_transition_metadata)
    then show ?thesis
      using nested_claim [of m c] c complete False by (simp add: claim_written_def)
  qed
qed

lemma failure_after:
  assumes ready: "reasons_ready i task" and get: "jget (tp_metadata task') = jget (transition_metadata i task)"
  shows "assertHubFailureMetadataPolicy task' (ui_hubStatus i) s = (Inr (), s)"
proof (cases "ui_hubStatus i = HubFailed")
  case True
  then have "ui_failureReason i \<noteq> None" using ready by (simp add: reasons_ready_def Let_def)
  then show ?thesis
    using True by (auto simp: assertHubFailureMetadataPolicy_def get jget_transition_metadata Let_def)
next
  case False
  then have "ui_failureReason i = None" using ready by (auto simp: reasons_ready_def Let_def)
  moreover have "jget (clearStaleHubStatusMetadata (merged_metadata i task) (ui_hubStatus i)) ''failure_reason'' = None"
    using False by (simp add: jget_clear FAILURE_METADATA_KEYS_def)
  ultimately show ?thesis
    using False by (simp add: assertHubFailureMetadataPolicy_def get jget_transition_metadata Let_def)
qed

lemma claim_required_kept: "st \<in> set CLAIM_REQUIRED_STATUSES \<longleftrightarrow> \<not> shouldClearClaimForStatus st \<and> st \<noteq> HubFailed"
  by (cases st) (simp_all add: CLAIM_REQUIRED_STATUSES_def shouldClearClaimForStatus_def CLAIM_PRESERVING_STATUSES_def)

lemma checks_pass:
  assumes ready: "transition_ready i task" and after: "view_after i task w"
    and shown: "shows_view task' (ui_taskId i) w"
  shows "assertHubTaskTransition task' (ui_hubStatus i) s = (Inr (), s)"
proof -
  have get: "jget (tp_metadata task') = jget (transition_metadata i task)"
    using after shown by (simp add: view_after_def shows_view_def)
  have "tp_hubStatus task' = ui_hubStatus i"
    using shown status_after [OF ready after] by (simp add: shows_view_def)
  moreover have "filter managed_label (tp_labels task') = [hub_status_label (ui_hubStatus i)]"
    using shown after labels_after(1) by (simp add: shows_view_def view_after_def)
  moreover have "tp_claim task' = readHubTaskClaim (tp_metadata task')"
    using shown by (simp add: shows_view_def)
  then have "assertHubTaskClaimPolicy task' (ui_hubStatus i) s = (Inr (), s)"
    using claim_after [OF _ get] ready
    by (auto simp: transition_ready_def assertHubTaskClaimPolicy_def claim_required_kept split: if_splits)
  ultimately show ?thesis
    using failure_after [OF _ get] ready
    by (simp add: transition_ready_def assertHubTaskTransition_def assertProjectedHubStatus_def assertCanonicalHubStatusLabel_def
        bind_act_def ret_act_def)
qed

text \<open>The outcome of a transition of a task that is ready for it.\<close>

definition transition_outcome ::
    "('s \<Rightarrow> task_id \<Rightarrow> bd_view option) \<Rightarrow> transition_input \<Rightarrow> HubTaskProjection \<Rightarrow> 's \<Rightarrow> 's
     \<Rightarrow> HubTaskProjection \<Rightarrow> bool" where
  "transition_outcome view i task before after task' \<longleftrightarrow>
     (\<exists>w. view after (ui_taskId i) = Some w \<and> shows_view task' (ui_taskId i) w \<and> view_after i task w)
     \<and> tp_hubStatus task' = ui_hubStatus i
     \<and> (\<forall>t'. t' \<noteq> ui_taskId i \<longrightarrow> view after t' = view before t')"

lemma transition_result:
  assumes "bd_laws (tb_bd E) view" and "view (ts_store s) (ui_taskId i) = Some v"
    and "trimmed (ui_taskId i)" and "list_all plain_label (bv_labels v)"
    and "loadHubTask E (ui_taskId i) s = (Inr task, s)" and ready: "transition_ready i task"
  shows "\<exists>task' u. transitionHubTaskStatus E i s = (Inr task', s\<lparr>ts_store := u\<rparr>)
     \<and> transition_outcome view i task (ts_store s) u task'"
proof -
  obtain u w where w: "view u (ui_taskId i) = Some w" "view_after i task w"
    and others: "\<forall>t'. t' \<noteq> ui_taskId i \<longrightarrow> view u t' = view (ts_store s) t'"
    and run: "transitionHubTaskStatus E i s =
       bind_act (loadHubTask E (ui_taskId i)) (\<lambda>updatedTask.
         bind_act (assertHubTaskTransition updatedTask (ui_hubStatus i)) (\<lambda>_. ret_act updatedTask))
       (s\<lparr>ts_store := u\<rparr>)"
    using transition_store [OF assms(1-5)] by blast
  obtain task' where load: "loadHubTask E (ui_taskId i) (s\<lparr>ts_store := u\<rparr>) = (Inr task', s\<lparr>ts_store := u\<rparr>)"
    and shown: "shows_view task' (ui_taskId i) w"
    using load_shows [of E view "s\<lparr>ts_store := u\<rparr>" "ui_taskId i" w] assms(1,3) w(1) by auto
  have "transitionHubTaskStatus E i s = (Inr task', s\<lparr>ts_store := u\<rparr>)"
    using run load checks_pass [OF ready w(2) shown, of "s\<lparr>ts_store := u\<rparr>"]
    by (simp add: bind_act_def ret_act_def)
  moreover have "tp_hubStatus task' = ui_hubStatus i"
    using shown status_after [OF ready w(2)] by (simp add: shows_view_def)
  ultimately show ?thesis using w others shown unfolding transition_outcome_def by blast
qed

subsection \<open>What a transition that returns guarantees\<close>

lemma assertHubTaskTransition_ok:
  "assertHubTaskTransition task st s = (Inr (), t) \<longleftrightarrow>
     t = s \<and> tp_hubStatus task = st
     \<and> (\<exists>l. filter managed_label (tp_labels task) = [l] \<and> normalizeKey l = normalizeKey (hub_status_label st))
     \<and> \<not> (shouldClearClaimForStatus st \<and> tp_claim task \<noteq> None)
     \<and> (st \<in> set CLAIM_REQUIRED_STATUSES \<longrightarrow> complete_claim (tp_claim task))
     \<and> (if st = HubFailed
        then truthy (jget (tp_metadata task) ''failed'') \<and> is_string (jget (tp_metadata task) ''failureReason'')
        else list_all (\<lambda>k. jget (tp_metadata task) k = None) [''failed'', ''failureReason'', ''failure_reason''])"
  by (auto simp: assertHubTaskTransition_def assertProjectedHubStatus_def assertCanonicalHubStatusLabel_def
      assertHubTaskClaimPolicy_def assertHubFailureMetadataPolicy_def Let_def split: list.splits if_splits)

lemma transition_returns:
  assumes "transitionHubTaskStatus E i s = (Inr task, t)"
  shows "loadHubTask E (ui_taskId i) t = (Inr task, t)"
    and "assertHubTaskTransition task (ui_hubStatus i) t = (Inr (), t)"
proof -
  obtain u where load: "loadHubTask E (ui_taskId i) u = (Inr task, t)"
    and check: "\<exists>v. assertHubTaskTransition task (ui_hubStatus i) t = (Inr (), v) \<and> v = t"
    using assms by (auto simp: transitionHubTaskStatus_def Let_def assertHubTaskTransition_ok)
  then show "loadHubTask E (ui_taskId i) t = (Inr task, t)"
    using loadHubTask_same [OF load] by simp
  show "assertHubTaskTransition task (ui_hubStatus i) t = (Inr (), t)" using check by simp
qed

lemma stale_status_projected:
  assumes "bd_laws (tb_bd E) view" and "view (ts_store s) (ui_taskId i) = Some v"
    and "trimmed (ui_taskId i)" and "list_all plain_label (bv_labels v)"
    and "loadHubTask E (ui_taskId i) s = (Inr task, s)" and reasons: "reasons_ready i task"
    and stale: "normalizeHubTaskStatus (jget (tp_metadata task) ''hub_status'') = Some old"
    and st: "old \<noteq> ui_hubStatus i" "ui_hubStatus i \<in> {HubInbox, HubReadyForAgent, HubReadyForHuman}"
  shows "\<exists>u w. transitionHubTaskStatus E i s =
       (Inl (WroteButProjected (ui_taskId i) (ui_hubStatus i) old), s\<lparr>ts_store := u\<rparr>)
     \<and> view u (ui_taskId i) = Some w \<and> view_after i task w"
proof -
  let ?st = "ui_hubStatus i" and ?m = "transition_metadata i task"
  obtain u w where w: "view u (ui_taskId i) = Some w" "view_after i task w"
    and run: "transitionHubTaskStatus E i s =
       bind_act (loadHubTask E (ui_taskId i)) (\<lambda>updatedTask.
         bind_act (assertHubTaskTransition updatedTask ?st) (\<lambda>_. ret_act updatedTask))
       (s\<lparr>ts_store := u\<rparr>)"
    using transition_store [OF assms(1-5)] by blast
  obtain task' where load: "loadHubTask E (ui_taskId i) (s\<lparr>ts_store := u\<rparr>) = (Inr task', s\<lparr>ts_store := u\<rparr>)"
    and shown: "shows_view task' (ui_taskId i) w"
    using load_shows [of E view "s\<lparr>ts_store := u\<rparr>" "ui_taskId i" w] assms(1,3) w(1) by auto
  have get: "jget (bv_metadata w) = jget ?m" and labels: "set (bv_labels w) =
        set (labelsToSetForHubStatus (tp_labels task) ?st (ui_labelsToRemove i))" "distinct (bv_labels w)"
    using w(2) by (simp_all add: view_after_def)
  have "''hub_status'' \<in> set TASK_STATUS_KEYS" by (simp add: TASK_STATUS_KEYS_def)
  then have old: "resolveMetadataStatus ?m = Some old"
    using status_key_get [of "''hub_status''"] stale
    by (simp add: resolveMetadataStatus_def TASK_STATUS_KEYS_def)
  have none: "resolveStatusFromMetadataReasons ?m = None"
  proof -
    have "resolveStatusFromMetadataReasons m \<notin> {Some HubInbox, Some HubReadyForAgent, Some HubReadyForHuman}" for m
      by (simp add: resolveStatusFromMetadataReasons_def METADATA_STATUS_RULES_def)
    then show ?thesis using reasons_after [OF reasons] st by (auto simp: isCompletedHubStatus_def)
  qed
  have "view_status w = resolveStatusFromTaskShape
      [(''status'', JStr (bv_status w))] (bv_labels w) ?m"
    unfolding view_status_def by (rule status_from_shape_cong) (simp_all only: get)
  also have "\<dots> = old"
  proof -
    have direct: "readFirstString [(''status'', JStr (bv_status w))] TASK_STATUS_KEYS = None"
      by (rule readFirstString_none) (simp add: TASK_STATUS_KEYS_def jget_Cons)
    have "\<not> (resolveStatusFromLabels (bv_labels w) \<noteq> None
        \<and> the (resolveStatusFromLabels (bv_labels w)) \<in> set LABEL_AUTHORITATIVE_STATUSES)"
      using labels_after(3) [OF labels] st by (auto simp: LABEL_AUTHORITATIVE_STATUSES_def)
    then show ?thesis
      unfolding resolveStatusFromTaskShape_def direct old none jstr_opt_def by (auto simp: Let_def)
  qed
  finally have "tp_hubStatus task' = old" "tp_id task' = ui_taskId i"
    using shown by (simp_all add: shows_view_def)
  then have "assertHubTaskTransition task' ?st (s\<lparr>ts_store := u\<rparr>) =
      (Inl (WroteButProjected (ui_taskId i) ?st old), s\<lparr>ts_store := u\<rparr>)"
    using st by (simp add: assertHubTaskTransition_def assertProjectedHubStatus_def bind_act_def throw_act_def)
  then have "transitionHubTaskStatus E i s =
      (Inl (WroteButProjected (ui_taskId i) ?st old), s\<lparr>ts_store := u\<rparr>)"
    using run load by (simp add: bind_act_def)
  then show ?thesis using w by blast
qed

text \<open>A state over the store in memory, for concrete inputs.\<close>

definition mem_env :: "mem_store tb_env" where
  "mem_env =
     \<lparr>tb_bd = mem_bd, tb_numText = (\<lambda>q. ''number''), tb_collate = (\<lambda>s. of_nat (length s)),
      tb_head = Some (replicate 40 (CHR ''a'')), tb_branchExists = (\<lambda>b. False), tb_newRunId = ''run-n'',
      tb_newBatchId = ''batch-n'', tb_hubProjectDir = ''/hub'', tb_repoRoot = ''/repo''\<rparr>"

definition mem_state :: "bd_view \<Rightarrow> mem_store tb_state" where
  "mem_state v = \<lparr>ts_store = [(''t-1'', v)], ts_events = [], ts_runEvents = []\<rparr>"

lemma mem_loaded:
  assumes "list_all trimmed (bv_labels v)"
  shows "\<exists>task. loadHubTask mem_env ''t-1'' (mem_state v) = (Inr task, mem_state v) \<and> shows_view task ''t-1'' v"
proof (rule load_shows)
  show "bd_laws (tb_bd mem_env) mem_view" by (simp add: mem_env_def mem_laws)
  show "mem_view (ts_store (mem_state v)) ''t-1'' = Some v"
    using assms by (simp add: mem_state_def mem_view_def)
  show "trimmed ''t-1''" by (simp add: trimmed_def js_trim_def js_space_def)
qed

subsection \<open>Claims\<close>

lemma loadHubTask_cong:
  assumes "tb_bd F = tb_bd E" and "tb_numText F = tb_numText E" and "tb_collate F = tb_collate E"
  shows "loadHubTask F t = loadHubTask E t"
  unfolding loadHubTask_def resolveHubTaskSelector_def loadHubTaskBoard_def assms by (rule refl)

lemma run_context_store:
  "\<exists>ctx u. createHubRunContext E run batch branch started s = (Inr ctx, u)
     \<and> ts_store u = ts_store s \<and> ts_events u = ts_events s
     \<and> rx_runId ctx = (case run of None \<Rightarrow> tb_newRunId E | Some r \<Rightarrow> r)
     \<and> rx_batchId ctx = (case batch of None \<Rightarrow> tb_newBatchId E | Some b \<Rightarrow> b)"
  by (cases run) (simp_all add: createHubRunContext_def Let_def act_defs)

lemma append_event_store:
  "appendHubTaskEvent d e s = (Inr (), s\<lparr>ts_events := append_line (ts_events s) d (Some e)\<rparr>)"
  by (simp add: appendHubTaskEvent_def modify_act_def)

lemma claimed_shows_implementing:
  assumes "claimHubTask E i s = (Inr r, t)" and "cl_outcome r = Claimed"
  shows "loadHubTask E (ci_taskId i) t = (Inr (cl_task r), t)" and "tp_hubStatus (cl_task r) = HubImplementing"
proof -
  obtain task u claim m where trans: "transitionHubTaskStatus E
        (status_input (ci_taskId i) HubImplementing m None) u = (Inr (cl_task r), claim)"
    and store: "ts_store t = ts_store claim"
    using assms by (auto simp: claimHubTask_steps updateHubTaskStatus_def Let_def appendHubTaskEvent_def
        split: if_splits prod.splits)
  have load: "loadHubTask E (ci_taskId i) claim = (Inr (cl_task r), claim)"
    using transition_returns(1) [OF trans] by (simp add: status_input_def)
  show "loadHubTask E (ci_taskId i) t = (Inr (cl_task r), t)"
    by (rule loadHubTask_store [OF load store])
  show "tp_hubStatus (cl_task r) = HubImplementing"
    using transition_returns(2) [OF trans] by (simp add: status_input_def assertHubTaskTransition_ok)
qed

lemma active_claim_skips:
  assumes load: "loadHubTask E (ci_taskId i) s = (Inr task, s)" and active: "isHubTaskClaimActive (tp_hubStatus task)"
  shows "\<exists>r t. claimHubTask E i s = (Inr r, t) \<and> cl_outcome r = SkippedActiveClaim \<and> cl_claim r = tp_claim task
     \<and> cl_task r = task \<and> ts_store t = ts_store s"
proof -
  obtain ctx u where ctx: "createHubRunContext E (ci_runId i) (ci_batchId i) (ci_branch i) (ci_startedAt i) s = (Inr ctx, u)"
    and store: "ts_store u = ts_store s"
    using run_context_store by blast
  have "loadHubTask E (ci_taskId i) u = (Inr task, u)" by (rule loadHubTask_store [OF load store])
  then show ?thesis
    using ctx active store by (simp add: claimHubTask_steps bind_act_def appendHubTaskEvent_def modify_act_def ret_act_def)
qed

lemma claim_roundtrip:
  assumes "list_all trimmed [run, batch, t, branch, claimed, head]"
    and c_def: "c = createHubTaskClaimMetadata run batch t branch claimed (Some head) (Some existed)"
  shows "readHubTaskClaim [(''claim'', JObj (hc_raw c))] = Some c" and "complete_claim (Some c)"
proof -
  let ?raw = "hc_raw c"
  have get: "jget ?raw ''runId'' = Some (JStr run)" "jget ?raw ''batchId'' = Some (JStr batch)"
    "jget ?raw ''taskId'' = Some (JStr t)" "jget ?raw ''branch'' = Some (JStr branch)"
    "jget ?raw ''claimedAt'' = Some (JStr claimed)" "jget ?raw ''baseHead'' = Some (JStr head)"
    "jget ?raw ''branchExistedBeforeClaim'' = Some (JBool existed)"
    by (simp_all add: c_def createHubTaskClaimMetadata_def jstr_opt_def jget_Cons)
  then have "?raw \<noteq> []" by auto
  then show "readHubTaskClaim [(''claim'', JObj ?raw)] = Some c"
    using get assms(1)
    by (simp add: readHubTaskClaim_def readClaimRecord_def as_object_def jget_Cons readString_jget_Some)
      (simp add: c_def createHubTaskClaimMetadata_def)
  show "complete_claim (Some c)" by (simp add: complete_claim_def c_def createHubTaskClaimMetadata_def)
qed

text \<open>The transition of a claim.\<close>

definition claim_input :: "ClaimHubTaskInput \<Rightarrow> HubTaskProjection \<Rightarrow> HubTaskClaimMetadata \<Rightarrow> transition_input" where
  "claim_input i task c =
     status_input (ci_taskId i) HubImplementing (jset (tp_metadata task) ''claim'' (JObj (hc_raw c))) None"

lemma claim_of_task:
  assumes laws: "bd_laws (tb_bd E) view" "view (ts_store s) (ci_taskId i) = Some v" "trimmed (ci_taskId i)"
      "list_all plain_label (bv_labels v)"
    and load: "loadHubTask E (ci_taskId i) s = (Inr task, s)"
    and inactive: "\<not> isHubTaskClaimActive (tp_hubStatus task)" and head: "tb_head E = Some head"
    and c: "c = createHubTaskClaimMetadata (case ci_runId i of None \<Rightarrow> tb_newRunId E | Some r \<Rightarrow> r)
      (case ci_batchId i of None \<Rightarrow> tb_newBatchId E | Some b \<Rightarrow> b) (ci_taskId i) (ci_branch i) (ci_startedAt i)
      (Some head) (Some (tb_branchExists E (ci_branch i)))"
    and ready: "transition_ready (claim_input i task c) task"
  shows "\<exists>r t. claimHubTask E i s = (Inr r, t) \<and> cl_outcome r = Claimed \<and> cl_claim r = Some c
     \<and> tp_claim (cl_task r) = claim_written (claim_input i task c) task
     \<and> transition_outcome view (claim_input i task c) task (ts_store s) (ts_store t) (cl_task r)
     \<and> (\<exists>e. ts_events t = append_line (ts_events s) (cl_runDir r) (Some e)
          \<and> te_type e = ''task_claimed'' \<and> te_claim e = Some c)"
proof -
  let ?i = "claim_input i task c"
  obtain ctx u where ctx: "createHubRunContext E (ci_runId i) (ci_batchId i) (ci_branch i) (ci_startedAt i) s = (Inr ctx, u)"
    and store: "ts_store u = ts_store s" "ts_events u = ts_events s" and ids: "c = createHubTaskClaimMetadata (rx_runId ctx) (rx_batchId ctx)
      (ci_taskId i) (ci_branch i) (ci_startedAt i) (Some head) (Some (tb_branchExists E (ci_branch i)))"
    using run_context_store [of E "ci_runId i" "ci_batchId i"] c by metis
  have loadu: "loadHubTask E (ci_taskId i) u = (Inr task, u)" by (rule loadHubTask_store [OF load store(1)])
  obtain task' w where trans: "transitionHubTaskStatus E ?i u = (Inr task', u\<lparr>ts_store := w\<rparr>)"
    and out: "transition_outcome view ?i task (ts_store s) w task'"
    using transition_result [of E view u ?i v task] laws loadu store(1) ready
    by (auto simp: claim_input_def status_input_def)
  have claim: "tp_claim task' = claim_written ?i task"
  proof -
    obtain x where "shows_view task' (ui_taskId ?i) x" "view_after ?i task x"
      using out unfolding transition_outcome_def by blast
    then have "tp_claim task' = readHubTaskClaim (bv_metadata x)"
      "jget (bv_metadata x) = jget (transition_metadata ?i task)"
      by (simp_all add: shows_view_def view_after_def)
    then show ?thesis
      using claim_after [of ?i task "bv_metadata x"] ready
      by (simp add: transition_ready_def claim_input_def status_input_def shouldClearClaimForStatus_def
          CLAIM_PRESERVING_STATUSES_def)
  qed
  show ?thesis
    using ctx loadu inactive head trans out claim ids store(2)
    by (simp add: claimHubTask_steps bind_act_def appendHubTaskEvent_def modify_act_def ret_act_def
        inspectHubManagedBranchClaimContext_def updateHubTaskStatus_def Let_def claim_input_def)
      (rule exI, rule conjI, rule refl, simp add: plain_event_def)
qed

subsection \<open>Properties\<close>

text \<open>
  C9: a transition of a task of the store (\<open>transitionHubTaskStatus\<close>) that is ready for it returns, and
  afterwards the store shows the task in the status asked for: the projection of its labels and
  metadata is that status, exactly one managed label is left, the labels the user gave are kept, the
  metadata is the one computed, and no other task has changed.
\<close>

theorem transition_reaches_status:
  assumes "bd_laws (tb_bd E) view" and "view (ts_store s) (ui_taskId i) = Some v"
    and "trimmed (ui_taskId i)" and "list_all plain_label (bv_labels v)"
    and "loadHubTask E (ui_taskId i) s = (Inr task, s)" and "transition_ready i task"
  shows "\<exists>task' u w. transitionHubTaskStatus E i s = (Inr task', s\<lparr>ts_store := u\<rparr>)
     \<and> view u (ui_taskId i) = Some w \<and> shows_view task' (ui_taskId i) w
     \<and> tp_hubStatus task' = ui_hubStatus i \<and> bv_status w = hub_status_lifecycle (ui_hubStatus i)
     \<and> filter managed_label (bv_labels w) = [hub_status_label (ui_hubStatus i)]
     \<and> {l \<in> set (bv_labels w). \<not> managed_label l}
         = {l \<in> set (tp_labels task). \<not> managed_label l \<and> l \<notin> set (ui_labelsToRemove i)}
     \<and> jget (bv_metadata w) = jget (transition_metadata i task)
     \<and> (\<forall>t'. t' \<noteq> ui_taskId i \<longrightarrow> view u t' = view (ts_store s) t')"
proof -
  obtain task' u w where out: "transitionHubTaskStatus E i s = (Inr task', s\<lparr>ts_store := u\<rparr>)"
    "view u (ui_taskId i) = Some w" "shows_view task' (ui_taskId i) w" "view_after i task w"
    "tp_hubStatus task' = ui_hubStatus i" "\<forall>t'. t' \<noteq> ui_taskId i \<longrightarrow> view u t' = view (ts_store s) t'"
    using transition_result [OF assms] unfolding transition_outcome_def by blast
  moreover have "set (bv_labels w) =
      set (labelsToSetForHubStatus (tp_labels task) (ui_hubStatus i) (ui_labelsToRemove i))"
    "distinct (bv_labels w)"
    using out(4) by (simp_all add: view_after_def)
  note labels_after(1,2) [OF this]
  ultimately show ?thesis unfolding view_after_def by blast
qed

definition demo_view :: bd_view where
  "demo_view = \<lparr>bv_status = ''open'', bv_labels = [''ready-for-agent'', ''area:hub''],
     bv_metadata = [(''hubStatus'', JStr ''ready_for_agent''), (''note'', JNum 3)]\<rparr>"

lemma demo_labels: "list_all plain_label (bv_labels demo_view)" "list_all trimmed (bv_labels demo_view)"
  by (simp_all add: demo_view_def plain_label_def trimmed_def js_trim_def js_space_def)

lemma demo_id: "trimmed ''t-1''"
  by (simp add: trimmed_def js_trim_def js_space_def)

lemma mem_seen: "list_all trimmed (bv_labels v) \<Longrightarrow> mem_view (ts_store (mem_state v)) ''t-1'' = Some v"
  by (simp add: mem_state_def mem_view_def)

lemma mem_env_laws: "bd_laws (tb_bd mem_env) mem_view"
  by (simp add: mem_env_def mem_laws)

definition demo_input :: "HubTaskStatus \<Rightarrow> transition_input" where
  "demo_input st = status_input ''t-1'' st [] None"

lemma demo_input_fields: "ui_taskId (demo_input st) = ''t-1''" "ui_hubStatus (demo_input st) = st"
  by (simp_all add: demo_input_def status_input_def)

lemma demo_ready: "shows_view task ''t-1'' demo_view \<Longrightarrow> transition_ready (demo_input HubReadyForHuman) task"
  by (simp add: transition_ready_def reasons_ready_def claim_ready_def demo_input_def status_input_def
      shows_view_def Let_def patched_metadata_def demo_view_def jget_Cons shouldClearClaimForStatus_def
      CLAIM_PRESERVING_STATUSES_def clearTransitionOwnedMetadataPatchKeys_def jget_jdel
      readClaimRecord_def as_object_def readString_def)

lemma transition_reaches_status_witness:
  "\<exists>task' u. transitionHubTaskStatus mem_env (demo_input HubReadyForHuman) (mem_state demo_view) =
       (Inr task', (mem_state demo_view)\<lparr>ts_store := u\<rparr>) \<and> tp_hubStatus task' = HubReadyForHuman"
proof -
  obtain task where load: "loadHubTask mem_env ''t-1'' (mem_state demo_view) = (Inr task, mem_state demo_view)"
    and shown: "shows_view task ''t-1'' demo_view"
    using mem_loaded [OF demo_labels(2)] by blast
  show ?thesis
    using transition_reaches_status [of mem_env mem_view "mem_state demo_view" "demo_input HubReadyForHuman" demo_view task]
      mem_env_laws mem_seen [OF demo_labels(2)] demo_id demo_labels(1) load demo_ready [OF shown]
    unfolding demo_input_fields by blast
qed

text \<open>
  C23: whatever the task store does, a transition that returns has left the task in the status asked for
  with one label of that status, without a claim where the status allows none, with a complete claim
  where it needs one, and with failure metadata exactly when it failed; loading the task again shows this
  same task.
\<close>

theorem returned_transition_is_checked:
  assumes "transitionHubTaskStatus E i s = (Inr task, t)"
  shows "loadHubTask E (ui_taskId i) t = (Inr task, t) \<and> tp_hubStatus task = ui_hubStatus i
     \<and> (\<exists>l. filter managed_label (tp_labels task) = [l]
           \<and> normalizeKey l = normalizeKey (hub_status_label (ui_hubStatus i)))
     \<and> (ui_hubStatus i \<notin> set CLAIM_PRESERVING_STATUSES \<longrightarrow> tp_claim task = None)
     \<and> (ui_hubStatus i \<in> set CLAIM_REQUIRED_STATUSES \<longrightarrow> complete_claim (tp_claim task))
     \<and> (jget (tp_metadata task) ''failureReason'' \<noteq> None) = (ui_hubStatus i = HubFailed)"
proof -
  have load: "loadHubTask E (ui_taskId i) t = (Inr task, t)" by (rule transition_returns(1) [OF assms])
  have ok: "assertHubTaskTransition task (ui_hubStatus i) t = (Inr (), t)" by (rule transition_returns(2) [OF assms])
  show ?thesis
    using load ok [unfolded assertHubTaskTransition_ok]
    by (cases "jget (tp_metadata task) ''failureReason''") (auto simp: shouldClearClaimForStatus_def split: if_splits)
qed

lemma returned_transition_is_checked_witness:
  "\<exists>task t. transitionHubTaskStatus mem_env (demo_input HubReadyForHuman) (mem_state demo_view) =
       (Inr task, t) \<and> tp_claim task = None"
proof -
  obtain task where load: "loadHubTask mem_env ''t-1'' (mem_state demo_view) = (Inr task, mem_state demo_view)"
    and shown: "shows_view task ''t-1'' demo_view"
    using mem_loaded [OF demo_labels(2)] by blast
  obtain task' u where run: "transitionHubTaskStatus mem_env (demo_input HubReadyForHuman) (mem_state demo_view) = (Inr task', u)"
    using transition_result [of mem_env mem_view "mem_state demo_view" "demo_input HubReadyForHuman" demo_view task]
      mem_env_laws mem_seen [OF demo_labels(2)] demo_id demo_labels(1) load demo_ready [OF shown]
    unfolding demo_input_fields by blast
  show ?thesis
    using returned_transition_is_checked [OF run] run
    by (auto simp: demo_input_fields CLAIM_PRESERVING_STATUSES_def)
qed

definition demo_claim_input :: "string \<Rightarrow> ClaimHubTaskInput" where
  "demo_claim_input run = \<lparr>ci_taskId = ''t-1'', ci_branch = ''archloop/t-1'', ci_runId = Some run,
     ci_batchId = Some ''b-1'', ci_startedAt = ''T1''\<rparr>"

definition demo_claim :: "string \<Rightarrow> HubTaskClaimMetadata" where
  "demo_claim run = createHubTaskClaimMetadata run ''b-1'' ''t-1'' ''archloop/t-1'' ''T1''
     (Some (replicate 40 (CHR ''a''))) (Some False)"

lemma demo_claim_eq:
  "demo_claim run = createHubTaskClaimMetadata
     (case ci_runId (demo_claim_input run) of None \<Rightarrow> tb_newRunId mem_env | Some r \<Rightarrow> r)
     (case ci_batchId (demo_claim_input run) of None \<Rightarrow> tb_newBatchId mem_env | Some b \<Rightarrow> b)
     (ci_taskId (demo_claim_input run)) (ci_branch (demo_claim_input run)) (ci_startedAt (demo_claim_input run))
     (Some (replicate 40 (CHR ''a''))) (Some (tb_branchExists mem_env (ci_branch (demo_claim_input run))))"
  by (simp add: demo_claim_def demo_claim_input_def mem_env_def)

lemma demo_head: "tb_head mem_env = Some (replicate 40 (CHR ''a''))"
  by (simp add: mem_env_def)

lemma demo_claim_id: "ci_taskId (demo_claim_input run) = ''t-1''"
  by (simp add: demo_claim_input_def)

lemma demo_claim_reasons:
  "shows_view task ''t-1'' v \<Longrightarrow> bv_metadata v = m
     \<Longrightarrow> list_all (\<lambda>k. jget m k = None) (''failedReason'' # ''sync_state'' # SYNC_CONFLICT_METADATA_KEYS)
     \<Longrightarrow> reasons_ready (claim_input (demo_claim_input run) task c) task"
  by (simp add: reasons_ready_def claim_input_def status_input_def patched_metadata_def shows_view_def Let_def
      clearTransitionOwnedMetadataPatchKeys_def coalesce_def)

lemma demo_not_active: "view_status demo_view = HubReadyForAgent" "readHubTaskClaim (bv_metadata demo_view) = None"
proof -
  have "normalizeHubTaskStatus (Some (JStr ''ready_for_agent'')) = Some HubReadyForAgent"
    using normalize_status_name [of HubReadyForAgent] by simp
  then have ms: "resolveMetadataStatus (bv_metadata demo_view) = Some HubReadyForAgent"
    by (simp add: resolveMetadataStatus_def TASK_STATUS_KEYS_def demo_view_def jget_Cons
        del: normalizeHubTaskStatus.simps(1))
  show "view_status demo_view = HubReadyForAgent"
    unfolding view_status_def
  proof (rule shape_status [OF _ ms])
    show "readFirstString [(''status'', JStr (bv_status demo_view))] TASK_STATUS_KEYS = None"
      by (rule readFirstString_none) (simp add: TASK_STATUS_KEYS_def jget_Cons)
    show "resolveStatusFromLabels (bv_labels demo_view) \<in> {None, Some HubInbox, Some HubReadyForAgent}"
      using label_status [of HubReadyForAgent] by (simp add: demo_view_def)
    show "resolveStatusFromMetadataReasons (bv_metadata demo_view) \<in> {None, Some HubReadyForAgent}
        \<or> resolveStatusFromMetadataReasons (bv_metadata demo_view) = Some HubSyncConflict
          \<and> isCompletedHubStatus HubReadyForAgent"
      by (simp add: resolveStatusFromMetadataReasons_def METADATA_STATUS_RULES_def demo_view_def
          hasTruthyMetadata_def jget_Cons)
  qed
  show "readHubTaskClaim (bv_metadata demo_view) = None"
    by (simp add: readHubTaskClaim_def readClaimRecord_def as_object_def readString_def demo_view_def jget_Cons)
qed

lemma demo_metadata_plain:
  "list_all (\<lambda>k. jget (bv_metadata demo_view) k = None)
     (''hub_status'' # ''failedReason'' # ''sync_state'' # SYNC_CONFLICT_METADATA_KEYS)"
  by (simp add: demo_view_def SYNC_CONFLICT_METADATA_KEYS_def jget_Cons)

lemma unclaimed_task_claim:
  assumes "bd_laws (tb_bd E) view" and "view (ts_store s) (ci_taskId i) = Some v" and "trimmed (ci_taskId i)"
    and "list_all plain_label (bv_labels v)" and "loadHubTask E (ci_taskId i) s = (Inr task, s)"
    and "\<not> isHubTaskClaimActive (tp_hubStatus task)" and "tb_head E = Some head"
    and "c = createHubTaskClaimMetadata (case ci_runId i of None \<Rightarrow> tb_newRunId E | Some r \<Rightarrow> r)
      (case ci_batchId i of None \<Rightarrow> tb_newBatchId E | Some b \<Rightarrow> b) (ci_taskId i) (ci_branch i) (ci_startedAt i)
      (Some head) (Some (tb_branchExists E (ci_branch i)))"
    and "tp_claim task = None"
    and "list_all trimmed [the (hc_runId c), the (hc_batchId c), ci_branch i, ci_startedAt i, head]"
    and "normalizeHubTaskStatus (jget (tp_metadata task) ''hub_status'') \<in> {None, Some HubImplementing}"
    and "reasons_ready (claim_input i task c) task"
  shows "\<exists>r t. claimHubTask E i s = (Inr r, t) \<and> cl_outcome r = Claimed \<and> cl_claim r = Some c
     \<and> tp_hubStatus (cl_task r) = HubImplementing \<and> tp_claim (cl_task r) = Some c"
proof -
  let ?i = "claim_input i task c"
  have round: "readHubTaskClaim [(''claim'', JObj (hc_raw c))] = Some c" "complete_claim (Some c)"
    using claim_roundtrip [OF _ assms(8)] assms(3,8,10) by (simp_all add: createHubTaskClaimMetadata_def)
  have claim: "resolveTransitionClaim task (ui_hubStatus ?i) (ui_metadata ?i) (ui_replaceClaimMetadata ?i) = Some (hc_raw c)"
    using assms(9) by (simp add: resolveTransitionClaim_def claim_input_def status_input_def
        shouldClearClaimForStatus_def CLAIM_PRESERVING_STATUSES_def)
  then have "claim_ready ?i task" "claim_written ?i task = Some c"
    using round unfolding claim_ready_def claim_written_def
    by (simp_all add: Let_def claim_input_def status_input_def shouldClearClaimForStatus_def
        CLAIM_PRESERVING_STATUSES_def)
  moreover have "ui_hubStatus ?i = HubImplementing" by (simp add: claim_input_def status_input_def)
  ultimately show ?thesis
    using claim_of_task [OF assms(1-8)] assms(11,12) unfolding transition_outcome_def transition_ready_def
    by metis
qed

lemma demo_claim_hyps:
  "\<exists>task. loadHubTask mem_env ''t-1'' (mem_state demo_view) = (Inr task, mem_state demo_view)
     \<and> \<not> isHubTaskClaimActive (tp_hubStatus task) \<and> tp_claim task = None
     \<and> normalizeHubTaskStatus (jget (tp_metadata task) ''hub_status'') \<in> {None, Some HubImplementing}
     \<and> reasons_ready (claim_input (demo_claim_input ''run-1'') task (demo_claim ''run-1'')) task"
proof -
  obtain task where load: "loadHubTask mem_env ''t-1'' (mem_state demo_view) = (Inr task, mem_state demo_view)"
    and shown: "shows_view task ''t-1'' demo_view"
    using mem_loaded [OF demo_labels(2)] by blast
  have "\<not> isHubTaskClaimActive (tp_hubStatus task)" "tp_claim task = None"
    using shown by (simp_all add: shows_view_def demo_not_active isHubTaskClaimActive_def
        ACTIVE_HUB_TASK_CLAIM_STATUSES_def)
  moreover have "normalizeHubTaskStatus (jget (tp_metadata task) ''hub_status'') \<in> {None, Some HubImplementing}"
    "reasons_ready (claim_input (demo_claim_input ''run-1'') task (demo_claim ''run-1'')) task"
    using shown demo_metadata_plain demo_claim_reasons [OF shown refl] by (simp_all add: shows_view_def)
  ultimately show ?thesis using load by blast
qed

lemma demo_claim_names:
  "list_all trimmed [the (hc_runId (demo_claim ''run-1'')), the (hc_batchId (demo_claim ''run-1'')),
     ci_branch (demo_claim_input ''run-1''), ci_startedAt (demo_claim_input ''run-1''), replicate 40 (CHR ''a'')]"
  by (simp add: demo_claim_def createHubTaskClaimMetadata_def demo_claim_input_def trimmed_def js_trim_def
      js_space_def)

lemma demo_claimed:
  "\<exists>r t. claimHubTask mem_env (demo_claim_input ''run-1'') (mem_state demo_view) = (Inr r, t)
     \<and> cl_outcome r = Claimed"
proof -
  obtain task where task: "loadHubTask mem_env ''t-1'' (mem_state demo_view) = (Inr task, mem_state demo_view)"
      "\<not> isHubTaskClaimActive (tp_hubStatus task)" "tp_claim task = None"
      "normalizeHubTaskStatus (jget (tp_metadata task) ''hub_status'') \<in> {None, Some HubImplementing}"
      "reasons_ready (claim_input (demo_claim_input ''run-1'') task (demo_claim ''run-1'')) task"
    using demo_claim_hyps by blast
  then show ?thesis
    using unclaimed_task_claim [where i = "demo_claim_input ''run-1''", unfolded demo_claim_id,
      OF mem_env_laws mem_seen [OF demo_labels(2)] demo_id demo_labels(1) task(1,2) demo_head
        demo_claim_eq [unfolded demo_claim_id] task(3) demo_claim_names task(4,5)] by blast
qed

text \<open>
  Claiming a task that is ready and carries no claim records exactly the claim that is returned, and
  the task is then shown as implementing with that claim.
\<close>

theorem claim_is_recorded:
  assumes "bd_laws (tb_bd E) view" and "view (ts_store s) (ci_taskId i) = Some v" and "trimmed (ci_taskId i)"
    and "list_all plain_label (bv_labels v)" and "loadHubTask E (ci_taskId i) s = (Inr task, s)"
    and "\<not> isHubTaskClaimActive (tp_hubStatus task)" and "tb_head E = Some head"
    and "c = createHubTaskClaimMetadata (case ci_runId i of None \<Rightarrow> tb_newRunId E | Some r \<Rightarrow> r)
      (case ci_batchId i of None \<Rightarrow> tb_newBatchId E | Some b \<Rightarrow> b) (ci_taskId i) (ci_branch i) (ci_startedAt i)
      (Some head) (Some (tb_branchExists E (ci_branch i)))"
    and "tp_claim task = None"
    and "list_all trimmed [the (hc_runId c), the (hc_batchId c), ci_branch i, ci_startedAt i, head]"
    and "normalizeHubTaskStatus (jget (tp_metadata task) ''hub_status'') \<in> {None, Some HubImplementing}"
    and "reasons_ready (claim_input i task c) task"
  shows "\<exists>r t. claimHubTask E i s = (Inr r, t) \<and> cl_outcome r = Claimed \<and> cl_claim r = Some c
     \<and> tp_hubStatus (cl_task r) = HubImplementing \<and> tp_claim (cl_task r) = Some c"
  by (rule unclaimed_task_claim [OF assms])

lemma claim_is_recorded_witness:
  "\<exists>r t. claimHubTask mem_env (demo_claim_input ''run-1'') (mem_state demo_view) = (Inr r, t)
     \<and> cl_outcome r = Claimed \<and> cl_claim r = Some (demo_claim ''run-1'')
     \<and> tp_hubStatus (cl_task r) = HubImplementing \<and> tp_claim (cl_task r) = Some (demo_claim ''run-1'')"
proof -
  obtain task where task: "loadHubTask mem_env ''t-1'' (mem_state demo_view) = (Inr task, mem_state demo_view)"
      "\<not> isHubTaskClaimActive (tp_hubStatus task)" "tp_claim task = None"
      "normalizeHubTaskStatus (jget (tp_metadata task) ''hub_status'') \<in> {None, Some HubImplementing}"
      "reasons_ready (claim_input (demo_claim_input ''run-1'') task (demo_claim ''run-1'')) task"
    using demo_claim_hyps by blast
  show ?thesis
    by (rule claim_is_recorded [where i = "demo_claim_input ''run-1''", unfolded demo_claim_id,
          OF mem_env_laws mem_seen [OF demo_labels(2)] demo_id demo_labels(1) task(1,2) demo_head
            demo_claim_eq [unfolded demo_claim_id] task(3) demo_claim_names task(4,5)])
qed

text \<open>
  C34: a failed or publishing task that still carries the complete claim of another run, and whose metadata
  the transition accepts, can be claimed; the claim that is returned and logged is then the new one, but the
  store keeps the old one, because \<open>claimHubTask\<close> does not ask for the claim to be replaced.
\<close>

theorem reclaim_keeps_the_old_claim:
  assumes "bd_laws (tb_bd E) view" and "view (ts_store s) (ci_taskId i) = Some v" and "trimmed (ci_taskId i)"
    and "list_all plain_label (bv_labels v)" and "loadHubTask E (ci_taskId i) s = (Inr task, s)"
    and "tp_hubStatus task \<in> {HubFailed, HubPublishing}" and "tb_head E = Some head"
    and "c = createHubTaskClaimMetadata (case ci_runId i of None \<Rightarrow> tb_newRunId E | Some r \<Rightarrow> r)
      (case ci_batchId i of None \<Rightarrow> tb_newBatchId E | Some b \<Rightarrow> b) (ci_taskId i) (ci_branch i) (ci_startedAt i)
      (Some head) (Some (tb_branchExists E (ci_branch i)))"
    and "tp_claim task = Some old" and "complete_claim (Some old)"
    and "normalizeHubTaskStatus (jget (tp_metadata task) ''hub_status'') \<in> {None, Some HubImplementing}"
    and "reasons_ready (claim_input i task c) task"
  shows "\<exists>r t. claimHubTask E i s = (Inr r, t) \<and> cl_outcome r = Claimed \<and> cl_claim r = Some c
     \<and> tp_hubStatus (cl_task r) = HubImplementing \<and> tp_claim (cl_task r) = Some old
     \<and> (\<exists>e. ts_events t = append_line (ts_events s) (cl_runDir r) (Some e)
          \<and> te_type e = ''task_claimed'' \<and> te_claim e = Some c)"
proof -
  let ?i = "claim_input i task c"
  have shown: "shows_view task (ci_taskId i) v" using load_shows [OF assms(1-3)] assms(5) by auto
  then have "readHubTaskClaim (bv_metadata v) = Some old" using assms(9) by (simp add: shows_view_def)
  then have round: "readHubTaskClaim [(''claim'', JObj (hc_raw old))] = Some old" "hc_raw old \<noteq> []"
    using claim_of_raw claim_record_nonempty by blast+
  then have claim: "resolveTransitionClaim task (ui_hubStatus ?i) (ui_metadata ?i) (ui_replaceClaimMetadata ?i) = Some (hc_raw old)"
    using assms(9) by (simp add: resolveTransitionClaim_def claim_input_def status_input_def
        shouldClearClaimForStatus_def CLAIM_PRESERVING_STATUSES_def)
  then have "claim_ready ?i task" "claim_written ?i task = Some old"
    using round assms(10) unfolding claim_ready_def claim_written_def
    by (simp_all add: Let_def claim_input_def status_input_def shouldClearClaimForStatus_def
        CLAIM_PRESERVING_STATUSES_def)
  moreover have "ui_hubStatus ?i = HubImplementing" by (simp add: claim_input_def status_input_def)
  moreover have "\<not> isHubTaskClaimActive (tp_hubStatus task)"
    using assms(6) by (auto simp: isHubTaskClaimActive_def ACTIVE_HUB_TASK_CLAIM_STATUSES_def)
  ultimately show ?thesis
    using claim_of_task [OF assms(1-5) _ assms(7,8)] assms(11,12)
    unfolding transition_outcome_def transition_ready_def by metis
qed

text \<open>
  C35: a task whose metadata hold another status under \<open>hub_status\<close>, which the quick triage of
  \<open>hubTriage.ts\<close> writes and no transition clears, cannot be moved to the inbox or made ready: the store
  is written, the task is still projected to the old status, and the transition throws.
\<close>

theorem triaged_status_sticks:
  assumes "bd_laws (tb_bd E) view" and "view (ts_store s) (ui_taskId i) = Some v"
    and "trimmed (ui_taskId i)" and "list_all plain_label (bv_labels v)"
    and "loadHubTask E (ui_taskId i) s = (Inr task, s)" and "reasons_ready i task"
    and "normalizeHubTaskStatus (jget (tp_metadata task) ''hub_status'') = Some old"
    and "old \<noteq> ui_hubStatus i" and "ui_hubStatus i \<in> {HubInbox, HubReadyForAgent, HubReadyForHuman}"
  shows "\<exists>u w. transitionHubTaskStatus E i s =
       (Inl (WroteButProjected (ui_taskId i) (ui_hubStatus i) old), s\<lparr>ts_store := u\<rparr>)
     \<and> view u (ui_taskId i) = Some w \<and> view_after i task w"
  by (rule stale_status_projected [OF assms])

definition triaged_view :: bd_view where
  "triaged_view = demo_view\<lparr>bv_metadata := (''hub_status'', JStr ''ready_for_agent'') # bv_metadata demo_view\<rparr>"

lemma triaged_status_sticks_witness:
  "\<exists>u. transitionHubTaskStatus mem_env (demo_input HubReadyForHuman) (mem_state triaged_view) =
     (Inl (WroteButProjected ''t-1'' HubReadyForHuman HubReadyForAgent), (mem_state triaged_view)\<lparr>ts_store := u\<rparr>)"
proof -
  have labels: "bv_labels triaged_view = bv_labels demo_view" by (simp add: triaged_view_def)
  have trimmed: "list_all trimmed (bv_labels triaged_view)" unfolding labels by (rule demo_labels(2))
  obtain task where load: "loadHubTask mem_env ''t-1'' (mem_state triaged_view) = (Inr task, mem_state triaged_view)"
    and shown: "shows_view task ''t-1'' triaged_view"
    using mem_loaded [OF trimmed] by blast
  have stale: "normalizeHubTaskStatus (jget (tp_metadata task) ''hub_status'') = Some HubReadyForAgent"
    using shown normalize_status_name [of HubReadyForAgent]
    by (simp add: shows_view_def triaged_view_def demo_view_def jget_Cons)
  have reasons: "reasons_ready (demo_input HubReadyForHuman) task"
    using shown by (simp add: reasons_ready_def demo_input_def status_input_def shows_view_def triaged_view_def
        demo_view_def patched_metadata_def clearTransitionOwnedMetadataPatchKeys_def Let_def jget_Cons)
  show ?thesis
    using triaged_status_sticks [where i = "demo_input HubReadyForHuman", unfolded demo_input_fields,
        OF mem_env_laws mem_seen [OF trimmed] demo_id _ load reasons stale]
    by (simp add: labels demo_labels(1)) blast
qed

definition failed_view :: bd_view where
  "failed_view = \<lparr>bv_status = ''open'', bv_labels = [''failed''],
     bv_metadata = [(''hubStatus'', JStr ''failed''), (''failed'', JBool True),
       (''failureReason'', JStr ''agent_failed''), (''claim'', JObj (hc_raw (demo_claim ''run-0'')))]\<rparr>"

lemma failed_labels: "list_all plain_label (bv_labels failed_view)" "list_all trimmed (bv_labels failed_view)"
  by (simp_all add: failed_view_def plain_label_def trimmed_def js_trim_def js_space_def)

lemma demo_claim_roundtrip:
  "readHubTaskClaim [(''claim'', JObj (hc_raw (demo_claim ''run-0'')))] = Some (demo_claim ''run-0'')"
  "complete_claim (Some (demo_claim ''run-0''))" "hc_raw (demo_claim ''run-0'') \<noteq> []"
proof -
  have names: "list_all trimmed [''run-0'', ''b-1'', ''t-1'', ''archloop/t-1'', ''T1'', replicate 40 (CHR ''a'')]"
    by (simp add: trimmed_def js_trim_def js_space_def)
  show "readHubTaskClaim [(''claim'', JObj (hc_raw (demo_claim ''run-0'')))] = Some (demo_claim ''run-0'')"
    "complete_claim (Some (demo_claim ''run-0''))"
    using claim_roundtrip [OF names demo_claim_def] by simp_all
  show "hc_raw (demo_claim ''run-0'') \<noteq> []" by (simp add: demo_claim_def createHubTaskClaimMetadata_def)
qed

lemma failed_view_shape: "view_status failed_view = HubFailed"
    "readHubTaskClaim (bv_metadata failed_view) = Some (demo_claim ''run-0'')"
proof -
  have "normalizeHubTaskStatus (Some (JStr ''failed'')) = Some HubFailed"
    using normalize_status_name [of HubFailed] by simp
  then have ms: "resolveMetadataStatus (bv_metadata failed_view) = Some HubFailed"
    by (simp add: resolveMetadataStatus_def TASK_STATUS_KEYS_def failed_view_def jget_Cons
        del: normalizeHubTaskStatus.simps(1))
  show "view_status failed_view = HubFailed"
    unfolding view_status_def
  proof (rule shape_status [OF _ ms])
    show "readFirstString [(''status'', JStr (bv_status failed_view))] TASK_STATUS_KEYS = None"
      by (rule readFirstString_none) (simp add: TASK_STATUS_KEYS_def jget_Cons)
    show "resolveStatusFromLabels (bv_labels failed_view) \<in> {None, Some HubInbox, Some HubFailed}"
      using label_status [of HubFailed] by (simp add: failed_view_def)
    show "resolveStatusFromMetadataReasons (bv_metadata failed_view) \<in> {None, Some HubFailed}
        \<or> resolveStatusFromMetadataReasons (bv_metadata failed_view) = Some HubSyncConflict
          \<and> isCompletedHubStatus HubFailed"
      by (simp add: resolveStatusFromMetadataReasons_def METADATA_STATUS_RULES_def failed_view_def
          hasTruthyMetadata_def jget_Cons)
  qed
  show "readHubTaskClaim (bv_metadata failed_view) = Some (demo_claim ''run-0'')"
    using nested_claim [of "bv_metadata failed_view" "hc_raw (demo_claim ''run-0'')"] demo_claim_roundtrip
    by (simp add: failed_view_def jget_Cons)
qed

lemma reclaim_keeps_the_old_claim_witness:
  "\<exists>r t. claimHubTask mem_env (demo_claim_input ''run-1'') (mem_state failed_view) = (Inr r, t)
     \<and> cl_claim r = Some (demo_claim ''run-1'') \<and> tp_claim (cl_task r) = Some (demo_claim ''run-0'')"
proof -
  obtain task where load: "loadHubTask mem_env ''t-1'' (mem_state failed_view) = (Inr task, mem_state failed_view)"
    and shown: "shows_view task ''t-1'' failed_view"
    using mem_loaded [OF failed_labels(2)] by blast
  have status: "tp_hubStatus task \<in> {HubFailed, HubPublishing}" "tp_claim task = Some (demo_claim ''run-0'')"
    using shown by (simp_all add: shows_view_def failed_view_shape)
  have md: "normalizeHubTaskStatus (jget (tp_metadata task) ''hub_status'') \<in> {None, Some HubImplementing}"
    "reasons_ready (claim_input (demo_claim_input ''run-1'') task (demo_claim ''run-1'')) task"
    using shown by (simp add: shows_view_def failed_view_def jget_Cons,
      intro demo_claim_reasons [OF shown refl])
      (simp add: failed_view_def jget_Cons SYNC_CONFLICT_METADATA_KEYS_def)
  show ?thesis
    using reclaim_keeps_the_old_claim [where i = "demo_claim_input ''run-1''", unfolded demo_claim_id,
        OF mem_env_laws mem_seen [OF failed_labels(2)] demo_id failed_labels(1) load status(1) demo_head
          demo_claim_eq [unfolded demo_claim_id] status(2) demo_claim_roundtrip(2) md] by blast
qed

end
