(* ===== verification/Worktree_Lease.thy ===== *)
theory Worktree_Lease
  imports Hub_State "HOL-Library.Monad_Syntax"
begin

text \<open>
  The leases on agent worktrees (\<open>src/src/WorktreeLease.ts\<close>, \<open>src/src/worktreeLeaseStore.ts\<close>): lock files
  that name the process that works in a worktree, how they are taken, recovered, pruned and listed.
\<close>

subsection \<open>Metadata\<close>

text \<open>The name of a worktree and of its lock file; the directories they are in are fixed.\<close>

definition branchToWorktreeName :: "string \<Rightarrow> string" where
  "branchToWorktreeName branch = map (\<lambda>c. if c = CHR ''/'' then CHR ''-'' else c) branch"

definition leaseLockPath :: "string \<Rightarrow> string" where
  "leaseLockPath leaseName = leaseName @ ''.lock''"

definition lock_of :: "string \<Rightarrow> string" where
  "lock_of branch = leaseLockPath (branchToWorktreeName branch)"

definition endsWith :: "string \<Rightarrow> string \<Rightarrow> bool" where
  "endsWith s suffix \<longleftrightarrow> length suffix \<le> length s \<and> drop (length s - length suffix) s = suffix"

definition lockFileNameToLeaseName :: "string \<Rightarrow> string option" where
  "lockFileNameToLeaseName fileName =
     (if endsWith fileName ''.lock'' then Some (take (length fileName - 5) fileName) else None)"

datatype WorktreeLeaseMetadata =
    DirectLease (wm_pid: int) (wm_branch: string) (wm_acquiredAt: iso_time)
  | HubLease (wm_taskId: task_id) (wm_flowId: string) (wm_batchId: string) (wm_branch: string)
      (wm_pid: int) (wm_acquiredAt: iso_time)

datatype WorktreeLeaseOwnerInput = DirectOwner | HubOwner task_id string string

definition DIRECT_LEASE_METADATA_KEYS :: "string list" where
  "DIRECT_LEASE_METADATA_KEYS = [''owner'', ''pid'', ''branch'', ''acquiredAt'']"

definition HUB_LEASE_METADATA_KEYS :: "string list" where
  "HUB_LEASE_METADATA_KEYS =
     [''owner'', ''taskId'', ''flowId'', ''batchId'', ''branch'', ''pid'', ''acquiredAt'']"

definition FORBIDDEN_LEASE_METADATA_KEYS :: "string list" where
  "FORBIDDEN_LEASE_METADATA_KEYS =
     [''prompt'', ''promptFile'', ''commandLine'', ''command'', ''env'', ''environment'', ''agentOutput'',
      ''stdout'', ''stderr'', ''taskContent'', ''title'', ''description'']"

text \<open>What the process runs with: its id, the time, which processes live, and which file system calls fail.\<close>

datatype fs_call =
    CallExists string
  | CallStat string
  | CallRead string
  | CallRemove string
  | CallMakeDirectory
  | CallOpen string
  | CallWrite string
  | CallReadDirectory

datatype signal_result = SignalSent | SignalError "string option"

record wl_env =
  we_pid :: int
  we_now :: iso_time
  we_signal :: "int \<Rightarrow> signal_result"
  we_fails :: "fs_call \<Rightarrow> bool"

text \<open>\<open>process.kill(pid, 0)\<close> tells whether a process lives; \<open>EPERM\<close> means another user's process does.\<close>

definition isProcessAlive_pid :: "(int \<Rightarrow> signal_result) \<Rightarrow> rat \<Rightarrow> bool" where
  "isProcessAlive_pid signal pid =
     (if of_int \<lfloor>pid\<rfloor> \<noteq> pid \<or> pid \<le> 0 then False
      else (case signal \<lfloor>pid\<rfloor> of SignalSent \<Rightarrow> True | SignalError code \<Rightarrow> code = Some ''EPERM''))"

definition we_alive :: "wl_env \<Rightarrow> int \<Rightarrow> bool" where
  "we_alive E pid = isProcessAlive_pid (we_signal E) (of_int pid)"

fun buildWorktreeLeaseMetadata :: "wl_env \<Rightarrow> string \<Rightarrow> WorktreeLeaseOwnerInput \<Rightarrow> WorktreeLeaseMetadata" where
  "buildWorktreeLeaseMetadata E branch (HubOwner t flow batch) =
     HubLease t flow batch branch (we_pid E) (we_now E)"
| "buildWorktreeLeaseMetadata E branch DirectOwner = DirectLease (we_pid E) branch (we_now E)"

text \<open>
  The declared properties of a metadata object, and its serialisation. An object may carry more properties
  than its type declares: what is written are the allowed ones that are strings or numbers, less the
  forbidden ones.
\<close>

fun metadata_fields :: "WorktreeLeaseMetadata \<Rightarrow> (string \<times> json) list" where
  "metadata_fields (DirectLease pid branch acquired) =
     [(''owner'', JStr ''direct''), (''pid'', jint pid), (''branch'', JStr branch),
      (''acquiredAt'', JStr acquired)]"
| "metadata_fields (HubLease t flow batch branch pid acquired) =
     [(''owner'', JStr ''hub''), (''taskId'', JStr t), (''flowId'', JStr flow), (''batchId'', JStr batch),
      (''branch'', JStr branch), (''pid'', jint pid), (''acquiredAt'', JStr acquired)]"

fun string_or_number :: "json \<Rightarrow> bool" where
  "string_or_number (JStr s) = True"
| "string_or_number (JNum q) = True"
| "string_or_number _ = False"

fun is_hub_lease :: "WorktreeLeaseMetadata \<Rightarrow> bool" where
  "is_hub_lease (HubLease t flow batch branch pid acquired) = True"
| "is_hub_lease (DirectLease pid branch acquired) = False"

definition allowed_fields :: "(string \<times> json) list \<Rightarrow> string list \<Rightarrow> (string \<times> json) list" where
  "allowed_fields kvs keys = List.map_filter (\<lambda>key.
     case map_of kvs key of
       None \<Rightarrow> None | Some v \<Rightarrow> if string_or_number v then Some (key, v) else None) keys"

definition drop_forbidden :: "(string \<times> json) list \<Rightarrow> (string \<times> json) list" where
  "drop_forbidden kvs = filter (\<lambda>(k, v). k \<notin> set FORBIDDEN_LEASE_METADATA_KEYS) kvs"

definition serializeWorktreeLeaseMetadata :: "(string \<times> json) list \<Rightarrow> (string \<times> json) list" where
  "serializeWorktreeLeaseMetadata kvs =
    (let keys = (if map_of kvs ''owner'' = Some (JStr ''hub'') then HUB_LEASE_METADATA_KEYS
           else DIRECT_LEASE_METADATA_KEYS)
     in drop_forbidden (allowed_fields kvs keys))"

definition metadata_json :: "WorktreeLeaseMetadata \<Rightarrow> json" where
  "metadata_json m = JObj (serializeWorktreeLeaseMetadata (metadata_fields m))"

fun nonEmptyString :: "json option \<Rightarrow> string option" where
  "nonEmptyString (Some (JStr s)) = (if s \<noteq> [] then Some s else None)"
| "nonEmptyString _ = None"

definition positiveInteger :: "json option \<Rightarrow> int option" where
  "positiveInteger v = (case numberField v of None \<Rightarrow> None | Some i \<Rightarrow> if 0 < i then Some i else None)"

definition parse_direct :: "(string \<times> json) list \<Rightarrow> WorktreeLeaseMetadata option" where
  "parse_direct kvs =
     (if jget kvs ''owner'' \<noteq> Some (JStr ''direct'') then None
      else do {
        pid \<leftarrow> positiveInteger (jget kvs ''pid'');
        branch \<leftarrow> nonEmptyString (jget kvs ''branch'');
        acquired \<leftarrow> nonEmptyString (jget kvs ''acquiredAt'');
        Some (DirectLease pid branch acquired)
      })"

definition parse_hub :: "(string \<times> json) list \<Rightarrow> WorktreeLeaseMetadata option" where
  "parse_hub kvs =
     (if jget kvs ''owner'' \<noteq> Some (JStr ''hub'') then None
      else do {
        t \<leftarrow> nonEmptyString (jget kvs ''taskId'');
        flow \<leftarrow> nonEmptyString (jget kvs ''flowId'');
        batch \<leftarrow> nonEmptyString (jget kvs ''batchId'');
        branch \<leftarrow> nonEmptyString (jget kvs ''branch'');
        pid \<leftarrow> positiveInteger (jget kvs ''pid'');
        acquired \<leftarrow> nonEmptyString (jget kvs ''acquiredAt'');
        Some (HubLease t flow batch branch pid acquired)
      })"

definition isWorktreeLeaseMetadata :: "json \<Rightarrow> WorktreeLeaseMetadata option" where
  "isWorktreeLeaseMetadata v =
     coalesce (parse_direct (readObject v)) (parse_hub (readObject v))"


subsection \<open>Lock files\<close>

text \<open>
  The lock files in the order in which the directory lists them, and the worktrees whose directory
  exists.
\<close>

record wl_state =
  wl_locks :: "(string \<times> jfile) list"
  wl_trees :: "string list"

datatype malformed_detail = InvalidJson | MissingFields | BranchMismatch string | Unreadable

datatype lease_failure =
    LeaseMalformed malformed_detail
  | LeaseActive WorktreeLeaseMetadata
  | LeaseRecovery

text \<open>A \<open>WorktreeLeaseError\<close> with its branch, or a \<open>WorktreeError\<close> for a call that failed.\<close>

datatype wl_error = WorktreeLeaseError string lease_failure | WorktreeError fs_call

type_synonym 'a wl_act = "(wl_state, wl_error, 'a) act"

definition calling :: "wl_env \<Rightarrow> fs_call \<Rightarrow> unit wl_act" where
  "calling E c = (if we_fails E c then throw_act (WorktreeError c) else ret_act ())"

definition parseLeaseMetadata ::
    "string \<Rightarrow> bool \<Rightarrow> jfile \<Rightarrow> wl_error + WorktreeLeaseMetadata" where
  "parseLeaseMetadata branch requireBranchMatch raw =
     (case raw of
        Text v \<Rightarrow>
          (case isWorktreeLeaseMetadata v of
             None \<Rightarrow> Inl (WorktreeLeaseError branch (LeaseMalformed MissingFields))
           | Some m \<Rightarrow>
               if requireBranchMatch \<and> wm_branch m \<noteq> branch
               then Inl (WorktreeLeaseError branch (LeaseMalformed (BranchMismatch (wm_branch m))))
               else Inr m)
      | _ \<Rightarrow> Inl (WorktreeLeaseError branch (LeaseMalformed InvalidJson)))"

definition from_sum :: "'e + 'a \<Rightarrow> ('s, 'e, 'a) act" where
  "from_sum r = (case r of Inl e \<Rightarrow> throw_act e | Inr a \<Rightarrow> ret_act a)"

definition readLeaseMetadata :: "wl_env \<Rightarrow> string \<Rightarrow> WorktreeLeaseMetadata wl_act" where
  "readLeaseMetadata E branch =
     bind_act (gets_act (\<lambda>s. map_of (wl_locks s) (lock_of branch))) (\<lambda>raw.
     if we_fails E (CallRead (lock_of branch)) \<or> raw = None
     then throw_act (WorktreeLeaseError branch (LeaseMalformed Unreadable))
     else from_sum (parseLeaseMetadata branch True (the raw)))"

definition removeLeaseFileByPath :: "wl_env \<Rightarrow> string \<Rightarrow> unit wl_act" where
  "removeLeaseFileByPath E path =
     bind_act (gets_act (\<lambda>s. map_of (wl_locks s) path)) (\<lambda>raw.
     if raw = None then ret_act ()
     else bind_act (calling E (CallRemove path)) (\<lambda>_.
       modify_act (\<lambda>s. s\<lparr>wl_locks := filter (\<lambda>p. fst p \<noteq> path) (wl_locks s)\<rparr>)))"

definition removeLeaseFile :: "wl_env \<Rightarrow> string \<Rightarrow> unit wl_act" where
  "removeLeaseFile E branch = removeLeaseFileByPath E (lock_of branch)"

text \<open>Opening with \<open>wx\<close> creates the file or fails; a failed write leaves it empty.\<close>

definition createLeaseFileAtomic :: "wl_env \<Rightarrow> string \<Rightarrow> WorktreeLeaseMetadata \<Rightarrow> unit wl_act" where
  "createLeaseFileAtomic E branch m =
     bind_act (calling E CallMakeDirectory) (\<lambda>_.
     bind_act (gets_act (\<lambda>s. map_of (wl_locks s) (lock_of branch))) (\<lambda>raw.
     if raw \<noteq> None then throw_act (WorktreeLeaseError branch LeaseRecovery)
     else
       bind_act (calling E (CallOpen (lock_of branch))) (\<lambda>_.
       if we_fails E (CallWrite (lock_of branch))
       then bind_act (modify_act (\<lambda>s. s\<lparr>wl_locks := wl_locks s @ [(lock_of branch, BadText)]\<rparr>))
              (\<lambda>_. throw_act (WorktreeError (CallWrite (lock_of branch))))
       else modify_act (\<lambda>s. s\<lparr>wl_locks := wl_locks s @ [(lock_of branch, Text (metadata_json m))]\<rparr>))))"

definition tree_exists :: "wl_env \<Rightarrow> string \<Rightarrow> bool wl_act" where
  "tree_exists E leaseName =
     gets_act (\<lambda>s. \<not> we_fails E (CallStat leaseName) \<and> leaseName \<in> set (wl_trees s))"

definition worktreeDirectoryExists :: "wl_env \<Rightarrow> string \<Rightarrow> bool wl_act" where
  "worktreeDirectoryExists E branch = tree_exists E (branchToWorktreeName branch)"

datatype lease_recovery = LeaseRemoved | LeaseStillActive | LeaseAbsent

text \<open>
  Every call of the file system is awaited, and other processes work on the lock files and the worktrees in
  between: a function on the state for each point of an operation says what they do there.
\<close>

datatype recovery_point = BeforeExists | BeforeStat | BeforeRead | BeforeRemove

type_synonym 'p interference = "'p \<Rightarrow> wl_state \<Rightarrow> wl_state"

definition recoverStaleWorktreeLeaseIfNeeded ::
    "wl_env \<Rightarrow> recovery_point interference \<Rightarrow> string \<Rightarrow> lease_recovery wl_act" where
  "recoverStaleWorktreeLeaseIfNeeded E others branch =
     bind_act (modify_act (others BeforeExists)) (\<lambda>_.
     bind_act (calling E (CallExists (lock_of branch))) (\<lambda>_.
     bind_act (gets_act (\<lambda>s. map_of (wl_locks s) (lock_of branch))) (\<lambda>raw.
     if raw = None then ret_act LeaseAbsent
     else
       bind_act (modify_act (others BeforeStat)) (\<lambda>_.
       bind_act (worktreeDirectoryExists E branch) (\<lambda>worktreeExists.
       if \<not> worktreeExists
       then
         bind_act (modify_act (others BeforeRemove)) (\<lambda>_.
         bind_act (removeLeaseFile E branch) (\<lambda>_. ret_act LeaseRemoved))
       else
         bind_act (modify_act (others BeforeRead)) (\<lambda>_.
         bind_act (readLeaseMetadata E branch) (\<lambda>m.
         if we_alive E (wm_pid m) then ret_act LeaseStillActive
         else
           bind_act (modify_act (others BeforeRemove)) (\<lambda>_.
           bind_act (removeLeaseFile E branch) (\<lambda>_. ret_act LeaseRemoved)))))))))"

text \<open>The result says whether a stale lease was cleared.\<close>

datatype check_point = InRecovery recovery_point | BeforeReread

definition checkWorktreeLeaseBeforeHubRetry ::
    "wl_env \<Rightarrow> check_point interference \<Rightarrow> string \<Rightarrow> bool wl_act" where
  "checkWorktreeLeaseBeforeHubRetry E others branch =
     bind_act (recoverStaleWorktreeLeaseIfNeeded E (\<lambda>p. others (InRecovery p)) branch) (\<lambda>recovery.
     if recovery = LeaseStillActive
     then
       bind_act (modify_act (others BeforeReread)) (\<lambda>_.
       bind_act (readLeaseMetadata E branch)
         (\<lambda>existing. throw_act (WorktreeLeaseError branch (LeaseActive existing))))
     else ret_act (recovery = LeaseRemoved))"

definition ensureLeaseAvailableForAcquisition ::
    "wl_env \<Rightarrow> check_point interference \<Rightarrow> string \<Rightarrow> unit wl_act" where
  "ensureLeaseAvailableForAcquisition E others branch =
     bind_act (checkWorktreeLeaseBeforeHubRetry E others branch) (\<lambda>_. ret_act ())"

record AcquiredWorktreeLease =
  al_branch :: string
  al_leaseName :: string
  al_leasePath :: string
  al_metadata :: WorktreeLeaseMetadata

definition toAcquiredWorktreeLease :: "string \<Rightarrow> WorktreeLeaseMetadata \<Rightarrow> AcquiredWorktreeLease" where
  "toAcquiredWorktreeLease branch m =
     \<lparr>al_branch = branch, al_leaseName = branchToWorktreeName branch, al_leasePath = lock_of branch,
      al_metadata = m\<rparr>"

text \<open>The two checks of an acquisition and the two creations are numbered; opening and writing are one call.\<close>

datatype acquire_point = InCheck nat check_point | BeforeCreate nat

definition acquireWorktreeLease ::
    "wl_env \<Rightarrow> acquire_point interference \<Rightarrow> string \<Rightarrow> WorktreeLeaseOwnerInput
     \<Rightarrow> AcquiredWorktreeLease wl_act" where
  "acquireWorktreeLease E others branch owner =
    (let m = buildWorktreeLeaseMetadata E branch owner;
         tryAcquire = createLeaseFileAtomic E branch m
     in
     bind_act (ensureLeaseAvailableForAcquisition E (\<lambda>p. others (InCheck 0 p)) branch) (\<lambda>_.
     bind_act (modify_act (others (BeforeCreate 0))) (\<lambda>_.
     bind_act (catch_act tryAcquire (\<lambda>e.
       case e of
         WorktreeLeaseError b LeaseRecovery \<Rightarrow>
           bind_act (ensureLeaseAvailableForAcquisition E (\<lambda>p. others (InCheck 1 p)) branch) (\<lambda>_.
           bind_act (modify_act (others (BeforeCreate 1))) (\<lambda>_. tryAcquire))
       | _ \<Rightarrow> throw_act e)) (\<lambda>_.
     ret_act (toAcquiredWorktreeLease branch m)))))"

definition releaseWorktreeLease :: "wl_env \<Rightarrow> string \<Rightarrow> unit wl_act" where
  "releaseWorktreeLease E branch = removeLeaseFile E branch"

definition releaseHeldWorktreeLease :: "wl_env \<Rightarrow> string \<Rightarrow> (wl_state, 'e, unit) act" where
  "releaseHeldWorktreeLease E branch = catch_act (releaseWorktreeLease E branch) (\<lambda>e. ret_act ())"


subsection \<open>Pruning\<close>

datatype prune_point =
    BeforeListing nat
  | BeforeOrphanStat string
  | BeforeOrphanRemove string
  | BeforeStaleRead string
  | InStaleRecovery string recovery_point

definition pruneOrphan :: "wl_env \<Rightarrow> prune_point interference \<Rightarrow> string \<Rightarrow> unit wl_act" where
  "pruneOrphan E others entry =
     (case lockFileNameToLeaseName entry of
        None \<Rightarrow> ret_act ()
      | Some leaseName \<Rightarrow>
          bind_act (modify_act (others (BeforeOrphanStat entry))) (\<lambda>_.
          bind_act (tree_exists E leaseName) (\<lambda>worktreeExists.
          if worktreeExists then ret_act ()
          else bind_act (modify_act (others (BeforeOrphanRemove entry))) (\<lambda>_. removeLeaseFileByPath E entry))))"

definition readLocksDirectory :: "wl_env \<Rightarrow> string list wl_act" where
  "readLocksDirectory E =
     bind_act (calling E CallReadDirectory) (\<lambda>_. gets_act (\<lambda>s. map fst (wl_locks s)))"

definition pruneOrphanWorktreeLeases :: "wl_env \<Rightarrow> prune_point interference \<Rightarrow> unit wl_act" where
  "pruneOrphanWorktreeLeases E others =
     bind_act (modify_act (others (BeforeListing 0))) (\<lambda>_.
     bind_act (readLocksDirectory E) (\<lambda>entries.
     bind_act (each_act (pruneOrphan E others) entries) (\<lambda>_. ret_act ())))"

definition pruneStale :: "wl_env \<Rightarrow> prune_point interference \<Rightarrow> string \<Rightarrow> unit wl_act" where
  "pruneStale E others entry =
     (case lockFileNameToLeaseName entry of
        None \<Rightarrow> ret_act ()
      | Some leaseName \<Rightarrow>
          bind_act (modify_act (others (BeforeStaleRead entry))) (\<lambda>_.
          bind_act (gets_act (\<lambda>s. map_of (wl_locks s) entry)) (\<lambda>raw.
          if we_fails E (CallRead entry) \<or> raw = None then ret_act ()
          else (case parseLeaseMetadata leaseName False (the raw) of
            Inl _ \<Rightarrow> ret_act ()
          | Inr m \<Rightarrow>
              bind_act (catch_act
                (bind_act (recoverStaleWorktreeLeaseIfNeeded E (\<lambda>p. others (InStaleRecovery entry p)) (wm_branch m))
                  (\<lambda>_. ret_act ()))
                (\<lambda>e. case e of
                   WorktreeLeaseError b (LeaseMalformed d) \<Rightarrow> ret_act ()
                 | _ \<Rightarrow> throw_act e)) (\<lambda>_. ret_act ())))))"

definition pruneStaleWorktreeLeases :: "wl_env \<Rightarrow> prune_point interference \<Rightarrow> unit wl_act" where
  "pruneStaleWorktreeLeases E others =
     bind_act (pruneOrphanWorktreeLeases E others) (\<lambda>_.
     bind_act (modify_act (others (BeforeListing 1))) (\<lambda>_.
     bind_act (readLocksDirectory E) (\<lambda>entries.
     bind_act (each_act (pruneStale E others) entries) (\<lambda>_. ret_act ()))))"


subsection \<open>Held leases\<close>

text \<open>
  The variables of \<open>createHeldWorktreeLease\<close>: the branch that is held, if one is. \<open>acquire\<close> and
  \<open>release\<close> return them updated.
\<close>

datatype held_error = MessageOf wl_error

definition mapWorktreeLeaseError :: "wl_error \<Rightarrow> held_error" where
  "mapWorktreeLeaseError e = MessageOf e"

definition held_acquire ::
    "wl_env \<Rightarrow> acquire_point interference \<Rightarrow> string \<Rightarrow> (wl_state, held_error, string option) act" where
  "held_acquire E others branch =
     bind_act (catch_act (bind_act (acquireWorktreeLease E others branch DirectOwner) (\<lambda>_. ret_act ()))
       (\<lambda>e. throw_act (mapWorktreeLeaseError e))) (\<lambda>_. ret_act (Some branch))"

definition held_release :: "wl_env \<Rightarrow> string option \<Rightarrow> (wl_state, held_error, string option) act" where
  "held_release E held =
     (case held of
        None \<Rightarrow> ret_act None
      | Some branch \<Rightarrow> bind_act (releaseHeldWorktreeLease E branch) (\<lambda>_. ret_act None))"


subsection \<open>Listing\<close>

datatype WorktreeLeaseOwnerKind = DirectKind | HubKind

record WorktreeLeaseOwner =
  wo_kind :: WorktreeLeaseOwnerKind
  wo_taskId :: "string option"
  wo_flowId :: "string option"
  wo_batchId :: "string option"
  wo_runId :: "string option"

datatype WorktreeLeaseState = ActiveState | StaleState

record WorktreeLeaseRecord =
  wr_lockFileName :: string
  wr_worktreeName :: string
  wr_branch :: string
  wr_pid :: rat
  wr_acquiredAt :: string
  wr_owner :: "WorktreeLeaseOwner option"
  wr_state :: WorktreeLeaseState
  wr_malformed :: bool

fun trimmedString :: "json option \<Rightarrow> string option" where
  "trimmedString (Some (JStr s)) = (if nonblank s then Some (js_trim s) else None)"
| "trimmedString _ = None"

fun readNumber :: "json option \<Rightarrow> rat option" where
  "readNumber (Some (JNum q)) = Some q"
| "readNumber _ = None"

text \<open>\<open>record.a ?? record.b\<close>, where \<open>null\<close> counts as missing.\<close>

definition either_field :: "(string \<times> json) list \<Rightarrow> string \<Rightarrow> string \<Rightarrow> json option" where
  "either_field kvs a b =
     (case jget kvs a of None \<Rightarrow> jget kvs b | Some v \<Rightarrow> if v = JNull then jget kvs b else Some v)"

definition parseWorktreeLeaseOwner :: "json option \<Rightarrow> WorktreeLeaseOwner option" where
  "parseWorktreeLeaseOwner v =
    (let kvs = (case v of None \<Rightarrow> [] | Some w \<Rightarrow> readObject w);
         kind = trimmedString (jget kvs ''kind'')
     in if kind \<noteq> Some ''direct'' \<and> kind \<noteq> Some ''hub'' then None
        else Some \<lparr>wo_kind = (if kind = Some ''hub'' then HubKind else DirectKind),
          wo_taskId = trimmedString (either_field kvs ''taskId'' ''task_id''),
          wo_flowId = trimmedString (either_field kvs ''flowId'' ''flow_id''),
          wo_batchId = trimmedString (either_field kvs ''batchId'' ''batch_id''),
          wo_runId = trimmedString (either_field kvs ''runId'' ''run_id'')\<rparr>)"

definition malformed_record :: "string \<Rightarrow> string \<Rightarrow> WorktreeLeaseRecord" where
  "malformed_record lockFileName worktreeName =
     \<lparr>wr_lockFileName = lockFileName, wr_worktreeName = worktreeName, wr_branch = worktreeName,
      wr_pid = -1, wr_acquiredAt = ''unknown'', wr_owner = None, wr_state = StaleState,
      wr_malformed = True\<rparr>"

definition parseWorktreeLeaseFile :: "(rat \<Rightarrow> bool) \<Rightarrow> string \<Rightarrow> jfile \<Rightarrow> WorktreeLeaseRecord" where
  "parseWorktreeLeaseFile alive lockFileName raw =
    (let name = (case lockFileNameToLeaseName lockFileName of None \<Rightarrow> lockFileName | Some n \<Rightarrow> n) in
     case raw of
       Text v \<Rightarrow>
         (let kvs = readObject v;
              branch = trimmedString (jget kvs ''branch'');
              pid = readNumber (jget kvs ''pid'');
              acquiredAt = trimmedString (either_field kvs ''acquiredAt'' ''acquired_at'');
              owner = parseWorktreeLeaseOwner (jget kvs ''owner'')
          in if branch = None \<or> pid = None \<or> acquiredAt = None
             then \<lparr>wr_lockFileName = lockFileName, wr_worktreeName = name,
               wr_branch = (case branch of None \<Rightarrow> name | Some b \<Rightarrow> b),
               wr_pid = (case pid of None \<Rightarrow> -1 | Some p \<Rightarrow> p),
               wr_acquiredAt = (case acquiredAt of None \<Rightarrow> ''unknown'' | Some a \<Rightarrow> a),
               wr_owner = owner, wr_state = StaleState, wr_malformed = True\<rparr>
             else \<lparr>wr_lockFileName = lockFileName, wr_worktreeName = name, wr_branch = the branch,
               wr_pid = the pid, wr_acquiredAt = the acquiredAt, wr_owner = owner,
               wr_state = (if alive (the pid) then ActiveState else StaleState),
               wr_malformed = False\<rparr>)
     | _ \<Rightarrow> malformed_record lockFileName name)"

definition listWorktreeLeases ::
    "(string \<Rightarrow> rat) \<Rightarrow> (rat \<Rightarrow> bool) \<Rightarrow> wl_state \<Rightarrow> WorktreeLeaseRecord list" where
  "listWorktreeLeases collate alive s =
     sort_key (\<lambda>r. collate (wr_branch r))
       (map (\<lambda>(name, raw). parseWorktreeLeaseFile alive name raw)
         (filter (\<lambda>p. endsWith (fst p) ''.lock'') (wl_locks s)))"

subsection \<open>What is written in a lock file\<close>

fun metadata_ok :: "WorktreeLeaseMetadata \<Rightarrow> bool" where
  "metadata_ok (DirectLease pid branch acquired) \<longleftrightarrow> 0 < pid \<and> branch \<noteq> [] \<and> acquired \<noteq> []"
| "metadata_ok (HubLease t flow batch branch pid acquired) \<longleftrightarrow>
     0 < pid \<and> branch \<noteq> [] \<and> acquired \<noteq> [] \<and> t \<noteq> [] \<and> flow \<noteq> [] \<and> batch \<noteq> []"

text \<open>An object with the properties of \<open>m\<close> and any others.\<close>

definition carries :: "(string \<times> json) list \<Rightarrow> WorktreeLeaseMetadata \<Rightarrow> bool" where
  "carries kvs m \<longleftrightarrow> list_all (\<lambda>(k, v). map_of kvs k = Some v) (metadata_fields m)"

lemma serialize_carried: "carries kvs m \<Longrightarrow> serializeWorktreeLeaseMetadata kvs = metadata_fields m"
  by (cases m)
    (simp_all add: carries_def serializeWorktreeLeaseMetadata_def allowed_fields_def drop_forbidden_def
      DIRECT_LEASE_METADATA_KEYS_def HUB_LEASE_METADATA_KEYS_def FORBIDDEN_LEASE_METADATA_KEYS_def
      List.map_filter_simps jint_def)

lemma carries_itself: "carries (metadata_fields m) m"
  by (cases m) (simp_all add: carries_def)

lemma serialize_eq: "serializeWorktreeLeaseMetadata (metadata_fields m) = metadata_fields m"
  by (rule serialize_carried [OF carries_itself])

lemma readObject_metadata: "readObject (metadata_json m) = metadata_fields m"
  by (simp add: metadata_json_def serialize_eq)

lemma positiveInteger_jint: "positiveInteger (Some (jint i)) = (if 0 < i then Some i else None)"
  by (simp add: positiveInteger_def numberField_jint)

lemma isWorktreeLeaseMetadata_written:
  "metadata_ok m \<Longrightarrow> isWorktreeLeaseMetadata (metadata_json m) = Some m"
  by (cases m) (simp_all add: isWorktreeLeaseMetadata_def readObject_metadata parse_direct_def
      parse_hub_def jget_def positiveInteger_jint)

text \<open>Reading back what was written, with the interface of the prelude.\<close>

interpretation metadata_codec: json_codec metadata_json isWorktreeLeaseMetadata metadata_ok
  by unfold_locales (rule isWorktreeLeaseMetadata_written)

lemma parse_written:
  "metadata_ok m \<Longrightarrow> branch = wm_branch m \<or> \<not> strict \<Longrightarrow>
     parseLeaseMetadata branch strict (Text (metadata_json m)) = Inr m"
  by (auto simp: parseLeaseMetadata_def metadata_codec.dec_enc)

lemma parse_branch: "parseLeaseMetadata branch True raw = Inr m \<Longrightarrow> wm_branch m = branch"
  by (auto simp: parseLeaseMetadata_def split: jfile.splits option.splits if_splits)


text \<open>
  The listing of leases never shows who holds one. The lock files name the owner in a property
  that is a string, and the listing reads that property as an object with a \<open>kind\<close>; for every
  metadata that is ever written the owner of the record is \<open>undefined\<close>, and with it the task, the
  flow and the batch.
\<close>

theorem listing_never_shows_the_owner:
  "wr_owner (parseWorktreeLeaseFile alive name (Text (metadata_json m))) = None"
proof -
  have "\<exists>s. jget (metadata_fields m) ''owner'' = Some (JStr s)"
    by (cases m) (simp_all add: jget_def)
  then have "parseWorktreeLeaseOwner (jget (metadata_fields m) ''owner'') = None"
    by (auto simp: parseWorktreeLeaseOwner_def jget_def)
  then show ?thesis
    by (simp add: parseWorktreeLeaseFile_def readObject_metadata Let_def)
qed

subsection \<open>What acquiring a lease does\<close>

definition calls_work :: "wl_env \<Rightarrow> bool" where
  "calls_work E \<longleftrightarrow> (\<forall>c. \<not> we_fails E c)"

definition without_lock :: "string \<Rightarrow> wl_state \<Rightarrow> wl_state" where
  "without_lock path s = s\<lparr>wl_locks := filter (\<lambda>p. fst p \<noteq> path) (wl_locks s)\<rparr>"

definition with_lock :: "string \<Rightarrow> WorktreeLeaseMetadata \<Rightarrow> wl_state \<Rightarrow> wl_state" where
  "with_lock branch m s =
     s\<lparr>wl_locks := filter (\<lambda>p. fst p \<noteq> lock_of branch) (wl_locks s) @ [(lock_of branch, Text (metadata_json m))]\<rparr>"

text \<open>The lease that keeps a branch from being taken, or the reason why the lock cannot be read.\<close>

definition obstacle :: "wl_env \<Rightarrow> string \<Rightarrow> wl_state \<Rightarrow> wl_error option" where
  "obstacle E branch s =
     (case map_of (wl_locks s) (lock_of branch) of
        None \<Rightarrow> None
      | Some raw \<Rightarrow>
          if branchToWorktreeName branch \<notin> set (wl_trees s) then None
          else (case parseLeaseMetadata branch True raw of
            Inl e \<Rightarrow> Some e
          | Inr m \<Rightarrow> if we_alive E (wm_pid m) then Some (WorktreeLeaseError branch (LeaseActive m)) else None))"

lemma filter_absent: "map_of xs k = None \<Longrightarrow> filter (\<lambda>p. fst p \<noteq> k) xs = xs"
  by (rule filter_True) (auto simp: map_of_eq_None_iff)

lemma map_of_without: "map_of (filter (\<lambda>p. fst p \<noteq> k) xs) j = (if j = k then None else map_of xs j)"
  by (induction xs) auto

lemma without_lock_simps [simp]:
  "wl_trees (without_lock path s) = wl_trees s"
  "map_of (wl_locks (without_lock path s)) k = (if k = path then None else map_of (wl_locks s) k)"
  by (simp_all add: without_lock_def map_of_without)

lemma without_lock_absent: "map_of (wl_locks s) path = None \<Longrightarrow> without_lock path s = s"
  by (simp add: without_lock_def filter_absent)

lemma with_lock_simps [simp]:
  "wl_trees (with_lock branch m s) = wl_trees s"
  "map_of (wl_locks (with_lock branch m s)) k =
     (if k = lock_of branch then Some (Text (metadata_json m)) else map_of (wl_locks s) k)"
  by (auto simp: with_lock_def map_of_without map_add_def split: option.split)

lemma remove_result:
  "calls_work E \<Longrightarrow> removeLeaseFileByPath E path s = (Inr (), without_lock path s)"
  by (auto simp: removeLeaseFileByPath_def calls_work_def act_defs calling_def without_lock_def filter_absent)

lemma create_result:
  "calls_work E \<Longrightarrow> createLeaseFileAtomic E branch m s =
     (if map_of (wl_locks s) (lock_of branch) = None then (Inr (), with_lock branch m s)
      else (Inl (WorktreeLeaseError branch LeaseRecovery), s))"
  by (auto simp: createLeaseFileAtomic_def calls_work_def act_defs calling_def with_lock_def filter_absent)

lemma tree_exists_result:
  "calls_work E \<Longrightarrow> tree_exists E name s = (Inr (name \<in> set (wl_trees s)), s)"
  by (simp add: tree_exists_def calls_work_def act_defs)

lemma read_result:
  "calls_work E \<Longrightarrow> map_of (wl_locks s) (lock_of branch) = Some raw \<Longrightarrow>
     readLeaseMetadata E branch s = (parseLeaseMetadata branch True raw, s)"
  by (simp add: readLeaseMetadata_def calls_work_def act_defs from_sum_def split: sum.split)

lemma recover_result:
  assumes "calls_work E"
  shows "recoverStaleWorktreeLeaseIfNeeded E (\<lambda>p u. u) branch s =
    (case map_of (wl_locks s) (lock_of branch) of
       None \<Rightarrow> (Inr LeaseAbsent, s)
     | Some raw \<Rightarrow>
         (case obstacle E branch s of
            None \<Rightarrow> (Inr LeaseRemoved, without_lock (lock_of branch) s)
          | Some (WorktreeLeaseError b (LeaseActive m)) \<Rightarrow> (Inr LeaseStillActive, s)
          | Some e \<Rightarrow> (Inl e, s)))"
proof (cases "map_of (wl_locks s) (lock_of branch)")
  case None
  with assms show ?thesis
    by (simp add: recoverStaleWorktreeLeaseIfNeeded_def act_defs calling_def calls_work_def)
next
  case (Some raw)
  have "parseLeaseMetadata branch True raw \<noteq> Inl (WorktreeLeaseError b (LeaseActive m))" for b m
    by (auto simp: parseLeaseMetadata_def split: jfile.splits option.splits if_splits)
  then show ?thesis using Some remove_result [OF assms] tree_exists_result [OF assms]
      read_result [OF assms Some] assms
    by (auto simp: recoverStaleWorktreeLeaseIfNeeded_def act_defs calling_def obstacle_def
        worktreeDirectoryExists_def removeLeaseFile_def calls_work_def
        split: sum.splits option.splits wl_error.splits lease_failure.splits)
qed

lemma obstacle_active:
  "obstacle E branch s = Some (WorktreeLeaseError b (LeaseActive m)) \<Longrightarrow>
     b = branch \<and> (\<exists>raw. map_of (wl_locks s) (lock_of branch) = Some raw \<and>
       parseLeaseMetadata branch True raw = Inr m)"
  by (auto simp: obstacle_def parseLeaseMetadata_def
      split: option.splits sum.splits jfile.splits if_splits)

lemma ensure_result:
  assumes "calls_work E"
  shows "ensureLeaseAvailableForAcquisition E (\<lambda>p u. u) branch s =
    (case obstacle E branch s of
       None \<Rightarrow> (Inr (), without_lock (lock_of branch) s)
     | Some e \<Rightarrow> (Inl e, s))"
proof (cases "map_of (wl_locks s) (lock_of branch)")
  case None
  then show ?thesis
    by (simp add: ensureLeaseAvailableForAcquisition_def checkWorktreeLeaseBeforeHubRetry_def
        recover_result [OF assms] act_defs obstacle_def without_lock_absent)
next
  case (Some raw)
  show ?thesis
  proof (cases "\<exists>b m. obstacle E branch s = Some (WorktreeLeaseError b (LeaseActive m))")
    case True
    then obtain b m where ob: "obstacle E branch s = Some (WorktreeLeaseError b (LeaseActive m))"
      by blast
    from obstacle_active [OF ob] Some have "b = branch" "parseLeaseMetadata branch True raw = Inr m"
      by auto
    then show ?thesis using ob Some
      by (simp add: ensureLeaseAvailableForAcquisition_def checkWorktreeLeaseBeforeHubRetry_def
          recover_result [OF assms] read_result [OF assms Some] act_defs)
  next
    case False
    then show ?thesis using Some
      by (auto simp: ensureLeaseAvailableForAcquisition_def checkWorktreeLeaseBeforeHubRetry_def
          recover_result [OF assms] act_defs split: option.splits wl_error.splits lease_failure.splits)
  qed
qed

lemma acquire_result:
  assumes "calls_work E"
  shows "acquireWorktreeLease E (\<lambda>k u. u) branch owner s =
    (case obstacle E branch s of
       Some e \<Rightarrow> (Inl e, s)
     | None \<Rightarrow>
        (Inr (toAcquiredWorktreeLease branch (buildWorktreeLeaseMetadata E branch owner)),
         with_lock branch (buildWorktreeLeaseMetadata E branch owner) s))"
proof -
  have "with_lock branch m (without_lock (lock_of branch) s) = with_lock branch m s" for m
    by (simp add: with_lock_def without_lock_def)
  then show ?thesis
    by (simp add: acquireWorktreeLease_def Let_def act_defs ensure_result [OF assms]
        create_result [OF assms] split: option.split)
qed

text \<open>
  C30: The whole effect of acquiring the lease of a branch while no other process interferes and no
  file system call fails. A lock that is readable, names the branch, belongs to a live process and
  has a worktree is reported as active; a lock that cannot be read or names another branch is
  reported as malformed; both leave every lock as it was. In every other case the lock now holds
  this process's metadata, a stale lock of the same name is gone, the locks of the other worktrees
  and all worktrees are untouched, and the result names the lock.
\<close>

theorem acquire_outcome:
  assumes "calls_work E"
  shows "acquireWorktreeLease E (\<lambda>k u. u) branch owner s =
    (case obstacle E branch s of
       Some e \<Rightarrow> (Inl e, s)
     | None \<Rightarrow>
        (Inr (toAcquiredWorktreeLease branch (buildWorktreeLeaseMetadata E branch owner)),
         with_lock branch (buildWorktreeLeaseMetadata E branch owner) s))"
  using acquire_result [OF assms] .

text \<open>
  A lease is lost as long as its worktree has not been created. Both callers take the lease
  first and make the worktree afterwards; a process that asks in between removes the lock, whoever
  owns it and whether that process lives, and takes the lease, so that two processes hold the lease
  of the same branch and the lock names only the second.
\<close>

theorem lease_lost_before_checkout:
  assumes "calls_work E" and "calls_work E'"
    and free: "obstacle E branch s = None"
    and no_tree: "branchToWorktreeName branch \<notin> set (wl_trees s)"
    and first: "acquireWorktreeLease E (\<lambda>k u. u) branch owner s = (r, t)"
    and second: "acquireWorktreeLease E' (\<lambda>k u. u) branch owner' t = (r', t')"
  shows "r = Inr (toAcquiredWorktreeLease branch (buildWorktreeLeaseMetadata E branch owner))
    \<and> r' = Inr (toAcquiredWorktreeLease branch (buildWorktreeLeaseMetadata E' branch owner'))
    \<and> map_of (wl_locks t) (lock_of branch) =
         Some (Text (metadata_json (buildWorktreeLeaseMetadata E branch owner)))
    \<and> map_of (wl_locks t') (lock_of branch) =
         Some (Text (metadata_json (buildWorktreeLeaseMetadata E' branch owner')))"
proof -
  let ?m = "buildWorktreeLeaseMetadata E branch owner"
  from first have rt: "r = Inr (toAcquiredWorktreeLease branch ?m)" "t = with_lock branch ?m s"
    by (simp_all add: acquire_result [OF assms(1)] free)
  from no_tree have "obstacle E' branch t = None" by (simp add: obstacle_def rt)
  with second have "r' = Inr (toAcquiredWorktreeLease branch (buildWorktreeLeaseMetadata E' branch owner'))"
    and "t' = with_lock branch (buildWorktreeLeaseMetadata E' branch owner') t"
    by (simp_all add: acquire_result [OF assms(2)])
  with rt show ?thesis by simp
qed


subsection \<open>Two recoveries\<close>

lemma lock_of_inject: "lock_of a = lock_of b \<longleftrightarrow> branchToWorktreeName a = branchToWorktreeName b"
  by (simp add: lock_of_def leaseLockPath_def)

lemma lease_name_of_lock: "lockFileNameToLeaseName (lock_of b) = Some (branchToWorktreeName b)"
  by (simp add: lock_of_def leaseLockPath_def lockFileNameToLeaseName_def endsWith_def)

lemma lock_of_lease_name: "lockFileNameToLeaseName path = Some n \<Longrightarrow> path = n @ ''.lock''"
proof -
  assume "lockFileNameToLeaseName path = Some n"
  then have "endsWith path ''.lock''" and n: "n = take (length path - 5) path"
    by (auto simp: lockFileNameToLeaseName_def split: if_splits)
  then have "drop (length path - 5) path = ''.lock''" by (simp add: endsWith_def numeral_eq_Suc)
  then show ?thesis unfolding n by (metis append_take_drop_id)
qed

text \<open>Another process acquires the lease, start to end, right before the stale lock is removed.\<close>

definition acquired_before_removal ::
    "wl_env \<Rightarrow> string \<Rightarrow> WorktreeLeaseOwnerInput \<Rightarrow> acquire_point interference" where
  "acquired_before_removal F branch owner p u =
     (if p = InCheck 0 (InRecovery BeforeRemove)
      then snd (acquireWorktreeLease F (\<lambda>k v. v) branch owner u) else u)"

text \<open>
  C32: Two processes that recover the same stale lock can both be told that they hold the lease. The first has
  read the lock of a process that is gone and is about to remove it; the second recovers it and takes the
  lease; the first then removes the lock of the second, which lives, and takes the lease as well.
\<close>

theorem two_recoveries_take_one_lease:
  assumes "calls_work E" and "calls_work F"
    and "map_of (wl_locks s) (lock_of branch) = Some raw" and "branchToWorktreeName branch \<in> set (wl_trees s)"
    and "parseLeaseMetadata branch True raw = Inr gone"
    and "\<not> we_alive E (wm_pid gone)" and "\<not> we_alive F (wm_pid gone)"
  shows "\<exists>t u. acquireWorktreeLease F (\<lambda>k v. v) branch owner' s =
        (Inr (toAcquiredWorktreeLease branch (buildWorktreeLeaseMetadata F branch owner')), t)
     \<and> map_of (wl_locks t) (lock_of branch) =
        Some (Text (metadata_json (buildWorktreeLeaseMetadata F branch owner')))
     \<and> acquireWorktreeLease E (acquired_before_removal F branch owner') branch owner s =
        (Inr (toAcquiredWorktreeLease branch (buildWorktreeLeaseMetadata E branch owner)), u)
     \<and> map_of (wl_locks u) (lock_of branch) =
        Some (Text (metadata_json (buildWorktreeLeaseMetadata E branch owner)))"
proof -
  let ?m = "buildWorktreeLeaseMetadata E branch owner" and ?m' = "buildWorktreeLeaseMetadata F branch owner'"
  have free: "obstacle F branch s = None"
    using assms(3-7) by (simp add: obstacle_def)
  then have second: "acquireWorktreeLease F (\<lambda>k v. v) branch owner' s =
      (Inr (toAcquiredWorktreeLease branch ?m'), with_lock branch ?m' s)"
    by (simp add: acquire_result [OF assms(2)])
  have "recoverStaleWorktreeLeaseIfNeeded E (\<lambda>p. acquired_before_removal F branch owner' (InCheck 0 (InRecovery p)))
      branch s = (Inr LeaseRemoved, without_lock (lock_of branch) (with_lock branch ?m' s))"
    using assms(1,3-6) remove_result [OF assms(1)] tree_exists_result [OF assms(1)]
      read_result [OF assms(1,3)]
    by (simp add: recoverStaleWorktreeLeaseIfNeeded_def act_defs calling_def calls_work_def
        worktreeDirectoryExists_def removeLeaseFile_def acquired_before_removal_def second)
  then have "acquireWorktreeLease E (acquired_before_removal F branch owner') branch owner s =
      (Inr (toAcquiredWorktreeLease branch ?m),
       with_lock branch ?m (without_lock (lock_of branch) (with_lock branch ?m' s)))"
    by (simp add: acquireWorktreeLease_def Let_def ensureLeaseAvailableForAcquisition_def
        checkWorktreeLeaseBeforeHubRetry_def act_defs create_result [OF assms(1)]
        acquired_before_removal_def [of _ _ _ "BeforeCreate 0"])
  with second show ?thesis by simp
qed


subsection \<open>What other processes can do to a lease\<close>

text \<open>The lease is on file and its worktree is there.\<close>

definition holds_lease :: "WorktreeLeaseMetadata \<Rightarrow> wl_state \<Rightarrow> bool" where
  "holds_lease m s \<longleftrightarrow>
     map_of (wl_locks s) (lock_of (wm_branch m)) = Some (Text (metadata_json m))
     \<and> branchToWorktreeName (wm_branch m) \<in> set (wl_trees s)"

text \<open>\<open>stat\<close> does not fail on the worktree of the lease.\<close>

definition sees_tree :: "wl_env \<Rightarrow> WorktreeLeaseMetadata \<Rightarrow> bool" where
  "sees_tree E m \<longleftrightarrow> \<not> we_fails E (CallStat (branchToWorktreeName (wm_branch m)))"

text \<open>
  The files and what the processes other than the owner of \<open>m\<close> have in hand: the locks that one of them has
  found stale, and may remove at any time from now on, and the locks that one of them has created, and
  may release.
\<close>

record lease_world =
  lw_files :: wl_state
  lw_doomed :: "string list"
  lw_owned :: "string list"

text \<open>
  One call of one of these processes. It finds the lock of \<open>m\<close> stale only when it sees no worktree or reads a
  process that is gone; about other locks nothing is assumed. A worktree may come or go at any time, other
  than that of \<open>m\<close>.
\<close>

inductive lease_call ::
    "(int \<Rightarrow> signal_result) \<Rightarrow> WorktreeLeaseMetadata \<Rightarrow> lease_world \<Rightarrow> lease_world \<Rightarrow> bool"
  for signal m where
  finds_other: "path \<noteq> lock_of (wm_branch m) \<Longrightarrow>
    lease_call signal m \<lparr>lw_files = s, lw_doomed = D, lw_owned = W\<rparr>
      \<lparr>lw_files = s, lw_doomed = path # D, lw_owned = W\<rparr>"
| finds_no_tree: "branchToWorktreeName (wm_branch m) \<notin> set (wl_trees s) \<Longrightarrow>
    lease_call signal m \<lparr>lw_files = s, lw_doomed = D, lw_owned = W\<rparr>
      \<lparr>lw_files = s, lw_doomed = lock_of (wm_branch m) # D, lw_owned = W\<rparr>"
| finds_dead: "map_of (wl_locks s) (lock_of (wm_branch m)) = Some raw \<Longrightarrow>
    parseLeaseMetadata branch strict raw = Inr m' \<Longrightarrow> \<not> isProcessAlive_pid signal (of_int (wm_pid m')) \<Longrightarrow>
    lease_call signal m \<lparr>lw_files = s, lw_doomed = D, lw_owned = W\<rparr>
      \<lparr>lw_files = s, lw_doomed = lock_of (wm_branch m) # D, lw_owned = W\<rparr>"
| removes: "path \<in> set D \<union> set W \<Longrightarrow>
    lease_call signal m \<lparr>lw_files = s, lw_doomed = D, lw_owned = W\<rparr>
      \<lparr>lw_files = without_lock path s, lw_doomed = D, lw_owned = W\<rparr>"
| creates: "map_of (wl_locks s) path = None \<Longrightarrow>
    lease_call signal m \<lparr>lw_files = s, lw_doomed = D, lw_owned = W\<rparr>
      \<lparr>lw_files = s\<lparr>wl_locks := wl_locks s @ [(path, content)]\<rparr>, lw_doomed = D, lw_owned = path # W\<rparr>"
| moves_trees: "(branchToWorktreeName (wm_branch m) \<in> set (wl_trees s) \<longrightarrow>
      branchToWorktreeName (wm_branch m) \<in> set ts) \<Longrightarrow>
    lease_call signal m \<lparr>lw_files = s, lw_doomed = D, lw_owned = W\<rparr>
      \<lparr>lw_files = s\<lparr>wl_trees := ts\<rparr>, lw_doomed = D, lw_owned = W\<rparr>"

text \<open>A change of the files that such calls make, whatever the processes have in hand.\<close>

definition made_by_calls ::
    "(int \<Rightarrow> signal_result) \<Rightarrow> WorktreeLeaseMetadata \<Rightarrow> wl_state \<Rightarrow> wl_state \<Rightarrow> bool" where
  "made_by_calls signal m s t \<longleftrightarrow>
     (\<forall>D W. \<exists>D' W'. (lease_call signal m)\<^sup>*\<^sup>* \<lparr>lw_files = s, lw_doomed = D, lw_owned = W\<rparr>
        \<lparr>lw_files = t, lw_doomed = D', lw_owned = W'\<rparr> \<and> set D \<subseteq> set D' \<and> set W \<subseteq> set W')"

lemma made_by_calls_trans:
  assumes "made_by_calls signal m s t" and "made_by_calls signal m t u"
  shows "made_by_calls signal m s u"
  unfolding made_by_calls_def
proof (intro allI)
  fix D W
  obtain D1 W1 where 1: "(lease_call signal m)\<^sup>*\<^sup>* \<lparr>lw_files = s, lw_doomed = D, lw_owned = W\<rparr>
      \<lparr>lw_files = t, lw_doomed = D1, lw_owned = W1\<rparr>" "set D \<subseteq> set D1" "set W \<subseteq> set W1"
    using assms(1) unfolding made_by_calls_def by blast
  obtain D2 W2 where 2: "(lease_call signal m)\<^sup>*\<^sup>* \<lparr>lw_files = t, lw_doomed = D1, lw_owned = W1\<rparr>
      \<lparr>lw_files = u, lw_doomed = D2, lw_owned = W2\<rparr>" "set D1 \<subseteq> set D2" "set W1 \<subseteq> set W2"
    using assms(2) unfolding made_by_calls_def by blast
  show "\<exists>D' W'. (lease_call signal m)\<^sup>*\<^sup>* \<lparr>lw_files = s, lw_doomed = D, lw_owned = W\<rparr>
      \<lparr>lw_files = u, lw_doomed = D', lw_owned = W'\<rparr> \<and> set D \<subseteq> set D' \<and> set W \<subseteq> set W'"
    using rtranclp_trans [OF 1(1) 2(1)] 1(2,3) 2(2,3) by blast
qed

interpretation calls: kept_relation "made_by_calls signal m" for signal m
proof unfold_locales
  show "made_by_calls signal m s s" for s
    unfolding made_by_calls_def by blast
qed (rule made_by_calls_trans)

lemma one_call:
  assumes "\<And>D W. \<exists>D' W'. lease_call signal m \<lparr>lw_files = s, lw_doomed = D, lw_owned = W\<rparr>
      \<lparr>lw_files = t, lw_doomed = D', lw_owned = W'\<rparr> \<and> set D \<subseteq> set D' \<and> set W \<subseteq> set W'"
  shows "made_by_calls signal m s t"
  unfolding made_by_calls_def using assms by blast

text \<open>A process that has found a lock stale removes it, after whatever the others have done meanwhile.\<close>

definition found_stale :: "(int \<Rightarrow> signal_result) \<Rightarrow> WorktreeLeaseMetadata \<Rightarrow> wl_state \<Rightarrow> string \<Rightarrow> bool" where
  "found_stale signal m s path \<longleftrightarrow>
     path \<noteq> lock_of (wm_branch m) \<or> branchToWorktreeName (wm_branch m) \<notin> set (wl_trees s)
     \<or> (\<exists>raw branch strict m'. map_of (wl_locks s) path = Some raw
          \<and> parseLeaseMetadata branch strict raw = Inr m' \<and> \<not> isProcessAlive_pid signal (of_int (wm_pid m')))"

lemma finds:
  assumes "found_stale signal m s path"
  shows "lease_call signal m \<lparr>lw_files = s, lw_doomed = D, lw_owned = W\<rparr>
    \<lparr>lw_files = s, lw_doomed = path # D, lw_owned = W\<rparr>"
proof (cases "path = lock_of (wm_branch m)")
  case True
  with assms show ?thesis
    by (auto simp: found_stale_def intro: lease_call.finds_no_tree lease_call.finds_dead)
qed (rule lease_call.finds_other)

lemma stale_removed:
  assumes "found_stale signal m s path" and "made_by_calls signal m s t"
  shows "made_by_calls signal m s (without_lock path t)"
  unfolding made_by_calls_def
proof (intro allI)
  fix D W
  let ?w = "\<lambda>s D W. \<lparr>lw_files = s, lw_doomed = D, lw_owned = W\<rparr>"
  have "lease_call signal m (?w s D W) (?w s (path # D) W)" by (rule finds [OF assms(1)])
  moreover obtain D1 W1 where others: "(lease_call signal m)\<^sup>*\<^sup>* (?w s (path # D) W) (?w t D1 W1)"
      "set (path # D) \<subseteq> set D1" "set W \<subseteq> set W1"
    using assms(2) unfolding made_by_calls_def by blast
  moreover have "lease_call signal m (?w t D1 W1) (?w (without_lock path t) D1 W1)"
    using others(2) by (intro lease_call.removes) auto
  ultimately have "(lease_call signal m)\<^sup>*\<^sup>* (?w s D W) (?w (without_lock path t) D1 W1)"
    by (meson converse_rtranclp_into_rtranclp rtranclp.rtrancl_into_rtrancl)
  then show "\<exists>D' W'. (lease_call signal m)\<^sup>*\<^sup>* (?w s D W) (?w (without_lock path t) D' W')
      \<and> set D \<subseteq> set D' \<and> set W \<subseteq> set W'"
    using others(2,3) by auto
qed

lemma remove_after:
  assumes "found_stale signal m s path" and "made_by_calls signal m s t"
  shows "made_by_calls signal m s (snd (removeLeaseFileByPath E path t))"
proof -
  have "snd (removeLeaseFileByPath E path t) \<in> {t, without_lock path t}"
    by (simp add: removeLeaseFileByPath_def act_defs calling_def without_lock_def)
  then show ?thesis using assms(2) stale_removed [OF assms] by auto
qed

text \<open>
  Every operation is a sequence of these calls, as long as the calls that come in between are: what a process
  does on the way is covered by \<open>lease_call\<close>.
\<close>

lemma recover_made_by_calls:
  assumes "we_signal E = signal" and "sees_tree E m" and "\<And>p u. made_by_calls signal m u (others p u)"
  shows "moves (made_by_calls signal m) (recoverStaleWorktreeLeaseIfNeeded E others branch)"
  unfolding moves_def
proof
  fix s
  let ?path = "lock_of branch" and ?rest = "snd (recoverStaleWorktreeLeaseIfNeeded E others branch s)"
  let ?s1 = "others BeforeExists s"
  let ?s2 = "others BeforeStat ?s1"
  let ?s3 = "others BeforeRead ?s2"
  note steps = made_by_calls_trans [OF assms(3)] assms(3)
  have 1: "made_by_calls signal m s ?s1" and 2: "made_by_calls signal m s ?s2" and 3: "made_by_calls signal m s ?s3"
    using steps by (blast intro: calls.kept_refl)+
  have no_tree: "found_stale signal m ?s2 ?path"
    if "\<not> (\<not> we_fails E (CallStat (branchToWorktreeName branch)) \<and> branchToWorktreeName branch \<in> set (wl_trees ?s2))"
    using that assms(2) by (auto simp: found_stale_def sees_tree_def lock_of_inject)
  have dead: "found_stale signal m ?s3 ?path"
    if "map_of (wl_locks ?s3) ?path = Some raw" "parseLeaseMetadata branch True raw = Inr m'"
      "\<not> we_alive E (wm_pid m')" for raw m'
    using that assms(1) by (auto simp: found_stale_def we_alive_def)
  have "made_by_calls signal m ?s2 (snd (removeLeaseFileByPath E ?path (others BeforeRemove ?s2)))"
    if "found_stale signal m ?s2 ?path"
    using remove_after [OF that assms(3)] .
  moreover have "made_by_calls signal m ?s3 (snd (removeLeaseFileByPath E ?path (others BeforeRemove ?s3)))"
    if "found_stale signal m ?s3 ?path"
    using remove_after [OF that assms(3)] .
  ultimately have r2: "found_stale signal m ?s2 ?path \<Longrightarrow>
      made_by_calls signal m s (snd (removeLeaseFileByPath E ?path (others BeforeRemove ?s2)))"
    and r3: "found_stale signal m ?s3 ?path \<Longrightarrow>
      made_by_calls signal m s (snd (removeLeaseFileByPath E ?path (others BeforeRemove ?s3)))"
    using made_by_calls_trans 2 3 by blast+
  show "made_by_calls signal m s ?rest"
    using 1 2 3 r2 r3 no_tree dead
    by (auto simp: recoverStaleWorktreeLeaseIfNeeded_def act_defs calling_def worktreeDirectoryExists_def
        tree_exists_def readLeaseMetadata_def from_sum_def removeLeaseFile_def
        split: prod.split sum.split if_split option.split)
qed

lemma check_made_by_calls:
  assumes "we_signal E = signal" and "sees_tree E m" and "\<And>p u. made_by_calls signal m u (others p u)"
  shows "moves (made_by_calls signal m) (checkWorktreeLeaseBeforeHubRetry E others branch)"
  unfolding checkWorktreeLeaseBeforeHubRetry_def readLeaseMetadata_def from_sum_def
  by (intro calls.moves_rules calls.moves_modify recover_made_by_calls [OF assms(1,2)] assms(3))

lemma create_made_by_calls:
  "moves (made_by_calls signal m) (createLeaseFileAtomic E branch m')"
proof -
  have created: "made_by_calls signal m s (s\<lparr>wl_locks := wl_locks s @ [(path, content)]\<rparr>)"
    if "map_of (wl_locks s) path = None" for s path content
    by (rule one_call, rule exI, rule exI, rule conjI [OF lease_call.creates [OF that]]) auto
  then show ?thesis
    by (auto simp: moves_def createLeaseFileAtomic_def act_defs calling_def intro: calls.kept_refl)
qed

lemma acquire_made_by_calls:
  assumes "we_signal E = signal" and "sees_tree E m" and "\<And>p u. made_by_calls signal m u (others p u)"
  shows "moves (made_by_calls signal m) (acquireWorktreeLease E others branch owner)"
  unfolding acquireWorktreeLease_def Let_def ensureLeaseAvailableForAcquisition_def
  by (intro calls.moves_rules calls.moves_modify check_made_by_calls [OF assms(1,2)] assms(3)
      create_made_by_calls)
    (auto split: wl_error.split lease_failure.split
      intro!: calls.moves_rules calls.moves_modify check_made_by_calls [OF assms(1,2)] assms(3)
        create_made_by_calls)

lemma orphan_made_by_calls:
  assumes "sees_tree E m" and "\<And>p u. made_by_calls signal m u (others p u)"
  shows "moves (made_by_calls signal m) (pruneOrphan E others entry)"
  unfolding moves_def
proof
  fix s
  let ?s1 = "others (BeforeOrphanStat entry) s"
  have 1: "made_by_calls signal m s ?s1" by (rule assms(2))
  have "made_by_calls signal m s (snd (removeLeaseFileByPath E entry (others (BeforeOrphanRemove entry) ?s1)))"
    if "lockFileNameToLeaseName entry = Some n"
      "\<not> (\<not> we_fails E (CallStat n) \<and> n \<in> set (wl_trees ?s1))" for n
  proof -
    have "found_stale signal m ?s1 entry"
      using that assms(1) by (auto simp: found_stale_def sees_tree_def lease_name_of_lock)
    from made_by_calls_trans [OF 1 remove_after [OF this assms(2)]] show ?thesis .
  qed
  with 1 show "made_by_calls signal m s (snd (pruneOrphan E others entry s))"
    by (auto simp: pruneOrphan_def act_defs tree_exists_def calls.kept_refl split: option.split)
qed

lemma prune_made_by_calls:
  assumes "we_signal E = signal" and "sees_tree E m" and "\<And>p u. made_by_calls signal m u (others p u)"
  shows "moves (made_by_calls signal m) (pruneStaleWorktreeLeases E others)"
proof -
  have "moves (made_by_calls signal m) (pruneStale E others entry)" for entry
    unfolding pruneStale_def
    by (intro calls.moves_rules calls.moves_modify recover_made_by_calls [OF assms(1,2)] assms(3))
      (auto split: wl_error.split lease_failure.split intro: calls.moves_ret calls.moves_throw)
  then show ?thesis
    unfolding pruneStaleWorktreeLeases_def pruneOrphanWorktreeLeases_def readLocksDirectory_def calling_def
    by (intro calls.moves_rules calls.moves_modify orphan_made_by_calls [OF assms(2)] assms(3))
qed

text \<open>The lease is on file, and nobody else has found its lock stale or has created it.\<close>

definition guarded :: "WorktreeLeaseMetadata \<Rightarrow> lease_world \<Rightarrow> bool" where
  "guarded m w \<longleftrightarrow> holds_lease m (lw_files w)
     \<and> lock_of (wm_branch m) \<notin> set (lw_doomed w) \<union> set (lw_owned w)"

lemma call_keeps_guarded:
  assumes "metadata_ok m" and "isProcessAlive_pid signal (of_int (wm_pid m))"
  shows "lease_call signal m v w \<Longrightarrow> guarded m v \<Longrightarrow> guarded m w"
proof (induction rule: lease_call.induct)
  case (finds_dead s raw branch strict m' D W)
  then have "raw = Text (metadata_json m)" by (simp add: guarded_def holds_lease_def)
  with finds_dead have "m' = m"
    using parse_written [OF assms(1), of "wm_branch m" False]
    by (auto simp: parseLeaseMetadata_def isWorktreeLeaseMetadata_written [OF assms(1)] split: if_splits)
  with finds_dead assms(2) show ?case by simp
next
  case (removes path D W s)
  then show ?case by (auto simp: guarded_def holds_lease_def)
next
  case (creates s path D W content)
  then show ?case by (auto simp: guarded_def holds_lease_def map_add_def)
qed (auto simp: guarded_def holds_lease_def)

text \<open>The lease of a live process is an invariant of the calls of the other processes.\<close>

interpretation live_lease: step_invariant "guarded m" "lease_call signal m"
  "\<lambda>w. metadata_ok m \<and> isProcessAlive_pid signal (of_int (wm_pid m)) \<longrightarrow> guarded m w" for signal m
  by unfold_locales (auto intro: call_keeps_guarded)

lemma made_by_calls_holds:
  assumes "metadata_ok m" and "isProcessAlive_pid signal (of_int (wm_pid m))"
    and "made_by_calls signal m s t" and "holds_lease m s"
  shows "holds_lease m t"
proof -
  obtain D W where "(lease_call signal m)\<^sup>*\<^sup>* \<lparr>lw_files = s, lw_doomed = [], lw_owned = []\<rparr>
      \<lparr>lw_files = t, lw_doomed = D, lw_owned = W\<rparr>"
    using assms(3) unfolding made_by_calls_def by blast
  then have "guarded m \<lparr>lw_files = s, lw_doomed = [], lw_owned = []\<rparr>
      \<longrightarrow> guarded m \<lparr>lw_files = t, lw_doomed = D, lw_owned = W\<rparr>"
    by (induction rule: rtranclp_induct) (auto intro: call_keeps_guarded [OF assms(1,2)])
  with assms(4) show ?thesis by (simp add: guarded_def)
qed

lemma acquire_refused:
  assumes "metadata_ok m" and "we_alive E (wm_pid m)" and works: "calls_work E"
    and others: "\<And>p u. holds_lease m u \<Longrightarrow> holds_lease m (others p u)" and "holds_lease m s"
  shows "\<exists>t. acquireWorktreeLease E others (wm_branch m) owner s =
      (Inl (WorktreeLeaseError (wm_branch m) (LeaseActive m)), t) \<and> holds_lease m t"
proof -
  let ?o = "\<lambda>p. others (InCheck 0 p)"
  let ?s1 = "?o (InRecovery BeforeExists) s"
  let ?s2 = "?o (InRecovery BeforeStat) ?s1"
  let ?s3 = "?o (InRecovery BeforeRead) ?s2"
  let ?s4 = "?o BeforeReread ?s3"
  have held: "holds_lease m ?s1" "holds_lease m ?s2" "holds_lease m ?s3" "holds_lease m ?s4"
    using others assms(5) by blast+
  then have files: "map_of (wl_locks ?s1) (lock_of (wm_branch m)) = Some (Text (metadata_json m))"
    "branchToWorktreeName (wm_branch m) \<in> set (wl_trees ?s2)"
    "map_of (wl_locks ?s3) (lock_of (wm_branch m)) = Some (Text (metadata_json m))"
    "map_of (wl_locks ?s4) (lock_of (wm_branch m)) = Some (Text (metadata_json m))"
    unfolding holds_lease_def by blast+
  have parsed: "parseLeaseMetadata (wm_branch m) True (Text (metadata_json m)) = Inr m"
    using parse_written [OF assms(1)] by simp
  have "recoverStaleWorktreeLeaseIfNeeded E (\<lambda>p. ?o (InRecovery p)) (wm_branch m) s = (Inr LeaseStillActive, ?s3)"
    using files works assms(2)
    by (simp add: recoverStaleWorktreeLeaseIfNeeded_def act_defs calling_def calls_work_def
        worktreeDirectoryExists_def tree_exists_def readLeaseMetadata_def from_sum_def parsed)
  then have "ensureLeaseAvailableForAcquisition E ?o (wm_branch m) s =
      (Inl (WorktreeLeaseError (wm_branch m) (LeaseActive m)), ?s4)"
    using files works
    by (simp add: ensureLeaseAvailableForAcquisition_def checkWorktreeLeaseBeforeHubRetry_def act_defs
        readLeaseMetadata_def from_sum_def calls_work_def parsed)
  with held(4) show ?thesis
    by (simp add: acquireWorktreeLease_def Let_def act_defs)
qed


subsection \<open>What pruning removes\<close>

text \<open>
  The locks that stay: files that are not locks, and locks whose worktree exists unless they are
  readable, are the lock of the branch they name, and name a process that is gone.
\<close>

definition dead_lease :: "wl_env \<Rightarrow> string \<times> jfile \<Rightarrow> bool" where
  "dead_lease E p =
     (case parseLeaseMetadata (fst p) False (snd p) of
        Inl _ \<Rightarrow> False
      | Inr m \<Rightarrow> lock_of (wm_branch m) = fst p \<and> \<not> we_alive E (wm_pid m))"

definition survives_pruning :: "wl_env \<Rightarrow> string list \<Rightarrow> string \<times> jfile \<Rightarrow> bool" where
  "survives_pruning E trees p =
     (case lockFileNameToLeaseName (fst p) of
        None \<Rightarrow> True
      | Some leaseName \<Rightarrow> leaseName \<in> set trees \<and> \<not> dead_lease E p)"

definition has_tree :: "string list \<Rightarrow> string \<Rightarrow> bool" where
  "has_tree trees path =
     (case lockFileNameToLeaseName path of None \<Rightarrow> True | Some leaseName \<Rightarrow> leaseName \<in> set trees)"

lemma orphan_result:
  "calls_work E \<Longrightarrow> pruneOrphan E (\<lambda>p u. u) entry s =
     (Inr (), if has_tree (wl_trees s) entry then s else without_lock entry s)"
  by (simp add: pruneOrphan_def has_tree_def act_defs tree_exists_result remove_result split: option.split)

lemma orphans_result:
  "calls_work E \<Longrightarrow> \<exists>us. each_act (pruneOrphan E (\<lambda>p u. u)) entries s =
     (Inr us, s\<lparr>wl_locks := filter (\<lambda>p. fst p \<in> set entries \<longrightarrow> has_tree (wl_trees s) (fst p)) (wl_locks s)\<rparr>)"
proof (induction entries arbitrary: s)
  case Nil
  then show ?case by (simp add: act_defs)
next
  case (Cons e es)
  let ?s = "if has_tree (wl_trees s) e then s else without_lock e s"
  from Cons obtain us where us: "each_act (pruneOrphan E (\<lambda>p u. u)) es ?s =
      (Inr us, ?s\<lparr>wl_locks := filter (\<lambda>p. fst p \<in> set es \<longrightarrow> has_tree (wl_trees ?s) (fst p)) (wl_locks ?s)\<rparr>)"
    by blast
  have "?s\<lparr>wl_locks := filter (\<lambda>p. fst p \<in> set es \<longrightarrow> has_tree (wl_trees ?s) (fst p)) (wl_locks ?s)\<rparr> =
      s\<lparr>wl_locks := filter (\<lambda>p. fst p \<in> set (e # es) \<longrightarrow> has_tree (wl_trees s) (fst p)) (wl_locks s)\<rparr>"
    by (auto simp: without_lock_def intro!: wl_state.equality filter_cong)
  with us have "each_act (pruneOrphan E (\<lambda>p u. u)) es ?s = (Inr us,
      s\<lparr>wl_locks := filter (\<lambda>p. fst p \<in> set (e # es) \<longrightarrow> has_tree (wl_trees s) (fst p)) (wl_locks s)\<rparr>)"
    by metis
  moreover have "pruneOrphan E (\<lambda>p u. u) e s = (Inr (), ?s)" using Cons.prems by (rule orphan_result)
  ultimately show ?case by (simp only: each_act.simps bind_act_def ret_act_def split_conv
        prod.case sum.case) (rule exI, rule refl)
qed

lemma pruneOrphans_result:
  assumes "calls_work E"
  shows "pruneOrphanWorktreeLeases E (\<lambda>p u. u) s =
     (Inr (), s\<lparr>wl_locks := filter (\<lambda>p. has_tree (wl_trees s) (fst p)) (wl_locks s)\<rparr>)"
proof -
  obtain us where us: "each_act (pruneOrphan E (\<lambda>p u. u)) (map fst (wl_locks s)) s =
      (Inr us, s\<lparr>wl_locks := filter (\<lambda>p. fst p \<in> set (map fst (wl_locks s)) \<longrightarrow>
         has_tree (wl_trees s) (fst p)) (wl_locks s)\<rparr>)"
    using orphans_result [OF assms] by blast
  have "filter (\<lambda>p. fst p \<in> set (map fst (wl_locks s)) \<longrightarrow> has_tree (wl_trees s) (fst p)) (wl_locks s) =
      filter (\<lambda>p. has_tree (wl_trees s) (fst p)) (wl_locks s)"
    by (rule filter_cong) auto
  with us assms show ?thesis
    by (simp add: pruneOrphanWorktreeLeases_def readLocksDirectory_def act_defs calling_def calls_work_def)
qed

text \<open>One entry of the second pass: nothing, or one dead lease less.\<close>

lemma parse_strict_lax:
  "parseLeaseMetadata branch True raw = Inr m \<Longrightarrow> parseLeaseMetadata other False raw = Inr m \<and> wm_branch m = branch"
  by (auto simp: parseLeaseMetadata_def split: jfile.splits option.splits if_splits)

lemma parse_lax_strict:
  "parseLeaseMetadata other False raw = Inr m \<Longrightarrow> parseLeaseMetadata (wm_branch m) True raw = Inr m"
  by (auto simp: parseLeaseMetadata_def split: jfile.splits option.splits if_splits)

lemma parse_fails_malformed:
  "parseLeaseMetadata branch strict raw = Inl e \<Longrightarrow> \<exists>d. e = WorktreeLeaseError branch (LeaseMalformed d)"
  by (auto simp: parseLeaseMetadata_def split: jfile.splits option.splits if_splits)

lemma stale_entry:
  assumes works: "calls_work E"
    and trees: "\<forall>p \<in> set (wl_locks s). has_tree (wl_trees s) (fst p)"
  shows "\<exists>t. pruneStale E (\<lambda>p u. u) entry s = (Inr (), t) \<and>
     (t = s \<or> (\<exists>path raw. t = without_lock path s \<and> map_of (wl_locks s) path = Some raw \<and> dead_lease E (path, raw)))"
proof (cases "lockFileNameToLeaseName entry = None \<or> map_of (wl_locks s) entry = None")
  case True
  then show ?thesis using works
    by (auto simp: pruneStale_def act_defs calls_work_def split: option.split)
next
  case False
  then obtain n raw where n: "lockFileNameToLeaseName entry = Some n" and raw: "map_of (wl_locks s) entry = Some raw"
    by auto
  show ?thesis
  proof (cases "parseLeaseMetadata n False raw")
    case (Inl e)
    with n raw works show ?thesis by (auto simp: pruneStale_def act_defs calls_work_def)
  next
    case (Inr m)
    let ?p = "lock_of (wm_branch m)"
    have run: "pruneStale E (\<lambda>p u. u) entry s =
        catch_act (bind_act (recoverStaleWorktreeLeaseIfNeeded E (\<lambda>p u. u) (wm_branch m)) (\<lambda>_. ret_act ()))
          (\<lambda>e. case e of WorktreeLeaseError b (LeaseMalformed d) \<Rightarrow> ret_act () | _ \<Rightarrow> throw_act e) s"
      using n raw works Inr
      by (simp add: pruneStale_def act_defs calls_work_def split: prod.split sum.split wl_error.split lease_failure.split)
    show ?thesis
    proof (cases "map_of (wl_locks s) ?p")
      case None
      then show ?thesis by (simp add: run act_defs recover_result [OF works])
    next
      case (Some raw')
      with trees have "has_tree (wl_trees s) ?p" by (force dest: map_of_SomeD)
      then have tree: "branchToWorktreeName (wm_branch m) \<in> set (wl_trees s)"
        by (simp add: has_tree_def lease_name_of_lock)
      show ?thesis
      proof (cases "parseLeaseMetadata (wm_branch m) True raw'")
        case (Inl e)
        then obtain d where "e = WorktreeLeaseError (wm_branch m) (LeaseMalformed d)"
          using parse_fails_malformed by blast
        with Inl Some tree show ?thesis
          by (simp add: run act_defs recover_result [OF works] obstacle_def)
      next
        case (Inr m')
        from parse_strict_lax [OF Inr] have lax: "parseLeaseMetadata ?p False raw' = Inr m'"
          and "wm_branch m' = wm_branch m" by auto
        then have dead: "dead_lease E (?p, raw') \<longleftrightarrow> \<not> we_alive E (wm_pid m')"
          by (simp add: dead_lease_def)
        show ?thesis using Inr Some tree dead
          by (auto simp: run act_defs recover_result [OF works] obstacle_def)
      qed
    qed
  qed
qed

lemma dead_entry:
  assumes works: "calls_work E"
    and trees: "\<forall>p \<in> set (wl_locks s). has_tree (wl_trees s) (fst p)"
    and raw: "map_of (wl_locks s) entry = Some raw" and dead: "dead_lease E (entry, raw)"
  shows "pruneStale E (\<lambda>p u. u) entry s = (Inr (), without_lock entry s)"
proof -
  from dead obtain m where m: "parseLeaseMetadata entry False raw = Inr m"
    and e: "lock_of (wm_branch m) = entry" and gone: "\<not> we_alive E (wm_pid m)"
    by (auto simp: dead_lease_def split: sum.splits)
  from m have lax: "parseLeaseMetadata n False raw = Inr m" for n
    using parse_lax_strict parse_strict_lax by blast
  have strict: "parseLeaseMetadata (wm_branch m) True raw = Inr m" using parse_lax_strict [OF m] .
  from trees raw have "has_tree (wl_trees s) entry" by (force dest: map_of_SomeD)
  then have "branchToWorktreeName (wm_branch m) \<in> set (wl_trees s)"
    by (simp add: has_tree_def e [symmetric] lease_name_of_lock)
  with raw e gone strict have "obstacle E (wm_branch m) s = None" by (simp add: obstacle_def)
  then have "recoverStaleWorktreeLeaseIfNeeded E (\<lambda>p u. u) (wm_branch m) s = (Inr LeaseRemoved, without_lock entry s)"
    using raw e by (simp add: recover_result [OF works])
  then show ?thesis using raw lax works lease_name_of_lock [of "wm_branch m"] e
    by (simp add: pruneStale_def act_defs calls_work_def)
qed

lemma stale_entries:
  assumes works: "calls_work E"
  shows "\<lbrakk>\<forall>p \<in> set (wl_locks s). has_tree (wl_trees s) (fst p); distinct (map fst (wl_locks s))\<rbrakk> \<Longrightarrow>
    \<exists>us R. each_act (pruneStale E (\<lambda>p u. u)) entries s =
        (Inr us, s\<lparr>wl_locks := filter (\<lambda>p. fst p \<notin> R) (wl_locks s)\<rparr>)
      \<and> (\<forall>p \<in> set (wl_locks s). fst p \<in> R \<longrightarrow> dead_lease E p)
      \<and> (\<forall>p \<in> set (wl_locks s). dead_lease E p \<and> fst p \<in> set entries \<longrightarrow> fst p \<in> R)"
proof (induction entries arbitrary: s)
  case Nil
  show ?case by (rule exI [of _ "[]"], rule exI [of _ "{}"]) (simp add: act_defs)
next
  case (Cons e es)
  obtain t where t: "pruneStale E (\<lambda>p u. u) e s = (Inr (), t)" and cases:
    "t = s \<or> (\<exists>path raw. t = without_lock path s \<and> map_of (wl_locks s) path = Some raw \<and> dead_lease E (path, raw))"
    using stale_entry [OF works Cons.prems(1)] by blast
  then obtain R0 where R0: "t = s\<lparr>wl_locks := filter (\<lambda>p. fst p \<notin> R0) (wl_locks s)\<rparr>"
    and dead0: "\<forall>p \<in> set (wl_locks s). fst p \<in> R0 \<longrightarrow> dead_lease E p"
  proof (elim disjE exE conjE)
    assume "t = s"
    then show thesis using that [of "{}"] by simp
  next
    fix path raw
    assume t: "t = without_lock path s" and raw: "map_of (wl_locks s) path = Some raw"
      and dead: "dead_lease E (path, raw)"
    have key: "p = (path, raw)" if "p \<in> set (wl_locks s)" "fst p = path" for p
      using that raw Cons.prems(2) by (metis map_of_is_SomeI option.inject prod.collapse)
    have "\<forall>p \<in> set (wl_locks s). fst p \<in> {path} \<longrightarrow> dead_lease E p"
    proof (intro ballI impI)
      fix p
      assume "p \<in> set (wl_locks s)" "fst p \<in> {path}"
      then have "p = (path, raw)" by (intro key) simp_all
      with dead show "dead_lease E p" by simp
    qed
    with t show thesis by - (rule that [of "{path}"], simp_all add: without_lock_def)
  qed
  have gone: "fst p \<in> R0" if "p \<in> set (wl_locks s)" "dead_lease E p" "fst p = e" for p
  proof -
    from that Cons.prems(2) have "map_of (wl_locks s) e = Some (snd p)" by (metis map_of_is_SomeI prod.collapse)
    with that t dead_entry [OF works Cons.prems(1)] have "t = without_lock e s" by (metis prod.collapse prod.inject)
    then have "\<forall>p \<in> set (wl_locks t). fst p \<noteq> e" by (simp add: without_lock_def)
    show ?thesis
    proof (rule ccontr)
      assume "fst p \<notin> R0"
      with that(1) have "p \<in> set (wl_locks t)" by (simp add: R0)
      with \<open>\<forall>p \<in> set (wl_locks t). fst p \<noteq> e\<close> that(3) show False by blast
    qed
  qed
  from Cons.prems have "\<forall>p \<in> set (wl_locks t). has_tree (wl_trees t) (fst p)" "distinct (map fst (wl_locks t))"
    by (simp_all add: R0 distinct_map_filter)
  from Cons.IH [OF this] obtain us R where us: "each_act (pruneStale E (\<lambda>p u. u)) es t =
        (Inr us, t\<lparr>wl_locks := filter (\<lambda>p. fst p \<notin> R) (wl_locks t)\<rparr>)"
    and R: "\<forall>p \<in> set (wl_locks t). fst p \<in> R \<longrightarrow> dead_lease E p"
      "\<forall>p \<in> set (wl_locks t). dead_lease E p \<and> fst p \<in> set es \<longrightarrow> fst p \<in> R"
    by blast
  have in_t: "p \<in> set (wl_locks t)" if "p \<in> set (wl_locks s)" "fst p \<notin> R0" for p
    using that by (simp add: R0)
  have "t\<lparr>wl_locks := filter (\<lambda>p. fst p \<notin> R) (wl_locks t)\<rparr> =
      s\<lparr>wl_locks := filter (\<lambda>p. fst p \<notin> R0 \<union> R) (wl_locks s)\<rparr>"
    by (simp add: R0)
  with us t have run: "each_act (pruneStale E (\<lambda>p u. u)) (e # es) s =
      (Inr (() # us), s\<lparr>wl_locks := filter (\<lambda>p. fst p \<notin> R0 \<union> R) (wl_locks s)\<rparr>)"
    by (simp add: act_defs)
  have "\<forall>p \<in> set (wl_locks s). fst p \<in> R0 \<union> R \<longrightarrow> dead_lease E p"
    and "\<forall>p \<in> set (wl_locks s). dead_lease E p \<and> fst p \<in> set (e # es) \<longrightarrow> fst p \<in> R0 \<union> R"
    using R dead0 gone in_t by (metis Un_iff, metis Un_iff set_ConsD)
  with run show ?case by blast
qed

lemma survives_iff: "survives_pruning E trees p \<longleftrightarrow> has_tree trees (fst p) \<and> \<not> dead_lease E p"
proof -
  have "lockFileNameToLeaseName (fst p) \<noteq> None" if "dead_lease E p"
    using that by (auto simp: dead_lease_def split: sum.splits) (metis lease_name_of_lock option.distinct(1))
  then show ?thesis by (auto simp: survives_pruning_def has_tree_def split: option.split)
qed

text \<open>
  Pruning while no call fails leaves exactly the locks that are in use or cannot be judged. A lock
  without a worktree goes; a lock with one goes only when it is readable, lies where the lock of the
  branch it names lies, and the process it names is gone. Files that are not locks, unreadable locks and
  all worktrees stay, and so does the order of the directory.
\<close>

theorem pruning_result:
  assumes "calls_work E" and "distinct (map fst (wl_locks s))"
  shows "pruneStaleWorktreeLeases E (\<lambda>p u. u) s =
     (Inr (), s\<lparr>wl_locks := filter (survives_pruning E (wl_trees s)) (wl_locks s)\<rparr>)"
proof -
  let ?s = "s\<lparr>wl_locks := filter (\<lambda>p. has_tree (wl_trees s) (fst p)) (wl_locks s)\<rparr>"
  have "\<forall>p \<in> set (wl_locks ?s). has_tree (wl_trees ?s) (fst p)" "distinct (map fst (wl_locks ?s))"
    using assms(2) by (simp_all add: distinct_map_filter)
  from stale_entries [OF assms(1) this, of "map fst (wl_locks ?s)"] obtain us R where
    us: "each_act (pruneStale E (\<lambda>p u. u)) (map fst (wl_locks ?s)) ?s =
        (Inr us, ?s\<lparr>wl_locks := filter (\<lambda>p. fst p \<notin> R) (wl_locks ?s)\<rparr>)"
    and R: "\<forall>p \<in> set (wl_locks ?s). fst p \<in> R \<longrightarrow> dead_lease E p"
      "\<forall>p \<in> set (wl_locks ?s). dead_lease E p \<and> fst p \<in> set (map fst (wl_locks ?s)) \<longrightarrow> fst p \<in> R"
    by blast
  have "fst p \<in> R \<longleftrightarrow> dead_lease E p" if "p \<in> set (wl_locks ?s)" for p
    using R that by (cases p) auto
  then have "filter (\<lambda>p. fst p \<notin> R) (wl_locks ?s) = filter (survives_pruning E (wl_trees s)) (wl_locks s)"
    unfolding survives_iff [abs_def] by (auto intro!: filter_cong)
  with us show ?thesis
    using assms(1) by (simp add: pruneStaleWorktreeLeases_def pruneOrphans_result readLocksDirectory_def
        act_defs calling_def calls_work_def)
qed

subsection \<open>Concrete processes\<close>

definition demo_signal :: "int \<Rightarrow> signal_result" where
  "demo_signal p = (if p = 9 then SignalError (Some ''ESRCH'') else SignalSent)"

definition demo_process :: "int \<Rightarrow> wl_env" where
  "demo_process pid = \<lparr>we_pid = pid, we_now = ''2025'',
     we_signal = demo_signal, we_fails = (\<lambda>c. False)\<rparr>"

definition demo_lease :: WorktreeLeaseMetadata where
  "demo_lease = HubLease ''T1'' ''F'' ''B'' ''hub/one'' 7 ''2025''"

definition demo_dead_lease :: WorktreeLeaseMetadata where
  "demo_dead_lease = DirectLease 9 ''two'' ''2025''"

definition demo_locks :: wl_state where
  "demo_locks = \<lparr>wl_locks = [(''hub-one.lock'', Text (metadata_json demo_lease)),
     (''two.lock'', Text (metadata_json demo_dead_lease)), (''three.lock'', BadText)],
     wl_trees = [''hub-one'', ''two'']\<rparr>"

lemma demo_process_simps [simp]:
  "calls_work (demo_process pid)" "we_pid (demo_process pid) = pid" "we_now (demo_process pid) = ''2025''"
  "we_signal (demo_process pid) = demo_signal"
  "we_alive (demo_process pid) p \<longleftrightarrow> 0 < p \<and> p \<noteq> 9"
  by (simp_all add: demo_process_def demo_signal_def calls_work_def we_alive_def isProcessAlive_pid_def)

lemma demo_parsed:
  "parseLeaseMetadata b False (Text (metadata_json demo_lease)) = Inr demo_lease"
  "parseLeaseMetadata b False (Text (metadata_json demo_dead_lease)) = Inr demo_dead_lease"
  by (simp_all add: parse_written demo_lease_def demo_dead_lease_def)

lemma demo_names:
  "lock_of ''hub/one'' = ''hub-one.lock''" "lock_of ''two'' = ''two.lock''"
  "branchToWorktreeName ''hub/one'' = ''hub-one''" "branchToWorktreeName ''two'' = ''two''"
  "lockFileNameToLeaseName ''hub-one.lock'' = Some ''hub-one''"
  "lockFileNameToLeaseName ''two.lock'' = Some ''two''"
  "lockFileNameToLeaseName ''three.lock'' = Some ''three''"
  by (simp_all add: lock_of_def leaseLockPath_def branchToWorktreeName_def
      lockFileNameToLeaseName_def endsWith_def)

lemma demo_strict: "parseLeaseMetadata ''two'' True (Text (metadata_json demo_dead_lease)) = Inr demo_dead_lease"
  by (simp add: parse_written demo_dead_lease_def)

text \<open>An object with properties that must not be written.\<close>

definition demo_polluted :: "(string \<times> json) list" where
  "demo_polluted = (''prompt'', JStr ''secret'') # metadata_fields demo_lease
     @ [(''env'', JObj []), (''stdout'', JStr ''output''), (''title'', JStr ''t'')]"


theorem acquire_outcome_witness:
  "acquireWorktreeLease (demo_process 8) (\<lambda>k u. u) ''two'' DirectOwner demo_locks =
     (Inr \<lparr>al_branch = ''two'', al_leaseName = ''two'', al_leasePath = ''two.lock'',
        al_metadata = DirectLease 8 ''two'' ''2025''\<rparr>,
      demo_locks\<lparr>wl_locks := [(''hub-one.lock'', Text (metadata_json demo_lease)), (''three.lock'', BadText),
        (''two.lock'', Text (metadata_json (DirectLease 8 ''two'' ''2025'')))]\<rparr>)"
  using acquire_outcome [of "demo_process 8" "''two''" DirectOwner demo_locks]
  by (simp add: obstacle_def demo_locks_def demo_names demo_strict with_lock_def
      toAcquiredWorktreeLease_def) (simp add: demo_dead_lease_def)

theorem lease_lost_before_checkout_witness:
  "\<exists>t t' l l'. acquireWorktreeLease (demo_process 7) (\<lambda>k u. u) ''four'' DirectOwner demo_locks = (Inr l, t)
     \<and> we_alive (demo_process 8) 7
     \<and> acquireWorktreeLease (demo_process 8) (\<lambda>k u. u) ''four'' DirectOwner t = (Inr l', t')
     \<and> map_of (wl_locks t') (lock_of ''four'') = Some (Text (metadata_json (DirectLease 8 ''four'' ''2025'')))"
proof -
  obtain r t where first: "acquireWorktreeLease (demo_process 7) (\<lambda>k u. u) ''four'' DirectOwner demo_locks = (r, t)"
    by fastforce
  obtain r' t' where second: "acquireWorktreeLease (demo_process 8) (\<lambda>k u. u) ''four'' DirectOwner t = (r', t')"
    by fastforce
  have "obstacle (demo_process 7) ''four'' demo_locks = None"
    and "branchToWorktreeName ''four'' \<notin> set (wl_trees demo_locks)"
    by (simp_all add: obstacle_def demo_locks_def lock_of_def leaseLockPath_def branchToWorktreeName_def)
  from lease_lost_before_checkout [OF demo_process_simps(1) demo_process_simps(1) this first second] first second
  show ?thesis by simp
qed


theorem two_recoveries_take_one_lease_witness:
  "\<exists>u. acquireWorktreeLease (demo_process 7) (acquired_before_removal (demo_process 8) ''two'' DirectOwner)
       ''two'' DirectOwner demo_locks
     = (Inr (toAcquiredWorktreeLease ''two'' (DirectLease 7 ''two'' ''2025'')), u)"
proof -
  have "map_of (wl_locks demo_locks) (lock_of ''two'') = Some (Text (metadata_json demo_dead_lease))"
    and "branchToWorktreeName ''two'' \<in> set (wl_trees demo_locks)"
    by (simp_all add: demo_locks_def demo_names)
  from two_recoveries_take_one_lease [OF demo_process_simps(1) demo_process_simps(1) this demo_strict,
      of 7 8 DirectOwner DirectOwner]
  show ?thesis by (auto simp: demo_dead_lease_def)
qed

theorem pruning_result_witness:
  "pruneStaleWorktreeLeases (demo_process 8) (\<lambda>p u. u) demo_locks =
     (Inr (), demo_locks\<lparr>wl_locks := [(''hub-one.lock'', Text (metadata_json demo_lease))]\<rparr>)"
  using pruning_result [of "demo_process 8" demo_locks]
  by (simp add: demo_locks_def survives_iff has_tree_def dead_lease_def demo_parsed demo_names)
    (simp add: demo_lease_def demo_dead_lease_def demo_names)

end
