(* ===== verification/Task_Lifecycle.thy ===== *)
theory Task_Lifecycle
  imports Task_Transitions Worktree_Lease
begin

text \<open>
  The steps of a task between its claim and its close (\<open>src/src/hubTaskLifecycle.ts\<close>), where an
  interrupted task is sent (\<open>src/src/hubTaskRecoveryRouter.ts\<close>), which tasks count as interrupted
  (\<open>src/src/hubTaskInterruptedExecutionDetector.ts\<close>) and what is reported about the leases of tasks
  (\<open>src/src/hubWorktreeLeaseDiagnostics.ts\<close>).
\<close>

subsection \<open>Recording the steps of a task\<close>

record HubTaskLifecycleContext =
  lx_runId :: string
  lx_batchId :: string
  lx_runDir :: string

record HubTaskLifecycleResult =
  lr_task :: HubTaskProjection
  lr_hubStatus :: HubTaskStatus
  lr_failureReason :: "HubFailureReason option"

definition toHubTaskLifecycleResult :: "HubTaskProjection \<Rightarrow> HubTaskLifecycleResult" where
  "toHubTaskLifecycleResult task =
     \<lparr>lr_task = task, lr_hubStatus = tp_hubStatus task, lr_failureReason = None\<rparr>"

text \<open>What every step is given: the run, the task, its metadata and claim.\<close>

record lifecycle_input =
  li_context :: HubTaskLifecycleContext
  li_taskId :: task_id
  li_branch :: string
  li_metadata :: "(string \<times> json) list"
  li_claim :: "HubTaskClaimMetadata option"
  li_createdAt :: iso_time

definition lifecycle_event :: "lifecycle_input \<Rightarrow> string \<Rightarrow> string \<Rightarrow> HubTaskEvent" where
  "lifecycle_event i ty status =
     plain_event ty (lx_runId (li_context i)) (lx_batchId (li_context i)) (li_taskId i) (li_branch i)
       (li_createdAt i) status"

definition run_dir :: "lifecycle_input \<Rightarrow> string" where
  "run_dir i = lx_runDir (li_context i)"

definition recordHubTaskStatusAdvanced ::
    "lifecycle_input \<Rightarrow> HubTaskStatus \<Rightarrow> HubFailureReason option \<Rightarrow> int option \<Rightarrow> bool option \<Rightarrow> string option
     \<Rightarrow> ('s, unit) tb_act" where
  "recordHubTaskStatusAdvanced i st failureReason commits unmerged work =
     appendHubTaskEvent (run_dir i)
       ((lifecycle_event i ''task_status_advanced'' (hub_status_name st))
         \<lparr>te_failureReason := map_option failure_reason_name failureReason, te_commitCount := commits,
          te_branchHasUnmergedWork := unmerged, te_implementationWork := work\<rparr>)"

definition claimHubTaskForImplementation ::
    "'s tb_env \<Rightarrow> ClaimHubTaskInput \<Rightarrow> ('s, ClaimHubTaskResult) tb_act" where
  "claimHubTaskForImplementation E i = claimHubTask E i"

definition recordImplementationStarted :: "lifecycle_input \<Rightarrow> HubTaskStatus \<Rightarrow> ('s, unit) tb_act" where
  "recordImplementationStarted i st =
     appendHubTaskEvent (run_dir i)
       ((lifecycle_event i ''task_implementation_started'' (hub_status_name st))\<lparr>te_claim := li_claim i\<rparr>)"

definition materializeClaimMetadata :: "HubTaskClaimMetadata \<Rightarrow> (string \<times> json) list" where
  "materializeClaimMetadata c =
     (if hc_raw c \<noteq> [] then hc_raw c
      else defined_fields
        [(''runId'', jstr_opt (hc_runId c)), (''batchId'', jstr_opt (hc_batchId c)),
         (''branch'', jstr_opt (hc_branch c)), (''claimedAt'', jstr_opt (hc_claimedAt c))])"

definition with_claim :: "(string \<times> json) list \<Rightarrow> HubTaskClaimMetadata \<Rightarrow> (string \<times> json) list" where
  "with_claim metadata c = jset metadata ''claim'' (JObj (materializeClaimMetadata c))"

record implementation_work =
  iw_claim :: HubTaskClaimMetadata
  iw_commitCount :: int
  iw_branchHasUnmergedWork :: "bool option"
  iw_implementationWork :: "string option"

datatype ImplementationOutcomeEvent =
    ImplementationSucceeded HubTaskStatus
  | ImplementationFailed HubFailureReason

fun outcome_type :: "ImplementationOutcomeEvent \<Rightarrow> string" where
  "outcome_type (ImplementationSucceeded st) = ''task_implementation_succeeded''"
| "outcome_type (ImplementationFailed r) = ''task_implementation_failed''"

fun outcome_status :: "ImplementationOutcomeEvent \<Rightarrow> HubTaskStatus" where
  "outcome_status (ImplementationSucceeded st) = st"
| "outcome_status (ImplementationFailed r) = HubFailed"

fun outcome_failure :: "ImplementationOutcomeEvent \<Rightarrow> HubFailureReason option" where
  "outcome_failure (ImplementationSucceeded st) = None"
| "outcome_failure (ImplementationFailed r) = Some r"

definition implementation_event ::
    "lifecycle_input \<Rightarrow> implementation_work \<Rightarrow> ImplementationOutcomeEvent \<Rightarrow> HubTaskEvent" where
  "implementation_event i w ev =
     (lifecycle_event i (outcome_type ev) (hub_status_name (outcome_status ev)))
       \<lparr>te_failureReason := map_option failure_reason_name (outcome_failure ev),
        te_commitCount := Some (iw_commitCount w),
        te_branchHasUnmergedWork := iw_branchHasUnmergedWork w,
        te_implementationWork := iw_implementationWork w, te_claim := Some (iw_claim w)\<rparr>"

definition recordImplementationOutcome ::
    "'s tb_env \<Rightarrow> lifecycle_input \<Rightarrow> implementation_work \<Rightarrow> ImplementationOutcomeEvent
     \<Rightarrow> ('s, HubTaskLifecycleResult) tb_act" where
  "recordImplementationOutcome E i w ev =
     bind_act (appendHubTaskEvent (run_dir i) (implementation_event i w ev)) (\<lambda>_.
     bind_act (updateHubTaskStatus E (status_input (li_taskId i) (outcome_status ev)
       (with_claim (li_metadata i) (iw_claim w)) (outcome_failure ev))) (\<lambda>updatedTask.
     bind_act (recordHubTaskStatusAdvanced i (tp_hubStatus updatedTask) (outcome_failure ev)
       (Some (iw_commitCount w)) (iw_branchHasUnmergedWork w) (iw_implementationWork w)) (\<lambda>_.
     ret_act (toHubTaskLifecycleResult updatedTask))))"

definition resolvePostImplementationStatus :: "bool \<Rightarrow> HubTaskStatus" where
  "resolvePostImplementationStatus hasReviewer = (if hasReviewer then HubReviewing else HubWaitingForMerge)"

definition recordImplementationSuccess ::
    "'s tb_env \<Rightarrow> lifecycle_input \<Rightarrow> implementation_work \<Rightarrow> bool \<Rightarrow> ('s, HubTaskLifecycleResult) tb_act" where
  "recordImplementationSuccess E i w hasReviewer =
     recordImplementationOutcome E i w (ImplementationSucceeded (resolvePostImplementationStatus hasReviewer))"

definition recordImplementationFailure ::
    "'s tb_env \<Rightarrow> lifecycle_input \<Rightarrow> implementation_work \<Rightarrow> HubFailureReason
     \<Rightarrow> ('s, HubTaskLifecycleResult) tb_act" where
  "recordImplementationFailure E i w reason = recordImplementationOutcome E i w (ImplementationFailed reason)"

text \<open>The review of a task; the failure leaves the metadata as they are given.\<close>

definition recordHubTaskReviewSuccess ::
    "'s tb_env \<Rightarrow> lifecycle_input \<Rightarrow> HubTaskClaimMetadata \<Rightarrow> int \<Rightarrow> ('s, HubTaskProjection) tb_act" where
  "recordHubTaskReviewSuccess E i claim commits =
     bind_act (appendHubTaskEvent (run_dir i)
       ((lifecycle_event i ''task_review_succeeded'' ''waiting_for_merge'')
         \<lparr>te_commitCount := Some commits, te_claim := Some claim\<rparr>)) (\<lambda>_.
     bind_act (updateHubTaskStatus E (status_input (li_taskId i) HubWaitingForMerge
       (with_claim (li_metadata i) claim) None)) (\<lambda>updatedTask.
     bind_act (recordHubTaskStatusAdvanced i (tp_hubStatus updatedTask) None (Some commits) None None) (\<lambda>_.
     ret_act updatedTask)))"

definition reviewFailureOutcome :: "HubFailureReason \<Rightarrow> HubFailureReason" where
  "reviewFailureOutcome reason = (if reason = SandboxFailed then SandboxFailed else AgentFailed)"

text \<open>The result is the task and the outcome.\<close>

definition recordHubTaskReviewFailure ::
    "'s tb_env \<Rightarrow> lifecycle_input \<Rightarrow> HubTaskClaimMetadata \<Rightarrow> int \<Rightarrow> HubFailureReason
     \<Rightarrow> ('s, HubTaskProjection \<times> HubFailureReason) tb_act" where
  "recordHubTaskReviewFailure E i claim commits reason =
     bind_act (appendHubTaskEvent (run_dir i)
       ((lifecycle_event i ''task_review_failed'' ''failed'')
         \<lparr>te_failureReason := Some (failure_reason_name reason), te_commitCount := Some commits,
          te_claim := Some claim\<rparr>)) (\<lambda>_.
     bind_act (updateHubTaskStatus E (status_input (li_taskId i) HubFailed (li_metadata i) (Some reason)))
       (\<lambda>updatedTask.
     bind_act (recordHubTaskStatusAdvanced i (tp_hubStatus updatedTask) (Some reason) (Some commits) None None)
       (\<lambda>_.
     ret_act (updatedTask, reviewFailureOutcome reason))))"

subsection \<open>The merge phase\<close>

record merge_diagnostics =
  md_diagnosticSummary :: "string option"
  md_diagnostics :: "json option"

definition no_diagnostics :: merge_diagnostics where
  "no_diagnostics = \<lparr>md_diagnosticSummary = None, md_diagnostics = None\<rparr>"

datatype MergePhaseFailureEvent =
    MergeFailedEvent HubFailureReason
  | VerificationFailedEvent
  | TaskCloseFailedEvent

fun failure_event_type :: "MergePhaseFailureEvent \<Rightarrow> string" where
  "failure_event_type (MergeFailedEvent r) = ''merge_failed''"
| "failure_event_type VerificationFailedEvent = ''verification_failed''"
| "failure_event_type TaskCloseFailedEvent = ''task_close_failed''"

fun failure_event_reason :: "MergePhaseFailureEvent \<Rightarrow> HubFailureReason" where
  "failure_event_reason (MergeFailedEvent r) = r"
| "failure_event_reason VerificationFailedEvent = VerificationFailure"
| "failure_event_reason TaskCloseFailedEvent = CloseFailed"

definition recordMergePhaseFailure ::
    "'s tb_env \<Rightarrow> lifecycle_input \<Rightarrow> MergePhaseFailureEvent \<Rightarrow> merge_diagnostics
     \<Rightarrow> ('s, HubTaskLifecycleResult) tb_act" where
  "recordMergePhaseFailure E i ev d =
    (let reason = failure_event_reason ev in
     bind_act (appendHubTaskEvent (run_dir i)
       ((lifecycle_event i (failure_event_type ev) ''failed'')
         \<lparr>te_failureReason := Some (failure_reason_name reason),
          te_diagnosticSummary := md_diagnosticSummary d, te_diagnostics := md_diagnostics d,
          te_claim := li_claim i\<rparr>)) (\<lambda>_.
     bind_act (updateHubTaskStatus E (status_input (li_taskId i) HubFailed (li_metadata i) (Some reason)))
       (\<lambda>updatedTask.
     bind_act (recordHubTaskStatusAdvanced i (tp_hubStatus updatedTask) (Some reason) None None None) (\<lambda>_.
     ret_act \<lparr>lr_task = updatedTask, lr_hubStatus = tp_hubStatus updatedTask,
       lr_failureReason = Some reason\<rparr>))))"

fun enterMergePhase :: "'s tb_env \<Rightarrow> HubTaskProjection list \<Rightarrow> ('s, unit) tb_act" where
  "enterMergePhase E [] = ret_act ()"
| "enterMergePhase E (task # tasks) =
     bind_act (updateHubTaskStatus E (status_input (tp_id task) HubMerging (tp_metadata task) None)) (\<lambda>_.
     enterMergePhase E tasks)"

definition recordTaskMergeStarted :: "lifecycle_input \<Rightarrow> ('s, unit) tb_act" where
  "recordTaskMergeStarted i =
     appendHubTaskEvent (run_dir i) ((lifecycle_event i ''merge_started'' ''merging'')\<lparr>te_claim := li_claim i\<rparr>)"

definition recordMergeFailure ::
    "'s tb_env \<Rightarrow> lifecycle_input \<Rightarrow> HubFailureReason \<Rightarrow> merge_diagnostics
     \<Rightarrow> ('s, HubTaskLifecycleResult) tb_act" where
  "recordMergeFailure E i reason d = recordMergePhaseFailure E i (MergeFailedEvent reason) d"

definition recordVerificationFailure ::
    "'s tb_env \<Rightarrow> lifecycle_input \<Rightarrow> merge_diagnostics \<Rightarrow> ('s, HubTaskLifecycleResult) tb_act" where
  "recordVerificationFailure E i d = recordMergePhaseFailure E i VerificationFailedEvent d"

datatype HubLandingRepairExhaustionReason = MergeConflictUnresolved | VerificationExhausted

fun exhaustion_name :: "HubLandingRepairExhaustionReason \<Rightarrow> string" where
  "exhaustion_name MergeConflictUnresolved = ''merge_conflict_unresolved''"
| "exhaustion_name VerificationExhausted = ''verification_failed''"

definition recordRepairExhaustion ::
    "'s tb_env \<Rightarrow> lifecycle_input \<Rightarrow> HubLandingRepairExhaustionReason \<Rightarrow> merge_diagnostics
     \<Rightarrow> ('s, HubTaskLifecycleResult) tb_act" where
  "recordRepairExhaustion E i reason d =
    (let ty = (if reason = MergeConflictUnresolved then ''merge_failed'' else ''verification_failed'');
         name = JStr (exhaustion_name reason)
     in
     bind_act (appendHubTaskEvent (run_dir i)
       ((lifecycle_event i ty ''blocked'')
         \<lparr>te_reason := Some (exhaustion_name reason), te_diagnosticSummary := md_diagnosticSummary d,
          te_diagnostics := md_diagnostics d, te_claim := li_claim i\<rparr>)) (\<lambda>_.
     bind_act (updateHubTaskStatus E (status_input (li_taskId i) HubBlocked
       (jset (jset (jset (li_metadata i) ''blocked'' (JBool True)) ''blocked_reason'' name)
         ''blockedReason'' name) None)) (\<lambda>updatedTask.
     bind_act (recordHubTaskStatusAdvanced i (tp_hubStatus updatedTask) None None None None) (\<lambda>_.
     ret_act (toHubTaskLifecycleResult updatedTask)))))"

definition recordCloseFailure :: "'s tb_env \<Rightarrow> lifecycle_input \<Rightarrow> ('s, HubTaskLifecycleResult) tb_act" where
  "recordCloseFailure E i = recordMergePhaseFailure E i TaskCloseFailedEvent no_diagnostics"

text \<open>The closer of a task; \<open>closeHubTask\<close> unless another one is given.\<close>

type_synonym 's HubTaskCloser = "task_id \<Rightarrow> (string \<times> json) list \<Rightarrow> ('s, HubTaskProjection) tb_act"

definition recordTaskClosure ::
    "lifecycle_input \<Rightarrow> 's HubTaskCloser \<Rightarrow> ('s, HubTaskLifecycleResult) tb_act" where
  "recordTaskClosure i closer =
     bind_act (closer (li_taskId i) (li_metadata i)) (\<lambda>closedTask.
     bind_act (appendHubTaskEvent (run_dir i)
       ((lifecycle_event i ''task_closed'' (hub_status_name (tp_hubStatus closedTask)))
         \<lparr>te_claim := li_claim i\<rparr>)) (\<lambda>_.
     bind_act (recordHubTaskStatusAdvanced i (tp_hubStatus closedTask) None None None None) (\<lambda>_.
     ret_act (toHubTaskLifecycleResult closedTask))))"

definition revertTaskToWaitingForMerge :: "'s tb_env \<Rightarrow> HubTaskProjection \<Rightarrow> ('s, HubTaskProjection) tb_act" where
  "revertTaskToWaitingForMerge E task =
     updateHubTaskStatus E (status_input (tp_id task) HubWaitingForMerge (tp_metadata task) None)"

definition HUB_COLLABORATION_LABELS_TO_CLEAR :: "string list" where
  "HUB_COLLABORATION_LABELS_TO_CLEAR =
     [''needs-triage'', ''needs-info'', ''ready-for-agent'', ''ready-for-human'', ''blocked'', ''wontfix'',
      ''sync-conflict'']"

text \<open>The result is whether the completion was kept, and the task.\<close>

definition recordHubTaskSyncConflict ::
    "'s tb_env \<Rightarrow> task_id \<Rightarrow> string \<Rightarrow> ('s, bool \<times> HubTaskProjection) tb_act" where
  "recordHubTaskSyncConflict E t reason =
     bind_act (loadHubTask E t) (\<lambda>task.
     let kept = isCompletedHubStatus (tp_hubStatus task);
         i = status_input t (if kept then tp_hubStatus task else HubSyncConflict)
           [(''sync_state'', JStr ''conflict''), (''sync_conflict_reason'', JStr reason)] None
     in
     bind_act (updateHubTaskStatus E (i\<lparr>ui_labelsToRemove :=
       (if kept then [] else filter (\<lambda>l. l \<in> set (tp_labels task)) HUB_COLLABORATION_LABELS_TO_CLEAR)\<rparr>))
       (\<lambda>updatedTask. ret_act (kept, updatedTask)))"

definition stripClaimMetadata :: "(string \<times> json) list \<Rightarrow> (string \<times> json) list" where
  "stripClaimMetadata metadata = jdel metadata ''claim''"

definition persistHubTaskWithStrippedClaim ::
    "'s tb_env \<Rightarrow> task_id \<Rightarrow> HubTaskStatus \<Rightarrow> (string \<times> json) list \<Rightarrow> ('s, HubTaskLifecycleResult) tb_act" where
  "persistHubTaskWithStrippedClaim E t st metadata =
     bind_act (updateHubTaskStatus E (status_input t st (stripClaimMetadata metadata) None)) (\<lambda>updatedTask.
     ret_act (toHubTaskLifecycleResult updatedTask))"

definition releaseStaleHubTaskClaim ::
    "'s tb_env \<Rightarrow> task_id \<Rightarrow> HubTaskStatus \<Rightarrow> (string \<times> json) list \<Rightarrow> ('s, HubTaskLifecycleResult) tb_act" where
  "releaseStaleHubTaskClaim E t st metadata = persistHubTaskWithStrippedClaim E t st metadata"

definition recoverFailedHubTask ::
    "'s tb_env \<Rightarrow> task_id \<Rightarrow> HubTaskStatus \<Rightarrow> (string \<times> json) list \<Rightarrow> ('s, HubTaskLifecycleResult) tb_act" where
  "recoverFailedHubTask E t targetStatus metadata = persistHubTaskWithStrippedClaim E t targetStatus metadata"

definition completeCloseFailedRecovery ::
    "'s tb_env \<Rightarrow> task_id \<Rightarrow> (string \<times> json) list \<Rightarrow> ('s, HubTaskLifecycleResult) tb_act" where
  "completeCloseFailedRecovery E t metadata =
     bind_act (closeHubTask E t metadata) (\<lambda>closedTask. ret_act (toHubTaskLifecycleResult closedTask))"

subsection \<open>Where an interrupted task goes\<close>

fun completed_phase_name :: "string \<Rightarrow> string \<Rightarrow> HubTaskStatus option" where
  "completed_phase_name ty status =
     (if ty = ''task_review_succeeded'' then Some HubWaitingForMerge
      else if ty = ''task_implementation_succeeded'' then
        (if status = ''reviewing'' then Some HubReviewing
         else if status = ''waiting_for_merge'' then Some HubWaitingForMerge else None)
      else None)"

definition resolvePhaseCompletionStatus :: "HubTaskEvent option \<Rightarrow> HubTaskStatus option" where
  "resolvePhaseCompletionStatus event =
     (case event of None \<Rightarrow> None | Some e \<Rightarrow> completed_phase_name (te_type e) (te_status e))"

definition isPhaseCompletionEvent :: "HubTaskEvent \<Rightarrow> bool" where
  "isPhaseCompletionEvent e \<longleftrightarrow> resolvePhaseCompletionStatus (Some e) \<noteq> None"

definition latestPhaseCompletionEventByTask :: "HubTaskEvent list \<Rightarrow> task_id \<rightharpoonup> HubTaskEvent" where
  "latestPhaseCompletionEventByTask events =
     foldl (\<lambda>byTask e. if isPhaseCompletionEvent e then byTask(te_taskId e \<mapsto> e) else byTask) Map.empty events"

record InterruptedTaskRecoveryRoute =
  ro_targetStatus :: HubTaskStatus
  ro_preserveClaim :: bool
  ro_reason :: string

definition routeInterruptedTaskRecovery ::
    "HubTaskStatus \<Rightarrow> HubTaskEvent option \<Rightarrow> bool \<Rightarrow> InterruptedTaskRecoveryRoute" where
  "routeInterruptedTaskRecovery st latestEvent branchHasUnmergedWork =
     (case (resolvePhaseCompletionStatus latestEvent, latestEvent) of
        (Some phase, Some e) \<Rightarrow>
          \<lparr>ro_targetStatus = phase, ro_preserveClaim = True,
           ro_reason = ''Recovered interrupted '' @ hub_status_name st @ '' task to '' @ hub_status_name phase
             @ '' because the '' @ te_type e @ '' event shows that phase already completed; ''
             @ ''preserved claim metadata to resume the remaining phase.''\<rparr>
      | _ \<Rightarrow>
          \<lparr>ro_targetStatus = HubReadyForAgent, ro_preserveClaim = False,
           ro_reason = ''Recovered interrupted '' @ hub_status_name st @ '' task to ready_for_agent for a ''
             @ (if branchHasUnmergedWork
                then ''retry that reuses the preserved worktree (branch has existing unmerged commits); ''
                  @ ''released claim metadata.''
                else ''fresh implement (no success event and no branch commits); ''
                  @ ''released claim metadata.'')\<rparr>)"

subsection \<open>Which tasks are interrupted\<close>

definition isInterruptedExecutionStatus :: "HubTaskStatus \<Rightarrow> bool" where
  "isInterruptedExecutionStatus st \<longleftrightarrow> st \<in> {HubImplementing, HubReviewing, HubMerging}"

text \<open>The phase a task is stuck in, or \<open>None\<close> when it is not interrupted.\<close>

definition isInterruptedHubTaskExecution ::
    "HubTaskProjection \<Rightarrow> WorktreeLeaseRecord option \<Rightarrow> HubTaskStatus option" where
  "isInterruptedHubTaskExecution task lease =
     (if \<not> isInterruptedExecutionStatus (tp_hubStatus task) then None
      else if lease \<noteq> None \<and> wr_state (the lease) = ActiveState then None
      else Some (tp_hubStatus task))"

definition resolveTaskBranch :: "HubTaskProjection \<Rightarrow> string" where
  "resolveTaskBranch task =
     (case tp_claim task of
        Some c \<Rightarrow> (case hc_branch c of Some b \<Rightarrow> b | None \<Rightarrow> resolveHubTaskBranch (tp_id task) (tp_title task))
      | None \<Rightarrow> resolveHubTaskBranch (tp_id task) (tp_title task))"

definition lease_owner_task :: "WorktreeLeaseRecord \<Rightarrow> task_id option" where
  "lease_owner_task r = (case wr_owner r of None \<Rightarrow> None | Some ow \<Rightarrow> wo_taskId ow)"

definition lease_matches :: "HubTaskProjection \<Rightarrow> WorktreeLeaseRecord \<Rightarrow> bool" where
  "lease_matches task r \<longleftrightarrow>
     lease_owner_task r = Some (tp_id task) \<or> wr_branch r = resolveTaskBranch task
     \<or> wr_worktreeName r = branchToWorktreeName (resolveTaskBranch task)"

definition findWorktreeLeaseForTask ::
    "HubTaskProjection \<Rightarrow> WorktreeLeaseRecord list \<Rightarrow> WorktreeLeaseRecord option" where
  "findWorktreeLeaseForTask task leases = find (lease_matches task) leases"

record InterruptedHubTaskExecution =
  ie_taskId :: task_id
  ie_task :: HubTaskProjection
  ie_phase :: HubTaskStatus

definition detectInterruptedHubTaskExecutions ::
    "HubTaskProjection list \<Rightarrow> WorktreeLeaseRecord list \<Rightarrow> InterruptedHubTaskExecution list" where
  "detectInterruptedHubTaskExecutions tasks leases =
     List.map_filter (\<lambda>task. map_option
         (\<lambda>phase. \<lparr>ie_taskId = tp_id task, ie_task = task, ie_phase = phase\<rparr>)
         (isInterruptedHubTaskExecution task (findWorktreeLeaseForTask task leases))) tasks"

subsection \<open>What is reported about the leases of tasks\<close>

text \<open>The sentences \<open>message\<close> and \<open>nextAction\<close> of a diagnostic, made from its other fields, are left out.\<close>

datatype HubWorktreeLeaseDiagnosticReason =
    LeaseActiveExecution
  | LeaseMissing
  | LeaseActiveWithFailedClaim
  | LeaseStaleWithFailedClaim
  | LeaseActiveWithoutClaim

datatype presence = PActive | PStale | PMissing

record HubWorktreeLeaseDiagnostic =
  wd_taskId :: task_id
  wd_title :: string
  wd_reason :: HubWorktreeLeaseDiagnosticReason
  wd_branch :: string
  wd_worktreeName :: string
  wd_leaseState :: presence
  wd_claimState :: presence
  wd_pid :: "rat option"
  wd_owner :: "WorktreeLeaseOwner option"

definition resolveClaimState :: "HubTaskProjection \<Rightarrow> presence" where
  "resolveClaimState task =
     (if tp_claim task = None then PMissing
      else if tp_claimState task = Some ClaimActive then PActive else PStale)"

definition lease_presence :: "WorktreeLeaseRecord option \<Rightarrow> presence" where
  "lease_presence lease =
     (case lease of None \<Rightarrow> PMissing | Some r \<Rightarrow> if wr_state r = ActiveState then PActive else PStale)"

definition createTaskLeaseDiagnostic ::
    "HubTaskProjection \<Rightarrow> WorktreeLeaseRecord option \<Rightarrow> HubWorktreeLeaseDiagnosticReason
     \<Rightarrow> HubWorktreeLeaseDiagnostic" where
  "createTaskLeaseDiagnostic task lease reason =
     \<lparr>wd_taskId = tp_id task, wd_title = tp_title task, wd_reason = reason,
      wd_branch = resolveTaskBranch task, wd_worktreeName = branchToWorktreeName (resolveTaskBranch task),
      wd_leaseState = lease_presence lease, wd_claimState = resolveClaimState task,
      wd_pid = map_option wr_pid lease,
      wd_owner = (case lease of None \<Rightarrow> None | Some r \<Rightarrow> wr_owner r)\<rparr>"

definition buildHubWorktreeLeaseDiagnostic ::
    "HubTaskProjection \<Rightarrow> WorktreeLeaseRecord option \<Rightarrow> HubWorktreeLeaseDiagnostic option" where
  "buildHubWorktreeLeaseDiagnostic task lease =
    (let claimState = resolveClaimState task; leaseState = lease_presence lease;
         found = (\<lambda>reason. Some (createTaskLeaseDiagnostic task lease reason))
     in if claimState = PActive \<and> leaseState = PActive then found LeaseActiveExecution
        else if claimState = PActive \<and> leaseState = PMissing then found LeaseMissing
        else if tp_hubStatus task = HubFailed \<and> claimState = PStale \<and> leaseState = PActive
        then found LeaseActiveWithFailedClaim
        else if tp_hubStatus task = HubFailed \<and> claimState = PStale \<and> leaseState = PStale
        then found LeaseStaleWithFailedClaim
        else None)"

definition unclaimed_lease_diagnostic ::
    "HubTaskProjection list \<Rightarrow> task_id list \<Rightarrow> task_id list \<Rightarrow> WorktreeLeaseRecord
     \<Rightarrow> HubWorktreeLeaseDiagnostic option" where
  "unclaimed_lease_diagnostic tasks diagnosed active r =
     (case wr_owner r of
        None \<Rightarrow> None
      | Some ow \<Rightarrow>
          (case wo_taskId ow of
             None \<Rightarrow> None
           | Some t \<Rightarrow>
               if wr_state r \<noteq> ActiveState \<or> wo_kind ow \<noteq> HubKind \<or> t \<in> set active \<or> t \<in> set diagnosed
               then None
               else
                 (let task = find (\<lambda>x. tp_id x = t) tasks in
                  Some \<lparr>wd_taskId = t, wd_title = (case task of None \<Rightarrow> t | Some x \<Rightarrow> tp_title x),
                    wd_reason = LeaseActiveWithoutClaim, wd_branch = wr_branch r,
                    wd_worktreeName = wr_worktreeName r, wd_leaseState = PActive,
                    wd_claimState = (if task \<noteq> None \<and> tp_claim (the task) \<noteq> None then PStale else PMissing),
                    wd_pid = Some (wr_pid r), wd_owner = wr_owner r\<rparr>)))"

definition collectHubWorktreeLeaseDiagnosticsForTasks ::
    "(string \<Rightarrow> rat) \<Rightarrow> HubTaskProjection list \<Rightarrow> WorktreeLeaseRecord list
     \<Rightarrow> HubWorktreeLeaseDiagnostic list" where
  "collectHubWorktreeLeaseDiagnosticsForTasks collate tasks leases =
    (let of_tasks = List.map_filter
           (\<lambda>task. buildHubWorktreeLeaseDiagnostic task (findWorktreeLeaseForTask task leases)) tasks;
         active = map tp_id (filter (\<lambda>t. tp_claimState t = Some ClaimActive) tasks);
         of_leases = List.map_filter
           (unclaimed_lease_diagnostic tasks (map wd_taskId of_tasks) active) leases
     in sort_key (\<lambda>d. collate (wd_taskId d)) (of_tasks @ of_leases))"

end
