(* ===== verification/Branch_Cleanup.thy ===== *)
theory Branch_Cleanup
  imports Task_Lifecycle
begin

text \<open>
  Which branches of finished tasks may be deleted (\<open>src/src/hubManagedBranchCleanup.ts\<close>): the branches
  the hub created for a claim, merged, and not in use. The Git commands are read off a view of the
  repository; \<open>git\<close>'s ancestor relation is a parameter.
\<close>

subsection \<open>The repository\<close>

text \<open>
  The branches with their tips, the commit of \<open>HEAD\<close> (\<open>None\<close>: \<open>git rev-parse\<close> fails) and its branch,
  the lines of \<open>git worktree list --porcelain\<close>, and the worktrees with uncommitted changes.
\<close>

record branch_repo =
  br_heads :: "(string \<times> oid) list"
  br_HEAD :: "oid option"
  br_current :: "string option"
  br_worktreeLines :: "string list"
  br_dirty :: "string list"

record git_relation =
  gr_isAncestor :: "oid \<Rightarrow> oid \<Rightarrow> bool"
  gr_countAhead :: "oid \<Rightarrow> oid \<Rightarrow> nat"
    \<comment> \<open>\<open>git rev-list --count a..b\<close>\<close>

definition MANAGED_BRANCH_PREFIX :: string where
  "MANAGED_BRANCH_PREFIX = ''archloop/''"

definition isManagedBranch :: "string \<Rightarrow> bool" where
  "isManagedBranch branch \<longleftrightarrow> startsWith branch MANAGED_BRANCH_PREFIX"

subsection \<open>Who owns a branch\<close>

record HubManagedBranchOwnershipRecord =
  ow_taskId :: task_id
  ow_runId :: string
  ow_batchId :: string
  ow_branch :: string
  ow_claimedAt :: string
  ow_baseHead :: oid
  ow_branchExistedBeforeClaim :: bool

definition read_text :: "string option \<Rightarrow> string option" where
  "read_text v = (case v of None \<Rightarrow> None | Some s \<Rightarrow> if nonblank s then Some (js_trim s) else None)"

definition event_ownership :: "HubTaskEvent \<Rightarrow> HubManagedBranchOwnershipRecord option" where
  "event_ownership e =
     (case te_claim e of
        None \<Rightarrow> None
      | Some c \<Rightarrow>
          if te_type e \<noteq> ''task_claimed'' then None
          else
            (case (read_text (coalesce (hc_taskId c) (Some (te_taskId e))),
                   read_text (coalesce (hc_runId c) (Some (te_runId e))),
                   read_text (coalesce (hc_batchId c) (Some (te_batchId e))),
                   read_text (coalesce (hc_branch c) (Some (te_branch e))),
                   read_text (coalesce (hc_claimedAt c) (Some (te_createdAt e))),
                   read_text (hc_baseHead c), hc_branchExistedBeforeClaim c) of
               (Some t, Some run, Some batch, Some branch, Some claimed, Some base, Some existed) \<Rightarrow>
                 Some \<lparr>ow_taskId = t, ow_runId = run, ow_batchId = batch, ow_branch = branch,
                   ow_claimedAt = claimed, ow_baseHead = base, ow_branchExistedBeforeClaim = existed\<rparr>
             | _ \<Rightarrow> None))"

text \<open>\<open>collate\<close> stands for \<open>localeCompare\<close>.\<close>

definition record_ownership ::
    "(string \<Rightarrow> rat) \<Rightarrow> (string \<rightharpoonup> HubManagedBranchOwnershipRecord) \<Rightarrow> HubTaskEvent
     \<Rightarrow> (string \<rightharpoonup> HubManagedBranchOwnershipRecord)" where
  "record_ownership collate records e =
     (case event_ownership e of
        None \<Rightarrow> records
      | Some ow \<Rightarrow>
          (case records (ow_branch ow) of
             None \<Rightarrow> records(ow_branch ow \<mapsto> ow)
           | Some current \<Rightarrow>
               if collate (ow_claimedAt current) \<le> collate (ow_claimedAt ow)
               then records(ow_branch ow \<mapsto> ow) else records))"

definition collectOwnershipRecords ::
    "(string \<Rightarrow> rat) \<Rightarrow> HubTaskEvent list \<Rightarrow> (string \<rightharpoonup> HubManagedBranchOwnershipRecord)" where
  "collectOwnershipRecords collate events = foldl (record_ownership collate) Map.empty events"

subsection \<open>Worktrees\<close>

record GitWorktreeEntry =
  ge_path :: string
  ge_branch :: "string option"

text \<open>The entries read so far, and the path and the branch of the one being read.\<close>

type_synonym worktree_scan = "GitWorktreeEntry list \<times> string option \<times> string option"

definition flush_entry :: "worktree_scan \<Rightarrow> GitWorktreeEntry list" where
  "flush_entry scan =
     (case scan of (entries, path, branch) \<Rightarrow>
        (case path of
           Some p \<Rightarrow> if p \<noteq> [] then entries @ [\<lparr>ge_path = p, ge_branch = given branch\<rparr>] else entries
         | None \<Rightarrow> entries))"

definition worktree_line :: "worktree_scan \<Rightarrow> string \<Rightarrow> worktree_scan" where
  "worktree_line scan line =
     (if startsWith line ''worktree '' then (flush_entry scan, Some (js_trim (drop 9 line)), None)
      else if startsWith line ''branch refs/heads/''
      then (fst scan, fst (snd scan), Some (js_trim (drop 18 line)))
      else scan)"

definition parseWorktreeEntries :: "string list \<Rightarrow> GitWorktreeEntry list" where
  "parseWorktreeEntries lines = flush_entry (foldl worktree_line ([], None, None) lines)"

record BranchWorktreeState =
  ws_paths :: "string list"
  ws_checkedOut :: bool
  ws_dirtyManagedPaths :: "string list"

definition EMPTY_WORKTREE_STATE :: BranchWorktreeState where
  "EMPTY_WORKTREE_STATE = \<lparr>ws_paths = [], ws_checkedOut = False, ws_dirtyManagedPaths = []\<rparr>"

definition collectBranchWorktreeState ::
    "branch_repo \<Rightarrow> string \<Rightarrow> string \<Rightarrow> GitWorktreeEntry list \<Rightarrow> BranchWorktreeState" where
  "collectBranchWorktreeState R repoRoot branch entries =
    (let paths = map ge_path (filter (\<lambda>e. ge_branch e = Some branch) entries) in
     \<lparr>ws_paths = paths, ws_checkedOut = (paths \<noteq> []),
      ws_dirtyManagedPaths = filter (\<lambda>p. startsWith p (repoRoot @ ''/.archloop/worktrees'')
        \<and> p \<in> set (br_dirty R)) paths\<rparr>)"

definition activeLeasesForBranch :: "string \<Rightarrow> WorktreeLeaseRecord list \<Rightarrow> WorktreeLeaseRecord list" where
  "activeLeasesForBranch branch leases =
     filter (\<lambda>r. wr_branch r = branch \<and> wr_state r = ActiveState) leases"

subsection \<open>The evaluation of a branch\<close>

datatype HubManagedBranchCleanupSkipReason =
    MissingOwnership
  | MissingBranch
  | BranchExistedBeforeClaim
  | UnmergedWork
  | ActiveWorktreeLease
  | CheckedOutWorktree "string list"
  | DirtyPreservedWorktree "string list"

record HubManagedBranchCleanupCandidate =
  cc_branch :: string
  cc_ownership :: "HubManagedBranchOwnershipRecord option"
  cc_exists :: bool
  cc_mergedIntoTarget :: bool
  cc_worktreePaths :: "string list"
  cc_activeLeases :: "WorktreeLeaseRecord list"
  cc_skipReasons :: "HubManagedBranchCleanupSkipReason list"

definition evaluateCandidate ::
    "git_relation \<Rightarrow> branch_repo \<Rightarrow> string \<Rightarrow> string \<Rightarrow> HubManagedBranchOwnershipRecord option
     \<Rightarrow> GitWorktreeEntry list \<Rightarrow> WorktreeLeaseRecord list \<Rightarrow> oid \<Rightarrow> HubManagedBranchCleanupCandidate" where
  "evaluateCandidate G R repoRoot branch ownership entries leases targetHead =
    (let tip = map_of (br_heads R) branch;
         found = (tip \<noteq> None);
         merged = (found \<and> gr_isAncestor G (the tip) targetHead);
         ws = (if found then collectBranchWorktreeState R repoRoot branch entries else EMPTY_WORKTREE_STATE);
         active = activeLeasesForBranch branch leases;
         owner_reasons =
           (case ownership of
              None \<Rightarrow> [MissingOwnership]
            | Some ow \<Rightarrow> if ow_branchExistedBeforeClaim ow then [BranchExistedBeforeClaim] else [])
     in \<lparr>cc_branch = branch, cc_ownership = ownership, cc_exists = found, cc_mergedIntoTarget = merged,
         cc_worktreePaths = ws_paths ws, cc_activeLeases = active,
         cc_skipReasons = owner_reasons
           @ (if \<not> found then [MissingBranch] else [])
           @ (if found \<and> \<not> merged then [UnmergedWork] else [])
           @ (if active \<noteq> [] then [ActiveWorktreeLease] else [])
           @ (if ws_checkedOut ws then [CheckedOutWorktree (ws_paths ws)] else [])
           @ (if ws_dirtyManagedPaths ws \<noteq> []
              then [DirtyPreservedWorktree (ws_dirtyManagedPaths ws)] else [])\<rparr>)"

record HubManagedBranchCleanupEvaluation =
  ev_targetBranch :: string
  ev_targetHead :: oid
  ev_managedSafeCandidates :: "HubManagedBranchCleanupCandidate list"
  ev_managedBlockedBranches :: "HubManagedBranchCleanupCandidate list"
  ev_unownedCandidates :: "HubManagedBranchCleanupCandidate list"

text \<open>The branches of the refs, of the ownership records and of the worktrees, each once.\<close>

definition collectCandidateBranches ::
    "branch_repo \<Rightarrow> HubTaskEvent list \<Rightarrow> GitWorktreeEntry list \<Rightarrow> string list" where
  "collectCandidateBranches R events entries =
     sort (remdups
       (filter isManagedBranch (map (js_trim \<circ> fst) (br_heads R))
        @ map ow_branch (List.map_filter event_ownership events)
        @ filter isManagedBranch (List.map_filter ge_branch entries)))"

text \<open>\<open>None\<close>: the head of the repository cannot be read and the evaluation throws.\<close>

definition evaluateHubManagedBranchCleanup ::
    "git_relation \<Rightarrow> (string \<Rightarrow> rat) \<Rightarrow> string \<Rightarrow> branch_repo \<Rightarrow> HubTaskEvent list \<Rightarrow> WorktreeLeaseRecord list
     \<Rightarrow> HubManagedBranchCleanupEvaluation option" where
  "evaluateHubManagedBranchCleanup G collate repoRoot R events leases =
     (case br_HEAD R of
        None \<Rightarrow> None
      | Some head \<Rightarrow>
          (let owned = collectOwnershipRecords collate events;
               entries = parseWorktreeEntries (br_worktreeLines R);
               candidates = map (\<lambda>b. evaluateCandidate G R repoRoot b (owned b) entries leases head)
                 (collectCandidateBranches R events entries);
               order = sort_key (\<lambda>c. collate (cc_branch c))
           in Some \<lparr>ev_targetBranch = (case br_current R of Some b \<Rightarrow> if b \<noteq> [] then b else ''HEAD'' | None \<Rightarrow> ''HEAD''),
                ev_targetHead = head,
                ev_managedSafeCandidates =
                  order (filter (\<lambda>c. cc_ownership c \<noteq> None \<and> cc_skipReasons c = []) candidates),
                ev_managedBlockedBranches =
                  order (filter (\<lambda>c. cc_ownership c \<noteq> None \<and> cc_skipReasons c \<noteq> []) candidates),
                ev_unownedCandidates = order (filter (\<lambda>c. cc_ownership c = None) candidates)\<rparr>))"

definition findHubManagedBranchCleanupCandidate ::
    "HubManagedBranchCleanupEvaluation \<Rightarrow> string \<Rightarrow> HubManagedBranchCleanupCandidate option" where
  "findHubManagedBranchCleanupCandidate ev branch =
     (let of_branch = find (\<lambda>c. cc_branch c = branch) in
      coalesce (of_branch (ev_managedSafeCandidates ev))
        (coalesce (of_branch (ev_managedBlockedBranches ev)) (of_branch (ev_unownedCandidates ev))))"

subsection \<open>Deleting branches\<close>

record HubManagedBranchCleanupPlan =
  cp_managedBranches :: "string list"
  cp_historicalBranches :: "string list"
  cp_totalBranches :: nat

definition canDeleteHistoricalCandidate :: "HubManagedBranchCleanupCandidate \<Rightarrow> bool" where
  "canDeleteHistoricalCandidate c \<longleftrightarrow> list_all (\<lambda>r. r = MissingOwnership) (cc_skipReasons c)"

definition selectSafeHistoricalCleanupCandidates ::
    "HubManagedBranchCleanupEvaluation \<Rightarrow> HubManagedBranchCleanupCandidate list" where
  "selectSafeHistoricalCleanupCandidates ev = filter canDeleteHistoricalCandidate (ev_unownedCandidates ev)"

definition planHubManagedBranchCleanup ::
    "HubManagedBranchCleanupEvaluation \<Rightarrow> bool \<Rightarrow> HubManagedBranchCleanupPlan" where
  "planHubManagedBranchCleanup ev includeUnowned =
    (let managed = map cc_branch (ev_managedSafeCandidates ev);
         historical = (if includeUnowned then map cc_branch (selectSafeHistoricalCleanupCandidates ev) else [])
     in \<lparr>cp_managedBranches = managed, cp_historicalBranches = historical,
         cp_totalBranches = length managed + length historical\<rparr>)"

text \<open>
  \<open>git branch -d\<close>, which also refuses branches on its own account: \<open>deletes\<close> says whether it agrees.
\<close>

record cleanup_env =
  ce_git :: git_relation
  ce_collate :: "string \<Rightarrow> rat"
  ce_repoRoot :: string
  ce_deletes :: "branch_repo \<Rightarrow> string \<Rightarrow> bool"

datatype branch_error = BranchNotDeleted string | HeadUnreadable

definition without_branch :: "string \<Rightarrow> branch_repo \<Rightarrow> branch_repo" where
  "without_branch b R = R\<lparr>br_heads := filter (\<lambda>p. fst p \<noteq> b) (br_heads R)\<rparr>"

definition deleteGitBranch :: "cleanup_env \<Rightarrow> string \<Rightarrow> (branch_repo, branch_error, unit) act" where
  "deleteGitBranch C b =
     (\<lambda>R. if ce_deletes C R b then (Inr (), without_branch b R) else (Inl (BranchNotDeleted b), R))"

text \<open>The result: the managed and the historical branches that were deleted.\<close>

definition cleanupHubManagedBranches ::
    "cleanup_env \<Rightarrow> HubTaskEvent list \<Rightarrow> WorktreeLeaseRecord list \<Rightarrow> bool
     \<Rightarrow> (branch_repo, branch_error, string list \<times> string list) act" where
  "cleanupHubManagedBranches C events leases includeUnowned =
     bind_act (demand_act HeadUnreadable (\<lambda>R.
       evaluateHubManagedBranchCleanup (ce_git C) (ce_collate C) (ce_repoRoot C) R events leases)) (\<lambda>ev.
     let plan = planHubManagedBranchCleanup ev includeUnowned in
     bind_act (each_act (deleteGitBranch C) (cp_managedBranches plan)) (\<lambda>_.
     bind_act (each_act (deleteGitBranch C) (cp_historicalBranches plan)) (\<lambda>_.
     ret_act (cp_managedBranches plan, cp_historicalBranches plan))))"

end
