(* ===== verification/Task_Recovery.thy ===== *)
theory Task_Recovery
  imports Branch_Cleanup
begin

text \<open>
  Recovering failed and interrupted tasks (\<open>src/src/hubTaskRecover.ts\<close>), one by one, all at once, and at
  the start of a run (\<open>src/src/hubRunAutoRecover.ts\<close>).
\<close>

subsection \<open>Where a failed task goes\<close>

fun failure_reason_of :: "string \<Rightarrow> HubFailureReason" where
  "failure_reason_of s =
     (if s = ''agent_failed'' then AgentFailed
      else if s = ''sandbox_failed'' then SandboxFailed
      else if s = ''merge_conflict'' then MergeConflicted
      else if s = ''merge_failed'' then MergeFailed
      else if s = ''verification_failure'' then VerificationFailure
      else if s = ''close_failed'' then CloseFailed
      else UnknownFailure)"

definition readFailureReason :: "HubTaskProjection \<Rightarrow> HubFailureReason option" where
  "readFailureReason task =
     (case first_value (tp_metadata task) [''failureReason'', ''failure_reason''] of
        Some (JStr s) \<Rightarrow> Some (failure_reason_of s)
      | _ \<Rightarrow> None)"

text \<open>Unlike the one of \<open>taskBoard.ts\<close>, this test does not count \<open>false\<close>.\<close>

definition has_metadata :: "(string \<times> json) list \<Rightarrow> string list \<Rightarrow> bool" where
  "has_metadata metadata keys \<longleftrightarrow>
     list_ex (\<lambda>k. present (jget metadata k) \<and> jget metadata k \<noteq> Some (JBool False)) keys"

definition HUMAN_FAILURE_REASONS :: "HubFailureReason list" where
  "HUMAN_FAILURE_REASONS = [MergeConflicted, VerificationFailure]"

definition resolveFailedRecoveryTarget :: "HubTaskProjection \<Rightarrow> HubFailureReason option \<Rightarrow> HubTaskStatus" where
  "resolveFailedRecoveryTarget task failureReason =
    (let m = tp_metadata task in
     if has_metadata m [''wontfix'', ''wontFix'', ''rejected''] then HubWontfix
     else if has_metadata m [''blocked_reason'', ''blockedReason'', ''blocked_reason_kind'', ''blockedReasonKind'']
     then HubBlocked
     else if jget m ''slice_type'' = Some (JStr ''HITL'') \<or> jget m ''sliceType'' = Some (JStr ''HITL'')
       \<or> jget m ''kind'' = Some (JStr ''human'')
     then HubReadyForHuman
     else if failureReason \<noteq> None \<and> the failureReason \<in> set HUMAN_FAILURE_REASONS then HubReadyForHuman
     else HubReadyForAgent)"

definition COLLABORATION_STATUSES :: "HubTaskStatus list" where
  "COLLABORATION_STATUSES =
     [HubInbox, HubNeedsInfo, HubReadyForAgent, HubReadyForHuman, HubBlocked, HubSyncConflict]"

record StaleExecutionRecoveryPlan =
  sp_priorStatus :: HubTaskStatus
  sp_targetStatus :: HubTaskStatus
  sp_preserveClaim :: bool
  sp_reason :: string

definition resolveStaleExecutionSummary ::
    "InterruptedTaskRecoveryRoute \<Rightarrow> HubTaskStatus \<Rightarrow> HubFailureReason option \<Rightarrow> string" where
  "resolveStaleExecutionSummary route target failureReason =
     (if target = ro_targetStatus route then ro_reason route
      else if target = HubReadyForHuman \<and> failureReason \<noteq> None
        \<and> the failureReason \<in> set HUMAN_FAILURE_REASONS
      then ro_reason route @ '' Routed to ready_for_human because the task carries a human-failure reason (''
        @ failure_reason_name (the failureReason) @ '').''
      else ro_reason route @ '' Routed to '' @ hub_status_name target
        @ '' because the task's metadata overrides the default ready_for_agent destination.'')"

definition planStaleExecutionRecovery ::
    "HubTaskProjection \<Rightarrow> HubTaskEvent option \<Rightarrow> bool \<Rightarrow> StaleExecutionRecoveryPlan" where
  "planStaleExecutionRecovery task latestEvent branchHasUnmergedWork =
    (let route = routeInterruptedTaskRecovery (tp_hubStatus task) latestEvent branchHasUnmergedWork in
     if ro_preserveClaim route
     then \<lparr>sp_priorStatus = tp_hubStatus task, sp_targetStatus = ro_targetStatus route,
       sp_preserveClaim = True, sp_reason = ro_reason route\<rparr>
     else
       (let failureReason = readFailureReason task;
            target = resolveFailedRecoveryTarget task failureReason
        in \<lparr>sp_priorStatus = tp_hubStatus task, sp_targetStatus = target, sp_preserveClaim = False,
            sp_reason = resolveStaleExecutionSummary route target failureReason\<rparr>))"

subsection \<open>Recovering a task\<close>

text \<open>The task store and the repository, and operations on one of them.\<close>

record 's rc_state =
  rs_tasks :: "'s tb_state"
  rs_repo :: branch_repo

datatype rc_error = TaskError tb_error | RepoError branch_error

type_synonym ('s, 'a) rc_act = "('s rc_state, rc_error, 'a) act"

definition on_tasks :: "('s, 'a) tb_act \<Rightarrow> ('s, 'a) rc_act" where
  "on_tasks m = (\<lambda>s. case m (rs_tasks s) of
     (Inl e, t) \<Rightarrow> (Inl (TaskError e), s\<lparr>rs_tasks := t\<rparr>) | (Inr a, t) \<Rightarrow> (Inr a, s\<lparr>rs_tasks := t\<rparr>))"

definition on_repo :: "(branch_repo, branch_error, 'a) act \<Rightarrow> ('s, 'a) rc_act" where
  "on_repo m = (\<lambda>s. case m (rs_repo s) of
     (Inl e, R) \<Rightarrow> (Inl (RepoError e), s\<lparr>rs_repo := R\<rparr>) | (Inr a, R) \<Rightarrow> (Inr a, s\<lparr>rs_repo := R\<rparr>))"

text \<open>
  What the recovery runs with; \<open>re_verify\<close> says whether the verification of a task on its branch
  succeeds, \<open>re_leases\<close> are the worktree leases, and \<open>re_closer\<close> is \<open>completeCloseFailedRecovery\<close> unless
  another one is given.
\<close>

record 's rc_env =
  re_board :: "'s tb_env"
  re_cleanup :: cleanup_env
  re_verify :: "task_id \<Rightarrow> string \<Rightarrow> bool"
  re_leases :: "WorktreeLeaseRecord list"
  re_closer :: "'s HubTaskCloser"

definition defaultCloseFailedRecoveryCloser :: "'s tb_env \<Rightarrow> 's HubTaskCloser" where
  "defaultCloseFailedRecoveryCloser E t metadata =
     bind_act (completeCloseFailedRecovery E t metadata) (\<lambda>r. ret_act (lr_task r))"

datatype HubTaskRecoveryOutcome = ReleasedClaim | RecoveredFailed | RecoveredCloseFailed | Unchanged

record RecoverHubTaskResult =
  rh_outcome :: HubTaskRecoveryOutcome
  rh_priorStatus :: HubTaskStatus
  rh_hubStatus :: HubTaskStatus
  rh_summary :: string
  rh_task :: HubTaskProjection

definition HUB_RECOVERY_COMMENT_PREFIX :: string where
  "HUB_RECOVERY_COMMENT_PREFIX = ''> *This was generated by archLoop during task recovery.*''"

definition formatHubRecoveryComment :: "string \<Rightarrow> string" where
  "formatHubRecoveryComment summary =
     HUB_RECOVERY_COMMENT_PREFIX @ [CHR 0x0A, CHR 0x0A] @ js_trim summary"

definition isBranchMergedIntoHead :: "'s rc_env \<Rightarrow> branch_repo \<Rightarrow> string \<Rightarrow> bool" where
  "isBranchMergedIntoHead C R branch =
     (case (map_of (br_heads R) branch, br_HEAD R) of
        (Some tip, Some head) \<Rightarrow> gr_isAncestor (ce_git (re_cleanup C)) tip head
      | _ \<Rightarrow> False)"

definition hasBranchUnmergedWork :: "'s rc_env \<Rightarrow> branch_repo \<Rightarrow> string \<Rightarrow> bool" where
  "hasBranchUnmergedWork C R branch =
     (case (map_of (br_heads R) branch, br_HEAD R) of
        (Some tip, Some head) \<Rightarrow> 0 < gr_countAhead (ce_git (re_cleanup C)) head tip
      | _ \<Rightarrow> False)"

definition recordRecoveryResult ::
    "'s rc_env \<Rightarrow> task_id \<Rightarrow> RecoverHubTaskResult \<Rightarrow> string \<Rightarrow> ('s, RecoverHubTaskResult) rc_act" where
  "recordRecoveryResult C t result summary =
     bind_act (on_tasks (appendHubTaskComment (re_board C) t (formatHubRecoveryComment summary))) (\<lambda>_.
     ret_act (result\<lparr>rh_summary := summary\<rparr>))"

definition recoverToTargetStatus ::
    "'s rc_env \<Rightarrow> task_id \<Rightarrow> HubTaskProjection \<Rightarrow> HubTaskStatus \<Rightarrow> string
     \<Rightarrow> ('s, RecoverHubTaskResult) rc_act" where
  "recoverToTargetStatus C t task target summary =
     bind_act (on_tasks (recoverFailedHubTask (re_board C) t target (tp_metadata task))) (\<lambda>r.
     ret_act \<lparr>rh_outcome = RecoveredFailed, rh_priorStatus = tp_hubStatus task,
       rh_hubStatus = tp_hubStatus (lr_task r), rh_summary = summary, rh_task = lr_task r\<rparr>)"

definition recoverCloseFailedTask ::
    "'s rc_env \<Rightarrow> task_id \<Rightarrow> HubTaskProjection \<Rightarrow> ('s, RecoverHubTaskResult) rc_act" where
  "recoverCloseFailedTask C t task =
    (let branch = resolveTaskBranch task in
     bind_act (gets_act (\<lambda>s. isBranchMergedIntoHead C (rs_repo s) branch)) (\<lambda>merged.
     if \<not> merged then throw_act (TaskError (NotMergedIntoHead t branch))
     else if \<not> re_verify C (tp_id task) branch then throw_act (TaskError (RecoveryVerificationFailed t))
     else
       bind_act (on_tasks (re_closer C (tp_id task) (tp_metadata task))) (\<lambda>closedTask.
       let summary = ''Recovered close_failed task after confirming '' @ branch
             @ '' is already merged, rerunning verification, and retrying local Beads close.''
       in recordRecoveryResult C t
         \<lparr>rh_outcome = RecoveredCloseFailed, rh_priorStatus = tp_hubStatus task,
          rh_hubStatus = tp_hubStatus closedTask, rh_summary = summary, rh_task = closedTask\<rparr> summary)))"

text \<open>The sentences of the skip reasons and of a failed deletion are abbreviated.\<close>

definition attemptRecoveryCleanup :: "'s rc_env \<Rightarrow> string \<Rightarrow> ('s, string) rc_act" where
  "attemptRecoveryCleanup C branch =
    (let K = re_cleanup C in
     bind_act (gets_act (\<lambda>s. readTaskEvents (rs_tasks s))) (\<lambda>events.
     bind_act (on_repo (demand_act HeadUnreadable (\<lambda>R.
       evaluateHubManagedBranchCleanup (ce_git K) (ce_collate K) (ce_repoRoot K) R events (re_leases C)))) (\<lambda>ev.
     case findHubManagedBranchCleanupCandidate ev branch of
       None \<Rightarrow> ret_act (''Cleanup skipped for '' @ branch @ '': branch is missing.'')
     | Some c \<Rightarrow>
         if cc_ownership c = None
         then ret_act (''Cleanup skipped for '' @ branch @ '': branch has no Hub-managed ownership record.'')
         else if cc_skipReasons c \<noteq> [] then ret_act (''Cleanup skipped for '' @ branch)
         else catch_act
           (bind_act (on_repo (deleteGitBranch K branch)) (\<lambda>_.
            ret_act (''Deleted safe managed branch '' @ branch @ '' after recovery.'')))
           (\<lambda>e. ret_act (''Cleanup failed for '' @ branch)))))"

definition recoverGenericFailedTask ::
    "'s rc_env \<Rightarrow> task_id \<Rightarrow> HubTaskProjection \<Rightarrow> HubFailureReason option
     \<Rightarrow> ('s, RecoverHubTaskResult) rc_act" where
  "recoverGenericFailedTask C t task failureReason =
    (let branch = resolveTaskBranch task in
     bind_act (gets_act (\<lambda>s. hasBranchUnmergedWork C (rs_repo s) branch)) (\<lambda>work.
     if work \<and> tp_claim task \<noteq> None
     then
       (let summary = ''Moved failed task from failed to waiting_for_merge because '' @ branch
              @ '' has existing unmerged work.''
        in bind_act (on_tasks (updateHubTaskStatus (re_board C)
             (status_input t HubWaitingForMerge (tp_metadata task) None))) (\<lambda>updatedTask.
           recordRecoveryResult C t
             \<lparr>rh_outcome = RecoveredFailed, rh_priorStatus = tp_hubStatus task,
              rh_hubStatus = tp_hubStatus updatedTask, rh_summary = summary, rh_task = updatedTask\<rparr> summary))
     else
       (let target = resolveFailedRecoveryTarget task failureReason in
        bind_act (recoverToTargetStatus C t task target
          (''Moved failed task from failed to '' @ hub_status_name target
            @ '' and cleared execution failure metadata.'')) (\<lambda>recovered.
        bind_act (attemptRecoveryCleanup C branch) (\<lambda>cleanup.
        recordRecoveryResult C t recovered (rh_summary recovered @ CHR '' '' # cleanup))))))"

definition releaseStaleClaim ::
    "'s rc_env \<Rightarrow> task_id \<Rightarrow> HubTaskProjection \<Rightarrow> ('s, RecoverHubTaskResult) rc_act" where
  "releaseStaleClaim C t task =
    (let summary = ''Released stale claim metadata while keeping hub status ''
           @ hub_status_name (tp_hubStatus task) @ ''.''
     in bind_act (on_tasks (releaseStaleHubTaskClaim (re_board C) t (tp_hubStatus task) (tp_metadata task)))
       (\<lambda>r. recordRecoveryResult C t
         \<lparr>rh_outcome = ReleasedClaim, rh_priorStatus = tp_hubStatus task,
          rh_hubStatus = tp_hubStatus (lr_task r), rh_summary = summary, rh_task = lr_task r\<rparr> summary))"

definition resolveLatestPhaseCompletionEvent :: "task_id \<Rightarrow> ('s, HubTaskEvent option) rc_act" where
  "resolveLatestPhaseCompletionEvent t =
     gets_act (\<lambda>s. latestPhaseCompletionEventByTask (readTaskEvents (rs_tasks s)) t)"

definition resolveStaleExecutionPlan ::
    "'s rc_env \<Rightarrow> HubTaskProjection \<Rightarrow> ('s, StaleExecutionRecoveryPlan) rc_act" where
  "resolveStaleExecutionPlan C task =
     bind_act (resolveLatestPhaseCompletionEvent (tp_id task)) (\<lambda>latestEvent.
     bind_act (gets_act (\<lambda>s. latestEvent = None
       \<and> hasBranchUnmergedWork C (rs_repo s) (resolveTaskBranch task))) (\<lambda>work.
     ret_act (planStaleExecutionRecovery task latestEvent work)))"

definition recoverStaleExecutionStatus ::
    "'s rc_env \<Rightarrow> task_id \<Rightarrow> HubTaskProjection \<Rightarrow> ('s, RecoverHubTaskResult) rc_act" where
  "recoverStaleExecutionStatus C t task =
     bind_act (resolveStaleExecutionPlan C task) (\<lambda>plan.
     if sp_preserveClaim plan
     then
       (if sp_priorStatus plan = sp_targetStatus plan
        then ret_act \<lparr>rh_outcome = Unchanged, rh_priorStatus = tp_hubStatus task,
          rh_hubStatus = tp_hubStatus task, rh_summary = sp_reason plan, rh_task = task\<rparr>
        else
          bind_act (on_tasks (updateHubTaskStatus (re_board C)
            (status_input t (sp_targetStatus plan) (tp_metadata task) None))) (\<lambda>updatedTask.
          recordRecoveryResult C t
            \<lparr>rh_outcome = RecoveredFailed, rh_priorStatus = tp_hubStatus task,
             rh_hubStatus = tp_hubStatus updatedTask, rh_summary = sp_reason plan, rh_task = updatedTask\<rparr>
            (sp_reason plan)))
     else
       bind_act (recoverToTargetStatus C t task (sp_targetStatus plan) (sp_reason plan)) (\<lambda>result.
       recordRecoveryResult C t result (rh_summary result)))"

definition recoverHubTask :: "'s rc_env \<Rightarrow> task_id \<Rightarrow> ('s, RecoverHubTaskResult) rc_act" where
  "recoverHubTask C t =
     bind_act (on_tasks (loadHubTask (re_board C) t)) (\<lambda>task.
     let failureReason = readFailureReason task in
     if tp_hubStatus task = HubFailed
     then (if failureReason = Some CloseFailed then recoverCloseFailedTask C t task
           else recoverGenericFailedTask C t task failureReason)
     else if isInterruptedExecutionStatus (tp_hubStatus task) then recoverStaleExecutionStatus C t task
     else if tp_claimState task = Some ClaimStale \<and> tp_hubStatus task \<in> set COLLABORATION_STATUSES
     then releaseStaleClaim C t task
     else throw_act (TaskError (NothingToRecover t (tp_hubStatus task))))"

subsection \<open>Recovering all interrupted tasks\<close>

record StaleHubTaskRecoveryEntry =
  se_taskId :: task_id
  se_title :: string
  se_phase :: HubTaskStatus
  se_plan :: StaleExecutionRecoveryPlan
  se_outcome :: "HubTaskRecoveryOutcome option"

text \<open>
  The tasks are recovered one after the other. The result says whether the recovery was applied.
\<close>

definition recoverStaleHubTasks ::
    "'s rc_env \<Rightarrow> bool \<Rightarrow> ('s, bool \<times> StaleHubTaskRecoveryEntry list) rc_act" where
  "recoverStaleHubTasks C yes =
     bind_act (on_tasks (loadHubTaskBoard (re_board C))) (\<lambda>board.
     let interrupted = detectInterruptedHubTaskExecutions (bo_tasks board) (re_leases C) in
     bind_act (each_act (\<lambda>ie. resolveStaleExecutionPlan C (ie_task ie)) interrupted) (\<lambda>plans.
     let entries = map (\<lambda>(ie, plan). \<lparr>se_taskId = ie_taskId ie, se_title = tp_title (ie_task ie),
           se_phase = ie_phase ie, se_plan = plan, se_outcome = None\<rparr>) (zip interrupted plans)
     in
     if \<not> yes \<or> entries = [] then ret_act (False, entries)
     else
       bind_act (each_act (\<lambda>ie. bind_act (recoverHubTask C (ie_taskId ie)) (\<lambda>r.
         ret_act (ie_taskId ie, rh_outcome r))) interrupted) (\<lambda>outcomes.
       ret_act (True, map (\<lambda>en. en\<lparr>se_outcome := map_of (rev outcomes) (se_taskId en)\<rparr>) entries))))"

record HubRunAutoRecoveryEntry =
  ar_taskId :: task_id
  ar_priorStatus :: HubTaskStatus
  ar_hubStatus :: HubTaskStatus
  ar_outcome :: HubTaskRecoveryOutcome
  ar_interruptedPhase :: HubTaskStatus
  ar_summary :: string

record HubRunAutoRecoverSummary =
  as_recoveries :: "HubRunAutoRecoveryEntry list"
  as_failures :: "(task_id \<times> HubTaskStatus \<times> rc_error) list"

definition auto_entry :: "InterruptedHubTaskExecution \<Rightarrow> RecoverHubTaskResult \<Rightarrow> HubRunAutoRecoveryEntry" where
  "auto_entry ie r =
     \<lparr>ar_taskId = ie_taskId ie, ar_priorStatus = rh_priorStatus r, ar_hubStatus = rh_hubStatus r,
      ar_outcome = rh_outcome r, ar_interruptedPhase = ie_phase ie, ar_summary = rh_summary r\<rparr>"

text \<open>A recovery that left the task as it is does not count.\<close>

fun recover_each ::
    "'s rc_env \<Rightarrow> HubRunAutoRecoverSummary \<Rightarrow> InterruptedHubTaskExecution list
     \<Rightarrow> ('s, HubRunAutoRecoverSummary) rc_act" where
  "recover_each C acc [] = ret_act acc"
| "recover_each C acc (ie # ies) =
     bind_act (catch_act
       (bind_act (recoverHubTask C (ie_taskId ie)) (\<lambda>r. ret_act
         (if rh_outcome r = Unchanged then acc
          else acc\<lparr>as_recoveries := as_recoveries acc @ [auto_entry ie r]\<rparr>)))
       (\<lambda>e. ret_act (acc\<lparr>as_failures := as_failures acc @ [(ie_taskId ie, ie_phase ie, e)]\<rparr>))) (\<lambda>acc'.
     recover_each C acc' ies)"

definition EMPTY_SUMMARY :: HubRunAutoRecoverSummary where
  "EMPTY_SUMMARY = \<lparr>as_recoveries = [], as_failures = []\<rparr>"

definition autoRecoverInterruptedHubTasks :: "'s rc_env \<Rightarrow> ('s, HubRunAutoRecoverSummary) rc_act" where
  "autoRecoverInterruptedHubTasks C =
     bind_act (catch_act
       (bind_act (on_tasks (loadHubTaskBoard (re_board C))) (\<lambda>board. ret_act (bo_tasks board)))
       (\<lambda>e. ret_act [])) (\<lambda>tasks.
     recover_each C EMPTY_SUMMARY (detectInterruptedHubTaskExecutions tasks (re_leases C)))"

end
