(* ===== verification/Lifecycle_Properties.thy ===== *)
theory Lifecycle_Properties
  imports Task_Recovery
begin

text \<open>
  What holds of the life of a task: which branches a cleanup deletes, where the recovery sends a task that
  was interrupted, what happens to its claim, and that a live worktree lease protects both the task and
  its branch.
\<close>

subsection \<open>What a cleanup deletes\<close>

text \<open>A branch that is merged into the head, in no worktree, and without a live lease.\<close>

definition out_of_use ::
    "git_relation \<Rightarrow> branch_repo \<Rightarrow> WorktreeLeaseRecord list \<Rightarrow> string \<Rightarrow> bool" where
  "out_of_use G R leases b \<longleftrightarrow>
     (\<exists>tip head. map_of (br_heads R) b = Some tip \<and> br_HEAD R = Some head \<and> gr_isAncestor G tip head)
     \<and> (\<forall>e \<in> set (parseWorktreeEntries (br_worktreeLines R)). ge_branch e \<noteq> Some b)
     \<and> (\<forall>r \<in> set leases. wr_branch r = b \<longrightarrow> wr_state r \<noteq> ActiveState)"

text \<open>A branch the hub made for the claim that owns it.\<close>

definition made_by_hub :: "(string \<Rightarrow> rat) \<Rightarrow> HubTaskEvent list \<Rightarrow> string \<Rightarrow> bool" where
  "made_by_hub collate events b \<longleftrightarrow>
     (\<exists>ow. collectOwnershipRecords collate events b = Some ow \<and> \<not> ow_branchExistedBeforeClaim ow)"

lemma evaluateCandidate_simps [simp]:
  "cc_branch (evaluateCandidate G R base b owner entries leases head) = b"
  "cc_ownership (evaluateCandidate G R base b owner entries leases head) = owner"
  by (simp_all add: evaluateCandidate_def Let_def)

lemma no_real_reason:
  assumes "list_all (\<lambda>r. r = MissingOwnership)
    (cc_skipReasons (evaluateCandidate G R base b owner (parseWorktreeEntries (br_worktreeLines R)) leases head))"
    and "br_HEAD R = Some head"
  shows "out_of_use G R leases b \<and> (owner = None \<or> \<not> ow_branchExistedBeforeClaim (the owner))"
proof -
  let ?entries = "parseWorktreeEntries (br_worktreeLines R)"
  obtain tip where tip: "map_of (br_heads R) b = Some tip" and merged: "gr_isAncestor G tip head"
    using assms(1) by (cases "map_of (br_heads R) b") (auto simp: evaluateCandidate_def Let_def split: if_splits)
  have "\<not> ws_checkedOut (collectBranchWorktreeState R base b ?entries)"
    using assms(1) tip by (auto simp: evaluateCandidate_def Let_def split: if_splits)
  then have trees: "\<forall>e \<in> set ?entries. ge_branch e \<noteq> Some b"
    by (auto simp: collectBranchWorktreeState_def Let_def filter_empty_conv)
  have "activeLeasesForBranch b leases = []"
    using assms(1) by (auto simp: evaluateCandidate_def Let_def split: if_splits)
  then have "\<forall>r \<in> set leases. wr_branch r = b \<longrightarrow> wr_state r \<noteq> ActiveState"
    by (auto simp: activeLeasesForBranch_def filter_empty_conv)
  moreover have "owner = None \<or> \<not> ow_branchExistedBeforeClaim (the owner)"
    using assms(1) by (cases owner) (auto simp: evaluateCandidate_def Let_def split: if_splits)
  ultimately show ?thesis using tip merged trees assms(2) by (simp add: out_of_use_def)
qed

lemma evaluation_candidate:
  assumes "evaluateHubManagedBranchCleanup G collate base R events leases = Some ev"
    and "c \<in> set (ev_managedSafeCandidates ev) \<union> set (ev_managedBlockedBranches ev) \<union> set (ev_unownedCandidates ev)"
  shows "\<exists>b head. br_HEAD R = Some head \<and> c = evaluateCandidate G R base b (collectOwnershipRecords collate events b)
     (parseWorktreeEntries (br_worktreeLines R)) leases head"
  using assms by (auto simp: evaluateHubManagedBranchCleanup_def Let_def split: option.splits)

lemma evaluation_lists:
  assumes "evaluateHubManagedBranchCleanup G collate base R events leases = Some ev"
  shows "\<forall>c \<in> set (ev_managedSafeCandidates ev). cc_ownership c \<noteq> None \<and> cc_skipReasons c = []"
    and "\<forall>c \<in> set (ev_managedBlockedBranches ev). cc_ownership c \<noteq> None \<and> cc_skipReasons c \<noteq> []"
    and "\<forall>c \<in> set (ev_unownedCandidates ev). cc_ownership c = None"
  using assms by (auto simp: evaluateHubManagedBranchCleanup_def Let_def split: option.splits)

lemma safe_candidate:
  assumes ev: "evaluateHubManagedBranchCleanup G collate base R events leases = Some ev"
    and c: "c \<in> set (ev_managedSafeCandidates ev) \<union> set (ev_managedBlockedBranches ev) \<union> set (ev_unownedCandidates ev)"
    and ok: "list_all (\<lambda>r. r = MissingOwnership) (cc_skipReasons c)"
  shows "out_of_use G R leases (cc_branch c)
     \<and> (cc_ownership c \<noteq> None \<longrightarrow> made_by_hub collate events (cc_branch c))"
proof -
  obtain b head where head: "br_HEAD R = Some head" and eq: "c = evaluateCandidate G R base b
      (collectOwnershipRecords collate events b) (parseWorktreeEntries (br_worktreeLines R)) leases head"
    using evaluation_candidate [OF ev c] by blast
  then show ?thesis
    using no_real_reason [OF ok [unfolded eq] head] by (auto simp: made_by_hub_def)
qed

lemma deletes_result:
  "each_act (deleteGitBranch C) bs R = (r, R') \<Longrightarrow>
     \<exists>D. set D \<subseteq> set bs \<and> R' = R\<lparr>br_heads := filter (\<lambda>p. fst p \<notin> set D) (br_heads R)\<rparr>"
proof (induction bs arbitrary: R r R')
  case Nil
  then show ?case by (auto intro: exI [of _ "[]"])
next
  case (Cons b bs)
  show ?case
  proof (cases "ce_deletes C R b")
    case False
    with Cons.prems have "R' = R" by (simp add: deleteGitBranch_def bind_act_def)
    then show ?thesis by (intro exI [of _ "[]"]) simp
  next
    case True
    then have step: "deleteGitBranch C b R = (Inr (), without_branch b R)" by (simp add: deleteGitBranch_def)
    obtain r' R'' where rest: "each_act (deleteGitBranch C) bs (without_branch b R) = (r', R'')" by fastforce
    then have "R'' = R'" using Cons.prems step by (cases r') (simp_all add: bind_act_def ret_act_def)
    with rest have "each_act (deleteGitBranch C) bs (without_branch b R) = (r', R')" by simp
    from Cons.IH [OF this] obtain D where "set D \<subseteq> set bs"
      "R' = (without_branch b R)\<lparr>br_heads := filter (\<lambda>p. fst p \<notin> set D) (br_heads (without_branch b R))\<rparr>"
      by blast
    then show ?thesis by (intro exI [of _ "b # D"]) (auto simp: without_branch_def intro: filter_cong)
  qed
qed

lemma cleanup_result:
  assumes "cleanupHubManagedBranches C events leases includeUnowned R = (r, R')"
  shows "R' = R\<lparr>br_heads := br_heads R'\<rparr> \<and> set (br_heads R') \<subseteq> set (br_heads R)
     \<and> (\<forall>b. b \<in> fst ` set (br_heads R) \<and> b \<notin> fst ` set (br_heads R') \<longrightarrow>
          out_of_use (ce_git C) R leases b \<and> (includeUnowned \<or> made_by_hub (ce_collate C) events b))"
proof (cases "evaluateHubManagedBranchCleanup (ce_git C) (ce_collate C) (ce_repoRoot C) R events leases")
  case None
  with assms show ?thesis by (auto simp: cleanupHubManagedBranches_def bind_act_def demand_act_def)
next
  case (Some ev)
  let ?plan = "planHubManagedBranchCleanup ev includeUnowned"
  let ?all = "cp_managedBranches ?plan @ cp_historicalBranches ?plan"
  have ok: "out_of_use (ce_git C) R leases b \<and> (includeUnowned \<or> made_by_hub (ce_collate C) events b)"
    if b: "b \<in> set ?all" for b
  proof -
    obtain c where c: "b = cc_branch c" "list_all (\<lambda>r. r = MissingOwnership) (cc_skipReasons c)"
      "includeUnowned \<or> cc_ownership c \<noteq> None"
      "c \<in> set (ev_managedSafeCandidates ev) \<union> set (ev_managedBlockedBranches ev) \<union> set (ev_unownedCandidates ev)"
      using b evaluation_lists(1) [OF Some]
      by (auto simp: planHubManagedBranchCleanup_def selectSafeHistoricalCleanupCandidates_def
          canDeleteHistoricalCandidate_def Let_def split: if_splits)
    then show ?thesis using safe_candidate [OF Some c(4,2)] by blast
  qed
  obtain r1 R1 where first: "each_act (deleteGitBranch C) (cp_managedBranches ?plan) R = (r1, R1)"
    by fastforce
  obtain D1 where D1: "set D1 \<subseteq> set (cp_managedBranches ?plan)"
    "R1 = R\<lparr>br_heads := filter (\<lambda>p. fst p \<notin> set D1) (br_heads R)\<rparr>"
    using deletes_result [OF first] by blast
  obtain r2 R2 where second: "each_act (deleteGitBranch C) (cp_historicalBranches ?plan) R1 = (r2, R2)"
    by fastforce
  obtain D2 where D2: "set D2 \<subseteq> set (cp_historicalBranches ?plan)"
    "R2 = R1\<lparr>br_heads := filter (\<lambda>p. fst p \<notin> set D2) (br_heads R1)\<rparr>"
    using deletes_result [OF second] by blast
  have "R' = R1 \<or> R' = R2"
    using assms Some first second
    by (cases r1; cases r2) (auto simp: cleanupHubManagedBranches_def bind_act_def demand_act_def Let_def ret_act_def)
  then obtain D where D: "set D \<subseteq> set ?all" "R' = R\<lparr>br_heads := filter (\<lambda>p. fst p \<notin> set D) (br_heads R)\<rparr>"
  proof
    assume "R' = R1"
    then show thesis using D1 by (intro that [of D1]) auto
  next
    assume "R' = R2"
    then show thesis using D1 D2 by (intro that [of "D1 @ D2"]) (auto intro: filter_cong)
  qed
  then have "R' = R\<lparr>br_heads := br_heads R'\<rparr>" "set (br_heads R') \<subseteq> set (br_heads R)" by auto
  moreover have "b \<in> set ?all" if "b \<in> fst ` set (br_heads R)" "b \<notin> fst ` set (br_heads R')" for b
    using that D by force
  ultimately show ?thesis using ok by blast
qed

text \<open>
  C6: whether it ends well or throws half way, a cleanup (\<open>cleanupHubManagedBranches\<close>) changes nothing but
  the branches, and every branch that is gone was merged into the head, in no worktree and without a live
  lease; without the option for historical branches it was made by the hub for the claim that owns it.
\<close>

theorem cleanup_spares_work:
  assumes "cleanupHubManagedBranches C events leases includeUnowned R = (r, R')"
  shows "R' = R\<lparr>br_heads := br_heads R'\<rparr> \<and> set (br_heads R') \<subseteq> set (br_heads R)
     \<and> (\<forall>b. b \<in> fst ` set (br_heads R) \<and> b \<notin> fst ` set (br_heads R') \<longrightarrow>
          out_of_use (ce_git C) R leases b \<and> (includeUnowned \<or> made_by_hub (ce_collate C) events b))"
  by (rule cleanup_result [OF assms])

definition demo_repo :: branch_repo where
  "demo_repo = \<lparr>br_heads = [(''main'', ''h''), (''archloop/t-1'', ''c'')], br_HEAD = Some ''h'',
     br_current = Some ''main'', br_worktreeLines = [''worktree /repo'', ''branch refs/heads/main''], br_dirty = []\<rparr>"

definition demo_cleanup :: cleanup_env where
  "demo_cleanup = \<lparr>ce_git = \<lparr>gr_isAncestor = (\<lambda>a b. True), gr_countAhead = (\<lambda>a b. 0)\<rparr>,
     ce_collate = (\<lambda>s. of_nat (length s)), ce_repoRoot = ''/repo'', ce_deletes = (\<lambda>R b. True)\<rparr>"

definition demo_claim_event :: HubTaskEvent where
  "demo_claim_event =
     (plain_event ''task_claimed'' ''run-1'' ''b-1'' ''t-1'' ''archloop/t-1'' ''T1'' ''implementing'')
       \<lparr>te_claim := Some (demo_claim ''run-1'')\<rparr>"

lemma demo_cleanup_run:
  "cleanupHubManagedBranches demo_cleanup [demo_claim_event] [] False demo_repo =
     (Inr ([''archloop/t-1''], []), without_branch ''archloop/t-1'' demo_repo)"
  by code_simp

lemma cleanup_spares_work_witness:
  "\<exists>r R'. cleanupHubManagedBranches demo_cleanup [demo_claim_event] [] False demo_repo = (r, R')
     \<and> ''archloop/t-1'' \<notin> fst ` set (br_heads R')
     \<and> out_of_use (ce_git demo_cleanup) demo_repo [] ''archloop/t-1''
     \<and> made_by_hub (ce_collate demo_cleanup) [demo_claim_event] ''archloop/t-1''"
  using cleanup_spares_work [OF demo_cleanup_run] demo_cleanup_run
  by (auto simp: without_branch_def demo_repo_def)

subsection \<open>A live worktree lease\<close>

text \<open>A directory of locks in which every file is the lock of the branch it names.\<close>

definition sound_locks :: "wl_state \<Rightarrow> bool" where
  "sound_locks s \<longleftrightarrow> distinct (map fst (wl_locks s))
     \<and> (\<forall>(name, raw) \<in> set (wl_locks s). \<exists>m. raw = Text (metadata_json m) \<and> metadata_ok m
         \<and> trimmed (wm_branch m) \<and> nonblank (wm_acquiredAt m) \<and> name = lock_of (wm_branch m))"

lemma listed_lease:
  assumes "metadata_ok m" and "trimmed (wm_branch m)" and "nonblank (wm_acquiredAt m)"
    and r_def: "r = parseWorktreeLeaseFile alive (lock_of (wm_branch m)) (Text (metadata_json m))"
  shows "wr_branch r = wm_branch m" and "wr_worktreeName r = branchToWorktreeName (wm_branch m)"
    and "wr_owner r = None" and "alive (of_int (wm_pid m)) \<Longrightarrow> wr_state r = ActiveState"
proof -
  have get: "jget (metadata_fields m) ''branch'' = Some (JStr (wm_branch m))"
    "jget (metadata_fields m) ''pid'' = Some (jint (wm_pid m))"
    "jget (metadata_fields m) ''acquiredAt'' = Some (JStr (wm_acquiredAt m))"
    "\<exists>s. jget (metadata_fields m) ''owner'' = Some (JStr s)"
    by (cases m; simp add: jget_Cons)+
  then have owner: "parseWorktreeLeaseOwner (jget (metadata_fields m) ''owner'') = None"
    by (auto simp: parseWorktreeLeaseOwner_def)
  have branch: "nonblank (wm_branch m)" "js_trim (wm_branch m) = wm_branch m"
    using assms(2) trimmed_nonblank by (auto simp: trimmed_def)
  have r: "r = \<lparr>wr_lockFileName = lock_of (wm_branch m), wr_worktreeName = branchToWorktreeName (wm_branch m),
      wr_branch = wm_branch m, wr_pid = of_int (wm_pid m), wr_acquiredAt = js_trim (wm_acquiredAt m),
      wr_owner = None, wr_state = (if alive (of_int (wm_pid m)) then ActiveState else StaleState),
      wr_malformed = False\<rparr>"
    unfolding r_def
    by (simp add: parseWorktreeLeaseFile_def readObject_metadata get(1-3) owner branch assms(3) either_field_def
        lease_name_of_lock jint_def Let_def)
  then show "wr_branch r = wm_branch m" "wr_worktreeName r = branchToWorktreeName (wm_branch m)"
    "wr_owner r = None" "alive (of_int (wm_pid m)) \<Longrightarrow> wr_state r = ActiveState"
    by simp_all
qed

lemma live_lease_found:
  assumes sound: "sound_locks s" and lock: "(lock_of b, Text (metadata_json m)) \<in> set (wl_locks s)"
    and m: "metadata_ok m" "trimmed (wm_branch m)" "nonblank (wm_acquiredAt m)" "wm_branch m = b"
    and task: "resolveTaskBranch task = b"
  shows "findWorktreeLeaseForTask task (listWorktreeLeases collate alive s) =
     Some (parseWorktreeLeaseFile alive (lock_of b) (Text (metadata_json m)))"
proof -
  let ?r = "parseWorktreeLeaseFile alive (lock_of b) (Text (metadata_json m))"
  let ?ls = "listWorktreeLeases collate alive s"
  have is_lock: "endsWith (lock_of b) ''.lock''" by (simp add: lock_of_def leaseLockPath_def endsWith_def)
  have in_list: "?r \<in> set ?ls"
    using lock is_lock by (force simp: listWorktreeLeases_def)
  have matches: "lease_matches task ?r"
    using listed_lease(1) [OF m(1-3) refl, of alive] m(4) task by (simp add: lease_matches_def)
  have unique: "x = ?r" if x: "x \<in> set ?ls" "lease_matches task x" for x
  proof -
    obtain name raw where entry: "(name, raw) \<in> set (wl_locks s)" and eq: "x = parseWorktreeLeaseFile alive name raw"
      using x(1) by (auto simp: listWorktreeLeases_def)
    then obtain n where n: "raw = Text (metadata_json n)" "metadata_ok n" "trimmed (wm_branch n)"
      "nonblank (wm_acquiredAt n)" "name = lock_of (wm_branch n)"
      using sound unfolding sound_locks_def by blast
    note l = listed_lease [OF n(2-4) refl, of alive]
    have "branchToWorktreeName (wm_branch n) = branchToWorktreeName b"
      using x(2) task l(1-3) eq n(1,5) by (auto simp: lease_matches_def lease_owner_task_def)
    then have "name = lock_of b" using n(5) by (simp add: lock_of_inject)
    with entry lock sound have "raw = Text (metadata_json m)"
      unfolding sound_locks_def by (metis eq_key_imp_eq_value)
    then show "x = ?r" using eq \<open>name = lock_of b\<close> by simp
  qed
  have "find (lease_matches task) ?ls = Some ?r"
  proof (cases "find (lease_matches task) ?ls")
    case None
    then show ?thesis using in_list matches by (simp add: find_None_iff)
  next
    case (Some x)
    then show ?thesis using unique [of x] by (auto simp: find_Some_iff)
  qed
  then show ?thesis by (simp add: findWorktreeLeaseForTask_def)
qed


definition demo_lease :: WorktreeLeaseMetadata where
  "demo_lease = HubLease ''t-1'' ''flow'' ''b-1'' ''archloop/t-1'' 7 ''T1''"

definition demo_locks :: wl_state where
  "demo_locks = \<lparr>wl_locks = [(lock_of ''archloop/t-1'', Text (metadata_json demo_lease))], wl_trees = [''archloop-t-1'']\<rparr>"

definition demo_task :: HubTaskProjection where
  "demo_task = projectHubTask (tb_numText mem_env) (mem_record ''t-1'' failed_view)"

lemma demo_task_branch: "resolveTaskBranch demo_task = ''archloop/t-1''"
proof -
  have "shows_view demo_task ''t-1'' failed_view"
    unfolding demo_task_def by (rule bd_record_projection [OF mem_record [OF failed_labels(2)]])
  then show ?thesis
    by (simp add: shows_view_def failed_view_shape resolveTaskBranch_def demo_claim_def
        createHubTaskClaimMetadata_def)
qed

lemma demo_sound_locks: "sound_locks demo_locks"
  by (simp add: sound_locks_def demo_locks_def demo_lease_def trimmed_def js_trim_def js_space_def nonblank_def
      exI [of _ "HubLease ''t-1'' ''flow'' ''b-1'' ''archloop/t-1'' 7 ''T1''"])


subsection \<open>The latest finished phase\<close>

definition completions :: "task_id \<Rightarrow> HubTaskEvent list \<Rightarrow> HubTaskEvent list" where
  "completions t events = filter (\<lambda>e. isPhaseCompletionEvent e \<and> te_taskId e = t) events"

lemma latest_completion:
  "latestPhaseCompletionEventByTask events t =
     (if completions t events = [] then None else Some (last (completions t events)))"
proof (induction events rule: rev_induct)
  case Nil
  then show ?case by (simp add: latestPhaseCompletionEventByTask_def completions_def)
next
  case (snoc e events)
  have "latestPhaseCompletionEventByTask (events @ [e]) =
      (if isPhaseCompletionEvent e then (latestPhaseCompletionEventByTask events)(te_taskId e \<mapsto> e)
       else latestPhaseCompletionEventByTask events)"
    by (simp add: latestPhaseCompletionEventByTask_def)
  then show ?case using snoc by (simp add: completions_def)
qed

lemma completions_append: "completions t (xs @ ys) = completions t xs @ completions t ys"
  by (simp add: completions_def)

definition lines_of :: "HubTaskEvent option list \<Rightarrow> HubTaskEvent list" where
  "lines_of ls = List.map_filter (\<lambda>l. l) ls"

lemma lines_of_append: "lines_of (xs @ ys) = lines_of xs @ lines_of ys"
  by (simp add: lines_of_def map_filter_append)

lemma readTaskEvents_lines:
  "readTaskEvents s = concat (map (\<lambda>p. lines_of (snd p)) (sort_key fst (ts_events s)))"
  by (simp add: readTaskEvents_def lines_of_def)

lemma append_line_keys:
  "map fst (append_line files name line) = (if name \<in> fst ` set files then map fst files else map fst files @ [name])"
  by (auto simp: append_line_def)

lemma append_line_member:
  "p \<in> set (append_line files name line) \<Longrightarrow> fst p \<noteq> name \<Longrightarrow> p \<in> set files"
  by (auto simp: append_line_def split: if_splits)

lemma append_line_added: "\<exists>ls. (name, ls @ [line]) \<in> set (append_line files name line)"
proof (cases "name \<in> fst ` set files")
  case True
  then obtain ls where "(name, ls) \<in> set files" by auto
  then have "(name, ls @ [line]) \<in> (\<lambda>p. if fst p = name then (name, snd p @ [line]) else p) ` set files"
    by (rule rev_image_eqI) simp
  then show ?thesis using True by (auto simp: append_line_def)
next
  case False
  then show ?thesis by (intro exI [of _ "[]"]) (simp add: append_line_def)
qed

lemma append_line_distinct: "distinct (map fst files) \<Longrightarrow> distinct (map fst (append_line files name line))"
  by (simp add: append_line_keys)

text \<open>
  A phase that was recorded last in its run is the latest one, provided the directory of no other run with
  finished phases of the task sorts behind the directory of this run.
\<close>

lemma appended_completion_is_latest:
  assumes d: "distinct (map fst (ts_events s))"
    and newest: "\<forall>(name, ls) \<in> set (ts_events s). completions (te_taskId e) (lines_of ls) \<noteq> [] \<longrightarrow> name \<le> dir"
    and e: "isPhaseCompletionEvent e"
    and u: "ts_events u = append_line (ts_events s) dir (Some e)"
  shows "latestPhaseCompletionEventByTask (readTaskEvents u) (te_taskId e) = Some e"
proof -
  let ?t = "te_taskId e" and ?files = "append_line (ts_events s) dir (Some e)"
  obtain ls where entry: "(dir, ls @ [Some e]) \<in> set ?files"
    using append_line_added [of dir "Some e" "ts_events s"] by blast
  let ?sorted = "sort_key fst ?files"
  have "(dir, ls @ [Some e]) \<in> set ?sorted" using entry by simp
  then obtain A B where AB: "?sorted = A @ (dir, ls @ [Some e]) # B" by (metis split_list)
  have "sorted (map fst ?sorted)" by simp
  moreover have "distinct (map fst ?sorted)"
    using append_line_distinct [OF d] by (simp add: distinct_map)
  ultimately have later: "dir \<le> fst p \<and> fst p \<noteq> dir" if "p \<in> set B" for p
    using that unfolding AB by (auto simp: sorted_append)
  have none: "completions ?t (lines_of (snd p)) = []" if p: "p \<in> set B" for p
  proof (rule ccontr)
    assume ne: "completions ?t (lines_of (snd p)) \<noteq> []"
    have "p \<in> set ?sorted" unfolding AB using p by simp
    then have "p \<in> set (ts_events s)" using append_line_member later [OF p] by fastforce
    then have "fst p \<le> dir" using newest ne by (cases p) auto
    with later [OF p] show False by auto
  qed
  then have "completions ?t (concat (map (\<lambda>p. lines_of (snd p)) B)) = []"
    by (induction B) (auto simp: completions_append completions_def [of _ "[]"])
  moreover have "completions ?t (lines_of (ls @ [Some e])) = completions ?t (lines_of ls) @ [e]"
    using e by (simp add: lines_of_append completions_append) (simp add: lines_of_def completions_def List.map_filter_simps)
  ultimately have "\<exists>xs. completions ?t (readTaskEvents u) = xs @ [e]"
    by (simp add: readTaskEvents_lines u AB completions_append)
  then show ?thesis by (auto simp: latest_completion)
qed

subsection \<open>Recovering an interrupted task\<close>

text \<open>\<open>bd comment\<close> on a task of the store succeeds and leaves what is modelled of the tasks alone.\<close>

definition comments_keep :: "'s bd \<Rightarrow> ('s \<Rightarrow> task_id \<Rightarrow> bd_view option) \<Rightarrow> bool" where
  "comments_keep B view \<longleftrightarrow>
     (\<forall>s t body. view s t \<noteq> None \<longrightarrow> (\<exists>u. bd_run B s (BdComment t body) = Some u \<and> view u = view s))"

lemma mem_comments: "comments_keep mem_bd mem_view"
  by (simp add: comments_keep_def mem_bd_def)

lemma phase_claim_required: "resolvePhaseCompletionStatus ev = Some p \<Longrightarrow> p \<in> {HubReviewing, HubWaitingForMerge}"
  by (auto simp: resolvePhaseCompletionStatus_def split: option.splits if_splits)

lemma kept_claim:
  assumes shown: "shows_view task t v" and claim: "tp_claim task = Some c" "complete_claim (Some c)"
    and st: "ui_hubStatus i \<in> set CLAIM_REQUIRED_STATUSES" and replace: "\<not> ui_replaceClaimMetadata i"
  shows "claim_ready i task" and "claim_written i task = Some c"
proof -
  have "readHubTaskClaim (bv_metadata v) = Some c" using shown claim by (simp add: shows_view_def)
  then have round: "readHubTaskClaim [(''claim'', JObj (hc_raw c))] = Some c" "hc_raw c \<noteq> []"
    using claim_of_raw claim_record_nonempty by blast+
  have keeps: "\<not> shouldClearClaimForStatus (ui_hubStatus i)" using st by (simp add: claim_required_kept)
  then have "resolveTransitionClaim task (ui_hubStatus i) (ui_metadata i) (ui_replaceClaimMetadata i) = Some (hc_raw c)"
    using claim(1) round(2) replace by (simp add: resolveTransitionClaim_def)
  then show "claim_ready i task" "claim_written i task = Some c"
    using round claim(2) keeps unfolding claim_ready_def claim_written_def by (simp_all add: Let_def)
qed

lemma outcome_claim:
  assumes "transition_outcome view i task before after task'" and ready: "transition_ready i task"
    and st: "ui_hubStatus i \<in> set CLAIM_REQUIRED_STATUSES"
  shows "tp_claim task' = claim_written i task"
proof -
  obtain x where "shows_view task' (ui_taskId i) x" "view_after i task x"
    using assms(1) unfolding transition_outcome_def by blast
  then have "tp_claim task' = readHubTaskClaim (bv_metadata x)"
    "jget (bv_metadata x) = jget (transition_metadata i task)"
    by (simp_all add: shows_view_def view_after_def)
  then show ?thesis
    using claim_after [of i task "bv_metadata x"] ready st
    by (auto simp: transition_ready_def claim_required_kept)
qed

text \<open>Moving a task with a claim to a status that needs one.\<close>

lemma claimed_transition:
  assumes laws: "bd_laws (tb_bd E) view" "view (ts_store s) t = Some v" "trimmed t" "list_all plain_label (bv_labels v)"
    and load: "loadHubTask E t s = (Inr task, s)"
    and claim: "tp_claim task = Some c" "complete_claim (Some c)"
    and st: "st \<in> set CLAIM_REQUIRED_STATUSES"
    and md: "normalizeHubTaskStatus (jget (tp_metadata task) ''hub_status'') \<in> {None, Some st}"
      "reasons_ready (status_input t st metadata None) task"
  shows "\<exists>task' u w. updateHubTaskStatus E (status_input t st metadata None) s = (Inr task', s\<lparr>ts_store := u\<rparr>)
     \<and> view u t = Some w \<and> shows_view task' t w \<and> tp_hubStatus task' = st \<and> tp_claim task' = Some c"
proof -
  let ?i = "status_input t st metadata None"
  have shown: "shows_view task t v" using load_shows [OF laws(1-3)] load by auto
  have i: "ui_taskId ?i = t" "ui_hubStatus ?i = st" "\<not> ui_replaceClaimMetadata ?i"
    by (simp_all add: status_input_def)
  note kept = kept_claim [OF shown claim, of ?i, unfolded i(2), OF st i(3)]
  have ready: "transition_ready ?i task" using md kept(1) i(2) by (simp add: transition_ready_def)
  obtain task' u where run: "transitionHubTaskStatus E ?i s = (Inr task', s\<lparr>ts_store := u\<rparr>)"
    and out: "transition_outcome view ?i task (ts_store s) u task'"
    using transition_result [of E view s ?i v task, unfolded i(1), OF laws load ready] by blast
  moreover have "tp_claim task' = Some c"
    using outcome_claim [OF out ready] st i(2) kept(2) by simp
  ultimately show ?thesis
    unfolding transition_outcome_def updateHubTaskStatus_def i(1,2) by blast
qed

lemma recover_finished_phase:
  assumes laws: "bd_laws (tb_bd (re_board C)) view" "view (ts_store (rs_tasks s)) t = Some v" "trimmed t"
      "list_all plain_label (bv_labels v)" and comments: "comments_keep (tb_bd (re_board C)) view"
    and load: "loadHubTask (re_board C) t (rs_tasks s) = (Inr task, rs_tasks s)"
    and status: "isInterruptedExecutionStatus (tp_hubStatus task)"
    and latest: "latestPhaseCompletionEventByTask (readTaskEvents (rs_tasks s)) t = Some e"
    and phase: "resolvePhaseCompletionStatus (Some e) = Some p"
    and claim: "tp_claim task = Some c" "complete_claim (Some c)"
    and md: "normalizeHubTaskStatus (jget (tp_metadata task) ''hub_status'') \<in> {None, Some p}"
      "reasons_ready (status_input t p (tp_metadata task) None) task"
  shows "\<exists>r u w. recoverHubTask C t s = (Inr r, u) \<and> rh_hubStatus r = p \<and> tp_hubStatus (rh_task r) = p
     \<and> tp_claim (rh_task r) = Some c \<and> view (ts_store (rs_tasks u)) t = Some w \<and> shows_view (rh_task r) t w
     \<and> rs_repo u = rs_repo s"
proof -
  have shown: "shows_view task t v" using load_shows [OF laws(1-3)] load by auto
  have st: "p \<in> set CLAIM_REQUIRED_STATUSES"
    using phase_claim_required [OF phase] by (auto simp: CLAIM_REQUIRED_STATUSES_def)
  have id: "tp_id task = t" using shown by (simp add: shows_view_def)
  let ?plan = "planStaleExecutionRecovery task (Some e) False"
  have plan: "sp_preserveClaim ?plan" "sp_targetStatus ?plan = p" "sp_priorStatus ?plan = tp_hubStatus task"
    using phase by (simp_all add: planStaleExecutionRecovery_def routeInterruptedTaskRecovery_def Let_def)
  have resolved: "resolveStaleExecutionPlan C task s = (Inr ?plan, s)"
    using latest id by (simp add: resolveStaleExecutionPlan_def resolveLatestPhaseCompletionEvent_def act_defs)
  have not_failed: "tp_hubStatus task \<noteq> HubFailed" using status by (auto simp: isInterruptedExecutionStatus_def)
  have recover: "recoverHubTask C t s = recoverStaleExecutionStatus C t task s"
    using load status not_failed by (simp add: recoverHubTask_def on_tasks_def bind_act_def Let_def)
  show ?thesis
  proof (cases "tp_hubStatus task = p")
    case True
    then have "recoverHubTask C t s = (Inr \<lparr>rh_outcome = Unchanged, rh_priorStatus = tp_hubStatus task,
        rh_hubStatus = tp_hubStatus task, rh_summary = sp_reason ?plan, rh_task = task\<rparr>, s)"
      using recover resolved plan by (simp add: recoverStaleExecutionStatus_def bind_act_def ret_act_def)
    then show ?thesis using True claim laws(2) shown by auto
  next
    case False
    obtain task' w x where run: "updateHubTaskStatus (re_board C) (status_input t p (tp_metadata task) None) (rs_tasks s)
        = (Inr task', (rs_tasks s)\<lparr>ts_store := w\<rparr>)"
      and out: "view w t = Some x" "shows_view task' t x" "tp_hubStatus task' = p" "tp_claim task' = Some c"
      using claimed_transition [OF laws load claim st md] by blast
    obtain y where comment: "bd_run (tb_bd (re_board C)) w
        (BdComment t (formatHubRecoveryComment (sp_reason ?plan))) = Some y" "view y = view w"
      using comments out(1) unfolding comments_keep_def by (metis option.distinct(1))
    let ?u = "s\<lparr>rs_tasks := (rs_tasks s)\<lparr>ts_store := y\<rparr>\<rparr>"
    let ?r = "\<lparr>rh_outcome = RecoveredFailed, rh_priorStatus = tp_hubStatus task, rh_hubStatus = tp_hubStatus task',
      rh_summary = sp_reason ?plan, rh_task = task'\<rparr>"
    have "recoverHubTask C t s = (Inr ?r, ?u)"
      using recover resolved plan False run comment(1)
      by (simp add: recoverStaleExecutionStatus_def bind_act_def on_tasks_def recordRecoveryResult_def
          appendHubTaskComment_def runBdText_def demand_act_def modify_act_def ret_act_def)
    then show ?thesis using out comment(2) by auto
  qed
qed


text \<open>
  C36: the recovery looks for the latest finished phase among the events of all runs, in the order of the
  names of their directories. A task that was claimed again and interrupted before anything was finished is
  therefore sent on to the phase that an earlier run finished, with the new claim: to the merge, say,
  although this run has implemented nothing.
\<close>

theorem phase_of_another_run_is_resumed:
  assumes "bd_laws (tb_bd (re_board C)) view" and "view (ts_store (rs_tasks s)) t = Some v" and "trimmed t"
    and "list_all plain_label (bv_labels v)" and "comments_keep (tb_bd (re_board C)) view"
    and "loadHubTask (re_board C) t (rs_tasks s) = (Inr task, rs_tasks s)"
    and "tp_hubStatus task = HubImplementing"
    and "tp_claim task = Some c" and "complete_claim (Some c)"
    and "\<forall>e \<in> set (completions t (readTaskEvents (rs_tasks s))). te_runId e \<noteq> the (hc_runId c)"
    and "e \<in> set (completions t (readTaskEvents (rs_tasks s)))" and "te_type e = ''task_review_succeeded''"
    and "last (completions t (readTaskEvents (rs_tasks s))) = e"
    and "normalizeHubTaskStatus (jget (tp_metadata task) ''hub_status'') \<in> {None, Some HubWaitingForMerge}"
    and "reasons_ready (status_input t HubWaitingForMerge (tp_metadata task) None) task"
  shows "\<exists>r u. recoverHubTask C t s = (Inr r, u) \<and> tp_hubStatus (rh_task r) = HubWaitingForMerge
     \<and> tp_claim (rh_task r) = Some c"
proof -
  have "latestPhaseCompletionEventByTask (readTaskEvents (rs_tasks s)) t = Some e"
    using assms(11,13) by (auto simp: latest_completion)
  moreover have "resolvePhaseCompletionStatus (Some e) = Some HubWaitingForMerge"
    using assms(12) by (simp add: resolvePhaseCompletionStatus_def)
  moreover have "isInterruptedExecutionStatus (tp_hubStatus task)"
    using assms(7) by (simp add: isInterruptedExecutionStatus_def)
  ultimately show ?thesis
    using recover_finished_phase [of C view s t v task e HubWaitingForMerge c] assms(1-6,8,9,14,15) by blast
qed

definition working_view :: bd_view where
  "working_view = \<lparr>bv_status = ''in_progress'', bv_labels = [''implementing''],
     bv_metadata = [(''hubStatus'', JStr ''implementing''), (''claim'', JObj (hc_raw (demo_claim ''run-0'')))]\<rparr>"

lemma working_labels: "list_all plain_label (bv_labels working_view)" "list_all trimmed (bv_labels working_view)"
  by (simp_all add: working_view_def plain_label_def trimmed_def js_trim_def js_space_def)

lemma working_shape: "view_status working_view = HubImplementing"
    "readHubTaskClaim (bv_metadata working_view) = Some (demo_claim ''run-0'')"
proof -
  have "normalizeHubTaskStatus (Some (JStr ''implementing'')) = Some HubImplementing"
    using normalize_status_name [of HubImplementing] by simp
  then have ms: "resolveMetadataStatus (bv_metadata working_view) = Some HubImplementing"
    by (simp add: resolveMetadataStatus_def TASK_STATUS_KEYS_def working_view_def jget_Cons
        del: normalizeHubTaskStatus.simps(1))
  show "view_status working_view = HubImplementing"
    unfolding view_status_def
  proof (rule shape_status [OF _ ms])
    show "readFirstString [(''status'', JStr (bv_status working_view))] TASK_STATUS_KEYS = None"
      by (rule readFirstString_none) (simp add: TASK_STATUS_KEYS_def jget_Cons)
    show "resolveStatusFromLabels (bv_labels working_view) \<in> {None, Some HubInbox, Some HubImplementing}"
      using label_status [of HubImplementing] by (simp add: working_view_def)
    show "resolveStatusFromMetadataReasons (bv_metadata working_view) \<in> {None, Some HubImplementing}
        \<or> resolveStatusFromMetadataReasons (bv_metadata working_view) = Some HubSyncConflict
          \<and> isCompletedHubStatus HubImplementing"
      by (simp add: resolveStatusFromMetadataReasons_def METADATA_STATUS_RULES_def working_view_def
          hasTruthyMetadata_def jget_Cons)
  qed
  show "readHubTaskClaim (bv_metadata working_view) = Some (demo_claim ''run-0'')"
    using nested_claim [of "bv_metadata working_view" "hc_raw (demo_claim ''run-0'')"] demo_claim_roundtrip
    by (simp add: working_view_def jget_Cons)
qed

definition demo_recovery :: "mem_store rc_env" where
  "demo_recovery = \<lparr>re_board = mem_env, re_cleanup = demo_cleanup, re_verify = (\<lambda>t b. True), re_leases = [],
     re_closer = defaultCloseFailedRecoveryCloser mem_env\<rparr>"

definition demo_rc :: "(string \<times> HubTaskEvent option list) list \<Rightarrow> mem_store rc_state" where
  "demo_rc events = \<lparr>rs_tasks = (mem_state working_view)\<lparr>ts_events := events\<rparr>, rs_repo = demo_repo\<rparr>"

text \<open>The task of the demonstration, as it is loaded, and what the recovery needs of it.\<close>

lemma demo_working:
  "\<exists>task. loadHubTask (re_board demo_recovery) ''t-1'' (rs_tasks (demo_rc events)) = (Inr task, rs_tasks (demo_rc events))
     \<and> tp_hubStatus task = HubImplementing \<and> tp_claim task = Some (demo_claim ''run-0'')
     \<and> normalizeHubTaskStatus (jget (tp_metadata task) ''hub_status'') = None
     \<and> reasons_ready (status_input ''t-1'' HubWaitingForMerge (tp_metadata task) None) task"
proof -
  obtain task where load: "loadHubTask mem_env ''t-1'' (mem_state working_view) = (Inr task, mem_state working_view)"
    and shown: "shows_view task ''t-1'' working_view"
    using mem_loaded [OF working_labels(2)] by blast
  have "loadHubTask (re_board demo_recovery) ''t-1'' (rs_tasks (demo_rc events)) = (Inr task, rs_tasks (demo_rc events))"
    unfolding demo_recovery_def rc_env.simps by (rule loadHubTask_store [OF load]) (simp add: demo_rc_def)
  moreover have "reasons_ready (status_input ''t-1'' HubWaitingForMerge (tp_metadata task) None) task"
    using shown by (simp add: reasons_ready_def status_input_def shows_view_def patched_metadata_def Let_def
        working_view_def clearTransitionOwnedMetadataPatchKeys_def jget_Cons)
  moreover have "normalizeHubTaskStatus (jget (tp_metadata task) ''hub_status'') = None"
    using shown by (simp add: shows_view_def working_view_def jget_Cons)
  ultimately show ?thesis using shown by (auto simp: shows_view_def working_shape)
qed

lemma demo_recovery_laws:
  "bd_laws (tb_bd (re_board demo_recovery)) mem_view" "comments_keep (tb_bd (re_board demo_recovery)) mem_view"
  "mem_view (ts_store (rs_tasks (demo_rc events))) ''t-1'' = Some working_view"
  using mem_seen [OF working_labels(2)]
  by (simp_all add: demo_recovery_def mem_env_def mem_laws mem_comments demo_rc_def)

definition demo_step :: lifecycle_input where
  "demo_step = \<lparr>li_context = \<lparr>lx_runId = ''run-0'', lx_batchId = ''b-1'', lx_runDir = ''/hub/runs/run-0''\<rparr>,
     li_taskId = ''t-1'', li_branch = ''archloop/t-1'', li_metadata = [], li_claim = None, li_createdAt = ''T2''\<rparr>"

definition demo_work :: implementation_work where
  "demo_work = \<lparr>iw_claim = demo_claim ''run-0'', iw_commitCount = 2, iw_branchHasUnmergedWork = None,
     iw_implementationWork = None\<rparr>"


definition old_review_event :: HubTaskEvent where
  "old_review_event = plain_event ''task_review_succeeded'' ''run-z'' ''b-0'' ''t-1'' ''archloop/t-1'' ''T0'' ''waiting_for_merge''"

lemma phase_of_another_run_is_resumed_witness:
  "\<exists>r u. recoverHubTask demo_recovery ''t-1'' (demo_rc [(''/hub/runs/run-z'', [Some old_review_event])]) = (Inr r, u)
     \<and> tp_hubStatus (rh_task r) = HubWaitingForMerge \<and> tp_claim (rh_task r) = Some (demo_claim ''run-0'')"
proof -
  let ?events = "[(''/hub/runs/run-z'', [Some old_review_event])]"
  obtain task where task:
    "loadHubTask (re_board demo_recovery) ''t-1'' (rs_tasks (demo_rc ?events)) = (Inr task, rs_tasks (demo_rc ?events))"
    "tp_hubStatus task = HubImplementing" "tp_claim task = Some (demo_claim ''run-0'')"
    "normalizeHubTaskStatus (jget (tp_metadata task) ''hub_status'') = None"
    "reasons_ready (status_input ''t-1'' HubWaitingForMerge (tp_metadata task) None) task"
    using demo_working by blast
  have done_events: "completions ''t-1'' (readTaskEvents (rs_tasks (demo_rc ?events))) = [old_review_event]"
    by (simp add: completions_def readTaskEvents_def demo_rc_def List.map_filter_simps isPhaseCompletionEvent_def
        old_review_event_def plain_event_def resolvePhaseCompletionStatus_def)
  show ?thesis
    using phase_of_another_run_is_resumed [OF demo_recovery_laws(1,3) demo_id working_labels(1)
        demo_recovery_laws(2) task(1-3) demo_claim_roundtrip(2), of old_review_event] task(4,5)
    unfolding done_events
    by (simp add: old_review_event_def plain_event_def demo_claim_def createHubTaskClaimMetadata_def
        del: normalizeHubTaskStatus.simps)
qed

subsection \<open>Recovering everything\<close>

lemma recover_each_result:
  "\<exists>res u. recover_each C acc ies s = (Inr res, u)
     \<and> (\<exists>rs fs. as_recoveries res = as_recoveries acc @ rs \<and> as_failures res = as_failures acc @ fs
          \<and> length rs + length fs \<le> length ies
          \<and> set (map ar_taskId rs) \<union> set (map fst fs) \<subseteq> ie_taskId ` set ies
          \<and> list_all (\<lambda>r. ar_outcome r \<noteq> Unchanged) rs)"
proof (induction ies arbitrary: acc s)
  case Nil
  then show ?case by (simp add: ret_act_def)
next
  case (Cons ie ies)
  obtain r u where run: "recoverHubTask C (ie_taskId ie) s = (r, u)" by fastforce
  define acc' where "acc' = (case r of
      Inl e \<Rightarrow> acc\<lparr>as_failures := as_failures acc @ [(ie_taskId ie, ie_phase ie, e)]\<rparr>
    | Inr x \<Rightarrow> if rh_outcome x = Unchanged then acc
        else acc\<lparr>as_recoveries := as_recoveries acc @ [auto_entry ie x]\<rparr>)"
  have first: "recover_each C acc (ie # ies) s = recover_each C acc' ies u"
    using run by (cases r) (simp_all add: acc'_def bind_act_def catch_act_def ret_act_def)
  have grown: "\<exists>rs fs. as_recoveries acc' = as_recoveries acc @ rs \<and> as_failures acc' = as_failures acc @ fs
      \<and> length rs + length fs \<le> 1 \<and> set (map ar_taskId rs) \<union> set (map fst fs) \<subseteq> {ie_taskId ie}
      \<and> list_all (\<lambda>r. ar_outcome r \<noteq> Unchanged) rs"
    by (cases r) (auto simp: acc'_def auto_entry_def)
  then obtain rs1 fs1 where one: "as_recoveries acc' = as_recoveries acc @ rs1" "as_failures acc' = as_failures acc @ fs1"
      "length rs1 + length fs1 \<le> 1" "set (map ar_taskId rs1) \<union> set (map fst fs1) \<subseteq> {ie_taskId ie}"
      "list_all (\<lambda>r. ar_outcome r \<noteq> Unchanged) rs1"
    by blast
  obtain res v rs fs where "recover_each C acc' ies u = (Inr res, v)"
    "as_recoveries res = as_recoveries acc' @ rs" "as_failures res = as_failures acc' @ fs"
    "length rs + length fs \<le> length ies" "set (map ar_taskId rs) \<union> set (map fst fs) \<subseteq> ie_taskId ` set ies"
    "list_all (\<lambda>r. ar_outcome r \<noteq> Unchanged) rs"
    using Cons.IH [of acc' u] by blast
  then show ?case
    unfolding first using one
    by (intro exI [of _ res] exI [of _ v] conjI exI [of _ "rs1 @ rs"] exI [of _ "fs1 @ fs"]) auto
qed

text \<open>
  The recovery at the start of a run (\<open>autoRecoverInterruptedHubTasks\<close>) never throws. It does nothing
  when the board cannot be read; otherwise every interrupted task leads to at most one entry, a recovery
  that changed its status or a failure with its error, and no other task is mentioned.
\<close>

theorem auto_recovery_never_throws:
  "\<exists>res u. autoRecoverInterruptedHubTasks C s = (Inr res, u)
     \<and> (case fst (loadHubTaskBoard (re_board C) (rs_tasks s)) of
          Inl e \<Rightarrow> res = EMPTY_SUMMARY
        | Inr board \<Rightarrow>
            (let stuck = detectInterruptedHubTaskExecutions (bo_tasks board) (re_leases C)
             in length (as_recoveries res) + length (as_failures res) \<le> length stuck
                \<and> set (map ar_taskId (as_recoveries res)) \<union> set (map fst (as_failures res)) \<subseteq> ie_taskId ` set stuck
                \<and> list_all (\<lambda>r. ar_outcome r \<noteq> Unchanged) (as_recoveries res)))"
proof -
  obtain r t where load: "loadHubTaskBoard (re_board C) (rs_tasks s) = (r, t)" by fastforce
  show ?thesis
  proof (cases r)
    case (Inl e)
    then show ?thesis
      using load by (simp add: autoRecoverInterruptedHubTasks_def bind_act_def catch_act_def ret_act_def on_tasks_def
          detectInterruptedHubTaskExecutions_def List.map_filter_simps)
  next
    case (Inr board)
    let ?stuck = "detectInterruptedHubTaskExecutions (bo_tasks board) (re_leases C)"
    have "autoRecoverInterruptedHubTasks C s = recover_each C EMPTY_SUMMARY ?stuck (s\<lparr>rs_tasks := t\<rparr>)"
      using load Inr by (simp add: autoRecoverInterruptedHubTasks_def bind_act_def catch_act_def ret_act_def on_tasks_def)
    then show ?thesis
      using recover_each_result [of C EMPTY_SUMMARY ?stuck "s\<lparr>rs_tasks := t\<rparr>"] load Inr
      by (auto simp: EMPTY_SUMMARY_def Let_def)
  qed
qed

lemma plan_reads: "\<exists>plan. resolveStaleExecutionPlan C task s = (Inr plan, s)"
  by (simp add: resolveStaleExecutionPlan_def resolveLatestPhaseCompletionEvent_def act_defs)

lemma plans_read: "\<exists>plans. each_act (\<lambda>ie. resolveStaleExecutionPlan C (ie_task ie)) ies s = (Inr plans, s)
    \<and> length plans = length ies \<and> (\<forall>k < length ies. fst (resolveStaleExecutionPlan C (ie_task (ies ! k)) s) = Inr (plans ! k))"
proof (induction ies)
  case Nil
  then show ?case by (simp add: ret_act_def)
next
  case (Cons ie ies)
  obtain plan where "resolveStaleExecutionPlan C (ie_task ie) s = (Inr plan, s)" using plan_reads by blast
  with Cons show ?case
    by (auto simp: bind_act_def ret_act_def nth_Cons split: nat.split)
qed

text \<open>
  Without the option to apply it, the recovery of all stale tasks (\<open>recoverStaleHubTasks\<close>) is read
  only, whatever the outcome, and what it lists for a task is the plan by which \<open>recoverHubTask\<close> would go.
\<close>

theorem stale_recovery_preview_reads:
  assumes "recoverStaleHubTasks C False s = (r, u)"
  shows "u = s \<and> (\<forall>applied entries. r = Inr (applied, entries) \<longrightarrow>
     \<not> applied \<and> (\<forall>en \<in> set entries. se_outcome en = None
        \<and> (\<exists>task. tp_id task = se_taskId en \<and> tp_hubStatus task = se_phase en
            \<and> fst (resolveStaleExecutionPlan C task s) = Inr (se_plan en))))"
proof -
  obtain q t where load: "loadHubTaskBoard (re_board C) (rs_tasks s) = (q, t)" by fastforce
  have t: "t = rs_tasks s"
    using load by (auto simp: loadHubTaskBoard_def runBdJson_def bind_act_def demand_act_def ret_act_def
        split: option.splits)
  show ?thesis
  proof (cases q)
    case (Inl e)
    then show ?thesis
      using assms load t by (auto simp: recoverStaleHubTasks_def on_tasks_def bind_act_def)
  next
    case (Inr board)
    let ?stuck = "detectInterruptedHubTaskExecutions (bo_tasks board) (re_leases C)"
    obtain plans where plans: "each_act (\<lambda>ie. resolveStaleExecutionPlan C (ie_task ie)) ?stuck s = (Inr plans, s)"
      "length plans = length ?stuck"
      "\<forall>k < length ?stuck. fst (resolveStaleExecutionPlan C (ie_task (?stuck ! k)) s) = Inr (plans ! k)"
      using plans_read by blast
    let ?entries = "map (\<lambda>(ie, plan). \<lparr>se_taskId = ie_taskId ie, se_title = tp_title (ie_task ie),
       se_phase = ie_phase ie, se_plan = plan, se_outcome = None\<rparr>) (zip ?stuck plans)"
    have run: "r = Inr (False, ?entries) \<and> u = s"
      using assms load t Inr plans(1)
      by (auto simp: recoverStaleHubTasks_def on_tasks_def bind_act_def ret_act_def Let_def)
    have stuck: "tp_id (ie_task ie) = ie_taskId ie \<and> tp_hubStatus (ie_task ie) = ie_phase ie"
      if "ie \<in> set ?stuck" for ie
      using that by (auto simp: detectInterruptedHubTaskExecutions_def List.map_filter_def
          isInterruptedHubTaskExecution_def split: if_splits)
    have "\<exists>task. tp_id task = se_taskId en \<and> tp_hubStatus task = se_phase en
        \<and> fst (resolveStaleExecutionPlan C task s) = Inr (se_plan en)" if en: "en \<in> set ?entries" for en
    proof -
      obtain k where k: "k < length ?stuck" "en = ?entries ! k"
        using en plans(2) by (auto simp: in_set_conv_nth)
      then have "se_taskId en = ie_taskId (?stuck ! k)" "se_phase en = ie_phase (?stuck ! k)" "se_plan en = plans ! k"
        using plans(2) by simp_all
      then show ?thesis using stuck [of "?stuck ! k"] plans(3) k(1) by (metis nth_mem)
    qed
    moreover have "\<forall>en \<in> set ?entries. se_outcome en = None" by auto
    ultimately show ?thesis using run by blast
  qed
qed

lemma stale_recovery_preview_reads_witness:
  "snd (recoverStaleHubTasks demo_recovery False (demo_rc [])) = demo_rc []"
  using stale_recovery_preview_reads [of demo_recovery "demo_rc []"
      "fst (recoverStaleHubTasks demo_recovery False (demo_rc []))"
      "snd (recoverStaleHubTasks demo_recovery False (demo_rc []))"] by simp

end
