(* ===== verification/Lifecycle_Machine.thy ===== *)
theory Lifecycle_Machine
  imports Lifecycle_Properties
begin

text \<open>
  The life of a task as a machine over a status and a claim, and the proof that the steps of
  \<open>src/src/hubTaskLifecycle.ts\<close>, run on a store that keeps the laws of the Beads commands, follow it.
\<close>

subsection \<open>Metadata nobody else writes to\<close>

text \<open>No other status, no leftover failure reason, no synchronisation conflict, no claim under another name.\<close>

definition CALM_KEYS :: "string list" where
  "CALM_KEYS = [''hub_status'', ''failedReason'', ''sync_state'', ''sync_conflict'', ''syncConflict'',
     ''sync_conflict_reason'', ''syncConflictReason'', ''hubClaim'', ''hub_claim'', ''taskClaim'',
     ''runId'', ''batchId'', ''branch'', ''claimedAt'']"

definition calm :: "(string \<times> json) list \<Rightarrow> bool" where
  "calm m \<longleftrightarrow> list_all (\<lambda>k. jget m k = None) CALM_KEYS"

lemma calm_get: "calm m \<Longrightarrow> k \<in> set CALM_KEYS \<Longrightarrow> jget m k = None"
  by (simp add: calm_def list_all_iff)

lemma calm_jset: "calm m \<Longrightarrow> k \<notin> set CALM_KEYS \<Longrightarrow> calm (jset m k v)"
  by (auto simp: calm_def list_all_iff)

lemma calm_Nil: "calm []"
  by (simp add: calm_def list_all_iff)

lemma calm_patched:
  assumes "calm (tp_metadata task)" and "calm (ui_metadata i)" and "k \<in> set CALM_KEYS"
  shows "jget (patched_metadata i task) k = None"
  using assms by (simp add: patched_metadata_def clearTransitionOwnedMetadataPatchKeys_def calm_get)

text \<open>A task with calm metadata is ready for every transition that is given what its status needs.\<close>

lemma calm_ready:
  assumes calm: "calm (tp_metadata task)" "calm (ui_metadata i)"
    and failure: "(ui_failureReason i \<noteq> None) = (ui_hubStatus i = HubFailed)"
    and claim: "shouldClearClaimForStatus (ui_hubStatus i) \<or> claim_ready i task"
  shows "transition_ready i task"
proof -
  have p: "jget (patched_metadata i task) k = None" if "k \<in> set CALM_KEYS" for k
    by (rule calm_patched [OF calm that])
  have "normalizeHubTaskStatus (jget (tp_metadata task) ''hub_status'') = None"
    using calm_get [OF calm(1), of "''hub_status''"] by (simp add: CALM_KEYS_def)
  moreover have "reasons_ready i task"
    using p [of "''failedReason''"] p [of "''sync_state''"] failure
    by (simp add: reasons_ready_def Let_def CALM_KEYS_def)
  moreover have "claim_ready i task"
  proof (cases "shouldClearClaimForStatus (ui_hubStatus i)")
    case True
    have "first_value (jdel (patched_metadata i task) ''claim'') [''claim'', ''hubClaim'', ''hub_claim'', ''taskClaim''] = None"
      using p [of "''hubClaim''"] p [of "''hub_claim''"] p [of "''taskClaim''"]
      by (simp add: jget_jdel CALM_KEYS_def)
    moreover have "readString (jdel (patched_metadata i task) ''claim'') ''runId'' = None"
      using p [of "''runId''"] by (simp add: readString_def jget_jdel CALM_KEYS_def)
    ultimately have "readClaimRecord (jdel (patched_metadata i task) ''claim'') = None"
      by (simp add: readClaimRecord_def Let_def as_object_def)
    then show ?thesis using True by (simp add: claim_ready_def Let_def)
  next
    case False
    then show ?thesis using claim by simp
  qed
  ultimately show ?thesis by (simp add: transition_ready_def)
qed

lemma calm_after:
  assumes "calm (tp_metadata task)" and "calm (ui_metadata i)" and "view_after i task w"
  shows "calm (bv_metadata w)"
proof -
  have "jget (bv_metadata w) k = None" if k: "k \<in> set CALM_KEYS" for k
  proof -
    have "k \<noteq> ''failureReason''" "k \<noteq> ''failed''" "k \<noteq> ''claim''" "k \<noteq> ''hubStatus''"
      using k by (auto simp: CALM_KEYS_def)
    then have "jget (bv_metadata w) k = jget (clearStaleHubStatusMetadata (merged_metadata i task) (ui_hubStatus i)) k"
      "jget (merged_metadata i task) k = jget (patched_metadata i task) k"
      using assms(3) by (simp_all add: view_after_def jget_transition_metadata merged_metadata_def patched_metadata_def)
    then show ?thesis using calm_patched [OF assms(1,2) k] by (simp add: jget_clear)
  qed
  then show ?thesis by (simp add: calm_def list_all_iff)
qed

lemma plain_after:
  "view_after i task w \<Longrightarrow> list_all plain_label (tp_labels task) \<Longrightarrow> list_all plain_label (bv_labels w)"
  using plain_labels_to_set [of "tp_labels task"] by (auto simp: view_after_def list_all_iff)

subsection \<open>One step\<close>

text \<open>A task of the store in the state of the machine.\<close>

type_synonym life = "HubTaskStatus \<times> HubTaskClaimMetadata option"

definition in_life :: "('s \<Rightarrow> task_id \<Rightarrow> bd_view option) \<Rightarrow> task_id \<Rightarrow> 's tb_state \<Rightarrow> life \<Rightarrow> bool" where
  "in_life view t s l \<longleftrightarrow>
     (\<exists>v. view (ts_store s) t = Some v \<and> list_all plain_label (bv_labels v) \<and> calm (bv_metadata v)
        \<and> l = (view_status v, readHubTaskClaim (bv_metadata v)))"

definition life_step :: "HubTaskStatus \<Rightarrow> life \<Rightarrow> life" where
  "life_step st l = (st, if st \<in> set CLAIM_PRESERVING_STATUSES then snd l else None)"

definition life_allows :: "HubTaskStatus \<Rightarrow> life \<Rightarrow> bool" where
  "life_allows st l \<longleftrightarrow> (st \<in> set CLAIM_PRESERVING_STATUSES \<longrightarrow> complete_claim (snd l))"

lemma in_life_store: "ts_store u = ts_store s \<Longrightarrow> in_life view t u l = in_life view t s l"
  by (simp add: in_life_def)

lemma transition_in_life:
  assumes laws: "bd_laws (tb_bd E) view" "trimmed t" and life: "in_life view t s l"
    and patch: "calm m" and st: "(fr \<noteq> None) = (st = HubFailed)" and allowed: "life_allows st l"
  shows "\<exists>task u. updateHubTaskStatus E (status_input t st m fr) s = (Inr task, s\<lparr>ts_store := u\<rparr>)
     \<and> tp_hubStatus task = st \<and> in_life view t (s\<lparr>ts_store := u\<rparr>) (life_step st l)"
proof -
  let ?i = "status_input t st m fr"
  obtain v where v: "view (ts_store s) t = Some v" "list_all plain_label (bv_labels v)" "calm (bv_metadata v)"
    and l: "l = (view_status v, readHubTaskClaim (bv_metadata v))"
    using life unfolding in_life_def by blast
  obtain task where load: "loadHubTask E t s = (Inr task, s)" and shown: "shows_view task t v"
    using load_shows [OF laws(1) v(1) laws(2)] by blast
  have i: "ui_taskId ?i = t" "ui_hubStatus ?i = st" "ui_metadata ?i = m" "ui_failureReason ?i = fr"
    "\<not> ui_replaceClaimMetadata ?i"
    by (simp_all add: status_input_def)
  have calm: "calm (tp_metadata task)" "calm (ui_metadata ?i)" using shown v(3) patch i by (simp_all add: shows_view_def)
  have claim: "tp_claim task = snd l" using shown l by (simp add: shows_view_def)
  have resolved: "\<exists>c. snd l = Some c \<and> complete_claim (Some c)
      \<and> resolveTransitionClaim task st m False = Some (hc_raw c) \<and> hc_raw c \<noteq> []
      \<and> readHubTaskClaim [(''claim'', JObj (hc_raw c))] = Some c" if keep: "\<not> shouldClearClaimForStatus st"
  proof -
    obtain c where c: "snd l = Some c" "complete_claim (Some c)"
      using allowed keep by (cases "snd l") (auto simp: life_allows_def shouldClearClaimForStatus_def complete_claim_def)
    then have "readHubTaskClaim (bv_metadata v) = Some c" using l by simp
    then show ?thesis
      using c claim claim_of_raw claim_record_nonempty keep by (auto simp: resolveTransitionClaim_def)
  qed
  have "claim_ready ?i task" if "\<not> shouldClearClaimForStatus st"
    using resolved [OF that] that by (auto simp: claim_ready_def i Let_def status_input_def)
  then have ready: "transition_ready ?i task"
    using st calm by (intro calm_ready) (auto simp: i)
  obtain task' u where run: "transitionHubTaskStatus E ?i s = (Inr task', s\<lparr>ts_store := u\<rparr>)"
    and out: "transition_outcome view ?i task (ts_store s) u task'"
    using transition_result [of E view s ?i v task, unfolded i(1), OF laws(1) v(1) laws(2) v(2) load ready] by blast
  obtain w where w: "view u t = Some w" "shows_view task' t w" "view_after ?i task w" and status: "tp_hubStatus task' = st"
    using out unfolding transition_outcome_def i(1,2) by blast
  have "readHubTaskClaim (bv_metadata w) = (if st \<in> set CLAIM_PRESERVING_STATUSES then snd l else None)"
  proof (cases "shouldClearClaimForStatus st")
    case True
    then show ?thesis
      using claim_after [of ?i task "bv_metadata w"] ready w(3)
      by (simp add: transition_ready_def view_after_def i shouldClearClaimForStatus_def)
  next
    case False
    then obtain c where c: "snd l = Some c" "resolveTransitionClaim task st m False = Some (hc_raw c)" "hc_raw c \<noteq> []"
      "readHubTaskClaim [(''claim'', JObj (hc_raw c))] = Some c"
      using resolved by blast
    then have "jget (bv_metadata w) ''claim'' = Some (JObj (hc_raw c))"
      using w(3) by (simp add: view_after_def jget_transition_metadata status_input_def)
    then show ?thesis using nested_claim c False by (simp add: shouldClearClaimForStatus_def)
  qed
  moreover have "view_status w = st" using w(2) status by (simp add: shows_view_def)
  moreover have "calm (bv_metadata w)" by (rule calm_after [OF calm w(3)])
  moreover have "list_all plain_label (bv_labels w)"
    using plain_after [OF w(3)] shown v(2) by (simp add: shows_view_def)
  ultimately show ?thesis
    using run status w(1) by (auto simp: updateHubTaskStatus_def in_life_def life_step_def)
qed

subsection \<open>The steps of the lifecycle\<close>

text \<open>The operations on a task that was claimed, and the status each of them leads to.\<close>

datatype life_op =
    OpImplemented bool implementation_work
  | OpImplementFailed HubFailureReason implementation_work
  | OpReviewed HubTaskClaimMetadata int
  | OpReviewFailed HubTaskClaimMetadata int HubFailureReason
  | OpMerging
  | OpMergeFailed HubFailureReason merge_diagnostics
  | OpVerificationFailed merge_diagnostics
  | OpRepairExhausted HubLandingRepairExhaustionReason merge_diagnostics
  | OpReverted
  | OpCloseFailed
  | OpClosed

fun op_status :: "life_op \<Rightarrow> HubTaskStatus" where
  "op_status (OpImplemented reviewer w) = (if reviewer then HubReviewing else HubWaitingForMerge)"
| "op_status (OpImplementFailed r w) = HubFailed"
| "op_status (OpReviewed c n) = HubWaitingForMerge"
| "op_status (OpReviewFailed c n r) = HubFailed"
| "op_status OpMerging = HubMerging"
| "op_status (OpMergeFailed r d) = HubFailed"
| "op_status (OpVerificationFailed d) = HubFailed"
| "op_status (OpRepairExhausted r d) = HubBlocked"
| "op_status OpReverted = HubWaitingForMerge"
| "op_status OpCloseFailed = HubFailed"
| "op_status OpClosed = HubDone"

definition forget_act :: "('s, 'e, 'a) act \<Rightarrow> ('s, 'e, unit) act" where
  "forget_act m = bind_act m (\<lambda>_. ret_act ())"

fun life_exec :: "'s tb_env \<Rightarrow> lifecycle_input \<times> life_op \<Rightarrow> ('s, unit) tb_act" where
  "life_exec E (i, OpImplemented reviewer w) = forget_act (recordImplementationSuccess E i w reviewer)"
| "life_exec E (i, OpImplementFailed r w) = forget_act (recordImplementationFailure E i w r)"
| "life_exec E (i, OpReviewed c n) = forget_act (recordHubTaskReviewSuccess E i c n)"
| "life_exec E (i, OpReviewFailed c n r) = forget_act (recordHubTaskReviewFailure E i c n r)"
| "life_exec E (i, OpMerging) = bind_act (loadHubTask E (li_taskId i)) (\<lambda>task. enterMergePhase E [task])"
| "life_exec E (i, OpMergeFailed r d) = forget_act (recordMergeFailure E i r d)"
| "life_exec E (i, OpVerificationFailed d) = forget_act (recordVerificationFailure E i d)"
| "life_exec E (i, OpRepairExhausted r d) = forget_act (recordRepairExhaustion E i r d)"
| "life_exec E (i, OpReverted) =
     bind_act (loadHubTask E (li_taskId i)) (\<lambda>task. forget_act (revertTaskToWaitingForMerge E task))"
| "life_exec E (i, OpCloseFailed) = forget_act (recordCloseFailure E i)"
| "life_exec E (i, OpClosed) = forget_act (recordTaskClosure i (closeHubTask E))"

fun life_run :: "'s tb_env \<Rightarrow> (lifecycle_input \<times> life_op) list \<Rightarrow> ('s, unit) tb_act" where
  "life_run E [] = ret_act ()"
| "life_run E (step # steps) = bind_act (life_exec E step) (\<lambda>_. life_run E steps)"

fun life_path :: "(lifecycle_input \<times> life_op) list \<Rightarrow> life \<Rightarrow> bool" where
  "life_path [] l = True"
| "life_path ((i, op) # steps) l = (life_allows (op_status op) l \<and> life_path steps (life_step (op_status op) l))"

text \<open>An event, the change of the status, another event.\<close>

lemma forget_result: "m s = (Inr a, t) \<Longrightarrow> forget_act m s = (Inr (), t)"
  by (simp add: forget_act_def bind_act_def ret_act_def)

lemma recorded_step:
  assumes laws: "bd_laws (tb_bd E) view" "trimmed t" and life: "in_life view t s l"
    and patch: "calm m" and st: "(fr \<noteq> None) = (st = HubFailed)" and allowed: "life_allows st l"
  shows "\<exists>u. forget_act (bind_act (appendHubTaskEvent d e) (\<lambda>_.
       bind_act (updateHubTaskStatus E (status_input t st m fr)) (\<lambda>task.
       bind_act (recordHubTaskStatusAdvanced i (tp_hubStatus task) fr' commits unmerged work) (\<lambda>_.
       ret_act (f task))))) s = (Inr (), u) \<and> in_life view t u (life_step st l)"
proof -
  let ?s = "s\<lparr>ts_events := append_line (ts_events s) d (Some e)\<rparr>"
  have "in_life view t ?s l" using life by (simp add: in_life_def)
  then obtain task u where run: "updateHubTaskStatus E (status_input t st m fr) ?s = (Inr task, ?s\<lparr>ts_store := u\<rparr>)"
    and "in_life view t (?s\<lparr>ts_store := u\<rparr>) (life_step st l)"
    using transition_in_life [OF laws _ patch st allowed] by blast
  then show ?thesis
    by (simp add: forget_act_def bind_act_def append_event_store recordHubTaskStatusAdvanced_def ret_act_def
        in_life_def)
qed

lemma calm_with_claim: "calm m \<Longrightarrow> calm (with_claim m c)"
  by (simp add: with_claim_def calm_jset CALM_KEYS_def)

text \<open>The four shapes of a step.\<close>

lemma implementation_step:
  assumes "bd_laws (tb_bd E) view" "trimmed t" "in_life view t s l" "li_taskId i = t" "calm (li_metadata i)"
    and "life_allows (outcome_status ev) l" "(outcome_failure ev \<noteq> None) = (outcome_status ev = HubFailed)"
  shows "\<exists>u. forget_act (recordImplementationOutcome E i w ev) s = (Inr (), u)
     \<and> in_life view t u (life_step (outcome_status ev) l)"
  unfolding recordImplementationOutcome_def assms(4)
  by (rule recorded_step [OF assms(1-3) calm_with_claim [OF assms(5)] assms(7,6)])

lemma merge_failure_step:
  assumes "bd_laws (tb_bd E) view" "trimmed t" "in_life view t s l" "li_taskId i = t" "calm (li_metadata i)"
    and "life_allows HubFailed l"
  shows "\<exists>u. forget_act (recordMergePhaseFailure E i ev d) s = (Inr (), u) \<and> in_life view t u (life_step HubFailed l)"
  unfolding recordMergePhaseFailure_def assms(4) Let_def
  by (rule recorded_step [OF assms(1-3,5) _ assms(6)]) simp

lemma loaded_step:
  assumes laws: "bd_laws (tb_bd E) view" "trimmed t" and life: "in_life view t s l" and allowed: "life_allows st l"
    and st: "st \<noteq> HubFailed"
  shows "\<exists>task task' u. loadHubTask E t s = (Inr task, s)
     \<and> updateHubTaskStatus E (status_input (tp_id task) st (tp_metadata task) None) s = (Inr task', u)
     \<and> in_life view t u (life_step st l)"
proof -
  obtain v where v: "view (ts_store s) t = Some v" "calm (bv_metadata v)"
    using life unfolding in_life_def by blast
  obtain task where load: "loadHubTask E t s = (Inr task, s)" and shown: "shows_view task t v"
    using load_shows [OF laws(1) v(1) laws(2)] by blast
  have "tp_id task = t" "calm (tp_metadata task)" using shown v(2) by (simp_all add: shows_view_def)
  then show ?thesis
    using load transition_in_life [OF laws life _ _ allowed, of "tp_metadata task" None] st by auto
qed

lemma closing_step:
  assumes "bd_laws (tb_bd E) view" "trimmed t" "in_life view t s l" "li_taskId i = t" "calm (li_metadata i)"
  shows "\<exists>u. forget_act (recordTaskClosure i (closeHubTask E)) s = (Inr (), u) \<and> in_life view t u (life_step HubDone l)"
proof -
  have "calm (jset (li_metadata i) ''done'' (JBool True))"
    by (simp add: calm_jset assms(5) CALM_KEYS_def)
  moreover have "life_allows HubDone l" by (simp add: life_allows_def CLAIM_PRESERVING_STATUSES_def)
  ultimately obtain task u where
    "closeHubTask E t (li_metadata i) s = (Inr task, s\<lparr>ts_store := u\<rparr>)"
    "in_life view t (s\<lparr>ts_store := u\<rparr>) (life_step HubDone l)"
    using transition_in_life [OF assms(1-3), of "jset (li_metadata i) ''done'' (JBool True)" None HubDone]
    by (auto simp: closeHubTask_def updateHubTaskStatus_def)
  then show ?thesis
    by (simp add: recordTaskClosure_def forget_act_def bind_act_def append_event_store
        recordHubTaskStatusAdvanced_def ret_act_def in_life_def assms(4))
qed

lemma life_exec_step:
  assumes laws: "bd_laws (tb_bd E) view" "trimmed t" and life: "in_life view t s l"
    and i: "li_taskId i = t" "calm (li_metadata i)" and allowed: "life_allows (op_status op) l"
  shows "\<exists>u. life_exec E (i, op) s = (Inr (), u) \<and> in_life view t u (life_step (op_status op) l)"
proof (cases op)
  case (OpImplemented reviewer w)
  then show ?thesis
    using implementation_step [OF laws life i, of "ImplementationSucceeded (resolvePostImplementationStatus reviewer)"] allowed
    by (simp add: recordImplementationSuccess_def resolvePostImplementationStatus_def split: if_splits)
next
  case (OpImplementFailed r w)
  then show ?thesis
    using implementation_step [OF laws life i, of "ImplementationFailed r"] allowed
    by (simp add: recordImplementationFailure_def)
next
  case (OpReviewed c n)
  then show ?thesis
    using recorded_step [OF laws life calm_with_claim [OF i(2)], of None HubWaitingForMerge] allowed
    by (simp add: recordHubTaskReviewSuccess_def i(1))
next
  case (OpReviewFailed c n r)
  then show ?thesis
    using recorded_step [OF laws life i(2), of "Some r" HubFailed] allowed
    by (simp add: recordHubTaskReviewFailure_def i(1))
next
  case OpMerging
  then show ?thesis
    using loaded_step [OF laws life, of HubMerging] allowed i(1)
    by (auto simp: bind_act_def ret_act_def)
next
  case OpReverted
  then show ?thesis
    using loaded_step [OF laws life, of HubWaitingForMerge] allowed i(1)
    by (auto simp: bind_act_def ret_act_def forget_act_def revertTaskToWaitingForMerge_def)
next
  case (OpMergeFailed r d)
  then show ?thesis
    using merge_failure_step [OF laws life i] allowed by (simp add: recordMergeFailure_def)
next
  case (OpVerificationFailed d)
  then show ?thesis
    using merge_failure_step [OF laws life i] allowed by (simp add: recordVerificationFailure_def)
next
  case OpCloseFailed
  then show ?thesis
    using merge_failure_step [OF laws life i] allowed by (simp add: recordCloseFailure_def)
next
  case (OpRepairExhausted r d)
  have "calm (jset (jset (jset (li_metadata i) ''blocked'' (JBool True)) ''blocked_reason'' (JStr (exhaustion_name r)))
      ''blockedReason'' (JStr (exhaustion_name r)))"
    by (simp add: calm_jset i(2) CALM_KEYS_def)
  moreover have "life_allows HubBlocked l" using allowed OpRepairExhausted by simp
  ultimately show ?thesis
    unfolding OpRepairExhausted life_exec.simps op_status.simps recordRepairExhaustion_def Let_def i(1)
    by (intro recorded_step [OF laws life]) simp_all
next
  case OpClosed
  then show ?thesis using closing_step [OF laws life i] by simp
qed

text \<open>
  C4: however long, a sequence of lifecycle steps of a claimed task (\<open>recordImplementationSuccess\<close> and its
  companions) runs to its end on a store that keeps the laws, as long as no step asks for a claim that an
  earlier one has dropped; afterwards the store shows exactly the status and the claim of the abstract
  machine, in which a step sets the status and keeps the claim or, outside execution, drops it.
\<close>

theorem lifecycle_follows_the_machine:
  assumes "bd_laws (tb_bd E) view" and "trimmed t" and "in_life view t s l"
    and "\<forall>(i, op) \<in> set steps. li_taskId i = t \<and> calm (li_metadata i)" and "life_path steps l"
  shows "\<exists>u. life_run E steps s = (Inr (), u)
     \<and> in_life view t u (foldl (\<lambda>l (i, op). life_step (op_status op) l) l steps)"
  using assms(3-5)
proof (induction steps arbitrary: s l)
  case Nil
  then show ?case by (simp add: ret_act_def)
next
  case (Cons step steps)
  obtain i op where step: "step = (i, op)" by (cases step)
  obtain u where u: "life_exec E step s = (Inr (), u)" "in_life view t u (life_step (op_status op) l)"
    using life_exec_step [OF assms(1,2) Cons.prems(1), of i op] Cons.prems(2,3) step by auto
  obtain x where "life_run E steps u = (Inr (), x)"
    "in_life view t x (foldl (\<lambda>l (i, op). life_step (op_status op) l) (life_step (op_status op) l) steps)"
    using Cons.IH [OF u(2)] Cons.prems(2,3) step by auto
  then show ?case using u(1) step by (simp add: bind_act_def)
qed

definition demo_life :: "(lifecycle_input \<times> life_op) list" where
  "demo_life = map (Pair demo_step)
     [OpImplemented True demo_work, OpReviewed (demo_claim ''run-0'') 2, OpMerging, OpClosed]"

lemma lifecycle_follows_the_machine_witness:
  "\<exists>u. life_run mem_env demo_life (mem_state working_view) = (Inr (), u)
     \<and> in_life mem_view ''t-1'' u (HubDone, None)"
proof -
  have "calm (bv_metadata working_view)"
    by (simp add: calm_def CALM_KEYS_def working_view_def jget_Cons)
  then have life: "in_life mem_view ''t-1'' (mem_state working_view) (HubImplementing, Some (demo_claim ''run-0''))"
    using mem_seen [OF working_labels(2)] working_labels(1) working_shape unfolding in_life_def by metis
  have steps: "\<forall>(i, op) \<in> set demo_life. li_taskId i = ''t-1'' \<and> calm (li_metadata i)"
    by (auto simp: demo_life_def demo_step_def calm_Nil)
  have "life_path demo_life (HubImplementing, Some (demo_claim ''run-0''))"
    by (simp add: demo_life_def life_allows_def life_step_def CLAIM_PRESERVING_STATUSES_def demo_claim_roundtrip(2))
  from lifecycle_follows_the_machine [OF mem_env_laws demo_id life steps this]
  show ?thesis by (simp add: demo_life_def life_step_def CLAIM_PRESERVING_STATUSES_def)
qed

subsection \<open>Claims in the life of a task\<close>

definition new_claim :: "'s tb_env \<Rightarrow> ClaimHubTaskInput \<Rightarrow> oid \<Rightarrow> HubTaskClaimMetadata" where
  "new_claim E i head = createHubTaskClaimMetadata (case ci_runId i of None \<Rightarrow> tb_newRunId E | Some r \<Rightarrow> r)
     (case ci_batchId i of None \<Rightarrow> tb_newBatchId E | Some b \<Rightarrow> b) (ci_taskId i) (ci_branch i) (ci_startedAt i)
     (Some head) (Some (tb_branchExists E (ci_branch i)))"

definition claim_names :: "'s tb_env \<Rightarrow> ClaimHubTaskInput \<Rightarrow> oid \<Rightarrow> string list" where
  "claim_names E i head = [case ci_runId i of None \<Rightarrow> tb_newRunId E | Some r \<Rightarrow> r,
     case ci_batchId i of None \<Rightarrow> tb_newBatchId E | Some b \<Rightarrow> b, ci_branch i, ci_startedAt i, head]"

lemma new_claim_roundtrip:
  assumes "list_all trimmed (claim_names E i head)" and "trimmed (ci_taskId i)"
  shows "readHubTaskClaim [(''claim'', JObj (hc_raw (new_claim E i head)))] = Some (new_claim E i head)"
    and "complete_claim (Some (new_claim E i head))"
  using claim_roundtrip [OF _ new_claim_def [of E i head]] assms by (simp_all add: claim_names_def)

text \<open>An unclaimed task that is claimed is implemented under exactly this claim.\<close>

lemma claim_in_life:
  assumes laws: "bd_laws (tb_bd E) view" "trimmed (ci_taskId i)" and life: "in_life view (ci_taskId i) s (st, None)"
    and st: "\<not> isHubTaskClaimActive st" and head: "tb_head E = Some head"
    and names: "list_all trimmed (claim_names E i head)"
  shows "\<exists>r u. claimHubTask E i s = (Inr r, u) \<and> cl_outcome r = Claimed \<and> cl_claim r = Some (new_claim E i head)
     \<and> in_life view (ci_taskId i) u (HubImplementing, Some (new_claim E i head))"
proof -
  let ?c = "new_claim E i head"
  obtain v where v: "view (ts_store s) (ci_taskId i) = Some v" "list_all plain_label (bv_labels v)" "calm (bv_metadata v)"
    and l: "view_status v = st" "readHubTaskClaim (bv_metadata v) = None"
    using life unfolding in_life_def by force
  obtain task where load: "loadHubTask E (ci_taskId i) s = (Inr task, s)" and shown: "shows_view task (ci_taskId i) v"
    using load_shows [OF laws(1) v(1) laws(2)] by blast
  let ?i = "claim_input i task ?c"
  have task: "tp_hubStatus task = st" "tp_claim task = None" "calm (tp_metadata task)"
    using shown l v(3) by (simp_all add: shows_view_def)
  have i: "ui_taskId ?i = ci_taskId i" "ui_hubStatus ?i = HubImplementing" "ui_failureReason ?i = None"
    "ui_metadata ?i = jset (tp_metadata task) ''claim'' (JObj (hc_raw ?c))"
    by (simp_all add: claim_input_def status_input_def)
  have patch: "calm (ui_metadata ?i)" using task(3) by (simp add: i calm_jset CALM_KEYS_def)
  have kept: "\<not> shouldClearClaimForStatus (ui_hubStatus ?i)"
    by (simp add: i shouldClearClaimForStatus_def CLAIM_PRESERVING_STATUSES_def)
  have resolved: "resolveTransitionClaim task (ui_hubStatus ?i) (ui_metadata ?i) (ui_replaceClaimMetadata ?i) = Some (hc_raw ?c)"
    using task(2) by (simp add: resolveTransitionClaim_def claim_input_def status_input_def
        shouldClearClaimForStatus_def CLAIM_PRESERVING_STATUSES_def)
  note round = new_claim_roundtrip [OF names laws(2)]
  have ready: "claim_ready ?i task" and written: "claim_written ?i task = Some ?c"
    using resolved round kept unfolding claim_ready_def claim_written_def by (simp_all add: Let_def i)
  have "transition_ready ?i task"
    by (rule calm_ready [OF task(3) patch]) (use ready in \<open>simp_all add: i\<close>)
  from claim_of_task [OF laws(1) v(1) laws(2) v(2) load _ head new_claim_def this] st task(1)
  obtain r u where r: "claimHubTask E i s = (Inr r, u)" "cl_outcome r = Claimed" "cl_claim r = Some ?c"
      "tp_claim (cl_task r) = Some ?c"
    and out: "transition_outcome view ?i task (ts_store s) (ts_store u) (cl_task r)"
    using written by auto
  obtain w where w: "view (ts_store u) (ci_taskId i) = Some w" "shows_view (cl_task r) (ci_taskId i) w" "view_after ?i task w"
    and status: "tp_hubStatus (cl_task r) = HubImplementing"
    using out unfolding transition_outcome_def i(1,2) by blast
  have "calm (bv_metadata w)" by (rule calm_after [OF task(3) patch w(3)])
  moreover have "list_all plain_label (bv_labels w)"
    using plain_after [OF w(3)] shown v(2) by (simp add: shows_view_def)
  ultimately show ?thesis
    using r w(1,2) status by (auto simp: in_life_def shows_view_def)
qed

text \<open>The work on a claimed task and the attempts of other runs to claim it.\<close>

datatype 's contender =
    Worker "lifecycle_input \<times> life_op"
  | Claimer "'s tb_env" ClaimHubTaskInput

fun contest :: "'s tb_env \<Rightarrow> 's contender list \<Rightarrow> ('s, ClaimHubTaskResult list) tb_act" where
  "contest E [] = ret_act []"
| "contest E (Worker step # cs) = bind_act (life_exec E step) (\<lambda>_. contest E cs)"
| "contest E (Claimer F j # cs) =
     bind_act (claimHubTask F j) (\<lambda>r. bind_act (contest E cs) (\<lambda>rs. ret_act (r # rs)))"

text \<open>Work that stays within the statuses of an active claim, and claimers of the same task in the same store.\<close>

fun fair_contender :: "'s tb_env \<Rightarrow> task_id \<Rightarrow> 's contender \<Rightarrow> bool" where
  "fair_contender E t (Worker (i, op)) \<longleftrightarrow> li_taskId i = t \<and> calm (li_metadata i)
     \<and> isHubTaskClaimActive (op_status op)"
| "fair_contender E t (Claimer F j) \<longleftrightarrow> ci_taskId j = t
     \<and> tb_bd F = tb_bd E \<and> tb_numText F = tb_numText E \<and> tb_collate F = tb_collate E"

fun is_claimer :: "'s contender \<Rightarrow> bool" where
  "is_claimer (Worker step) = False"
| "is_claimer (Claimer F j) = True"

lemma active_keeps_claim: "isHubTaskClaimActive st \<Longrightarrow> st \<in> set CLAIM_PRESERVING_STATUSES"
  by (auto simp: isHubTaskClaimActive_def ACTIVE_HUB_TASK_CLAIM_STATUSES_def CLAIM_PRESERVING_STATUSES_def)

lemma attempt_in_life:
  assumes laws: "bd_laws (tb_bd E) view" "trimmed t" and life: "in_life view t s (st, Some c)"
    and active: "isHubTaskClaimActive st" and fair: "fair_contender E t (Claimer F j)"
  shows "\<exists>r u. claimHubTask F j s = (Inr r, u) \<and> cl_outcome r = SkippedActiveClaim \<and> cl_claim r = Some c
     \<and> in_life view t u (st, Some c)"
proof -
  obtain v where v: "view (ts_store s) t = Some v"
    and l: "st = view_status v" "readHubTaskClaim (bv_metadata v) = Some c"
    using life unfolding in_life_def by force
  obtain task where load: "loadHubTask E t s = (Inr task, s)" and shown: "shows_view task t v"
    using load_shows [OF laws(1) v(1) laws(2)] by blast
  have "loadHubTask F (ci_taskId j) s = (Inr task, s)"
    using load fair loadHubTask_cong [of F E] by simp
  moreover have "isHubTaskClaimActive (tp_hubStatus task)" "tp_claim task = Some c"
    using shown l active by (simp_all add: shows_view_def)
  ultimately obtain r u where "claimHubTask F j s = (Inr r, u)" "cl_outcome r = SkippedActiveClaim"
      "cl_claim r = Some c" "ts_store u = ts_store s"
    using active_claim_skips by metis
  then show ?thesis using life in_life_store by blast
qed

lemma contest_result:
  assumes laws: "bd_laws (tb_bd E) view" "trimmed t" and "in_life view t s (st, Some c)"
    and "isHubTaskClaimActive st" and c: "complete_claim (Some c)" and "\<forall>x \<in> set cs. fair_contender E t x"
  shows "\<exists>rs u. contest E cs s = (Inr rs, u) \<and> length rs = length (filter is_claimer cs)
     \<and> (\<forall>r \<in> set rs. cl_outcome r = SkippedActiveClaim \<and> cl_claim r = Some c)
     \<and> (\<exists>st'. isHubTaskClaimActive st' \<and> in_life view t u (st', Some c))"
  using assms(3,4,6)
proof (induction cs arbitrary: s st)
  case Nil
  then show ?case by (auto simp: ret_act_def)
next
  case (Cons x cs)
  show ?case
  proof (cases x)
    case (Worker step)
    obtain i op where step: "step = (i, op)" by (cases step)
    have i: "li_taskId i = t" "calm (li_metadata i)" and op: "isHubTaskClaimActive (op_status op)"
      using Cons.prems(3) Worker step by auto
    have next_life: "life_step (op_status op) (st, Some c) = (op_status op, Some c)"
      using active_keeps_claim [OF op] by (simp add: life_step_def)
    have "life_allows (op_status op) (st, Some c)" using c by (simp add: life_allows_def)
    from life_exec_step [OF laws Cons.prems(1) i this]
    obtain u where "life_exec E step s = (Inr (), u)" "in_life view t u (op_status op, Some c)"
      unfolding next_life step by blast
    then show ?thesis using Cons.IH [of u "op_status op"] op Cons.prems(3) Worker by (auto simp: bind_act_def)
  next
    case (Claimer F j)
    obtain r u where r: "claimHubTask F j s = (Inr r, u)" "cl_outcome r = SkippedActiveClaim" "cl_claim r = Some c"
      "in_life view t u (st, Some c)"
      using attempt_in_life [OF laws Cons.prems(1,2), of F j] Cons.prems(3) Claimer by auto
    obtain rs w where "contest E cs u = (Inr rs, w)" "length rs = length (filter is_claimer cs)"
      "\<forall>r \<in> set rs. cl_outcome r = SkippedActiveClaim \<and> cl_claim r = Some c"
      "\<exists>st'. isHubTaskClaimActive st' \<and> in_life view t w (st', Some c)"
      using Cons.IH [OF r(4) Cons.prems(2)] Cons.prems(3) by auto
    then show ?thesis using r Claimer by (auto simp: bind_act_def ret_act_def)
  qed
qed

text \<open>
  C10: A task that nobody has claimed and that is claimed stays with this claim however long it is worked on:
  while the steps of its life take it through implementation, review, waiting and merging, every attempt of
  any run to claim it, between any two of these steps, is skipped and reports the claim of the first run,
  and the store still shows that claim. (A failed or publishing task is not protected in this way.)
\<close>

theorem claimed_task_stays_claimed:
  assumes "bd_laws (tb_bd E) view" and "trimmed (ci_taskId i)" and "in_life view (ci_taskId i) s (st, None)"
    and "\<not> isHubTaskClaimActive st" and "tb_head E = Some head" and "list_all trimmed (claim_names E i head)"
    and "\<forall>x \<in> set cs. fair_contender E (ci_taskId i) x"
  shows "\<exists>r u rs w. claimHubTask E i s = (Inr r, u) \<and> cl_outcome r = Claimed
     \<and> cl_claim r = Some (new_claim E i head)
     \<and> contest E cs u = (Inr rs, w) \<and> length rs = length (filter is_claimer cs)
     \<and> (\<forall>q \<in> set rs. cl_outcome q = SkippedActiveClaim \<and> cl_claim q = cl_claim r)
     \<and> (\<exists>st'. isHubTaskClaimActive st' \<and> in_life view (ci_taskId i) w (st', cl_claim r))"
proof -
  obtain r u where r: "claimHubTask E i s = (Inr r, u)" "cl_outcome r = Claimed"
      "cl_claim r = Some (new_claim E i head)"
    and life: "in_life view (ci_taskId i) u (HubImplementing, Some (new_claim E i head))"
    using claim_in_life [OF assms(1-6)] by blast
  have "isHubTaskClaimActive HubImplementing"
    by (simp add: isHubTaskClaimActive_def ACTIVE_HUB_TASK_CLAIM_STATUSES_def)
  from contest_result [OF assms(1,2) life this new_claim_roundtrip(2) [OF assms(6,2)] assms(7)] r
  show ?thesis by metis
qed


text \<open>Inputs: an unclaimed task, two runs, the work of the first.\<close>

lemma demo_in_life: "in_life mem_view ''t-1'' (mem_state demo_view) (HubReadyForAgent, None)"
proof -
  have "calm (bv_metadata demo_view)"
    by (simp add: calm_def CALM_KEYS_def demo_view_def jget_Cons)
  then show ?thesis
    using mem_seen [OF demo_labels(2)] demo_labels(1) demo_not_active unfolding in_life_def by metis
qed

lemma demo_inactive: "\<not> isHubTaskClaimActive HubReadyForAgent"
  by (simp add: isHubTaskClaimActive_def ACTIVE_HUB_TASK_CLAIM_STATUSES_def)

lemma demo_new_claim: "new_claim mem_env (demo_claim_input run) (replicate 40 (CHR ''a'')) = demo_claim run"
  by (simp add: new_claim_def demo_claim_eq)

lemma demo_new_names: "trimmed run \<Longrightarrow> list_all trimmed (claim_names mem_env (demo_claim_input run) (replicate 40 (CHR ''a'')))"
  by (simp add: claim_names_def demo_claim_input_def trimmed_def js_trim_def js_space_def)

lemma demo_runs: "trimmed ''run-1''" "trimmed ''run-2''"
  by (simp_all add: trimmed_def js_trim_def js_space_def)

definition demo_contest :: "mem_store contender list" where
  "demo_contest =
     [Claimer mem_env (demo_claim_input ''run-2''), Worker (demo_step, OpImplemented True demo_work),
      Claimer mem_env (demo_claim_input ''run-3''), Worker (demo_step, OpReviewed (demo_claim ''run-1'') 2),
      Worker (demo_step, OpMerging), Claimer mem_env (demo_claim_input ''run-2'')]"

lemma claimed_task_stays_claimed_witness:
  "\<exists>r u rs w. claimHubTask mem_env (demo_claim_input ''run-1'') (mem_state demo_view) = (Inr r, u)
     \<and> contest mem_env demo_contest u = (Inr rs, w) \<and> length rs = 3
     \<and> (\<forall>q \<in> set rs. cl_outcome q = SkippedActiveClaim \<and> cl_claim q = Some (demo_claim ''run-1''))"
proof -
  have fair: "\<forall>x \<in> set demo_contest. fair_contender mem_env ''t-1'' x"
    by (simp add: demo_contest_def demo_claim_id demo_step_def calm_Nil isHubTaskClaimActive_def
        ACTIVE_HUB_TASK_CLAIM_STATUSES_def)
  have three: "length (filter is_claimer demo_contest) = 3" by (simp add: demo_contest_def)
  from claimed_task_stays_claimed [where i = "demo_claim_input ''run-1''", unfolded demo_claim_id demo_new_claim,
      OF mem_env_laws demo_id demo_in_life demo_inactive demo_head demo_new_names [OF demo_runs(1)] fair,
      unfolded demo_new_claim three]
  show ?thesis by metis
qed


end
