(* ===== verification/Landing_Reconciliation.thy ===== *)
theory Landing_Reconciliation
  imports Landing_Core Task_Board
begin

text \<open>
  Resuming landings after a crash (\<open>src/src/hubLandingReconciliation.ts\<close>) and the landings from before
  there were transactions (\<open>src/src/hubLandingLegacyHistory.ts\<close>): the evidence of a transaction is
  collected from its journal, its manifest, its refs, its receipt and the task store; missing checkpoints
  are written, landed tasks closed, worktrees removed and deliveries enqueued.
\<close>

subsection \<open>What a reconciliation runs with\<close>

record HubLegacyLandingTask =
  lt_id :: task_id
  lt_title :: string
  lt_hubStatus :: HubTaskStatus
  lt_metadata :: "(string \<times> json) list"

text \<open>
  The directory of the transactions, the lines of \<open>git for-each-ref\<close> on the refs of candidates and
  receipts (\<open>None\<close>: the command fails), the reader and the closer of the task store (\<open>None\<close>: not given;
  the reader sees the store as it is when it is called), the tasks with a history, the events of the runs,
  and the time. Calls that are not given the time read the same one.
\<close>

record 'g reconcile_env =
  rv_hub :: "'g env"
  rv_dirs :: "'g hub \<Rightarrow> txn_id list"
  rv_refNames :: "'g \<Rightarrow> string list option"
  rv_readTaskClose :: "('g \<Rightarrow> task_id \<Rightarrow> HubLandingBeadsCloseEvidence option) option"
  rv_closeTask :: "(task_id \<Rightarrow> txn_id \<Rightarrow> oid \<Rightarrow> ('g, unit) hub_act) option"
  rv_tasks :: "HubLegacyLandingTask list"
  rv_events :: "HubTaskEvent list"
  rv_now :: iso_time

definition reader_of :: "'g reconcile_env \<Rightarrow> 'g \<Rightarrow> task_id \<Rightarrow> HubLandingBeadsCloseEvidence option" where
  "reader_of V g t = (case rv_readTaskClose V of None \<Rightarrow> None | Some f \<Rightarrow> f g t)"

definition closer_of :: "'g reconcile_env \<Rightarrow> task_id \<Rightarrow> txn_id \<Rightarrow> oid \<Rightarrow> ('g, unit) hub_act" where
  "closer_of V = (case rv_closeTask V of None \<Rightarrow> (\<lambda>t tx cand. ret_act ()) | Some f \<Rightarrow> f)"

text \<open>The evidence of a task that was closed in the task store.\<close>

definition string_value :: "json option \<Rightarrow> string option" where
  "string_value v = (case v of Some (JStr s) \<Rightarrow> Some s | _ \<Rightarrow> None)"

definition closed_status :: "HubTaskStatus \<Rightarrow> (string \<times> json) list \<Rightarrow> bool" where
  "closed_status st metadata \<longleftrightarrow> isCompletedHubStatus st \<or> jget metadata ''done'' = Some (JBool True)"

definition beadsCloseEvidenceFromHubTask ::
    "HubTaskProjection option \<Rightarrow> HubLandingBeadsCloseEvidence option" where
  "beadsCloseEvidenceFromHubTask task = map_option (\<lambda>t.
     \<lparr>bc_closed = closed_status (tp_hubStatus t) (tp_metadata t),
      bc_transactionId = string_value (jget (tp_metadata t) ''landingTransactionId''),
      bc_candidateOid = string_value (jget (tp_metadata t) ''landingCandidateOid'')\<rparr>) task"

definition hubLandingTaskCloseReaderFromTasks ::
    "HubTaskProjection list \<Rightarrow> task_id \<Rightarrow> HubLandingBeadsCloseEvidence option" where
  "hubLandingTaskCloseReaderFromTasks tasks t =
     beadsCloseEvidenceFromHubTask (find (\<lambda>task. tp_id task = t) tasks)"


subsection \<open>The transactions of a project\<close>

definition strip_prefix :: "string \<Rightarrow> string \<Rightarrow> string option" where
  "strip_prefix p s = (if startsWith s p \<and> drop (length p) s \<noteq> [] then Some (drop (length p) s) else None)"

definition transaction_of_ref :: "string \<Rightarrow> txn_id option" where
  "transaction_of_ref name =
     coalesce (strip_prefix ''refs/archloop/candidates/'' name)
       (strip_prefix ''refs/archloop/receipts/'' name)"

definition listTransactionIdsFromRefs :: "'g reconcile_env \<Rightarrow> 'g \<Rightarrow> txn_id list" where
  "listTransactionIdsFromRefs V g =
     (case rv_refNames V g of None \<Rightarrow> [] | Some names \<Rightarrow> List.map_filter transaction_of_ref names)"

definition listHubLandingTransactionIds :: "'g reconcile_env \<Rightarrow> 'g hub \<Rightarrow> txn_id list" where
  "listHubLandingTransactionIds V h =
     sort (remdups (rv_dirs V h @ listTransactionIdsFromRefs V (h_git h)))"


subsection \<open>The evidence of a transaction\<close>

definition rankOf :: "checkpoint option \<Rightarrow> int" where
  "rankOf c = (case c of None \<Rightarrow> -1 | Some k \<Rightarrow> int (checkpoint_rank k))"

definition maxCheckpoint :: "checkpoint option list \<Rightarrow> checkpoint option" where
  "maxCheckpoint cs = foldl (\<lambda>highest c. if rankOf c > rankOf highest then c else highest) None cs"

text \<open>The integrity incidents; the arguments are those of the messages.\<close>

datatype incident =
    JournalMismatch oid oid
  | ManifestMismatch oid oid
  | ReceiptMismatch oid oid
  | OutsideTarget oid

definition candidateOidMismatchIncident ::
    "(oid \<Rightarrow> oid \<Rightarrow> incident) \<Rightarrow> oid option \<Rightarrow> oid option \<Rightarrow> incident option" where
  "candidateOidMismatchIncident source recorded refOid =
     (if \<not> truthy_string recorded \<or> \<not> truthy_string refOid \<or> recorded = refOid then None
      else Some (source (the recorded) (the refOid)))"

text \<open>The next action follows from the incident.\<close>

record HubLandingTransactionEvidence =
  tv_transactionId :: txn_id
  tv_taskId :: "task_id option"
  tv_taskBacked :: bool
  tv_journalCheckpoint :: "checkpoint option"
  tv_evidenceCheckpoint :: "checkpoint option"
  tv_sourceOid :: "oid option"
  tv_baseOid :: "oid option"
  tv_candidateOid :: "oid option"
  tv_candidateRef :: string
  tv_verifierFingerprint :: "string option"
  tv_verificationReusable :: bool
  tv_landed :: bool
  tv_closed :: bool
  tv_cleaned :: bool
  tv_worktreePresent :: bool
  tv_receiptOid :: "oid option"
  tv_publishTargetOid :: "oid option"
  tv_integrityIncident :: "incident option"
  tv_pending :: bool

definition isPendingReconciliation ::
    "incident option \<Rightarrow> checkpoint option \<Rightarrow> bool \<Rightarrow> bool \<Rightarrow> bool \<Rightarrow> bool" where
  "isPendingReconciliation incident proven landed isClosed worktreePresent =
     (if incident \<noteq> None then False
      else if rankOf proven < rankOf (Some Cleaned) then True
      else if landed \<and> \<not> isClosed then True
      else worktreePresent \<and> (landed \<or> isClosed))"

definition task_backed :: "task_id option \<Rightarrow> bool" where
  "task_backed t = (case t of None \<Rightarrow> True | Some x \<Rightarrow> isHubLandingTaskBacked x)"

definition readTaskBackedBeadsClose ::
    "'g reconcile_env \<Rightarrow> 'g \<Rightarrow> task_id option \<Rightarrow> HubLandingBeadsCloseEvidence option" where
  "readTaskBackedBeadsClose V g t =
     (if \<not> truthy_string t \<or> \<not> task_backed t then None else reader_of V g (the t))"

definition isInternallyClosedHostContribution :: "bool \<Rightarrow> bool \<Rightarrow> checkpoint option \<Rightarrow> bool" where
  "isInternallyClosedHostContribution taskBacked landed journal \<longleftrightarrow>
     \<not> taskBacked \<and> (landed \<or> rankOf journal \<ge> rankOf (Some TaskClosed))"

text \<open>The candidate, and whether the publish target contains it.\<close>

definition evidence_ref ::
    "HubLandingTransactionState option \<Rightarrow> HubLandingCandidateManifest option \<Rightarrow> txn_id \<Rightarrow> string" where
  "evidence_ref journal manifest tx =
     (case coalesce (Option.bind journal ev_candidateRef) (map_option m_candidateRef manifest) of
        Some r \<Rightarrow> r | None \<Rightarrow> resolveHubLandingCandidateRef tx)"

definition contained :: "'g env \<Rightarrow> 'g \<Rightarrow> oid option \<Rightarrow> oid option \<Rightarrow> bool" where
  "contained E g cand target \<longleftrightarrow>
     (case (cand, target) of
        (Some c, Some t) \<Rightarrow> t = c \<or> g_is_ancestor (e_git E) g c t
      | _ \<Rightarrow> False)"

text \<open>The four checks, the later ones overriding the earlier.\<close>

definition evidence_incident ::
    "oid option \<Rightarrow> oid option \<Rightarrow> oid option \<Rightarrow> oid option \<Rightarrow> HubLandingReceipt option \<Rightarrow> bool
     \<Rightarrow> incident option" where
  "evidence_incident journalOid manifestOid refOid cand receipt inTarget =
    (let recorded = coalesce (candidateOidMismatchIncident JournalMismatch journalOid refOid)
           (candidateOidMismatchIncident ManifestMismatch manifestOid refOid)
     in case receipt of
          None \<Rightarrow> recorded
        | Some r \<Rightarrow>
            if \<not> inTarget then Some (OutsideTarget (rc_candidateOid r))
            else if truthy_string cand \<and> Some (rc_candidateOid r) \<noteq> cand
            then Some (ReceiptMismatch (rc_candidateOid r) (the cand))
            else recorded)"

definition verification_reusable ::
    "'g env \<Rightarrow> HubLandingVerificationArtifact option \<Rightarrow> oid option \<Rightarrow> bool" where
  "verification_reusable E artifact cand =
     (case (artifact, cand) of
        (Some a, Some c) \<Rightarrow>
          (let parts = computeHubVerifierParts E
           in isReusableHubLandingVerificationArtifact E a c (vp_verifierFingerprint parts)
                (vp_verifierConfigHash parts) (vp_runtimeFingerprint parts))
      | _ \<Rightarrow> False)"

definition collectEvidence ::
    "'g reconcile_env \<Rightarrow> HubLandingPolicy option \<Rightarrow> 'g hub \<Rightarrow> txn_id \<Rightarrow> HubLandingTransactionEvidence" where
  "collectEvidence V policy h tx =
    (let E = rv_hub V; G = e_git E; g = h_git h;
         journal = loadHubLandingTransaction (h_journals h) tx;
         manifest = readHubLandingCandidateManifest h tx;
         rref = evidence_ref journal manifest tx;
         refOid = g_rev_parse G g rref;
         cand = coalesce refOid
           (coalesce (map_option m_candidateOid manifest) (Option.bind journal ev_candidateOid));
         reusable = verification_reusable E (readHubLandingVerificationArtifact h tx) cand;
         stored = readHubLandingReceipt E g tx;
         receipt = map_option fst stored;
         target = (case policy of None \<Rightarrow> None | Some p \<Rightarrow> g_rev_parse G g (p_publishTargetRef p));
         inTarget = contained E g cand target;
         incident = evidence_incident (Option.bind journal ev_candidateOid)
           (map_option m_candidateOid manifest) refOid cand receipt inTarget;
         landed = (stored \<noteq> None \<and> inTarget \<and> incident = None);
         t = coalesce (map_option st_taskId journal)
           (coalesce (map_option m_taskId manifest) (map_option rc_taskId receipt));
         backed = task_backed t;
         reached = map_option st_checkpoint journal;
         isClosed =
           (isMatchingHubLandingBeadsClose (readTaskBackedBeadsClose V g t) tx
              (coalesce cand (map_option rc_candidateOid receipt))
            \<or> rv_readTaskClose V = None \<and> rankOf reached \<ge> rankOf (Some TaskClosed)
            \<or> isInternallyClosedHostContribution backed landed reached);
         hasTree = t_exists (e_trees E) g (resolveHubLandingWorktreeDir E tx);
         cleaned = (\<not> hasTree \<and> (landed \<or> isClosed \<or> reached = Some Cleaned));
         proven = maxCheckpoint
           [reached, if truthy_string cand then Some CandidateCreated else None,
            if reusable then Some CandidateVerified else None,
            if landed then Some TargetLanded else None,
            if isClosed then Some TaskClosed else None,
            if cleaned then Some Cleaned else None]
     in \<lparr>tv_transactionId = tx, tv_taskId = t, tv_taskBacked = backed, tv_journalCheckpoint = reached,
         tv_evidenceCheckpoint = proven,
         tv_sourceOid = coalesce (Option.bind journal ev_sourceOid) (map_option m_sourceOid manifest),
         tv_baseOid = coalesce (Option.bind journal ev_baseOid) (map_option m_baseOid manifest),
         tv_candidateOid = cand, tv_candidateRef = rref,
         tv_verifierFingerprint =
           (if reusable then Some (vp_verifierFingerprint (computeHubVerifierParts E))
            else Option.bind journal ev_verifierFingerprint),
         tv_verificationReusable = reusable, tv_landed = landed, tv_closed = isClosed, tv_cleaned = cleaned,
         tv_worktreePresent = hasTree, tv_receiptOid = map_option snd stored,
         tv_publishTargetOid = target, tv_integrityIncident = incident,
         tv_pending = isPendingReconciliation incident proven landed isClosed hasTree\<rparr>)"

subsection \<open>Writing what the evidence proves\<close>

definition proven_checkpoints :: "HubLandingTransactionEvidence \<Rightarrow> checkpoint list" where
  "proven_checkpoints ev =
     [Opened, BasePinned]
     @ (if truthy_string (tv_candidateOid ev) then [CandidateCreated] else [])
     @ (if tv_verificationReusable ev then [CandidateVerified] else [])
     @ (if tv_landed ev then [TargetLanded] else [])
     @ (if tv_closed ev then [TaskClosed] else [])
     @ (if tv_cleaned ev then [Cleaned] else [])"

definition missing_checkpoints ::
    "HubLandingTransactionEvidence \<Rightarrow> HubLandingTransactionState option \<Rightarrow> checkpoint list" where
  "missing_checkpoints ev journal =
     filter (\<lambda>c. rankOf (map_option st_checkpoint journal) < rankOf (Some c)
         \<and> rankOf (tv_evidenceCheckpoint ev) \<ge> rankOf (Some c))
       (proven_checkpoints ev)"

definition reconstructed_record ::
    "HubLandingTransactionEvidence \<Rightarrow> task_id \<Rightarrow> iso_time \<Rightarrow> checkpoint \<Rightarrow> HubLandingTransactionRecord" where
  "reconstructed_record ev t now c =
     (plain_record c (tv_transactionId ev) t now)
       \<lparr>ev_sourceOid := tv_sourceOid ev, ev_baseOid := tv_baseOid ev,
        ev_candidateOid := tv_candidateOid ev, ev_candidateRef := Some (tv_candidateRef ev),
        ev_verifierFingerprint := tv_verifierFingerprint ev,
        ev_publishTargetOid := (if tv_landed ev then tv_candidateOid ev else tv_publishTargetOid ev),
        ev_receiptRef := (if truthy_string (tv_receiptOid ev)
          then Some (resolveHubLandingReceiptRef (tv_transactionId ev)) else None),
        ev_receiptOid := tv_receiptOid ev\<rparr>"

definition reconstructCheckpoints ::
    "'g reconcile_env \<Rightarrow> HubLandingTransactionEvidence \<Rightarrow> HubLandingTransactionState option
     \<Rightarrow> ('g, nat) hub_act" where
  "reconstructCheckpoints V ev journal =
     (if tv_integrityIncident ev \<noteq> None \<or> \<not> truthy_string (tv_taskId ev)
         \<or> tv_evidenceCheckpoint ev = None
      then ret_act 0
      else
        (let writes = missing_checkpoints ev journal in
         bind_act (each_act (\<lambda>c. appendCheckpoint
           (reconstructed_record ev (the (tv_taskId ev)) (rv_now V) c)) writes) (\<lambda>_.
         ret_act (length writes))))"

definition toCandidate ::
    "'g reconcile_env \<Rightarrow> HubLandingTransactionEvidence \<Rightarrow> HubLandingPolicy
     \<Rightarrow> HubLandingTransactionState option \<Rightarrow> HubLandingCandidate option" where
  "toCandidate V ev policy journal =
     (if \<not> truthy_string (tv_taskId ev) \<or> \<not> truthy_string (tv_candidateOid ev) \<or> tv_candidateRef ev = []
      then None
      else Some
        \<lparr>lc_transactionId = tv_transactionId ev, lc_taskId = the (tv_taskId ev), lc_branch = [],
         lc_sourceOid = (case tv_sourceOid ev of None \<Rightarrow> [] | Some x \<Rightarrow> x),
         lc_baseOid = (case tv_baseOid ev of None \<Rightarrow> [] | Some x \<Rightarrow> x),
         lc_candidateOid = the (tv_candidateOid ev), lc_candidateRef = tv_candidateRef ev,
         lc_worktreeDir = resolveHubLandingWorktreeDir (rv_hub V) (tv_transactionId ev),
         lc_policy = policy,
         lc_state = (case journal of Some s \<Rightarrow> s
           | None \<Rightarrow> txn_evidence.extend no_evidence
               \<lparr>st_transactionId = tv_transactionId ev, st_taskId = the (tv_taskId ev),
                st_checkpoint = (case tv_evidenceCheckpoint ev of None \<Rightarrow> Opened | Some c \<Rightarrow> c),
                st_records = [], st_openedAt = rv_now V, st_updatedAt = rv_now V\<rparr>),
         lc_filtered = None\<rparr>)"


subsection \<open>Landings from before there were transactions\<close>

datatype HubLegacyLandingDecision =
    GrandfatheredClosed
  | AncestryContained
  | EventWithoutAncestry
  | MissingTaskBranch
  | DivergedTarget
  | InsufficientEvidence

text \<open>
  The message and the next action follow from the decision and from the transaction, which is there
  once the landing was adopted; so does the integrity incident.
\<close>

record HubLegacyLandingEvidence =
  le_taskId :: task_id
  le_decision :: HubLegacyLandingDecision
  le_accepted :: bool
  le_hadMergeSucceededEvent :: bool
  le_branch :: "string option"
  le_sourceOid :: "oid option"
  le_targetOid :: "oid option"
  le_transactionId :: "txn_id option"
  le_integrityIncident :: "HubLegacyLandingDecision option"

text \<open>The latest merge event of a task, and whether a merge succeeded.\<close>

definition later_merge :: "HubTaskEvent option \<Rightarrow> HubTaskEvent \<Rightarrow> HubTaskEvent option" where
  "later_merge latest e =
     (case latest of
        None \<Rightarrow> Some e
      | Some l \<Rightarrow>
          if te_createdAt e > te_createdAt l
             \<or> te_createdAt e = te_createdAt l \<and> te_type e = ''merge_succeeded''
          then Some e else Some l)"

definition collectLegacyMergeEvidence :: "HubTaskEvent list \<Rightarrow> task_id \<Rightarrow> HubTaskEvent option \<times> bool" where
  "collectLegacyMergeEvidence events t =
    (let mine = filter (\<lambda>e. te_taskId e = t) events in
     (foldl later_merge None
        (filter (\<lambda>e. te_type e \<in> {''merge_succeeded'', ''merge_started''}) mine),
      list_ex (\<lambda>e. te_type e = ''merge_succeeded'') mine))"

definition resolveCommitOid :: "'g env \<Rightarrow> 'g \<Rightarrow> string \<Rightarrow> oid option" where
  "resolveCommitOid E g name = g_rev_parse (e_git E) g (name @ ''^{commit}'')"

definition resolveTargetOids :: "'g env \<Rightarrow> 'g \<Rightarrow> HubLandingPolicy option \<Rightarrow> oid list" where
  "resolveTargetOids E g policy =
    (let configured =
       (case policy of
          None \<Rightarrow> []
        | Some p \<Rightarrow>
            (let host = resolveCommitOid E g (p_hostTargetBranch p);
                 target = resolveCommitOid E g (p_publishTargetRef p)
             in (if truthy_string host then [the host] else [])
                @ (if truthy_string target \<and> target \<noteq> host then [the target] else [])))
     in if configured \<noteq> [] then configured
        else (let head = g_rev_parse (e_git E) g ''HEAD'' in
              if truthy_string head then [the head] else []))"

definition acceptLegacy ::
    "task_id \<Rightarrow> HubLegacyLandingDecision \<Rightarrow> bool \<Rightarrow> string option \<Rightarrow> oid option \<Rightarrow> oid option \<Rightarrow> txn_id option
     \<Rightarrow> HubLegacyLandingEvidence" where
  "acceptLegacy t d merged branch src target tx =
     \<lparr>le_taskId = t, le_decision = d, le_accepted = True, le_hadMergeSucceededEvent = merged,
      le_branch = branch, le_sourceOid = src, le_targetOid = target, le_transactionId = tx,
      le_integrityIncident = None\<rparr>"

definition rejectLegacy ::
    "task_id \<Rightarrow> HubLegacyLandingDecision \<Rightarrow> bool \<Rightarrow> string option \<Rightarrow> oid option \<Rightarrow> oid option
     \<Rightarrow> HubLegacyLandingEvidence" where
  "rejectLegacy t d merged branch src target =
     \<lparr>le_taskId = t, le_decision = d, le_accepted = False, le_hadMergeSucceededEvent = merged,
      le_branch = branch, le_sourceOid = src, le_targetOid = target, le_transactionId = None,
      le_integrityIncident = Some d\<rparr>"

definition legacy_branch :: "HubLegacyLandingTask \<Rightarrow> HubTaskEvent \<Rightarrow> string" where
  "legacy_branch task e =
     (if te_branch e \<noteq> [] then te_branch e else resolveHubTaskBranch (lt_id task) (lt_title task))"

definition classifyTask ::
    "'g env \<Rightarrow> 'g \<Rightarrow> HubLegacyLandingTask \<Rightarrow> HubTaskEvent list \<Rightarrow> oid list \<Rightarrow> HubLegacyLandingEvidence option" where
  "classifyTask E g task events targetOids =
    (let (mergeEvent, merged) = collectLegacyMergeEvidence events (lt_id task); t = lt_id task in
     if closed_status (lt_hubStatus task) (lt_metadata task)
     then (if merged then Some (acceptLegacy t GrandfatheredClosed merged None None None None) else None)
     else
       (case mergeEvent of
          None \<Rightarrow> None
        | Some e \<Rightarrow>
            (let branch = legacy_branch task e; src = resolveCommitOid E g branch in
             Some
              (case (src, targetOids) of
                 (None, _) \<Rightarrow> rejectLegacy t MissingTaskBranch merged (Some branch) None
                   (case targetOids of [] \<Rightarrow> None | x # _ \<Rightarrow> Some x)
               | (Some s, []) \<Rightarrow> rejectLegacy t InsufficientEvidence merged (Some branch) src None
               | (Some s, target # _) \<Rightarrow>
                   (case find (\<lambda>x. g_is_ancestor (e_git E) g s x) targetOids of
                      Some x \<Rightarrow> acceptLegacy t AncestryContained merged (Some branch) src (Some x) None
                    | None \<Rightarrow>
                        if \<not> g_is_ancestor (e_git E) g target s
                        then rejectLegacy t DivergedTarget merged (Some branch) src (Some target)
                        else rejectLegacy t EventWithoutAncestry merged (Some branch) src (Some target))))))"

text \<open>Tasks that have a transaction are left out.\<close>

definition classifyHubLegacyLandingHistory ::
    "'g reconcile_env \<Rightarrow> 'g hub \<Rightarrow> HubLandingPolicy option \<Rightarrow> task_id list \<Rightarrow> HubLegacyLandingEvidence list" where
  "classifyHubLegacyLandingHistory V h policy existingTaskIds =
    (let E = rv_hub V; g = h_git h;
         targets = resolveTargetOids E g (coalesce policy (readHubLandingPolicy (h_policy h)))
     in List.map_filter (\<lambda>task. classifyTask E g task (rv_events V) targets)
          (filter (\<lambda>task. lt_id task \<notin> set existingTaskIds) (rv_tasks V)))"

definition adopted_record ::
    "txn_id \<Rightarrow> task_id \<Rightarrow> iso_time \<Rightarrow> oid \<Rightarrow> oid \<Rightarrow> checkpoint \<Rightarrow> HubLandingTransactionRecord" where
  "adopted_record tx t created src target c =
     (plain_record c tx t created)
       \<lparr>ev_sourceOid := Some src, ev_baseOid := Some target, ev_candidateOid := Some src,
        ev_candidateRef := Some (resolveHubLandingCandidateRef tx)\<rparr>"

definition ADOPTED_OPENING_CHECKPOINTS :: "checkpoint list" where
  "ADOPTED_OPENING_CHECKPOINTS = [Opened, BasePinned, CandidateCreated]"

definition persistAdoptedCandidate ::
    "'g env \<Rightarrow> txn_id \<Rightarrow> task_id \<Rightarrow> oid \<Rightarrow> oid \<Rightarrow> iso_time \<Rightarrow> ('g, unit) hub_act" where
  "persistAdoptedCandidate E tx t src base created =
     writeCandidateManifestAndRef E
       \<lparr>m_transactionId = tx, m_taskId = t, m_sourceOid = src, m_baseOid = base, m_candidateOid = src,
        m_candidateRef = resolveHubLandingCandidateRef tx, m_createdAt = created, m_filtered = None\<rparr>"

text \<open>The transaction that a contained landing is adopted into, step by step.\<close>

definition adopt_transaction ::
    "'g reconcile_env \<Rightarrow> txn_id \<Rightarrow> task_id \<Rightarrow> oid \<Rightarrow> oid \<Rightarrow> ('g, unit) hub_act" where
  "adopt_transaction V tx t src target =
    (let E = rv_hub V; now = rv_now V; fingerprint = computeHubVerifierFingerprint E in
     bind_act (gets_act (\<lambda>h. loadHubLandingTransaction (h_journals h) tx)) (\<lambda>existing.
     bind_act (when_act (existing = None)
       (bind_act (each_act (\<lambda>c. appendCheckpoint (adopted_record tx t now src target c))
           ADOPTED_OPENING_CHECKPOINTS) (\<lambda>_.
        persistAdoptedCandidate E tx t src target now))) (\<lambda>_.
     bind_act (bindHubLandingVerification E
       \<lparr>bi_transactionId = tx, bi_taskId = t, bi_candidateOid = src, bi_verifierFingerprint = fingerprint,
        bi_verifierConfigHash = None, bi_runtimeFingerprint = None, bi_repoRootGiven = True,
        bi_exitCode = None, bi_output = None\<rparr> now) (\<lambda>_.
     bind_act (appendCheckpoint ((adopted_record tx t now src target TargetLanded)
       \<lparr>ev_verifierFingerprint := Some fingerprint, ev_publishTargetOid := Some target\<rparr>)) (\<lambda>_.
     bind_act (gets_act (\<lambda>h. reader_of V (h_git h))) (\<lambda>reader.
     bind_act (closeHubLandingTask E tx t src True reader (closer_of V) now) (\<lambda>_. ret_act ())))))))"

definition adoptContainedTask ::
    "'g reconcile_env \<Rightarrow> HubLegacyLandingEvidence \<Rightarrow> ('g, HubLegacyLandingEvidence) hub_act" where
  "adoptContainedTask V entry =
     (if \<not> truthy_string (le_sourceOid entry) \<or> \<not> truthy_string (le_targetOid entry)
         \<or> \<not> truthy_string (le_branch entry)
      then ret_act entry
      else
        (let src = the (le_sourceOid entry); target = the (le_targetOid entry); t = le_taskId entry;
             tx = resolveHubLandingTransactionId (rt_sha256 (e_rt (rv_hub V))) t src target
         in bind_act (adopt_transaction V tx t src target) (\<lambda>_.
            ret_act (acceptLegacy t AncestryContained (le_hadMergeSucceededEvent entry) (le_branch entry)
              (Some src) (Some target) (Some tx)))))"

definition adoptHubLegacyLandingHistory ::
    "'g reconcile_env \<Rightarrow> HubLandingPolicy option \<Rightarrow> task_id list \<Rightarrow> ('g, HubLegacyLandingEvidence list) hub_act" where
  "adoptHubLegacyLandingHistory V policy existingTaskIds =
     bind_act (gets_act (\<lambda>h. classifyHubLegacyLandingHistory V h policy existingTaskIds)) (\<lambda>classified.
     each_act (\<lambda>entry.
       if le_decision entry \<noteq> AncestryContained \<or> le_taskId entry \<notin> lt_id ` set (rv_tasks V)
       then ret_act entry
       else adoptContainedTask V entry) classified)"


subsection \<open>Reconciling\<close>

datatype HubLandingReconciliationKind = ReconcileClean | ReconcilePending | Reconciled | IntegrityIncident

text \<open>The messages, with what they name.\<close>

datatype reconcile_message =
    TransactionIncident txn_id incident
  | LegacyIncident task_id HubLegacyLandingDecision
  | TransactionPending txn_id checkpoint
  | CheckpointsReconstructed nat
  | LegacyAccepted task_id HubLegacyLandingDecision "txn_id option"
  | NothingIncomplete

record reconcile_summary =
  su_kind :: HubLandingReconciliationKind
  su_pendingCount :: nat
  su_reconstructedCount :: nat
  su_message :: reconcile_message
  su_legacyHistory :: "HubLegacyLandingEvidence list"
  su_transactions :: "HubLandingTransactionEvidence list"

definition pending_message :: "HubLandingTransactionEvidence \<Rightarrow> reconcile_message" where
  "pending_message ev = TransactionPending (tv_transactionId ev)
     (case coalesce (tv_evidenceCheckpoint ev) (tv_journalCheckpoint ev) of None \<Rightarrow> Opened | Some c \<Rightarrow> c)"

definition summarize ::
    "HubLandingTransactionEvidence list \<Rightarrow> nat \<Rightarrow> HubLegacyLandingEvidence list \<Rightarrow> reconcile_summary" where
  "summarize transactions reconstructed legacy =
    (let pending = filter tv_pending transactions;
         result = (\<lambda>k n m. \<lparr>su_kind = k, su_pendingCount = n, su_reconstructedCount = reconstructed,
           su_message = m, su_legacyHistory = legacy, su_transactions = transactions\<rparr>)
     in case find (\<lambda>ev. tv_integrityIncident ev \<noteq> None) transactions of
          Some ev \<Rightarrow> result IntegrityIncident (length pending)
            (TransactionIncident (tv_transactionId ev) (the (tv_integrityIncident ev)))
        | None \<Rightarrow>
            (case find (\<lambda>l. le_integrityIncident l \<noteq> None) legacy of
               Some l \<Rightarrow> result IntegrityIncident (length pending)
                 (LegacyIncident (le_taskId l) (le_decision l))
             | None \<Rightarrow>
                 (case pending of
                    ev # _ \<Rightarrow> result ReconcilePending (length pending) (pending_message ev)
                  | [] \<Rightarrow>
                      if reconstructed > 0
                      then result Reconciled 0 (CheckpointsReconstructed reconstructed)
                      else result ReconcileClean 0
                        (case find le_accepted legacy of
                           Some l \<Rightarrow> LegacyAccepted (le_taskId l) (le_decision l) (le_transactionId l)
                         | None \<Rightarrow> NothingIncomplete))))"

definition hubLandingReconciliationHasVisibleOutput :: "reconcile_summary \<Rightarrow> bool" where
  "hubLandingReconciliationHasVisibleOutput s \<longleftrightarrow> su_kind s \<noteq> ReconcileClean \<or> su_legacyHistory s \<noteq> []"

definition inspectionKind :: "HubLandingReconciliationKind \<Rightarrow> HubLandingReconciliationKind" where
  "inspectionKind k =
     (if k = IntegrityIncident then IntegrityIncident
      else if k = ReconcilePending then ReconcilePending else ReconcileClean)"

definition taskIdsFromTransactions :: "HubLandingTransactionEvidence list \<Rightarrow> task_id list" where
  "taskIdsFromTransactions transactions =
     List.map_filter (\<lambda>ev. if truthy_string (tv_taskId ev) then tv_taskId ev else None) transactions"

definition collectLegacyHistory ::
    "'g reconcile_env \<Rightarrow> 'g hub \<Rightarrow> HubLandingPolicy option \<Rightarrow> HubLandingTransactionEvidence list
     \<Rightarrow> HubLegacyLandingEvidence list" where
  "collectLegacyHistory V h policy transactions =
     (if rv_tasks V = [] then []
      else classifyHubLegacyLandingHistory V h policy (taskIdsFromTransactions transactions))"

definition inspectHubLandingTransactions :: "'g reconcile_env \<Rightarrow> 'g hub \<Rightarrow> reconcile_summary" where
  "inspectHubLandingTransactions V h =
    (let policy = readHubLandingPolicy (h_policy h);
         transactions = map (collectEvidence V policy h) (listHubLandingTransactionIds V h);
         s = summarize transactions 0 (collectLegacyHistory V h policy transactions)
     in s\<lparr>su_kind := inspectionKind (su_kind s)\<rparr>)"

text \<open>One pass of the loop over the transactions, for a transaction without an incident.\<close>

definition deliver_landed ::
    "'g reconcile_env \<Rightarrow> HubLandingPolicy \<Rightarrow> HubLandingTransactionEvidence \<Rightarrow> ('g, unit) hub_act" where
  "deliver_landed V policy ev =
    (let t = the (tv_taskId ev); cand = the (tv_candidateOid ev); tx = tv_transactionId ev in
     bind_act (enqueueHubCheckoutProjection (rv_hub V) tx t policy cand (rv_now V)) (\<lambda>_.
     bind_act (enqueueHubPublicationAfterShipped (rv_hub V) tx t cand (Some policy) (rv_now V)) (\<lambda>_.
     ret_act ())))"

definition reconcile_one ::
    "'g reconcile_env \<Rightarrow> HubLandingPolicy \<Rightarrow> HubLandingTransactionEvidence \<Rightarrow> ('g, nat) hub_act" where
  "reconcile_one V policy ev =
    (let known = truthy_string (tv_taskId ev) \<and> truthy_string (tv_candidateOid ev) in
     bind_act (gets_act (\<lambda>h. loadHubLandingTransaction (h_journals h) (tv_transactionId ev))) (\<lambda>journal.
     bind_act (reconstructCheckpoints V ev journal) (\<lambda>count.
     bind_act (when_act (tv_landed ev \<and> \<not> tv_closed ev \<and> known)
       (bind_act (gets_act (\<lambda>h. reader_of V (h_git h))) (\<lambda>reader.
        bind_act (closeHubLandingTask (rv_hub V) (tv_transactionId ev) (the (tv_taskId ev))
          (the (tv_candidateOid ev)) True reader (closer_of V) (rv_now V)) (\<lambda>_. ret_act ())))) (\<lambda>_.
     bind_act
       (case toCandidate V ev policy journal of
          Some c \<Rightarrow> when_act (tv_worktreePresent ev \<and> (tv_landed ev \<or> tv_closed ev))
            (cleanupHubLandingCandidate (rv_hub V) c (rv_now V))
        | None \<Rightarrow> ret_act ()) (\<lambda>_.
     bind_act (when_act (tv_landed ev \<and> known) (deliver_landed V policy ev)) (\<lambda>_.
     ret_act count))))))"

text \<open>The loop stops at the first transaction with an incident, which it returns.\<close>

fun reconcile_each ::
    "'g reconcile_env \<Rightarrow> HubLandingPolicy \<Rightarrow> nat \<Rightarrow> txn_id list
     \<Rightarrow> ('g, HubLandingTransactionEvidence + nat) hub_act" where
  "reconcile_each V policy n [] = ret_act (Inr n)"
| "reconcile_each V policy n (tx # txs) =
     bind_act (gets_act (\<lambda>h. collectEvidence V (Some policy) h tx)) (\<lambda>before.
     if tv_integrityIncident before \<noteq> None then ret_act (Inl before)
     else bind_act (reconcile_one V policy before) (\<lambda>k. reconcile_each V policy (n + k) txs))"

definition adopt_history :: "'g reconcile_env \<Rightarrow> HubLandingPolicy \<Rightarrow> ('g, HubLegacyLandingEvidence list) hub_act" where
  "adopt_history V policy =
     (if rv_tasks V = [] then ret_act []
      else
        bind_act (gets_act (\<lambda>h. taskIdsFromTransactions
          (map (collectEvidence V (Some policy) h) (listHubLandingTransactionIds V h)))) (\<lambda>existing.
        adoptHubLegacyLandingHistory V (Some policy) existing))"

definition reconcileHubLandingTransactions :: "'g reconcile_env \<Rightarrow> ('g, reconcile_summary) hub_act" where
  "reconcileHubLandingTransactions V =
     bind_act (ensurePolicy (rv_hub V) (rv_now V)) (\<lambda>policy.
     bind_act (adopt_history V policy) (\<lambda>legacy.
     bind_act (gets_act (listHubLandingTransactionIds V)) (\<lambda>ids.
     bind_act (reconcile_each V policy 0 ids) (\<lambda>outcome.
     case outcome of
       Inl before \<Rightarrow> ret_act (summarize [before] 0 legacy)
     | Inr n \<Rightarrow>
         bind_act (gets_act (inspectHubLandingTransactions V)) (\<lambda>after.
         ret_act (summarize (su_transactions after) n
           (if su_legacyHistory after \<noteq> [] then su_legacyHistory after else legacy)))))))"

end
