(* ===== verification/Reconciliation_Properties.thy ===== *)
theory Reconciliation_Properties
  imports Landing_Reconciliation Hub_Demo
begin

text \<open>
  What reconciling a project guarantees: a landing that the process did not survive is recognised by its
  receipt and brought to its end, nothing is closed or delivered without one, and what an adoption of an
  older landing leaves behind when it is interrupted.
\<close>

subsection \<open>Operations that return\<close>

text \<open>Total correctness: from a state with \<open>P\<close> the operation returns, and the result and state have \<open>Q\<close>.\<close>

definition runs :: "('s \<Rightarrow> bool) \<Rightarrow> ('s, 'e, 'a) act \<Rightarrow> ('a \<Rightarrow> 's \<Rightarrow> bool) \<Rightarrow> bool" where
  "runs P m Q \<longleftrightarrow> (\<forall>s. P s \<longrightarrow> (\<exists>a t. m s = (Inr a, t) \<and> Q a t))"

lemma runsI: "(\<And>s. P s \<Longrightarrow> \<exists>a t. m s = (Inr a, t) \<and> Q a t) \<Longrightarrow> runs P m Q"
  by (simp add: runs_def)

lemma runs_ret: "runs (Q a) (ret_act a) Q"
  by (simp add: runs_def ret_act_def)

lemma runs_bind: "runs P m R \<Longrightarrow> (\<And>a. runs (R a) (f a) Q) \<Longrightarrow> runs P (bind_act m f) Q"
  unfolding runs_def bind_act_def by (metis (no_types, lifting) prod.simps(2) sum.simps(6))

lemma runs_gets: "runs (\<lambda>s. Q (f s) s) (gets_act f) Q"
  by (simp add: runs_def gets_act_def)

lemma runs_bind_gets: "(\<And>a. runs (\<lambda>s. P s \<and> f s = a) (g a) Q) \<Longrightarrow> runs P (bind_act (gets_act f) g) Q"
  by (simp add: runs_def bind_act_def gets_act_def)

lemma runs_modify: "(\<And>s. P s \<Longrightarrow> Q () (f s)) \<Longrightarrow> runs P (modify_act f) Q"
  by (simp add: runs_def modify_act_def)

lemma runs_when: "(b \<Longrightarrow> runs P m (\<lambda>_. Q)) \<Longrightarrow> (\<And>s. \<not> b \<Longrightarrow> P s \<Longrightarrow> Q s) \<Longrightarrow> runs P (when_act b m) (\<lambda>_. Q)"
  by (auto simp: runs_def when_act_def ret_act_def)

lemma runs_weaken: "runs P m Q \<Longrightarrow> (\<And>s. P' s \<Longrightarrow> P s) \<Longrightarrow> (\<And>a s. Q a s \<Longrightarrow> Q' a s) \<Longrightarrow> runs P' m Q'"
  unfolding runs_def by blast

lemma runs_bind_ret: "runs P m (\<lambda>_. Q) \<Longrightarrow> runs P (bind_act m (\<lambda>_. ret_act a)) (\<lambda>_. Q)"
  by (rule runs_bind [OF _ runs_weaken [OF runs_ret]]) auto


subsection \<open>The journal as a list of records\<close>

abbreviation journal_of :: "'g hub \<Rightarrow> txn_id \<Rightarrow> HubLandingTransactionRecord list" where
  "journal_of h tx \<equiv> readHubLandingJournal (h_journals h) tx"

lemma journal_same: "journals_ok js \<Longrightarrow> valid_records (readHubLandingJournal js tx) = readHubLandingJournal js tx"
  by (auto intro: valid_records_same simp: journals_ok_def)

lemma load_None: "loadHubLandingTransaction js tx = None \<longleftrightarrow> readHubLandingJournal js tx = []"
  by (simp add: loadHubLandingTransaction_def reduce_None)

lemma load_field:
  assumes step: "\<And>s r. fs (reduce_step s r) = coalesce (fr r) (fs s)"
    and start: "\<And>v r. fs (initial_state v r) = fr r" and ok: "journals_ok js"
  shows "Option.bind (loadHubLandingTransaction js tx) fs = last_defined fr (readHubLandingJournal js tx)"
proof (cases "loadHubLandingTransaction js tx")
  case None
  then have "readHubLandingJournal js tx = []" by (simp only: load_None)
  with None show ?thesis by simp
next
  case (Some s)
  with reduce_field [of fs fr, OF step start] journal_same [OF ok] show ?thesis
    by (simp add: loadHubLandingTransaction_def)
qed

lemma load_candidate:
  "journals_ok js \<Longrightarrow> Option.bind (loadHubLandingTransaction js tx) ev_candidateOid
     = last_defined ev_candidateOid (readHubLandingJournal js tx)"
  by (rule load_field) (simp_all add: reduce_step_def)

lemma load_candidateRef:
  "journals_ok js \<Longrightarrow> Option.bind (loadHubLandingTransaction js tx) ev_candidateRef
     = last_defined ev_candidateRef (readHubLandingJournal js tx)"
  by (rule load_field) (simp_all add: reduce_step_def)

lemma load_checkpoint:
  assumes "journals_ok js"
  shows "map_option st_checkpoint (loadHubLandingTransaction js tx) =
     (if readHubLandingJournal js tx = [] then None
      else Some (Max (r_checkpoint ` set (readHubLandingJournal js tx))))"
proof (cases "loadHubLandingTransaction js tx")
  case None
  then have "readHubLandingJournal js tx = []" by (simp only: load_None)
  with None show ?thesis by simp
next
  case (Some s)
  then have "readHubLandingJournal js tx \<noteq> []" using load_None by (metis option.distinct(1))
  with Some reduce_checkpoint [of "readHubLandingJournal js tx"] journal_same [OF assms, of tx] show ?thesis
    by (simp add: loadHubLandingTransaction_def)
qed

lemma load_taskId:
  "map_option st_taskId (loadHubLandingTransaction js tx) =
     (case readHubLandingJournal js tx of [] \<Rightarrow> None | r # rs \<Rightarrow> Some (r_taskId r))"
  by (cases "readHubLandingJournal js tx")
    (simp_all add: loadHubLandingTransaction_def reduce_fold)

text \<open>Appending records that can be written.\<close>

lemma append_run:
  assumes "record_ok r" and "journals_ok (h_journals h)"
  shows "\<exists>s js. appendCheckpoint r h = (Inr s, h\<lparr>h_journals := js\<rparr>) \<and> journals_ok js
    \<and> readHubLandingJournal js (r_transactionId r) = journal_of h (r_transactionId r) @ [r]
    \<and> (\<forall>tx. tx \<noteq> r_transactionId r \<longrightarrow> readHubLandingJournal js tx = journal_of h tx)"
proof -
  let ?js = "(h_journals h)(r_transactionId r := h_journals h (r_transactionId r) @ [Some (record_json r)])"
  have "snd (appendHubLandingCheckpoint (h_journals h) r) = ?js"
    by (simp add: append_checkpoint [OF assms])
  with append_journals_ok [OF assms] have "journals_ok ?js" by simp
  then show ?thesis
    unfolding appendCheckpoint_eq append_checkpoint [OF assms] using read_journal_append [OF assms(1)]
    by auto
qed

lemma append_all_run:
  assumes "\<And>c. c \<in> set cs \<Longrightarrow> record_ok (f c) \<and> r_transactionId (f c) = tx"
    and "journals_ok (h_journals h)"
  shows "\<exists>ys js. each_act (\<lambda>c. appendCheckpoint (f c)) cs h = (Inr ys, h\<lparr>h_journals := js\<rparr>)
    \<and> journals_ok js \<and> readHubLandingJournal js tx = journal_of h tx @ map f cs
    \<and> (\<forall>x. x \<noteq> tx \<longrightarrow> readHubLandingJournal js x = journal_of h x)"
  using assms
proof (induction cs arbitrary: h)
  case Nil
  then show ?case by (intro exI [of _ "[]"] exI [of _ "h_journals h"]) (simp add: ret_act_def)
next
  case (Cons c cs)
  from Cons.prems(1) [of c] have c: "record_ok (f c)" "r_transactionId (f c) = tx" by simp_all
  from append_run [OF c(1) Cons.prems(2)] c(2) obtain s js where
      a: "appendCheckpoint (f c) h = (Inr s, h\<lparr>h_journals := js\<rparr>)" and ok: "journals_ok js"
    and r: "readHubLandingJournal js tx = journal_of h tx @ [f c]"
    and o: "\<And>x. x \<noteq> tx \<Longrightarrow> readHubLandingJournal js x = journal_of h x" by auto
  from Cons.IH [of "h\<lparr>h_journals := js\<rparr>"] Cons.prems(1) ok obtain ys js' where
      "each_act (\<lambda>c. appendCheckpoint (f c)) cs (h\<lparr>h_journals := js\<rparr>) = (Inr ys, h\<lparr>h_journals := js'\<rparr>)"
      "journals_ok js'" "readHubLandingJournal js' tx = readHubLandingJournal js tx @ map f cs"
      "\<forall>x. x \<noteq> tx \<longrightarrow> readHubLandingJournal js' x = readHubLandingJournal js x"
    by auto
  with a r o show ?case
    by (intro exI [of _ "s # ys"] exI [of _ js']) (simp add: bind_act_def ret_act_def)
qed


subsection \<open>The evidence, in terms of the journal's records\<close>

definition stored_ref :: "'g hub \<Rightarrow> txn_id \<Rightarrow> string" where
  "stored_ref h tx = (case coalesce (last_defined ev_candidateRef (journal_of h tx))
       (map_option m_candidateRef (readHubLandingCandidateManifest h tx)) of
     Some r \<Rightarrow> r | None \<Rightarrow> resolveHubLandingCandidateRef tx)"

definition stored_candidate :: "'g env \<Rightarrow> 'g hub \<Rightarrow> txn_id \<Rightarrow> oid option" where
  "stored_candidate E h tx = coalesce (g_rev_parse (e_git E) (h_git h) (stored_ref h tx))
     (coalesce (map_option m_candidateOid (readHubLandingCandidateManifest h tx))
       (last_defined ev_candidateOid (journal_of h tx)))"

definition in_target :: "'g env \<Rightarrow> HubLandingPolicy \<Rightarrow> 'g hub \<Rightarrow> txn_id \<Rightarrow> bool" where
  "in_target E p h tx = contained E (h_git h) (stored_candidate E h tx)
     (g_rev_parse (e_git E) (h_git h) (p_publishTargetRef p))"

definition incident_of :: "'g env \<Rightarrow> HubLandingPolicy \<Rightarrow> 'g hub \<Rightarrow> txn_id \<Rightarrow> incident option" where
  "incident_of E p h tx = evidence_incident (last_defined ev_candidateOid (journal_of h tx))
     (map_option m_candidateOid (readHubLandingCandidateManifest h tx))
     (g_rev_parse (e_git E) (h_git h) (stored_ref h tx)) (stored_candidate E h tx)
     (map_option fst (readHubLandingReceipt E (h_git h) tx)) (in_target E p h tx)"

definition task_of :: "'g env \<Rightarrow> 'g hub \<Rightarrow> txn_id \<Rightarrow> task_id option" where
  "task_of E h tx = coalesce (case journal_of h tx of [] \<Rightarrow> None | r # rs \<Rightarrow> Some (r_taskId r))
     (coalesce (map_option m_taskId (readHubLandingCandidateManifest h tx))
       (map_option (rc_taskId \<circ> fst) (readHubLandingReceipt E (h_git h) tx)))"

definition reached_by :: "'g hub \<Rightarrow> txn_id \<Rightarrow> checkpoint option" where
  "reached_by h tx = (if journal_of h tx = [] then None
     else Some (Max (r_checkpoint ` set (journal_of h tx))))"

lemma collect_facts:
  assumes "journals_ok (h_journals h)"
  shows "tv_candidateRef (collectEvidence V (Some p) h tx) = stored_ref h tx"
    and "tv_candidateOid (collectEvidence V (Some p) h tx) = stored_candidate (rv_hub V) h tx"
    and "tv_integrityIncident (collectEvidence V (Some p) h tx) = incident_of (rv_hub V) p h tx"
    and "tv_taskId (collectEvidence V (Some p) h tx) = task_of (rv_hub V) h tx"
    and "tv_journalCheckpoint (collectEvidence V (Some p) h tx) = reached_by h tx"
    and "tv_worktreePresent (collectEvidence V (Some p) h tx)
      = t_exists (e_trees (rv_hub V)) (h_git h) (resolveHubLandingWorktreeDir (rv_hub V) tx)"
    and "tv_transactionId (collectEvidence V (Some p) h tx) = tx"
    and "tv_taskBacked (collectEvidence V (Some p) h tx) = task_backed (task_of (rv_hub V) h tx)"
proof -
  note ld = load_candidate [OF assms, of tx] load_candidateRef [OF assms, of tx]
    load_checkpoint [OF assms, of tx]
  have ref: "evidence_ref (loadHubLandingTransaction (h_journals h) tx)
      (readHubLandingCandidateManifest h tx) tx = stored_ref h tx"
    by (simp add: evidence_ref_def stored_ref_def ld)
  show "tv_candidateRef (collectEvidence V (Some p) h tx) = stored_ref h tx"
    by (simp add: collectEvidence_def Let_def ref)
  show "tv_candidateOid (collectEvidence V (Some p) h tx) = stored_candidate (rv_hub V) h tx"
    by (simp add: collectEvidence_def Let_def ref ld stored_candidate_def)
  show "tv_integrityIncident (collectEvidence V (Some p) h tx) = incident_of (rv_hub V) p h tx"
    by (simp add: collectEvidence_def Let_def ref ld stored_candidate_def incident_of_def in_target_def)
  show "tv_taskId (collectEvidence V (Some p) h tx) = task_of (rv_hub V) h tx"
    by (simp add: collectEvidence_def Let_def task_of_def load_taskId option.map_comp)
  then show "tv_taskBacked (collectEvidence V (Some p) h tx) = task_backed (task_of (rv_hub V) h tx)"
    by (simp add: collectEvidence_def Let_def)
  show "tv_journalCheckpoint (collectEvidence V (Some p) h tx) = reached_by h tx"
    by (simp add: collectEvidence_def Let_def ld reached_by_def)
qed (simp_all add: collectEvidence_def Let_def)

text \<open>Whether the task store says that the transaction closed the task.\<close>

definition store_says_closed :: "'g reconcile_env \<Rightarrow> 'g hub \<Rightarrow> txn_id \<Rightarrow> bool" where
  "store_says_closed V h tx \<longleftrightarrow>
     isMatchingHubLandingBeadsClose (readTaskBackedBeadsClose V (h_git h) (task_of (rv_hub V) h tx)) tx
       (coalesce (stored_candidate (rv_hub V) h tx)
         (map_option (rc_candidateOid \<circ> fst) (readHubLandingReceipt (rv_hub V) (h_git h) tx)))"

lemma collect_landed:
  assumes "journals_ok (h_journals h)"
  shows "tv_landed (collectEvidence V (Some p) h tx) \<longleftrightarrow>
      readHubLandingReceipt (rv_hub V) (h_git h) tx \<noteq> None \<and> in_target (rv_hub V) p h tx
      \<and> incident_of (rv_hub V) p h tx = None"
  unfolding collect_facts(3) [OF assms, symmetric] in_target_def
    collect_facts(2) [OF assms, of V p tx, symmetric]
  by (simp add: collectEvidence_def Let_def)

lemma collect_closed:
  assumes "journals_ok (h_journals h)"
  shows "tv_closed (collectEvidence V (Some p) h tx) \<longleftrightarrow> store_says_closed V h tx
      \<or> rv_readTaskClose V = None \<and> rankOf (reached_by h tx) \<ge> rankOf (Some TaskClosed)
      \<or> isInternallyClosedHostContribution (task_backed (task_of (rv_hub V) h tx))
          (tv_landed (collectEvidence V (Some p) h tx)) (reached_by h tx)"
  unfolding store_says_closed_def collect_facts(4) [OF assms, of V p tx, symmetric]
    collect_facts(2) [OF assms, of V p tx, symmetric] collect_facts(5) [OF assms, of V p tx, symmetric]
  by (simp add: collectEvidence_def Let_def option.map_comp)

lemma collect_rest:
  fixes V p h tx
  defines "ev \<equiv> collectEvidence V (Some p) h tx"
  shows "tv_cleaned ev \<longleftrightarrow> \<not> tv_worktreePresent ev
      \<and> (tv_landed ev \<or> tv_closed ev \<or> tv_journalCheckpoint ev = Some Cleaned)"
    and "tv_evidenceCheckpoint ev = maxCheckpoint
       [tv_journalCheckpoint ev, if truthy_string (tv_candidateOid ev) then Some CandidateCreated else None,
        if tv_verificationReusable ev then Some CandidateVerified else None,
        if tv_landed ev then Some TargetLanded else None,
        if tv_closed ev then Some TaskClosed else None, if tv_cleaned ev then Some Cleaned else None]"
    and "tv_pending ev = isPendingReconciliation (tv_integrityIncident ev) (tv_evidenceCheckpoint ev)
       (tv_landed ev) (tv_closed ev) (tv_worktreePresent ev)"
  by (simp_all add: ev_def collectEvidence_def Let_def)


subsection \<open>A landed transaction stays landed\<close>

text \<open>The names that Git resolves, its objects and its history are as before.\<close>

definition same_refs :: "'g git \<Rightarrow> 'g \<Rightarrow> 'g \<Rightarrow> bool" where
  "same_refs G g g' \<longleftrightarrow> g_rev_parse G g' = g_rev_parse G g \<and> g_cat_file G g' = g_cat_file G g
     \<and> g_is_ancestor G g' = g_is_ancestor G g"

lemma same_refs_refl [simp]: "same_refs G g g"
  by (simp add: same_refs_def)

lemma same_refs_trans: "same_refs G f g \<Longrightarrow> same_refs G g h \<Longrightarrow> same_refs G f h"
  by (simp add: same_refs_def)

text \<open>
  What happened to a transaction since \<open>h\<close>: the repository has the same refs, the manifest is the same, and
  the journal may have grown by records that name the same task, candidate and candidate ref.
\<close>

definition names_same :: "'g env \<Rightarrow> 'g hub \<Rightarrow> txn_id \<Rightarrow> HubLandingTransactionRecord \<Rightarrow> bool" where
  "names_same E h tx r \<longleftrightarrow> task_of E h tx = Some (r_taskId r)
     \<and> ev_candidateOid r = stored_candidate E h tx \<and> ev_candidateRef r \<in> {None, Some (stored_ref h tx)}"

definition progressed :: "'g env \<Rightarrow> txn_id \<Rightarrow> 'g hub \<Rightarrow> 'g hub \<Rightarrow> bool" where
  "progressed E tx h h' \<longleftrightarrow> same_refs (e_git E) (h_git h) (h_git h') \<and> h_manifest h' = h_manifest h
     \<and> journals_ok (h_journals h')
     \<and> (\<exists>rs. journal_of h' tx = journal_of h tx @ rs \<and> list_all (names_same E h tx) rs)"

lemma last_defined_append: "last_defined f (rs @ qs) = coalesce (last_defined f qs) (last_defined f rs)"
  by (induction qs rule: rev_induct) (simp_all flip: append_assoc add: coalesce_assoc)

lemma last_defined_single [simp]: "last_defined f [r] = f r"
  by (cases "f r") (simp_all add: last_defined_def coalesce_def)

lemma last_defined_in: "last_defined f rs = Some v \<Longrightarrow> \<exists>r \<in> set rs. f r = Some v"
  by (auto simp: last_defined_Some_iff)

lemma receipt_same:
  "same_refs (e_git E) (h_git h) (h_git h') \<Longrightarrow> readHubLandingReceipt E (h_git h') = readHubLandingReceipt E (h_git h)"
  by (simp add: readHubLandingReceipt_def same_refs_def fun_eq_iff)

lemma progressed_view:
  assumes "progressed E tx h h'"
  shows "stored_ref h' tx = stored_ref h tx" and "stored_candidate E h' tx = stored_candidate E h tx"
    and "task_of E h' tx = task_of E h tx" and "in_target E p h' tx = in_target E p h tx"
proof -
  from assms obtain rs where j: "journal_of h' tx = journal_of h tx @ rs"
      and rs: "\<And>r. r \<in> set rs \<Longrightarrow> names_same E h tx r"
      and g: "same_refs (e_git E) (h_git h) (h_git h')" and m: "h_manifest h' = h_manifest h"
    by (auto simp: progressed_def list_all_iff)
  have man: "readHubLandingCandidateManifest h' tx = readHubLandingCandidateManifest h tx"
    by (simp add: readHubLandingCandidateManifest_def m)
  show ref: "stored_ref h' tx = stored_ref h tx"
  proof (cases "last_defined ev_candidateRef rs")
    case None
    then show ?thesis by (simp add: stored_ref_def man j last_defined_append)
  next
    case (Some x)
    from last_defined_in [OF Some] rs have "x = stored_ref h tx" by (fastforce simp: names_same_def)
    with Some show ?thesis by (simp add: stored_ref_def [of h'] j last_defined_append)
  qed
  show cand: "stored_candidate E h' tx = stored_candidate E h tx"
  proof (cases "last_defined ev_candidateOid rs")
    case None
    with g show ?thesis by (simp add: stored_candidate_def ref man j last_defined_append same_refs_def)
  next
    case (Some x)
    with last_defined_in [OF Some] rs have "Some x = stored_candidate E h tx" by (auto simp: names_same_def)
    with Some g show ?thesis
      by (auto simp: stored_candidate_def ref man j last_defined_append same_refs_def coalesce_def
          split: option.splits)
  qed
  show "task_of E h' tx = task_of E h tx"
  proof (cases "journal_of h tx")
    case Nil
    show ?thesis
    proof (cases rs)
      case Nil
      with \<open>journal_of h tx = []\<close> show ?thesis by (simp add: task_of_def j man receipt_same [OF g])
    next
      case (Cons r qs)
      with rs have "task_of E h tx = Some (r_taskId r)" by (simp add: names_same_def)
      with Cons \<open>journal_of h tx = []\<close> show ?thesis by (simp add: task_of_def [of E h'] j)
    qed
  next
    case (Cons r qs)
    then show ?thesis by (simp add: task_of_def j)
  qed
  from g have "g_rev_parse (e_git E) (h_git h') = g_rev_parse (e_git E) (h_git h)"
      "g_is_ancestor (e_git E) (h_git h') = g_is_ancestor (e_git E) (h_git h)"
    by (simp_all add: same_refs_def)
  then show "in_target E p h' tx = in_target E p h tx"
    by (simp only: in_target_def contained_def cand)
qed

lemma mismatch_None: "candidateOidMismatchIncident f a b = None \<longleftrightarrow> \<not> truthy_string a \<or> \<not> truthy_string b \<or> a = b"
  by (simp add: candidateOidMismatchIncident_def)

lemma progressed_incident:
  assumes "progressed E tx h h'" and "incident_of E p h tx = None"
  shows "incident_of E p h' tx = None"
proof -
  note view = progressed_view [OF assms(1)]
  from assms(1) obtain rs where j: "journal_of h' tx = journal_of h tx @ rs"
      and rs: "\<And>r. r \<in> set rs \<Longrightarrow> names_same E h tx r"
      and g: "same_refs (e_git E) (h_git h) (h_git h')" and m: "h_manifest h' = h_manifest h"
    by (auto simp: progressed_def list_all_iff)
  let ?ref = "g_rev_parse (e_git E) (h_git h) (stored_ref h tx)"
  have man: "readHubLandingCandidateManifest h' tx = readHubLandingCandidateManifest h tx"
    by (simp add: readHubLandingCandidateManifest_def m)
  have tip: "g_rev_parse (e_git E) (h_git h') (stored_ref h' tx) = ?ref"
    using g by (simp add: view(1) same_refs_def)
  have mism: "candidateOidMismatchIncident JournalMismatch (last_defined ev_candidateOid (journal_of h' tx)) ?ref = None"
    if "candidateOidMismatchIncident JournalMismatch (last_defined ev_candidateOid (journal_of h tx)) ?ref = None"
  proof (cases "last_defined ev_candidateOid rs")
    case None
    with that show ?thesis by (simp add: j last_defined_append)
  next
    case (Some x)
    with last_defined_in [OF Some] rs have "Some x = stored_candidate E h tx" by (auto simp: names_same_def)
    then have "\<not> truthy_string ?ref \<or> Some x = ?ref"
      by (auto simp: stored_candidate_def coalesce_def truthy_string_iff split: option.splits)
    with Some show ?thesis by (auto simp: j last_defined_append mismatch_None)
  qed
  have now: "incident_of E p h' tx = evidence_incident (last_defined ev_candidateOid (journal_of h' tx))
     (map_option m_candidateOid (readHubLandingCandidateManifest h tx)) ?ref (stored_candidate E h tx)
     (map_option fst (readHubLandingReceipt E (h_git h) tx)) (in_target E p h tx)"
    by (simp only: incident_of_def view(2,4) man receipt_same [OF g] tip)
  from assms(2) show ?thesis
    unfolding now incident_of_def [of E p h] evidence_incident_def Let_def
    using mism by (auto simp: coalesce_def split: option.splits if_splits)
qed


subsection \<open>What a pass over a transaction keeps\<close>

text \<open>
  Removing a worktree and asking a remote for its tip leave the refs, the objects and the task store alone;
  a removed worktree is gone. The closer of the task store returns, leaves the repository alone, and is seen
  by the reader.
\<close>

definition keeps_view :: "'g reconcile_env \<Rightarrow> 'g \<Rightarrow> 'g \<Rightarrow> bool" where
  "keeps_view V g g' \<longleftrightarrow> same_refs (e_git (rv_hub V)) g g' \<and> reader_of V g' = reader_of V g"

definition upkeep_laws :: "'g reconcile_env \<Rightarrow> bool" where
  "upkeep_laws V \<longleftrightarrow>
    (let T = e_trees (rv_hub V) in
     (\<forall>g d g'. t_remove T g d = Some g' \<longrightarrow> keeps_view V g g' \<and> \<not> t_exists T g' d)
     \<and> (\<forall>g d. keeps_view V g (t_delete T g d) \<and> \<not> t_exists T (t_delete T g d) d)
     \<and> (\<forall>g n r. keeps_view V g (snd (rm_ls_remote (e_remotes (rv_hub V)) g n r))
          \<and> t_exists T (snd (rm_ls_remote (e_remotes (rv_hub V)) g n r)) = t_exists T g))"

definition closer_works :: "'g reconcile_env \<Rightarrow> txn_id \<Rightarrow> task_id \<Rightarrow> oid \<Rightarrow> bool" where
  "closer_works V tx t cand \<longleftrightarrow> (\<forall>h. \<exists>g. closer_of V t tx cand h = (Inr (), h\<lparr>h_git := g\<rparr>)
     \<and> same_refs (e_git (rv_hub V)) (h_git h) g \<and> t_exists (e_trees (rv_hub V)) g = t_exists (e_trees (rv_hub V)) (h_git h)
     \<and> (rv_readTaskClose V \<noteq> None \<longrightarrow> isMatchingHubLandingBeadsClose (reader_of V g t) tx (Some cand)))"

text \<open>What the reader tells about the task of a transaction.\<close>

definition told :: "'g reconcile_env \<Rightarrow> txn_id \<Rightarrow> 'g hub \<Rightarrow> 'g \<Rightarrow> bool" where
  "told V tx h g \<longleftrightarrow> rv_readTaskClose V \<noteq> None \<longrightarrow> task_backed (task_of (rv_hub V) h tx) \<longrightarrow>
     isMatchingHubLandingBeadsClose (readTaskBackedBeadsClose V g (task_of (rv_hub V) h tx)) tx
       (stored_candidate (rv_hub V) h tx)"

text \<open>
  How far a pass that began in \<open>h0\<close> has come: whether the task is known to be closed, whether the worktree is
  gone, and which checkpoints the journal has.
\<close>

definition stage ::
    "'g reconcile_env \<Rightarrow> txn_id \<Rightarrow> 'g hub \<Rightarrow> bool \<Rightarrow> bool \<Rightarrow> checkpoint set \<Rightarrow> 'g hub \<Rightarrow> bool" where
  "stage V tx h0 shut gone K h \<longleftrightarrow> progressed (rv_hub V) tx h0 h \<and> (shut \<longrightarrow> told V tx h0 (h_git h))
     \<and> (gone \<longrightarrow> \<not> t_exists (e_trees (rv_hub V)) (h_git h) (resolveHubLandingWorktreeDir (rv_hub V) tx))
     \<and> K \<subseteq> r_checkpoint ` set (journal_of h tx)"

lemma stage_weaken:
  "stage V tx h0 shut gone K h \<Longrightarrow> (shut' \<Longrightarrow> shut) \<Longrightarrow> (gone' \<Longrightarrow> gone) \<Longrightarrow> K' \<subseteq> K \<Longrightarrow> stage V tx h0 shut' gone' K' h"
  by (auto simp: stage_def)

lemma stage_git:
  assumes "stage V tx h0 shut gone K h" and "same_refs (e_git (rv_hub V)) (h_git h) g"
    and "shut' \<Longrightarrow> told V tx h0 g"
    and "gone' \<Longrightarrow> \<not> t_exists (e_trees (rv_hub V)) g (resolveHubLandingWorktreeDir (rv_hub V) tx)"
  shows "stage V tx h0 shut' gone' K (h\<lparr>h_git := g\<rparr>)"
  using assms same_refs_trans [of "e_git (rv_hub V)" "h_git h0" "h_git h" g]
  by (auto simp: stage_def progressed_def)

lemma told_keeps: "keeps_view V g g' \<Longrightarrow> told V tx h0 g' = told V tx h0 g"
  by (simp add: told_def keeps_view_def readTaskBackedBeadsClose_def)

lemma stage_ls_remote:
  assumes "upkeep_laws V" and "stage V tx h0 shut gone K h"
  shows "stage V tx h0 shut gone K (h\<lparr>h_git := snd (rm_ls_remote (e_remotes (rv_hub V)) (h_git h) n r)\<rparr>)"
proof -
  let ?g = "snd (rm_ls_remote (e_remotes (rv_hub V)) (h_git h) n r)"
  have k: "keeps_view V (h_git h) ?g"
      and t: "t_exists (e_trees (rv_hub V)) ?g = t_exists (e_trees (rv_hub V)) (h_git h)"
    using assms(1) by (simp_all add: upkeep_laws_def Let_def)
  show ?thesis
    using assms(2) k t told_keeps [OF k] by (intro stage_git [OF assms(2)]) (simp_all add: keeps_view_def stage_def)
qed

lemma stage_outboxes [simp]:
  "stage V tx h0 shut gone K (h\<lparr>h_publication := f\<rparr>) = stage V tx h0 shut gone K h"
  "stage V tx h0 shut gone K (h\<lparr>h_checkout := f\<rparr>) = stage V tx h0 shut gone K h"
  by (simp_all add: stage_def progressed_def)

lemma stage_append:
  assumes "record_ok r" and "r_transactionId r = tx" and "names_same (rv_hub V) h0 tx r"
  shows "runs (stage V tx h0 shut gone K) (appendCheckpoint r) (\<lambda>_. stage V tx h0 shut gone (insert (r_checkpoint r) K))"
proof (rule runsI)
  fix h
  assume st: "stage V tx h0 shut gone K h"
  then have "journals_ok (h_journals h)" by (simp add: stage_def progressed_def)
  from append_run [OF assms(1) this] assms(2) obtain s js where
      a: "appendCheckpoint r h = (Inr s, h\<lparr>h_journals := js\<rparr>)" "journals_ok js"
        "readHubLandingJournal js tx = journal_of h tx @ [r]"
    by auto
  with st assms(3) show "\<exists>s h'. appendCheckpoint r h = (Inr s, h')
      \<and> stage V tx h0 shut gone (insert (r_checkpoint r) K) h'"
    by (auto simp: stage_def progressed_def)
qed

text \<open>Enqueueing a delivery changes nothing but its outbox, and asks the remote.\<close>

lemma enqueuePublication_runs:
  assumes "\<And>h f. I h \<Longrightarrow> I (h\<lparr>h_publication := f\<rparr>)"
    and "\<And>h n r. I h \<Longrightarrow> I (h\<lparr>h_git := snd (rm_ls_remote (e_remotes E) (h_git h) n r)\<rparr>)"
  shows "runs I (enqueueHubPublication E tx t p cand now) (\<lambda>_. I)"
proof (rule runsI)
  fix h :: "'a hub"
  assume "I h"
  with assms show "\<exists>a h'. enqueueHubPublication E tx t p cand now h = (Inr a, h') \<and> I h'"
    by (auto simp: enqueueHubPublication_def enqueueUnsetRemotePending_def observeRemoteTipSync_def
        lsRemote_def Let_def act_defs putItem_def split: option.splits)
qed

lemma enqueueShipped_runs:
  assumes "\<And>h f. I h \<Longrightarrow> I (h\<lparr>h_publication := f\<rparr>)"
    and "\<And>h n r. I h \<Longrightarrow> I (h\<lparr>h_git := snd (rm_ls_remote (e_remotes E) (h_git h) n r)\<rparr>)"
  shows "runs I (enqueueHubPublicationAfterShipped E tx t cand q now) (\<lambda>_. I)"
proof (rule runsI)
  fix h :: "'a hub"
  assume "I h"
  with enqueuePublication_runs [OF assms, of tx t _ cand now]
  show "\<exists>a h'. enqueueHubPublicationAfterShipped E tx t cand q now h = (Inr a, h') \<and> I h'"
    by (auto simp: enqueueHubPublicationAfterShipped_def readPolicy_def bind_act_def gets_act_def ret_act_def
        runs_def split: option.splits)
qed

lemma enqueueCheckout_runs:
  assumes "\<And>h f. I h \<Longrightarrow> I (h\<lparr>h_checkout := f\<rparr>)"
  shows "runs I (enqueueHubCheckoutProjection E tx t p cand now) (\<lambda>_. I)"
proof (rule runsI)
  fix h :: "'a hub"
  assume "I h"
  with assms show "\<exists>a h'. enqueueHubCheckoutProjection E tx t p cand now h = (Inr a, h') \<and> I h'"
    by (auto simp: enqueueHubCheckoutProjection_def Let_def tryRevParse_def act_defs putCheckout_def
        split: option.splits)
qed


subsection \<open>A pass over a landed transaction\<close>

text \<open>The records a pass writes: all for the transaction, naming its task and candidate.\<close>

definition pass_ok :: "'g reconcile_env \<Rightarrow> HubLandingPolicy \<Rightarrow> 'g hub \<Rightarrow> txn_id \<Rightarrow> bool" where
  "pass_ok V p h tx \<longleftrightarrow> (let ev = collectEvidence V (Some p) h tx in
     e_fault (rv_hub V) = no_faults \<and> journals_ok (h_journals h) \<and> tv_landed ev
     \<and> record_ok (reconstructed_record ev (the (tv_taskId ev)) (rv_now V) Opened))"

lemma pass_facts:
  assumes "pass_ok V p h tx"
  obtains t cand where "task_of (rv_hub V) h tx = Some t" and "stored_candidate (rv_hub V) h tx = Some cand"
    and "trimmed tx" and "trimmed t" and "trimmed cand" and "isGitOid cand" and "stored_ref h tx \<noteq> []"
    and "trimmed (rv_now V)" and "incident_of (rv_hub V) p h tx = None"
proof -
  let ?ev = "collectEvidence V (Some p) h tx"
  from assms have j: "journals_ok (h_journals h)" and landed: "tv_landed ?ev"
      and ok: "record_ok (reconstructed_record ?ev (the (tv_taskId ?ev)) (rv_now V) Opened)"
    by (simp_all add: pass_ok_def Let_def)
  note cf = collect_facts [OF j, of V p tx]
  from landed collect_landed [OF j] have rc: "readHubLandingReceipt (rv_hub V) (h_git h) tx \<noteq> None"
      and tgt: "in_target (rv_hub V) p h tx" and inc: "incident_of (rv_hub V) p h tx = None" by blast+
  from rc have "task_of (rv_hub V) h tx \<noteq> None"
    by (simp add: task_of_def coalesce_def split: option.split list.split)
  then obtain t where t: "task_of (rv_hub V) h tx = Some t" by blast
  from tgt obtain cand where c: "stored_candidate (rv_hub V) h tx = Some cand"
    by (auto simp: in_target_def contained_def split: option.splits)
  have "isGitOid cand" "trimmed tx" "trimmed t" "trimmed (stored_ref h tx)" "trimmed (rv_now V)"
    using ok by (simp_all add: reconstructed_record_def plain_record_def no_evidence_def txn_evidence.defs
        record_ok_def evidence_ok_def cf t c)
  with t c inc that [of t cand] show thesis by (simp add: isGitOid_trimmed) (simp add: trimmed_def)
qed

lemma maxCheckpoint_cases:
  "case maxCheckpoint cs of None \<Rightarrow> set cs \<subseteq> {None}
   | Some c \<Rightarrow> Some c \<in> set cs \<and> (\<forall>x \<in> set cs. rankOf x \<le> rankOf (Some c))"
proof (induction cs rule: rev_induct)
  case Nil
  then show ?case by (simp add: maxCheckpoint_def)
next
  case (snoc x cs)
  have m: "maxCheckpoint (cs @ [x]) = (if rankOf x > rankOf (maxCheckpoint cs) then x else maxCheckpoint cs)"
    by (simp add: maxCheckpoint_def)
  show ?case
  proof (cases "maxCheckpoint cs")
    case None
    with snoc m show ?thesis by (cases x) (auto simp: rankOf_def)
  next
    case (Some c)
    with snoc m show ?thesis by (cases x) (force simp: rankOf_def)+
  qed
qed

lemma rankOf_eq: "rankOf (Some a) = rankOf (Some b) \<longleftrightarrow> a = b"
  by (simp add: rankOf_def checkpoint_rank_inject)

text \<open>The highest proven checkpoint is among those the journal is made to reach.\<close>

lemma evidence_reached:
  fixes V p h tx
  defines "ev \<equiv> collectEvidence V (Some p) h tx"
  assumes ok: "journals_ok (h_journals h)" and c: "tv_evidenceCheckpoint ev = Some c"
  shows "c \<in> r_checkpoint ` set (journal_of h tx)
    \<or> c \<in> set (missing_checkpoints ev (loadHubLandingTransaction (h_journals h) tx))"
proof -
  have reached: "map_option st_checkpoint (loadHubLandingTransaction (h_journals h) tx) = reached_by h tx"
    by (simp add: load_checkpoint [OF ok] reached_by_def)
  let ?cs = "[reached_by h tx, if truthy_string (tv_candidateOid ev) then Some CandidateCreated else None,
        if tv_verificationReusable ev then Some CandidateVerified else None,
        if tv_landed ev then Some TargetLanded else None,
        if tv_closed ev then Some TaskClosed else None, if tv_cleaned ev then Some Cleaned else None]"
  from c have "maxCheckpoint ?cs = Some c"
    unfolding ev_def collect_rest(2) collect_facts(5) [OF ok, of V p tx] .
  with maxCheckpoint_cases [of ?cs] have m: "Some c \<in> set ?cs" "\<forall>x \<in> set ?cs. rankOf x \<le> rankOf (Some c)"
    by simp_all
  show ?thesis
  proof (cases "reached_by h tx = Some c")
    case True
    then have "journal_of h tx \<noteq> []" "c = Max (r_checkpoint ` set (journal_of h tx))"
      by (simp_all add: reached_by_def split: if_split_asm)
    then show ?thesis by simp
  next
    case False
    have "rankOf (reached_by h tx) \<le> rankOf (Some c)" using m(2) by simp
    moreover have "rankOf (reached_by h tx) \<noteq> rankOf (Some c)"
      using False by (cases "reached_by h tx") (simp_all add: rankOf_eq, simp add: rankOf_def)
    ultimately have less: "rankOf (reached_by h tx) < rankOf (Some c)" by simp
    from m(1) False have "c \<in> set (proven_checkpoints ev)"
      by (auto simp: proven_checkpoints_def split: if_split_asm)
    with less c show ?thesis by (simp add: missing_checkpoints_def reached)
  qed
qed

lemma missing_bound: "c \<in> set (missing_checkpoints ev j) \<Longrightarrow> rankOf (Some c) \<le> rankOf (tv_evidenceCheckpoint ev)"
  by (simp add: missing_checkpoints_def)

text \<open>What reconstructing writes.\<close>

lemma reconstruct_run:
  fixes V p h tx
  defines "ev \<equiv> collectEvidence V (Some p) h tx"
  assumes ok: "journals_ok (h_journals h)" and c: "tv_evidenceCheckpoint ev = Some c"
    and i: "tv_integrityIncident ev = None" and t: "truthy_string (tv_taskId ev)"
    and r: "record_ok (reconstructed_record ev (the (tv_taskId ev)) (rv_now V) Opened)"
  shows "\<exists>js. reconstructCheckpoints V ev (loadHubLandingTransaction (h_journals h) tx) h =
      (Inr (length (missing_checkpoints ev (loadHubLandingTransaction (h_journals h) tx))), h\<lparr>h_journals := js\<rparr>)
    \<and> journals_ok js
    \<and> readHubLandingJournal js tx = journal_of h tx @ map (reconstructed_record ev (the (tv_taskId ev)) (rv_now V))
        (missing_checkpoints ev (loadHubLandingTransaction (h_journals h) tx))
    \<and> (\<forall>x. x \<noteq> tx \<longrightarrow> readHubLandingJournal js x = journal_of h x)
    \<and> c \<in> r_checkpoint ` set (readHubLandingJournal js tx)"
proof -
  let ?ms = "missing_checkpoints ev (loadHubLandingTransaction (h_journals h) tx)"
  let ?r = "reconstructed_record ev (the (tv_taskId ev)) (rv_now V)"
  have "record_ok (?r k) \<and> r_transactionId (?r k) = tx" for k
    using r by (simp add: record_ok_def evidence_ok_def reconstructed_record_def plain_record_def
        no_evidence_def txn_evidence.defs ev_def collect_facts(7) [OF ok])
  from append_all_run [of ?ms ?r tx h, OF this ok] obtain ys js where
      js: "each_act (\<lambda>c. appendCheckpoint (?r c)) ?ms h = (Inr ys, h\<lparr>h_journals := js\<rparr>)" "journals_ok js"
        "readHubLandingJournal js tx = journal_of h tx @ map ?r ?ms"
        "\<forall>x. x \<noteq> tx \<longrightarrow> readHubLandingJournal js x = journal_of h x" by blast
  have rc: "r_checkpoint (?r k) = k" for k
    by (simp add: reconstructed_record_def plain_record_def no_evidence_def txn_evidence.defs)
  have "r_checkpoint ` set (readHubLandingJournal js tx) = r_checkpoint ` set (journal_of h tx) \<union> set ?ms"
    by (simp add: js(3) image_Un image_image rc)
  with evidence_reached [OF ok c [unfolded ev_def]] have "c \<in> r_checkpoint ` set (readHubLandingJournal js tx)"
    by (simp add: ev_def)
  with js c i t show ?thesis
    by (intro exI [of _ js]) (simp add: reconstructCheckpoints_def Let_def bind_act_def ret_act_def)
qed

lemma reconstruct_stage:
  fixes V p h tx
  defines "ev \<equiv> collectEvidence V (Some p) h tx"
  assumes ok: "pass_ok V p h tx" and c: "tv_evidenceCheckpoint ev = Some c"
  shows "runs (\<lambda>s. s = h) (reconstructCheckpoints V ev (loadHubLandingTransaction (h_journals h) tx))
    (\<lambda>_. stage V tx h (tv_closed ev) (\<not> tv_worktreePresent ev) {c})"
proof (rule runsI, simp)
  from ok obtain t cand where t: "task_of (rv_hub V) h tx = Some t" and cand: "stored_candidate (rv_hub V) h tx = Some cand"
      and tt: "trimmed t" and inc: "incident_of (rv_hub V) p h tx = None" by (rule pass_facts)
  from ok have j: "journals_ok (h_journals h)" and l: "tv_landed ev"
      and r: "record_ok (reconstructed_record ev (the (tv_taskId ev)) (rv_now V) Opened)"
    by (simp_all add: pass_ok_def Let_def ev_def)
  note cf = collect_facts [OF j, of V p tx, folded ev_def]
  let ?ms = "missing_checkpoints ev (loadHubLandingTransaction (h_journals h) tx)"
  have "tv_integrityIncident ev = None" "truthy_string (tv_taskId ev)"
    using inc tt by (simp_all add: cf t truthy_string_iff trimmed_def)
  from reconstruct_run [OF j c [unfolded ev_def] this [unfolded ev_def] r [unfolded ev_def], folded ev_def]
  obtain js where js: "reconstructCheckpoints V ev (loadHubLandingTransaction (h_journals h) tx) h
        = (Inr (length ?ms), h\<lparr>h_journals := js\<rparr>)" "journals_ok js"
      "readHubLandingJournal js tx = journal_of h tx @ map (reconstructed_record ev (the (tv_taskId ev)) (rv_now V)) ?ms"
      "c \<in> r_checkpoint ` set (readHubLandingJournal js tx)" by blast
  have "names_same (rv_hub V) h tx (reconstructed_record ev (the (tv_taskId ev)) (rv_now V) k)" for k
    by (simp add: names_same_def reconstructed_record_def plain_record_def no_evidence_def txn_evidence.defs
        cf t cand)
  then have prog: "progressed (rv_hub V) tx h (h\<lparr>h_journals := js\<rparr>)"
    using js(2,3) by (auto simp: progressed_def list_all_iff)
  have "told V tx h (h_git h)" if "tv_closed ev"
    using that unfolding ev_def collect_closed [OF j] told_def store_says_closed_def
    by (auto simp: cand coalesce_def isInternallyClosedHostContribution_def)
  with prog js(4) have "stage V tx h (tv_closed ev) (\<not> tv_worktreePresent ev) {c} (h\<lparr>h_journals := js\<rparr>)"
    by (simp add: stage_def cf(6))
  with js(1) show "\<exists>a s. reconstructCheckpoints V ev (loadHubLandingTransaction (h_journals h) tx) h = (Inr a, s)
      \<and> stage V tx h (tv_closed ev) (\<not> tv_worktreePresent ev) {c} s" by blast
qed

text \<open>Closing, cleaning up and enqueueing the deliveries.\<close>

lemma closed_record_ok:
  "trimmed tx \<Longrightarrow> trimmed t \<Longrightarrow> trimmed now \<Longrightarrow> isGitOid cand \<Longrightarrow>
     record_ok ((plain_record k tx t now)\<lparr>ev_candidateOid := Some cand\<rparr>)"
  by (simp add: record_ok_def evidence_ok_def plain_record_def no_evidence_def txn_evidence.defs)

lemma closed_record_names:
  "task_of E h tx = Some t \<Longrightarrow> stored_candidate E h tx = Some cand \<Longrightarrow>
     names_same E h tx ((plain_record k tx t now)\<lparr>ev_candidateOid := Some cand\<rparr>)"
  by (simp add: names_same_def plain_record_def no_evidence_def txn_evidence.defs)

lemma closed_record_sel [simp]:
  "r_checkpoint ((plain_record k tx t now)\<lparr>ev_candidateOid := c\<rparr>) = k"
  "r_transactionId ((plain_record k tx t now)\<lparr>ev_candidateOid := c\<rparr>) = tx"
  by (simp_all add: plain_record_def no_evidence_def txn_evidence.defs)

lemma close_stage:
  assumes f: "e_fault (rv_hub V) = no_faults" and laws: "upkeep_laws V" and works: "closer_works V tx t cand"
    and t: "task_of (rv_hub V) h0 tx = Some t" and c: "stored_candidate (rv_hub V) h0 tx = Some cand"
    and ok: "trimmed tx" "trimmed t" "trimmed now" "isGitOid cand"
  shows "runs (\<lambda>h. stage V tx h0 shut gone K h \<and> reader_of V (h_git h) = reader)
     (closeHubLandingTask (rv_hub V) tx t cand True reader (closer_of V) now)
     (\<lambda>_. stage V tx h0 True gone (insert TaskClosed K))"
proof -
  let ?E = "rv_hub V"
  have tell: "told V tx h0 g" if "rv_readTaskClose V \<noteq> None \<longrightarrow>
      isMatchingHubLandingBeadsClose (reader_of V g t) tx (Some cand)" for g
    using that ok(2) by (auto simp: told_def t c readTaskBackedBeadsClose_def task_backed_def trimmed_def truthy_string_iff)
  have close: "runs (\<lambda>h. stage V tx h0 shut gone K h \<and> reader_of V (h_git h) = reader)
     (when_act (isHubLandingTaskBacked t \<and> \<not> isMatchingHubLandingBeadsClose (reader t) tx (Some cand))
       (bind_act (maybeCrash (e_fault ?E) SE_task_close BeforeEffect) (\<lambda>_.
        bind_act (closer_of V t tx cand) (\<lambda>_. maybeCrash (e_fault ?E) SE_task_close AfterEffect))))
     (\<lambda>_. stage V tx h0 True gone K)"
  proof (rule runs_when)
    fix h
    assume "\<not> (isHubLandingTaskBacked t \<and> \<not> isMatchingHubLandingBeadsClose (reader t) tx (Some cand))"
      and st: "stage V tx h0 shut gone K h \<and> reader_of V (h_git h) = reader"
    then have "told V tx h0 (h_git h)"
      using tell by (auto simp: told_def t task_backed_def)
    with st show "stage V tx h0 True gone K h" by (simp add: stage_def)
  next
    show "runs (\<lambda>h. stage V tx h0 shut gone K h \<and> reader_of V (h_git h) = reader)
      (bind_act (maybeCrash (e_fault ?E) SE_task_close BeforeEffect) (\<lambda>_.
        bind_act (closer_of V t tx cand) (\<lambda>_. maybeCrash (e_fault ?E) SE_task_close AfterEffect)))
      (\<lambda>_. stage V tx h0 True gone K)"
    proof (rule runsI)
      fix h
      assume st: "stage V tx h0 shut gone K h \<and> reader_of V (h_git h) = reader"
      from works obtain g where g: "closer_of V t tx cand h = (Inr (), h\<lparr>h_git := g\<rparr>)"
          "same_refs (e_git ?E) (h_git h) g" "t_exists (e_trees ?E) g = t_exists (e_trees ?E) (h_git h)"
          "rv_readTaskClose V \<noteq> None \<longrightarrow> isMatchingHubLandingBeadsClose (reader_of V g t) tx (Some cand)"
        unfolding closer_works_def by blast
      have "stage V tx h0 True gone K (h\<lparr>h_git := g\<rparr>)"
        using st g tell [OF g(4)] by (intro stage_git [of V tx h0 shut gone K]) (auto simp: stage_def)
      with g(1) show "\<exists>a s. bind_act (maybeCrash (e_fault ?E) SE_task_close BeforeEffect) (\<lambda>_.
          bind_act (closer_of V t tx cand) (\<lambda>_. maybeCrash (e_fault ?E) SE_task_close AfterEffect)) h = (Inr a, s)
          \<and> stage V tx h0 True gone K s"
        by (simp add: f bind_act_def ret_act_def)
    qed
  qed
  let ?S = "stage V tx h0 True gone (insert TaskClosed K)"
  have append: "runs (stage V tx h0 True gone K) (recordHubLandingTaskClosed tx t cand now) (\<lambda>_. ?S)"
    using stage_append [OF closed_record_ok [OF ok] closed_record_sel(2) closed_record_names [OF t c],
        where shut = True and gone = gone and K = K]
    by (simp add: recordHubLandingTaskClosed_def)
  have enqueue: "runs ?S (when_act True (bind_act (enqueueHubPublicationAfterShipped (rv_hub V) tx t cand None now)
      (\<lambda>_. ret_act ()))) (\<lambda>_. ?S)"
    by (rule runs_when, rule runs_bind_ret, rule enqueueShipped_runs) (simp_all add: stage_ls_remote [OF laws])
  show ?thesis
    unfolding closeHubLandingTask_def
    by (rule runs_bind [OF close], rule runs_bind [OF append], rule runs_bind_ret [OF enqueue])
qed

lemma cleanup_stage:
  assumes f: "e_fault (rv_hub V) = no_faults" and laws: "upkeep_laws V"
    and t: "task_of (rv_hub V) h0 tx = Some (lc_taskId c)"
    and c: "stored_candidate (rv_hub V) h0 tx = Some (lc_candidateOid c)" and x: "lc_transactionId c = tx"
    and d: "lc_worktreeDir c = resolveHubLandingWorktreeDir (rv_hub V) tx"
    and ok: "trimmed tx" "trimmed (lc_taskId c)" "trimmed now" "isGitOid (lc_candidateOid c)"
  shows "runs (stage V tx h0 shut gone K) (cleanupHubLandingCandidate (rv_hub V) c now)
     (\<lambda>_. stage V tx h0 shut True (insert Cleaned K))"
proof -
  let ?E = "rv_hub V"
  have remove: "runs (\<lambda>h. stage V tx h0 shut gone K h \<and> t_exists (e_trees ?E) (h_git h) (lc_worktreeDir c) = there)
      (when_act there (removeWorktree ?E (lc_worktreeDir c))) (\<lambda>_. stage V tx h0 shut True K)" for there
  proof (rule runs_when)
    fix h
    assume "\<not> there" and "stage V tx h0 shut gone K h \<and> t_exists (e_trees ?E) (h_git h) (lc_worktreeDir c) = there"
    then show "stage V tx h0 shut True K h" by (simp add: stage_def d)
  next
    show "runs (\<lambda>h. stage V tx h0 shut gone K h \<and> t_exists (e_trees ?E) (h_git h) (lc_worktreeDir c) = there)
        (removeWorktree ?E (lc_worktreeDir c)) (\<lambda>_. stage V tx h0 shut True K)"
      unfolding removeWorktree_def
    proof (rule runs_modify, elim conjE)
      fix h
      assume st: "stage V tx h0 shut gone K h"
      let ?g = "case t_remove (e_trees ?E) (h_git h) (lc_worktreeDir c) of
          Some g \<Rightarrow> g | None \<Rightarrow> t_delete (e_trees ?E) (h_git h) (lc_worktreeDir c)"
      have k: "keeps_view V (h_git h) ?g" and n: "\<not> t_exists (e_trees ?E) ?g (lc_worktreeDir c)"
        using laws by (simp_all add: upkeep_laws_def Let_def split: option.split)
      show "stage V tx h0 shut True K (h\<lparr>h_git := ?g\<rparr>)"
        using st k n told_keeps [OF k] by (intro stage_git [OF st]) (simp_all add: keeps_view_def stage_def d)
    qed
  qed
  have append: "runs (stage V tx h0 shut True K)
      (appendCheckpoint ((plain_record Cleaned tx (lc_taskId c) now)\<lparr>ev_candidateOid := Some (lc_candidateOid c)\<rparr>))
      (\<lambda>_. stage V tx h0 shut True (insert Cleaned K))"
    using stage_append [OF closed_record_ok [OF ok] closed_record_sel(2) closed_record_names [OF t c],
        where shut = shut and gone = True and K = K]
    by simp
  show ?thesis
    unfolding cleanupHubLandingCandidate_def f maybeCrash_no_faults bind_act_ret_left x
    by (rule runs_bind_gets, rule runs_bind [OF remove], rule runs_bind_ret [OF append])
qed

lemma deliver_stage:
  assumes "upkeep_laws V"
  shows "runs (stage V tx h0 shut gone K) (deliver_landed V p ev) (\<lambda>_. stage V tx h0 shut gone K)"
  unfolding deliver_landed_def Let_def
  by (rule runs_bind [OF enqueueCheckout_runs], simp, rule runs_bind_ret, rule enqueueShipped_runs)
    (simp_all add: stage_ls_remote [OF assms])

lemma runs_start: "runs (\<lambda>s. s = h) (g (f h)) Q \<Longrightarrow> runs (\<lambda>s. s = h) (bind_act (gets_act f) g) Q"
  by (simp add: runs_def bind_act_def gets_act_def)

lemma maxCheckpoint_member:
  assumes "Some c \<in> set cs"
  shows "\<exists>d. maxCheckpoint cs = Some d \<and> rankOf (Some c) \<le> rankOf (Some d)"
  using maxCheckpoint_cases [of cs] assms by (auto split: option.splits)

lemma landed_has_evidence:
  assumes "tv_landed (collectEvidence V (Some p) h tx)"
  shows "\<exists>k. tv_evidenceCheckpoint (collectEvidence V (Some p) h tx) = Some k"
proof -
  have "\<exists>d. tv_evidenceCheckpoint (collectEvidence V (Some p) h tx) = Some d
      \<and> rankOf (Some TargetLanded) \<le> rankOf (Some d)"
    unfolding collect_rest(2) by (rule maxCheckpoint_member) (simp add: assms)
  then show ?thesis by blast
qed

lemma cleaned_is_highest:
  assumes "tv_cleaned (collectEvidence V (Some p) h tx)"
  shows "tv_evidenceCheckpoint (collectEvidence V (Some p) h tx) = Some Cleaned"
proof -
  have "\<exists>d. tv_evidenceCheckpoint (collectEvidence V (Some p) h tx) = Some d
      \<and> rankOf (Some Cleaned) \<le> rankOf (Some d)"
    unfolding collect_rest(2) by (rule maxCheckpoint_member) (simp add: assms)
  then obtain d where d: "tv_evidenceCheckpoint (collectEvidence V (Some p) h tx) = Some d"
      "rankOf (Some Cleaned) \<le> rankOf (Some d)" by blast
  from d(2) have "d = Cleaned" by (cases d) (simp_all add: rankOf_def)
  with d(1) show ?thesis by simp
qed

text \<open>One pass brings a landed transaction to its end.\<close>

lemma pass_stage:
  fixes V p h tx
  defines "ev \<equiv> collectEvidence V (Some p) h tx"
  assumes ok: "pass_ok V p h tx" and laws: "upkeep_laws V"
    and works: "closer_works V tx (the (tv_taskId ev)) (the (tv_candidateOid ev))"
  shows "runs (\<lambda>s. s = h) (reconcile_one V p ev) (\<lambda>_. stage V tx h True True {Cleaned})"
proof -
  from ok obtain t cand where t: "task_of (rv_hub V) h tx = Some t"
      and c: "stored_candidate (rv_hub V) h tx = Some cand"
      and trim: "trimmed tx" "trimmed t" "trimmed (rv_now V)" "isGitOid cand" "trimmed cand"
      and ref: "stored_ref h tx \<noteq> []" by (rule pass_facts)
  from ok have j: "journals_ok (h_journals h)" and l: "tv_landed ev" and f: "e_fault (rv_hub V) = no_faults"
    by (simp_all add: pass_ok_def Let_def ev_def)
  note cf = collect_facts [OF j, of V p tx, folded ev_def]
  have known: "truthy_string (tv_taskId ev)" "truthy_string (tv_candidateOid ev)" "tv_candidateRef ev \<noteq> []"
    using trim ref by (simp_all add: cf t c truthy_string_iff trimmed_def)
  obtain k where k: "tv_evidenceCheckpoint ev = Some k"
    using landed_has_evidence [of V p h tx] l by (auto simp: ev_def)
  let ?tree = "tv_worktreePresent ev" and ?j = "loadHubLandingTransaction (h_journals h) tx"
  obtain cnd where cnd: "toCandidate V ev p ?j = Some cnd" "lc_transactionId cnd = tx" "lc_taskId cnd = t"
      "lc_candidateOid cnd = cand" "lc_worktreeDir cnd = resolveHubLandingWorktreeDir (rv_hub V) tx"
    using known by (simp add: toCandidate_def cf t c)
  have shut: "runs (stage V tx h (tv_closed ev) (\<not> ?tree) {k})
      (when_act (tv_landed ev \<and> \<not> tv_closed ev \<and> truthy_string (tv_taskId ev) \<and> truthy_string (tv_candidateOid ev))
       (bind_act (gets_act (\<lambda>h. reader_of V (h_git h))) (\<lambda>reader.
        bind_act (closeHubLandingTask (rv_hub V) tx t cand True reader (closer_of V) (rv_now V)) (\<lambda>_. ret_act ()))))
      (\<lambda>_. stage V tx h True (\<not> ?tree) {k})"
  proof (rule runs_when)
    fix s
    assume "\<not> (tv_landed ev \<and> \<not> tv_closed ev \<and> truthy_string (tv_taskId ev) \<and> truthy_string (tv_candidateOid ev))"
      and "stage V tx h (tv_closed ev) (\<not> ?tree) {k} s"
    with l known show "stage V tx h True (\<not> ?tree) {k} s" by simp
  next
    have "closer_works V tx t cand" using works by (simp add: cf t c)
    note close = close_stage [OF f laws this t c trim(1-4), of "tv_closed ev" "\<not> ?tree" "{k}"]
    show "runs (stage V tx h (tv_closed ev) (\<not> ?tree) {k})
       (bind_act (gets_act (\<lambda>h. reader_of V (h_git h))) (\<lambda>reader.
        bind_act (closeHubLandingTask (rv_hub V) tx t cand True reader (closer_of V) (rv_now V)) (\<lambda>_. ret_act ())))
       (\<lambda>_. stage V tx h True (\<not> ?tree) {k})"
      by (intro runs_bind_gets runs_bind_ret) (rule runs_weaken [OF close], auto intro: stage_weaken)
  qed
  have clean: "runs (stage V tx h True (\<not> ?tree) {k})
      (when_act (?tree \<and> (tv_landed ev \<or> tv_closed ev)) (cleanupHubLandingCandidate (rv_hub V) cnd (rv_now V)))
      (\<lambda>_. stage V tx h True True {Cleaned})"
  proof (rule runs_when)
    fix s
    assume no: "\<not> (?tree \<and> (tv_landed ev \<or> tv_closed ev))" and st: "stage V tx h True (\<not> ?tree) {k} s"
    with l have "\<not> ?tree" by simp
    then have "tv_cleaned ev" using l unfolding ev_def collect_rest(1) by simp
    then have "k = Cleaned" using cleaned_is_highest [of V p h tx] k by (simp add: ev_def)
    with st \<open>\<not> ?tree\<close> show "stage V tx h True True {Cleaned} s" by simp
  next
    have "runs (stage V tx h True (\<not> ?tree) {k}) (cleanupHubLandingCandidate (rv_hub V) cnd (rv_now V))
       (\<lambda>_. stage V tx h True True (insert Cleaned {k}))"
      using cleanup_stage [OF f laws, of h tx cnd "rv_now V" True "\<not> ?tree" "{k}"] t c trim cnd by simp
    then show "runs (stage V tx h True (\<not> ?tree) {k}) (cleanupHubLandingCandidate (rv_hub V) cnd (rv_now V))
       (\<lambda>_. stage V tx h True True {Cleaned})"
      by (rule runs_weaken) (auto intro: stage_weaken)
  qed
  have deliver: "runs (stage V tx h True True {Cleaned})
      (when_act (tv_landed ev \<and> truthy_string (tv_taskId ev) \<and> truthy_string (tv_candidateOid ev))
        (deliver_landed V p ev)) (\<lambda>_. stage V tx h True True {Cleaned})"
    by (rule runs_when, rule deliver_stage [OF laws])
  have body: "runs (\<lambda>s. s = h) (bind_act (reconstructCheckpoints V ev ?j) (\<lambda>count.
     bind_act (when_act (tv_landed ev \<and> \<not> tv_closed ev \<and> truthy_string (tv_taskId ev) \<and> truthy_string (tv_candidateOid ev))
       (bind_act (gets_act (\<lambda>h. reader_of V (h_git h))) (\<lambda>reader.
        bind_act (closeHubLandingTask (rv_hub V) tx t cand True reader (closer_of V) (rv_now V)) (\<lambda>_. ret_act ())))) (\<lambda>_.
     bind_act (when_act (?tree \<and> (tv_landed ev \<or> tv_closed ev)) (cleanupHubLandingCandidate (rv_hub V) cnd (rv_now V))) (\<lambda>_.
     bind_act (when_act (tv_landed ev \<and> truthy_string (tv_taskId ev) \<and> truthy_string (tv_candidateOid ev))
        (deliver_landed V p ev)) (\<lambda>_. ret_act count))))) (\<lambda>_. stage V tx h True True {Cleaned})"
    by (rule runs_bind [OF reconstruct_stage [OF ok k [unfolded ev_def], folded ev_def]],
        rule runs_bind [OF shut], rule runs_bind [OF clean], rule runs_bind_ret [OF deliver])
  have eqs: "the (tv_taskId ev) = t" "the (tv_candidateOid ev) = cand" by (simp_all add: cf t c)
  show ?thesis
    unfolding reconcile_one_def Let_def cf(7) eqs
    by (rule runs_start) (use body in \<open>simp only: cnd(1) option.case\<close>)
qed


subsection \<open>Finishing what a crash interrupted\<close>

text \<open>A transaction with nothing left to do.\<close>

definition finished :: "HubLandingTransactionEvidence \<Rightarrow> bool" where
  "finished ev \<longleftrightarrow> tv_integrityIncident ev = None \<and> tv_landed ev \<and> tv_closed ev \<and> tv_cleaned ev
     \<and> tv_journalCheckpoint ev = Some Cleaned \<and> \<not> tv_pending ev"

lemma stage_finished:
  assumes ok: "pass_ok V p h tx" and st: "stage V tx h True True {Cleaned} h'"
  shows "finished (collectEvidence V (Some p) h' tx)"
proof -
  let ?ev = "collectEvidence V (Some p) h' tx" and ?E = "rv_hub V"
  from ok have j: "journals_ok (h_journals h)" and l: "tv_landed (collectEvidence V (Some p) h tx)"
    by (simp_all add: pass_ok_def Let_def)
  from st have prog: "progressed ?E tx h h'" and told: "told V tx h (h_git h')"
      and gone: "\<not> t_exists (e_trees ?E) (h_git h') (resolveHubLandingWorktreeDir ?E tx)"
      and k: "Cleaned \<in> r_checkpoint ` set (journal_of h' tx)" by (simp_all add: stage_def)
  then have j': "journals_ok (h_journals h')" and g: "same_refs (e_git ?E) (h_git h) (h_git h')"
    by (simp_all add: progressed_def)
  note view = progressed_view [OF prog] and cf = collect_facts [OF j', of V p tx]
  from l collect_landed [OF j] have was: "readHubLandingReceipt ?E (h_git h) tx \<noteq> None" "in_target ?E p h tx"
      "incident_of ?E p h tx = None" by blast+
  have inc: "incident_of ?E p h' tx = None" by (rule progressed_incident [OF prog was(3)])
  with was have landed: "tv_landed ?ev"
    unfolding collect_landed [OF j'] view(4) receipt_same [OF g] by blast
  have reached: "reached_by h' tx = Some Cleaned"
  proof -
    have "Max (r_checkpoint ` set (journal_of h' tx)) = Cleaned"
    proof (rule Max_eqI [OF _ _ k])
      fix y assume "y \<in> r_checkpoint ` set (journal_of h' tx)"
      show "y \<le> Cleaned" by (cases y) (simp_all add: less_eq_checkpoint_def)
    qed simp
    with k show ?thesis by (auto simp: reached_by_def)
  qed
  have shut: "tv_closed ?ev"
  proof -
    have "rankOf (Some TaskClosed) \<le> rankOf (Some Cleaned)" by (simp add: rankOf_def)
    moreover from was(2) obtain c where c: "stored_candidate ?E h tx = Some c"
      by (auto simp: in_target_def contained_def split: option.splits)
    ultimately show ?thesis
      using told landed unfolding collect_closed [OF j'] store_says_closed_def told_def view(2,3) reached
      by (auto simp: isInternallyClosedHostContribution_def c coalesce_def)
  qed
  have tree: "\<not> tv_worktreePresent ?ev" using gone by (simp add: cf(6))
  then have cleaned: "tv_cleaned ?ev" using landed unfolding collect_rest(1) by blast
  have inc': "tv_integrityIncident ?ev = None" using inc by (simp add: cf(3))
  have "\<not> tv_pending ?ev"
    unfolding collect_rest(3) cleaned_is_highest [OF cleaned] by (simp add: isPendingReconciliation_def inc' shut tree)
  with inc' landed shut cleaned reached show ?thesis by (simp add: finished_def cf(5))
qed

lemma landed_is_finished:
  assumes ok: "pass_ok V p h tx" and laws: "upkeep_laws V"
    and works: "closer_works V tx (the (tv_taskId (collectEvidence V (Some p) h tx)))
      (the (tv_candidateOid (collectEvidence V (Some p) h tx)))"
  shows "\<exists>n h'. reconcile_each V p 0 [tx] h = (Inr (Inr n), h') \<and> finished (collectEvidence V (Some p) h' tx)
    \<and> same_refs (e_git (rv_hub V)) (h_git h) (h_git h')"
proof -
  let ?ev = "collectEvidence V (Some p) h tx"
  from ok have "journals_ok (h_journals h)" by (simp add: pass_ok_def Let_def)
  moreover from ok have "incident_of (rv_hub V) p h tx = None" by (rule pass_facts)
  ultimately have inc: "tv_integrityIncident ?ev = None" by (simp add: collect_facts(3))
  from pass_stage [OF ok laws works] obtain n h' where
      n: "reconcile_one V p ?ev h = (Inr n, h')" and st: "stage V tx h True True {Cleaned} h'"
    by (auto simp: runs_def)
  from n inc have "reconcile_each V p 0 [tx] h = (Inr (Inr n), h')"
    by (simp add: bind_act_def gets_act_def ret_act_def)
  moreover from st have "same_refs (e_git (rv_hub V)) (h_git h) (h_git h')" by (simp add: stage_def progressed_def)
  ultimately show ?thesis using stage_finished [OF ok st] by blast
qed

text \<open>A crash after the atomic step: the transaction went through, and nothing else was written.\<close>

lemma crash_after_transaction:
  assumes "land_fresh E race ci h = (Inl (HubLandingCrash SE_atomic_landing AfterEffect), h1)"
  shows "\<exists>fence. observed_fence E ci (h_git h) = Some fence
    \<and> after_transaction E race ci fence h = (Inl (HubLandingCrash SE_atomic_landing AfterEffect), h1)"
proof -
  from assms obtain fence where f: "observed_fence E ci (h_git h) = Some fence"
      and t: "observed_target E ci (h_git h) = Some (lc_baseOid (cc_candidate ci))"
      and e: "(case cc_expectedFenceOid ci of None \<Rightarrow> fence | Some f \<Rightarrow> f) = fence"
      and run: "swap_refs E race ci (lc_baseOid (cc_candidate ci)) (lc_baseOid (cc_candidate ci)) fence fence
        (receipt_object E ci h) (fence_object E ci h) (h\<lparr>h_git := fence_written E ci h\<rparr>)
        = (Inl (HubLandingCrash SE_atomic_landing AfterEffect), h1)"
    by (auto simp: land_fresh_def Let_def revParse_def throwIfPinnedLandingOidsMismatch_def landing_oids_def
        maybeCrash_def observed_target_def observed_fence_def receipt_object_def receipt_written_def
        fence_object_def fence_written_def split: if_split_asm)
  with f show ?thesis by (auto simp: after_transaction_def)
qed

lemma crashed_landing:
  assumes "git_laws (e_git E)" and "keeps_objects (e_git E) race" and "distinct_refs ci"
    and run: "commitHubLandingTarget E race ci h = (Inl (HubLandingCrash SE_atomic_landing AfterEffect), h1)"
  shows "h1 = h\<lparr>h_git := h_git h1\<rparr> \<and> landed_atomically E race ci h (h_git h1)
    \<and> readHubLandingReceipt E (h_git h1) (lc_transactionId (cc_candidate ci))
      = Some (landing_receipt (cc_candidate ci) (cc_verifierFingerprint ci) (cc_now ci), receipt_object E ci h)"
proof -
  let ?crash = "HubLandingCrash SE_atomic_landing AfterEffect"
  have no_assert: "assertVerifiedCandidate tx cand fp s \<noteq> (Inl ?crash, s')" for tx cand fp and s s' :: "'a hub"
    by (auto simp: assertVerifiedCandidate_def split: option.splits if_split_asm)
  have no_append: "appendCheckpoint r s \<noteq> (Inl ?crash, s')" for r and s s' :: "'a hub"
    by (cases "fst (appendHubLandingCheckpoint (h_journals s) r)") (auto simp: appendCheckpoint_eq)
  have no_record: "toTargetLandedCommit E clk c fp fo rr ro cr tgt s \<noteq> (Inl ?crash, s')" for clk c fp fo rr ro cr tgt s s'
    using toTargetLandedCommit_git [of E clk c fp fo rr ro cr tgt s "Inl ?crash" s'] by auto
  have no_resume: "resume_landed E ci r ro s \<noteq> (Inl ?crash, s')" for r ro s s'
    by (auto simp: resume_landed_def Let_def revParse_def tryRevParse_def gitRead_def no_record split: if_split_asm)
  have no_cas: "failed_cas E ci a b c d s \<noteq> (Inl ?crash, s')" for a b c d s s'
    by (auto simp: failed_cas_def Let_def revParse_def tryRevParse_def throwFromFailedLandingCas_def no_record
        split: if_split_asm)
  from commit_cases [OF run] no_assert no_resume
  have "land_fresh E race ci h = (Inl ?crash, h1)" by (auto split: option.splits)
  from crash_after_transaction [OF this] obtain fence where f: "observed_fence E ci (h_git h) = Some fence"
      and after: "after_transaction E race ci fence h = (Inl ?crash, h1)" by blast
  from after_transaction_cases [OF after] no_record no_cas obtain g where
      t: "g_transaction (e_git E) (race (fence_written E ci h))
        (landing_commands (cc_candidate ci) (lc_baseOid (cc_candidate ci)) (fence_object E ci h) fence
          (receipt_object E ci h)) = Some g" and h1: "h1 = h\<lparr>h_git := g\<rparr>"
    by auto
  from transaction_lands [OF assms(1-3) f t] show ?thesis by (simp add: h1)
qed

text \<open>
  What the project has about the candidate of a landing: the journal, the manifest and the candidate ref name
  it or nothing, and the evidence can be written to the journal.
\<close>

definition candidate_recorded :: "'g env \<Rightarrow> commit_input \<Rightarrow> 'g hub \<Rightarrow> bool" where
  "candidate_recorded E ci h \<longleftrightarrow> (let c = cc_candidate ci; tx = lc_transactionId c in
     journals_ok (h_journals h) \<and> task_of E h tx = Some (lc_taskId c)
     \<and> stored_candidate E h tx = Some (lc_candidateOid c)
     \<and> last_defined ev_candidateOid (journal_of h tx) \<in> {None, Some (lc_candidateOid c)}
     \<and> map_option m_candidateOid (readHubLandingCandidateManifest h tx) \<in> {None, Some (lc_candidateOid c)})"

definition evidence_writable :: "'g reconcile_env \<Rightarrow> HubLandingPolicy \<Rightarrow> 'g hub \<Rightarrow> txn_id \<Rightarrow> bool" where
  "evidence_writable V p h tx \<longleftrightarrow> (let ev = collectEvidence V (Some p) h tx in
     record_ok (reconstructed_record ev (the (tv_taskId ev)) (rv_now V) Opened))"

lemma recorded_landing_passes:
  assumes rec: "candidate_recorded E ci h" and V: "rv_hub V = E\<lparr>e_fault := no_faults\<rparr>"
    and rc: "readHubLandingReceipt E (h_git h) (lc_transactionId (cc_candidate ci)) = Some (receipt, ro)"
      "rc_candidateOid receipt = lc_candidateOid (cc_candidate ci)"
    and tgt: "observed_target E ci (h_git h) = Some (lc_candidateOid (cc_candidate ci))"
    and w: "evidence_writable V (lc_policy (cc_candidate ci)) h (lc_transactionId (cc_candidate ci))"
  shows "pass_ok V (lc_policy (cc_candidate ci)) h (lc_transactionId (cc_candidate ci))"
proof -
  let ?c = "cc_candidate ci" and ?E = "rv_hub V"
  let ?tx = "lc_transactionId ?c" and ?cand = "lc_candidateOid ?c" and ?p = "lc_policy ?c"
  from rec have j: "journals_ok (h_journals h)" and sc: "stored_candidate ?E h ?tx = Some ?cand"
      and jc: "last_defined ev_candidateOid (journal_of h ?tx) \<in> {None, Some ?cand}"
      and mc: "map_option m_candidateOid (readHubLandingCandidateManifest h ?tx) \<in> {None, Some ?cand}"
    by (simp_all add: candidate_recorded_def Let_def V stored_candidate_def)
  have rp: "readHubLandingReceipt ?E (h_git h) ?tx = Some (receipt, ro)"
    using rc(1) by (simp add: V readHubLandingReceipt_def)
  have "g_rev_parse (e_git ?E) (h_git h) (p_publishTargetRef ?p) = Some ?cand"
    using tgt by (simp add: V observed_target_def)
  then have it: "in_target ?E ?p h ?tx" by (simp add: in_target_def sc contained_def)
  have ref: "g_rev_parse (e_git ?E) (h_git h) (stored_ref h ?tx) \<in> {None, Some ?cand}"
    using sc by (auto simp: stored_candidate_def coalesce_def split: option.splits)
  have "candidateOidMismatchIncident f a (g_rev_parse (e_git ?E) (h_git h) (stored_ref h ?tx)) = None"
    if "a \<in> {None, Some ?cand}" for f a
    using that ref by (auto simp: mismatch_None truthy_string_iff)
  with jc mc have "incident_of ?E ?p h ?tx = None"
    unfolding incident_of_def evidence_incident_def Let_def rp sc using it rc(2)
    by (simp add: coalesce_def)
  with rp it have "tv_landed (collectEvidence V (Some ?p) h ?tx)" unfolding collect_landed [OF j] by simp
  with j w show ?thesis by (simp add: pass_ok_def evidence_writable_def Let_def V)
qed

text \<open>
  C2: A landing that the process did not survive is finished. When a landing crashed right after its atomic
  step, so that the journal, the task store and the worktree know nothing of it, the next reconciliation
  recognises it by its receipt: its pass over the transaction returns, the task is closed in the task store,
  the worktree is gone, the journal is at its last checkpoint and nothing is left pending, with the publish
  target at the candidate. Git and its remotes, the worktree commands and the closer of the task store are
  assumed to work, and the project to have recorded the candidate.
\<close>

theorem crashed_landing_is_finished:
  assumes "git_laws (e_git E)" and "keeps_objects (e_git E) race" and "distinct_refs ci"
    and "commitHubLandingTarget E race ci h = (Inl (HubLandingCrash SE_atomic_landing AfterEffect), h1)"
    and "rv_hub V = E\<lparr>e_fault := no_faults\<rparr>" and "upkeep_laws V"
    and "closer_works V (lc_transactionId (cc_candidate ci)) (lc_taskId (cc_candidate ci)) (lc_candidateOid (cc_candidate ci))"
    and "candidate_recorded E ci h1"
    and "evidence_writable V (lc_policy (cc_candidate ci)) h1 (lc_transactionId (cc_candidate ci))"
  shows "\<exists>n h2. reconcile_each V (lc_policy (cc_candidate ci)) 0 [lc_transactionId (cc_candidate ci)] h1
        = (Inr (Inr n), h2)
    \<and> finished (collectEvidence V (Some (lc_policy (cc_candidate ci))) h2 (lc_transactionId (cc_candidate ci)))
    \<and> observed_target E ci (h_git h2) = Some (lc_candidateOid (cc_candidate ci))"
proof -
  let ?c = "cc_candidate ci" and ?tx = "lc_transactionId (cc_candidate ci)"
  from crashed_landing [OF assms(1-4)] have la: "landed_atomically E race ci h (h_git h1)"
      and rc: "readHubLandingReceipt E (h_git h1) ?tx
        = Some (landing_receipt ?c (cc_verifierFingerprint ci) (cc_now ci), receipt_object E ci h)" by blast+
  from la have tgt: "observed_target E ci (h_git h1) = Some (lc_candidateOid ?c)"
    by (simp add: landed_atomically_def Let_def)
  have ok: "pass_ok V (lc_policy ?c) h1 ?tx"
    by (rule recorded_landing_passes [OF assms(8,5) rc _ tgt assms(9)]) (simp add: landing_receipt_def)
  from assms(8) have j: "journals_ok (h_journals h1)"
      and tc: "task_of (rv_hub V) h1 ?tx = Some (lc_taskId ?c)"
        "stored_candidate (rv_hub V) h1 ?tx = Some (lc_candidateOid ?c)"
    by (simp_all add: candidate_recorded_def Let_def assms(5) stored_candidate_def task_of_def
        readHubLandingReceipt_def)
  from landed_is_finished [OF ok assms(6)] assms(7) obtain n h2 where
      "reconcile_each V (lc_policy ?c) 0 [?tx] h1 = (Inr (Inr n), h2)"
      "finished (collectEvidence V (Some (lc_policy ?c)) h2 ?tx)"
      "same_refs (e_git (rv_hub V)) (h_git h1) (h_git h2)"
    by (auto simp: collect_facts [OF j] tc)
  moreover from this(3) tgt have "observed_target E ci (h_git h2) = Some (lc_candidateOid ?c)"
    by (simp add: observed_target_def same_refs_def assms(5))
  ultimately show ?thesis by blast
qed


subsection \<open>A crash in the demonstration world\<close>

text \<open>The task store of the demonstration: its one task is closed when the status text says so.\<close>

definition demo_crashing :: "demo_world env" where
  "demo_crashing = demo_env\<lparr>e_fault := \<lparr>crashBefore = None, crashAfter = Some SE_atomic_landing\<rparr>\<rparr>"

definition demo_reader :: "demo_world \<Rightarrow> task_id \<Rightarrow> HubLandingBeadsCloseEvidence option" where
  "demo_reader w t = (if dw_status w = ''closed'' then Some \<lparr>bc_closed = True,
     bc_transactionId = Some ''ltx-t-d'', bc_candidateOid = Some (demo_oid (CHR ''b''))\<rparr> else None)"

definition demo_closer :: "task_id \<Rightarrow> txn_id \<Rightarrow> oid \<Rightarrow> (demo_world, unit) hub_act" where
  "demo_closer t tx cand = modify_act (\<lambda>h. h\<lparr>h_git := (h_git h)\<lparr>dw_status := ''closed''\<rparr>\<rparr>)"

definition demo_reconcile :: "demo_world reconcile_env" where
  "demo_reconcile = \<lparr>rv_hub = demo_env, rv_dirs = (\<lambda>_. []), rv_refNames = (\<lambda>_. None),
     rv_readTaskClose = Some demo_reader, rv_closeTask = Some demo_closer, rv_tasks = [], rv_events = [],
     rv_now = ''9''\<rparr>"

definition demo_manifest :: HubLandingCandidateManifest where
  "demo_manifest = \<lparr>m_transactionId = ''ltx-t-d'', m_taskId = ''t'', m_sourceOid = demo_oid (CHR ''b''),
     m_baseOid = demo_oid (CHR ''a''), m_candidateOid = demo_oid (CHR ''b''),
     m_candidateRef = ''refs/archloop/candidates/ltx-t-d'', m_createdAt = ''1'', m_filtered = None\<rparr>"

definition demo_before :: "demo_world hub" where
  "demo_before = demo_verified\<lparr>h_manifest := (\<lambda>_. Text (manifest_json demo_manifest))\<rparr>"

lemma demo_upkeep: "upkeep_laws demo_reconcile"
proof -
  have "map_of (filter (\<lambda>p. fst p \<noteq> d) xs) d = None" for d and xs :: "(string \<times> oid) list"
    by (induction xs) auto
  then show ?thesis
    by (simp add: upkeep_laws_def Let_def demo_reconcile_def demo_env_def demo_trees_def demo_remotes_def
        keeps_view_def same_refs_def demo_git_def reader_of_def demo_reader_def fun_eq_iff)
qed

lemma demo_closes: "closer_works demo_reconcile ''ltx-t-d'' ''t'' (demo_oid (CHR ''b''))"
  unfolding closer_works_def
proof (intro allI exI conjI)
  fix h :: "demo_world hub"
  let ?g = "(h_git h)\<lparr>dw_status := ''closed''\<rparr>"
  show "closer_of demo_reconcile ''t'' ''ltx-t-d'' (demo_oid (CHR ''b'')) h = (Inr (), h\<lparr>h_git := ?g\<rparr>)"
    by (simp add: closer_of_def demo_reconcile_def demo_closer_def)
qed (simp_all add: demo_reconcile_def demo_env_def demo_git_def demo_trees_def same_refs_def reader_of_def
      demo_reader_def)

theorem crashed_landing_is_finished_witness:
  "\<exists>h1 n h2. commitHubLandingTarget demo_crashing id demo_commit demo_before
       = (Inl (HubLandingCrash SE_atomic_landing AfterEffect), h1)
     \<and> reconcile_each demo_reconcile (lc_policy demo_candidate) 0 [''ltx-t-d''] h1 = (Inr (Inr n), h2)
     \<and> finished (collectEvidence demo_reconcile (Some (lc_policy demo_candidate)) h2 ''ltx-t-d'')"
proof -
  let ?e = "commitHubLandingTarget demo_crashing id demo_commit demo_before" and ?b = "demo_oid (CHR ''b'')"
  have "case fst ?e of Inl (HubLandingCrash SE_atomic_landing AfterEffect) \<Rightarrow> True | _ \<Rightarrow> False" by code_simp
  then obtain h1 where run: "?e = (Inl (HubLandingCrash SE_atomic_landing AfterEffect), h1)"
    by (cases ?e; cases "fst ?e")
      (auto split: hub_error.splits HubLandingSideEffect.splits crash_timing.splits)
  have git: "git_laws (e_git demo_crashing)" using demo_env_git by (simp add: demo_crashing_def)
  have race: "keeps_objects (e_git demo_crashing) id" by (simp add: keeps_objects_def)
  from crashed_landing [OF git race demo_distinct run] have h1: "h1 = demo_before\<lparr>h_git := h_git h1\<rparr>"
      and la: "landed_atomically demo_crashing id demo_commit demo_before (h_git h1)"
      and rc: "readHubLandingReceipt demo_crashing (h_git h1) ''ltx-t-d'' = Some (landing_receipt demo_candidate ''fp'' ''2'',
        receipt_object demo_crashing demo_commit demo_before)"
    by (simp_all add: demo_commit_def demo_candidate_def)
  have j: "journals_ok (h_journals h1)" "journal_of h1 ''ltx-t-d'' = []"
    by (subst h1, simp add: demo_before_def demo_verified_def demo_hub_def journals_ok_def readHubLandingJournal_def)+
  have man: "readHubLandingCandidateManifest h1 ''ltx-t-d'' = Some demo_manifest"
    by (subst h1) (simp add: demo_before_def readHubLandingCandidateManifest_def manifest_roundtrip manifest_ok_def
        demo_manifest_def)
  have ref: "stored_ref h1 ''ltx-t-d'' = ''refs/archloop/candidates/ltx-t-d''"
    by (simp add: stored_ref_def j man coalesce_def demo_manifest_def)
  have "g_rev_parse (e_git demo_crashing) (fence_written demo_crashing demo_commit demo_before)
      ''refs/archloop/candidates/ltx-t-d'' = None" by code_simp
  with la have tip: "g_rev_parse (e_git demo_env) (h_git h1) ''refs/archloop/candidates/ltx-t-d'' = None"
    by (simp add: landed_atomically_def Let_def demo_commit_def demo_candidate_def fresh_policy_def receipt_ref_def
        resolveHubLandingReceiptRef_def demo_crashing_def)
  have sc: "stored_candidate demo_env h1 ''ltx-t-d'' = Some ?b"
    by (simp add: stored_candidate_def ref tip man coalesce_def, simp add: demo_manifest_def)
  have tk: "task_of demo_env h1 ''ltx-t-d'' = Some ''t''"
    by (simp add: task_of_def j man coalesce_def demo_manifest_def)
  have rec: "candidate_recorded demo_crashing demo_commit h1"
    using j sc tk by (simp add: candidate_recorded_def Let_def demo_commit_def demo_candidate_def man
        demo_crashing_def stored_candidate_def task_of_def readHubLandingReceipt_def, simp add: demo_manifest_def)
  have ro: "receipt_object demo_crashing demo_commit demo_before = replicate 40 (CHR ''0'')" by code_simp
  let ?ev = "collectEvidence demo_reconcile (Some (lc_policy demo_candidate)) h1 ''ltx-t-d''"
  have load: "loadHubLandingTransaction (h_journals h1) ''ltx-t-d'' = None" by (simp add: load_None j)
  have "readHubLandingVerificationArtifact h1 ''ltx-t-d'' = Some demo_artifact"
    by (subst h1) (simp add: demo_before_def demo_verified_def readHubLandingVerificationArtifact_def artifact_roundtrip)
  then have again: "\<not> verification_reusable demo_env (readHubLandingVerificationArtifact h1 ''ltx-t-d'') cand" for cand
    by (simp add: verification_reusable_def isReusableHubLandingVerificationArtifact_def demo_artifact_def
        Let_def split: option.split)
  have hub: "rv_hub demo_reconcile = demo_env" by (simp add: demo_reconcile_def)
  have rc': "readHubLandingReceipt demo_env (h_git h1) ''ltx-t-d'' = Some (landing_receipt demo_candidate ''fp'' ''2'',
        replicate 40 (CHR ''0''))"
    using rc unfolding ro by (simp add: demo_crashing_def readHubLandingReceipt_def)
  have ev: "tv_sourceOid ?ev = Some ?b" "tv_baseOid ?ev = Some (demo_oid (CHR ''a''))"
      "tv_receiptOid ?ev = Some (replicate 40 (CHR ''0''))" "tv_verifierFingerprint ?ev = None"
    by (simp_all add: collectEvidence_def Let_def load man hub again rc', simp_all add: demo_manifest_def coalesce_def)
  note cf = collect_facts [OF j(1), of demo_reconcile "lc_policy demo_candidate" "''ltx-t-d''", unfolded hub ref sc tk]
  have tgt: "tv_publishTargetOid ?ev = Some ?b"
    using la by (simp add: collectEvidence_def Let_def hub landed_atomically_def observed_target_def demo_crashing_def,
        simp add: demo_commit_def, simp add: demo_candidate_def)
  have "isGitOid ?b" "isGitOid (demo_oid (CHR ''a''))" "isGitOid (replicate 40 (CHR ''0''))"
    by (simp_all add: demo_oid_def isGitOid_def hex_digit_def list_all_iff)
  then have w: "evidence_writable demo_reconcile (lc_policy demo_candidate) h1 ''ltx-t-d''"
    by (simp add: evidence_writable_def Let_def record_ok_def evidence_ok_def reconstructed_record_def
        plain_record_def no_evidence_def txn_evidence.defs ev cf tgt trimmed_def js_trim_def js_space_def
        resolveHubLandingReceiptRef_def, simp add: demo_reconcile_def js_space_def)
  have V: "rv_hub demo_reconcile = demo_crashing\<lparr>e_fault := no_faults\<rparr>"
    by (simp add: demo_reconcile_def demo_crashing_def demo_env_def)
  have names: "lc_transactionId (cc_candidate demo_commit) = ''ltx-t-d''" "lc_taskId (cc_candidate demo_commit) = ''t''"
      "lc_candidateOid (cc_candidate demo_commit) = ?b" "cc_candidate demo_commit = demo_candidate"
    by (simp_all add: demo_commit_def demo_candidate_def)
  from crashed_landing_is_finished [OF git race demo_distinct run V demo_upkeep, unfolded names(1-3), OF demo_closes
      rec, unfolded names(4), OF w] run
  show ?thesis by blast
qed


subsection \<open>What reconstructing does to a journal\<close>

text \<open>
  C14: The journal is brought exactly to what the evidence proves. When nothing contradicts the evidence of a
  transaction and it can be written, reconstructing succeeds and changes nothing but the journal of the
  transaction, which ends at the highest checkpoint the evidence proves, no higher and no lower; and
  reconstructing again from the same evidence writes nothing.
\<close>

theorem reconstruction_is_exact:
  assumes "journals_ok (h_journals h)" and "evidence_writable V p h tx"
    and "tv_integrityIncident (collectEvidence V (Some p) h tx) = None"
    and "tv_evidenceCheckpoint (collectEvidence V (Some p) h tx) = Some c"
    and "truthy_string (tv_taskId (collectEvidence V (Some p) h tx))"
  shows "\<exists>n js. reconstructCheckpoints V (collectEvidence V (Some p) h tx)
        (loadHubLandingTransaction (h_journals h) tx) h = (Inr n, h\<lparr>h_journals := js\<rparr>)
    \<and> map_option st_checkpoint (loadHubLandingTransaction js tx) = Some c
    \<and> (\<forall>x. x \<noteq> tx \<longrightarrow> readHubLandingJournal js x = journal_of h x)
    \<and> reconstructCheckpoints V (collectEvidence V (Some p) h tx) (loadHubLandingTransaction js tx)
        (h\<lparr>h_journals := js\<rparr>) = (Inr 0, h\<lparr>h_journals := js\<rparr>)"
proof -
  let ?ev = "collectEvidence V (Some p) h tx" and ?j = "loadHubLandingTransaction (h_journals h) tx"
  let ?r = "reconstructed_record ?ev (the (tv_taskId ?ev)) (rv_now V)"
  have w: "record_ok (?r Opened)" using assms(2) by (simp add: evidence_writable_def Let_def)
  from reconstruct_run [OF assms(1,4,3,5) w] obtain js where
      js: "reconstructCheckpoints V ?ev ?j h = (Inr (length (missing_checkpoints ?ev ?j)), h\<lparr>h_journals := js\<rparr>)"
        "journals_ok js" "readHubLandingJournal js tx = journal_of h tx @ map ?r (missing_checkpoints ?ev ?j)"
        "\<forall>x. x \<noteq> tx \<longrightarrow> readHubLandingJournal js x = journal_of h x"
        "c \<in> r_checkpoint ` set (readHubLandingJournal js tx)" by blast
  have low: "k \<le> c" if "k \<in> r_checkpoint ` set (readHubLandingJournal js tx)" for k
  proof -
    have rk: "r_checkpoint (?r k) = k" for k
      by (simp add: reconstructed_record_def plain_record_def no_evidence_def txn_evidence.defs)
    from that consider "k \<in> r_checkpoint ` set (journal_of h tx)" | "k \<in> set (missing_checkpoints ?ev ?j)"
      by (auto simp: js(3) rk)
    then show ?thesis
    proof cases
      case 1
      then have "k \<le> Max (r_checkpoint ` set (journal_of h tx))" by simp
      moreover have "Some (Max (r_checkpoint ` set (journal_of h tx))) = tv_journalCheckpoint ?ev"
        using 1 by (auto simp: collect_facts(5) [OF assms(1)] reached_by_def)
      then have "\<exists>d. tv_evidenceCheckpoint ?ev = Some d
          \<and> rankOf (Some (Max (r_checkpoint ` set (journal_of h tx)))) \<le> rankOf (Some d)"
        unfolding collect_rest(2) by (intro maxCheckpoint_member) simp
      ultimately show ?thesis by (simp add: assms(4) rankOf_def less_eq_checkpoint_def)
    next
      case 2
      from missing_bound [OF this] show ?thesis by (simp add: assms(4) rankOf_def less_eq_checkpoint_def)
    qed
  qed
  have "Max (r_checkpoint ` set (readHubLandingJournal js tx)) = c"
    by (rule Max_eqI [OF _ low js(5)]) simp_all
  with js(5) have at: "map_option st_checkpoint (loadHubLandingTransaction js tx) = Some c"
    by (auto simp: load_checkpoint [OF js(2)])
  then have "missing_checkpoints ?ev (loadHubLandingTransaction js tx) = []"
    by (auto simp: missing_checkpoints_def assms(4))
  then have "reconstructCheckpoints V ?ev (loadHubLandingTransaction js tx) (h\<lparr>h_journals := js\<rparr>)
      = (Inr 0, h\<lparr>h_journals := js\<rparr>)"
    by (simp add: reconstructCheckpoints_def bind_act_def ret_act_def)
  with js(1,4) at show ?thesis by blast
qed


subsection \<open>What is not landed is left alone\<close>

lemma cleanup_keeps:
  assumes "cleanupHubLandingCandidate E c now h = (r, h')"
  shows "h_publication h' = h_publication h \<and> h_checkout h' = h_checkout h
    \<and> h_git h' \<in> {h_git h, h_git (snd (removeWorktree E (lc_worktreeDir c) h))}"
  using assms
  by (cases "fst (appendHubLandingCheckpoint (h_journals h) ((plain_record Cleaned (lc_transactionId c) (lc_taskId c) now)
       \<lparr>ev_candidateOid := Some (lc_candidateOid c)\<rparr>))")
    (auto simp: cleanupHubLandingCandidate_def act_defs maybeCrash_def removeWorktree_def appendCheckpoint_eq
      split: if_split_asm)

lemma reconstruct_keeps:
  assumes "reconstructCheckpoints V ev j h = (r, h')"
  shows "\<exists>js. h' = h\<lparr>h_journals := js\<rparr>"
proof -
  have all: "\<exists>js. s' = s\<lparr>h_journals := js\<rparr>"
    if "each_act (\<lambda>c. appendCheckpoint (f c)) cs s = (x, s')" for f cs x and s s' :: "'a hub"
    using that
  proof (induction cs arbitrary: s x s')
    case Nil
    then show ?case by (intro exI [of _ "h_journals s"]) simp
  next
    case (Cons c cs)
    obtain y s1 where y: "appendCheckpoint (f c) s = (y, s1)" by fastforce
    from appendCheckpoint_git [OF y] obtain js where s1: "s1 = s\<lparr>h_journals := js\<rparr>" by blast
    obtain z s2 where z: "each_act (\<lambda>c. appendCheckpoint (f c)) cs s1 = (z, s2)" by fastforce
    from Cons.IH [OF z] s1 have "\<exists>js. s2 = s\<lparr>h_journals := js\<rparr>" by auto
    with Cons.prems y z s1 show ?case
      by (cases y; cases z) (auto simp: bind_act_def ret_act_def)
  qed
  let ?cs = "missing_checkpoints ev j" and ?f = "reconstructed_record ev (the (tv_taskId ev)) (rv_now V)"
  obtain z s2 where z: "each_act (\<lambda>c. appendCheckpoint (?f c)) ?cs h = (z, s2)" by fastforce
  have same: "\<exists>js. h = h\<lparr>h_journals := js\<rparr>" by (intro exI [of _ "h_journals h"]) simp
  from all [OF z] same assms z show ?thesis
    by (cases z) (auto simp: reconstructCheckpoints_def Let_def bind_act_def ret_act_def split: if_split_asm)
qed

text \<open>
  C5: Nothing is closed or delivered without proof of a landing. When the repository holds no receipt of the
  transaction, or the publish target does not contain its candidate, a pass over it, however it ends, does
  not depend on the closer of the task store, so it never runs it; it enqueues no delivery; and it moves no
  ref, the removal of a worktree being all it may do to the repository.
\<close>

theorem unlanded_is_left_alone:
  assumes "journals_ok (h_journals h)" and "upkeep_laws V"
    and "readHubLandingReceipt (rv_hub V) (h_git h) tx = None \<or> \<not> in_target (rv_hub V) p h tx"
    and "reconcile_one V p (collectEvidence V (Some p) h tx) h = (r, h')"
  shows "reconcile_one (V\<lparr>rv_closeTask := f\<rparr>) p (collectEvidence V (Some p) h tx) h = (r, h')
    \<and> h_publication h' = h_publication h \<and> h_checkout h' = h_checkout h
    \<and> same_refs (e_git (rv_hub V)) (h_git h) (h_git h')"
proof -
  let ?ev = "collectEvidence V (Some p) h tx"
  let ?j = "loadHubLandingTransaction (h_journals h) (tv_transactionId ?ev)"
  have no: "\<not> tv_landed ?ev" unfolding collect_landed [OF assms(1)] using assms(3) by auto
  have run: "reconcile_one V p ?ev h = bind_act (reconstructCheckpoints V ?ev ?j) (\<lambda>count.
      bind_act (case toCandidate V ?ev p ?j of None \<Rightarrow> ret_act ()
        | Some c \<Rightarrow> when_act (tv_worktreePresent ?ev \<and> (tv_landed ?ev \<or> tv_closed ?ev)) (cleanupHubLandingCandidate (rv_hub V) c (rv_now V)))
      (\<lambda>_. ret_act count)) h"
    by (simp add: reconcile_one_def Let_def no when_act_def bind_act_ret_left, simp add: bind_act_def gets_act_def)
  have indep: "reconcile_one (V\<lparr>rv_closeTask := f\<rparr>) p ?ev h = reconcile_one V p ?ev h"
  proof -
    have sel: "rv_now (V\<lparr>rv_closeTask := f\<rparr>) = rv_now V" "rv_hub (V\<lparr>rv_closeTask := f\<rparr>) = rv_hub V" by simp_all
    have "reconstructCheckpoints (V\<lparr>rv_closeTask := f\<rparr>) = reconstructCheckpoints V"
      by (intro ext) (simp only: reconstructCheckpoints_def sel)
    moreover have "toCandidate (V\<lparr>rv_closeTask := f\<rparr>) = toCandidate V"
      by (intro ext) (simp only: toCandidate_def sel)
    ultimately show ?thesis unfolding reconcile_one_def Let_def sel by (simp add: no when_act_def)
  qed
  have keep: "same_refs (e_git (rv_hub V)) (h_git s) (h_git (snd (removeWorktree (rv_hub V) d s)))" for d s
    using assms(2) by (simp add: removeWorktree_def modify_act_def upkeep_laws_def Let_def keeps_view_def split: option.split)
  obtain x h1 where x: "reconstructCheckpoints V ?ev ?j h = (x, h1)" by fastforce
  from reconstruct_keeps [OF x] obtain js where h1: "h1 = h\<lparr>h_journals := js\<rparr>" by blast
  have "h_publication h' = h_publication h \<and> h_checkout h' = h_checkout h
    \<and> same_refs (e_git (rv_hub V)) (h_git h) (h_git h')"
  proof (cases x)
    case (Inl e)
    with assms(4) x have "h' = h1" unfolding run by (simp add: bind_act_def)
    with h1 show ?thesis by simp
  next
    case (Inr n)
    show ?thesis
    proof (cases "toCandidate V ?ev p ?j")
      case None
      with Inr assms(4) x have "h' = h1" unfolding run by (simp add: bind_act_def ret_act_def)
      with h1 show ?thesis by simp
    next
      case (Some c)
      show ?thesis
      proof (cases "tv_worktreePresent ?ev \<and> (tv_landed ?ev \<or> tv_closed ?ev)")
        case False
        with Inr Some assms(4) x have "h' = h1"
          unfolding run by (simp add: bind_act_def ret_act_def when_act_def)
        with h1 show ?thesis by simp
      next
        case True
        obtain y h2 where y: "cleanupHubLandingCandidate (rv_hub V) c (rv_now V) h1 = (y, h2)" by fastforce
        with True Inr Some assms(4) x have "h' = h2"
          unfolding run by (cases y) (auto simp: bind_act_def ret_act_def when_act_def)
        with cleanup_keeps [OF y] keep [of h1 "lc_worktreeDir c"] h1 show ?thesis by auto
      qed
    qed
  qed
  with indep assms(4) show ?thesis by simp
qed


subsection \<open>Landings from before there were transactions\<close>

text \<open>A task that has a transaction is never looked at again.\<close>

lemma classified_tasks:
  assumes "e \<in> set (classifyHubLegacyLandingHistory V h q existing)"
  shows "le_transactionId e = None \<and> le_taskId e \<notin> set existing
    \<and> (le_decision e = AncestryContained \<longrightarrow> (\<exists>s t b. le_sourceOid e = Some s \<and> le_targetOid e = Some t \<and> le_branch e = Some b
         \<and> t \<in> set (resolveTargetOids (rv_hub V) (h_git h) (coalesce q (readHubLandingPolicy (h_policy h))))
         \<and> g_is_ancestor (e_git (rv_hub V)) (h_git h) s t))"
proof -
  let ?targets = "resolveTargetOids (rv_hub V) (h_git h) (coalesce q (readHubLandingPolicy (h_policy h)))"
  from assms obtain task where task: "lt_id task \<notin> set existing"
      and e: "classifyTask (rv_hub V) (h_git h) task (rv_events V) ?targets = Some e"
    by (auto simp: classifyHubLegacyLandingHistory_def Let_def map_filter_def)
  show ?thesis
  proof (cases "closed_status (lt_hubStatus task) (lt_metadata task)")
    case True
    with task e show ?thesis
      by (auto simp: classifyTask_def acceptLegacy_def split: prod.splits if_split_asm)
  next
    case False
    obtain latest merged where l: "collectLegacyMergeEvidence (rv_events V) (lt_id task) = (latest, merged)"
      by fastforce
    have "latest \<noteq> None"
    proof
      assume "latest = None"
      with e False l show False by (simp add: classifyTask_def Let_def)
    qed
    with l obtain me where m: "collectLegacyMergeEvidence (rv_events V) (lt_id task) = (Some me, merged)" by blast
    let ?b = "legacy_branch task me"
    show ?thesis
    proof (cases "resolveCommitOid (rv_hub V) (h_git h) ?b")
      case None
      with e m False task show ?thesis by (auto simp: classifyTask_def rejectLegacy_def Let_def)
    next
      case (Some s)
      show ?thesis
      proof (cases "find (\<lambda>x. g_is_ancestor (e_git (rv_hub V)) (h_git h) s x) ?targets")
        case None
        with e m False task Some show ?thesis
          by (auto simp: classifyTask_def rejectLegacy_def Let_def split: list.splits if_split_asm)
      next
        case (Some t)
        then have t: "t \<in> set ?targets" "g_is_ancestor (e_git (rv_hub V)) (h_git h) s t"
          by (auto simp: find_Some_iff)
        from e m False \<open>resolveCommitOid (rv_hub V) (h_git h) ?b = Some s\<close> Some
        have "e = acceptLegacy (lt_id task) AncestryContained merged (Some ?b) (Some s) (Some t) None"
          by (auto simp: classifyTask_def Let_def split: list.splits)
        with t task show ?thesis by (simp add: acceptLegacy_def)
      qed
    qed
  qed
qed

lemma each_act_results:
  assumes "each_act f xs h = (Inr ys, h')"
    and "\<And>x s y s'. x \<in> set xs \<Longrightarrow> f x s = (Inr y, s') \<Longrightarrow> P y \<and> (Q y \<longrightarrow> s' = s)"
  shows "(\<forall>y \<in> set ys. P y) \<and> ((\<forall>y \<in> set ys. Q y) \<longrightarrow> h' = h)"
  using assms
proof (induction xs arbitrary: h ys)
  case Nil
  then show ?case by simp
next
  case (Cons x xs)
  from Cons.prems(1) obtain y s zs where y: "f x h = (Inr y, s)" and zs: "each_act f xs s = (Inr zs, h')"
      and ys: "ys = y # zs" by auto
  have "P y \<and> (Q y \<longrightarrow> s = h)" using Cons.prems(2) [OF _ y] by simp
  moreover have "(\<forall>y \<in> set zs. P y) \<and> ((\<forall>y \<in> set zs. Q y) \<longrightarrow> h' = s)"
    by (rule Cons.IH [OF zs]) (rule Cons.prems(2), simp_all)
  ultimately show ?case unfolding ys by auto
qed

lemma adopted_entry:
  assumes "adoptContainedTask V e s = (Inr y, s')" and "le_transactionId e = None"
  shows "(le_transactionId y \<noteq> None \<longrightarrow> le_taskId y = le_taskId e \<and> le_sourceOid y = le_sourceOid e
      \<and> le_targetOid y = le_targetOid e) \<and> (le_transactionId y = None \<longrightarrow> s' = s)"
  using assms by (auto simp: adoptContainedTask_def Let_def acceptLegacy_def truthy_string_iff split: if_split_asm)

text \<open>
  C37: Only contained landings are adopted. Every older landing that an adoption turned into a transaction
  belongs to a task that had none, and its source commit was found in the host branch or the publish target
  of the policy, or in the current head where neither resolves; and an adoption that turned none into a
  transaction has changed nothing.
\<close>

theorem only_contained_landings_are_adopted:
  assumes "adoptHubLegacyLandingHistory V q existing h = (Inr es, h')"
  shows "(\<forall>e \<in> set es. le_transactionId e \<noteq> None \<longrightarrow> le_taskId e \<notin> set existing
      \<and> (\<exists>s t. le_sourceOid e = Some s \<and> le_targetOid e = Some t
          \<and> t \<in> set (resolveTargetOids (rv_hub V) (h_git h) (coalesce q (readHubLandingPolicy (h_policy h))))
          \<and> g_is_ancestor (e_git (rv_hub V)) (h_git h) s t))
    \<and> ((\<forall>e \<in> set es. le_transactionId e = None) \<longrightarrow> h' = h)"
proof -
  let ?es = "classifyHubLegacyLandingHistory V h q existing"
  let ?f = "\<lambda>entry. if le_decision entry \<noteq> AncestryContained \<or> le_taskId entry \<notin> lt_id ` set (rv_tasks V)
       then ret_act entry else adoptContainedTask V entry"
  from assms have run: "each_act ?f ?es h = (Inr es, h')" by (simp add: adoptHubLegacyLandingHistory_def)
  show ?thesis
  proof (rule each_act_results [OF run])
    fix x s y s'
    assume x: "x \<in> set ?es" and y: "?f x s = (Inr y, s')"
    note c = classified_tasks [OF x]
    show "(le_transactionId y \<noteq> None \<longrightarrow> le_taskId y \<notin> set existing
        \<and> (\<exists>s t. le_sourceOid y = Some s \<and> le_targetOid y = Some t
          \<and> t \<in> set (resolveTargetOids (rv_hub V) (h_git h) (coalesce q (readHubLandingPolicy (h_policy h))))
          \<and> g_is_ancestor (e_git (rv_hub V)) (h_git h) s t))
      \<and> (le_transactionId y = None \<longrightarrow> s' = s)"
    proof (cases "le_decision x \<noteq> AncestryContained \<or> le_taskId x \<notin> lt_id ` set (rv_tasks V)")
      case True
      with y c show ?thesis by simp
    next
      case False
      with y have "adoptContainedTask V x s = (Inr y, s')" by simp
      from adopted_entry [OF this] c False show ?thesis by auto
    qed
  qed
qed

text \<open>
  A transaction without a receipt, of a task that was not closed: as an adoption leaves it when the process dies
  before \<open>task_closed\<close>.
\<close>

definition halfway :: "'g reconcile_env \<Rightarrow> HubLandingPolicy \<Rightarrow> txn_id \<Rightarrow> task_id \<Rightarrow> 'g hub \<Rightarrow> bool" where
  "halfway V p tx t h \<longleftrightarrow> journals_ok (h_journals h) \<and> task_of (rv_hub V) h tx = Some t \<and> t \<noteq> []
     \<and> readHubLandingReceipt (rv_hub V) (h_git h) tx = None \<and> incident_of (rv_hub V) p h tx = None
     \<and> \<not> store_says_closed V h tx \<and> journal_of h tx \<noteq> []
     \<and> rankOf (reached_by h tx) < rankOf (Some TaskClosed)"

lemma halfway_facts:
  assumes "halfway V p tx t h"
  shows "\<not> tv_landed (collectEvidence V (Some p) h tx)" and "\<not> tv_closed (collectEvidence V (Some p) h tx)"
    and "\<not> tv_cleaned (collectEvidence V (Some p) h tx)"
    and "tv_integrityIncident (collectEvidence V (Some p) h tx) = None"
    and "\<exists>c. tv_evidenceCheckpoint (collectEvidence V (Some p) h tx) = Some c \<and> rankOf (Some c) < rankOf (Some TaskClosed)"
    and "tv_pending (collectEvidence V (Some p) h tx)"
proof -
  let ?ev = "collectEvidence V (Some p) h tx"
  from assms have j: "journals_ok (h_journals h)" by (simp add: halfway_def)
  note cf = collect_facts [OF j, of V p tx]
  show l: "\<not> tv_landed ?ev" using assms unfolding collect_landed [OF j] by (simp add: halfway_def)
  have low: "rankOf (reached_by h tx) < rankOf (Some TaskClosed)"
    using assms by (simp add: halfway_def)
  then show s: "\<not> tv_closed ?ev" using assms l unfolding collect_closed [OF j]
    by (auto simp: halfway_def isInternallyClosedHostContribution_def)
  have "reached_by h tx \<noteq> Some Cleaned" using low by (auto simp: rankOf_def)
  then show c: "\<not> tv_cleaned ?ev" using l s unfolding collect_rest(1) cf(5) by simp
  show i: "tv_integrityIncident ?ev = None" using assms by (simp add: cf(3) halfway_def)
  let ?cs = "[tv_journalCheckpoint ?ev,
        if truthy_string (tv_candidateOid ?ev) then Some CandidateCreated else None,
        if tv_verificationReusable ?ev then Some CandidateVerified else None,
        if tv_landed ?ev then Some TargetLanded else None,
        if tv_closed ?ev then Some TaskClosed else None, if tv_cleaned ?ev then Some Cleaned else None]"
  obtain k where k: "reached_by h tx = Some k" using assms by (auto simp: halfway_def reached_by_def)
  obtain d where d: "tv_evidenceCheckpoint ?ev = Some d" "maxCheckpoint ?cs = Some d"
    using maxCheckpoint_member [of k ?cs] by (auto simp: collect_rest(2) cf(5) k)
  from maxCheckpoint_cases [of ?cs] d(2) have "Some d \<in> set ?cs" by simp
  then have "rankOf (Some d) < rankOf (Some TaskClosed)"
    using assms l s c by (auto simp: cf(5) k halfway_def rankOf_def split: if_split_asm)
  with d(1) show e: "\<exists>c. tv_evidenceCheckpoint ?ev = Some c \<and> rankOf (Some c) < rankOf (Some TaskClosed)"
    by blast
  then have "rankOf (tv_evidenceCheckpoint ?ev) < rankOf (Some Cleaned)" by (auto simp: rankOf_def)
  then show "tv_pending ?ev" unfolding collect_rest(3) by (simp add: isPendingReconciliation_def i)
qed

lemma halfway_pass:
  assumes "halfway V p tx t h" and "evidence_writable V p h tx"
  shows "\<exists>n h'. reconcile_each V p 0 [tx] h = (Inr (Inr n), h') \<and> halfway V p tx t h'"
proof -
  let ?ev = "collectEvidence V (Some p) h tx" and ?E = "rv_hub V"
  let ?r = "reconstructed_record ?ev (the (tv_taskId ?ev)) (rv_now V)"
  note facts = halfway_facts [OF assms(1)]
  from assms(1) have j: "journals_ok (h_journals h)" and t: "task_of ?E h tx = Some t" "t \<noteq> []"
    by (simp_all add: halfway_def)
  note cf = collect_facts [OF j, of V p tx]
  obtain c where c: "tv_evidenceCheckpoint ?ev = Some c" "rankOf (Some c) < rankOf (Some TaskClosed)"
    using facts(5) by blast
  have tt: "truthy_string (tv_taskId ?ev)" using t by (simp add: cf truthy_string_iff)
  have w: "record_ok (?r Opened)" using assms(2) by (simp add: evidence_writable_def Let_def)
  from reconstruct_run [OF j c(1) facts(4) tt w] obtain n js where
      js: "reconstructCheckpoints V ?ev (loadHubLandingTransaction (h_journals h) tx) h = (Inr n, h\<lparr>h_journals := js\<rparr>)"
        "journals_ok js" "readHubLandingJournal js tx = journal_of h tx
          @ map ?r (missing_checkpoints ?ev (loadHubLandingTransaction (h_journals h) tx))" by blast
  let ?h = "h\<lparr>h_journals := js\<rparr>"
  have run: "reconcile_one V p ?ev h = (Inr n, ?h)"
    using js(1) by (simp add: reconcile_one_def Let_def facts(1,2) cf(7) act_defs split: option.split)
  have "names_same ?E h tx (?r k)" for k
    by (simp add: names_same_def reconstructed_record_def plain_record_def no_evidence_def txn_evidence.defs cf t)
  then have prog: "progressed ?E tx h ?h" using js(2,3) by (auto simp: progressed_def list_all_iff)
  have rk: "r_checkpoint (?r k) = k" for k
    by (simp add: reconstructed_record_def plain_record_def no_evidence_def txn_evidence.defs)
  have "rankOf (Some k) < rankOf (Some TaskClosed)" if "k \<in> r_checkpoint ` set (readHubLandingJournal js tx)" for k
  proof -
    from that consider "k \<in> r_checkpoint ` set (journal_of h tx)"
      | "k \<in> set (missing_checkpoints ?ev (loadHubLandingTransaction (h_journals h) tx))"
      by (auto simp: js(3) rk)
    then show ?thesis
    proof cases
      case 1
      then have "k \<le> Max (r_checkpoint ` set (journal_of h tx))" by simp
      then have "rankOf (Some k) \<le> rankOf (reached_by h tx)"
        using 1 by (auto simp: reached_by_def rankOf_def less_eq_checkpoint_def)
      with assms(1) show ?thesis by (simp add: halfway_def)
    next
      case 2
      from missing_bound [OF this] c show ?thesis by simp
    qed
  qed
  moreover have ne: "readHubLandingJournal js tx \<noteq> []" using assms(1) js(3) by (simp add: halfway_def)
  moreover have "Max (r_checkpoint ` set (readHubLandingJournal js tx)) \<in> r_checkpoint ` set (readHubLandingJournal js tx)"
    using ne by (intro Max_in) simp_all
  ultimately have low: "rankOf (reached_by ?h tx) < rankOf (Some TaskClosed)" by (simp add: reached_by_def)
  note view = progressed_view [OF prog]
  have "store_says_closed V ?h tx = store_says_closed V h tx" by (simp add: store_says_closed_def view(2,3))
  moreover have "incident_of ?E p ?h tx = None"
    by (rule progressed_incident [OF prog]) (use assms(1) in \<open>simp add: halfway_def\<close>)
  ultimately have "halfway V p tx t ?h"
    using assms(1) js(2) ne low by (simp add: halfway_def view(3))
  moreover have "reconcile_each V p 0 [tx] h = (Inr (Inr n), ?h)"
    using run facts(4) by (simp add: bind_act_def gets_act_def ret_act_def)
  ultimately show ?thesis by blast
qed

lemma task_id_listed:
  assumes "ev \<in> set evs" and "tv_taskId ev = Some t" and "t \<noteq> []"
  shows "t \<in> set (taskIdsFromTransactions evs)"
  using assms
  by (induction evs)
    (auto simp: taskIdsFromTransactions_def map_filter_simps truthy_string_iff split: option.splits if_splits)

text \<open>
  C38: An adoption that was interrupted is never resumed. Where the process died while it adopted an older
  landing, after the transaction was opened and before the task was closed, the next adoption passes over the
  task, since it has a transaction now, and changes nothing; the pass over the transaction, which has no
  receipt, does not close it either; so it is reported as pending before and after.
\<close>

theorem interrupted_adoption_is_not_resumed:
  assumes "tx \<in> set (listHubLandingTransactionIds V h)" and "lt_id ` set (rv_tasks V) = {t}"
    and "halfway V p tx t h" and "evidence_writable V p h tx"
  shows "adopt_history V p h = (Inr [], h) \<and> tv_pending (collectEvidence V (Some p) h tx)
    \<and> (\<exists>n h'. reconcile_each V p 0 [tx] h = (Inr (Inr n), h') \<and> tv_pending (collectEvidence V (Some p) h' tx))"
proof -
  from assms(3) have j: "journals_ok (h_journals h)" and t: "task_of (rv_hub V) h tx = Some t" "t \<noteq> []"
    by (simp_all add: halfway_def)
  let ?ids = "taskIdsFromTransactions (map (collectEvidence V (Some p) h) (listHubLandingTransactionIds V h))"
  have "t \<in> set ?ids"
    by (rule task_id_listed [of "collectEvidence V (Some p) h tx"])
      (use assms(1) t in \<open>simp_all add: collect_facts(4) [OF j]\<close>)
  moreover have "lt_id task = t" if "task \<in> set (rv_tasks V)" for task
    using imageI [OF that, of lt_id] unfolding assms(2) by simp
  ultimately have "filter (\<lambda>task. lt_id task \<notin> set ?ids) (rv_tasks V) = []" by (auto simp: filter_empty_conv)
  then have "classifyHubLegacyLandingHistory V h (Some p) ?ids = []"
    by (simp add: classifyHubLegacyLandingHistory_def Let_def map_filter_def)
  then have "adoptHubLegacyLandingHistory V (Some p) ?ids h = (Inr [], h)"
    by (simp add: adoptHubLegacyLandingHistory_def)
  moreover have "rv_tasks V \<noteq> []" using assms(2) by auto
  ultimately have "adopt_history V p h = (Inr [], h)"
    by (simp add: adopt_history_def)
  with halfway_pass [OF assms(3,4)] halfway_facts(6) assms(3) show ?thesis by blast
qed


subsection \<open>An adoption in the demonstration world\<close>

text \<open>An adoption that died after its first checkpoint.\<close>

definition demo_opened :: HubLandingTransactionRecord where
  "demo_opened = adopted_record ''ltx-t-d'' ''t'' ''1'' (demo_oid (CHR ''b'')) (demo_oid (CHR ''b'')) Opened"

definition demo_half :: "demo_world hub" where
  "demo_half = demo_hub\<lparr>h_journals := (\<lambda>_. [])(''ltx-t-d'' := [Some (record_json demo_opened)])\<rparr>"

definition demo_task :: HubLegacyLandingTask where
  "demo_task = \<lparr>lt_id = ''t'', lt_title = ''Task'', lt_hubStatus = HubWaitingForMerge, lt_metadata = []\<rparr>"

definition demo_adopter :: "demo_world reconcile_env" where
  "demo_adopter = demo_reconcile\<lparr>rv_dirs := (\<lambda>_. [''ltx-t-d'']), rv_tasks := [demo_task]\<rparr>"

definition demo_policy :: HubLandingPolicy where
  "demo_policy = fresh_policy ''main'' ''p-d'' ''1''"

lemma demo_oids:
  "isGitOid (demo_oid (CHR ''a''))" "isGitOid (demo_oid (CHR ''b''))"
  by (simp_all add: demo_oid_def isGitOid_def hex_digit_def list_all_iff)

lemma demo_opened_ok: "record_ok demo_opened"
  using demo_oids
  by (simp add: record_ok_def evidence_ok_def demo_opened_def adopted_record_def plain_record_def no_evidence_def
      txn_evidence.defs trimmed_def js_trim_def js_space_def resolveHubLandingCandidateRef_def)

lemma demo_half_journal: "journal_of demo_half tx = (if tx = ''ltx-t-d'' then [demo_opened] else [])"
  using record_codec.lines_append [OF demo_opened_ok, of "[]"]
  by (simp add: readHubLandingJournal_def demo_half_def)

lemma demo_half_ok: "journals_ok (h_journals demo_half)"
  by (simp add: journals_ok_def demo_half_journal demo_opened_def adopted_record_def plain_record_def
      no_evidence_def txn_evidence.defs)

lemma demo_opened_sel [simp]:
  "r_taskId demo_opened = ''t''" "r_checkpoint demo_opened = Opened"
  "ev_candidateOid demo_opened = Some (demo_oid (CHR ''b''))" "ev_sourceOid demo_opened = Some (demo_oid (CHR ''b''))"
  "ev_baseOid demo_opened = Some (demo_oid (CHR ''b''))" "ev_verifierFingerprint demo_opened = None"
  "ev_candidateRef demo_opened = Some ''refs/archloop/candidates/ltx-t-d''"
  by (simp_all add: demo_opened_def adopted_record_def plain_record_def no_evidence_def txn_evidence.defs
      resolveHubLandingCandidateRef_def)

lemma demo_half_view:
  shows "readHubLandingReceipt demo_env (h_git demo_half) ''ltx-t-d'' = None"
    and "stored_ref demo_half ''ltx-t-d'' = ''refs/archloop/candidates/ltx-t-d''"
    and "stored_candidate demo_env demo_half ''ltx-t-d'' = Some (demo_oid (CHR ''b''))"
    and "task_of demo_env demo_half ''ltx-t-d'' = Some ''t''"
    and "reached_by demo_half ''ltx-t-d'' = Some Opened"
    and "incident_of demo_env p demo_half ''ltx-t-d'' = None"
    and "readHubLandingVerificationArtifact demo_half ''ltx-t-d'' = None"
proof -
  have rev: "g_rev_parse (e_git demo_env) (h_git demo_half) r = map_of (mr_refs (dw_repo demo_state)) r" for r
    by (simp add: demo_env_def demo_git_def mem_git_def demo_half_def demo_hub_def)
  have man: "readHubLandingCandidateManifest demo_half ''ltx-t-d'' = None"
    by (simp add: readHubLandingCandidateManifest_def demo_half_def demo_hub_def)
  show rc: "readHubLandingReceipt demo_env (h_git demo_half) ''ltx-t-d'' = None"
    by (simp add: readHubLandingReceipt_def rev resolveHubLandingReceiptRef_def demo_state_def)
  show ref: "stored_ref demo_half ''ltx-t-d'' = ''refs/archloop/candidates/ltx-t-d''"
    by (simp add: stored_ref_def demo_half_journal coalesce_def)
  have tip: "g_rev_parse (e_git demo_env) (h_git demo_half) (stored_ref demo_half ''ltx-t-d'') = None"
    by (simp add: rev ref demo_state_def)
  show "stored_candidate demo_env demo_half ''ltx-t-d'' = Some (demo_oid (CHR ''b''))"
    by (simp add: stored_candidate_def tip man demo_half_journal coalesce_def)
  show "task_of demo_env demo_half ''ltx-t-d'' = Some ''t''"
    by (simp add: task_of_def demo_half_journal coalesce_def)
  show "reached_by demo_half ''ltx-t-d'' = Some Opened"
    by (simp add: reached_by_def demo_half_journal)
  show "incident_of demo_env p demo_half ''ltx-t-d'' = None"
    by (simp add: incident_of_def tip rc evidence_incident_def Let_def candidateOidMismatchIncident_def
        truthy_string_iff coalesce_def)
  show "readHubLandingVerificationArtifact demo_half ''ltx-t-d'' = None"
    by (simp add: readHubLandingVerificationArtifact_def demo_half_def demo_hub_def)
qed

lemma demo_adopter_hub [simp]: "rv_hub demo_adopter = demo_env"
  by (simp add: demo_adopter_def demo_reconcile_def)

lemma demo_halfway: "halfway demo_adopter demo_policy ''ltx-t-d'' ''t'' demo_half"
proof -
  have "dw_status (h_git demo_half) = []" by (simp add: demo_half_def demo_hub_def demo_state_def)
  then have "\<not> store_says_closed demo_adopter demo_half ''ltx-t-d''"
    by (simp add: store_says_closed_def readTaskBackedBeadsClose_def reader_of_def demo_adopter_def demo_reconcile_def
        demo_reader_def)
  then show ?thesis
    by (simp add: halfway_def demo_half_ok demo_half_view demo_half_journal rankOf_def)
qed

lemma demo_half_evidence:
  defines "ev \<equiv> collectEvidence demo_adopter (Some demo_policy) demo_half ''ltx-t-d''"
  shows "evidence_writable demo_adopter demo_policy demo_half ''ltx-t-d''"
    and "tv_evidenceCheckpoint ev = Some CandidateCreated"
proof -
  note cf = collect_facts [OF demo_half_ok, of demo_adopter demo_policy "''ltx-t-d''", folded ev_def,
      unfolded demo_adopter_hub demo_half_view]
  have one: "last_defined f (journal_of demo_half ''ltx-t-d'') = f demo_opened"
    for f :: "HubLandingTransactionRecord \<Rightarrow> string option"
    by (simp add: demo_half_journal)
  have man: "readHubLandingCandidateManifest demo_half ''ltx-t-d'' = None"
    by (simp add: readHubLandingCandidateManifest_def demo_half_def demo_hub_def)
  have ld: "Option.bind (loadHubLandingTransaction (h_journals demo_half) ''ltx-t-d'') ev_sourceOid = Some (demo_oid (CHR ''b''))"
      "Option.bind (loadHubLandingTransaction (h_journals demo_half) ''ltx-t-d'') ev_baseOid = Some (demo_oid (CHR ''b''))"
      "Option.bind (loadHubLandingTransaction (h_journals demo_half) ''ltx-t-d'') ev_verifierFingerprint = None"
    by (simp_all add: load_field [of _ _, OF _ _ demo_half_ok] reduce_step_def one)
  have again: "\<not> tv_verificationReusable ev"
    by (simp add: ev_def collectEvidence_def Let_def demo_half_view(7) verification_reusable_def)
  note no = halfway_facts(1-3) [OF demo_halfway, folded ev_def]
  have "truthy_string (tv_candidateOid ev)" by (simp add: cf(2) truthy_string_iff demo_oid_def)
  then show "tv_evidenceCheckpoint ev = Some CandidateCreated"
    unfolding ev_def collect_rest(2) using no again
    by (simp add: cf(5) [unfolded ev_def] ev_def maxCheckpoint_def rankOf_def)
  have "tv_sourceOid ev = Some (demo_oid (CHR ''b''))" "tv_baseOid ev = Some (demo_oid (CHR ''b''))"
      "tv_verifierFingerprint ev = None" "tv_receiptOid ev = None"
      "tv_publishTargetOid ev = Some (demo_oid (CHR ''a''))"
    using again by (simp_all add: ev_def collectEvidence_def Let_def ld man demo_half_view(1) coalesce_def)
      (simp add: demo_env_def demo_git_def mem_git_def demo_half_def demo_hub_def demo_state_def demo_policy_def
        fresh_policy_def)
  then show "evidence_writable demo_adopter demo_policy demo_half ''ltx-t-d''"
    using demo_oids no
    by (simp add: evidence_writable_def Let_def ev_def [symmetric] record_ok_def evidence_ok_def reconstructed_record_def
        plain_record_def no_evidence_def txn_evidence.defs cf trimmed_def js_trim_def js_space_def truthy_string_iff,
        simp add: demo_adopter_def demo_reconcile_def js_space_def)
qed

theorem interrupted_adoption_is_not_resumed_witness:
  "adopt_history demo_adopter demo_policy demo_half = (Inr [], demo_half)
    \<and> tv_pending (collectEvidence demo_adopter (Some demo_policy) demo_half ''ltx-t-d'')"
proof -
  have "''ltx-t-d'' \<in> set (listHubLandingTransactionIds demo_adopter demo_half)"
    by (simp add: listHubLandingTransactionIds_def demo_adopter_def)
  moreover have "lt_id ` set (rv_tasks demo_adopter) = {''t''}" by (simp add: demo_adopter_def demo_task_def)
  ultimately show ?thesis
    using interrupted_adoption_is_not_resumed [OF _ _ demo_halfway demo_half_evidence(1)] by blast
qed

theorem reconstruction_is_exact_witness:
  "\<exists>n js. reconstructCheckpoints demo_adopter (collectEvidence demo_adopter (Some demo_policy) demo_half ''ltx-t-d'')
      (loadHubLandingTransaction (h_journals demo_half) ''ltx-t-d'') demo_half = (Inr n, demo_half\<lparr>h_journals := js\<rparr>)
    \<and> map_option st_checkpoint (loadHubLandingTransaction js ''ltx-t-d'') = Some CandidateCreated"
proof -
  have "truthy_string (tv_taskId (collectEvidence demo_adopter (Some demo_policy) demo_half ''ltx-t-d''))"
    by (simp add: collect_facts [OF demo_half_ok] demo_half_view truthy_string_iff)
  from reconstruction_is_exact [OF demo_half_ok demo_half_evidence(1) halfway_facts(4) [OF demo_halfway]
      demo_half_evidence(2) this] show ?thesis by blast
qed

lemma demo_adopter_upkeep: "upkeep_laws demo_adopter"
proof -
  have "reader_of demo_adopter = reader_of demo_reconcile" by (intro ext) (simp add: reader_of_def demo_adopter_def)
  moreover have "rv_hub demo_adopter = rv_hub demo_reconcile" by (simp add: demo_adopter_def)
  ultimately show ?thesis using demo_upkeep unfolding upkeep_laws_def keeps_view_def by simp
qed

theorem unlanded_is_left_alone_witness:
  "\<exists>r h'. reconcile_one demo_adopter demo_policy
      (collectEvidence demo_adopter (Some demo_policy) demo_half ''ltx-t-d'') demo_half = (r, h')
    \<and> reconcile_one (demo_adopter\<lparr>rv_closeTask := None\<rparr>) demo_policy
      (collectEvidence demo_adopter (Some demo_policy) demo_half ''ltx-t-d'') demo_half = (r, h')"
proof -
  let ?e = "reconcile_one demo_adopter demo_policy
      (collectEvidence demo_adopter (Some demo_policy) demo_half ''ltx-t-d'') demo_half"
  have no: "readHubLandingReceipt (rv_hub demo_adopter) (h_git demo_half) ''ltx-t-d'' = None
      \<or> \<not> in_target (rv_hub demo_adopter) demo_policy demo_half ''ltx-t-d''"
    by (simp add: demo_half_view)
  obtain r h' where run: "?e = (r, h')" by fastforce
  from unlanded_is_left_alone [OF demo_half_ok demo_adopter_upkeep no run, of None] run show ?thesis by blast
qed

text \<open>A task whose events say that its branch was merged, and the publish target on the tip of that branch.\<close>

definition demo_merged_event :: HubTaskEvent where
  "demo_merged_event = \<lparr>te_type = ''merge_succeeded'', te_runId = ''r'', te_batchId = ''b'', te_taskId = ''t'',
     te_branch = ''feature'', te_createdAt = ''1'', te_status = ''x'', te_reason = None, te_failureReason = None,
     te_diagnosticSummary = None, te_diagnostics = None, te_commitCount = None, te_branchHasUnmergedWork = None,
     te_implementationWork = None, te_claim = None\<rparr>"

definition demo_older :: "demo_world reconcile_env" where
  "demo_older = demo_adopter\<lparr>rv_dirs := (\<lambda>_. []), rv_events := [demo_merged_event]\<rparr>"

definition demo_merged :: "demo_world hub" where
  "demo_merged = demo_hub\<lparr>h_git := demo_state\<lparr>dw_repo := (dw_repo demo_state)\<lparr>mr_refs :=
     (''refs/archloop/publish/p-d^{commit}'', demo_oid (CHR ''b'')) # mr_refs (dw_repo demo_state)\<rparr>\<rparr>\<rparr>"

definition writable :: "bool \<Rightarrow> 'g hub \<Rightarrow> bool" where
  "writable unverified h \<longleftrightarrow> journals_ok (h_journals h) \<and> (unverified \<longrightarrow> h_artifact h ''ltx-t-d'' = NoFile)"

lemma writable_append: "record_ok r \<Longrightarrow> runs (writable u) (appendCheckpoint r) (\<lambda>_. writable u)"
proof (rule runsI)
  fix h :: "'a hub"
  assume r: "record_ok r" and h: "writable u h"
  then obtain s js where "appendCheckpoint r h = (Inr s, h\<lparr>h_journals := js\<rparr>)" "journals_ok js"
    using append_run [OF r, of h] by (auto simp: writable_def)
  with h show "\<exists>a t. appendCheckpoint r h = (Inr a, t) \<and> writable u t"
    by (auto simp: writable_def)
qed

lemma runs_each: "(\<And>x. x \<in> set xs \<Longrightarrow> runs P (f x) (\<lambda>_. P)) \<Longrightarrow> runs P (each_act f xs) (\<lambda>_. P)"
proof (induction xs)
  case Nil
  show ?case by (simp add: runs_def ret_act_def)
next
  case (Cons x xs)
  then have first: "runs P (f x) (\<lambda>_. P)" and rest: "runs P (each_act f xs) (\<lambda>_. P)" by simp_all
  show ?case unfolding each_act.simps
    by (rule runs_bind [OF first], rule runs_bind [OF rest], simp add: runs_def ret_act_def)
qed

lemma demo_adoption_runs:
  "runs (writable True) (adopt_transaction demo_older ''ltx-t-d'' ''t'' (demo_oid (CHR ''b'')) (demo_oid (CHR ''b'')))
     (\<lambda>_. writable False)"
proof -
  let ?b = "demo_oid (CHR ''b'')"
  let ?i = "\<lparr>bi_transactionId = ''ltx-t-d'', bi_taskId = ''t'', bi_candidateOid = ?b,
       bi_verifierFingerprint = ''d'', bi_verifierConfigHash = None, bi_runtimeFingerprint = None,
       bi_repoRootGiven = True, bi_exitCode = None, bi_output = None\<rparr>"
  have V: "rv_hub demo_older = demo_env" "rv_now demo_older = ''9''" "closer_of demo_older = closer_of demo_reconcile"
    by (simp_all add: demo_older_def demo_adopter_def demo_reconcile_def closer_of_def fun_eq_iff)
  have f: "e_fault demo_env = no_faults" "computeHubVerifierFingerprint demo_env = ''d''"
    by (simp_all add: demo_env_def computeHubVerifierFingerprint_def computeHubVerifierParts_def Let_def demo_runtime_def)
  have ok: "record_ok (adopted_record ''ltx-t-d'' ''t'' ''9'' ?b ?b c)"
    "record_ok ((adopted_record ''ltx-t-d'' ''t'' ''9'' ?b ?b c)
       \<lparr>ev_verifierFingerprint := Some ''d'', ev_publishTargetOid := Some ?b\<rparr>)"
    "record_ok ((plain_record c ''ltx-t-d'' ''t'' ''9'')\<lparr>ev_candidateOid := Some ?b,
       ev_verifierFingerprint := Some ''d'',
       ev_verificationArtifactPath := Some (resolveHubLandingVerificationArtifactPath demo_env ''ltx-t-d'')\<rparr>)"
    "record_ok ((plain_record c ''ltx-t-d'' ''t'' ''9'')\<lparr>ev_candidateOid := Some ?b\<rparr>)" for c
    using demo_oids
    by (simp_all add: record_ok_def evidence_ok_def adopted_record_def plain_record_def no_evidence_def
        txn_evidence.defs trimmed_def js_trim_def js_space_def resolveHubLandingVerificationArtifactPath_def
        demo_env_def resolveHubLandingCandidateRef_def)
  have persist: "runs (writable u) (persistAdoptedCandidate demo_env ''ltx-t-d'' ''t'' ?b ?b ''9'') (\<lambda>_. writable u)" for u
    by (rule runsI)
      (simp add: persistAdoptedCandidate_def writeCandidateManifestAndRef_def bind_act_def modify_act_def gitChange_def
        demo_env_def demo_git_def mem_git_def writable_def)
  have open_it: "runs (\<lambda>h. writable True h \<and> X h) (when_act y (bind_act (each_act (\<lambda>c. appendCheckpoint
        (adopted_record ''ltx-t-d'' ''t'' ''9'' ?b ?b c)) ADOPTED_OPENING_CHECKPOINTS)
      (\<lambda>_. persistAdoptedCandidate demo_env ''ltx-t-d'' ''t'' ?b ?b ''9''))) (\<lambda>_. writable True)" for X y
    by (rule runs_when, rule runs_weaken [OF runs_bind [OF runs_each [OF writable_append [OF ok(1)]] persist]]) simp_all
  have bind_it: "runs (writable True) (bindHubLandingVerification demo_env ?i ''9'') (\<lambda>_. writable False)"
  proof (rule runsI)
    fix h :: "demo_world hub"
    assume h: "writable True h"
    then have none: "readHubLandingVerificationArtifact h ''ltx-t-d'' = None"
      by (simp add: writable_def readHubLandingVerificationArtifact_def)
    have "runs (writable False) (recordCandidateVerifiedCheckpoint demo_env ''ltx-t-d'' ''t'' ?b ''d'' ''9'')
        (\<lambda>_. writable False)"
      unfolding recordCandidateVerifiedCheckpoint_def by (rule writable_append [OF ok(3)])
    moreover have "writable False (h\<lparr>h_artifact := a\<rparr>)" for a using h by (simp add: writable_def)
    ultimately have run: "\<exists>y t. recordCandidateVerifiedCheckpoint demo_env ''ltx-t-d'' ''t'' ?b ''d'' ''9''
        (h\<lparr>h_artifact := a\<rparr>) = (Inr y, t) \<and> writable False t" for a
      unfolding runs_def by blast
    have recorded: "\<exists>y. x = Inr y \<and> writable False t"
      if "recordCandidateVerifiedCheckpoint demo_env ''ltx-t-d'' ''t'' ?b ''d'' ''9'' (h\<lparr>h_artifact := a\<rparr>) = (x, t)"
      for a x t
      using run [of a] that by auto
    show "\<exists>a t. bindHubLandingVerification demo_env ?i ''9'' h = (Inr a, t) \<and> writable False t"
      unfolding bindHubLandingVerification_def
      by (simp add: f Let_def bind_act_def gets_act_def modify_act_def ret_act_def none split: prod.split sum.split)
        (blast dest: recorded)
  qed
  have closed: "runs (writable False) (closer_of demo_reconcile t tx cand) (\<lambda>_. writable False)" for t tx cand
    by (rule runsI) (simp add: closer_of_def demo_reconcile_def demo_closer_def modify_act_def writable_def)
  have shipped: "runs (writable False) (enqueueHubPublicationAfterShipped demo_env tx t cand None now) (\<lambda>_. writable False)"
    for tx t cand now
    by (rule enqueueShipped_runs) (simp_all add: writable_def)
  have tell: "runs (\<lambda>h. writable False h \<and> X h) (when_act y (bind_act (closer_of demo_reconcile t tx cand)
      (\<lambda>_. ret_act ()))) (\<lambda>_. writable False)" for X y t tx cand
    by (rule runs_when, rule runs_weaken [OF runs_bind_ret [OF closed]]) simp_all
  have ship: "runs (writable False) (when_act True (bind_act (enqueueHubPublicationAfterShipped demo_env tx t cand None now)
      (\<lambda>_. ret_act ()))) (\<lambda>_. writable False)" for tx t cand now
    by (rule runs_when, rule runs_bind_ret [OF shipped]) simp
  have close_it: "runs (\<lambda>h. writable False h \<and> X h) (closeHubLandingTask demo_env ''ltx-t-d'' ''t'' ?b True reader
      (closer_of demo_reconcile) ''9'') (\<lambda>_. writable False)" for X reader
    unfolding closeHubLandingTask_def f maybeCrash_no_faults bind_act_ret_left bind_act_ret_right
      recordHubLandingTaskClosed_def
    by (rule runs_bind [OF tell], rule runs_bind [OF writable_append [OF ok(4)]], rule runs_bind_ret [OF ship])
  show ?thesis
    unfolding adopt_transaction_def V f Let_def
    by (rule runs_bind_gets, rule runs_bind [OF open_it], rule runs_bind [OF bind_it],
        rule runs_bind [OF writable_append [OF ok(2)]], rule runs_bind_gets, rule runs_bind_ret [OF close_it])
qed

theorem only_contained_landings_are_adopted_witness:
  "\<exists>e h'. adoptHubLegacyLandingHistory demo_older (Some demo_policy) [] demo_merged = (Inr [e], h')
     \<and> le_transactionId e = Some ''ltx-t-d'' \<and> le_sourceOid e = Some (demo_oid (CHR ''b''))
     \<and> (\<exists>target \<in> set (resolveTargetOids demo_env (h_git demo_merged) (Some demo_policy)).
          g_is_ancestor demo_git (h_git demo_merged) (demo_oid (CHR ''b'')) target)"
proof -
  let ?b = "demo_oid (CHR ''b'')"
  have E: "rv_hub demo_older = demo_env" "e_git demo_env = demo_git" "lt_id ` set (rv_tasks demo_older) = {''t''}"
    by (simp_all add: demo_older_def demo_adopter_def demo_reconcile_def demo_env_def demo_task_def)
  have "classifyHubLegacyLandingHistory demo_older demo_merged (Some demo_policy) []
      = [acceptLegacy ''t'' AncestryContained True (Some ''feature'') (Some ?b) (Some ?b) None]"
    by code_simp
  moreover have "writable True demo_merged"
    by (simp add: writable_def demo_merged_def demo_hub_def journals_ok_def readHubLandingJournal_def)
  then obtain u h' where "adopt_transaction demo_older ''ltx-t-d'' ''t'' ?b ?b demo_merged = (Inr u, h')"
    using demo_adoption_runs unfolding runs_def by blast
  moreover have "resolveHubLandingTransactionId (rt_sha256 (e_rt demo_env)) ''t'' ?b ?b = ''ltx-t-d''"
    by code_simp
  moreover have "truthy_string (Some ?b)" by (simp add: truthy_string_iff demo_oid_def)
  ultimately obtain e where e: "adoptHubLegacyLandingHistory demo_older (Some demo_policy) [] demo_merged = (Inr [e], h')"
      "le_transactionId e = Some ''ltx-t-d''" "le_sourceOid e = Some ?b"
    by (simp add: adoptHubLegacyLandingHistory_def adoptContainedTask_def acceptLegacy_def E Let_def
        bind_act_def gets_act_def ret_act_def truthy_string_iff)
  from only_contained_landings_are_adopted [OF e(1)] e(2,3) e show ?thesis by (auto simp: E coalesce_def)
qed

end
