(* ===== verification/Blocker_Resolution.thy ===== *)
theory Blocker_Resolution
  imports Hub_Prelude
begin

text \<open>
  The blockers that the description of a task declares (\<open>src/src/hubBlockerResolution.ts\<close>): the section
  under the heading \<open>Blocked by\<close>, and the references in it. Each regular expression is the function that
  finds its leftmost match; the letters are compared as the flag \<open>i\<close> compares ASCII letters.
\<close>

subsection \<open>Characters and matches\<close>

definition digit :: "char \<Rightarrow> bool" where
  "digit c \<longleftrightarrow> (let n = (of_char c :: nat) in 48 \<le> n \<and> n \<le> 57)"

definition letter :: "char \<Rightarrow> bool" where
  "letter c \<longleftrightarrow> (let n = (of_char c :: nat) in 65 \<le> n \<and> n \<le> 90 \<or> 97 \<le> n \<and> n \<le> 122)"

text \<open>\<open>\w\<close>, and \<open>\b\<close> after a word character\<close>

definition word_char :: "char \<Rightarrow> bool" where
  "word_char c \<longleftrightarrow> letter c \<or> digit c \<or> c = CHR ''_''"

definition word_ends :: "string \<Rightarrow> bool" where
  "word_ends s \<longleftrightarrow> (case s of [] \<Rightarrow> True | c # cs \<Rightarrow> \<not> word_char c)"

abbreviation newline :: char where
  "newline \<equiv> CHR 0x0A"

abbreviation carriage_return :: char where
  "carriage_return \<equiv> CHR 0x0D"

text \<open>A literal text at the start of a string, and what follows it.\<close>

definition strip_word :: "string \<Rightarrow> string \<Rightarrow> string option" where
  "strip_word p s = (if startsWith (toLowerCase s) p then Some (drop (length p) s) else None)"

text \<open>A match that begins at the start of the string or after a line feed: the leftmost one.\<close>

fun after_newline :: "(string \<Rightarrow> 'a option) \<Rightarrow> string \<Rightarrow> 'a option" where
  "after_newline f [] = None"
| "after_newline f (c # cs) =
     (if c = newline then (case f cs of Some x \<Rightarrow> Some x | None \<Rightarrow> after_newline f cs)
      else after_newline f cs)"

definition at_line :: "(string \<Rightarrow> 'a option) \<Rightarrow> string \<Rightarrow> 'a option" where
  "at_line f s = (case f s of Some x \<Rightarrow> Some x | None \<Rightarrow> after_newline f s)"

fun dedupe_onto :: "string list \<Rightarrow> string list \<Rightarrow> string list" where
  "dedupe_onto out [] = out"
| "dedupe_onto out (r # rs) = dedupe_onto (if r \<in> set out then out else out @ [r]) rs"

definition dedupeRefs :: "string list \<Rightarrow> string list" where
  "dedupeRefs refs = dedupe_onto [] refs"


subsection \<open>The section\<close>

text \<open>One to three hash marks, and what follows them; four are no heading.\<close>

definition hashes :: "string \<Rightarrow> string option" where
  "hashes s =
    (let n = length (takeWhile (\<lambda>c. c = CHR ''#'') s) in
     if 1 \<le> n \<and> n \<le> 3 then Some (drop n s) else None)"

text \<open>The lookahead \<open>\n#{1,3}\s\<close>\<close>

definition heading_follows :: "string \<Rightarrow> bool" where
  "heading_follows s \<longleftrightarrow>
     (case s of
        [] \<Rightarrow> False
      | c # cs \<Rightarrow> c = newline \<and>
          (case hashes cs of Some (d # ds) \<Rightarrow> js_space d | _ \<Rightarrow> False))"

fun until_heading :: "string \<Rightarrow> string" where
  "until_heading [] = []"
| "until_heading (c # cs) = (if heading_follows (c # cs) then [] else c # until_heading cs)"

text \<open>\<open>BLOCKED_BY_SECTION\<close>, after its \<open>(?:^|\n)\<close>: the two groups, joined by a line feed.\<close>

definition section_here :: "string \<Rightarrow> string option" where
  "section_here s =
     (case hashes s of
        None \<Rightarrow> None
      | Some rest \<Rightarrow>
          (case strip_word ''blocked by'' (dropWhile js_space rest) of
             None \<Rightarrow> None
           | Some t \<Rightarrow>
               if \<not> word_ends t then None
               else (case dropWhile (\<lambda>c. c \<noteq> newline) t of
                  [] \<Rightarrow> Some t
                | n # body \<Rightarrow> Some (takeWhile (\<lambda>c. c \<noteq> newline) t @ newline # until_heading body))))"

text \<open>\<open>INLINE_BLOCKED_BY\<close>, after its \<open>(?:^|\n)\<close>; white space alone gives back one character.\<close>

definition inline_here :: "string \<Rightarrow> string option" where
  "inline_here s =
     (case strip_word ''blocked by:'' s of
        None \<Rightarrow> None
      | Some t \<Rightarrow>
          (case dropWhile js_space t of
             [] \<Rightarrow> (case filter (\<lambda>c. c \<noteq> newline) (rev t) of [] \<Rightarrow> None | c # cs \<Rightarrow> Some [c])
           | rest \<Rightarrow> Some (takeWhile (\<lambda>c. c \<noteq> newline) rest)))"

definition extractBlockedBySection :: "string \<Rightarrow> string" where
  "extractBlockedBySection body =
     (case at_line section_here body of
        Some s \<Rightarrow> s
      | None \<Rightarrow> (case at_line inline_here body of Some s \<Rightarrow> s | None \<Rightarrow> []))"

text \<open>\<open>replace(/^-\s+/gm, "")\<close>: the flag says whether the position is at the start of a line.\<close>

function strip_bullets :: "bool \<Rightarrow> string \<Rightarrow> string" where
  "strip_bullets b [] = []"
| "strip_bullets b (c # cs) =
     (if b \<and> c = CHR ''-'' \<and> takeWhile js_space cs \<noteq> []
      then strip_bullets (last (takeWhile js_space cs) \<in> {newline, carriage_return}) (dropWhile js_space cs)
      else c # strip_bullets (c \<in> {newline, carriage_return}) cs)"
  by pat_completeness auto

termination strip_bullets
  by (relation "measure (length \<circ> snd)") (auto simp: le_imp_less_Suc length_dropWhile_le)

text \<open>\<open>replace(/\s+/g, " ")\<close>\<close>

fun collapse_space :: "bool \<Rightarrow> string \<Rightarrow> string" where
  "collapse_space b [] = []"
| "collapse_space b (c # cs) =
     (if js_space c then (if b then collapse_space True cs else CHR '' '' # collapse_space True cs)
      else c # collapse_space False cs)"

definition NONE_MARKERS :: "string list" where
  "NONE_MARKERS = [''none'', ''nothing'', ''n/a'', ''not applicable'', ''can start immediately'']"

definition sectionDeclaresNoBlockers :: "string \<Rightarrow> bool" where
  "sectionDeclaresNoBlockers s =
    (let t = js_trim s in
     if t = [] then True
     else
       (let normalized = js_trim (collapse_space False (strip_bullets True t))
        in list_ex (\<lambda>m. case strip_word m normalized of None \<Rightarrow> False | Some rest \<Rightarrow> word_ends rest) NONE_MARKERS
           \<and> CHR ''#'' \<notin> set normalized))"


subsection \<open>References\<close>

text \<open>\<open>(?:github#|#|issues\/)(\d+)\b\<close>: the digits, and what follows them.\<close>

definition digits_here :: "string \<Rightarrow> (string \<times> string) option" where
  "digits_here s =
    (let ds = takeWhile digit s; rest = dropWhile digit s in
     if ds \<noteq> [] \<and> word_ends rest then Some (ds, rest) else None)"

definition issue_here :: "string \<Rightarrow> (string \<times> string) option" where
  "issue_here s =
     (case strip_word ''github#'' s of
        Some t \<Rightarrow> digits_here t
      | None \<Rightarrow>
          (case strip_word ''#'' s of
             Some t \<Rightarrow> digits_here t
           | None \<Rightarrow> Option.bind (strip_word ''issues/'' s) digits_here))"

text \<open>
  \<open>GITHUB_ISSUE_REF\<close>: its matches, and the text that is left when they are removed. A match begins at the
  start of the line or with a character that is no word character, which belongs to it.
\<close>

definition issue_match :: "bool \<Rightarrow> string \<Rightarrow> (string \<times> string) option" where
  "issue_match start s =
     (case (if start then issue_here s else None) of
        Some m \<Rightarrow> Some m
      | None \<Rightarrow> (case s of [] \<Rightarrow> None | c # cs \<Rightarrow> if word_char c then None else issue_here cs))"

lemma digits_here_length: "digits_here s = Some (ds, rest) \<Longrightarrow> length rest \<le> length s"
  by (auto simp: digits_here_def Let_def length_dropWhile_le split: if_split_asm)

lemma strip_word_length: "strip_word p s = Some t \<Longrightarrow> p \<noteq> [] \<Longrightarrow> length t < length s"
proof -
  assume hit: "strip_word p s = Some t" and some: "p \<noteq> []"
  have t: "t = drop (length p) s" and pre: "startsWith (toLowerCase s) p"
    using hit by (auto simp: strip_word_def split: if_split_asm)
  have "length p \<le> length s"
    using arg_cong [of _ _ length, OF pre [unfolded startsWith_def]]
    by (simp add: toLowerCase_def min_def split: if_split_asm)
  with some t show "length t < length s" by (cases p) auto
qed

lemma issue_here_length: "issue_here s = Some (ds, rest) \<Longrightarrow> length rest < length s"
  using strip_word_length [of "''github#''" s] strip_word_length [of "''#''" s]
    strip_word_length [of "''issues/''" s]
  by (auto simp: issue_here_def split: option.splits bind_splits dest!: digits_here_length)

lemma issue_match_length: "issue_match start s = Some (ds, rest) \<Longrightarrow> length rest < length s"
  by (auto simp: issue_match_def split: option.splits if_split_asm list.splits dest!: issue_here_length)

function issue_scan :: "bool \<Rightarrow> string \<Rightarrow> string list \<times> string" where
  "issue_scan start s =
     (case issue_match start s of
        Some (ds, rest) \<Rightarrow> (let (refs, kept) = issue_scan False rest in (ds # refs, kept))
      | None \<Rightarrow>
          (case s of
             [] \<Rightarrow> ([], [])
           | c # cs \<Rightarrow> (let (refs, kept) = issue_scan False cs in (refs, c # kept))))"
  by pat_completeness auto

termination issue_scan
  by (relation "measure (length \<circ> snd)") (auto dest: issue_match_length)

declare issue_scan.simps [simp del]

text \<open>The text of \<open>Number.parseInt(digits, 10)\<close>, for numbers a double represents exactly.\<close>

definition issue_number :: "string \<Rightarrow> string" where
  "issue_number ds = (case dropWhile (\<lambda>c. c = CHR ''0'') ds of [] \<Rightarrow> ''0'' | n \<Rightarrow> n)"

text \<open>\<open>BLOCKED_BY_LIST_MARKER\<close>\<close>

definition strip_marker :: "string \<Rightarrow> string" where
  "strip_marker s =
    (let t = dropWhile js_space s in
     case t of
       [] \<Rightarrow> s
     | c # cs \<Rightarrow>
         if c \<in> {CHR ''-'', CHR ''*'', CHR ''+''} then dropWhile js_space cs
         else
           (case dropWhile digit t of
              d # ds \<Rightarrow> if digit c \<and> d \<in> {CHR ''.'', CHR '')''} then dropWhile js_space ds else s
            | [] \<Rightarrow> s))"

definition strip_blocked_by :: "string \<Rightarrow> string" where
  "strip_blocked_by s =
     (case strip_word ''blocked by'' s of
        None \<Rightarrow> s
      | Some t \<Rightarrow> dropWhile js_space (case t of c # cs \<Rightarrow> if c = CHR '':'' then cs else t | [] \<Rightarrow> []))"

text \<open>
  \<open>split(/(?:,|&|\band\b)/i)\<close>: the flag says whether the character before is a word character.
\<close>

function split_list_words :: "bool \<Rightarrow> string \<Rightarrow> string list" where
  "split_list_words w [] = [[]]"
| "split_list_words w (c # cs) =
     (if c \<in> {CHR '','', CHR ''&''} then [] # split_list_words False cs
      else if \<not> w \<and> (case strip_word ''and'' (c # cs) of None \<Rightarrow> False | Some rest \<Rightarrow> word_ends rest)
      then [] # split_list_words True (drop 2 cs)
      else (case split_list_words (word_char c) cs of [] \<Rightarrow> [[c]] | l # ls \<Rightarrow> (c # l) # ls))"
  by pat_completeness auto

termination split_list_words
  by (relation "measure (length \<circ> snd)") auto

text \<open>\<open>/^[A-Za-z][\w.-]+$/\<close>\<close>

definition id_char :: "char \<Rightarrow> bool" where
  "id_char c \<longleftrightarrow> word_char c \<or> c = CHR ''.'' \<or> c = CHR ''-''"

definition task_reference :: "string \<Rightarrow> bool" where
  "task_reference s \<longleftrightarrow> (case s of c # d # cs \<Rightarrow> letter c \<and> list_all id_char (d # cs) | _ \<Rightarrow> False)"

text \<open>\<open>split(/\r?\n/)\<close>: every line but the last loses a carriage return at its end.\<close>

fun text_lines :: "string list \<Rightarrow> string list" where
  "text_lines [] = []"
| "text_lines [l] = [l]"
| "text_lines (l # m # ls) =
     (if l \<noteq> [] \<and> last l = carriage_return then butlast l else l) # text_lines (m # ls)"

definition line_references :: "string \<Rightarrow> string list" where
  "line_references raw =
    (let line = js_trim (strip_marker raw) in
     if line = [] then []
     else
       (let (issues, kept) = issue_scan True line;
            candidates = filter (\<lambda>c. c \<noteq> [])
              (map js_trim (split_list_words False (strip_blocked_by kept)))
        in map (\<lambda>ds. ''github#'' @ issue_number ds) issues @ filter task_reference candidates))"

definition parseDeclaredHubBlockers :: "string \<Rightarrow> string list" where
  "parseDeclaredHubBlockers body =
    (let s = extractBlockedBySection body in
     if s = [] then []
     else if sectionDeclaresNoBlockers s then []
     else dedupeRefs (concat (map line_references (text_lines (split_on newline s)))))"

text \<open>
  \<open>BEADS_ID_REF\<close>: the matches of \<open>^-\s+(id)\s*$\<close> in all lines. The white space after an id has to reach the
  end of a line or of the text, and the next match may begin after the last line end in it.
\<close>

definition line_end :: "char \<Rightarrow> bool" where
  "line_end c \<longleftrightarrow> c = newline \<or> c = carriage_return"

definition bullet_here :: "string \<Rightarrow> (string \<times> string \<times> string) option" where
  "bullet_here s =
     (case s of
        [] \<Rightarrow> None
      | c # cs \<Rightarrow>
          (let t = dropWhile js_space cs; i = takeWhile id_char t; u = dropWhile id_char t;
               gap = takeWhile js_space u; rest = dropWhile js_space u
           in if c = CHR ''-'' \<and> takeWhile js_space cs \<noteq> [] \<and> task_reference i
                 \<and> (rest = [] \<or> list_ex line_end gap)
              then Some (i, gap, rest) else None))"

lemma bullet_here_length: "bullet_here s = Some (i, gap, rest) \<Longrightarrow> length rest < length s"
  by (auto simp: bullet_here_def Let_def less_Suc_eq_le split: list.splits if_split_asm
      intro: order_trans [OF length_dropWhile_le] order_trans [OF length_dropWhile_le order_trans [OF length_dropWhile_le length_dropWhile_le]])

function bullet_ids :: "bool \<Rightarrow> string \<Rightarrow> string list" where
  "bullet_ids b s =
     (case (if b then bullet_here s else None) of
        Some (i, gap, rest) \<Rightarrow> i # bullet_ids (gap \<noteq> [] \<and> line_end (last gap)) rest
      | None \<Rightarrow> (case s of [] \<Rightarrow> [] | c # cs \<Rightarrow> bullet_ids (line_end c) cs))"
  by pat_completeness auto

termination bullet_ids
  by (relation "measure (length \<circ> snd)") (auto dest: bullet_here_length split: if_split_asm)

declare bullet_ids.simps [simp del]

definition parseBeadsBlockerIds :: "string \<Rightarrow> string list" where
  "parseBeadsBlockerIds s = (if sectionDeclaresNoBlockers s then [] else dedupeRefs (bullet_ids True s))"

definition parseDeclaredBeadsBlockers :: "string \<Rightarrow> string list" where
  "parseDeclaredBeadsBlockers body =
    (let s = extractBlockedBySection body in if s = [] then [] else parseBeadsBlockerIds s)"

end
