(* ===== verification/Batch_Candidates.thy ===== *)
theory Batch_Candidates
  imports Blocker_Resolution Task_Board
begin

text \<open>
  The candidates that the batch planner is shown (\<open>src/src/hubBatchPlannerCandidates.ts\<close>): each task with the
  blockers that the task store, its metadata or its description declare, resolved on the task board. The
  output of \<open>bd dep list\<close> and \<open>JSON.parse\<close> are parameters. Task ids are not names of properties of
  \<open>Object.prototype\<close>, which the table of dependencies would find.
\<close>

datatype HubBatchPlannerBlockerSource = BeadsDependency | DescriptionSource | NoBlockerSource

record HubBatchPlannerResolvedBlocker =
  rb_ref :: string
  rb_taskId :: task_id
  rb_title :: string
  rb_hubStatus :: HubTaskStatus
  rb_claimState :: "claim_state option"

record HubBatchPlannerCandidate =
  bc_id :: task_id
  bc_title :: string
  bc_description :: "string option"
  bc_priority :: "json option"
  bc_labels :: "string list"
  bc_hubStatus :: HubTaskStatus
  bc_claimState :: "claim_state option"
  bc_metadata :: "(string \<times> json) list"
  bc_remoteRefs :: "string list"
  bc_parentPrdRef :: "string option"
  bc_explicitBlockers :: "string list"
  bc_blockersDeclared :: "string list"
  bc_blockersResolved :: "HubBatchPlannerResolvedBlocker list"
  bc_openBlockers :: "string list"
  bc_unknownBlockers :: "string list"
  bc_blockerSource :: HubBatchPlannerBlockerSource

text \<open>What the planning runs with: the task store, what \<open>bd dep list\<close> prints, and \<open>JSON.parse\<close>.\<close>

record 's planning_env =
  pl_tasks :: "'s tb_env"
  pl_state :: "'s tb_state"
  pl_depList :: "task_id list \<Rightarrow> string option"
  pl_parse :: "string \<Rightarrow> json option"


subsection \<open>Blockers of the task store\<close>

definition BLOCKER_ENTRY_KEYS :: "string list" where
  "BLOCKER_ENTRY_KEYS =
     [''id'', ''issue_id'', ''issueId'', ''depends_on_id'', ''dependsOnId'', ''blocker_id'', ''blockerId'',
      ''ref'']"

fun blocker_entry :: "json \<Rightarrow> string option" where
  "blocker_entry (JStr s) = (if nonblank s then Some (js_trim s) else None)"
| "blocker_entry (JObj kvs) = readFirstString kvs BLOCKER_ENTRY_KEYS"
| "blocker_entry _ = None"

definition readDependencyIds :: "(string \<times> json) list \<Rightarrow> string list \<Rightarrow> string list" where
  "readDependencyIds metadata keys =
     (case first_array metadata keys of None \<Rightarrow> [] | Some vs \<Rightarrow> List.map_filter blocker_entry vs)"

definition readMetadataBlockers :: "(string \<times> json) list \<Rightarrow> string list" where
  "readMetadataBlockers metadata = readDependencyIds metadata [''blockers'', ''blocked_by'', ''blockedBy'']"

definition tryLoadHubTaskBoard :: "'s planning_env \<Rightarrow> HubTaskBoard option" where
  "tryLoadHubTaskBoard E =
     (case fst (loadHubTaskBoard (pl_tasks E) (pl_state E)) of Inl e \<Rightarrow> None | Inr board \<Rightarrow> Some board)"

text \<open>\<open>parseBdJsonOutput\<close>: \<open>None\<close> is the exception of \<open>JSON.parse\<close>.\<close>

definition dependency_rows :: "(string \<Rightarrow> json option) \<Rightarrow> string \<Rightarrow> json list option" where
  "dependency_rows parse out =
     (if js_trim out = [] then Some []
      else map_option (\<lambda>v. case v of JArr vs \<Rightarrow> vs | _ \<Rightarrow> [v]) (parse (js_trim out)))"

fun add_dependency :: "(task_id \<rightharpoonup> string list) \<Rightarrow> json \<Rightarrow> (task_id \<rightharpoonup> string list)" where
  "add_dependency blockers (JObj row) =
     (case (readFirstString row [''issue_id'', ''issueId'', ''dependent_id'', ''dependentId'', ''id''],
            readFirstString row [''depends_on_id'', ''dependsOnId'', ''blocker_id'', ''blockerId'', ''blocks'']) of
        (Some dependent_id, Some blocker) \<Rightarrow>
          blockers(dependent_id \<mapsto>
            uniqueStrings ((case blockers dependent_id of None \<Rightarrow> [] | Some bs \<Rightarrow> bs) @ [blocker]))
      | _ \<Rightarrow> blockers)"
| "add_dependency blockers _ = blockers"

definition tryLoadBeadsDependencyBlockers ::
    "'s planning_env \<Rightarrow> task_id list \<Rightarrow> (task_id \<rightharpoonup> string list)" where
  "tryLoadBeadsDependencyBlockers E ids =
     (if ids = [] then Map.empty
      else (case Option.bind (pl_depList E ids) (dependency_rows (pl_parse E)) of
              None \<Rightarrow> Map.empty
            | Some rows \<Rightarrow> foldl add_dependency Map.empty rows))"


subsection \<open>The other fields\<close>

definition readParentPrdRef :: "(string \<times> json) list \<Rightarrow> string list \<Rightarrow> string option" where
  "readParentPrdRef metadata remoteRefs =
     coalesce (readFirstString metadata
         [''parent_prd'', ''parentPrd'', ''parent'', ''github_issue'', ''githubIssue''])
       (find (\<lambda>r. startsWith r ''github#'') remoteRefs)"

definition readPriority :: "(string \<times> json) list \<Rightarrow> json option" where
  "readPriority metadata =
     (case first_value metadata [''priority'', ''Priority''] of
        Some (JNum q) \<Rightarrow> Some (JNum q) | Some (JStr s) \<Rightarrow> Some (JStr s) | _ \<Rightarrow> None)"

definition resolveBlockerSource ::
    "string list \<Rightarrow> string list \<Rightarrow> string list \<Rightarrow> HubBatchPlannerBlockerSource" where
  "resolveBlockerSource beads metadataBlockers declared =
     (if beads \<noteq> [] \<or> metadataBlockers \<noteq> [] then BeadsDependency
      else if declared \<noteq> [] then DescriptionSource
      else NoBlockerSource)"


subsection \<open>Resolution on the board\<close>

record HubTaskBlockerIndexes =
  ix_byId :: "task_id \<rightharpoonup> HubTaskProjection"
  ix_byRemoteRef :: "string \<rightharpoonup> HubTaskProjection"

text \<open>The last task of an id, and the first task of a remote reference.\<close>

definition index_task :: "HubTaskBlockerIndexes \<Rightarrow> HubTaskProjection \<Rightarrow> HubTaskBlockerIndexes" where
  "index_task ix t =
     \<lparr>ix_byId = (ix_byId ix)(tp_id t \<mapsto> t),
      ix_byRemoteRef = foldl (\<lambda>m r. if m r = None then m(r \<mapsto> t) else m) (ix_byRemoteRef ix) (tp_remoteRefs t)\<rparr>"

definition buildHubTaskIndexes :: "HubTaskBoard \<Rightarrow> HubTaskBlockerIndexes" where
  "buildHubTaskIndexes board =
     foldl index_task \<lparr>ix_byId = Map.empty, ix_byRemoteRef = Map.empty\<rparr> (bo_tasks board)"

definition resolveDeclaredBlocker :: "HubTaskBlockerIndexes \<Rightarrow> string \<Rightarrow> HubTaskProjection option" where
  "resolveDeclaredBlocker ix r =
     (if startsWith r ''github#'' then ix_byRemoteRef ix r else ix_byId ix r)"

record blocker_resolution =
  br_resolved :: "HubBatchPlannerResolvedBlocker list"
  br_open :: "string list"
  br_unknown :: "string list"

definition resolve_blocker :: "HubTaskBlockerIndexes \<Rightarrow> blocker_resolution \<Rightarrow> string \<Rightarrow> blocker_resolution" where
  "resolve_blocker ix acc r =
     (case resolveDeclaredBlocker ix r of
        None \<Rightarrow> acc\<lparr>br_unknown := br_unknown acc @ [r]\<rparr>
      | Some t \<Rightarrow> acc
          \<lparr>br_resolved := br_resolved acc @
             [\<lparr>rb_ref = r, rb_taskId = tp_id t, rb_title = tp_title t, rb_hubStatus = tp_hubStatus t,
               rb_claimState = tp_claimState t\<rparr>],
           br_open := br_open acc @ (if isCompletedHubStatus (tp_hubStatus t) then [] else [r])\<rparr>)"

definition resolveDeclaredBlockers ::
    "string list \<Rightarrow> HubTaskBlockerIndexes option \<Rightarrow> blocker_resolution" where
  "resolveDeclaredBlockers declared indexes =
     (case indexes of
        None \<Rightarrow> \<lparr>br_resolved = [], br_open = [], br_unknown = declared\<rparr>
      | Some ix \<Rightarrow>
          (let acc = foldl (resolve_blocker ix) \<lparr>br_resolved = [], br_open = [], br_unknown = []\<rparr> declared
           in acc\<lparr>br_open := uniqueStrings (br_open acc), br_unknown := uniqueStrings (br_unknown acc)\<rparr>))"

definition enrichHubBatchPlannerCandidate ::
    "HubTaskProjection \<Rightarrow> string list option \<Rightarrow> HubTaskBlockerIndexes option \<Rightarrow> HubBatchPlannerCandidate" where
  "enrichHubBatchPlannerCandidate task beadsBlockers indexes =
    (let metadataBlockers = readMetadataBlockers (tp_metadata task);
         beads = (case beadsBlockers of None \<Rightarrow> [] | Some bs \<Rightarrow> bs);
         explicit = (if beads \<noteq> [] then beads else metadataBlockers);
         declared = (if explicit \<noteq> [] then explicit
           else parseDeclaredHubBlockers (case tp_description task of None \<Rightarrow> [] | Some d \<Rightarrow> d));
         resolution = resolveDeclaredBlockers declared indexes
     in \<lparr>bc_id = tp_id task, bc_title = tp_title task, bc_description = tp_description task,
         bc_priority = readPriority (tp_metadata task), bc_labels = tp_labels task,
         bc_hubStatus = tp_hubStatus task, bc_claimState = tp_claimState task,
         bc_metadata = tp_metadata task, bc_remoteRefs = tp_remoteRefs task,
         bc_parentPrdRef = readParentPrdRef (tp_metadata task) (tp_remoteRefs task),
         bc_explicitBlockers = explicit, bc_blockersDeclared = declared,
         bc_blockersResolved = br_resolved resolution, bc_openBlockers = br_open resolution,
         bc_unknownBlockers = br_unknown resolution,
         bc_blockerSource = resolveBlockerSource beads metadataBlockers declared\<rparr>)"

definition enrichHubBatchPlannerCandidates ::
    "'s planning_env \<Rightarrow> HubTaskProjection list \<Rightarrow> HubBatchPlannerCandidate list" where
  "enrichHubBatchPlannerCandidates E candidates =
    (let beads = tryLoadBeadsDependencyBlockers E (map tp_id candidates);
         indexes = map_option buildHubTaskIndexes (tryLoadHubTaskBoard E)
     in map (\<lambda>t. enrichHubBatchPlannerCandidate t (beads (tp_id t)) indexes) candidates)"


subsection \<open>The text of the prompt\<close>

fun claim_state_name :: "claim_state \<Rightarrow> string" where
  "claim_state_name ClaimActive = ''active''"
| "claim_state_name ClaimStale = ''stale''"

definition jstr_list :: "string list \<Rightarrow> json" where
  "jstr_list ss = JArr (map JStr ss)"

definition resolved_blocker_json :: "HubBatchPlannerResolvedBlocker \<Rightarrow> json" where
  "resolved_blocker_json b = JObj (defined_fields
     [(''ref'', Some (JStr (rb_ref b))), (''taskId'', Some (JStr (rb_taskId b))),
      (''title'', Some (JStr (rb_title b))), (''hubStatus'', Some (JStr (hub_status_name (rb_hubStatus b)))),
      (''claimState'', map_option (\<lambda>c. JStr (claim_state_name c)) (rb_claimState b))])"

definition toHubBatchPlannerPromptCandidate :: "HubBatchPlannerCandidate \<Rightarrow> json" where
  "toHubBatchPlannerPromptCandidate c = JObj (defined_fields
     [(''id'', Some (JStr (bc_id c))), (''title'', Some (JStr (bc_title c))), (''priority'', bc_priority c),
      (''labels'', Some (jstr_list (bc_labels c))),
      (''hubStatus'', Some (JStr (hub_status_name (bc_hubStatus c)))),
      (''claimState'', map_option (\<lambda>s. JStr (claim_state_name s)) (bc_claimState c)),
      (''metadata'', Some (JObj (bc_metadata c))), (''remoteRefs'', Some (jstr_list (bc_remoteRefs c))),
      (''parentPrdRef'', jstr_opt (bc_parentPrdRef c)),
      (''explicitBlockers'', Some (jstr_list (bc_explicitBlockers c))),
      (''blockersResolved'', Some (JArr (map resolved_blocker_json (bc_blockersResolved c)))),
      (''openBlockers'', Some (jstr_list (bc_openBlockers c))),
      (''unknownBlockers'', Some (jstr_list (bc_unknownBlockers c)))])"

text \<open>The value that \<open>JSON.stringify\<close> prints.\<close>

definition serializeHubBatchPlannerCandidates :: "HubBatchPlannerCandidate list \<Rightarrow> json" where
  "serializeHubBatchPlannerCandidates cs = JArr (map toHubBatchPlannerPromptCandidate cs)"


subsection \<open>What a resolution says\<close>

lemma set_uniqueStrings [simp]: "set (uniqueStrings xs) = set xs"
  by (induction xs) auto

lemma uniqueStrings_empty [simp]: "uniqueStrings xs = [] \<longleftrightarrow> xs = []"
  by (cases xs) auto

lemma resolve_blockers_fold:
  "br_resolved (foldl (resolve_blocker ix) acc rs) = br_resolved acc @
     List.map_filter (\<lambda>r. map_option (\<lambda>t. \<lparr>rb_ref = r, rb_taskId = tp_id t, rb_title = tp_title t,
       rb_hubStatus = tp_hubStatus t, rb_claimState = tp_claimState t\<rparr>) (resolveDeclaredBlocker ix r)) rs
   \<and> br_unknown (foldl (resolve_blocker ix) acc rs) = br_unknown acc
       @ filter (\<lambda>r. resolveDeclaredBlocker ix r = None) rs
   \<and> br_open (foldl (resolve_blocker ix) acc rs) = br_open acc
       @ filter (\<lambda>r. case resolveDeclaredBlocker ix r of None \<Rightarrow> False
           | Some t \<Rightarrow> \<not> isCompletedHubStatus (tp_hubStatus t)) rs"
  by (induction rs arbitrary: acc)
    (simp_all add: resolve_blocker_def List.map_filter_simps split: option.splits)

text \<open>Nothing open and nothing unknown: every declared blocker is a completed task of the board.\<close>

lemma unblocked_resolution:
  assumes "br_open (resolveDeclaredBlockers rs indexes) = []"
    and "br_unknown (resolveDeclaredBlockers rs indexes) = []"
    and "r \<in> set rs"
  shows "\<exists>ix t. indexes = Some ix \<and> resolveDeclaredBlocker ix r = Some t \<and> isCompletedHubStatus (tp_hubStatus t)"
proof (cases indexes)
  case None
  with assms show ?thesis by (simp add: resolveDeclaredBlockers_def)
next
  case (Some ix)
  from assms show ?thesis
    by (auto simp: resolveDeclaredBlockers_def Let_def Some resolve_blockers_fold filter_empty_conv
        split: option.splits)
qed

end
