(* ===== verification/Batch_Planner.thy ===== *)
theory Batch_Planner
  imports Batch_Candidates
begin

text \<open>
  The choice of the tasks of a batch (\<open>src/src/hubBatchPlanner.ts\<close>): the options, the three strategies, the
  plan that the planning agent prints, its validation, and the second look at the selection before the tasks
  are claimed. The planning agent is a parameter. Limits are natural numbers; \<open>None\<close> is the limit
  \<open>Number.POSITIVE_INFINITY\<close>.
\<close>

subsection \<open>Options\<close>

definition HUB_BATCH_DEFAULT_MAX_TASKS :: nat where
  "HUB_BATCH_DEFAULT_MAX_TASKS = 3"

definition HUB_BATCH_MIN_MAX_TASKS :: nat where
  "HUB_BATCH_MIN_MAX_TASKS = 1"

definition HUB_BATCH_MAX_TASKS_UPPER_LIMIT :: nat where
  "HUB_BATCH_MAX_TASKS_UPPER_LIMIT = 10"

datatype HubBatchStrategy = Planned | Limited | Conservative

fun strategy_name :: "HubBatchStrategy \<Rightarrow> string" where
  "strategy_name Planned = ''planned''"
| "strategy_name Limited = ''limited''"
| "strategy_name Conservative = ''conservative''"

definition HUB_BATCH_STRATEGIES :: "HubBatchStrategy list" where
  "HUB_BATCH_STRATEGIES = [Planned, Limited, Conservative]"

definition HUB_BATCH_DEFAULT_STRATEGY :: HubBatchStrategy where
  "HUB_BATCH_DEFAULT_STRATEGY = Planned"

datatype HubBatchDeferredReason =
    ExplicitBlocker | SelectedApiShapeDependency | SameCoreModule | DocsOrQaForSelectedBehavior
  | DesignDecisionDependency | DeferredOverMaxTasks | LowerPriority

fun deferred_reason_name :: "HubBatchDeferredReason \<Rightarrow> string" where
  "deferred_reason_name ExplicitBlocker = ''explicit_blocker''"
| "deferred_reason_name SelectedApiShapeDependency = ''selected_api_shape_dependency''"
| "deferred_reason_name SameCoreModule = ''same_core_module''"
| "deferred_reason_name DocsOrQaForSelectedBehavior = ''docs_or_qa_for_selected_behavior''"
| "deferred_reason_name DesignDecisionDependency = ''design_decision_dependency''"
| "deferred_reason_name DeferredOverMaxTasks = ''over_max_tasks''"
| "deferred_reason_name LowerPriority = ''lower_priority''"

definition HUB_BATCH_DEFERRED_REASONS :: "HubBatchDeferredReason list" where
  "HUB_BATCH_DEFERRED_REASONS =
     [ExplicitBlocker, SelectedApiShapeDependency, SameCoreModule, DocsOrQaForSelectedBehavior,
      DesignDecisionDependency, DeferredOverMaxTasks, LowerPriority]"

datatype HubBatchFallbackReason =
    PlannerUnavailable | PlannerFailed | MalformedOutput | InvalidTaskIds | DuplicateTaskIds
  | PlanOverMaxTasks

fun fallback_reason_name :: "HubBatchFallbackReason \<Rightarrow> string" where
  "fallback_reason_name PlannerUnavailable = ''planner_unavailable''"
| "fallback_reason_name PlannerFailed = ''planner_failed''"
| "fallback_reason_name MalformedOutput = ''malformed_output''"
| "fallback_reason_name InvalidTaskIds = ''invalid_task_ids''"
| "fallback_reason_name DuplicateTaskIds = ''duplicate_task_ids''"
| "fallback_reason_name PlanOverMaxTasks = ''over_max_tasks''"

datatype HubBatchDiagnosticReason = InvalidExplicitBlockerDeferral

datatype HubBatchSelectionInvalidReason =
    DuplicateSelection | SelectionOverMaxTasks | NotInCandidateSet | NotReadyForAgent | ActiveClaim

fun invalid_reason_name :: "HubBatchSelectionInvalidReason \<Rightarrow> string" where
  "invalid_reason_name DuplicateSelection = ''duplicate_selection''"
| "invalid_reason_name SelectionOverMaxTasks = ''over_max_tasks''"
| "invalid_reason_name NotInCandidateSet = ''not_in_candidate_set''"
| "invalid_reason_name NotReadyForAgent = ''not_ready_for_agent''"
| "invalid_reason_name ActiveClaim = ''active_claim''"

datatype HubFlowKind = TaskBoardFlow | ProposalFlow

text \<open>The errors of the planning; \<open>Aborted\<close> is what \<open>throwIfAborted\<close> throws.\<close>

datatype plan_error =
    EmptyStrategy
  | UnknownStrategy string
  | InvalidMaxTasks string
  | ProposalWithBatchOptions
  | Aborted

definition hasOptionalCliText :: "string option \<Rightarrow> bool" where
  "hasOptionalCliText v \<longleftrightarrow> (case v of None \<Rightarrow> False | Some s \<Rightarrow> nonblank s)"

definition parseHubBatchStrategyNormalized :: "string \<Rightarrow> string \<Rightarrow> plan_error + HubBatchStrategy" where
  "parseHubBatchStrategyNormalized normalized raw =
     (case find (\<lambda>s. strategy_name s = normalized) HUB_BATCH_STRATEGIES of
        Some s \<Rightarrow> Inr s | None \<Rightarrow> Inl (UnknownStrategy raw))"

definition parseHubBatchStrategy :: "string \<Rightarrow> plan_error + HubBatchStrategy" where
  "parseHubBatchStrategy raw =
    (let normalized = toLowerCase (js_trim raw) in
     if normalized = [] then Inl EmptyStrategy else parseHubBatchStrategyNormalized normalized raw)"

definition parseHubBatchMaxTasks :: "string \<Rightarrow> plan_error + nat" where
  "parseHubBatchMaxTasks raw =
    (let trimmed = js_trim raw in
     if \<not> decimal trimmed then Inl (InvalidMaxTasks raw)
     else
       (let parsed = read_nat 0 trimmed in
        if parsed < HUB_BATCH_MIN_MAX_TASKS \<or> parsed > HUB_BATCH_MAX_TASKS_UPPER_LIMIT
        then Inl (InvalidMaxTasks raw) else Inr parsed))"

record ResolvedHubBatchSelectionOptions =
  so_batchStrategy :: "HubBatchStrategy option"
  so_maxTasks :: "nat option"

definition resolveHubBatchSelectionOptions ::
    "HubFlowKind \<Rightarrow> string option \<Rightarrow> string option \<Rightarrow> plan_error + ResolvedHubBatchSelectionOptions" where
  "resolveHubBatchSelectionOptions kind strategy maxTasks =
     (if kind = ProposalFlow then
        if hasOptionalCliText strategy \<or> hasOptionalCliText maxTasks then Inl ProposalWithBatchOptions
        else Inr \<lparr>so_batchStrategy = None, so_maxTasks = None\<rparr>
      else
        (case (if hasOptionalCliText strategy then parseHubBatchStrategy (the strategy)
               else Inr HUB_BATCH_DEFAULT_STRATEGY) of
           Inl e \<Rightarrow> Inl e
         | Inr s \<Rightarrow>
             (case (if hasOptionalCliText maxTasks then parseHubBatchMaxTasks (the maxTasks)
                    else Inr HUB_BATCH_DEFAULT_MAX_TASKS) of
                Inl e \<Rightarrow> Inl e
              | Inr n \<Rightarrow> Inr \<lparr>so_batchStrategy = Some s, so_maxTasks = Some n\<rparr>)))"

definition resolveEffectiveHubBatchSelection ::
    "HubFlowKind \<Rightarrow> HubBatchStrategy option \<Rightarrow> nat option \<Rightarrow> ResolvedHubBatchSelectionOptions" where
  "resolveEffectiveHubBatchSelection kind strategy maxTasks =
     (if kind \<noteq> TaskBoardFlow then \<lparr>so_batchStrategy = None, so_maxTasks = None\<rparr>
      else \<lparr>so_batchStrategy = coalesce strategy (Some HUB_BATCH_DEFAULT_STRATEGY),
            so_maxTasks = coalesce maxTasks (Some HUB_BATCH_DEFAULT_MAX_TASKS)\<rparr>)"


subsection \<open>The plan that the agent prints\<close>

record HubBatchDeferredTask =
  df_taskId :: task_id
  df_reason :: HubBatchDeferredReason

record HubBatchPlannerAgentOutput =
  ao_selectedTaskIds :: "task_id list"
  ao_deferred :: "HubBatchDeferredTask list"
  ao_rationale :: "string option"

fun string_entry :: "json \<Rightarrow> string option" where
  "string_entry (JStr s) = (if nonblank s then Some (js_trim s) else None)"
| "string_entry _ = None"

fun readStringArray :: "json option \<Rightarrow> string list" where
  "readStringArray (Some (JArr vs)) = List.map_filter string_entry vs"
| "readStringArray _ = []"

definition readDeferredTaskId :: "(string \<times> json) list \<Rightarrow> string" where
  "readDeferredTaskId r =
     (case jget r ''taskId'' of
        Some (JStr s) \<Rightarrow> js_trim s
      | _ \<Rightarrow> (case jget r ''task_id'' of Some (JStr s) \<Rightarrow> js_trim s | _ \<Rightarrow> []))"

fun normalizeHubBatchDeferredReason :: "json option \<Rightarrow> HubBatchDeferredReason option" where
  "normalizeHubBatchDeferredReason (Some (JStr s)) =
     find (\<lambda>r. deferred_reason_name r = toLowerCase (js_trim s)) HUB_BATCH_DEFERRED_REASONS"
| "normalizeHubBatchDeferredReason _ = None"

text \<open>\<open>/<batch-plan>([\s\S]*?)<\/batch-plan>/i\<close>: what follows the first tag, up to the first closing tag after it.\<close>

fun after_text :: "string \<Rightarrow> string \<Rightarrow> string option" where
  "after_text p [] = strip_word p []"
| "after_text p (c # cs) = (case strip_word p (c # cs) of Some t \<Rightarrow> Some t | None \<Rightarrow> after_text p cs)"

fun until_text :: "string \<Rightarrow> string \<Rightarrow> string option" where
  "until_text p [] = map_option (\<lambda>_. []) (strip_word p [])"
| "until_text p (c # cs) =
     (if strip_word p (c # cs) \<noteq> None then Some [] else map_option ((#) c) (until_text p cs))"

definition plan_text :: "string \<Rightarrow> string option" where
  "plan_text out =
     Option.bind (after_text ''<batch-plan>'' out) (until_text ''</batch-plan>'')"

definition deferred_entry :: "json \<Rightarrow> HubBatchDeferredTask option" where
  "deferred_entry v =
    (let r = readObject v in
     case normalizeHubBatchDeferredReason (first_value r [''reason'', ''deferredReason'']) of
       Some reason \<Rightarrow>
         if readDeferredTaskId r = [] then None
         else Some \<lparr>df_taskId = readDeferredTaskId r, df_reason = reason\<rparr>
     | None \<Rightarrow> None)"

definition read_plan :: "(string \<times> json) list \<Rightarrow> HubBatchPlannerAgentOutput" where
  "read_plan r =
     \<lparr>ao_selectedTaskIds =
        readStringArray (first_value r [''selectedTaskIds'', ''selected_task_ids'', ''selected'']),
      ao_deferred = (case jget r ''deferred'' of
          Some (JArr vs) \<Rightarrow> List.map_filter deferred_entry vs | _ \<Rightarrow> []),
      ao_rationale = readString r ''rationale''\<rparr>"

definition parseHubBatchPlannerOutput ::
    "(string \<Rightarrow> json option) \<Rightarrow> string \<Rightarrow> HubBatchPlannerAgentOutput option" where
  "parseHubBatchPlannerOutput parse out =
     (case plan_text out of
        None \<Rightarrow> None
      | Some s \<Rightarrow> if s = [] then None else map_option (\<lambda>v. read_plan (readObject v)) (parse s))"

fun selection_issue :: "task_id set \<Rightarrow> task_id list \<Rightarrow> task_id list \<Rightarrow> HubBatchFallbackReason option" where
  "selection_issue eligible seen [] = None"
| "selection_issue eligible seen (t # ts) =
     (if t \<notin> eligible then Some InvalidTaskIds
      else if t \<in> set seen then Some DuplicateTaskIds
      else selection_issue eligible (t # seen) ts)"

definition validateHubBatchPlannerOutput ::
    "HubBatchPlannerAgentOutput \<Rightarrow> task_id set \<Rightarrow> nat \<Rightarrow> HubBatchFallbackReason option" where
  "validateHubBatchPlannerOutput plan eligible maxTasks =
     (case selection_issue eligible [] (ao_selectedTaskIds plan) of
        Some e \<Rightarrow> Some e
      | None \<Rightarrow> if length (ao_selectedTaskIds plan) > maxTasks then Some PlanOverMaxTasks else None)"


subsection \<open>Strategies\<close>

record HubBatchPlannerResult =
  pr_selectedTasks :: "HubTaskProjection list"
  pr_deferredTasks :: "HubBatchDeferredTask list"
  pr_batchStrategyRequested :: HubBatchStrategy
  pr_batchStrategyUsed :: HubBatchStrategy
  pr_maxTasks :: nat
  pr_fallbackReason :: "string option"
  pr_diagnosticReason :: "HubBatchDiagnosticReason option"
  pr_rationale :: "string option"

text \<open>The planning agent: flow id, working directory, run directory, limit and candidates; it may throw.\<close>

type_synonym batch_planner =
  "string \<Rightarrow> string \<Rightarrow> string \<Rightarrow> nat \<Rightarrow> HubBatchPlannerCandidate list \<Rightarrow> string option"

record 's HubBatchPlannerInput =
  pi_env :: "'s planning_env"
  pi_flowId :: "string option"
  pi_cwd :: "string option"
  pi_runDir :: "string option"
  pi_candidates :: "HubTaskProjection list"
  pi_batchStrategy :: HubBatchStrategy
  pi_maxTasks :: nat
  pi_batchPlanner :: "batch_planner option"
  pi_aborted :: bool

definition over_max :: "HubTaskProjection \<Rightarrow> HubBatchDeferredTask" where
  "over_max t = \<lparr>df_taskId = tp_id t, df_reason = DeferredOverMaxTasks\<rparr>"

definition partitionEligibleCandidates ::
    "HubTaskProjection list \<Rightarrow> nat \<Rightarrow> HubTaskProjection list \<times> HubBatchDeferredTask list" where
  "partitionEligibleCandidates candidates n =
    (let eligible = filter isHubFlowEligibleTask candidates
     in (take n eligible, map over_max (drop n eligible)))"

definition buildConservativeBatchResult ::
    "HubTaskProjection list \<Rightarrow> HubBatchStrategy \<Rightarrow> nat \<Rightarrow> string option \<Rightarrow> string option
     \<Rightarrow> HubBatchDeferredTask list \<Rightarrow> HubBatchPlannerResult" where
  "buildConservativeBatchResult candidates requested maxTasks fallback rationale deferredFromPlanner =
    (let eligible = filter isHubFlowEligibleTask candidates;
         selected = take 1 eligible;
         ids = set (map tp_id selected)
     in \<lparr>pr_selectedTasks = selected,
         pr_deferredTasks = filter (\<lambda>d. df_taskId d \<notin> ids) deferredFromPlanner
           @ map over_max (filter (\<lambda>t. tp_id t \<notin> ids) eligible),
         pr_batchStrategyRequested = requested, pr_batchStrategyUsed = Conservative,
         pr_maxTasks = maxTasks, pr_fallbackReason = fallback, pr_diagnosticReason = None,
         pr_rationale = rationale\<rparr>)"

text \<open>\<open>new Map(...)\<close>: the last task of an id.\<close>

definition indexHubTasksById :: "HubTaskProjection list \<Rightarrow> (task_id \<rightharpoonup> HubTaskProjection)" where
  "indexHubTasksById ts = map_of (rev (map (\<lambda>t. (tp_id t, t)) ts))"

definition mapSelectedTasks :: "HubTaskProjection list \<Rightarrow> task_id list \<Rightarrow> HubTaskProjection list" where
  "mapSelectedTasks candidates ids = List.map_filter (indexHubTasksById candidates) ids"

definition collectSelectedTaskBlockerIds :: "HubBatchPlannerCandidate list \<Rightarrow> task_id set" where
  "collectSelectedTaskBlockerIds selected =
     set (concat (map (\<lambda>c. map rb_taskId (bc_blockersResolved c)) selected))"

definition shouldRecoverExplicitBlockerDeferral ::
    "HubBatchDeferredTask \<Rightarrow> HubBatchPlannerCandidate option \<Rightarrow> task_id set \<Rightarrow> bool" where
  "shouldRecoverExplicitBlockerDeferral d candidate blockers \<longleftrightarrow>
     df_reason d = ExplicitBlocker
     \<and> (case candidate of
          None \<Rightarrow> False
        | Some c \<Rightarrow> bc_openBlockers c = [] \<and> bc_unknownBlockers c = [] \<and> bc_id c \<notin> blockers)"

text \<open>The last candidate of an id, and the ids of the deferrals that do not hold, without repetition.\<close>

definition candidateById :: "HubBatchPlannerCandidate list \<Rightarrow> (task_id \<rightharpoonup> HubBatchPlannerCandidate)" where
  "candidateById cs = map_of (rev (map (\<lambda>c. (bc_id c, c)) cs))"

definition recoverable ::
    "HubBatchPlannerCandidate list \<Rightarrow> task_id list \<Rightarrow> HubBatchDeferredTask \<Rightarrow> bool" where
  "recoverable enriched selectedIds d =
     shouldRecoverExplicitBlockerDeferral d (candidateById enriched (df_taskId d))
       (collectSelectedTaskBlockerIds (filter (\<lambda>c. bc_id c \<in> set selectedIds) enriched))"

definition resolvePlannedBatchSelection ::
    "HubTaskProjection list \<Rightarrow> HubBatchPlannerCandidate list \<Rightarrow> HubBatchPlannerAgentOutput \<Rightarrow> nat
     \<Rightarrow> HubTaskProjection list \<times> HubBatchDeferredTask list \<times> HubBatchDiagnosticReason option" where
  "resolvePlannedBatchSelection eligible enriched plan maxTasks =
    (let selected = mapSelectedTasks eligible (ao_selectedTaskIds plan);
         recover = recoverable enriched (ao_selectedTaskIds plan);
         kept = filter (\<lambda>d. \<not> recover d) (ao_deferred plan);
         invalid = uniqueStrings (map df_taskId (filter recover (ao_deferred plan)));
         capacity = maxTasks - length selected;
         recovered = take capacity (filter (\<lambda>t. tp_id t \<in> set invalid) eligible);
         remaining = filter (\<lambda>i. i \<notin> set (map tp_id recovered)) invalid
     in (selected @ recovered,
         kept @ map (\<lambda>i. \<lparr>df_taskId = i, df_reason = DeferredOverMaxTasks\<rparr>) remaining,
         if invalid \<noteq> [] then Some InvalidExplicitBlockerDeferral else None))"

definition planConservativeHubFlowBatch :: "'s HubBatchPlannerInput \<Rightarrow> HubBatchPlannerResult" where
  "planConservativeHubFlowBatch inp =
     buildConservativeBatchResult (pi_candidates inp) (pi_batchStrategy inp) (pi_maxTasks inp) None None []"

definition planLimitedBatch :: "'s HubBatchPlannerInput \<Rightarrow> HubBatchPlannerResult" where
  "planLimitedBatch inp =
    (let (selected, deferred) = partitionEligibleCandidates (pi_candidates inp) (pi_maxTasks inp)
     in \<lparr>pr_selectedTasks = selected, pr_deferredTasks = deferred,
         pr_batchStrategyRequested = Limited, pr_batchStrategyUsed = Limited,
         pr_maxTasks = pi_maxTasks inp, pr_fallbackReason = None, pr_diagnosticReason = None,
         pr_rationale = None\<rparr>)"

definition fallbackPlannedHubFlowBatch ::
    "'s HubBatchPlannerInput \<Rightarrow> HubBatchFallbackReason \<Rightarrow> string option \<Rightarrow> HubBatchDeferredTask list
     \<Rightarrow> HubBatchPlannerResult" where
  "fallbackPlannedHubFlowBatch inp reason rationale deferred =
     buildConservativeBatchResult (pi_candidates inp) Planned (pi_maxTasks inp)
       (Some (fallback_reason_name reason)) rationale deferred"

definition planned_result ::
    "'s HubBatchPlannerInput \<Rightarrow> HubTaskProjection list \<Rightarrow> HubBatchDeferredTask list
     \<Rightarrow> HubBatchDiagnosticReason option \<Rightarrow> string option \<Rightarrow> HubBatchPlannerResult" where
  "planned_result inp selected deferred diagnostic rationale =
     \<lparr>pr_selectedTasks = selected, pr_deferredTasks = deferred,
      pr_batchStrategyRequested = Planned, pr_batchStrategyUsed = Planned,
      pr_maxTasks = pi_maxTasks inp, pr_fallbackReason = None, pr_diagnosticReason = diagnostic,
      pr_rationale = rationale\<rparr>"

text \<open>What is done with the plan that was printed.\<close>

definition use_plan ::
    "'s HubBatchPlannerInput \<Rightarrow> HubTaskProjection list \<Rightarrow> HubBatchPlannerCandidate list
     \<Rightarrow> HubBatchPlannerAgentOutput option \<Rightarrow> HubBatchPlannerResult" where
  "use_plan inp eligible enriched parsed =
     (case parsed of
        None \<Rightarrow> fallbackPlannedHubFlowBatch inp MalformedOutput None []
      | Some plan \<Rightarrow>
          (case validateHubBatchPlannerOutput plan (set (map tp_id eligible)) (pi_maxTasks inp) of
             Some issue \<Rightarrow> fallbackPlannedHubFlowBatch inp issue (ao_rationale plan) (ao_deferred plan)
           | None \<Rightarrow>
               if ao_selectedTaskIds plan = []
               then planned_result inp [] (ao_deferred plan) None (ao_rationale plan)
               else
                 (case resolvePlannedBatchSelection eligible enriched plan (pi_maxTasks inp) of
                    (selected, deferred, diagnostic) \<Rightarrow>
                      planned_result inp selected deferred diagnostic (ao_rationale plan))))"

definition planPlannedHubFlowBatch :: "'s HubBatchPlannerInput \<Rightarrow> plan_error + HubBatchPlannerResult" where
  "planPlannedHubFlowBatch inp =
    (let eligible = filter isHubFlowEligibleTask (pi_candidates inp);
         given_text = (\<lambda>v. case v of None \<Rightarrow> False | Some s \<Rightarrow> s \<noteq> [])
     in case pi_batchPlanner inp of
       None \<Rightarrow> Inr (fallbackPlannedHubFlowBatch inp PlannerUnavailable None [])
     | Some planner \<Rightarrow>
         if \<not> (given_text (pi_flowId inp) \<and> given_text (pi_cwd inp) \<and> given_text (pi_runDir inp))
         then Inr (fallbackPlannedHubFlowBatch inp PlannerUnavailable None [])
         else
           (let enriched = enrichHubBatchPlannerCandidates (pi_env inp) eligible
            in case planner (the (pi_flowId inp)) (the (pi_cwd inp)) (the (pi_runDir inp))
                  (pi_maxTasks inp) enriched of
              None \<Rightarrow> if pi_aborted inp then Inl Aborted
                else Inr (fallbackPlannedHubFlowBatch inp PlannerFailed None [])
            | Some out \<Rightarrow>
                Inr (use_plan inp eligible enriched
                  (parseHubBatchPlannerOutput (pl_parse (pi_env inp)) out))))"

definition planHubFlowBatch :: "'s HubBatchPlannerInput \<Rightarrow> plan_error + HubBatchPlannerResult" where
  "planHubFlowBatch inp =
     (case pi_batchStrategy inp of
        Conservative \<Rightarrow> Inr (planConservativeHubFlowBatch inp)
      | Limited \<Rightarrow> Inr (planLimitedBatch inp)
      | Planned \<Rightarrow> planPlannedHubFlowBatch inp)"

text \<open>The strategy and the limit are optional here; the other fields are those of the input.\<close>

definition selectHubFlowTasksWithBatchOptions ::
    "'s HubBatchPlannerInput \<Rightarrow> HubBatchStrategy option \<Rightarrow> nat option
     \<Rightarrow> plan_error + HubTaskProjection list \<times> HubBatchPlannerResult option" where
  "selectHubFlowTasksWithBatchOptions inp strategy maxTasks =
     (case strategy of
        None \<Rightarrow> Inr (filter isHubFlowEligibleTask (pi_candidates inp), None)
      | Some s \<Rightarrow>
          (case planHubFlowBatch (inp\<lparr>pi_batchStrategy := s,
                  pi_maxTasks := (case maxTasks of None \<Rightarrow> HUB_BATCH_DEFAULT_MAX_TASKS | Some n \<Rightarrow> n)\<rparr>) of
             Inl e \<Rightarrow> Inl e
           | Inr r \<Rightarrow> Inr (pr_selectedTasks r, Some r)))"


subsection \<open>The second look\<close>

fun has_duplicate :: "task_id list \<Rightarrow> task_id list \<Rightarrow> bool" where
  "has_duplicate seen [] = False"
| "has_duplicate seen (t # ts) = (t \<in> set seen \<or> has_duplicate (t # seen) ts)"

definition freshness_issue :: "HubTaskProjection option \<Rightarrow> HubBatchSelectionInvalidReason option" where
  "freshness_issue fresh =
     (case fresh of
        None \<Rightarrow> Some NotInCandidateSet
      | Some t \<Rightarrow>
          if tp_claimState t = Some ClaimActive then Some ActiveClaim
          else if tp_hubStatus t \<noteq> HubReadyForAgent then Some NotReadyForAgent
          else if \<not> isHubFlowEligibleTask t then Some NotInCandidateSet
          else None)"

text \<open>A \<open>Set\<close> keeps the order in which its elements came.\<close>

fun add_reasons ::
    "HubBatchSelectionInvalidReason list \<Rightarrow> HubBatchSelectionInvalidReason list
     \<Rightarrow> HubBatchSelectionInvalidReason list" where
  "add_reasons acc [] = acc"
| "add_reasons acc (r # rs) = add_reasons (if r \<in> set acc then acc else acc @ [r]) rs"

definition over_limit :: "nat option \<Rightarrow> nat \<Rightarrow> bool" where
  "over_limit limit n \<longleftrightarrow> (case limit of None \<Rightarrow> False | Some m \<Rightarrow> n > m)"

text \<open>The reasons; the selection is valid when there is none.\<close>

definition validateHubBatchSelectionFreshness ::
    "task_id list \<Rightarrow> HubTaskProjection list \<Rightarrow> nat option \<Rightarrow> HubBatchSelectionInvalidReason list" where
  "validateHubBatchSelectionFreshness ids fresh limit =
     add_reasons []
       ((if has_duplicate [] ids then [DuplicateSelection] else [])
        @ (if over_limit limit (length ids) then [SelectionOverMaxTasks] else [])
        @ List.map_filter (\<lambda>i. freshness_issue (indexHubTasksById fresh i)) ids)"

definition mapSelectedTaskIdsToFreshCandidates ::
    "task_id list \<Rightarrow> HubTaskProjection list \<Rightarrow> HubTaskProjection list" where
  "mapSelectedTaskIdsToFreshCandidates ids fresh = List.map_filter (indexHubTasksById fresh) ids"

definition effectiveMaxTasks :: "HubBatchStrategy option \<Rightarrow> nat option \<Rightarrow> nat option" where
  "effectiveMaxTasks strategy maxTasks =
     (case maxTasks of
        Some n \<Rightarrow> Some n
      | None \<Rightarrow> if strategy \<noteq> None then Some HUB_BATCH_DEFAULT_MAX_TASKS else None)"

fun join_reasons :: "string list \<Rightarrow> string" where
  "join_reasons [] = []"
| "join_reasons [s] = s"
| "join_reasons (s # ss) = s @ '', '' @ join_reasons ss"

record FreshHubBatchSelection =
  fs_selectedTasks :: "HubTaskProjection list"
  fs_batchSelection :: "HubBatchPlannerResult option"
  fs_fallbackReason :: "string option"

definition resolveFreshValidatedHubBatchSelection ::
    "task_id list \<Rightarrow> HubTaskProjection list \<Rightarrow> HubBatchStrategy option \<Rightarrow> nat option
     \<Rightarrow> HubBatchPlannerResult option \<Rightarrow> FreshHubBatchSelection" where
  "resolveFreshValidatedHubBatchSelection ids fresh strategy maxTasks selection =
    (let reasons = validateHubBatchSelectionFreshness ids fresh (effectiveMaxTasks strategy maxTasks)
     in if reasons = []
        then \<lparr>fs_selectedTasks = mapSelectedTaskIdsToFreshCandidates ids fresh,
              fs_batchSelection = selection, fs_fallbackReason = None\<rparr>
        else
          (let reason = Some (join_reasons (map invalid_reason_name reasons));
               fallback = buildConservativeBatchResult fresh Conservative
                 (case maxTasks of None \<Rightarrow> HUB_BATCH_DEFAULT_MAX_TASKS | Some n \<Rightarrow> n) reason None []
           in \<lparr>fs_selectedTasks = pr_selectedTasks fallback,
               fs_batchSelection = map_option (\<lambda>r. fallback
                 \<lparr>pr_batchStrategyRequested := pr_batchStrategyRequested r\<rparr>) selection,
               fs_fallbackReason = reason\<rparr>))"

end
