(* ===== verification/Batch_Properties.thy ===== *)
theory Batch_Properties
  imports Batch_Planner
begin

text \<open>
  What the planning of a batch guarantees: every selected task is eligible, the limit holds, a task that the
  agent set aside is only taken after all when its blockers are completed, and the second look lets no
  selection pass that the fresh candidates do not bear out. Two plans that go wrong: a task that is selected
  and set aside at once, and a heading right under the heading \<open>Blocked by\<close>.
\<close>

named_theorems planning

subsection \<open>Indexes and sets\<close>

lemma take_filterD: "x \<in> set (take n (filter P xs)) \<Longrightarrow> x \<in> set xs \<and> P x"
  using set_take_subset [of n "filter P xs"] by auto

lemma map_filter_SomeD: "y \<in> set (List.map_filter f xs) \<Longrightarrow> \<exists>x\<in>set xs. f x = Some y"
  by (induction xs) (auto simp: List.map_filter_simps split: option.splits)

lemma length_map_filter_le: "length (List.map_filter f xs) \<le> length xs"
  by (induction xs) (auto simp: List.map_filter_simps split: option.splits)

lemma map_filter_all:
  "list_all (\<lambda>x. f x \<noteq> None) xs \<Longrightarrow> List.map_filter f xs = map (\<lambda>x. the (f x)) xs"
  by (induction xs) (auto simp: List.map_filter_simps)

lemma map_filter_none: "List.map_filter f xs = [] \<longleftrightarrow> list_all (\<lambda>x. f x = None) xs"
  by (induction xs) (auto simp: List.map_filter_simps split: option.splits)

lemma indexed_task: "indexHubTasksById ts i = Some t \<Longrightarrow> t \<in> set ts \<and> tp_id t = i"
  by (auto simp: indexHubTasksById_def dest: map_of_SomeD)

lemma indexed_exists: "i \<in> tp_id ` set ts \<Longrightarrow> \<exists>t. indexHubTasksById ts i = Some t"
proof -
  assume "i \<in> tp_id ` set ts"
  then have "indexHubTasksById ts i \<noteq> None"
    by (auto simp: indexHubTasksById_def map_of_eq_None_iff image_image)
  then show ?thesis by auto
qed

lemma indexed_candidate: "candidateById cs i = Some c \<Longrightarrow> c \<in> set cs \<and> bc_id c = i"
  by (auto simp: candidateById_def dest: map_of_SomeD)

lemma has_duplicate_iff: "has_duplicate seen ids \<longleftrightarrow> \<not> distinct ids \<or> set ids \<inter> set seen \<noteq> {}"
  by (induction ids arbitrary: seen) auto

lemma set_add_reasons: "set (add_reasons acc rs) = set acc \<union> set rs"
  by (induction rs arbitrary: acc) auto

lemma no_reasons: "add_reasons [] rs = [] \<longleftrightarrow> rs = []"
  using set_add_reasons [of "[]" rs] by (metis set_empty sup_bot_left list.set(1))

text \<open>The selection is valid exactly when it is distinct, within the limit, and eligible on the fresh board.\<close>

lemma freshness_issue_None:
  "freshness_issue v = None \<longleftrightarrow> (\<exists>t. v = Some t \<and> isHubFlowEligibleTask t)"
  by (auto simp: freshness_issue_def isHubFlowEligibleTask_def split: option.splits if_splits)

lemma fresh_valid_iff [planning]:
  "validateHubBatchSelectionFreshness ids fresh limit = [] \<longleftrightarrow>
     distinct ids \<and> \<not> over_limit limit (length ids)
     \<and> list_all (\<lambda>i. \<exists>t. indexHubTasksById fresh i = Some t \<and> isHubFlowEligibleTask t) ids"
  by (simp add: validateHubBatchSelectionFreshness_def no_reasons has_duplicate_iff map_filter_none
      freshness_issue_None)

lemma fresh_mapping:
  assumes "list_all (\<lambda>i. \<exists>t. indexHubTasksById fresh i = Some t \<and> isHubFlowEligibleTask t) ids"
  shows "map tp_id (mapSelectedTaskIdsToFreshCandidates ids fresh) = ids
    \<and> set (mapSelectedTaskIdsToFreshCandidates ids fresh) \<subseteq> set (filter isHubFlowEligibleTask fresh)"
  using assms
  by (induction ids) (auto simp: mapSelectedTaskIdsToFreshCandidates_def List.map_filter_simps dest: indexed_task)

text \<open>
  C16: Whatever was selected before and whatever the fresh candidates are, the tasks that the second look
  returns are distinct, eligible among the fresh candidates, and at most as many as the limit allows (one at
  least); they are the selected ones unless a reason for the fallback is reported, and then the first eligible
  task alone.
\<close>

theorem fresh_selection_is_sound:
  "distinct (map tp_id (fs_selectedTasks (resolveFreshValidatedHubBatchSelection ids fresh strategy maxTasks sel)))
   \<and> set (fs_selectedTasks (resolveFreshValidatedHubBatchSelection ids fresh strategy maxTasks sel))
       \<subseteq> set (filter isHubFlowEligibleTask fresh)
   \<and> \<not> over_limit (map_option (max 1) (effectiveMaxTasks strategy maxTasks))
       (length (fs_selectedTasks (resolveFreshValidatedHubBatchSelection ids fresh strategy maxTasks sel)))
   \<and> map tp_id (fs_selectedTasks (resolveFreshValidatedHubBatchSelection ids fresh strategy maxTasks sel)) =
       (if fs_fallbackReason (resolveFreshValidatedHubBatchSelection ids fresh strategy maxTasks sel) = None
        then ids else map tp_id (take 1 (filter isHubFlowEligibleTask fresh)))"
proof (cases "validateHubBatchSelectionFreshness ids fresh (effectiveMaxTasks strategy maxTasks) = []")
  case True
  then have ok: "distinct ids" "\<not> over_limit (effectiveMaxTasks strategy maxTasks) (length ids)"
    and all: "list_all (\<lambda>i. \<exists>t. indexHubTasksById fresh i = Some t \<and> isHubFlowEligibleTask t) ids"
    by (simp_all add: planning)
  let ?ts = "mapSelectedTaskIdsToFreshCandidates ids fresh"
  have ids: "map tp_id ?ts = ids" and elig: "set ?ts \<subseteq> set (filter isHubFlowEligibleTask fresh)"
    using fresh_mapping [OF all] by auto
  have "length ?ts = length ids"
    using arg_cong [OF ids, of length] by simp
  with ok have "\<not> over_limit (map_option (max 1) (effectiveMaxTasks strategy maxTasks)) (length ?ts)"
    by (cases "effectiveMaxTasks strategy maxTasks") (auto simp: over_limit_def)
  with True ok(1) ids elig show ?thesis
    by (simp add: resolveFreshValidatedHubBatchSelection_def)
next
  case False
  have "\<not> over_limit (map_option (max 1) limit) (length (take 1 ts))" for limit and ts :: "HubTaskProjection list"
    by (cases limit) (auto simp: over_limit_def min_def)
  moreover have "distinct (map tp_id (take 1 ts))" for ts :: "HubTaskProjection list"
    by (cases ts) auto
  ultimately show ?thesis
    using False
    by (auto simp: resolveFreshValidatedHubBatchSelection_def buildConservativeBatchResult_def Let_def
        dest!: take_filterD)
qed


subsection \<open>What a plan selects\<close>

lemma conservative_selection [planning]:
  "pr_selectedTasks (buildConservativeBatchResult cs requested n fallback rationale ds)
   = take 1 (filter isHubFlowEligibleTask cs)"
  by (simp add: buildConservativeBatchResult_def Let_def)

lemma mapSelectedTasks_subset: "set (mapSelectedTasks ts ids) \<subseteq> set ts"
  by (auto simp: mapSelectedTasks_def dest!: map_filter_SomeD indexed_task)

lemma mapSelectedTasks_le: "length (mapSelectedTasks ts ids) \<le> length ids"
  by (simp add: mapSelectedTasks_def length_map_filter_le)

lemma resolved_selection:
  assumes "length (ao_selectedTaskIds plan) \<le> n"
  shows "set (fst (resolvePlannedBatchSelection ts cs plan n)) \<subseteq> set ts
    \<and> length (fst (resolvePlannedBatchSelection ts cs plan n)) \<le> n"
proof -
  have "length (mapSelectedTasks ts (ao_selectedTaskIds plan)) \<le> n"
    using assms mapSelectedTasks_le order_trans by blast
  then show ?thesis
    using mapSelectedTasks_subset [of ts "ao_selectedTaskIds plan"]
    by (auto simp: resolvePlannedBatchSelection_def Let_def dest!: take_filterD)
qed

lemma validated_length:
  "validateHubBatchPlannerOutput plan ids n = None \<Longrightarrow> length (ao_selectedTaskIds plan) \<le> n"
  by (auto simp: validateHubBatchPlannerOutput_def split: option.splits if_splits)

lemma use_plan_selection:
  assumes "eligible = filter isHubFlowEligibleTask (pi_candidates inp)"
  shows "set (pr_selectedTasks (use_plan inp eligible cs parsed)) \<subseteq> set eligible
    \<and> length (pr_selectedTasks (use_plan inp eligible cs parsed)) \<le> max 1 (pi_maxTasks inp)"
proof (cases parsed)
  case None
  then show ?thesis
    using assms
    by (auto simp: use_plan_def fallbackPlannedHubFlowBatch_def planning dest!: take_filterD)
next
  case (Some plan)
  show ?thesis
  proof (cases "validateHubBatchPlannerOutput plan (set (map tp_id eligible)) (pi_maxTasks inp)")
    case None
    then show ?thesis
      using resolved_selection [OF validated_length [OF None], of eligible cs] Some
      by (auto simp: use_plan_def planned_result_def le_max_iff_disj split: prod.splits)
  next
    case issue: (Some e)
    then show ?thesis
      using assms Some
      by (auto simp: use_plan_def fallbackPlannedHubFlowBatch_def planning dest!: take_filterD)
  qed
qed

text \<open>
  C17: Whatever the planning agent prints, the batch that is planned consists of eligible candidates and is no
  longer than the limit, or than one task.
\<close>

theorem planned_batch_is_eligible:
  assumes "planHubFlowBatch inp = Inr r"
  shows "set (pr_selectedTasks r) \<subseteq> set (filter isHubFlowEligibleTask (pi_candidates inp))
    \<and> length (pr_selectedTasks r) \<le> max 1 (pi_maxTasks inp)"
proof (cases "pi_batchStrategy inp")
  case Planned
  with assms have "planPlannedHubFlowBatch inp = Inr r"
    by (simp add: planHubFlowBatch_def)
  then consider reason where "r = fallbackPlannedHubFlowBatch inp reason None []"
    | cs parsed where "r = use_plan inp (filter isHubFlowEligibleTask (pi_candidates inp)) cs parsed"
    by (auto simp: planPlannedHubFlowBatch_def Let_def split: option.splits if_splits)
  then show ?thesis
  proof cases
    case 1
    then show ?thesis
      by (auto simp: fallbackPlannedHubFlowBatch_def planning dest!: take_filterD)
  next
    case 2
    then show ?thesis using use_plan_selection [OF refl] by simp
  qed
next
  case Limited
  then show ?thesis
    using assms
    by (auto simp: planHubFlowBatch_def planLimitedBatch_def partitionEligibleCandidates_def Let_def
        dest!: take_filterD)
next
  case Conservative
  then show ?thesis
    using assms
    by (auto simp: planHubFlowBatch_def planConservativeHubFlowBatch_def planning dest!: take_filterD)
qed


subsection \<open>Tasks that are taken after all\<close>

lemma index_tasks_fold:
  assumes "\<forall>i u. ix_byId ix i = Some u \<longrightarrow> u \<in> set seen \<and> tp_id u = i"
    and "\<forall>r u. ix_byRemoteRef ix r = Some u \<longrightarrow> u \<in> set seen \<and> r \<in> set (tp_remoteRefs u)"
  shows "(\<forall>i u. ix_byId (foldl index_task ix ts) i = Some u \<longrightarrow> u \<in> set seen \<union> set ts \<and> tp_id u = i)
    \<and> (\<forall>r u. ix_byRemoteRef (foldl index_task ix ts) r = Some u
        \<longrightarrow> u \<in> set seen \<union> set ts \<and> r \<in> set (tp_remoteRefs u))"
  using assms
proof (induction ts arbitrary: ix seen)
  case Nil
  then show ?case by simp
next
  case (Cons t ts)
  have refs: "foldl (\<lambda>m r. if m r = None then m(r \<mapsto> t) else m) m rs r = Some u
      \<Longrightarrow> m r = Some u \<or> u = t \<and> r \<in> set rs" for m rs r u
    by (induction rs arbitrary: m) (force split: if_splits)+
  have byId: "\<forall>i u. ix_byId (index_task ix t) i = Some u \<longrightarrow> u \<in> set (t # seen) \<and> tp_id u = i"
    using Cons.prems(1) by (auto simp: index_task_def)
  have byRef: "\<forall>r u. ix_byRemoteRef (index_task ix t) r = Some u
      \<longrightarrow> u \<in> set (t # seen) \<and> r \<in> set (tp_remoteRefs u)"
    using Cons.prems(2) by (auto simp: index_task_def dest!: refs)
  have eq: "set (t # seen) \<union> set ts = set seen \<union> set (t # ts)" by auto
  show ?case using Cons.IH [OF byId byRef] by (simp only: foldl_Cons eq)
qed

lemma resolved_blocker_on_board:
  assumes "resolveDeclaredBlocker (buildHubTaskIndexes board) b = Some u"
  shows "u \<in> set (bo_tasks board) \<and> (tp_id u = b \<or> b \<in> set (tp_remoteRefs u))"
  using assms index_tasks_fold [of "\<lparr>ix_byId = Map.empty, ix_byRemoteRef = Map.empty\<rparr>" "[]" "bo_tasks board"]
  by (auto simp: resolveDeclaredBlocker_def buildHubTaskIndexes_def split: if_splits)

text \<open>The blocker \<open>b\<close> is a completed task of the board that the planning loads.\<close>

definition completed_on_board :: "'s planning_env \<Rightarrow> string \<Rightarrow> bool" where
  "completed_on_board E b \<longleftrightarrow>
     (case tryLoadHubTaskBoard E of
        None \<Rightarrow> False
      | Some board \<Rightarrow>
          list_ex (\<lambda>u. (tp_id u = b \<or> b \<in> set (tp_remoteRefs u)) \<and> isCompletedHubStatus (tp_hubStatus u))
            (bo_tasks board))"

lemma unblocked_candidate:
  assumes "c \<in> set (enrichHubBatchPlannerCandidates E ts)"
    and "bc_openBlockers c = []" and "bc_unknownBlockers c = []"
  shows "list_all (completed_on_board E) (bc_blockersDeclared c)"
proof -
  obtain bs where res: "bc_openBlockers c = br_open (resolveDeclaredBlockers (bc_blockersDeclared c)
        (map_option buildHubTaskIndexes (tryLoadHubTaskBoard E)))"
      "bc_unknownBlockers c = br_unknown (resolveDeclaredBlockers (bc_blockersDeclared c)
        (map_option buildHubTaskIndexes (tryLoadHubTaskBoard E)))"
    using assms(1)
    by (auto simp: enrichHubBatchPlannerCandidates_def enrichHubBatchPlannerCandidate_def Let_def)
  have "completed_on_board E b" if "b \<in> set (bc_blockersDeclared c)" for b
    using unblocked_resolution [OF assms(2,3) [unfolded res] that]
    by (auto simp: completed_on_board_def list_ex_iff dest!: resolved_blocker_on_board)
  then show ?thesis by (simp add: list_all_iff)
qed

lemma recoverable_candidate:
  assumes "recoverable cs ids d"
  shows "\<exists>c\<in>set cs. bc_id c = df_taskId d \<and> bc_openBlockers c = [] \<and> bc_unknownBlockers c = []
    \<and> df_taskId d \<notin> collectSelectedTaskBlockerIds (filter (\<lambda>c. bc_id c \<in> set ids) cs)"
  using assms
  by (auto simp: recoverable_def shouldRecoverExplicitBlockerDeferral_def split: option.splits
      dest!: indexed_candidate)

lemma recovered_task:
  assumes "t \<in> set (fst (resolvePlannedBatchSelection ts (enrichHubBatchPlannerCandidates E us) plan n))"
    and "tp_id t \<notin> set (ao_selectedTaskIds plan)"
  shows "\<lparr>df_taskId = tp_id t, df_reason = ExplicitBlocker\<rparr> \<in> set (ao_deferred plan)
    \<and> (\<exists>c\<in>set (enrichHubBatchPlannerCandidates E us).
          bc_id c = tp_id t \<and> list_all (completed_on_board E) (bc_blockersDeclared c))
    \<and> tp_id t \<notin> collectSelectedTaskBlockerIds (filter (\<lambda>c. bc_id c \<in> set (ao_selectedTaskIds plan))
        (enrichHubBatchPlannerCandidates E us))"
proof -
  have "t \<notin> set (mapSelectedTasks ts (ao_selectedTaskIds plan))"
    using assms(2) by (auto simp: mapSelectedTasks_def dest!: map_filter_SomeD indexed_task)
  then obtain d where d: "d \<in> set (ao_deferred plan)" "df_taskId d = tp_id t"
      "recoverable (enrichHubBatchPlannerCandidates E us) (ao_selectedTaskIds plan) d"
    using assms(1) by (auto simp: resolvePlannedBatchSelection_def Let_def dest!: take_filterD)
  then have "d = \<lparr>df_taskId = tp_id t, df_reason = ExplicitBlocker\<rparr>"
    by (auto simp: recoverable_def shouldRecoverExplicitBlockerDeferral_def)
  moreover obtain c where "c \<in> set (enrichHubBatchPlannerCandidates E us)" "bc_id c = tp_id t"
      "list_all (completed_on_board E) (bc_blockersDeclared c)"
      "tp_id t \<notin> collectSelectedTaskBlockerIds (filter (\<lambda>c. bc_id c \<in> set (ao_selectedTaskIds plan))
        (enrichHubBatchPlannerCandidates E us))"
    using recoverable_candidate [OF d(3)] d(2) unblocked_candidate by metis
  ultimately show ?thesis using d(1) by auto
qed

text \<open>The candidates the planning shows to the agent, and the plan that the agent printed for them.\<close>

definition shown_candidates :: "'s HubBatchPlannerInput \<Rightarrow> HubBatchPlannerCandidate list" where
  "shown_candidates inp =
     enrichHubBatchPlannerCandidates (pi_env inp) (filter isHubFlowEligibleTask (pi_candidates inp))"

definition printed_plan :: "'s HubBatchPlannerInput \<Rightarrow> HubBatchPlannerAgentOutput \<Rightarrow> bool" where
  "printed_plan inp plan \<longleftrightarrow>
     (\<exists>planner out. pi_batchPlanner inp = Some planner
        \<and> planner (the (pi_flowId inp)) (the (pi_cwd inp)) (the (pi_runDir inp)) (pi_maxTasks inp)
            (shown_candidates inp) = Some out
        \<and> parseHubBatchPlannerOutput (pl_parse (pi_env inp)) out = Some plan)"

lemma fallback_used [planning]: "pr_batchStrategyUsed (fallbackPlannedHubFlowBatch inp e x ds) = Conservative"
  by (simp add: fallbackPlannedHubFlowBatch_def buildConservativeBatchResult_def Let_def)

lemma planned_by_plan:
  assumes "planHubFlowBatch inp = Inr r" and "pr_batchStrategyUsed r = Planned" and "pr_selectedTasks r \<noteq> []"
  shows "\<exists>plan. printed_plan inp plan
    \<and> pr_selectedTasks r = fst (resolvePlannedBatchSelection (filter isHubFlowEligibleTask (pi_candidates inp))
        (shown_candidates inp) plan (pi_maxTasks inp))"
proof -
  have "pi_batchStrategy inp = Planned"
    using assms(1,2)
    by (auto simp: planHubFlowBatch_def planLimitedBatch_def planConservativeHubFlowBatch_def
        buildConservativeBatchResult_def Let_def split: HubBatchStrategy.splits prod.splits)
  then have "planPlannedHubFlowBatch inp = Inr r" using assms(1) by (simp add: planHubFlowBatch_def)
  then obtain planner out where printed: "pi_batchPlanner inp = Some planner"
      "planner (the (pi_flowId inp)) (the (pi_cwd inp)) (the (pi_runDir inp)) (pi_maxTasks inp)
         (shown_candidates inp) = Some out"
    and r: "r = use_plan inp (filter isHubFlowEligibleTask (pi_candidates inp)) (shown_candidates inp)
        (parseHubBatchPlannerOutput (pl_parse (pi_env inp)) out)"
    using assms(2)
    by (auto simp: planPlannedHubFlowBatch_def Let_def shown_candidates_def planning
        split: option.splits if_splits)
  then show ?thesis
    using assms(2,3)
    by (auto simp: use_plan_def planned_result_def planning printed_plan_def
        split: option.splits if_splits prod.splits)
qed

text \<open>
  C18: A task in a batch that follows the agent's plan, and not a fallback, is one that the plan selects, or
  the plan sets it aside for a blocker, every blocker that its candidate declares is a completed task on the
  board, and no selected task declares it as resolved blocker. (A fallback takes the first eligible task
  and looks at no blocker; a candidate declares those of its description only when it has no explicit ones.)
\<close>

theorem recovered_task_is_unblocked:
  assumes "planHubFlowBatch inp = Inr r" and "pr_batchStrategyUsed r = Planned"
    and "t \<in> set (pr_selectedTasks r)"
  shows "\<exists>plan. printed_plan inp plan \<and> (tp_id t \<in> set (ao_selectedTaskIds plan)
    \<or> \<lparr>df_taskId = tp_id t, df_reason = ExplicitBlocker\<rparr> \<in> set (ao_deferred plan)
      \<and> (\<exists>c\<in>set (shown_candidates inp).
            bc_id c = tp_id t \<and> list_all (completed_on_board (pi_env inp)) (bc_blockersDeclared c))
      \<and> tp_id t \<notin> collectSelectedTaskBlockerIds (filter (\<lambda>c. bc_id c \<in> set (ao_selectedTaskIds plan))
          (shown_candidates inp)))"
proof -
  obtain plan where plan: "printed_plan inp plan"
    and "pr_selectedTasks r = fst (resolvePlannedBatchSelection (filter isHubFlowEligibleTask (pi_candidates inp))
        (shown_candidates inp) plan (pi_maxTasks inp))"
    using planned_by_plan [OF assms(1,2)] assms(3) by fastforce
  then have "t \<in> set (fst (resolvePlannedBatchSelection (filter isHubFlowEligibleTask (pi_candidates inp))
      (shown_candidates inp) plan (pi_maxTasks inp)))"
    using assms(3) by simp
  from recovered_task [OF this [unfolded shown_candidates_def]] plan show ?thesis
    unfolding shown_candidates_def by blast
qed


subsection \<open>A task that is selected and set aside\<close>

lemma validated_ids:
  "validateHubBatchPlannerOutput plan ids n = None \<Longrightarrow> set (ao_selectedTaskIds plan) \<subseteq> ids"
proof -
  have "selection_issue ids seen is = None \<Longrightarrow> set is \<subseteq> ids" for seen "is"
    by (induction "is" arbitrary: seen) (auto split: if_splits)
  then show "validateHubBatchPlannerOutput plan ids n = None \<Longrightarrow> ?thesis"
    by (auto simp: validateHubBatchPlannerOutput_def split: option.splits)
qed

lemma valid_selection:
  assumes "set is \<subseteq> ids" and "distinct is" and "set is \<inter> set seen = {}"
  shows "selection_issue ids seen is = None"
  using assms by (induction "is" arbitrary: seen) auto

lemma mapSelectedTasks_ids:
  "set ids \<subseteq> tp_id ` set ts \<Longrightarrow> map tp_id (mapSelectedTasks ts ids) = ids"
proof (induction ids)
  case Nil
  then show ?case by (simp add: mapSelectedTasks_def)
next
  case (Cons i ids)
  then obtain t where "indexHubTasksById ts i = Some t" using indexed_exists [of i ts] by auto
  with Cons show ?case using indexed_task by (auto simp: mapSelectedTasks_def List.map_filter_simps)
qed

lemma selected_again:
  assumes "set (ao_selectedTaskIds plan) \<subseteq> tp_id ` set ts" and "length (ao_selectedTaskIds plan) < n"
    and "ao_deferred plan = [d]" and "df_taskId d \<in> set (ao_selectedTaskIds plan)"
    and "recoverable cs (ao_selectedTaskIds plan) d"
  shows "\<not> distinct (map tp_id (fst (resolvePlannedBatchSelection ts cs plan n)))"
proof -
  let ?ids = "ao_selectedTaskIds plan"
  let ?again = "take (n - length (mapSelectedTasks ts ?ids)) (filter (\<lambda>t. tp_id t = df_taskId d) ts)"
  have ids: "map tp_id (mapSelectedTasks ts ?ids) = ?ids"
    using assms(1) by (simp add: mapSelectedTasks_ids)
  then have room: "n - length (mapSelectedTasks ts ?ids) > 0"
    using assms(2) by (metis length_map zero_less_diff)
  have "filter (\<lambda>t. tp_id t = df_taskId d) ts \<noteq> []"
    using assms(1,4) by (force simp: filter_empty_conv)
  then obtain t rest where "filter (\<lambda>t. tp_id t = df_taskId d) ts = t # rest" "tp_id t = df_taskId d"
    by (metis (mono_tags, lifting) filter_eq_ConsD list.exhaust)
  with room have "df_taskId d \<in> tp_id ` set ?again"
    by (cases "n - length (mapSelectedTasks ts ?ids)") force+
  moreover have "fst (resolvePlannedBatchSelection ts cs plan n) = mapSelectedTasks ts ?ids @ ?again"
    using assms(3,5) by (auto simp: resolvePlannedBatchSelection_def Let_def)
  ultimately show ?thesis using ids assms(4) by auto
qed

text \<open>
  C39: A plan of distinct eligible tasks, shorter than the limit, that sets one of them aside for a blocker
  and nothing else, passes the validation. When that deferral does not hold, because the blockers of the
  task are completed and no selected task is blocked by it, the task is in the batch twice, without any
  fallback; the second look then drops the whole plan for the first eligible task.
\<close>

theorem selected_and_deferred_is_selected_twice:
  assumes "distinct (ao_selectedTaskIds plan)" and "set (ao_selectedTaskIds plan) \<subseteq> tp_id ` set ts"
    and "length (ao_selectedTaskIds plan) < pi_maxTasks inp"
    and "ao_deferred plan = [d]" and "df_taskId d \<in> set (ao_selectedTaskIds plan)"
    and "recoverable cs (ao_selectedTaskIds plan) d"
    and "r = use_plan inp ts cs (Some plan)"
  shows "validateHubBatchPlannerOutput plan (set (map tp_id ts)) (pi_maxTasks inp) = None
    \<and> pr_batchStrategyUsed r = Planned \<and> pr_fallbackReason r = None
    \<and> \<not> distinct (map tp_id (pr_selectedTasks r))
    \<and> fs_selectedTasks (resolveFreshValidatedHubBatchSelection (map tp_id (pr_selectedTasks r)) fresh strategy
        (Some (pi_maxTasks inp)) (Some r)) = take 1 (filter isHubFlowEligibleTask fresh)"
proof -
  have valid: "validateHubBatchPlannerOutput plan (set (map tp_id ts)) (pi_maxTasks inp) = None"
    using assms(1-3) valid_selection [of "ao_selectedTaskIds plan" "set (map tp_id ts)" "[]"]
    by (simp add: validateHubBatchPlannerOutput_def)
  have r: "pr_batchStrategyUsed r = Planned \<and> pr_fallbackReason r = None
      \<and> pr_selectedTasks r = fst (resolvePlannedBatchSelection ts cs plan (pi_maxTasks inp))"
    using valid assms(5,7) by (auto simp: use_plan_def planned_result_def split: prod.splits)
  moreover have twice: "\<not> distinct (map tp_id (pr_selectedTasks r))"
    using selected_again [OF assms(2-6)] r by simp
  then have "validateHubBatchSelectionFreshness (map tp_id (pr_selectedTasks r)) fresh
      (effectiveMaxTasks strategy (Some (pi_maxTasks inp))) \<noteq> []"
    by (simp add: planning)
  ultimately show ?thesis
    using valid twice by (simp add: resolveFreshValidatedHubBatchSelection_def Let_def planning)
qed


subsection \<open>A heading under the heading\<close>

lemma strip_word_append: "toLowerCase q = p \<Longrightarrow> strip_word p (q @ t) = Some t"
  by (auto simp: strip_word_def startsWith_def toLowerCase_def)

lemma until_heading_line:
  "newline \<notin> set l \<Longrightarrow> until_heading (l @ s) = l @ until_heading s"
  by (induction l) (auto simp: heading_follows_def)

text \<open>
  C40: A heading in the line right under the heading \<open>Blocked by\<close> does not end the section: the section holds
  that heading and all that stands under it, up to the next heading.
\<close>

theorem next_heading_is_swallowed:
  assumes "newline \<notin> set title"
  shows "extractBlockedBySection (''## Blocked by'' @ newline # ''## '' @ title @ newline # body)
    = newline # ''## '' @ title @ until_heading (newline # body)"
proof -
  have "until_heading ((''## '' @ title) @ newline # body) = (''## '' @ title) @ until_heading (newline # body)"
    using assms by (intro until_heading_line) auto
  moreover have "hashes (''## '' @ t) = Some (CHR '' '' # t)" for t
    by (simp add: hashes_def)
  moreover have "strip_word ''blocked by'' (''Blocked by'' @ t) = Some t" for t
    by (rule strip_word_append) code_simp
  moreover have "js_space (CHR '' '')" "\<not> js_space (CHR ''B'')" "word_ends (newline # t)" for t
    by (simp_all add: js_space_def word_ends_def word_char_def letter_def digit_def)
  ultimately show ?thesis
    by (simp add: extractBlockedBySection_def at_line_def section_here_def del: until_heading.simps)
qed


subsection \<open>An example\<close>

text \<open>Two tasks that are ready; the second is blocked by a third, which is done.\<close>

definition demo_ready_task :: "task_id \<Rightarrow> (string \<times> json) list \<Rightarrow> HubTaskProjection" where
  "demo_ready_task i m = \<lparr>tp_id = i, tp_title = i, tp_beadsStatus = None, tp_hubStatus = HubReadyForAgent,
     tp_owner = None, tp_claim = None, tp_claimState = None, tp_labels = [], tp_metadata = m,
     tp_description = None, tp_notes = None, tp_comments = [], tp_remoteRefs = [], tp_runRefs = []\<rparr>"

definition demo_ready_tasks :: "HubTaskProjection list" where
  "demo_ready_tasks = [demo_ready_task ''t1'' [], demo_ready_task ''t2'' [(''blocked_by'', JArr [JStr ''t3''])]]"

definition demo_tb :: "unit tb_env" where
  "demo_tb = \<lparr>tb_bd = \<lparr>bd_show = (\<lambda>_ _ _. None), bd_list = (\<lambda>_. Some (JArr [JObj [(''id'', JStr ''t3''), (''metadata'', JObj [(''done'', JBool True)])]])),
        bd_ready = (\<lambda>_. None), bd_run = (\<lambda>_ _. None), bd_create = (\<lambda>_ _ _ _ _. None)\<rparr>,
      tb_numText = (\<lambda>_. []), tb_collate = (\<lambda>_. 0), tb_head = None, tb_branchExists = (\<lambda>_. False),
      tb_newRunId = [], tb_newBatchId = [], tb_hubProjectDir = [], tb_repoRoot = []\<rparr>"

definition demo_planning :: "unit planning_env" where
  "demo_planning = \<lparr>pl_tasks = demo_tb, pl_state = \<lparr>ts_store = (), ts_events = [], ts_runEvents = []\<rparr>,
     pl_depList = (\<lambda>_. None), pl_parse = (\<lambda>_. None)\<rparr>"

definition demo_plan :: "task_id list \<Rightarrow> HubBatchPlannerAgentOutput" where
  "demo_plan ids = \<lparr>ao_selectedTaskIds = ids,
     ao_deferred = [\<lparr>df_taskId = ''t2'', df_reason = ExplicitBlocker\<rparr>], ao_rationale = None\<rparr>"

definition demo_input :: "unit HubBatchPlannerInput" where
  "demo_input = \<lparr>pi_env = demo_planning\<lparr>pl_parse := (\<lambda>_. Some (JObj
       [(''selected'', JArr [JStr ''t1'']),
        (''deferred'', JArr [JObj [(''taskId'', JStr ''t2''), (''reason'', JStr ''explicit_blocker'')]])]))\<rparr>,
     pi_flowId = Some ''f'', pi_cwd = Some ''/r'', pi_runDir = Some ''/r/run'',
     pi_candidates = demo_ready_tasks, pi_batchStrategy = Planned, pi_maxTasks = 3,
     pi_batchPlanner = Some (\<lambda>_ _ _ _ _. Some ''<batch-plan>{}</batch-plan>''), pi_aborted = False\<rparr>"

definition planned_ids :: "plan_error + HubBatchPlannerResult \<Rightarrow> task_id list option" where
  "planned_ids v = (case v of Inl e \<Rightarrow> None | Inr r \<Rightarrow> Some (map tp_id (pr_selectedTasks r)))"

lemma demo_planned: "planned_ids (planHubFlowBatch demo_input) = Some [''t1'', ''t2'']"
  by code_simp

theorem planned_batch_is_eligible_witness:
  "\<exists>r. planHubFlowBatch demo_input = Inr r \<and> map tp_id (pr_selectedTasks r) = [''t1'', ''t2'']
    \<and> set (pr_selectedTasks r) \<subseteq> set (filter isHubFlowEligibleTask (pi_candidates demo_input))
    \<and> length (pr_selectedTasks r) \<le> max 1 (pi_maxTasks demo_input)"
proof -
  obtain r where r: "planHubFlowBatch demo_input = Inr r" "map tp_id (pr_selectedTasks r) = [''t1'', ''t2'']"
    using demo_planned by (auto simp: planned_ids_def split: sum.splits)
  with planned_batch_is_eligible [OF r(1)] show ?thesis by (intro exI [of _ r] conjI) simp_all
qed

lemma map_pick: "i \<in> set (map f xs) \<Longrightarrow> \<exists>x. x \<in> set xs \<and> f x = i"
  by auto

lemma demo_printed: "printed_plan demo_input plan \<Longrightarrow> ao_selectedTaskIds plan = [''t1'']"
proof -
  have "parseHubBatchPlannerOutput (pl_parse (pi_env demo_input)) ''<batch-plan>{}</batch-plan>'' = Some (demo_plan [''t1''])"
    by code_simp
  then show "printed_plan demo_input plan \<Longrightarrow> ?thesis"
    by (auto simp: printed_plan_def demo_input_def demo_plan_def)
qed

theorem recovered_task_is_unblocked_witness:
  "\<exists>c\<in>set (shown_candidates demo_input). bc_id c = ''t2''
     \<and> list_all (completed_on_board demo_planning) (bc_blockersDeclared c)"
proof -
  obtain r where r: "planHubFlowBatch demo_input = Inr r" "map tp_id (pr_selectedTasks r) = [''t1'', ''t2'']"
    using demo_planned by (auto simp: planned_ids_def split: sum.splits)
  have "case planHubFlowBatch demo_input of Inl e \<Rightarrow> False | Inr r \<Rightarrow> pr_batchStrategyUsed r = Planned" by code_simp
  then have used: "pr_batchStrategyUsed r = Planned" by (simp add: r(1))
  have "''t2'' \<in> set (map tp_id (pr_selectedTasks r))" by (simp add: r(2))
  from map_pick [OF this] obtain t where t: "t \<in> set (pr_selectedTasks r)" "tp_id t = ''t2''" by blast
  have board: "completed_on_board (pi_env demo_input) = completed_on_board demo_planning"
    by (simp add: fun_eq_iff completed_on_board_def demo_input_def tryLoadHubTaskBoard_def)
  obtain plan where "printed_plan demo_input plan" and chosen: "tp_id t \<in> set (ao_selectedTaskIds plan)
      \<or> (\<exists>c\<in>set (shown_candidates demo_input).
            bc_id c = tp_id t \<and> list_all (completed_on_board demo_planning) (bc_blockersDeclared c))"
    using recovered_task_is_unblocked [OF r(1) used t(1)] unfolding board by blast
  then have "ao_selectedTaskIds plan = [''t1'']" by (blast intro: demo_printed)
  with chosen show ?thesis unfolding t(2) by simp
qed

definition demo_candidates :: "HubBatchPlannerCandidate list" where
  "demo_candidates = enrichHubBatchPlannerCandidates demo_planning demo_ready_tasks"

lemma demo_recoverable:
  "recoverable demo_candidates [''t1'', ''t2''] \<lparr>df_taskId = ''t2'', df_reason = ExplicitBlocker\<rparr>"
  by code_simp

theorem selected_and_deferred_is_selected_twice_witness:
  "\<not> distinct (map tp_id (pr_selectedTasks
      (use_plan demo_input demo_ready_tasks demo_candidates (Some (demo_plan [''t1'', ''t2''])))))"
  using selected_and_deferred_is_selected_twice [where inp = demo_input and cs = demo_candidates
      and plan = "demo_plan [''t1'', ''t2'']" and ts = demo_ready_tasks
      and d = "\<lparr>df_taskId = ''t2'', df_reason = ExplicitBlocker\<rparr>", OF _ _ _ _ _ _ refl] demo_recoverable
  by (simp add: demo_plan_def demo_input_def demo_ready_tasks_def demo_ready_task_def)

lemma demo_reference:
  "parseDeclaredHubBlockers (''## Blocked by'' @ newline # ''## '' @ ''Notes'' @ newline # ''- #12'') = [''github#12'']"
  by code_simp

theorem next_heading_is_swallowed_witness:
  "extractBlockedBySection (''## Blocked by'' @ newline # ''## '' @ ''Notes'' @ newline # ''- #12'')
     = newline # ''## '' @ ''Notes'' @ until_heading (newline # ''- #12'')
   \<and> parseDeclaredHubBlockers (''## Blocked by'' @ newline # ''## '' @ ''Notes'' @ newline # ''- #12'')
     = [''github#12'']"
  using next_heading_is_swallowed [of "''Notes''" "''- #12''"] demo_reference by simp

end
