(* ===== verification/Spec2Isabelle.thy ===== *)
theory Spec2Isabelle
  imports Host_Import Landing_Repair Landing_Coordinator Lifecycle_Machine Reconciliation_Properties Batch_Properties
begin

text \<open>
  The landing plane of the archLoop Hub.
\<close>

end
